(* ===== verification/Prelude.thy ===== *)
theory Prelude
  imports Main "HOL-Library.State_Monad" "HOL-Library.Word"
begin

text \<open>
  What every component shares: the combinators of the state monad in which the stateful
  code is written, Hoare triples over that monad with the rules that carry the
  preservation proofs (collection \<open>hoare\<close>), the 32-bit wrap-around of the signed counters,
  and a few facts on lists.

  A C++ member function that reads or writes the shared state of the call manager is a value
  of type \<open>('s, 'a) state\<close> of the library theory State_Monad: \<open>run_state m s\<close> is the result
  with the state after the call. \<open>do\<close> blocks follow the statements of the source; an early
  return is the branch of an \<open>if\<close> that does not run the rest.
\<close>

named_theorems hoare \<open>introduction rules for Hoare triples, one per combinator or operation\<close>

section \<open>Combinators of the state monad\<close>

abbreviation ret :: "'a \<Rightarrow> ('s, 'a) state" where
  "ret \<equiv> State_Monad.return"

definition gets :: "('s \<Rightarrow> 'a) \<Rightarrow> ('s, 'a) state" where
  "gets f = State (\<lambda>s. (f s, s))"

definition modify :: "('s \<Rightarrow> 's) \<Rightarrow> ('s, unit) state" where
  "modify f = State (\<lambda>s. ((), f s))"

definition whenM :: "bool \<Rightarrow> ('s, unit) state \<Rightarrow> ('s, unit) state" where
  "whenM b m = (if b then m else ret ())"

text \<open>A \<open>for\<close> loop over a list that was fixed before the loop.\<close>

primrec for_each :: "'a list \<Rightarrow> ('a \<Rightarrow> ('s, unit) state) \<Rightarrow> ('s, unit) state" where
  "for_each [] f = ret ()"
| "for_each (x # xs) f = do { f x; for_each xs f }"

text \<open>Run an operation for its effect and drop its return code.\<close>

definition ignore :: "('s, 'a) state \<Rightarrow> ('s, unit) state" where
  "ignore m = do { _ \<leftarrow> m; ret () }"

lemma run_gets [simp]: "run_state (gets f) s = (f s, s)"
  by (simp add: gets_def)

lemma run_modify [simp]: "run_state (modify f) s = ((), f s)"
  by (simp add: modify_def)

lemma run_whenM [simp]: "run_state (whenM b m) s = (if b then run_state m s else ((), s))"
  by (simp add: whenM_def)

lemma run_ignore [simp]: "run_state (ignore m) s = ((), snd (run_state m s))"
  by (simp add: ignore_def split: prod.splits)

lemma run_if [simp]:
  "run_state (if b then m else n) s = (if b then run_state m s else run_state n s)"
  by simp

lemma run_case_option [simp]:
  "run_state (case v of None \<Rightarrow> n | Some x \<Rightarrow> f x) s =
    (case v of None \<Rightarrow> run_state n s | Some x \<Rightarrow> run_state (f x) s)"
  by (cases v) simp_all

lemma run_case_list [simp]:
  "run_state (case v of [] \<Rightarrow> n | x # xs \<Rightarrow> f x xs) s =
    (case v of [] \<Rightarrow> run_state n s | x # xs \<Rightarrow> run_state (f x xs) s)"
  by (cases v) simp_all

lemma for_each_append: "for_each (xs @ ys) f = do { for_each xs f; for_each ys f }"
  by (induction xs) simp_all

section \<open>Hoare triples\<close>

text \<open>
  \<open>valid P m Q\<close>: started in a state that satisfies \<open>P\<close>, the operation \<open>m\<close> returns a
  result and a state that satisfy \<open>Q\<close>. Every operation is total, so nothing is said about
  runs that do not return. \<open>keeps P m\<close> is the special case of an invariant.
\<close>

definition valid :: "('s \<Rightarrow> bool) \<Rightarrow> ('s, 'a) state \<Rightarrow> ('a \<Rightarrow> 's \<Rightarrow> bool) \<Rightarrow> bool" where
  "valid P m Q \<longleftrightarrow> (\<forall>s. P s \<longrightarrow> Q (fst (run_state m s)) (snd (run_state m s)))"

definition keeps :: "('s \<Rightarrow> bool) \<Rightarrow> ('s, 'a) state \<Rightarrow> bool" where
  "keeps P m \<longleftrightarrow> (\<forall>s. P s \<longrightarrow> P (snd (run_state m s)))"

lemma keepsI: "(\<And>s. P s \<Longrightarrow> P (snd (run_state m s))) \<Longrightarrow> keeps P m"
  by (simp add: keeps_def)

lemma keepsD: "keeps P m \<Longrightarrow> P s \<Longrightarrow> P (snd (run_state m s))"
  by (simp add: keeps_def)

lemma keeps_run: "keeps P m \<Longrightarrow> P s \<Longrightarrow> run_state m s = (x, t) \<Longrightarrow> P t"
  by (metis keepsD snd_conv)

lemma keeps_return [hoare]: "keeps P (ret x)"
  by (simp add: keeps_def)

lemma keeps_bind [hoare]:
  "keeps P m \<Longrightarrow> (\<And>x. keeps P (f x)) \<Longrightarrow> keeps P (State_Monad.bind m f)"
  by (auto simp: keeps_def split: prod.splits)

lemma keeps_gets [hoare]: "keeps P (gets f)"
  by (simp add: keeps_def)

lemma keeps_modify: "(\<And>s. P s \<Longrightarrow> P (f s)) \<Longrightarrow> keeps P (modify f)"
  by (simp add: keeps_def)

lemma keeps_whenM [hoare]: "(b \<Longrightarrow> keeps P m) \<Longrightarrow> keeps P (whenM b m)"
  by (simp add: keeps_def)

lemma keeps_ignore [hoare]: "keeps P m \<Longrightarrow> keeps P (ignore m)"
  by (simp add: keeps_def)

lemma keeps_if [hoare]:
  "(b \<Longrightarrow> keeps P m) \<Longrightarrow> (\<not> b \<Longrightarrow> keeps P n) \<Longrightarrow> keeps P (if b then m else n)"
  by simp

lemma keeps_let [hoare]: "(\<And>x. x = t \<Longrightarrow> keeps P (f x)) \<Longrightarrow> keeps P (let x = t in f x)"
  by (simp add: Let_def)

lemma keeps_case_option [hoare]:
  "keeps P n \<Longrightarrow> (\<And>x. v = Some x \<Longrightarrow> keeps P (f x)) \<Longrightarrow>
   keeps P (case v of None \<Rightarrow> n | Some x \<Rightarrow> f x)"
  by (cases v) auto

lemma keeps_case_prod [hoare]:
  "(\<And>x y. v = (x, y) \<Longrightarrow> keeps P (f x y)) \<Longrightarrow> keeps P (case v of (x, y) \<Rightarrow> f x y)"
  by (cases v) auto

lemma keeps_for_each [hoare]: "(\<And>x. x \<in> set xs \<Longrightarrow> keeps P (f x)) \<Longrightarrow> keeps P (for_each xs f)"
  by (induction xs) (auto intro!: hoare)

lemma keeps_conj: "keeps P m \<Longrightarrow> keeps Q m \<Longrightarrow> keeps (\<lambda>s. P s \<and> Q s) m"
  by (simp add: keeps_def)

lemma valid_keeps: "valid P m (\<lambda>_. P) \<longleftrightarrow> keeps P m"
  by (simp add: valid_def keeps_def)

lemma validI:
  "(\<And>s. P s \<Longrightarrow> Q (fst (run_state m s)) (snd (run_state m s))) \<Longrightarrow> valid P m Q"
  by (simp add: valid_def)

lemma validD:
  "valid P m Q \<Longrightarrow> P s \<Longrightarrow> Q (fst (run_state m s)) (snd (run_state m s))"
  by (simp add: valid_def)

lemma valid_bind:
  "valid P m Q \<Longrightarrow> (\<And>x. valid (Q x) (f x) R) \<Longrightarrow> valid P (State_Monad.bind m f) R"
  by (auto simp: valid_def split: prod.splits)

lemma valid_return: "(\<And>s. P s \<Longrightarrow> Q x s) \<Longrightarrow> valid P (ret x) Q"
  by (simp add: valid_def)

lemma valid_gets: "(\<And>s. P s \<Longrightarrow> Q (f s) s) \<Longrightarrow> valid P (gets f) Q"
  by (simp add: valid_def)

lemma valid_modify: "(\<And>s. P s \<Longrightarrow> Q () (f s)) \<Longrightarrow> valid P (modify f) Q"
  by (simp add: valid_def)

lemma valid_if:
  "(b \<Longrightarrow> valid P m Q) \<Longrightarrow> (\<not> b \<Longrightarrow> valid P n Q) \<Longrightarrow> valid P (if b then m else n) Q"
  by simp

lemma valid_whenM:
  "(b \<Longrightarrow> valid P m (\<lambda>_. Q ())) \<Longrightarrow> (\<And>s. \<not> b \<Longrightarrow> P s \<Longrightarrow> Q () s) \<Longrightarrow> valid P (whenM b m) Q"
  by (auto simp: valid_def)

lemma valid_weaken:
  "valid P m Q \<Longrightarrow> (\<And>s. P' s \<Longrightarrow> P s) \<Longrightarrow> (\<And>x s. Q x s \<Longrightarrow> Q' x s) \<Longrightarrow> valid P' m Q'"
  by (simp add: valid_def)

section \<open>Signed 32-bit counters\<close>

text \<open>
  An \<open>int32_t\<close> is an \<open>int\<close> of the model. The one place where a counter can leave the range
  (the call id) wraps as two's complement hardware does.
\<close>

definition wrap32 :: "int \<Rightarrow> int" where
  "wrap32 x = (x + 2147483648) mod 4294967296 - 2147483648"

lemma wrap32_id: "- 2147483648 \<le> x \<Longrightarrow> x < 2147483648 \<Longrightarrow> wrap32 x = x"
  by (simp add: wrap32_def)

lemma wrap32_range: "- 2147483648 \<le> wrap32 x \<and> wrap32 x < 2147483648"
  by (simp add: wrap32_def)

section \<open>Lists\<close>

lemma distinct_map_filter: "distinct (map f xs) \<Longrightarrow> distinct (map f (filter P xs))"
  by (simp add: distinct_map inj_on_filter_key_eq inj_on_def)

lemma find_SomeD: "List.find P xs = Some x \<Longrightarrow> x \<in> set xs \<and> P x"
  by (auto simp: find_Some_iff)

lemma length_filter_filter_le: "length (filter P (filter Q xs)) \<le> length (filter P xs)"
  by (induction xs) auto

lemma map_fun_upd_notin [simp]: "a \<notin> set xs \<Longrightarrow> map (h(a := c)) xs = map h xs"
  by (induction xs) auto

text \<open>Erasing the first element that does not satisfy \<open>P\<close>, as the erasing loops do.\<close>

lemma drop_first_set: "set (takeWhile P xs @ tl (dropWhile P xs)) \<subseteq> set xs"
  by (induction xs) auto

lemma drop_first_length: "length (takeWhile P xs @ tl (dropWhile P xs)) \<le> length xs"
  by (induction xs) auto

lemma drop_first_filter:
  "length (filter Q (takeWhile P xs)) + length (filter Q (tl (dropWhile P xs))) \<le> length (filter Q xs)"
  by (induction xs) auto

lemma drop_first_distinct: "distinct (map f xs) \<Longrightarrow> distinct (map f (takeWhile P xs @ tl (dropWhile P xs)))"
proof (induction xs)
  case (Cons x xs)
  moreover have "f ` set (takeWhile P xs @ tl (dropWhile P xs)) \<subseteq> f ` set xs"
    using drop_first_set by (rule image_mono)
  ultimately show ?case by auto
qed simp

end
