(* ===== verification/Call_Types.thy ===== *)
theory Call_Types
  imports Prelude
begin

text \<open>
  The data the call manager exchanges: error codes, the enumerations of
  \<open>interfaces/innerkits/call_manager_base.h\<close> and the structs that travel between the client,
  the service, the state machine and the protocol stack.

  The code casts plain integers to its enumerations (\<open>(DialType)extras.GetIntValue(...)\<close>), and a
  protocol stack may report any integer, so each enumeration that is reached by a cast has one
  more constructor, \<open>..._raw i\<close>, for a value outside the declared ones. A \<open>char[256]\<close> field that
  holds a C string is the string up to its terminator, except in the report a stack hands in,
  where the raw bytes are kept because the terminator is what the code checks.
\<close>

section \<open>Error codes\<close>

text \<open>
  The codes the modelled functions return. \<open>TELEPHONY_SUCCESS\<close> and \<open>TELEPHONY_ERR_SUCCESS\<close> are
  both 0, hence one constructor. Codes that come back from a registered protocol stack, audio or
  SIM implementation are arbitrary integers: \<open>ErrCode_other\<close>.
\<close>

datatype ErrCode =
    TELEPHONY_SUCCESS
  | TELEPHONY_ERROR
  | TELEPHONY_ERR_FAIL
  | TELEPHONY_ERR_ARGUMENT_INVALID
  | TELEPHONY_ERR_MEMCPY_FAIL
  | TELEPHONY_ERR_LOCAL_PTR_NULL
  | TELEPHONY_ERR_PERMISSION_ERR
  | TELEPHONY_ERR_IPC_CONNECT_STUB_FAIL
  | TELEPHONY_ERR_REGISTER_CALLBACK_FAIL
  | TELEPHONY_ERR_UNINIT
  | TELEPHONY_ERR_UNREGISTER_CALLBACK_FAIL
  | TELEPHONY_ERR_NO_SIM_CARD
  | TELEPHONY_ERR_ILLEGAL_USE_OF_SYSTEM_API
  | TELEPHONY_ERR_AIRPLANE_MODE_ON
  | TELEPHONY_ERR_NETWORK_NOT_IN_SERVICE
  | TELEPHONY_ERR_POLICY_DISABLED
  | CALL_ERR_INVALID_SLOT_ID
  | CALL_ERR_INVALID_CALLID
  | CALL_ERR_PHONE_NUMBER_EMPTY
  | CALL_ERR_NUMBER_OUT_OF_RANGE
  | CALL_ERR_UNKNOW_DIAL_TYPE
  | CALL_ERR_UNKNOW_CALL_TYPE
  | CALL_ERR_NOT_NEW_STATE
  | CALL_ERR_CALL_OBJECT_IS_NULL
  | CALL_ERR_DIAL_IS_BUSY
  | CALL_ERR_CALL_IS_NOT_ACTIVATED
  | CALL_ERR_CALL_IS_NOT_ON_HOLDING
  | CALL_ERR_ILLEGAL_CALL_OPERATION
  | CALL_ERR_CALL_STATE_MISMATCH_OPERATION
  | CALL_ERR_CONFERENCE_NOT_EXISTS
  | CALL_ERR_CONFERENCE_CALL_EXCEED_LIMIT
  | CALL_ERR_CALL_STATE
  | CALL_ERR_CALL_COUNTS_EXCEED_LIMIT
  | CALL_ERR_EMERGENCY_UNSUPPORT_CONFERENCEABLE
  | CALL_ERR_PHONE_ANSWER_IS_BUSY
  | CALL_ERR_PHONE_CALL_ALREADY_EXISTS
  | CALL_ERR_PHONE_CALLS_TOO_FEW
  | CALL_ERR_PHONE_TYPE_UNEXPECTED
  | CALL_ERR_PHONE_CALLSTATE_NOTIFY_FAILED
  | CALL_ERR_ANSWER_FAILED
  | CALL_ERR_REJECT_FAILED
  | CALL_ERR_HOLD_FAILED
  | CALL_ERR_UNHOLD_FAILED
  | CALL_ERR_HANGUP_FAILED
  | CALL_ERR_CONFERENCE_SEPERATE_FAILED
  | CALL_ERR_CONFERENCE_CALL_IS_NOT_ACTIVE
  | CALL_ERR_THE_CALL_IS_NOT_IN_THE_CONFERENCE
  | CALL_ERR_FUNCTION_NOT_SUPPORTED
  | CALL_ERR_VIDEO_NOT_SUPPORTED
  | CALL_ERR_CALL_ALREADY_EXISTS
  | ErrCode_other int

section \<open>Enumerations\<close>

datatype CallType =
    TYPE_CS
  | TYPE_IMS
  | TYPE_OTT
  | TYPE_ERR_CALL
  | TYPE_VOIP
  | TYPE_SATELLITE
  | TYPE_BLUETOOTH
  | CallType_raw int

datatype TelCallState =
    CALL_STATUS_UNKNOWN
  | CALL_STATUS_ACTIVE
  | CALL_STATUS_HOLDING
  | CALL_STATUS_DIALING
  | CALL_STATUS_ALERTING
  | CALL_STATUS_INCOMING
  | CALL_STATUS_WAITING
  | CALL_STATUS_DISCONNECTED
  | CALL_STATUS_DISCONNECTING
  | CALL_STATUS_IDLE
  | CALL_STATUS_ANSWERED
  | TelCallState_raw int

datatype VideoStateType =
    TYPE_VOICE
  | TYPE_SEND_ONLY
  | TYPE_RECEIVE_ONLY
  | TYPE_VIDEO
  | VideoStateType_raw int

datatype DialScene =
    CALL_NORMAL
  | CALL_PRIVILEGED
  | CALL_EMERGENCY
  | DialScene_raw int

datatype DialType =
    DIAL_CARRIER_TYPE
  | DIAL_VOICE_MAIL_TYPE
  | DIAL_OTT_TYPE
  | DIAL_BLUETOOTH_TYPE
  | DialType_raw int

definition CallType_cast :: "int \<Rightarrow> CallType" where
  "CallType_cast i =
    (if i = 0 then TYPE_CS
     else if i = 1 then TYPE_IMS
     else if i = 2 then TYPE_OTT
     else if i = 3 then TYPE_ERR_CALL
     else if i = 4 then TYPE_VOIP
     else if i = 5 then TYPE_SATELLITE
     else if i = 6 then TYPE_BLUETOOTH else CallType_raw i)"

definition VideoStateType_cast :: "int \<Rightarrow> VideoStateType" where
  "VideoStateType_cast i =
    (if i = 0 then TYPE_VOICE
     else if i = 1 then TYPE_SEND_ONLY
     else if i = 2 then TYPE_RECEIVE_ONLY
     else if i = 3 then TYPE_VIDEO else VideoStateType_raw i)"

definition DialScene_cast :: "int \<Rightarrow> DialScene" where
  "DialScene_cast i =
    (if i = 0 then CALL_NORMAL
     else if i = 1 then CALL_PRIVILEGED
     else if i = 2 then CALL_EMERGENCY else DialScene_raw i)"

definition DialType_cast :: "int \<Rightarrow> DialType" where
  "DialType_cast i =
    (if i = 0 then DIAL_CARRIER_TYPE
     else if i = 1 then DIAL_VOICE_MAIL_TYPE
     else if i = 2 then DIAL_OTT_TYPE
     else if i = 3 then DIAL_BLUETOOTH_TYPE else DialType_raw i)"

fun CallType_code :: "CallType \<Rightarrow> int" where
  "CallType_code TYPE_CS = 0"
| "CallType_code TYPE_IMS = 1"
| "CallType_code TYPE_OTT = 2"
| "CallType_code TYPE_ERR_CALL = 3"
| "CallType_code TYPE_VOIP = 4"
| "CallType_code TYPE_SATELLITE = 5"
| "CallType_code TYPE_BLUETOOTH = 6"
| "CallType_code (CallType_raw i) = i"

fun TelCallState_code :: "TelCallState \<Rightarrow> int" where
  "TelCallState_code CALL_STATUS_UNKNOWN = -1"
| "TelCallState_code CALL_STATUS_ACTIVE = 0"
| "TelCallState_code CALL_STATUS_HOLDING = 1"
| "TelCallState_code CALL_STATUS_DIALING = 2"
| "TelCallState_code CALL_STATUS_ALERTING = 3"
| "TelCallState_code CALL_STATUS_INCOMING = 4"
| "TelCallState_code CALL_STATUS_WAITING = 5"
| "TelCallState_code CALL_STATUS_DISCONNECTED = 6"
| "TelCallState_code CALL_STATUS_DISCONNECTING = 7"
| "TelCallState_code CALL_STATUS_IDLE = 8"
| "TelCallState_code CALL_STATUS_ANSWERED = 9"
| "TelCallState_code (TelCallState_raw i) = i"

fun VideoStateType_code :: "VideoStateType \<Rightarrow> int" where
  "VideoStateType_code TYPE_VOICE = 0"
| "VideoStateType_code TYPE_SEND_ONLY = 1"
| "VideoStateType_code TYPE_RECEIVE_ONLY = 2"
| "VideoStateType_code TYPE_VIDEO = 3"
| "VideoStateType_code (VideoStateType_raw i) = i"

fun DialScene_code :: "DialScene \<Rightarrow> int" where
  "DialScene_code CALL_NORMAL = 0"
| "DialScene_code CALL_PRIVILEGED = 1"
| "DialScene_code CALL_EMERGENCY = 2"
| "DialScene_code (DialScene_raw i) = i"

datatype TelConferenceState =
    TEL_CONFERENCE_IDLE
  | TEL_CONFERENCE_ACTIVE
  | TEL_CONFERENCE_HOLDING
  | TEL_CONFERENCE_DISCONNECTING
  | TEL_CONFERENCE_DISCONNECTED

datatype CallDirection =
    CALL_DIRECTION_IN
  | CALL_DIRECTION_OUT
  | CALL_DIRECTION_UNKNOW

datatype CallRunningState =
    CALL_RUNNING_STATE_CREATE
  | CALL_RUNNING_STATE_CONNECTING
  | CALL_RUNNING_STATE_DIALING
  | CALL_RUNNING_STATE_RINGING
  | CALL_RUNNING_STATE_ACTIVE
  | CALL_RUNNING_STATE_HOLD
  | CALL_RUNNING_STATE_ENDED
  | CALL_RUNNING_STATE_ENDING

datatype CallAnswerType =
    CALL_ANSWER_MISSED
  | CALL_ANSWER_ACTIVED
  | CALL_ANSWER_REJECT
  | CALL_ANSWER_BLOCKED
  | CALL_ANSWERED_ELSEWHER
  | CALL_DISCONNECTED_BY_REMOTE

datatype RejectType =
    CALL_REJECT_NORMAL
  | CALL_REJECT_MISSED_CALL

datatype CallStateToApp =
    CALL_STATE_UNKNOWN
  | CALL_STATE_IDLE
  | CALL_STATE_RINGING
  | CALL_STATE_OFFHOOK
  | CALL_STATE_ANSWERED

datatype CallSupplementType =
    TYPE_DEFAULT
  | TYPE_HANG_UP_HOLD_WAIT
  | TYPE_HANG_UP_ACTIVE
  | TYPE_HANG_UP_ALL

datatype ConferenceState =
    CONFERENCE_STATE_IDLE
  | CONFERENCE_STATE_CREATING
  | CONFERENCE_STATE_HOLDING
  | CONFERENCE_STATE_ACTIVE
  | CONFERENCE_STATE_LEAVING

datatype CallAbilityEventId =
    EVENT_DIAL_NO_CARRIER
  | EVENT_HOLD_CALL_FAILED
  | EVENT_SWAP_CALL_FAILED
  | EVENT_COMBINE_CALL_FAILED
  | EVENT_SPLIT_CALL_FAILED
  | EVENT_LOCAL_ALERTING

datatype RequestResultEventId =
    RESULT_DIAL_NO_CARRIER
  | RESULT_HOLD_SEND_FAILED
  | RESULT_SWAP_SEND_FAILED
  | RESULT_COMBINE_SEND_FAILED
  | RESULT_SPLIT_SEND_FAILED
  | RESULT_other int

text \<open>\<open>CallStateToApp\<close> as the integer the client sees.\<close>

fun CallStateToApp_code :: "CallStateToApp \<Rightarrow> int" where
  "CallStateToApp_code CALL_STATE_UNKNOWN = -1"
| "CallStateToApp_code CALL_STATE_IDLE = 0"
| "CallStateToApp_code CALL_STATE_RINGING = 1"
| "CallStateToApp_code CALL_STATE_OFFHOOK = 2"
| "CallStateToApp_code CALL_STATE_ANSWERED = 3"

lemma VideoStateType_cast_code [simp]:
  "VideoStateType_cast 0 = TYPE_VOICE" "VideoStateType_cast 3 = TYPE_VIDEO"
  by (simp_all add: VideoStateType_cast_def)

lemma CallType_cast_code [simp]: "CallType_cast 0 = TYPE_CS" "CallType_cast 1 = TYPE_IMS"
  by (simp_all add: CallType_cast_def)

section \<open>Limits\<close>

definition kMaxNumberLen :: nat where "kMaxNumberLen = 255"
definition kMaxBundleNameLen :: nat where "kMaxBundleNameLen = 100"
definition ERR_ID :: int where "ERR_ID = -1"
definition INVALID_CALLID :: int where "INVALID_CALLID = 0"

text \<open>The configuration of \<open>utils/mini/include/call_manager_mini_config.h\<close> with its default values.\<close>

definition MINI_QUEUE_SIZE :: nat where "MINI_QUEUE_SIZE = 16"
definition MINI_SYNC_WAIT_MS :: nat where "MINI_SYNC_WAIT_MS = 3000"
definition MINI_MAX_SYNC_WAITERS :: nat where "MINI_MAX_SYNC_WAITERS = 2"
definition MINI_MAX_CALL_OBJECTS :: nat where "MINI_MAX_CALL_OBJECTS = 5"
definition MINI_ECC_RESERVED_CALL_OBJECTS :: nat where "MINI_ECC_RESERVED_CALL_OBJECTS = 1"
definition MINI_MAX_DELAYED_TASKS :: nat where "MINI_MAX_DELAYED_TASKS = 8"
definition MINI_PACMAP_MAX_ENTRIES :: nat where "MINI_PACMAP_MAX_ENTRIES = 32"
definition MINI_SLOT_COUNT :: int where "MINI_SLOT_COUNT = 2"
definition MINI_MAX_REPORTED_CALLS :: nat where "MINI_MAX_REPORTED_CALLS = 5"
definition RINGING_CALL_NUMBER_LEN :: nat where "RINGING_CALL_NUMBER_LEN = 30"
definition DIALING_CALL_NUMBER_LEN :: nat where "DIALING_CALL_NUMBER_LEN = 30"
definition SLOT_NUM :: int where "SLOT_NUM = 2"

section \<open>Records exchanged between the components\<close>

text \<open>\<open>DialParaInfo\<close>, the parameters of the dial being set up.\<close>

record DialParaInfo =
  dp_accountId :: int
  dp_callId :: int
  dp_index :: int
  dp_isRTT :: bool
  dp_number :: string
  dp_dialType :: DialType
  dp_videoState :: VideoStateType
  dp_callType :: CallType
  dp_callState :: TelCallState
  dp_isDialing :: bool
  dp_isEcc :: bool
  dp_bundleName :: string
  dp_crsType :: int
  dp_originalCallType :: int
  dp_phoneOrWatch :: int
  dp_isCustomAccessibility :: bool
  dp_newCallUseBox :: int
  dp_token :: string
  dp_phoneIndex :: int

definition DialParaInfo_default :: DialParaInfo where
  "DialParaInfo_default =
    \<lparr>dp_accountId = 0, dp_callId = 0, dp_index = 0, dp_isRTT = False, dp_number = [],
     dp_dialType = DIAL_CARRIER_TYPE, dp_videoState = TYPE_VOICE, dp_callType = TYPE_ERR_CALL,
     dp_callState = CALL_STATUS_IDLE, dp_isDialing = False, dp_isEcc = False, dp_bundleName = [],
     dp_crsType = 0, dp_originalCallType = 0, dp_phoneOrWatch = 0,
     dp_isCustomAccessibility = False, dp_newCallUseBox = 0, dp_token = [], dp_phoneIndex = 0\<rparr>"

text \<open>\<open>CallReportInfo\<close>: one call as the protocol stack reports it, number as raw bytes.\<close>

record CallReportInfo =
  ri_index :: int
  ri_accountNum :: "char list"
  ri_accountId :: int
  ri_callType :: CallType
  ri_callMode :: VideoStateType
  ri_state :: TelCallState
  ri_voiceDomain :: int
  ri_mpty :: int
  ri_crsType :: int
  ri_originalCallType :: int
  ri_namePresentation :: int
  ri_name :: string
  ri_reason :: int
  ri_message :: string
  ri_newCallUseBox :: int
  ri_imsDomain :: int
  ri_phoneIndex :: int

text \<open>\<open>CallDetailInfo\<close>: the report the state machine works on.\<close>

record CallDetailInfo =
  di_index :: int
  di_phoneNum :: string
  di_bundleName :: string
  di_accountId :: int
  di_callType :: CallType
  di_callMode :: VideoStateType
  di_state :: TelCallState
  di_voiceDomain :: int
  di_mpty :: int
  di_crsType :: int
  di_originalCallType :: int
  di_name :: string
  di_namePresentation :: int
  di_phoneOrWatch :: int
  di_reason :: int
  di_message :: string
  di_newCallUseBox :: int
  di_imsDomain :: int
  di_phoneIndex :: int

definition FAILED_UNKNOWN :: int where "FAILED_UNKNOWN = 1279"

definition CallDetailInfo_default :: CallDetailInfo where
  "CallDetailInfo_default =
    \<lparr>di_index = 0, di_phoneNum = [], di_bundleName = [], di_accountId = 0,
     di_callType = TYPE_ERR_CALL, di_callMode = TYPE_VOICE, di_state = CALL_STATUS_UNKNOWN,
     di_voiceDomain = 0, di_mpty = 0, di_crsType = 0, di_originalCallType = 0, di_name = [],
     di_namePresentation = 0, di_phoneOrWatch = 0, di_reason = FAILED_UNKNOWN, di_message = [],
     di_newCallUseBox = 0, di_imsDomain = 0, di_phoneIndex = 0\<rparr>"

record CallsReportInfo =
  rs_callVec :: "CallReportInfo list"
  rs_slotId :: int

record CallDetailsInfo =
  ds_callVec :: "CallDetailInfo list"
  ds_slotId :: int
  ds_bundleName :: string

text \<open>\<open>CellularCallInfo\<close>: the argument of every command to the protocol stack.\<close>

record CellularCallInfo =
  ci_callId :: int
  ci_phoneNum :: string
  ci_slotId :: int
  ci_accountId :: int
  ci_callType :: CallType
  ci_videoState :: int
  ci_index :: int
  ci_isRTT :: bool

definition CellularCallInfo_default :: CellularCallInfo where
  "CellularCallInfo_default =
    \<lparr>ci_callId = 0, ci_phoneNum = [], ci_slotId = 0, ci_accountId = 0,
     ci_callType = TYPE_ERR_CALL, ci_videoState = 0, ci_index = 0, ci_isRTT = False\<rparr>"

record DisconnectedDetails =
  dd_reason :: int
  dd_message :: string

record CallEventInfo =
  ev_eventId :: CallAbilityEventId
  ev_phoneNum :: string
  ev_bundleName :: string

definition CallEventInfo_default :: CallEventInfo where
  "CallEventInfo_default = \<lparr>ev_eventId = EVENT_DIAL_NO_CARRIER, ev_phoneNum = [], ev_bundleName = []\<rparr>"

record CellularCallEventInfo =
  ce_eventType :: int
  ce_eventId :: RequestResultEventId

text \<open>\<open>CallAttributeInfo\<close>: what an application is told about a call.\<close>

record CallAttributeInfo =
  at_accountNumber :: string
  at_bundleName :: string
  at_speakerphoneOn :: bool
  at_accountId :: int
  at_videoState :: VideoStateType
  at_startTime :: int
  at_isEcc :: bool
  at_isEccContact :: bool
  at_callType :: CallType
  at_callId :: int
  at_callState :: TelCallState
  at_conferenceState :: TelConferenceState
  at_callBeginTime :: int
  at_callCreateTime :: int
  at_callEndTime :: int
  at_ringBeginTime :: int
  at_ringEndTime :: int
  at_callDirection :: CallDirection
  at_answerType :: CallAnswerType
  at_index :: int
  at_crsType :: int
  at_originalCallType :: int
  at_numberLocation :: string
  at_phoneOrWatch :: int
  at_imsDomain :: int

definition CallAttributeInfo_default :: CallAttributeInfo where
  "CallAttributeInfo_default =
    \<lparr>at_accountNumber = [], at_bundleName = [], at_speakerphoneOn = False, at_accountId = 0,
     at_videoState = TYPE_VOICE, at_startTime = 0, at_isEcc = False, at_isEccContact = False,
     at_callType = TYPE_ERR_CALL, at_callId = 0, at_callState = CALL_STATUS_UNKNOWN,
     at_conferenceState = TEL_CONFERENCE_IDLE, at_callBeginTime = 0, at_callCreateTime = 0,
     at_callEndTime = 0, at_ringBeginTime = 0, at_ringEndTime = 0,
     at_callDirection = CALL_DIRECTION_UNKNOW, at_answerType = CALL_ANSWER_MISSED, at_index = 0,
     at_crsType = 0, at_originalCallType = 0, at_numberLocation = [], at_phoneOrWatch = 0,
     at_imsDomain = 0\<rparr>"

end
