(* ===== verification/String_Ex.thy ===== *)
theory String_Ex
  imports Call_Types
begin

text \<open>
  \<open>utils/mini/src/string_ex.cpp\<close>: conversion between UTF-8 byte strings and UTF-16 strings. A code
  point is a natural number, a byte string a \<open>string\<close> (a \<open>char\<close> is its byte), a \<open>u16string\<close> a list
  of 16-bit words. Positions into the input become the rest of the input from that position on. Both
  directions answer malformed input with the empty string.
\<close>

unbundle bit_operations_syntax

type_synonym u16string = "16 word list"

definition SURROGATE_HIGH_BEGIN :: nat where "SURROGATE_HIGH_BEGIN = 0xD800"
definition SURROGATE_LOW_BEGIN :: nat where "SURROGATE_LOW_BEGIN = 0xDC00"
definition SURROGATE_END :: nat where "SURROGATE_END = 0xDFFF"
definition SUPPLEMENTARY_BEGIN :: nat where "SUPPLEMENTARY_BEGIN = 0x10000"
definition CODE_POINT_MAX :: nat where "CODE_POINT_MAX = 0x10FFFF"

lemmas utf_constants = SURROGATE_HIGH_BEGIN_def SURROGATE_LOW_BEGIN_def SURROGATE_END_def
  SUPPLEMENTARY_BEGIN_def CODE_POINT_MAX_def

abbreviation byte :: "nat \<Rightarrow> char" where "byte n \<equiv> char_of n"
abbreviation code :: "char \<Rightarrow> nat" where "code c \<equiv> of_char c"

definition Utf8_of :: "nat \<Rightarrow> string" where
  "Utf8_of cp =
    (if cp < 0x80 then [byte cp]
     else if cp < 0x800 then
       [byte (0xC0 OR drop_bit 6 cp), byte (0x80 OR (cp AND 0x3F))]
     else if cp < SUPPLEMENTARY_BEGIN then
       [byte (0xE0 OR drop_bit 12 cp), byte (0x80 OR (drop_bit 6 cp AND 0x3F)), byte (0x80 OR (cp AND 0x3F))]
     else
       [byte (0xF0 OR drop_bit 18 cp), byte (0x80 OR (drop_bit 12 cp AND 0x3F)),
        byte (0x80 OR (drop_bit 6 cp AND 0x3F)), byte (0x80 OR (cp AND 0x3F))])"

definition AppendUtf8 :: "string \<Rightarrow> nat \<Rightarrow> string" where
  "AppendUtf8 out cp = out @ Utf8_of cp"

text \<open>The continuation bytes: \<open>extra\<close> of them, six bits each.\<close>

fun continuation :: "nat \<Rightarrow> nat \<Rightarrow> string \<Rightarrow> (nat \<times> string) option" where
  "continuation 0 cp cs = Some (cp, cs)"
| "continuation (Suc n) cp [] = None"
| "continuation (Suc n) cp (c # cs) =
    (if code c AND 0xC0 \<noteq> 0x80 then None
     else continuation n (push_bit 6 cp OR (code c AND 0x3F)) cs)"

definition utf8_lead :: "nat \<Rightarrow> (nat \<times> nat \<times> nat) option" where
  "utf8_lead lead =
    (if lead AND 0xE0 = 0xC0 then Some (1, lead AND 0x1F, 0x80)
     else if lead AND 0xF0 = 0xE0 then Some (2, lead AND 0x0F, 0x800)
     else if lead AND 0xF8 = 0xF0 then Some (3, lead AND 0x07, SUPPLEMENTARY_BEGIN)
     else None)"

fun DecodeUtf8 :: "string \<Rightarrow> (nat \<times> string) option" where
  "DecodeUtf8 [] = None"
| "DecodeUtf8 (c # cs) =
    (if code c < (0x80 :: nat) then Some (code c, cs)
     else case utf8_lead (code c) of
       None \<Rightarrow> None
     | Some (extra, cp, minValue) \<Rightarrow>
         if length cs < extra then None
         else case continuation extra cp cs of
           None \<Rightarrow> None
         | Some (cp, rest) \<Rightarrow>
             if cp < minValue \<or> CODE_POINT_MAX < cp \<or> (SURROGATE_HIGH_BEGIN \<le> cp \<and> cp \<le> SURROGATE_END)
             then None else Some (cp, rest))"

fun Str16ToStr8_loop :: "string \<Rightarrow> u16string \<Rightarrow> string option" where
  "Str16ToStr8_loop out [] = Some out"
| "Str16ToStr8_loop out (u # us) =
    (let unit = unat u in
     if SURROGATE_HIGH_BEGIN \<le> unit \<and> unit < SURROGATE_LOW_BEGIN then
       (case us of
          [] \<Rightarrow> None
        | l # rest \<Rightarrow>
            let low = unat l in
            if low < SURROGATE_LOW_BEGIN \<or> SURROGATE_END < low then None
            else Str16ToStr8_loop (AppendUtf8 out (SUPPLEMENTARY_BEGIN +
              (push_bit 10 (unit - SURROGATE_HIGH_BEGIN) OR (low - SURROGATE_LOW_BEGIN)))) rest)
     else if SURROGATE_LOW_BEGIN \<le> unit \<and> unit \<le> SURROGATE_END then None
     else Str16ToStr8_loop (AppendUtf8 out unit) us)"

definition Str16ToStr8 :: "u16string \<Rightarrow> string" where
  "Str16ToStr8 str16 = (case Str16ToStr8_loop [] str16 of None \<Rightarrow> [] | Some s \<Rightarrow> s)"

definition Utf16_of :: "nat \<Rightarrow> u16string" where
  "Utf16_of cp =
    (if SUPPLEMENTARY_BEGIN \<le> cp then
       (let cp = cp - SUPPLEMENTARY_BEGIN
        in [word_of_nat (SURROGATE_HIGH_BEGIN + drop_bit 10 cp), word_of_nat (SURROGATE_LOW_BEGIN + (cp AND 0x3FF))])
     else [word_of_nat cp])"

lemma continuation_shorter: "continuation n cp cs = Some (cp', rest) \<Longrightarrow> length rest + n = length cs"
  by (induction n cp cs arbitrary: cp' rest rule: continuation.induct) (auto split: if_splits)

lemma DecodeUtf8_shorter: "DecodeUtf8 cs = Some (cp, rest) \<Longrightarrow> length rest < length cs"
  by (cases cs) (auto dest!: continuation_shorter split: if_splits option.splits prod.splits)

function Str8ToStr16_loop :: "u16string \<Rightarrow> string \<Rightarrow> u16string option" where
  "Str8ToStr16_loop out str =
    (if str = [] then Some out
     else case DecodeUtf8 str of
       None \<Rightarrow> None
     | Some (cp, rest) \<Rightarrow> Str8ToStr16_loop (out @ Utf16_of cp) rest)"
  by pat_completeness auto
termination
  by (relation "measure (\<lambda>(_, str). length str)") (auto dest: DecodeUtf8_shorter)

declare Str8ToStr16_loop.simps [simp del]

definition Str8ToStr16 :: "string \<Rightarrow> u16string" where
  "Str8ToStr16 str = (case Str8ToStr16_loop [] str of None \<Rightarrow> [] | Some s \<Rightarrow> s)"

section \<open>Decimal numbers\<close>

text \<open>\<open>std::to_string\<close> of an \<open>int32_t\<close>.\<close>

fun digits :: "nat \<Rightarrow> string" where
  "digits n = (if n < 10 then [char_of (48 + n)] else digits (n div 10) @ [char_of (48 + n mod 10)])"

declare digits.simps [simp del]

definition to_string :: "int \<Rightarrow> string" where
  "to_string i = (if i < 0 then CHR ''-'' # digits (nat (- i)) else digits (nat i))"

section \<open>Encoding and decoding a code point\<close>

definition scalar :: "nat \<Rightarrow> bool" where
  "scalar cp \<longleftrightarrow> cp \<le> CODE_POINT_MAX \<and> \<not> (SURROGATE_HIGH_BEGIN \<le> cp \<and> cp \<le> SURROGATE_END)"

lemma and_low: "(x :: nat) AND 0x3F = x mod 64" "x AND 0x1F = x mod 32" "x AND 0x0F = x mod 16"
  "x AND 0x07 = x mod 8" "x AND 0x3FF = x mod 1024"
  using take_bit_eq_mask [of 6 x] take_bit_eq_mask [of 5 x] take_bit_eq_mask [of 4 x] take_bit_eq_mask [of 3 x]
    take_bit_eq_mask [of 10 x]
  by (simp_all add: take_bit_eq_mod mask_eq_exp_minus_1)

lemma or_add:
  "x < 2 ^ n \<Longrightarrow> push_bit n k OR x = k * 2 ^ n + (x :: nat)"
proof -
  assume "x < 2 ^ n"
  then have x: "take_bit n x = x" by (simp add: take_bit_eq_mod)
  have "push_bit n k AND take_bit n x = 0" by (simp add: bit_eq_iff bit_simps)
  then have "push_bit n k + take_bit n x = push_bit n k OR take_bit n x" by (rule disjunctive_add_eq_or)
  then show ?thesis by (simp add: x push_bit_eq_mult)
qed

lemma and_high:
  "x < 2 ^ n \<Longrightarrow> (k * 2 ^ n + x) AND push_bit n m = (k AND m) * 2 ^ n" for x :: nat
proof -
  assume x: "x < 2 ^ n"
  then have t: "take_bit n x = x" by (simp add: take_bit_eq_mod)
  have "(push_bit n k OR take_bit n x) AND push_bit n m = push_bit n (k AND m)"
    by (simp add: bit_eq_iff bit_simps) auto
  then show ?thesis using or_add [OF x, of k] by (simp add: t push_bit_eq_mult)
qed

lemma or_lead:
  "x < 32 \<Longrightarrow> 0xC0 OR x = 0xC0 + (x :: nat)" "x < 16 \<Longrightarrow> 0xE0 OR x = 0xE0 + (x :: nat)"
  "x < 8 \<Longrightarrow> 0xF0 OR x = 0xF0 + (x :: nat)" "x < 64 \<Longrightarrow> 0x80 OR x = 0x80 + (x :: nat)"
  using or_add [of x 5 6] or_add [of x 4 14] or_add [of x 3 30] or_add [of x 6 2]
  by (simp_all add: push_bit_eq_mult)

lemma and_lead:
  "x < 32 \<Longrightarrow> (0xC0 + x) AND 0xE0 = (0xC0 :: nat)"
  "x < 16 \<Longrightarrow> (0xE0 + x) AND 0xF0 = (0xE0 :: nat)" "x < 16 \<Longrightarrow> (0xE0 + x) AND 0xE0 = (0xE0 :: nat)"
  "x < 8 \<Longrightarrow> (0xF0 + x) AND 0xF8 = (0xF0 :: nat)" "x < 8 \<Longrightarrow> (0xF0 + x) AND 0xF0 = (0xF0 :: nat)"
  "x < 8 \<Longrightarrow> (0xF0 + x) AND 0xE0 = (0xE0 :: nat)" "x < 64 \<Longrightarrow> (0x80 + x) AND 0xC0 = (0x80 :: nat)"
  using and_high [of x 5 6 7] and_high [of x 4 14 15] and_high [of x 4 14 14] and_high [of x 3 30 31]
    and_high [of x 3 30 30] and_high [of x 3 30 28] and_high [of x 6 2 3]
  by (simp_all add: push_bit_eq_mult)

lemma code_byte: "n < 256 \<Longrightarrow> code (byte n) = (n :: nat)"
  by simp

lemma mod_lead:
  "x < 32 \<Longrightarrow> (0xC0 + x) mod 32 = (x :: nat)" "x < 16 \<Longrightarrow> (0xE0 + x) mod 16 = (x :: nat)"
  "x < 8 \<Longrightarrow> (0xF0 + x) mod 8 = (x :: nat)" "x < 64 \<Longrightarrow> (0x80 + x) mod 64 = (x :: nat)"
  using mod_mult_self3 [of 6 32 x] mod_mult_self3 [of 14 16 x] mod_mult_self3 [of 30 8 x] mod_mult_self3 [of 2 64 x]
  by simp_all

text \<open>Six bits at a time.\<close>

lemma sextets:
  "cp div 64 * 64 + cp mod 64 = (cp :: nat)"
  "cp div 4096 * 64 + cp div 64 mod 64 = cp div (64 :: nat)"
  "cp div 262144 * 64 + cp div 4096 mod 64 = cp div (4096 :: nat)"
  using div_mult_mod_eq [of cp 64] div_mult_mod_eq [of "cp div 64" 64] div_mult_mod_eq [of "cp div 4096" 64]
  by (simp_all add: div_mult2_eq [symmetric])

lemma continuation_byte:
  assumes "x < 64"
  shows "continuation (Suc n) cp (byte (0x80 + x) # cs) = continuation n (cp * 64 + x) cs"
proof -
  have b: "code (byte (0x80 + x)) = (0x80 + x :: nat)" using assms by (intro code_byte) simp
  have m: "(0x80 + x) AND 0x3F = x" unfolding and_low by (rule mod_lead(4) [OF assms])
  have o: "push_bit 6 cp OR x = cp * 64 + x" using or_add [of x 6 cp] assms by simp
  show ?thesis unfolding continuation.simps b and_lead(7) [OF assms] m o by simp
qed

lemma lead_byte:
  "x < 32 \<Longrightarrow> utf8_lead (0xC0 + x) = Some (1, x, 0x80)"
  "x < 16 \<Longrightarrow> utf8_lead (0xE0 + x) = Some (2, x, 0x800)"
  "x < 8 \<Longrightarrow> utf8_lead (0xF0 + x) = Some (3, x, SUPPLEMENTARY_BEGIN)"
  unfolding utf8_lead_def and_low
  by (simp_all only: and_lead mod_lead) simp_all

lemma DecodeUtf8_of:
  assumes "scalar cp"
  shows "DecodeUtf8 (Utf8_of cp @ rest) = Some (cp, rest)"
proof -
  have max: "cp \<le> 0x10FFFF" and sur: "\<not> (0xD800 \<le> cp \<and> cp \<le> 0xDFFF)"
    using assms by (simp_all add: scalar_def utf_constants)
  consider "cp < 0x80" | "0x80 \<le> cp" "cp < 0x800" | "0x800 \<le> cp" "cp < 0x10000" | "0x10000 \<le> cp"
    by linarith
  then show ?thesis
  proof cases
    case 1 then show ?thesis by (simp add: Utf8_of_def)
  next
    case 2
    let ?a = "cp div 64" and ?b = "cp mod 64"
    have a: "?a < 32" using 2 by simp
    have u: "Utf8_of cp = [byte (0xC0 + ?a), byte (0x80 + ?b)]"
      using 2 a by (simp add: Utf8_of_def and_low or_lead drop_bit_eq_div)
    have l: "utf8_lead (0xC0 + ?a) = Some (1, ?a, 0x80)"
      using lead_byte a by (simp add: utf_constants)
    have "continuation 1 ?a (byte (0x80 + ?b) # rest) = Some (cp, rest)"
      using continuation_byte [of ?b 0 ?a rest] by simp
    with u l a 2 max sur show ?thesis by (simp add: utf_constants)
  next
    case 3
    let ?a = "cp div 4096" and ?b = "cp div 64 mod 64" and ?c = "cp mod 64"
    have a: "?a < 16" using 3 by simp
    have u: "Utf8_of cp = [byte (0xE0 + ?a), byte (0x80 + ?b), byte (0x80 + ?c)]"
      using 3 a by (simp add: Utf8_of_def and_low or_lead drop_bit_eq_div utf_constants)
    have l: "utf8_lead (0xE0 + ?a) = Some (2, ?a, 0x800)"
      using lead_byte a by (simp add: utf_constants)
    have "continuation 2 ?a (byte (0x80 + ?b) # byte (0x80 + ?c) # rest) = Some ((?a * 64 + ?b) * 64 + ?c, rest)"
      using continuation_byte [of ?b 1 ?a] continuation_byte [of ?c 0 "?a * 64 + ?b" rest] by (simp add: numeral_2_eq_2)
    moreover have "(?a * 64 + ?b) * 64 + ?c = cp" by (simp only: sextets)
    ultimately show ?thesis using u l a 3 max sur by (simp add: utf_constants)
  next
    case 4
    let ?a = "cp div 262144" and ?b = "cp div 4096 mod 64" and ?c = "cp div 64 mod 64" and ?d = "cp mod 64"
    have a: "?a < 8" using max by simp
    have u: "Utf8_of cp = [byte (0xF0 + ?a), byte (0x80 + ?b), byte (0x80 + ?c), byte (0x80 + ?d)]"
      using 4 a by (simp add: Utf8_of_def and_low or_lead drop_bit_eq_div utf_constants)
    have l: "utf8_lead (0xF0 + ?a) = Some (3, ?a, 0x10000)"
      using lead_byte a by (simp add: utf_constants)
    have "continuation 3 ?a (byte (0x80 + ?b) # byte (0x80 + ?c) # byte (0x80 + ?d) # rest) =
        Some (((?a * 64 + ?b) * 64 + ?c) * 64 + ?d, rest)"
      using continuation_byte [of ?b 2 ?a] continuation_byte [of ?c 1 "?a * 64 + ?b"]
        continuation_byte [of ?d 0 "(?a * 64 + ?b) * 64 + ?c" rest] by (simp add: numeral_3_eq_3 numeral_2_eq_2)
    moreover have "((?a * 64 + ?b) * 64 + ?c) * 64 + ?d = cp" by (simp only: sextets)
    ultimately show ?thesis using u l a 4 max sur by (simp add: utf_constants)
  qed
qed

section \<open>The two encodings agree\<close>

definition encode8 :: "nat list \<Rightarrow> string" where
  "encode8 cps = concat (map Utf8_of cps)"

definition encode16 :: "nat list \<Rightarrow> u16string" where
  "encode16 cps = concat (map Utf16_of cps)"

lemma Utf8_of_nonempty: "Utf8_of cp \<noteq> []"
  by (simp add: Utf8_of_def)

lemma Str8ToStr16_loop_encode:
  "\<forall>cp \<in> set cps. scalar cp \<Longrightarrow> Str8ToStr16_loop out (encode8 cps) = Some (out @ encode16 cps)"
proof (induction cps arbitrary: out)
  case Nil
  then show ?case by (simp add: encode8_def encode16_def Str8ToStr16_loop.simps)
next
  case (Cons cp cps)
  have "Str8ToStr16_loop out (encode8 (cp # cps)) = Str8ToStr16_loop (out @ Utf16_of cp) (encode8 cps)"
    using DecodeUtf8_of [of cp "encode8 cps"] Cons.prems
    by (subst Str8ToStr16_loop.simps) (simp add: encode8_def Utf8_of_nonempty)
  with Cons show ?case by (simp add: encode16_def)
qed

lemma pair_value:
  assumes "x < 0x100000"
  shows "push_bit 10 (drop_bit 10 x) OR (x AND 0x3FF) = (x :: nat)"
proof -
  have "push_bit 10 (x div 1024) OR (x mod 1024) = x div 1024 * 1024 + x mod 1024"
    using or_add [of "x mod 1024" 10 "x div 1024"] by simp
  then show ?thesis by (simp add: and_low drop_bit_eq_div)
qed

lemma unat_unit: "n < 65536 \<Longrightarrow> unat (word_of_nat n :: 16 word) = n"
  by (simp add: unat_of_nat)

lemma surrogates_small: "n < SURROGATE_LOW_BEGIN \<Longrightarrow> n < 65536" "n \<le> SURROGATE_END \<Longrightarrow> n < 65536"
  by (simp_all add: utf_constants)

lemma Str16ToStr8_step:
  assumes "scalar cp"
  shows "Str16ToStr8_loop out (Utf16_of cp @ us) = Str16ToStr8_loop (AppendUtf8 out cp) us"
proof (cases "SUPPLEMENTARY_BEGIN \<le> cp")
  case False
  then have "cp < 65536" by (simp add: utf_constants)
  then have u: "unat (word_of_nat cp :: 16 word) = cp" by (simp add: unat_of_nat)
  have "\<not> (SURROGATE_HIGH_BEGIN \<le> cp \<and> cp < SURROGATE_LOW_BEGIN)" "\<not> (SURROGATE_LOW_BEGIN \<le> cp \<and> cp \<le> SURROGATE_END)"
    using assms by (auto simp: scalar_def utf_constants)
  then show ?thesis using False by (auto simp: Utf16_of_def u)
next
  case True
  let ?x = "cp - SUPPLEMENTARY_BEGIN"
  let ?h = "SURROGATE_HIGH_BEGIN + drop_bit 10 ?x" and ?l = "SURROGATE_LOW_BEGIN + (?x AND 0x3FF)"
  have "cp \<le> 0x10FFFF" using assms by (simp add: scalar_def utf_constants)
  then have x: "?x < 0x100000" using True unfolding SUPPLEMENTARY_BEGIN_def by linarith
  then have "?x div 1024 < 1024" by simp
  then have h: "SURROGATE_HIGH_BEGIN \<le> ?h" "?h < SURROGATE_LOW_BEGIN"
    and l: "SURROGATE_LOW_BEGIN \<le> ?l" "?l \<le> SURROGATE_END"
    by (simp_all add: drop_bit_eq_div and_low utf_constants)
  then have u: "unat (word_of_nat ?h :: 16 word) = ?h" "unat (word_of_nat ?l :: 16 word) = ?l"
    using h(2) l(2) surrogates_small by (blast intro: unat_unit)+
  have "SUPPLEMENTARY_BEGIN + (push_bit 10 (?h - SURROGATE_HIGH_BEGIN) OR (?l - SURROGATE_LOW_BEGIN)) = cp"
    using pair_value [OF x] True by simp
  with h l show ?thesis
    by (simp only: Utf16_of_def True if_True Let_def append.simps Str16ToStr8_loop.simps u list.case) simp
qed

lemma Str16ToStr8_loop_encode:
  "\<forall>cp \<in> set cps. scalar cp \<Longrightarrow> Str16ToStr8_loop out (encode16 cps) = Some (out @ encode8 cps)"
proof (induction cps arbitrary: out)
  case (Cons cp cps)
  then show ?case using Str16ToStr8_step [of cp out "encode16 cps"]
    by (simp add: encode16_def encode8_def AppendUtf8_def)
qed (simp add: encode16_def encode8_def)

text \<open>
  C15. The two converters are inverse to each other on every text: for any sequence of Unicode scalar
  values, converting its UTF-8 form gives its UTF-16 form and converting that back gives the UTF-8
  form again, one to four bytes and surrogate pairs included.
\<close>

theorem utf_round_trip:
  assumes "\<forall>cp \<in> set cps. scalar cp"
  shows "Str8ToStr16 (encode8 cps) = encode16 cps \<and> Str16ToStr8 (encode16 cps) = encode8 cps \<and>
    Str16ToStr8 (Str8ToStr16 (encode8 cps)) = encode8 cps"
  using Str8ToStr16_loop_encode [OF assms, of "[]"] Str16ToStr8_loop_encode [OF assms, of "[]"]
  by (simp add: Str8ToStr16_def Str16ToStr8_def)

theorem utf_round_trip_witness:
  "Str8ToStr16 (encode8 [0x41, 0x4F60, 0x1F600]) = encode16 [0x41, 0x4F60, 0x1F600]"
  using utf_round_trip [of "[0x41, 0x4F60, 0x1F600]"] by (simp add: scalar_def utf_constants)

end
