(* ===== verification/Conference.thy ===== *)
theory Conference
  imports String_Ex
begin

text \<open>
  The conference bookkeeping: \<open>services/call/src/mini/conference_base.cpp\<close>, \<open>cs_conference.cpp\<close>
  and \<open>ims_conference.cpp\<close>. One object of each class exists. A conference has a main call, the set
  of its sub calls (a \<open>std::set\<close>, so its first element is the least one), a state and the state it
  had before the last attempt to change it. \<open>now\<close> is what \<open>time(nullptr)\<close> returns.
\<close>

section \<open>ConferenceBase\<close>

record ConferenceBase =
  cf_mainCallId :: int
  cf_state :: ConferenceState
  cf_oldState :: ConferenceState
  cf_subCallIdSet :: "int set"
  cf_beginTime :: int
  cf_conferenceType :: CallType

definition CS_CONFERENCE_MAX_CALLS_CNT :: nat where
  "CS_CONFERENCE_MAX_CALLS_CNT = 5"

definition ConferenceBase_init :: "CallType \<Rightarrow> ConferenceBase" where
  "ConferenceBase_init t =
    \<lparr>cf_mainCallId = ERR_ID, cf_state = CONFERENCE_STATE_IDLE, cf_oldState = CONFERENCE_STATE_IDLE,
     cf_subCallIdSet = {}, cf_beginTime = 0, cf_conferenceType = t\<rparr>"

definition CsConference_init :: ConferenceBase where
  "CsConference_init = ConferenceBase_init TYPE_CS"

definition ImsConference_init :: ConferenceBase where
  "ImsConference_init = ConferenceBase_init TYPE_IMS"

definition SetMainCall :: "int \<Rightarrow> ConferenceBase \<Rightarrow> ErrCode \<times> ConferenceBase" where
  "SetMainCall callId c =
    (if callId < ERR_ID then (CALL_ERR_INVALID_CALLID, c)
     else (TELEPHONY_SUCCESS, c\<lparr>cf_mainCallId := callId\<rparr>))"

definition SetConferenceState :: "ConferenceState \<Rightarrow> ConferenceBase \<Rightarrow> ConferenceBase" where
  "SetConferenceState state c = c\<lparr>cf_state := state\<rparr>"

definition SetOldConferenceState :: "ConferenceState \<Rightarrow> ConferenceBase \<Rightarrow> ConferenceBase" where
  "SetOldConferenceState state c = c\<lparr>cf_oldState := state\<rparr>"

text \<open>The lists of call ids go out as decimal numbers in UTF-16, in increasing order.\<close>

definition GetSubCallIdList :: "int \<Rightarrow> ConferenceBase \<Rightarrow> ErrCode \<times> u16string list" where
  "GetSubCallIdList callId c =
    (if callId \<notin> cf_subCallIdSet c then (CALL_ERR_THE_CALL_IS_NOT_IN_THE_CONFERENCE, [])
     else (TELEPHONY_SUCCESS, map (\<lambda>i. Str8ToStr16 (to_string i)) (sorted_list_of_set (cf_subCallIdSet c))))"

definition GetCallIdListForConference :: "int \<Rightarrow> ConferenceBase \<Rightarrow> ErrCode \<times> u16string list" where
  "GetCallIdListForConference callId c =
    (if callId \<notin> cf_subCallIdSet c \<and> cf_mainCallId c \<noteq> callId
     then (CALL_ERR_THE_CALL_IS_NOT_IN_THE_CONFERENCE, [])
     else (TELEPHONY_SUCCESS,
       map (\<lambda>i. Str8ToStr16 (to_string i)) (sorted_list_of_set (cf_subCallIdSet c)) @
       [Str8ToStr16 (to_string (cf_mainCallId c))]))"

section \<open>CsConference\<close>

definition CsConference_JoinToConference :: "int \<Rightarrow> int \<Rightarrow> ConferenceBase \<Rightarrow> ErrCode \<times> ConferenceBase" where
  "CsConference_JoinToConference now callId c =
    (if cf_state c \<noteq> CONFERENCE_STATE_CREATING \<and> cf_state c \<noteq> CONFERENCE_STATE_ACTIVE \<and>
        cf_state c \<noteq> CONFERENCE_STATE_LEAVING \<and> cf_state c \<noteq> CONFERENCE_STATE_HOLDING
     then (CALL_ERR_ILLEGAL_CALL_OPERATION, c)
     else (TELEPHONY_SUCCESS,
       c\<lparr>cf_subCallIdSet := insert callId (cf_subCallIdSet c), cf_state := CONFERENCE_STATE_ACTIVE,
         cf_oldState := CONFERENCE_STATE_ACTIVE, cf_beginTime := now\<rparr>))"

definition CsConference_LeaveFromConference :: "int \<Rightarrow> ConferenceBase \<Rightarrow> ErrCode \<times> ConferenceBase" where
  "CsConference_LeaveFromConference callId c =
    (if callId \<notin> cf_subCallIdSet c then (CALL_ERR_CONFERENCE_SEPERATE_FAILED, c)
     else
       let s = cf_subCallIdSet c - {callId};
           c = c\<lparr>cf_subCallIdSet := s,
                 cf_mainCallId := (if cf_mainCallId c = callId \<and> s \<noteq> {} then Min s else cf_mainCallId c)\<rparr>
       in (TELEPHONY_SUCCESS,
           if s = {} then c\<lparr>cf_mainCallId := ERR_ID, cf_state := CONFERENCE_STATE_IDLE,
                            cf_oldState := CONFERENCE_STATE_IDLE, cf_beginTime := 0\<rparr>
           else c))"

definition CsConference_HoldConference :: "int \<Rightarrow> ConferenceBase \<Rightarrow> ErrCode \<times> ConferenceBase" where
  "CsConference_HoldConference callId c =
    (if cf_state c = CONFERENCE_STATE_HOLDING then (TELEPHONY_SUCCESS, c)
     else if callId \<notin> cf_subCallIdSet c then (CALL_ERR_CONFERENCE_SEPERATE_FAILED, c)
     else if cf_subCallIdSet c = {} then
       (CALL_ERR_CONFERENCE_SEPERATE_FAILED,
        c\<lparr>cf_mainCallId := ERR_ID, cf_state := CONFERENCE_STATE_IDLE, cf_oldState := CONFERENCE_STATE_IDLE,
          cf_beginTime := 0\<rparr>)
     else (TELEPHONY_SUCCESS, c\<lparr>cf_state := CONFERENCE_STATE_HOLDING, cf_oldState := CONFERENCE_STATE_HOLDING\<rparr>))"

definition CsConference_CanCombineConference :: "ConferenceBase \<Rightarrow> ErrCode" where
  "CsConference_CanCombineConference c =
    (if CS_CONFERENCE_MAX_CALLS_CNT \<le> card (cf_subCallIdSet c) then CALL_ERR_CONFERENCE_CALL_EXCEED_LIMIT
     else TELEPHONY_SUCCESS)"

definition CsConference_CanSeparateConference :: "ConferenceBase \<Rightarrow> ErrCode" where
  "CsConference_CanSeparateConference c =
    (if cf_subCallIdSet c = {} then CALL_ERR_CONFERENCE_NOT_EXISTS
     else if cf_state c \<noteq> CONFERENCE_STATE_ACTIVE then CALL_ERR_CONFERENCE_CALL_IS_NOT_ACTIVE
     else TELEPHONY_SUCCESS)"

definition CsConference_CanKickOutFromConference :: "ConferenceBase \<Rightarrow> ErrCode" where
  "CsConference_CanKickOutFromConference c =
    (if cf_subCallIdSet c = {} then CALL_ERR_CONFERENCE_NOT_EXISTS else TELEPHONY_SUCCESS)"

text \<open>Only the circuit-switched conference has this operation.\<close>

definition CsConference_UpdateConferenceId :: "int \<Rightarrow> ConferenceBase \<Rightarrow> ConferenceBase" where
  "CsConference_UpdateConferenceId callId c =
    c\<lparr>cf_subCallIdSet := insert callId (cf_subCallIdSet c),
      cf_mainCallId := (if cf_mainCallId c = ERR_ID then callId else cf_mainCallId c)\<rparr>"

section \<open>ImsConference\<close>

definition ImsConference_JoinToConference :: "int \<Rightarrow> int \<Rightarrow> ConferenceBase \<Rightarrow> ErrCode \<times> ConferenceBase" where
  "ImsConference_JoinToConference now callId c =
    (if cf_state c \<noteq> CONFERENCE_STATE_CREATING \<and> cf_state c \<noteq> CONFERENCE_STATE_ACTIVE \<and>
        cf_state c \<noteq> CONFERENCE_STATE_LEAVING \<and> cf_state c \<noteq> CONFERENCE_STATE_HOLDING
     then (CALL_ERR_ILLEGAL_CALL_OPERATION, c)
     else (TELEPHONY_SUCCESS,
       c\<lparr>cf_subCallIdSet := insert callId (cf_subCallIdSet c), cf_state := CONFERENCE_STATE_ACTIVE,
         cf_oldState := CONFERENCE_STATE_ACTIVE, cf_beginTime := now\<rparr>))"

definition ImsConference_LeaveFromConference :: "int \<Rightarrow> ConferenceBase \<Rightarrow> ErrCode \<times> ConferenceBase" where
  "ImsConference_LeaveFromConference callId c =
    (if callId \<notin> cf_subCallIdSet c then (CALL_ERR_CONFERENCE_SEPERATE_FAILED, c)
     else
       let s = cf_subCallIdSet c - {callId};
           c = c\<lparr>cf_subCallIdSet := s,
                 cf_mainCallId := (if cf_mainCallId c = callId \<and> s \<noteq> {} then Min s else cf_mainCallId c)\<rparr>
       in (TELEPHONY_SUCCESS,
           if s = {} then c\<lparr>cf_mainCallId := ERR_ID, cf_state := CONFERENCE_STATE_IDLE,
                            cf_oldState := CONFERENCE_STATE_IDLE, cf_beginTime := 0\<rparr>
           else c))"

definition ImsConference_HoldConference :: "int \<Rightarrow> ConferenceBase \<Rightarrow> ErrCode \<times> ConferenceBase" where
  "ImsConference_HoldConference callId c =
    (if cf_state c = CONFERENCE_STATE_HOLDING then (TELEPHONY_SUCCESS, c)
     else if callId \<notin> cf_subCallIdSet c then (CALL_ERR_CONFERENCE_SEPERATE_FAILED, c)
     else if cf_subCallIdSet c = {} then
       (CALL_ERR_CONFERENCE_SEPERATE_FAILED,
        c\<lparr>cf_mainCallId := ERR_ID, cf_state := CONFERENCE_STATE_IDLE, cf_oldState := CONFERENCE_STATE_IDLE,
          cf_beginTime := 0\<rparr>)
     else (TELEPHONY_SUCCESS, c\<lparr>cf_state := CONFERENCE_STATE_HOLDING, cf_oldState := CONFERENCE_STATE_HOLDING\<rparr>))"

definition ImsConference_CanCombineConference :: "ConferenceBase \<Rightarrow> ErrCode" where
  "ImsConference_CanCombineConference c =
    (if CS_CONFERENCE_MAX_CALLS_CNT \<le> card (cf_subCallIdSet c) then CALL_ERR_CONFERENCE_CALL_EXCEED_LIMIT
     else TELEPHONY_SUCCESS)"

definition ImsConference_CanSeparateConference :: "ConferenceBase \<Rightarrow> ErrCode" where
  "ImsConference_CanSeparateConference c =
    (if cf_subCallIdSet c = {} then CALL_ERR_CONFERENCE_NOT_EXISTS
     else if cf_state c \<noteq> CONFERENCE_STATE_ACTIVE then CALL_ERR_CONFERENCE_CALL_IS_NOT_ACTIVE
     else TELEPHONY_SUCCESS)"

definition ImsConference_CanKickOutFromConference :: "ConferenceBase \<Rightarrow> ErrCode" where
  "ImsConference_CanKickOutFromConference c =
    (if cf_subCallIdSet c = {} then CALL_ERR_CONFERENCE_NOT_EXISTS else TELEPHONY_SUCCESS)"

section \<open>The conference contract\<close>

text \<open>
  What the calls rely on, of either class. \<open>conf_ok\<close>: the set is finite, an idle or cleared conference
  keeps no state behind, and a conference that was left by its last sub call is the initial one again.
\<close>

definition conf_ok :: "ConferenceBase \<Rightarrow> bool" where
  "conf_ok c \<longleftrightarrow> finite (cf_subCallIdSet c) \<and> (cf_subCallIdSet c \<noteq> {} \<longrightarrow> cf_state c \<noteq> CONFERENCE_STATE_IDLE)"

locale conference =
  fixes join :: "int \<Rightarrow> int \<Rightarrow> ConferenceBase \<Rightarrow> ErrCode \<times> ConferenceBase"
    and leave :: "int \<Rightarrow> ConferenceBase \<Rightarrow> ErrCode \<times> ConferenceBase"
    and hold :: "int \<Rightarrow> ConferenceBase \<Rightarrow> ErrCode \<times> ConferenceBase"
  assumes join_idle: "cf_state c = CONFERENCE_STATE_IDLE \<Longrightarrow> join t i c = (CALL_ERR_ILLEGAL_CALL_OPERATION, c)"
    and join_sub: "cf_state c \<noteq> CONFERENCE_STATE_IDLE \<Longrightarrow>
      fst (join t i c) = TELEPHONY_SUCCESS \<and>
      cf_subCallIdSet (snd (join t i c)) = insert i (cf_subCallIdSet c) \<and>
      cf_state (snd (join t i c)) = CONFERENCE_STATE_ACTIVE"
    and leave_sub: "i \<in> cf_subCallIdSet c \<Longrightarrow>
      fst (leave i c) = TELEPHONY_SUCCESS \<and> cf_subCallIdSet (snd (leave i c)) = cf_subCallIdSet c - {i} \<and>
      (cf_subCallIdSet c - {i} \<noteq> {} \<longrightarrow> cf_state (snd (leave i c)) = cf_state c) \<and>
      (cf_subCallIdSet c - {i} = {} \<longrightarrow> cf_mainCallId (snd (leave i c)) = ERR_ID \<and>
         cf_state (snd (leave i c)) = CONFERENCE_STATE_IDLE)"
    and leave_other: "i \<notin> cf_subCallIdSet c \<Longrightarrow> leave i c = (CALL_ERR_CONFERENCE_SEPERATE_FAILED, c)"
    and hold_sub: "i \<in> cf_subCallIdSet c \<Longrightarrow>
      fst (hold i c) = TELEPHONY_SUCCESS \<and> cf_subCallIdSet (snd (hold i c)) = cf_subCallIdSet c \<and>
      cf_state (snd (hold i c)) = CONFERENCE_STATE_HOLDING"
    and hold_other: "i \<notin> cf_subCallIdSet c \<Longrightarrow> snd (hold i c) = c \<and>
      (fst (hold i c) = TELEPHONY_SUCCESS \<longleftrightarrow> cf_state c = CONFERENCE_STATE_HOLDING)"
begin

lemma join_ok: "conf_ok c \<Longrightarrow> conf_ok (snd (join t i c))"
  using join_idle [of c t i] join_sub [of c t i]
  by (cases "cf_state c = CONFERENCE_STATE_IDLE") (auto simp: conf_ok_def)

lemma leave_ok: "conf_ok c \<Longrightarrow> conf_ok (snd (leave i c))"
  using leave_sub [of i c] leave_other [of i c]
  by (cases "i \<in> cf_subCallIdSet c") (auto simp: conf_ok_def)

lemma hold_ok: "conf_ok c \<Longrightarrow> conf_ok (snd (hold i c))"
  using hold_sub [of i c] hold_other [of i c]
  by (cases "i \<in> cf_subCallIdSet c") (auto simp: conf_ok_def)

text \<open>Joining and leaving again gives back the set of sub calls.\<close>

lemma join_leave:
  assumes "cf_state c \<noteq> CONFERENCE_STATE_IDLE" "i \<notin> cf_subCallIdSet c"
  shows "cf_subCallIdSet (snd (leave i (snd (join t i c)))) = cf_subCallIdSet c"
  using join_sub [OF assms(1), of t i] leave_sub [of i "snd (join t i c)"] assms(2) by auto

text \<open>An idle conference never gets a sub call by joining, holding or leaving.\<close>

lemma idle_stays:
  assumes "cf_state c = CONFERENCE_STATE_IDLE" "cf_subCallIdSet c = {}"
  shows "join t i c = (CALL_ERR_ILLEGAL_CALL_OPERATION, c)" "snd (leave i c) = c" "snd (hold i c) = c"
    and "fst (hold i c) \<noteq> TELEPHONY_SUCCESS" and "fst (leave i c) \<noteq> TELEPHONY_SUCCESS"
  using join_idle [OF assms(1), of t i] leave_other [of i c] hold_other [of i c] assms by auto

end

interpretation cs: conference CsConference_JoinToConference CsConference_LeaveFromConference
    CsConference_HoldConference
  by unfold_locales
    (auto simp: CsConference_JoinToConference_def CsConference_LeaveFromConference_def
      CsConference_HoldConference_def Let_def intro: ConferenceState.exhaust)

interpretation ims: conference ImsConference_JoinToConference ImsConference_LeaveFromConference
    ImsConference_HoldConference
  by unfold_locales
    (auto simp: ImsConference_JoinToConference_def ImsConference_LeaveFromConference_def
      ImsConference_HoldConference_def Let_def intro: ConferenceState.exhaust)

end
