(* ===== verification/Pac_Map.thy ===== *)
theory Pac_Map
  imports Call_Types "HOL-Library.AList"
begin

text \<open>
  \<open>utils/mini/src/pac_map.cpp\<close>: the bounded, typed key/value map that carries the extras of a
  dial. The \<open>std::map\<close> is an association list with distinct keys (nothing iterates over it, so
  its order is not observable). A \<open>Put\<close> of a new key into a full map is dropped; a read with
  another type than the stored one yields the default.
\<close>

datatype ValueType = VT_INT | VT_LONG | VT_BOOLEAN | VT_STRING

record pac_value =
  pv_type :: ValueType
  pv_number :: int
  pv_text :: string

type_synonym PacMap = "(string \<times> pac_value) list"

definition PacMap_empty :: PacMap where
  "PacMap_empty = []"

definition Put :: "PacMap \<Rightarrow> string \<Rightarrow> pac_value \<Rightarrow> bool \<times> PacMap" where
  "Put m key v =
    (if map_of m key \<noteq> None then (True, AList.update key v m)
     else if MINI_PACMAP_MAX_ENTRIES \<le> length m then (False, m)
     else (True, AList.update key v m))"

definition Find :: "PacMap \<Rightarrow> string \<Rightarrow> ValueType \<Rightarrow> pac_value option" where
  "Find m key t =
    (case map_of m key of
       None \<Rightarrow> None
     | Some v \<Rightarrow> if pv_type v \<noteq> t then None else Some v)"

definition PutIntValue :: "string \<Rightarrow> int \<Rightarrow> PacMap \<Rightarrow> PacMap" where
  "PutIntValue key i m = snd (Put m key \<lparr>pv_type = VT_INT, pv_number = i, pv_text = []\<rparr>)"

definition PutLongValue :: "string \<Rightarrow> int \<Rightarrow> PacMap \<Rightarrow> PacMap" where
  "PutLongValue key i m = snd (Put m key \<lparr>pv_type = VT_LONG, pv_number = i, pv_text = []\<rparr>)"

definition PutBooleanValue :: "string \<Rightarrow> bool \<Rightarrow> PacMap \<Rightarrow> PacMap" where
  "PutBooleanValue key b m =
    snd (Put m key \<lparr>pv_type = VT_BOOLEAN, pv_number = (if b then 1 else 0), pv_text = []\<rparr>)"

definition PutStringValue :: "string \<Rightarrow> string \<Rightarrow> PacMap \<Rightarrow> PacMap" where
  "PutStringValue key t m = snd (Put m key \<lparr>pv_type = VT_STRING, pv_number = 0, pv_text = t\<rparr>)"

definition GetIntValue :: "string \<Rightarrow> int \<Rightarrow> PacMap \<Rightarrow> int" where
  "GetIntValue key d m = (case Find m key VT_INT of None \<Rightarrow> d | Some v \<Rightarrow> pv_number v)"

definition GetLongValue :: "string \<Rightarrow> int \<Rightarrow> PacMap \<Rightarrow> int" where
  "GetLongValue key d m = (case Find m key VT_LONG of None \<Rightarrow> d | Some v \<Rightarrow> pv_number v)"

definition GetBooleanValue :: "string \<Rightarrow> bool \<Rightarrow> PacMap \<Rightarrow> bool" where
  "GetBooleanValue key d m = (case Find m key VT_BOOLEAN of None \<Rightarrow> d | Some v \<Rightarrow> pv_number v \<noteq> 0)"

definition GetStringValue :: "string \<Rightarrow> string \<Rightarrow> PacMap \<Rightarrow> string" where
  "GetStringValue key d m = (case Find m key VT_STRING of None \<Rightarrow> d | Some v \<Rightarrow> pv_text v)"

definition HasKey :: "PacMap \<Rightarrow> string \<Rightarrow> bool" where
  "HasKey m key = (map_of m key \<noteq> None)"

definition Remove :: "string \<Rightarrow> PacMap \<Rightarrow> PacMap" where
  "Remove key m = AList.delete key m"

definition IsEmpty :: "PacMap \<Rightarrow> bool" where
  "IsEmpty m = (m = [])"

definition GetSize :: "PacMap \<Rightarrow> nat" where
  "GetSize m = length m"

section \<open>The bounded map\<close>

text \<open>What the class keeps: one entry per key, at most the configured number of entries.\<close>

definition pac_ok :: "PacMap \<Rightarrow> bool" where
  "pac_ok m \<longleftrightarrow> distinct (map fst m) \<and> length m \<le> MINI_PACMAP_MAX_ENTRIES"

lemma length_update:
  "length (AList.update k v m) = (if map_of m k = None then Suc (length m) else length m)"
  by (induction m) auto

lemma Put_ok: "pac_ok m \<Longrightarrow> pac_ok (snd (Put m k v))"
  by (auto simp: pac_ok_def Put_def length_update distinct_update)

lemma map_of_Put:
  "map_of (snd (Put m k v)) k' =
    (if fst (Put m k v) \<and> k' = k then Some v else map_of m k')"
  by (auto simp: Put_def update_conv')

lemma Put_fails_iff:
  "fst (Put m k v) = False \<longleftrightarrow> map_of m k = None \<and> MINI_PACMAP_MAX_ENTRIES \<le> length m"
  by (auto simp: Put_def)

lemma Find_Put:
  "Find (snd (Put m k v)) k' t =
    (if fst (Put m k v) \<and> k' = k then if pv_type v = t then Some v else None else Find m k' t)"
  by (simp add: Find_def map_of_Put)

lemma Put_room: "length m < MINI_PACMAP_MAX_ENTRIES \<Longrightarrow> fst (Put m k v)"
  by (simp add: Put_def)

section \<open>The interface the dial code relies on\<close>

text \<open>
  A typed map with room left: what the dial path uses of the class is that a value put under a
  key is read back, and that other keys keep their value.
\<close>

locale typed_store =
  fixes put :: "'k \<Rightarrow> 'v \<Rightarrow> 's \<Rightarrow> 's"
    and read :: "'k \<Rightarrow> 's \<Rightarrow> 'v"
    and room :: "'s \<Rightarrow> bool"
  assumes read_put: "room s \<Longrightarrow> read k (put k v s) = v"
    and read_other: "k' \<noteq> k \<Longrightarrow> read k' (put k v s) = read k' s"
begin

lemma read_put_twice:
  "room s \<Longrightarrow> room (put k v s) \<Longrightarrow> read k (put k w (put k v s)) = w"
  by (rule read_put)

lemma read_put_swap:
  "k \<noteq> k' \<Longrightarrow> room s \<Longrightarrow> read k (put k' w (put k v s)) = v"
  by (simp add: read_other read_put)

end

definition pac_room :: "PacMap \<Rightarrow> bool" where
  "pac_room m \<longleftrightarrow> length m < MINI_PACMAP_MAX_ENTRIES"

interpretation pac_int: typed_store PutIntValue "\<lambda>k. GetIntValue k 0" pac_room
  by unfold_locales (auto simp: PutIntValue_def GetIntValue_def Find_Put Put_room pac_room_def)

interpretation pac_str: typed_store PutStringValue "\<lambda>k. GetStringValue k []" pac_room
  by unfold_locales (auto simp: PutStringValue_def GetStringValue_def Find_Put Put_room pac_room_def)

interpretation pac_bool: typed_store PutBooleanValue "\<lambda>k. GetBooleanValue k False" pac_room
  by unfold_locales (auto simp: PutBooleanValue_def GetBooleanValue_def Find_Put Put_room pac_room_def)

text \<open>Reads of one type do not see writes of another under other keys.\<close>

lemma GetIntValue_PutIntValue_other [simp]:
  "k' \<noteq> k \<Longrightarrow> GetIntValue k' d (PutIntValue k v m) = GetIntValue k' d m"
  by (simp add: GetIntValue_def PutIntValue_def Find_Put)

lemma GetIntValue_PutBooleanValue_other [simp]:
  "k' \<noteq> k \<Longrightarrow> GetIntValue k' d (PutBooleanValue k v m) = GetIntValue k' d m"
  by (simp add: GetIntValue_def PutBooleanValue_def Find_Put)

lemma GetIntValue_PutStringValue_other [simp]:
  "k' \<noteq> k \<Longrightarrow> GetIntValue k' d (PutStringValue k v m) = GetIntValue k' d m"
  by (simp add: GetIntValue_def PutStringValue_def Find_Put)

end
