(* ===== verification/Call_Base.thy ===== *)
theory Call_Base
  imports Conference Pac_Map
begin

text \<open>
  A call object: \<open>services/call/src/mini/call_base.cpp\<close> and the state of \<open>carrier_call.cpp\<close>. The
  classes \<open>CSCall\<close> and \<open>IMSCall\<close> derive from \<open>CarrierCall\<close>; the class of an object never changes,
  while its \<open>callType_\<close> may, so both are kept (virtual calls go by the class). The members that no
  modelled operation reads or writes (contact, number mark, anti-fraud, Bluetooth and the like) are
  left out. Operations that do not need anything but the object are functions on the record; \<open>now\<close>
  is what \<open>time(nullptr)\<close> returns.
\<close>

section \<open>The object\<close>

datatype CallClass = CSCall | IMSCall

record call =
  cb_class :: CallClass
  cb_callId :: int
  cb_callType :: CallType
  cb_videoState :: VideoStateType
  cb_accountNumber :: string
  cb_bundleName :: string
  cb_callRunningState :: CallRunningState
  cb_conferenceState :: TelConferenceState
  cb_startTime :: int
  cb_direction :: CallDirection
  cb_policyFlag :: "64 word"
  cb_callState :: TelCallState
  cb_canUnHoldState :: bool
  cb_canSwitchCallState :: bool
  cb_answerVideoState :: int
  cb_isSpeakerphoneOn :: bool
  cb_callBeginTime :: int
  cb_callCreateTime :: int
  cb_callEndTime :: int
  cb_ringBeginTime :: int
  cb_ringEndTime :: int
  cb_answerType :: CallAnswerType
  cb_accountId :: int
  cb_crsType :: int
  cb_originalCallType :: int
  cb_isMuted :: bool
  cb_numberLocation :: string
  cb_isEccContact :: bool
  cb_isAnswered :: bool
  cb_phoneOrWatch :: int
  cb_newCallUseBox :: int
  cb_imsDomain :: int
  cb_rejectType :: RejectType
  cb_isApCauseReported :: bool
  cc_dialScene :: DialScene
  cc_slotId :: int
  cc_index :: int
  cc_isEcc :: bool

text \<open>The constructors: without extras for an incoming call, with extras for an outgoing one.\<close>

definition CarrierCall_new :: "CallClass \<Rightarrow> DialParaInfo \<Rightarrow> CallDirection \<Rightarrow> DialScene \<Rightarrow> call" where
  "CarrierCall_new cls info dir scene =
    \<lparr>cb_class = cls, cb_callId = dp_callId info, cb_callType = dp_callType info,
     cb_videoState = dp_videoState info, cb_accountNumber = dp_number info,
     cb_bundleName = dp_bundleName info, cb_callRunningState = CALL_RUNNING_STATE_CREATE,
     cb_conferenceState = TEL_CONFERENCE_IDLE, cb_startTime = 0, cb_direction = dir, cb_policyFlag = 0,
     cb_callState = dp_callState info, cb_canUnHoldState = True, cb_canSwitchCallState = True,
     cb_answerVideoState = 0, cb_isSpeakerphoneOn = False, cb_callBeginTime = 0, cb_callCreateTime = 0,
     cb_callEndTime = 0, cb_ringBeginTime = 0, cb_ringEndTime = 0, cb_answerType = CALL_ANSWER_MISSED,
     cb_accountId = dp_accountId info, cb_crsType = dp_crsType info,
     cb_originalCallType = dp_originalCallType info, cb_isMuted = False, cb_numberLocation = ''default'',
     cb_isEccContact = False, cb_isAnswered = False, cb_phoneOrWatch = dp_phoneOrWatch info,
     cb_newCallUseBox = dp_newCallUseBox info, cb_imsDomain = 0, cb_rejectType = CALL_REJECT_NORMAL,
     cb_isApCauseReported = False, cc_dialScene = scene, cc_slotId = dp_accountId info,
     cc_index = dp_index info, cc_isEcc = dp_isEcc info\<rparr>"

definition CarrierCall_in :: "CallClass \<Rightarrow> DialParaInfo \<Rightarrow> call" where
  "CarrierCall_in cls info = CarrierCall_new cls info CALL_DIRECTION_IN CALL_NORMAL"

definition CarrierCall_out :: "CallClass \<Rightarrow> DialParaInfo \<Rightarrow> PacMap \<Rightarrow> call" where
  "CarrierCall_out cls info extras =
    CarrierCall_new cls info CALL_DIRECTION_OUT (DialScene_cast (GetIntValue ''dialScene'' 0 extras))"

section \<open>Operations of \<open>CallBase\<close>\<close>

definition DialCallBase :: "call \<Rightarrow> ErrCode \<times> call" where
  "DialCallBase c = (TELEPHONY_SUCCESS, c\<lparr>cb_callRunningState := CALL_RUNNING_STATE_CONNECTING\<rparr>)"

definition IncomingCallBase :: "call \<Rightarrow> ErrCode \<times> call" where
  "IncomingCallBase c = (TELEPHONY_SUCCESS, c\<lparr>cb_callRunningState := CALL_RUNNING_STATE_RINGING\<rparr>)"

definition IsCurrentRinging :: "call \<Rightarrow> bool" where
  "IsCurrentRinging c = (cb_callRunningState c = CALL_RUNNING_STATE_RINGING)"

definition AnswerCallBase :: "call \<Rightarrow> ErrCode" where
  "AnswerCallBase c = (if \<not> IsCurrentRinging c then CALL_ERR_PHONE_ANSWER_IS_BUSY else TELEPHONY_SUCCESS)"

definition RejectCallBase :: "call \<Rightarrow> ErrCode \<times> call" where
  "RejectCallBase c =
    (TELEPHONY_SUCCESS,
     c\<lparr>cb_answerType := (if cb_rejectType c = CALL_REJECT_MISSED_CALL then CALL_ANSWER_MISSED else CALL_ANSWER_REJECT)\<rparr>)"

text \<open>
  The attributes: nothing is filled in for a number or a bundle name that is too long; \<open>memcpy_s\<close>
  fails for more than its capacity.
\<close>

definition GetCallAttributeBaseInfo :: "call \<Rightarrow> CallAttributeInfo \<Rightarrow> CallAttributeInfo" where
  "GetCallAttributeBaseInfo c info =
    (if kMaxNumberLen < length (cb_accountNumber c) then info\<lparr>at_accountNumber := []\<rparr>
     else let info = info\<lparr>at_accountNumber := cb_accountNumber c, at_speakerphoneOn := cb_isSpeakerphoneOn c,
         at_videoState := cb_videoState c, at_startTime := cb_startTime c, at_callType := cb_callType c,
         at_callId := cb_callId c, at_callState := cb_callState c,
         at_conferenceState := cb_conferenceState c, at_callBeginTime := cb_callBeginTime c,
         at_callCreateTime := cb_callCreateTime c, at_callEndTime := cb_callEndTime c,
         at_ringBeginTime := cb_ringBeginTime c, at_ringEndTime := cb_ringEndTime c,
         at_callDirection := cb_direction c, at_answerType := cb_answerType c,
         at_accountId := cb_accountId c, at_crsType := cb_crsType c,
         at_originalCallType := cb_originalCallType c, at_isEccContact := cb_isEccContact c,
         at_phoneOrWatch := cb_phoneOrWatch c, at_imsDomain := cb_imsDomain c, at_numberLocation := []\<rparr>
       in if kMaxNumberLen < length (cb_numberLocation c) then info
          else let info = info\<lparr>at_numberLocation := cb_numberLocation c\<rparr>
            in if kMaxBundleNameLen < length (cb_bundleName c) then info
               else info\<lparr>at_bundleName := cb_bundleName c\<rparr>)"

text \<open>What a change of the reported state does to the object, one function per state.\<close>

definition StateChangesToDialing :: "call \<Rightarrow> call" where
  "StateChangesToDialing c = c\<lparr>cb_callRunningState := CALL_RUNNING_STATE_DIALING\<rparr>"

definition StateChangesToIncoming :: "int \<Rightarrow> call \<Rightarrow> call" where
  "StateChangesToIncoming now c = c\<lparr>cb_callRunningState := CALL_RUNNING_STATE_RINGING, cb_ringBeginTime := now\<rparr>"

definition StateChangesToWaiting :: "int \<Rightarrow> call \<Rightarrow> call" where
  "StateChangesToWaiting now c = c\<lparr>cb_callRunningState := CALL_RUNNING_STATE_RINGING, cb_ringBeginTime := now\<rparr>"

definition StateChangesToActive :: "int \<Rightarrow> call \<Rightarrow> call" where
  "StateChangesToActive now c =
    (let c = c\<lparr>cb_callRunningState := CALL_RUNNING_STATE_ACTIVE\<rparr>
     in if cb_callBeginTime c = 0 then
          c\<lparr>cb_ringEndTime := now, cb_callBeginTime := now, cb_startTime := now, cb_answerType := CALL_ANSWER_ACTIVED\<rparr>
        else c)"

definition StateChangesToHolding :: "call \<Rightarrow> call" where
  "StateChangesToHolding c =
    c\<lparr>cb_callRunningState := CALL_RUNNING_STATE_HOLD,
      cb_conferenceState := (if cb_conferenceState c = TEL_CONFERENCE_ACTIVE then TEL_CONFERENCE_DISCONNECTED
                             else cb_conferenceState c)\<rparr>"

definition StateChangesToDisconnected :: "int \<Rightarrow> call \<Rightarrow> call" where
  "StateChangesToDisconnected now c =
    c\<lparr>cb_callRunningState := CALL_RUNNING_STATE_ENDED,
      cb_conferenceState := (if cb_conferenceState c = TEL_CONFERENCE_DISCONNECTING \<or>
          cb_conferenceState c = TEL_CONFERENCE_ACTIVE then TEL_CONFERENCE_DISCONNECTED
        else cb_conferenceState c),
      cb_callEndTime := now,
      cb_ringEndTime := (if cb_ringEndTime c = 0 then now else cb_ringEndTime c)\<rparr>"

definition StateChangesToDisconnecting :: "int \<Rightarrow> call \<Rightarrow> call" where
  "StateChangesToDisconnecting now c =
    c\<lparr>cb_callRunningState := CALL_RUNNING_STATE_ENDING,
      cb_conferenceState := (if cb_conferenceState c = TEL_CONFERENCE_ACTIVE then TEL_CONFERENCE_DISCONNECTING
                             else cb_conferenceState c),
      cb_ringEndTime := (if cb_ringEndTime c = 0 then now else cb_ringEndTime c)\<rparr>"

definition StateChangesToAlerting :: "int \<Rightarrow> call \<Rightarrow> call" where
  "StateChangesToAlerting now c = c\<lparr>cb_callRunningState := CALL_RUNNING_STATE_DIALING, cb_ringBeginTime := now\<rparr>"

definition SetTelCallState :: "int \<Rightarrow> TelCallState \<Rightarrow> call \<Rightarrow> ErrCode \<times> call" where
  "SetTelCallState now nextState c =
    (if cb_callRunningState c \<noteq> CALL_RUNNING_STATE_CREATE \<and> cb_callState c = nextState \<and>
        nextState \<noteq> CALL_STATUS_DIALING
     then (CALL_ERR_NOT_NEW_STATE, c)
     else let c = c\<lparr>cb_callState := nextState\<rparr>
       in (TELEPHONY_SUCCESS,
           case nextState of
             CALL_STATUS_DIALING \<Rightarrow> StateChangesToDialing c
           | CALL_STATUS_INCOMING \<Rightarrow> StateChangesToIncoming now c
           | CALL_STATUS_WAITING \<Rightarrow> StateChangesToWaiting now c
           | CALL_STATUS_ACTIVE \<Rightarrow> StateChangesToActive now c
           | CALL_STATUS_HOLDING \<Rightarrow> StateChangesToHolding c
           | CALL_STATUS_DISCONNECTED \<Rightarrow> StateChangesToDisconnected now c
           | CALL_STATUS_DISCONNECTING \<Rightarrow> StateChangesToDisconnecting now c
           | CALL_STATUS_ALERTING \<Rightarrow> StateChangesToAlerting now c
           | _ \<Rightarrow> c))"

definition IsAliveState :: "call \<Rightarrow> bool" where
  "IsAliveState c = (\<not> (cb_callState c = CALL_STATUS_IDLE \<or> cb_callState c = CALL_STATUS_DISCONNECTED \<or>
    cb_callState c = CALL_STATUS_DISCONNECTING))"

text \<open>\<open>SetPolicyFlag\<close> only ever adds flags.\<close>

definition POLICY_FLAG_HANG_UP_HOLD_WAIT :: "64 word" where "POLICY_FLAG_HANG_UP_HOLD_WAIT = 0x100"
definition POLICY_FLAG_HANG_UP_ACTIVE :: "64 word" where "POLICY_FLAG_HANG_UP_ACTIVE = 0x200"

definition SetPolicyFlag :: "64 word \<Rightarrow> call \<Rightarrow> call" where
  "SetPolicyFlag flag c = c\<lparr>cb_policyFlag := cb_policyFlag c OR flag\<rparr>"

section \<open>Operations of \<open>CarrierCall\<close> on the object alone\<close>

definition GetCallAttributeInfo :: "call \<Rightarrow> CallAttributeInfo" where
  "GetCallAttributeInfo c =
    GetCallAttributeBaseInfo c
      (CallAttributeInfo_default\<lparr>at_isEcc := cc_isEcc c, at_accountId := cc_slotId c, at_index := cc_index c\<rparr>)"

definition GetEmergencyState :: "call \<Rightarrow> bool" where
  "GetEmergencyState c = cc_isEcc c"

definition IsSupportConferenceable :: "call \<Rightarrow> ErrCode" where
  "IsSupportConferenceable c =
    (if GetEmergencyState c then CALL_ERR_EMERGENCY_UNSUPPORT_CONFERENCEABLE else TELEPHONY_SUCCESS)"

definition CarrierCall_PackCellularCallInfo :: "call \<Rightarrow> ErrCode \<times> CellularCallInfo" where
  "CarrierCall_PackCellularCallInfo c =
    (let info = CellularCallInfo_default\<lparr>ci_callId := cb_callId c, ci_callType := cb_callType c,
           ci_videoState := VideoStateType_code (cb_videoState c), ci_index := cc_index c,
           ci_slotId := cc_slotId c, ci_accountId := cc_slotId c, ci_phoneNum := []\<rparr>
     in if kMaxNumberLen < length (cb_accountNumber c) then (CALL_ERR_NUMBER_OUT_OF_RANGE, info)
        else (TELEPHONY_SUCCESS, info\<lparr>ci_phoneNum := cb_accountNumber c\<rparr>))"

end
