(* ===== verification/Event_Loop.thy ===== *)
theory Event_Loop
  imports Call_Types
begin

text \<open>
  \<open>utils/mini/src/los_event_handler.cpp\<close> and \<open>tel_os_common.cpp\<close>: the single loop every call
  manager entry is serialised on. It has a bounded ring of messages with one extra slot for the
  timer message, a table of delayed tasks sorted by due tick (32-bit ticks that wrap), and a fixed
  number of waiter slots for synchronous calls from other tasks.

  A task is a value of a type parameter; what running it does is the argument \<open>run\<close> of the
  operations that run tasks. Kernel objects (mutex, semaphores, timer) are external: a counting
  semaphore is its count, the one-shot timer its armed delay, the tick counter a field of the
  state. Between two lock/unlock points other tasks run; \<open>PostSyncTask\<close> is therefore split at its
  wait, and the theory of synchronous calls interleaves the pieces.
\<close>

section \<open>Ticks\<close>

definition TEL_OS_WAIT_FOREVER :: "32 word" where
  "TEL_OS_WAIT_FOREVER = 0xFFFFFFFF"

definition TEL_OS_MAX_FINITE_TICKS :: "32 word" where
  "TEL_OS_MAX_FINITE_TICKS = TEL_OS_WAIT_FOREVER - 1"

definition TelOsMsToTicks :: "nat \<Rightarrow> 32 word \<Rightarrow> 32 word" where
  "TelOsMsToTicks tickFreq delayMs =
    (if delayMs = TEL_OS_WAIT_FOREVER then TEL_OS_WAIT_FOREVER
     else if tickFreq = 0 then delayMs
     else let ticks = (unat delayMs * tickFreq + 1000 - 1) div 1000
          in if unat TEL_OS_MAX_FINITE_TICKS < ticks then TEL_OS_MAX_FINITE_TICKS
             else word_of_nat ticks)"

definition TicksToMs :: "nat \<Rightarrow> 32 word \<Rightarrow> 32 word" where
  "TicksToMs tickFreq ticks =
    (if tickFreq = 0 then ticks
     else let ms = (unat ticks * 1000 + tickFreq - 1) div tickFreq
          in if unat TEL_OS_WAIT_FOREVER \<le> ms then TEL_OS_WAIT_FOREVER - 1 else word_of_nat ms)"

text \<open>The signed distance of two ticks.\<close>

definition IsDue :: "32 word \<Rightarrow> 32 word \<Rightarrow> bool" where
  "IsDue dueTick now \<longleftrightarrow> sint (dueTick - now) \<le> 0"

section \<open>The handler\<close>

datatype LoopState = STATE_UNINIT | STATE_RUNNING | STATE_STOPPING

datatype 't LosEventMessage = ASYNC_TASK 't | SYNC_CALL nat | TIMER_FIRE

record 't SyncContext =
  sc_task :: 't
  sc_slot :: nat
  sc_abandoned :: bool
  sc_done :: bool
  sc_status :: ErrCode

record 't DelayedTask =
  dt_id :: "32 word"
  dt_dueTick :: "32 word"
  dt_task :: 't

text \<open>
  \<open>cfg_poster\<close> is the poster of a handler that is driven by another task's queue: whether it
  accepts the n-th message. \<open>None\<close> is a self-driven handler.
\<close>

record LoopConfig =
  cfg_queueSize :: nat
  cfg_maxDelayedTasks :: nat
  cfg_maxSyncWaiters :: nat
  cfg_hasLoopName :: bool
  cfg_poster :: "(nat \<Rightarrow> bool) option"

text \<open>
  \<open>lh_contexts\<close> holds every \<open>SyncContext\<close> made so far, by number; a queued message and the
  blocked caller share it.
\<close>

record 't LosEventHandler =
  lh_config :: LoopConfig
  lh_state :: LoopState
  lh_ring :: "'t LosEventMessage option list"
  lh_ringHead :: nat
  lh_ringCount :: nat
  lh_queueSem :: nat
  lh_posted :: "'t LosEventMessage list"
  lh_delayed :: "'t DelayedTask list"
  lh_lastTaskId :: "32 word"
  lh_timer :: "32 word option"
  lh_timerMessageQueued :: bool
  lh_waiterSems :: "nat list"
  lh_waiterInUse :: "bool list"
  lh_contexts :: "'t SyncContext list"
  lh_now :: "32 word"
  lh_tickFreq :: nat

definition DefaultConfig :: LoopConfig where
  "DefaultConfig =
    \<lparr>cfg_queueSize = MINI_QUEUE_SIZE, cfg_maxDelayedTasks = MINI_MAX_DELAYED_TASKS,
     cfg_maxSyncWaiters = MINI_MAX_SYNC_WAITERS, cfg_hasLoopName = True, cfg_poster = None\<rparr>"

definition ReleaseObjects :: "('t LosEventHandler, unit) state" where
  "ReleaseObjects =
    modify (\<lambda>h. h\<lparr>lh_timer := None, lh_waiterSems := [], lh_waiterInUse := [], lh_queueSem := 0,
      lh_ring := [], lh_ringHead := 0, lh_ringCount := 0, lh_timerMessageQueued := False\<rparr>)"

text \<open>
  \<open>objectsOk\<close>: the kernel had the objects to hand out; \<open>taskOk\<close>: it created the loop task.
\<close>

definition Init :: "bool \<Rightarrow> bool \<Rightarrow> LoopConfig \<Rightarrow> ('t LosEventHandler, ErrCode) state" where
  "Init objectsOk taskOk config = do {
     st \<leftarrow> gets lh_state;
     if st = STATE_RUNNING then ret TELEPHONY_SUCCESS
     else if st \<noteq> STATE_UNINIT \<or> cfg_queueSize config = 0 \<or> cfg_maxDelayedTasks config = 0 \<or>
             cfg_maxSyncWaiters config = 0 \<or> (cfg_poster config = None \<and> \<not> cfg_hasLoopName config)
     then ret TELEPHONY_ERR_ARGUMENT_INVALID
     else do {
       modify (\<lambda>h. h\<lparr>lh_config := config\<rparr>);
       if \<not> objectsOk then do { ReleaseObjects; ret TELEPHONY_ERR_FAIL }
       else do {
         modify (\<lambda>h. h\<lparr>lh_waiterSems := replicate (cfg_maxSyncWaiters config) 0,
                        lh_waiterInUse := replicate (cfg_maxSyncWaiters config) False\<rparr>);
         whenM (cfg_poster config = None)
           (modify (\<lambda>h. h\<lparr>lh_ring := replicate (cfg_queueSize config + 1) None, lh_queueSem := 0\<rparr>));
         modify (\<lambda>h. h\<lparr>lh_state := STATE_RUNNING\<rparr>);
         if cfg_poster config = None \<and> \<not> taskOk then do {
           modify (\<lambda>h. h\<lparr>lh_state := STATE_UNINIT\<rparr>);
           ReleaseObjects;
           ret TELEPHONY_ERR_FAIL
         } else ret TELEPHONY_SUCCESS
       }
     }
   }"

section \<open>The ring\<close>

definition Enqueue :: "'t LosEventMessage \<Rightarrow> ('t LosEventHandler, ErrCode) state" where
  "Enqueue message = do {
     st \<leftarrow> gets lh_state;
     if st \<noteq> STATE_RUNNING then ret TELEPHONY_ERR_UNINIT
     else do {
       config \<leftarrow> gets lh_config;
       case cfg_poster config of
         Some poster \<Rightarrow> do {
           n \<leftarrow> gets (\<lambda>h. length (lh_posted h));
           modify (\<lambda>h. h\<lparr>lh_posted := lh_posted h @ [message]\<rparr>);
           ret (if poster n then TELEPHONY_SUCCESS else TELEPHONY_ERR_IPC_CONNECT_STUB_FAIL)
         }
       | None \<Rightarrow> do {
           capacity \<leftarrow> gets (\<lambda>h. length (lh_ring h));
           count \<leftarrow> gets lh_ringCount;
           if (if message = TIMER_FIRE then capacity else cfg_queueSize config) \<le> count
           then ret TELEPHONY_ERR_IPC_CONNECT_STUB_FAIL
           else do {
             modify (\<lambda>h. h\<lparr>lh_ring := (lh_ring h)[(lh_ringHead h + lh_ringCount h) mod capacity := Some message],
                            lh_ringCount := lh_ringCount h + 1\<rparr>);
             modify (\<lambda>h. h\<lparr>lh_queueSem := lh_queueSem h + 1\<rparr>);
             ret TELEPHONY_SUCCESS
           }
         }
     }
   }"

definition PopLocked :: "('t LosEventHandler, 't LosEventMessage option) state" where
  "PopLocked = do {
     count \<leftarrow> gets lh_ringCount;
     if count = 0 then ret None
     else do {
       message \<leftarrow> gets (\<lambda>h. lh_ring h ! lh_ringHead h);
       modify (\<lambda>h. h\<lparr>lh_ring := (lh_ring h)[lh_ringHead h := None],
                      lh_ringHead := (lh_ringHead h + 1) mod length (lh_ring h),
                      lh_ringCount := lh_ringCount h - 1\<rparr>);
       ret message
     }
   }"

section \<open>The timer and the delayed tasks\<close>

definition ArmTimerLocked :: "('t LosEventHandler, unit) state" where
  "ArmTimerLocked = modify (\<lambda>h.
     case lh_delayed h of
       [] \<Rightarrow> h\<lparr>lh_timer := None\<rparr>
     | first # _ \<Rightarrow>
         let ticks = (if IsDue (dt_dueTick first) (lh_now h) then 1 else dt_dueTick first - lh_now h)
         in h\<lparr>lh_timer := Some (TicksToMs (lh_tickFreq h) ticks)\<rparr>)"

definition OnTimerExpired :: "('t LosEventHandler, unit) state" where
  "OnTimerExpired = do {
     st \<leftarrow> gets lh_state;
     if st \<noteq> STATE_RUNNING then ret ()
     else do {
       queued \<leftarrow> gets lh_timerMessageQueued;
       modify (\<lambda>h. h\<lparr>lh_timerMessageQueued := True\<rparr>);
       if queued then ret ()
       else do {
         r \<leftarrow> Enqueue TIMER_FIRE;
         whenM (r \<noteq> TELEPHONY_SUCCESS) (modify (\<lambda>h. h\<lparr>lh_timerMessageQueued := False,
           lh_timer := Some (TicksToMs (lh_tickFreq h) 1)\<rparr>))
       }
     }
   }"

text \<open>The one-shot timer expires: it is no longer armed, then its callback runs.\<close>

definition TimerExpired :: "('t LosEventHandler, unit) state" where
  "TimerExpired = do { modify (\<lambda>h. h\<lparr>lh_timer := None\<rparr>); OnTimerExpired }"

fun skip_same :: "'t DelayedTask \<Rightarrow> 't DelayedTask list \<Rightarrow> 't DelayedTask list" where
  "skip_same entry [] = [entry]"
| "skip_same entry (x # xs) =
    (if dt_dueTick x = dt_dueTick entry then x # skip_same entry xs else entry # x # xs)"

fun insert_delayed :: "'t DelayedTask \<Rightarrow> 't DelayedTask list \<Rightarrow> 't DelayedTask list" where
  "insert_delayed entry [] = [entry]"
| "insert_delayed entry (x # xs) =
    (if \<not> IsDue (dt_dueTick entry) (dt_dueTick x) then x # insert_delayed entry xs
     else skip_same entry (x # xs))"

text \<open>Whether \<open>insert_delayed\<close> puts the entry at the front.\<close>

fun goes_first :: "'t DelayedTask \<Rightarrow> 't DelayedTask list \<Rightarrow> bool" where
  "goes_first entry [] = True"
| "goes_first entry (x # xs) =
    (IsDue (dt_dueTick entry) (dt_dueTick x) \<and> dt_dueTick x \<noteq> dt_dueTick entry)"

definition NextTaskId :: "32 word \<Rightarrow> 32 word" where
  "NextTaskId lastId = (if lastId + 1 = 0 then lastId + 2 else lastId + 1)"

text \<open>The result carries the handle that a caller may remove a delayed task with.\<close>

definition PostAsyncTask :: "'t \<Rightarrow> 32 word \<Rightarrow> ('t LosEventHandler, ErrCode \<times> 32 word option) state" where
  "PostAsyncTask task delayMs = do {
     st \<leftarrow> gets lh_state;
     if st \<noteq> STATE_RUNNING then ret (TELEPHONY_ERR_UNINIT, None)
     else if delayMs = 0 then do { r \<leftarrow> Enqueue (ASYNC_TASK task); ret (r, None) }
     else do {
       h \<leftarrow> gets id;
       if cfg_maxDelayedTasks (lh_config h) \<le> length (lh_delayed h)
       then ret (TELEPHONY_ERR_IPC_CONNECT_STUB_FAIL, None)
       else do {
         let ticks = TelOsMsToTicks (lh_tickFreq h) delayMs;
         let newId = NextTaskId (lh_lastTaskId h);
         let entry = \<lparr>dt_id = newId, dt_dueTick = lh_now h + (if ticks = 0 then 1 else ticks), dt_task = task\<rparr>;
         let earliest = goes_first entry (lh_delayed h);
         modify (\<lambda>h. h\<lparr>lh_lastTaskId := newId, lh_delayed := insert_delayed entry (lh_delayed h)\<rparr>);
         whenM earliest ArmTimerLocked;
         ret (TELEPHONY_SUCCESS, Some newId)
       }
     }
   }"

text \<open>
  The erased entry's task is dropped. The table is walked for the first entry with the handle.
\<close>

definition RemoveAsyncTask :: "32 word \<Rightarrow> ('t LosEventHandler, bool) state" where
  "RemoveAsyncTask taskId = do {
     h \<leftarrow> gets id;
     if taskId = 0 \<or> lh_state h \<noteq> STATE_RUNNING then ret False
     else case List.find (\<lambda>e. dt_id e = taskId) (lh_delayed h) of
       None \<Rightarrow> ret False
     | Some _ \<Rightarrow> do {
         let wasEarliest = (dt_id (hd (lh_delayed h)) = taskId);
         modify (\<lambda>h. h\<lparr>lh_delayed := takeWhile (\<lambda>e. dt_id e \<noteq> taskId) (lh_delayed h) @
                                    tl (dropWhile (\<lambda>e. dt_id e \<noteq> taskId) (lh_delayed h))\<rparr>);
         whenM wasEarliest ArmTimerLocked;
         ret True
       }
   }"

definition RunDueTasks ::
    "('t \<Rightarrow> ('t LosEventHandler, unit) state) \<Rightarrow> ('t LosEventHandler, unit) state" where
  "RunDueTasks run = do {
     due \<leftarrow> gets (\<lambda>h. takeWhile (\<lambda>e. IsDue (dt_dueTick e) (lh_now h)) (lh_delayed h));
     modify (\<lambda>h. h\<lparr>lh_delayed := dropWhile (\<lambda>e. IsDue (dt_dueTick e) (lh_now h)) (lh_delayed h)\<rparr>);
     ArmTimerLocked;
     for_each due (\<lambda>e. run (dt_task e))
   }"

section \<open>Synchronous calls\<close>

definition AcquireWaiter :: "('t LosEventHandler, nat option) state" where
  "AcquireWaiter = do {
     inUse \<leftarrow> gets lh_waiterInUse;
     case List.find (\<lambda>i. \<not> inUse ! i) [0..<length inUse] of
       None \<Rightarrow> ret None
     | Some i \<Rightarrow> do { modify (\<lambda>h. h\<lparr>lh_waiterInUse := (lh_waiterInUse h)[i := True]\<rparr>); ret (Some i) }
   }"

definition ReleaseWaiter :: "nat \<Rightarrow> ('t LosEventHandler, unit) state" where
  "ReleaseWaiter slot = modify (\<lambda>h. h\<lparr>lh_waiterInUse := (lh_waiterInUse h)[slot := False]\<rparr>)"

text \<open>A semaphore of a waiter slot holds at most one count.\<close>

definition SemPost :: "nat \<Rightarrow> ('t LosEventHandler, unit) state" where
  "SemPost slot = modify (\<lambda>h.
     if lh_waiterSems h ! slot < 1 then h\<lparr>lh_waiterSems := (lh_waiterSems h)[slot := Suc (lh_waiterSems h ! slot)]\<rparr>
     else h)"

definition SemTake :: "nat \<Rightarrow> ('t LosEventHandler, unit) state" where
  "SemTake slot = modify (\<lambda>h. h\<lparr>lh_waiterSems := (lh_waiterSems h)[slot := lh_waiterSems h ! slot - 1]\<rparr>)"

text \<open>
  \<open>PostSyncTask\<close> up to its wait. Either the call is over with a code (\<open>Inl\<close>), or it waits for a
  context (\<open>Inr\<close>). \<open>onLoop\<close>: the caller runs on the loop task itself.
\<close>

definition PostSyncTask_begin ::
    "('t \<Rightarrow> ('t LosEventHandler, unit) state) \<Rightarrow> bool \<Rightarrow> 't \<Rightarrow> ('t LosEventHandler, ErrCode + nat) state" where
  "PostSyncTask_begin run onLoop task = do {
     st \<leftarrow> gets lh_state;
     if st \<noteq> STATE_RUNNING then ret (Inl TELEPHONY_ERR_UNINIT)
     else if onLoop then do { run task; ret (Inl TELEPHONY_SUCCESS) }
     else do {
       slot \<leftarrow> AcquireWaiter;
       case slot of
         None \<Rightarrow> ret (Inl TELEPHONY_ERR_IPC_CONNECT_STUB_FAIL)
       | Some slot \<Rightarrow> do {
           context \<leftarrow> gets (\<lambda>h. length (lh_contexts h));
           modify (\<lambda>h. h\<lparr>lh_contexts := lh_contexts h @
             [\<lparr>sc_task = task, sc_slot = slot, sc_abandoned = False, sc_done = False,
               sc_status = TELEPHONY_SUCCESS\<rparr>]\<rparr>);
           r \<leftarrow> Enqueue (SYNC_CALL context);
           if r \<noteq> TELEPHONY_SUCCESS then do { ReleaseWaiter slot; ret (Inl r) }
           else ret (Inr context)
         }
     }
   }"

text \<open>
  The rest, after the wait returned: \<open>waited\<close> says whether the semaphore was taken (its count is
  then already reduced) or the wait timed out.
\<close>

definition PostSyncTask_end :: "nat \<Rightarrow> bool \<Rightarrow> ('t LosEventHandler, ErrCode) state" where
  "PostSyncTask_end context waited = do {
     c \<leftarrow> gets (\<lambda>h. lh_contexts h ! context);
     if waited \<or> sc_done c then do {
       whenM (\<not> waited) (SemTake (sc_slot c));
       ReleaseWaiter (sc_slot c);
       ret (sc_status c)
     } else do {
       modify (\<lambda>h. h\<lparr>lh_contexts := (lh_contexts h)[context := c\<lparr>sc_abandoned := True\<rparr>]\<rparr>);
       ret TELEPHONY_ERR_IPC_CONNECT_STUB_FAIL
     }
   }"

definition Complete :: "nat \<Rightarrow> ErrCode \<Rightarrow> ('t LosEventHandler, unit) state" where
  "Complete context status = do {
     modify (\<lambda>h. h\<lparr>lh_contexts := (lh_contexts h)
       [context := (lh_contexts h ! context)\<lparr>sc_status := status, sc_done := True\<rparr>]\<rparr>);
     c \<leftarrow> gets (\<lambda>h. lh_contexts h ! context);
     if sc_abandoned c then ReleaseWaiter (sc_slot c) else SemPost (sc_slot c)
   }"

section \<open>The loop\<close>

definition Recycle :: "'t LosEventMessage \<Rightarrow> ('t LosEventHandler, unit) state" where
  "Recycle message =
     (case message of
        TIMER_FIRE \<Rightarrow> modify (\<lambda>h. h\<lparr>lh_timerMessageQueued := False\<rparr>)
      | SYNC_CALL context \<Rightarrow> Complete context TELEPHONY_ERR_UNINIT
      | ASYNC_TASK _ \<Rightarrow> ret ())"

definition Dispatch ::
    "('t \<Rightarrow> ('t LosEventHandler, unit) state) \<Rightarrow> 't LosEventMessage option \<Rightarrow> ('t LosEventHandler, unit) state" where
  "Dispatch run message =
     (case message of
        None \<Rightarrow> ret ()
      | Some message \<Rightarrow> do {
          st \<leftarrow> gets lh_state;
          if st \<noteq> STATE_RUNNING then Recycle message
          else case message of
            TIMER_FIRE \<Rightarrow> do {
              modify (\<lambda>h. h\<lparr>lh_timerMessageQueued := False\<rparr>);
              RunDueTasks run
            }
          | SYNC_CALL context \<Rightarrow> do {
              task \<leftarrow> gets (\<lambda>h. sc_task (lh_contexts h ! context));
              run task;
              Complete context TELEPHONY_SUCCESS
            }
          | ASYNC_TASK task \<Rightarrow> run task
        })"

text \<open>
  One turn of \<open>RunLoop\<close> once its semaphore wait returned; the result says whether the loop
  leaves. The drain after it recycles what is left: \<open>ringCount\<close> turns.
\<close>

definition RunLoop_turn ::
    "('t \<Rightarrow> ('t LosEventHandler, unit) state) \<Rightarrow> ('t LosEventHandler, bool) state" where
  "RunLoop_turn run = do {
     modify (\<lambda>h. h\<lparr>lh_queueSem := lh_queueSem h - 1\<rparr>);
     message \<leftarrow> PopLocked;
     stopping \<leftarrow> gets (\<lambda>h. lh_state h \<noteq> STATE_RUNNING);
     Dispatch run message;
     ret stopping
   }"

primrec RunLoop_drain :: "nat \<Rightarrow> ('t LosEventHandler, unit) state" where
  "RunLoop_drain 0 = ret ()"
| "RunLoop_drain (Suc n) = do {
     message \<leftarrow> PopLocked;
     case message of
       None \<Rightarrow> ret ()
     | Some m \<Rightarrow> do { Recycle m; RunLoop_drain n }
   }"

definition RunLoop_exit :: "('t LosEventHandler, unit) state" where
  "RunLoop_exit = do { n \<leftarrow> gets lh_ringCount; RunLoop_drain n }"

text \<open>
  \<open>Stop\<close> up to its waits, and the rest of it. The loop task and the blocked callers run in
  between. The waits are bounded; their outcomes are the arguments of the second part (the loop
  task left; nothing refers to the kernel objects any more).
\<close>

definition Stop_begin :: "bool \<Rightarrow> ('t LosEventHandler, bool) state" where
  "Stop_begin onLoop = do {
     h \<leftarrow> gets id;
     if lh_state h \<noteq> STATE_RUNNING then ret False
     else do {
       modify (\<lambda>h. h\<lparr>lh_state := STATE_STOPPING\<rparr>);
       if cfg_poster (lh_config h) = None \<and> onLoop then do {
         modify (\<lambda>h. h\<lparr>lh_state := STATE_RUNNING\<rparr>);
         ret False
       } else do {
         modify (\<lambda>h. h\<lparr>lh_timer := None, lh_delayed := []\<rparr>);
         whenM (cfg_poster (lh_config h) = None) (modify (\<lambda>h. h\<lparr>lh_queueSem := lh_queueSem h + 1\<rparr>));
         ret True
       }
     }
   }"

definition Stop_end :: "bool \<Rightarrow> bool \<Rightarrow> ('t LosEventHandler, unit) state" where
  "Stop_end loopExits quiescent = do {
     h \<leftarrow> gets id;
     if cfg_poster (lh_config h) = None \<and> \<not> loopExits then ret ()
     else if \<not> quiescent then ret ()
     else do {
       ReleaseObjects;
       modify (\<lambda>h. h\<lparr>lh_state := STATE_UNINIT\<rparr>)
     }
   }"

section \<open>Ticks: rounding and order\<close>

lemma MsToTicks_finite:
  "ms \<noteq> TEL_OS_WAIT_FOREVER \<Longrightarrow> f \<noteq> 0 \<Longrightarrow>
    unat (TelOsMsToTicks f ms) =
      min (unat TEL_OS_MAX_FINITE_TICKS) ((unat ms * f + 999) div 1000)"
proof -
  assume a: "ms \<noteq> TEL_OS_WAIT_FOREVER" "f \<noteq> 0"
  let ?t = "(unat ms * f + 999) div 1000"
  have m: "unat TEL_OS_MAX_FINITE_TICKS = 4294967294"
    by (simp add: TEL_OS_MAX_FINITE_TICKS_def TEL_OS_WAIT_FOREVER_def)
  have "unat (word_of_nat ?t :: 32 word) = ?t" if "?t \<le> 4294967294"
    using that by (simp add: unat_of_nat)
  with a show ?thesis by (auto simp: TelOsMsToTicks_def Let_def m add.commute)
qed

lemma MsToTicks_not_forever:
  "ms \<noteq> TEL_OS_WAIT_FOREVER \<Longrightarrow> TelOsMsToTicks f ms \<noteq> TEL_OS_WAIT_FOREVER"
proof (cases "f = 0")
  case False
  assume "ms \<noteq> TEL_OS_WAIT_FOREVER"
  then have "unat (TelOsMsToTicks f ms) \<le> 4294967294"
    using MsToTicks_finite [OF _ False, of ms]
    by (simp add: TEL_OS_MAX_FINITE_TICKS_def TEL_OS_WAIT_FOREVER_def)
  then show ?thesis by (auto simp: TEL_OS_WAIT_FOREVER_def)
qed (simp add: TelOsMsToTicks_def)

text \<open>
  The signed distance of two ticks is an order as long as every tick in play lies within
  \<open>2 ^ 30\<close> ticks of one reference tick.
\<close>

definition tick_dist :: "32 word \<Rightarrow> 32 word \<Rightarrow> int" where
  "tick_dist base t = sint (t - base)"

definition in_window :: "32 word \<Rightarrow> 32 word \<Rightarrow> bool" where
  "in_window base t \<longleftrightarrow> - (2 ^ 30) \<le> tick_dist base t \<and> tick_dist base t < 2 ^ 30"

lemma sint_diff_window:
  fixes x y :: "32 word"
  assumes "- (2 ^ 30) \<le> sint x" "sint x < 2 ^ 30" "- (2 ^ 30) \<le> sint y" "sint y < 2 ^ 30"
  shows "sint (x - y) = sint x - sint y"
proof -
  have "signed_take_bit 31 (sint x - sint y) = sint x - sint y"
    using assms by (intro signed_take_bit_int_eq_self) auto
  then show ?thesis by (simp add: sint_word_ariths)
qed

lemma IsDue_window:
  assumes "in_window base a" "in_window base b"
  shows "IsDue a b \<longleftrightarrow> tick_dist base a \<le> tick_dist base b"
proof -
  have "sint (a - b) = sint ((a - base) - (b - base))" by simp
  also have "\<dots> = sint (a - base) - sint (b - base)"
    using assms by (intro sint_diff_window) (auto simp: in_window_def tick_dist_def)
  finally show ?thesis by (simp add: IsDue_def tick_dist_def)
qed

lemma tick_dist_inj: "tick_dist base a = tick_dist base b \<Longrightarrow> a = b"
  by (auto simp: tick_dist_def dest: signed_word_eqI)

section \<open>The table of delayed tasks\<close>

definition due_order :: "32 word \<Rightarrow> 't DelayedTask list \<Rightarrow> bool" where
  "due_order base xs \<longleftrightarrow>
    (\<forall>e \<in> set xs. in_window base (dt_dueTick e)) \<and>
    sorted (map (\<lambda>e. tick_dist base (dt_dueTick e)) xs)"

lemma set_skip_same [simp]: "set (skip_same e xs) = insert e (set xs)"
  by (induction xs) auto

lemma set_insert_delayed [simp]: "set (insert_delayed e xs) = insert e (set xs)"
  by (induction xs) auto

lemma length_skip_same [simp]: "length (skip_same e xs) = Suc (length xs)"
  by (induction xs) auto

lemma length_insert_delayed [simp]: "length (insert_delayed e xs) = Suc (length xs)"
  by (induction xs) auto

lemma skip_same_sorted:
  "due_order base xs \<Longrightarrow> in_window base (dt_dueTick e) \<Longrightarrow>
   (\<forall>x \<in> set xs. tick_dist base (dt_dueTick e) \<le> tick_dist base (dt_dueTick x)) \<Longrightarrow>
   due_order base (skip_same e xs)"
  by (induction xs) (auto simp: due_order_def)

lemma insert_delayed_sorted:
  "due_order base xs \<Longrightarrow> in_window base (dt_dueTick e) \<Longrightarrow> due_order base (insert_delayed e xs)"
proof (induction xs)
  case Nil
  then show ?case by (simp add: due_order_def)
next
  case (Cons x xs)
  have x: "in_window base (dt_dueTick x)" using Cons.prems(1) by (simp add: due_order_def)
  note cmp = IsDue_window [OF Cons.prems(2) x]
  show ?case
  proof (cases "IsDue (dt_dueTick e) (dt_dueTick x)")
    case True
    with cmp Cons.prems(1)
    have "\<forall>y \<in> set (x # xs). tick_dist base (dt_dueTick e) \<le> tick_dist base (dt_dueTick y)"
      by (auto simp: due_order_def)
    with True Cons.prems show ?thesis by (simp del: skip_same.simps add: skip_same_sorted)
  next
    case False
    with cmp Cons show ?thesis by (auto simp: due_order_def)
  qed
qed

lemma insert_goes_first: "goes_first e xs \<Longrightarrow> insert_delayed e xs = e # xs"
  by (cases xs) auto

lemma insert_not_first:
  "\<not> goes_first e xs \<Longrightarrow> xs \<noteq> [] \<and> hd (insert_delayed e xs) = hd xs"
  by (cases xs) (auto simp: IsDue_def)

text \<open>Entries due at the same tick keep the order in which they were posted.\<close>

lemma skip_same_stable:
  "filter (\<lambda>x. dt_dueTick x = dt_dueTick e) (skip_same e xs) =
    takeWhile (\<lambda>x. dt_dueTick x = dt_dueTick e) xs @ e #
    filter (\<lambda>x. dt_dueTick x = dt_dueTick e) (dropWhile (\<lambda>x. dt_dueTick x = dt_dueTick e) xs)"
  by (induction xs) auto

lemma IsDue_dist: "IsDue t base \<longleftrightarrow> tick_dist base t \<le> 0"
  by (simp add: IsDue_def tick_dist_def)

lemma due_order_tail:
  "due_order base (x # xs) \<Longrightarrow> \<not> IsDue (dt_dueTick x) base \<Longrightarrow>
   \<forall>y \<in> set xs. \<not> IsDue (dt_dueTick y) base"
  by (force simp: due_order_def IsDue_dist)

lemma due_take:
  "due_order base xs \<Longrightarrow>
   takeWhile (\<lambda>e. IsDue (dt_dueTick e) base) xs = filter (\<lambda>e. IsDue (dt_dueTick e) base) xs"
proof (induction xs)
  case (Cons x xs)
  with due_order_tail [OF Cons.prems] show ?case
    by (auto simp: filter_empty_conv due_order_def)
qed simp

lemma due_drop:
  "due_order base xs \<Longrightarrow>
   dropWhile (\<lambda>e. IsDue (dt_dueTick e) base) xs = filter (\<lambda>e. \<not> IsDue (dt_dueTick e) base) xs"
proof (induction xs)
  case (Cons x xs)
  with due_order_tail [OF Cons.prems] show ?case
    by (auto simp: due_order_def filter_id_conv)
qed simp

lemma find_remove1:
  "List.find P xs \<noteq> None \<Longrightarrow>
    length (takeWhile (\<lambda>x. \<not> P x) xs @ tl (dropWhile (\<lambda>x. \<not> P x) xs)) + 1 = length xs"
  by (induction xs) auto

section \<open>The ring is a bounded queue\<close>

text \<open>What a user of a queue relies on: items come out in the order in which they were accepted.\<close>

locale fifo =
  fixes put :: "'m \<Rightarrow> 's \<Rightarrow> bool \<times> 's"
    and take :: "'s \<Rightarrow> 'm option \<times> 's"
    and items :: "'s \<Rightarrow> 'm list"
    and ok :: "'s \<Rightarrow> bool"
  assumes put_ok: "ok s \<Longrightarrow> ok (snd (put m s))"
    and put_items: "ok s \<Longrightarrow> items (snd (put m s)) = (if fst (put m s) then items s @ [m] else items s)"
    and take_ok: "ok s \<Longrightarrow> ok (snd (take s))"
    and take_Nil: "ok s \<Longrightarrow> items s = [] \<Longrightarrow> take s = (None, s)"
    and take_Cons: "ok s \<Longrightarrow> items s = x # xs \<Longrightarrow> fst (take s) = Some x \<and> items (snd (take s)) = xs"
begin

text \<open>A run of puts (\<open>Some m\<close>) and takes (\<open>None\<close>): what was accepted, what came out, the end state.\<close>

fun run :: "'m option list \<Rightarrow> 's \<Rightarrow> 'm list \<times> 'm list \<times> 's" where
  "run [] s = ([], [], s)"
| "run (Some m # ops) s =
    (let (i, t) = put m s; (a, out, u) = run ops t in (if i then m # a else a, out, u))"
| "run (None # ops) s =
    (let (r, t) = take s; (a, out, u) = run ops t
     in (a, (case r of None \<Rightarrow> out | Some m \<Rightarrow> m # out), u))"

lemma run_fifo:
  "ok s \<Longrightarrow> run ops s = (accepted, out, t) \<Longrightarrow> items s @ accepted = out @ items t \<and> ok t"
proof (induction ops arbitrary: s accepted out t)
  case (Cons op ops)
  show ?case
  proof (cases op)
    case (Some m)
    obtain a o' v where r: "run ops (snd (put m s)) = (a, o', v)" by (metis prod_cases3)
    from Cons.IH [OF put_ok [OF Cons.prems(1)] r] Cons.prems(2) r Some
      put_items [OF Cons.prems(1), of m]
    show ?thesis by (auto simp: case_prod_beta split: if_splits)
  next
    case None
    obtain a o' v where r: "run ops (snd (take s)) = (a, o', v)" by (metis prod_cases3)
    from Cons.IH [OF take_ok [OF Cons.prems(1)] r] Cons.prems(2) r None
      take_Nil [OF Cons.prems(1)] take_Cons [OF Cons.prems(1)]
    show ?thesis by (cases "items s") (auto simp: case_prod_beta)
  qed
qed simp

end

text \<open>
  \<open>ring_wf\<close>: the ring has one slot more than the queue size; the slots from the head on hold the
  queued messages, the others are empty; \<open>ring_ok\<close>: and the handler runs. \<open>ring_items\<close> reads the queue off the ring.
\<close>

definition ring_at :: "'t LosEventHandler \<Rightarrow> nat \<Rightarrow> 't LosEventMessage option" where
  "ring_at h i = lh_ring h ! ((lh_ringHead h + i) mod length (lh_ring h))"

definition ring_items :: "'t LosEventHandler \<Rightarrow> 't LosEventMessage list" where
  "ring_items h = map (\<lambda>i. the (ring_at h i)) [0..<lh_ringCount h]"

definition ring_wf :: "'t LosEventHandler \<Rightarrow> bool" where
  "ring_wf h \<longleftrightarrow>
    cfg_poster (lh_config h) = None \<and> length (lh_ring h) = cfg_queueSize (lh_config h) + 1 \<and>
    lh_ringHead h < length (lh_ring h) \<and> lh_ringCount h \<le> length (lh_ring h) \<and>
    (\<forall>i < lh_ringCount h. ring_at h i \<noteq> None)"

definition ring_ok :: "'t LosEventHandler \<Rightarrow> bool" where
  "ring_ok h \<longleftrightarrow> lh_state h = STATE_RUNNING \<and> ring_wf h"

lemma mod_add_neq:
  fixes a i j n :: nat
  assumes "i < j" "j < n"
  shows "(a + i) mod n \<noteq> (a + j) mod n"
proof
  assume "(a + i) mod n = (a + j) mod n"
  then have "n dvd (a + j) - (a + i)"
    using assms by (subst mod_eq_dvd_iff_nat [symmetric]) auto
  then have "n dvd j - i" by simp
  with assms show False by (auto dest: dvd_imp_le)
qed

lemma mod_add_inj:
  fixes a i j n :: nat
  shows "i < n \<Longrightarrow> j < n \<Longrightarrow> (a + i) mod n = (a + j) mod n \<longleftrightarrow> i = j"
  by (metis mod_add_neq nat_neq_iff)

definition ring_limit :: "'t LosEventMessage \<Rightarrow> 't LosEventHandler \<Rightarrow> nat" where
  "ring_limit m h = (if m = TIMER_FIRE then length (lh_ring h) else cfg_queueSize (lh_config h))"

definition ring_push :: "'t LosEventMessage \<Rightarrow> 't LosEventHandler \<Rightarrow> 't LosEventHandler" where
  "ring_push m h =
    h\<lparr>lh_ring := (lh_ring h)[(lh_ringHead h + lh_ringCount h) mod length (lh_ring h) := Some m],
      lh_ringCount := lh_ringCount h + 1, lh_queueSem := lh_queueSem h + 1\<rparr>"

lemma Enqueue_run:
  "ring_ok h \<Longrightarrow> run_state (Enqueue m) h =
    (if ring_limit m h \<le> lh_ringCount h then (TELEPHONY_ERR_IPC_CONNECT_STUB_FAIL, h)
     else (TELEPHONY_SUCCESS, ring_push m h))"
  by (simp add: Enqueue_def ring_ok_def ring_wf_def ring_limit_def ring_push_def)

lemma ring_push_at:
  "ring_wf h \<Longrightarrow> lh_ringCount h < length (lh_ring h) \<Longrightarrow> i \<le> lh_ringCount h \<Longrightarrow>
    ring_at (ring_push m h) i = (if i = lh_ringCount h then Some m else ring_at h i)"
  by (auto simp: ring_ok_def ring_wf_def ring_at_def ring_push_def nth_list_update mod_add_inj)

lemma ring_push_simps [simp]:
  "lh_ringCount (ring_push m h) = Suc (lh_ringCount h)" "lh_ringHead (ring_push m h) = lh_ringHead h"
  "length (lh_ring (ring_push m h)) = length (lh_ring h)" "lh_config (ring_push m h) = lh_config h"
  "lh_state (ring_push m h) = lh_state h"
  by (simp_all add: ring_push_def)

lemma ring_limit_room: "ring_ok h \<Longrightarrow> \<not> ring_limit m h \<le> lh_ringCount h \<Longrightarrow> lh_ringCount h < length (lh_ring h)"
  by (auto simp: ring_limit_def ring_ok_def ring_wf_def split: if_splits)

lemma ring_push_wf:
  assumes "ring_wf h" "lh_ringCount h < length (lh_ring h)"
  shows "ring_wf (ring_push m h)"
  using assms ring_push_at [OF assms] by (simp add: ring_wf_def less_Suc_eq_le)

lemma ring_push_items:
  assumes "ring_wf h" "lh_ringCount h < length (lh_ring h)"
  shows "ring_items (ring_push m h) = ring_items h @ [m]"
  using ring_push_at [OF assms] by (simp add: ring_items_def)

lemma ring_ok_wf: "ring_ok h \<Longrightarrow> ring_wf h"
  by (simp add: ring_ok_def)

lemma Enqueue_ok: "ring_ok h \<Longrightarrow> ring_ok (snd (run_state (Enqueue m) h))"
  by (simp add: Enqueue_run) (metis ring_ok_def ring_limit_room ring_push_simps(5) ring_push_wf)

lemma Enqueue_items:
  "ring_ok h \<Longrightarrow> ring_items (snd (run_state (Enqueue m) h)) =
    (if fst (run_state (Enqueue m) h) = TELEPHONY_SUCCESS then ring_items h @ [m] else ring_items h)"
  by (simp add: Enqueue_run) (metis ring_ok_wf ring_limit_room ring_push_items)

lemma PopLocked_run:
  "run_state PopLocked h =
    (if lh_ringCount h = 0 then (None, h)
     else (ring_at h 0, h\<lparr>lh_ring := (lh_ring h)[lh_ringHead h := None],
             lh_ringHead := (lh_ringHead h + 1) mod length (lh_ring h),
             lh_ringCount := lh_ringCount h - 1\<rparr>))"
  if "lh_ringHead h < length (lh_ring h)"
  using that by (simp add: PopLocked_def ring_at_def)

lemma PopLocked_ring_at:
  assumes "ring_wf h" "i + 1 < lh_ringCount h"
  shows "ring_at (snd (run_state PopLocked h)) i = ring_at h (i + 1)"
proof -
  let ?n = "length (lh_ring h)"
  have "lh_ringHead h < ?n" "i + 1 < ?n" using assms by (auto simp: ring_wf_def)
  moreover have "((lh_ringHead h + 1) mod ?n + i) mod ?n = (lh_ringHead h + (i + 1)) mod ?n"
    by (simp add: mod_add_left_eq)
  moreover have "(lh_ringHead h + (i + 1)) mod ?n \<noteq> lh_ringHead h"
    using mod_add_neq [of 0 "i + 1" ?n "lh_ringHead h"] \<open>lh_ringHead h < ?n\<close> \<open>i + 1 < ?n\<close> by simp
  moreover have "lh_ringCount h \<noteq> 0" using assms(2) by simp
  ultimately show ?thesis
    by (simp only: PopLocked_run ring_at_def if_False snd_conv) (simp add: nth_list_update)
qed

lemma PopLocked_wf: "ring_wf h \<Longrightarrow> ring_wf (snd (run_state PopLocked h))"
proof -
  assume ok: "ring_wf h"
  then have "lh_ringHead h < length (lh_ring h)" by (simp add: ring_wf_def)
  note run = PopLocked_run [OF this]
  have "\<forall>i < lh_ringCount h - 1. ring_at (snd (run_state PopLocked h)) i \<noteq> None"
    using PopLocked_ring_at [OF ok] ok by (simp add: ring_wf_def less_diff_conv)
  with ok run show ?thesis by (auto simp: ring_wf_def)
qed

lemma PopLocked_items:
  assumes "ring_wf h" "ring_items h = x # xs"
  shows "fst (run_state PopLocked h) = Some x \<and> ring_items (snd (run_state PopLocked h)) = xs"
proof -
  let ?h = "snd (run_state PopLocked h)"
  have head: "lh_ringHead h < length (lh_ring h)" using assms(1) by (simp add: ring_wf_def)
  note run = PopLocked_run [OF head]
  obtain n where n: "lh_ringCount h = Suc n" using assms(2) by (cases "lh_ringCount h") (auto simp: ring_items_def)
  have split: "[0..<Suc n] = 0 # map Suc [0..<n]" by (simp add: map_Suc_upt upt_conv_Cons del: upt_Suc)
  have "xs = map (\<lambda>i. the (ring_at h (i + 1))) [0..<n]" and x: "x = the (ring_at h 0)"
    using assms(2) unfolding ring_items_def n split by auto
  moreover have "map (\<lambda>i. the (ring_at h (i + 1))) [0..<n] = map (\<lambda>i. the (ring_at ?h i)) [0..<n]"
    using PopLocked_ring_at [OF assms(1)] n by simp
  moreover have "lh_ringCount ?h = n" using n run by simp
  moreover have "ring_at h 0 \<noteq> None" using assms(1) n by (auto simp: ring_wf_def)
  ultimately show ?thesis using n run by (auto simp: ring_items_def)
qed

definition put_message :: "'t LosEventMessage \<Rightarrow> 't LosEventHandler \<Rightarrow> bool \<times> 't LosEventHandler" where
  "put_message m h = (let (r, h') = run_state (Enqueue m) h in (r = TELEPHONY_SUCCESS, h'))"

lemma put_message_simps:
  "fst (put_message m h) = (fst (run_state (Enqueue m) h) = TELEPHONY_SUCCESS)"
  "snd (put_message m h) = snd (run_state (Enqueue m) h)"
  by (simp_all add: put_message_def case_prod_beta)

lemma PopLocked_state [simp]: "lh_state (snd (run_state PopLocked h)) = lh_state h"
  by (simp add: PopLocked_def)

lemma PopLocked_ok: "ring_ok h \<Longrightarrow> ring_ok (snd (run_state PopLocked h))"
  by (simp add: ring_ok_def PopLocked_wf)

lemma PopLocked_items_ok:
  "ring_ok h \<Longrightarrow> ring_items h = x # xs \<Longrightarrow>
    fst (run_state PopLocked h) = Some x \<and> ring_items (snd (run_state PopLocked h)) = xs"
  by (simp add: ring_ok_def PopLocked_items)

interpretation ring: fifo put_message "run_state PopLocked" ring_items ring_ok
proof unfold_locales
  fix h :: "'a LosEventHandler"
  assume "ring_ok h" "ring_items h = []"
  then show "run_state PopLocked h = (None, h)"
    by (simp add: PopLocked_run ring_ok_def ring_wf_def ring_items_def)
qed (simp_all add: put_message_simps Enqueue_ok Enqueue_items PopLocked_ok PopLocked_items_ok)

lemma sint_small:
  fixes x :: "32 word"
  assumes "unat x < 2 ^ 30"
  shows "0 \<le> sint x \<and> sint x < 2 ^ 30"
proof -
  have "int (unat x) < 2 ^ 30" using assms of_nat_less_iff [of "unat x" "2 ^ 30"] by (metis of_nat_numeral of_nat_power)
  then have u: "uint x < 2 ^ 30" by simp
  have "uint x < 2 ^ 31" using u by (rule less_trans) simp
  moreover have "- (2 ^ 31) \<le> uint x" using uint_ge_0 [of x] by (rule order_trans [rotated]) simp
  ultimately have "signed_take_bit 31 (uint x) = uint x"
    by (intro signed_take_bit_int_eq_self)
  then show ?thesis using u by (simp add: sint_uint)
qed

section \<open>The properties of the loop\<close>

text \<open>
  A task that waits in the table is not forgotten: the timer is armed, or its message is on the way.
\<close>

definition timer_ok :: "'t LosEventHandler \<Rightarrow> bool" where
  "timer_ok h \<longleftrightarrow> (lh_delayed h \<noteq> [] \<longrightarrow> lh_timer h \<noteq> None \<or> lh_timerMessageQueued h)"

lemma ArmTimer_ok: "timer_ok (snd (run_state ArmTimerLocked h))"
  by (auto simp: ArmTimerLocked_def timer_ok_def Let_def split: list.splits)

lemma ArmTimer_delayed [simp]: "lh_delayed (snd (run_state ArmTimerLocked h)) = lh_delayed h"
  by (auto simp: ArmTimerLocked_def Let_def split: list.splits)

lemma Enqueue_timer_fields [simp]:
  "lh_delayed (snd (run_state (Enqueue m) h)) = lh_delayed h"
  "lh_timer (snd (run_state (Enqueue m) h)) = lh_timer h"
  "lh_timerMessageQueued (snd (run_state (Enqueue m) h)) = lh_timerMessageQueued h"
  by (simp_all add: Enqueue_def split: option.split)

lemma PostAsync_timer: "timer_ok h \<Longrightarrow> timer_ok (snd (run_state (PostAsyncTask t d) h))"
  by (auto simp: PostAsyncTask_def Let_def ArmTimer_ok case_prod_beta)
    (auto simp: timer_ok_def split: if_splits)

lemma Remove_timer: "timer_ok h \<Longrightarrow> timer_ok (snd (run_state (RemoveAsyncTask i) h))"
  by (auto simp: RemoveAsyncTask_def Let_def ArmTimer_ok case_prod_beta split: option.split)
    (auto simp: timer_ok_def)

lemma TimerExpired_timer:
  "lh_state h = STATE_RUNNING \<Longrightarrow> timer_ok (snd (run_state TimerExpired h))"
  by (auto simp: TimerExpired_def OnTimerExpired_def timer_ok_def case_prod_beta)

lemma RunDue_none_timer: "timer_ok (snd (run_state (RunDueTasks (\<lambda>_. ret ())) h))"
proof -
  have "run_state (for_each xs (\<lambda>e. ret ())) g = ((), g)" for xs :: "'a DelayedTask list" and g :: "'a LosEventHandler"
    by (induction xs) simp_all
  then show ?thesis by (simp add: RunDueTasks_def ArmTimer_ok case_prod_beta)
qed

text \<open>
  A delayed task that was accepted is never stranded: posting, removing, the expiry of the
  one-shot timer and the run of the due tasks all leave a handler in which, if tasks wait in the
  table, the timer is armed or its message is queued.
\<close>

theorem delayed_task_not_stranded:
  assumes "lh_state h = STATE_RUNNING" and "timer_ok h"
  shows "timer_ok (snd (run_state (PostAsyncTask t d) h)) \<and> timer_ok (snd (run_state (RemoveAsyncTask i) h)) \<and>
    timer_ok (snd (run_state TimerExpired h)) \<and> timer_ok (snd (run_state (RunDueTasks (\<lambda>_. ret ())) h))"
  using assms by (simp add: PostAsync_timer Remove_timer TimerExpired_timer RunDue_none_timer)

definition demo_handler :: "nat LosEventHandler" where
  "demo_handler =
    \<lparr>lh_config = DefaultConfig\<lparr>cfg_queueSize := 2\<rparr>, lh_state = STATE_RUNNING, lh_ring = [None, None, None], lh_ringHead = 0,
     lh_ringCount = 0, lh_queueSem = 0, lh_posted = [],
     lh_delayed = [\<lparr>dt_id = 1, dt_dueTick = 0xFFFFFFFF, dt_task = 11\<rparr>, \<lparr>dt_id = 2, dt_dueTick = 5, dt_task = 22\<rparr>],
     lh_lastTaskId = 2, lh_timer = Some 10, lh_timerMessageQueued = False, lh_waiterSems = [0, 0],
     lh_waiterInUse = [False, False], lh_contexts = [], lh_now = 1, lh_tickFreq = 1000\<rparr>"

theorem delayed_task_not_stranded_witness:
  "timer_ok (snd (run_state TimerExpired demo_handler))"
  using delayed_task_not_stranded [of demo_handler 7 3 1] by (simp add: demo_handler_def timer_ok_def)

text \<open>
  C13. The delayed table across the wrap of the 32-bit tick counter: as long as every due tick is
  within 2^30 ticks of now, a post into a table with room keeps it sorted by time, and a run takes
  out exactly the entries that are due, in that order, and runs their tasks after the timer is armed
  for the rest.
\<close>

theorem delayed_table_in_order:
  assumes "due_order (lh_now h) (lh_delayed h)" and "lh_state h = STATE_RUNNING"
    and "length (lh_delayed h) < cfg_maxDelayedTasks (lh_config h)" and "d \<noteq> 0"
    and "0 < unat (TelOsMsToTicks (lh_tickFreq h) d)" and "unat (TelOsMsToTicks (lh_tickFreq h) d) < 2 ^ 30"
  shows "due_order (lh_now h) (lh_delayed (snd (run_state (PostAsyncTask t d) h)))
    \<and> fst (fst (run_state (PostAsyncTask t d) h)) = TELEPHONY_SUCCESS
    \<and> run_state (RunDueTasks run) h =
      run_state (do {
        modify (\<lambda>g. g\<lparr>lh_delayed := filter (\<lambda>e. \<not> IsDue (dt_dueTick e) (lh_now h)) (lh_delayed h)\<rparr>);
        ArmTimerLocked;
        for_each (filter (\<lambda>e. IsDue (dt_dueTick e) (lh_now h)) (lh_delayed h)) (\<lambda>e. run (dt_task e)) }) h"
proof -
  let ?t = "TelOsMsToTicks (lh_tickFreq h) d"
  have "0 \<le> sint ?t \<and> sint ?t < 2 ^ 30" by (rule sint_small [OF assms(6)])
  then have w: "in_window (lh_now h) (lh_now h + ?t)"
    by (simp add: in_window_def tick_dist_def)
  have "?t \<noteq> 0" using assms(5) by auto
  with assms(1-4) w show ?thesis
    by (simp add: PostAsyncTask_def Let_def insert_delayed_sorted case_prod_beta RunDueTasks_def due_take due_drop)
qed

theorem delayed_table_in_order_witness:
  "map dt_task (lh_delayed (snd (run_state (PostAsyncTask 33 2) demo_handler))) = [11, 33, 22]
    \<and> due_order 1 (lh_delayed (snd (run_state (PostAsyncTask 33 2) demo_handler)))"
proof -
  have "due_order 1 (lh_delayed demo_handler)"
    by (simp add: demo_handler_def due_order_def in_window_def tick_dist_def)
  moreover have "unat (TelOsMsToTicks 1000 2) = 2"
    by (simp add: TelOsMsToTicks_def TEL_OS_WAIT_FOREVER_def TEL_OS_MAX_FINITE_TICKS_def Let_def)
  ultimately have "due_order 1 (lh_delayed (snd (run_state (PostAsyncTask 33 2) demo_handler)))"
    using delayed_table_in_order [of demo_handler 2 33 "\<lambda>_. ret ()"]
    by (simp add: demo_handler_def DefaultConfig_def MINI_MAX_DELAYED_TASKS_def)
  then show ?thesis
    by (simp add: demo_handler_def PostAsyncTask_def Let_def DefaultConfig_def MINI_MAX_DELAYED_TASKS_def
      TelOsMsToTicks_def TEL_OS_WAIT_FOREVER_def TEL_OS_MAX_FINITE_TICKS_def IsDue_def NextTaskId_def)
qed

text \<open>
  The queue of a running self-driven handler is first in, first out and bounded: over any run of
  posts and takes on the ring, what was queued before followed by what was accepted is what came out
  followed by what is still queued, and the ring stays well formed (at most the queue size plus the
  slot kept for the timer message).
\<close>

theorem loop_queue_fifo:
  assumes "ring_ok h" and "ring.run ops h = (accepted, out, t)"
  shows "ring_items h @ accepted = out @ ring_items t \<and> length (ring_items t) \<le> cfg_queueSize (lh_config t) + 1"
  using ring.run_fifo [OF assms] by (simp add: ring_ok_def ring_wf_def ring_items_def)

theorem loop_queue_fifo_witness:
  "ring.run [Some (ASYNC_TASK 1), Some (ASYNC_TASK 2), None] demo_handler =
     ([ASYNC_TASK 1, ASYNC_TASK 2], [ASYNC_TASK 1],
      snd (snd (ring.run [Some (ASYNC_TASK 1), Some (ASYNC_TASK 2), None] demo_handler)))
   \<and> ring_items (snd (snd (ring.run [Some (ASYNC_TASK 1), Some (ASYNC_TASK 2), None] demo_handler))) = [ASYNC_TASK 2]"
proof -
  have ok: "ring_ok demo_handler"
    by (simp add: ring_ok_def ring_wf_def demo_handler_def DefaultConfig_def)
  have items: "ring_items demo_handler = []" by (simp add: ring_items_def demo_handler_def)
  have run: "ring.run [Some (ASYNC_TASK 1), Some (ASYNC_TASK 2), None] demo_handler =
     ([ASYNC_TASK 1, ASYNC_TASK 2], [ASYNC_TASK 1],
      snd (snd (ring.run [Some (ASYNC_TASK 1), Some (ASYNC_TASK 2), None] demo_handler)))"
    by (simp add: put_message_def Enqueue_def PopLocked_run ring_at_def demo_handler_def DefaultConfig_def)
  from loop_queue_fifo [OF ok run] run items show ?thesis by simp
qed

end
