(* ===== verification/Cm_State.thy ===== *)
theory Cm_State
  imports Call_Base Event_Loop
begin

text \<open>
  The state all components of the call manager share. Every singleton and static member of the
  sources that an operation reads or writes is a field of one record \<open>cm\<close>; call objects live in an
  explicit heap, because the code holds references to calls that have left the table (a rejected
  call, a call that was replaced) and goes on using them. \<open>sptr<CallBase>\<close> is an address or, for
  \<open>nullptr\<close>, \<open>None\<close>.

  What is outside the repository is a parameter: the protocol stack, the SIM service and the audio
  implementation that a product registers. Their answers are functions of the commands sent to them
  so far, in \<open>cm_env\<close>; the commands are recorded in order.
\<close>

section \<open>The world outside\<close>

datatype stack_cmd =
    SC_Dial CellularCallInfo
  | SC_HangUp CellularCallInfo CallSupplementType
  | SC_Reject CellularCallInfo
  | SC_Answer CellularCallInfo
  | SC_HoldCall CellularCallInfo
  | SC_UnHoldCall CellularCallInfo
  | SC_SwitchCall CellularCallInfo
  | SC_IsEmergency int string
  | SC_HangUpAll
  | SC_RegisterCallback
  | SC_UnRegisterCallback

datatype audio_cmd =
    AC_StartRingtone
  | AC_StopRingtone
  | AC_PlayWaitingTone
  | AC_StopWaitingTone
  | AC_SetCallAudioActive bool

text \<open>
  A query with an output argument answers a code and, when it wrote the argument, its value. The
  answer to the last command of a list of commands is a function of the list.
\<close>

record env =
  e_hasStack :: bool
  e_stackReply :: "stack_cmd list \<Rightarrow> ErrCode"
  e_emergency :: "stack_cmd list \<Rightarrow> ErrCode \<times> bool option"
  e_hasCoreService :: bool
  e_hasSimCard :: "int \<Rightarrow> ErrCode \<times> bool option"
  e_inService :: "int \<Rightarrow> ErrCode \<times> bool option"
  e_hasAudio :: bool
  e_audioReply :: "audio_cmd list \<Rightarrow> ErrCode"

section \<open>Tasks of the main loop\<close>

datatype RBTPlayInfo = NETWORK_ALERTING | LOCAL_ALERTING | RBTPlayInfo_raw int

text \<open>
  The closures the code posts, as data. A callback is named by a number; the report proxy hands the
  callback it holds to the task, so that a later registration does not redirect a queued report.
\<close>

datatype task =
    T_AnswerRequest int int bool
  | T_RejectRequest int bool string
  | T_HangUpRequest int
  | T_HoldRequest int
  | T_UnHoldRequest int
  | T_SwitchRequest int
  | T_RestoreDialingFlag
  | T_PendingHangupProtect int
  | T_ReportCallState nat CallAttributeInfo
  | T_ReportCallEvent nat CallEventInfo
  | T_ReportDisconnectedCause nat DisconnectedDetails
  | T_RegisterCallbackOnLoop
  | T_UpdateCallReportInfo CallReportInfo
  | T_UpdateCallsReportInfo CallsReportInfo
  | T_UpdateDisconnectedCause DisconnectedDetails
  | T_UpdateEventResultInfo CellularCallEventInfo
  | T_UpdateRBTPlayInfo RBTPlayInfo

datatype app_report =
    OnCallDetailsChange nat CallAttributeInfo
  | OnCallEventChange nat CallEventInfo
  | OnCallDisconnectedCause nat DisconnectedDetails

section \<open>The state\<close>

text \<open>\<open>CallRequestEventHandlerHelper\<close>\<close>

record helper =
  hp_isDialingCallProcessing :: bool
  hp_restoreTaskId :: "32 word"
  hp_pendingMo :: bool
  hp_pendingMoCallId :: int
  hp_pendingHangup :: bool
  hp_pendingHangupCallId :: int

definition helper_init :: helper where
  "helper_init = \<lparr>hp_isDialingCallProcessing = False, hp_restoreTaskId = 0, hp_pendingMo = False,
     hp_pendingMoCallId = -1, hp_pendingHangup = False, hp_pendingHangupCallId = -1\<rparr>"

text \<open>\<open>CallStatusManager\<close>: the last batch of reports per slot, and the batch being handled.\<close>

record status =
  st_callDetailsInfo :: "int \<Rightarrow> CallDetailsInfo"
  st_tmpCallDetailsInfo :: "int \<Rightarrow> CallDetailsInfo"
  st_callReportInfo :: CallDetailInfo

text \<open>\<open>AudioControlManager\<close>\<close>

record audio =
  au_ringtonePlaying :: bool
  au_waitingTonePlaying :: bool
  au_callAudioActive :: bool
  au_unavailableLogged :: bool

definition audio_init :: audio where
  "audio_init = \<lparr>au_ringtonePlaying = False, au_waitingTonePlaying = False, au_callAudioActive = False,
     au_unavailableLogged = False\<rparr>"

text \<open>\<open>CellularCallConnection\<close> and the ready listener it adds to the registry\<close>

record connection =
  cn_initialized :: bool
  cn_callbackRegistered :: bool
  cn_hasCallback :: bool
  cn_listening :: bool

datatype observer = CallAbilityReportProxy | AudioControlManager

text \<open>
  \<open>cm_listener\<close> is \<open>callStateListenerPtr_\<close> with its set of observers, \<open>cm_requestHandler\<close> says
  whether \<open>CallRequestHandlerPtr_\<close> is set, \<open>cm_status\<close> is \<open>callStatusManagerPtr_\<close> of the report
  handler, \<open>cm_callback\<close> the registered application callback with its bundle name, \<open>cm_ready\<close> and
  \<open>cm_hasControl\<close> are \<open>ready_\<close> of the service and whether its \<open>callControlManagerPtr_\<close> is set.
\<close>

record cm =
  cm_env :: env
  cm_now :: int
  cm_heap :: "nat \<Rightarrow> call"
  cm_nextAddr :: nat
  cm_callList :: "nat list"
  cm_callId :: int
  cm_isFirstDialCallAdded :: bool
  cm_needWaitHold :: bool
  cm_dialCallInfo :: CellularCallInfo
  cm_csConference :: ConferenceBase
  cm_imsConference :: ConferenceBase
  cm_helper :: helper
  cm_dialSrcInfo :: DialParaInfo
  cm_extras :: PacMap
  cm_listener :: "observer list option"
  cm_requestHandler :: bool
  cm_pendingHangupTaskId :: "32 word"
  cm_status :: "status option"
  cm_audio :: audio
  cm_callback :: "(nat \<times> string) option"
  cm_connection :: connection
  cm_ready :: bool
  cm_hasControl :: bool
  cm_loop :: "task LosEventHandler"
  cm_stackOut :: "stack_cmd list"
  cm_audioOut :: "audio_cmd list"
  cm_appOut :: "app_report list"

type_synonym 'a cmM = "(cm, 'a) state"

section \<open>Access to the heap and to the parts\<close>

definition getCall :: "nat \<Rightarrow> call cmM" where
  "getCall a = gets (\<lambda>s. cm_heap s a)"

definition updCall :: "nat \<Rightarrow> (call \<Rightarrow> call) \<Rightarrow> unit cmM" where
  "updCall a f = modify (\<lambda>s. s\<lparr>cm_heap := (cm_heap s)(a := f (cm_heap s a))\<rparr>)"

text \<open>An operation of the object that returns a code.\<close>

definition onCall :: "nat \<Rightarrow> (call \<Rightarrow> ErrCode \<times> call) \<Rightarrow> ErrCode cmM" where
  "onCall a f = do { c \<leftarrow> getCall a; let (r, c') = f c; updCall a (\<lambda>_. c'); ret r }"

definition newCall :: "call \<Rightarrow> nat cmM" where
  "newCall c = do {
     a \<leftarrow> gets cm_nextAddr;
     modify (\<lambda>s. s\<lparr>cm_heap := (cm_heap s)(a := c), cm_nextAddr := a + 1\<rparr>);
     ret a
   }"

definition call_SetTelCallState :: "nat \<Rightarrow> TelCallState \<Rightarrow> ErrCode cmM" where
  "call_SetTelCallState a nextState = do {
     now \<leftarrow> gets cm_now;
     onCall a (SetTelCallState now nextState)
   }"

definition onHelper :: "(helper \<Rightarrow> helper) \<Rightarrow> unit cmM" where
  "onHelper f = modify (\<lambda>s. s\<lparr>cm_helper := f (cm_helper s)\<rparr>)"

text \<open>Run an operation of the main loop.\<close>

definition onLoop :: "(task LosEventHandler, 'a) state \<Rightarrow> 'a cmM" where
  "onLoop m = State (\<lambda>s. let (x, h) = run_state m (cm_loop s) in (x, s\<lparr>cm_loop := h\<rparr>))"

definition post :: "task \<Rightarrow> ErrCode cmM" where
  "post t = do { (r, _) \<leftarrow> onLoop (PostAsyncTask t 0); ret r }"

text \<open>The calls of the table, in its order.\<close>

definition calls :: "cm \<Rightarrow> call list" where
  "calls s = map (cm_heap s) (cm_callList s)"

lemma run_getCall [simp]: "run_state (getCall a) s = (cm_heap s a, s)"
  by (simp add: getCall_def)

lemma run_updCall [simp]: "run_state (updCall a f) s = ((), s\<lparr>cm_heap := (cm_heap s)(a := f (cm_heap s a))\<rparr>)"
  by (simp add: updCall_def)

lemma run_onCall [simp]:
  "run_state (onCall a f) s = (fst (f (cm_heap s a)), s\<lparr>cm_heap := (cm_heap s)(a := snd (f (cm_heap s a)))\<rparr>)"
  by (simp add: onCall_def case_prod_beta)

lemma run_newCall [simp]:
  "run_state (newCall c) s =
    (cm_nextAddr s, s\<lparr>cm_heap := (cm_heap s)(cm_nextAddr s := c), cm_nextAddr := cm_nextAddr s + 1\<rparr>)"
  by (simp add: newCall_def)

lemma run_onHelper [simp]: "run_state (onHelper f) s = ((), s\<lparr>cm_helper := f (cm_helper s)\<rparr>)"
  by (simp add: onHelper_def)

lemma run_onLoop [simp]:
  "run_state (onLoop m) s = (fst (run_state m (cm_loop s)), s\<lparr>cm_loop := snd (run_state m (cm_loop s))\<rparr>)"
  by (simp add: onLoop_def case_prod_beta Let_def)

lemma run_post [simp]:
  "run_state (post t) s = (fst (fst (run_state (PostAsyncTask t 0) (cm_loop s))),
     s\<lparr>cm_loop := snd (run_state (PostAsyncTask t 0) (cm_loop s))\<rparr>)"
  by (simp add: post_def case_prod_beta)

end
