(* ===== verification/Stack_Connection.thy ===== *)
theory Stack_Connection
  imports Cm_State
begin

text \<open>
  The way to the protocol stack and the SIM service:
  \<open>services/telephony_interaction/src/mini/cellular_call_connection.cpp\<close>, \<open>core_service_client.cpp\<close>
  and the stack part of \<open>utils/mini/src/tel_mini_registry.cpp\<close>; and the commands of one call,
  \<open>carrier_call.cpp\<close>, \<open>cs_call.cpp\<close> and \<open>ims_call.cpp\<close>.

  A product registers a stack at run time, so \<open>e_hasStack\<close> changes; what the registered stack
  answers is a parameter.
\<close>

section \<open>Commands to the stack\<close>

text \<open>\<open>GetStack\<close> followed by the call of one method of the stack.\<close>

definition stack_call :: "stack_cmd \<Rightarrow> ErrCode cmM" where
  "stack_call c = do {
     s \<leftarrow> gets id;
     if \<not> e_hasStack (cm_env s) then ret TELEPHONY_ERR_IPC_CONNECT_STUB_FAIL
     else do {
       modify (\<lambda>s. s\<lparr>cm_stackOut := cm_stackOut s @ [c]\<rparr>);
       s \<leftarrow> gets id;
       ret (e_stackReply (cm_env s) (cm_stackOut s))
     }
   }"

definition Conn_Dial :: "CellularCallInfo \<Rightarrow> ErrCode cmM" where
  "Conn_Dial callInfo = stack_call (SC_Dial callInfo)"

definition Conn_HangUp :: "CellularCallInfo \<Rightarrow> CallSupplementType \<Rightarrow> ErrCode cmM" where
  "Conn_HangUp callInfo t = stack_call (SC_HangUp callInfo t)"

definition Conn_Reject :: "CellularCallInfo \<Rightarrow> ErrCode cmM" where
  "Conn_Reject callInfo = stack_call (SC_Reject callInfo)"

definition Conn_Answer :: "CellularCallInfo \<Rightarrow> ErrCode cmM" where
  "Conn_Answer callInfo = stack_call (SC_Answer callInfo)"

definition Conn_HoldCall :: "CellularCallInfo \<Rightarrow> ErrCode cmM" where
  "Conn_HoldCall callInfo = stack_call (SC_HoldCall callInfo)"

definition Conn_UnHoldCall :: "CellularCallInfo \<Rightarrow> ErrCode cmM" where
  "Conn_UnHoldCall callInfo = stack_call (SC_UnHoldCall callInfo)"

definition Conn_SwitchCall :: "CellularCallInfo \<Rightarrow> ErrCode cmM" where
  "Conn_SwitchCall callInfo = stack_call (SC_SwitchCall callInfo)"

definition Conn_HangUpAllConnection :: "ErrCode cmM" where
  "Conn_HangUpAllConnection = stack_call SC_HangUpAll"

text \<open>The query writes \<open>enabled\<close> or leaves it as it was: the old value is an argument.\<close>

definition Conn_IsEmergencyPhoneNumber :: "string \<Rightarrow> int \<Rightarrow> bool \<Rightarrow> (ErrCode \<times> bool) cmM" where
  "Conn_IsEmergencyPhoneNumber phoneNum slotId enabled = do {
     s \<leftarrow> gets id;
     if \<not> e_hasStack (cm_env s) then ret (TELEPHONY_ERR_IPC_CONNECT_STUB_FAIL, enabled)
     else do {
       modify (\<lambda>s. s\<lparr>cm_stackOut := cm_stackOut s @ [SC_IsEmergency slotId phoneNum]\<rparr>);
       s \<leftarrow> gets id;
       let (r, v) = e_emergency (cm_env s) (cm_stackOut s);
       ret (r, case v of None \<Rightarrow> enabled | Some b \<Rightarrow> b)
     }
   }"

text \<open>What the mini system does not support is refused without a word to the stack.\<close>

definition NotSupported :: ErrCode where
  "NotSupported = CALL_ERR_FUNCTION_NOT_SUPPORTED"

section \<open>The SIM service\<close>

definition HasSimCard :: "int \<Rightarrow> bool \<Rightarrow> cm \<Rightarrow> ErrCode \<times> bool" where
  "HasSimCard slotId hasSimCard s =
    (if \<not> e_hasCoreService (cm_env s) then (TELEPHONY_ERR_IPC_CONNECT_STUB_FAIL, hasSimCard)
     else let (r, v) = e_hasSimCard (cm_env s) slotId
          in (r, case v of None \<Rightarrow> hasSimCard | Some b \<Rightarrow> b))"

definition IsNetworkInService :: "int \<Rightarrow> bool \<Rightarrow> cm \<Rightarrow> ErrCode \<times> bool" where
  "IsNetworkInService slotId inService s =
    (if \<not> e_hasCoreService (cm_env s) then (TELEPHONY_ERR_IPC_CONNECT_STUB_FAIL, inService)
     else let (r, v) = e_inService (cm_env s) slotId
          in (r, case v of None \<Rightarrow> inService | Some b \<Rightarrow> b))"

section \<open>The uplink registration\<close>

definition onConnection :: "(connection \<Rightarrow> connection) \<Rightarrow> unit cmM" where
  "onConnection f = modify (\<lambda>s. s\<lparr>cm_connection := f (cm_connection s)\<rparr>)"

definition OnStackReady :: "unit cmM" where
  "OnStackReady = ignore (post T_RegisterCallbackOnLoop)"

text \<open>
  The listener table of the registry: the connection is the only listener of the program, so the
  table is one bit and never full.
\<close>

definition AddReadyListener :: "bool cmM" where
  "AddReadyListener = do {
     onConnection (\<lambda>n. n\<lparr>cn_listening := True\<rparr>);
     e \<leftarrow> gets cm_env;
     whenM (e_hasStack e) OnStackReady;
     ret True
   }"

definition RemoveReadyListener :: "unit cmM" where
  "RemoveReadyListener = onConnection (\<lambda>n. n\<lparr>cn_listening := False\<rparr>)"

text \<open>A product registers its stack (or, with \<open>nullptr\<close>, takes it away).\<close>

definition Registry_Register :: "bool \<Rightarrow> unit cmM" where
  "Registry_Register present = do {
     modify (\<lambda>s. s\<lparr>cm_env := (cm_env s)\<lparr>e_hasStack := present\<rparr>\<rparr>);
     n \<leftarrow> gets cm_connection;
     whenM (present \<and> cn_listening n) OnStackReady
   }"

definition Conn_Init :: "unit cmM" where
  "Conn_Init = do {
     n \<leftarrow> gets cm_connection;
     whenM (\<not> cn_initialized n) (do {
       onConnection (\<lambda>n. n\<lparr>cn_initialized := True\<rparr>);
       ignore AddReadyListener
     })
   }"

definition Conn_UnInit :: "unit cmM" where
  "Conn_UnInit = do {
     RemoveReadyListener;
     onConnection (\<lambda>n. n\<lparr>cn_initialized := False\<rparr>);
     n \<leftarrow> gets cm_connection;
     whenM (cn_callbackRegistered n) (do {
       ignore (stack_call SC_UnRegisterCallback);
       onConnection (\<lambda>n. n\<lparr>cn_callbackRegistered := False\<rparr>)
     });
     onConnection (\<lambda>n. n\<lparr>cn_hasCallback := False\<rparr>)
   }"

definition RegisterCallbackOnLoop :: "unit cmM" where
  "RegisterCallbackOnLoop = do {
     s \<leftarrow> gets id;
     if \<not> cn_initialized (cm_connection s) \<or> cn_callbackRegistered (cm_connection s) then ret ()
     else if \<not> e_hasStack (cm_env s) then ret ()
     else do {
       onConnection (\<lambda>n. n\<lparr>cn_hasCallback := True\<rparr>);
       r \<leftarrow> stack_call SC_RegisterCallback;
       whenM (r = TELEPHONY_SUCCESS) (onConnection (\<lambda>n. n\<lparr>cn_callbackRegistered := True\<rparr>))
     }
   }"

section \<open>Commands of one call\<close>

text \<open>The commands are packed whether or not the number fits; a pack error is only logged.\<close>

definition packed :: "nat \<Rightarrow> CellularCallInfo cmM" where
  "packed a = gets (\<lambda>s. snd (CarrierCall_PackCellularCallInfo (cm_heap s a)))"

definition refused_as :: "ErrCode \<Rightarrow> ErrCode \<Rightarrow> ErrCode" where
  "refused_as e r = (if r \<noteq> TELEPHONY_SUCCESS then e else TELEPHONY_SUCCESS)"

definition CarrierAnswerCall :: "nat \<Rightarrow> int \<Rightarrow> bool \<Rightarrow> ErrCode cmM" where
  "CarrierAnswerCall a videoState isRTT = do {
     c \<leftarrow> getCall a;
     if AnswerCallBase c \<noteq> TELEPHONY_SUCCESS then ret CALL_ERR_ANSWER_FAILED
     else do {
       callInfo \<leftarrow> packed a;
       r \<leftarrow> Conn_Answer (callInfo\<lparr>ci_videoState := videoState, ci_isRTT := isRTT\<rparr>);
       ret (refused_as CALL_ERR_ANSWER_FAILED r)
     }
   }"

definition CarrierRejectCall :: "nat \<Rightarrow> ErrCode cmM" where
  "CarrierRejectCall a = do {
     r \<leftarrow> onCall a RejectCallBase;
     if r \<noteq> TELEPHONY_SUCCESS then ret r
     else do {
       callInfo \<leftarrow> packed a;
       r \<leftarrow> Conn_HangUp callInfo TYPE_DEFAULT;
       ret (refused_as CALL_ERR_REJECT_FAILED r)
     }
   }"

definition hang_up_type :: "64 word \<Rightarrow> CallSupplementType" where
  "hang_up_type policyFlag =
    (if and policyFlag POLICY_FLAG_HANG_UP_ACTIVE \<noteq> 0 then TYPE_HANG_UP_ACTIVE
     else if and policyFlag POLICY_FLAG_HANG_UP_HOLD_WAIT \<noteq> 0 then TYPE_HANG_UP_HOLD_WAIT
     else TYPE_DEFAULT)"

definition CarrierHangUpCall :: "nat \<Rightarrow> ErrCode cmM" where
  "CarrierHangUpCall a = do {
     callInfo \<leftarrow> packed a;
     c \<leftarrow> getCall a;
     r \<leftarrow> Conn_HangUp callInfo (hang_up_type (cb_policyFlag c));
     ret (refused_as CALL_ERR_HANGUP_FAILED r)
   }"

definition CarrierHoldCall :: "nat \<Rightarrow> ErrCode cmM" where
  "CarrierHoldCall a = do {
     callInfo \<leftarrow> packed a;
     r \<leftarrow> Conn_HoldCall callInfo;
     ret (refused_as CALL_ERR_HOLD_FAILED r)
   }"

definition CarrierUnHoldCall :: "nat \<Rightarrow> ErrCode cmM" where
  "CarrierUnHoldCall a = do {
     callInfo \<leftarrow> packed a;
     r \<leftarrow> Conn_UnHoldCall callInfo;
     ret (refused_as CALL_ERR_UNHOLD_FAILED r)
   }"

definition CarrierSwitchCall :: "nat \<Rightarrow> ErrCode cmM" where
  "CarrierSwitchCall a = do {
     callInfo \<leftarrow> packed a;
     r \<leftarrow> Conn_SwitchCall callInfo;
     ret (refused_as CALL_ERR_UNHOLD_FAILED r)
   }"

definition CarrierDialingProcess :: "nat \<Rightarrow> ErrCode cmM" where
  "CarrierDialingProcess a = do {
     r \<leftarrow> onCall a DialCallBase;
     whenM (r \<noteq> TELEPHONY_SUCCESS) (ignore (CarrierHangUpCall a));
     ret r
   }"

section \<open>The virtual operations of \<open>CSCall\<close> and \<open>IMSCall\<close>\<close>

text \<open>A circuit-switched call drops the RTT request.\<close>

definition call_AnswerCall :: "nat \<Rightarrow> int \<Rightarrow> bool \<Rightarrow> ErrCode cmM" where
  "call_AnswerCall a videoState isRTT = do {
     c \<leftarrow> getCall a;
     case cb_class c of
       CSCall \<Rightarrow> CarrierAnswerCall a videoState False
     | IMSCall \<Rightarrow> CarrierAnswerCall a videoState isRTT
   }"

text \<open>Each class has its own conference; the operation answers a code and the new conference.\<close>

definition getConference :: "CallClass \<Rightarrow> ConferenceBase cmM" where
  "getConference k = gets (case k of CSCall \<Rightarrow> cm_csConference | IMSCall \<Rightarrow> cm_imsConference)"

definition onConference :: "CallClass \<Rightarrow> (ConferenceBase \<Rightarrow> ErrCode \<times> ConferenceBase) \<Rightarrow> ErrCode cmM" where
  "onConference k f = do {
     f \<leftarrow> gets (\<lambda>s. f (case k of CSCall \<Rightarrow> cm_csConference s | IMSCall \<Rightarrow> cm_imsConference s));
     modify (\<lambda>s. case k of CSCall \<Rightarrow> s\<lparr>cm_csConference := snd f\<rparr> | IMSCall \<Rightarrow> s\<lparr>cm_imsConference := snd f\<rparr>);
     ret (fst f)
   }"

definition SetTelConferenceState :: "nat \<Rightarrow> TelConferenceState \<Rightarrow> unit cmM" where
  "SetTelConferenceState a st = updCall a (\<lambda>c. c\<lparr>cb_conferenceState := st\<rparr>)"

definition CSCall_LaunchConference :: "nat \<Rightarrow> ErrCode cmM" where
  "CSCall_LaunchConference a = do {
     ignore (onConference CSCall (\<lambda>f. (TELEPHONY_SUCCESS, SetConferenceState CONFERENCE_STATE_IDLE f)));
     c \<leftarrow> getCall a;
     now \<leftarrow> gets cm_now;
     r \<leftarrow> onConference CSCall (CsConference_JoinToConference now (cb_callId c));
     whenM (r = TELEPHONY_SUCCESS) (SetTelConferenceState a TEL_CONFERENCE_ACTIVE);
     ret r
   }"

definition IMSCall_LaunchConference :: "nat \<Rightarrow> ErrCode cmM" where
  "IMSCall_LaunchConference a = do {
     c \<leftarrow> getCall a;
     now \<leftarrow> gets cm_now;
     r \<leftarrow> onConference IMSCall (ImsConference_JoinToConference now (cb_callId c));
     whenM (r = TELEPHONY_SUCCESS) (SetTelConferenceState a TEL_CONFERENCE_ACTIVE);
     ret r
   }"

definition call_LaunchConference :: "nat \<Rightarrow> ErrCode cmM" where
  "call_LaunchConference a = do {
     c \<leftarrow> getCall a;
     case cb_class c of CSCall \<Rightarrow> CSCall_LaunchConference a | IMSCall \<Rightarrow> IMSCall_LaunchConference a
   }"

definition CSCall_ExitConference :: "nat \<Rightarrow> ErrCode cmM" where
  "CSCall_ExitConference a = do {
     c \<leftarrow> getCall a;
     r \<leftarrow> onConference CSCall (CsConference_LeaveFromConference (cb_callId c));
     whenM (r = TELEPHONY_SUCCESS) (SetTelConferenceState a TEL_CONFERENCE_IDLE);
     ret r
   }"

definition IMSCall_ExitConference :: "nat \<Rightarrow> ErrCode cmM" where
  "IMSCall_ExitConference a = do {
     c \<leftarrow> getCall a;
     r \<leftarrow> onConference IMSCall (ImsConference_LeaveFromConference (cb_callId c));
     whenM (r = TELEPHONY_SUCCESS) (SetTelConferenceState a TEL_CONFERENCE_IDLE);
     ret r
   }"

definition call_ExitConference :: "nat \<Rightarrow> ErrCode cmM" where
  "call_ExitConference a = do {
     c \<leftarrow> getCall a;
     case cb_class c of CSCall \<Rightarrow> CSCall_ExitConference a | IMSCall \<Rightarrow> IMSCall_ExitConference a
   }"

definition CSCall_HoldConference :: "nat \<Rightarrow> ErrCode cmM" where
  "CSCall_HoldConference a = do {
     c \<leftarrow> getCall a;
     r \<leftarrow> onConference CSCall (CsConference_HoldConference (cb_callId c));
     whenM (r = TELEPHONY_SUCCESS) (SetTelConferenceState a TEL_CONFERENCE_HOLDING);
     ret r
   }"

definition IMSCall_HoldConference :: "nat \<Rightarrow> ErrCode cmM" where
  "IMSCall_HoldConference a = do {
     c \<leftarrow> getCall a;
     r \<leftarrow> onConference IMSCall (ImsConference_HoldConference (cb_callId c));
     whenM (r = TELEPHONY_SUCCESS) (SetTelConferenceState a TEL_CONFERENCE_HOLDING);
     ret r
   }"

definition call_HoldConference :: "nat \<Rightarrow> ErrCode cmM" where
  "call_HoldConference a = do {
     c \<leftarrow> getCall a;
     case cb_class c of CSCall \<Rightarrow> CSCall_HoldConference a | IMSCall \<Rightarrow> IMSCall_HoldConference a
   }"

text \<open>After a failed merge: the least sub call becomes the main call, the old state comes back.\<close>

definition combine_failed :: "ConferenceBase \<Rightarrow> ErrCode \<times> ConferenceBase" where
  "combine_failed f =
    (let f = snd (SetMainCall (if cf_subCallIdSet f = {} then ERR_ID else Min (cf_subCallIdSet f)) f)
     in (TELEPHONY_SUCCESS, SetConferenceState (cf_oldState f) f))"

definition call_HandleCombineConferenceFailEvent :: "nat \<Rightarrow> unit cmM" where
  "call_HandleCombineConferenceFailEvent a = do {
     c \<leftarrow> getCall a;
     ignore (onConference (cb_class c) combine_failed)
   }"

definition CSCall_UpdateConferenceId :: "int \<Rightarrow> unit cmM" where
  "CSCall_UpdateConferenceId callId =
     ignore (onConference CSCall (\<lambda>f. (TELEPHONY_SUCCESS, CsConference_UpdateConferenceId callId f)))"

section \<open>How the commands run\<close>

lemma run_stack_call [simp]:
  "run_state (stack_call c) s =
    (if e_hasStack (cm_env s)
     then (e_stackReply (cm_env s) (cm_stackOut s @ [c]), s\<lparr>cm_stackOut := cm_stackOut s @ [c]\<rparr>)
     else (TELEPHONY_ERR_IPC_CONNECT_STUB_FAIL, s))"
  by (simp add: stack_call_def)

lemma run_packed [simp]: "run_state (packed a) s = (snd (CarrierCall_PackCellularCallInfo (cm_heap s a)), s)"
  by (simp add: packed_def)

lemma run_onConnection [simp]: "run_state (onConnection f) s = ((), s\<lparr>cm_connection := f (cm_connection s)\<rparr>)"
  by (simp add: onConnection_def)

lemma run_onConference [simp]:
  "run_state (onConference CSCall f) s = (fst (f (cm_csConference s)), s\<lparr>cm_csConference := snd (f (cm_csConference s))\<rparr>)"
  "run_state (onConference IMSCall f) s = (fst (f (cm_imsConference s)), s\<lparr>cm_imsConference := snd (f (cm_imsConference s))\<rparr>)"
  by (simp_all add: onConference_def)

lemma run_SetTelConferenceState [simp]:
  "run_state (SetTelConferenceState a st) s =
    ((), s\<lparr>cm_heap := (cm_heap s)(a := (cm_heap s a)\<lparr>cb_conferenceState := st\<rparr>)\<rparr>)"
  by (simp add: SetTelConferenceState_def)

lemmas conn_defs = Conn_Dial_def Conn_HangUp_def Conn_Reject_def Conn_Answer_def Conn_HoldCall_def
  Conn_UnHoldCall_def Conn_SwitchCall_def Conn_HangUpAllConnection_def

lemmas carrier_defs = CarrierAnswerCall_def CarrierRejectCall_def CarrierHangUpCall_def CarrierHoldCall_def
  CarrierUnHoldCall_def CarrierSwitchCall_def CarrierDialingProcess_def call_AnswerCall_def conn_defs

text \<open>
  A launch can never succeed: nothing moves a conference out of \<open>CONFERENCE_STATE_IDLE\<close> before a
  join, and a join in that state is refused.
\<close>

lemma CSCall_LaunchConference_refused:
  "run_state (CSCall_LaunchConference a) s =
    (CALL_ERR_ILLEGAL_CALL_OPERATION,
     s\<lparr>cm_csConference := SetConferenceState CONFERENCE_STATE_IDLE (cm_csConference s)\<rparr>)"
  by (simp add: CSCall_LaunchConference_def CsConference_JoinToConference_def SetConferenceState_def)

end
