(* ===== verification/Number_Utils.thy ===== *)
theory Number_Utils
  imports Call_Types "HOL-Library.Char_ord"
begin

text \<open>
  The pure string helpers: \<open>utils/mini/src/call_number_utils.cpp\<close> (number clean-up, slot check)
  and \<open>utils/mini/src/call_permission_adapter.cpp\<close> (the build-time trust model). What of
  \<open>CallNumberUtils\<close> asks the protocol stack is in the theory of the stack connection.
\<close>

section \<open>Number clean-up\<close>

definition is_dial_char :: "char \<Rightarrow> bool" where
  "is_dial_char c \<longleftrightarrow>
    (CHR ''0'' \<le> c \<and> c \<le> CHR ''9'') \<or> c = CHR ''*'' \<or> c = CHR ''#'' \<or> c = CHR ''+'' \<or> c = CHR ''N''"

definition is_post_dial_char :: "char \<Rightarrow> bool" where
  "is_post_dial_char c \<longleftrightarrow> c = CHR '','' \<or> c = CHR '';''"

fun RemoveSeparatorsPhoneNumber :: "string \<Rightarrow> string" where
  "RemoveSeparatorsPhoneNumber [] = []"
| "RemoveSeparatorsPhoneNumber (c # cs) =
    (if is_dial_char c \<or> is_post_dial_char c then c # RemoveSeparatorsPhoneNumber cs
     else RemoveSeparatorsPhoneNumber cs)"

fun RemovePostDialPhoneNumber :: "string \<Rightarrow> string" where
  "RemovePostDialPhoneNumber [] = []"
| "RemovePostDialPhoneNumber (c # cs) =
    (if is_dial_char c then c # RemovePostDialPhoneNumber cs
     else if is_post_dial_char c then []
     else RemovePostDialPhoneNumber cs)"

definition IsValidSlotId :: "int \<Rightarrow> bool" where
  "IsValidSlotId slotId \<longleftrightarrow> 0 \<le> slotId \<and> slotId < MINI_SLOT_COUNT"

text \<open>\<open>SelectAccountId\<close> only checks the slot; the extras stay as they are.\<close>

definition SelectAccountId :: "int \<Rightarrow> bool" where
  "SelectAccountId slotId = IsValidSlotId slotId"

lemma RemoveSeparators_filter:
  "RemoveSeparatorsPhoneNumber cs = filter (\<lambda>c. is_dial_char c \<or> is_post_dial_char c) cs"
  by (induction cs) auto

lemma dial_not_post: "is_dial_char c \<Longrightarrow> \<not> is_post_dial_char c"
  by (auto simp: is_dial_char_def is_post_dial_char_def)

lemma RemovePostDial_filter:
  "RemovePostDialPhoneNumber cs = filter is_dial_char (takeWhile (\<lambda>c. \<not> is_post_dial_char c) cs)"
  by (induction cs) (auto dest: dial_not_post)

lemma length_RemoveSeparators: "length (RemoveSeparatorsPhoneNumber cs) \<le> length cs"
  by (simp add: RemoveSeparators_filter)

lemma RemoveSeparators_idem [simp]:
  "RemoveSeparatorsPhoneNumber (RemoveSeparatorsPhoneNumber cs) = RemoveSeparatorsPhoneNumber cs"
  by (simp add: RemoveSeparators_filter)

lemma takeWhile_filter_sub:
  "
   filter D (takeWhile (\<lambda>c. \<not> Q c) (filter (\<lambda>c. D c \<or> Q c) cs)) =
   filter D (takeWhile (\<lambda>c. \<not> Q c) cs)"
  by (induction cs) auto

lemma RemovePostDial_RemoveSeparators:
  "RemovePostDialPhoneNumber (RemoveSeparatorsPhoneNumber cs) = RemovePostDialPhoneNumber cs"
  by (simp add: RemovePostDial_filter RemoveSeparators_filter takeWhile_filter_sub)

section \<open>The trust model\<close>

text \<open>
  \<open>ListContains\<close> walks a C string of entries separated by semicolons. The walk stops at the
  terminator, so an empty entry at the end is never compared; no entry matches the empty item.
\<close>

function ListContains_loop :: "string \<Rightarrow> string \<Rightarrow> bool" where
  "ListContains_loop p item =
    (if p = [] then False
     else if takeWhile (\<lambda>c. c \<noteq> CHR '';'') p = item then True
     else (case dropWhile (\<lambda>c. c \<noteq> CHR '';'') p of
             [] \<Rightarrow> False
           | _ # rest \<Rightarrow> ListContains_loop rest item))"
  by pat_completeness auto
termination
proof (relation "measure (\<lambda>(p, _). length p)", simp)
  fix p item :: string and x rest
  assume "dropWhile (\<lambda>c. c \<noteq> CHR '';'') p = x # rest"
  then have "length (x # rest) \<le> length p"
    by (metis length_dropWhile_le)
  then show "((rest, item), (p, item)) \<in> measure (\<lambda>(p, _). length p)" by simp
qed

declare ListContains_loop.simps [simp del]

definition ListContains :: "string option \<Rightarrow> string \<Rightarrow> bool" where
  "ListContains xs item =
    (case xs of None \<Rightarrow> False | Some s \<Rightarrow> if item = [] then False else ListContains_loop s item)"

record TrustModel =
  tm_granted :: "string option"
  tm_isSystemApp :: bool
  tm_bundleName :: "string option"

definition CheckPermission :: "TrustModel \<Rightarrow> string \<Rightarrow> bool" where
  "CheckPermission tm permission = ListContains (tm_granted tm) permission"

definition IsSystemCaller :: "TrustModel \<Rightarrow> bool" where
  "IsSystemCaller tm = tm_isSystemApp tm"

definition GetCallerBundleName :: "TrustModel \<Rightarrow> string" where
  "GetCallerBundleName tm = (case tm_bundleName tm of None \<Rightarrow> [] | Some b \<Rightarrow> b)"

text \<open>The default build grants nothing: empty list, not a system application, no bundle name.\<close>

definition TrustModel_default :: TrustModel where
  "TrustModel_default = \<lparr>tm_granted = Some [], tm_isSystemApp = False, tm_bundleName = Some []\<rparr>"

text \<open>The entries of the list, as a specification that does not mention the walk.\<close>

fun entries :: "string \<Rightarrow> string list" where
  "entries [] = [[]]"
| "entries (c # cs) =
    (if c = CHR '';'' then [] # entries cs
     else (case entries cs of [] \<Rightarrow> [[c]] | e # es \<Rightarrow> (c # e) # es))"

lemma entries_nonempty: "entries cs \<noteq> []"
  by (cases cs) (auto split: list.splits)

lemma entries_split:
  "entries cs =
    takeWhile (\<lambda>c. c \<noteq> CHR '';'') cs #
    (case dropWhile (\<lambda>c. c \<noteq> CHR '';'') cs of [] \<Rightarrow> [] | _ # rest \<Rightarrow> entries rest)"
  by (induction cs) (auto split: list.splits)

lemma ListContains_loop_step:
  "p \<noteq> [] \<Longrightarrow> ListContains_loop p item \<longleftrightarrow>
    takeWhile (\<lambda>c. c \<noteq> CHR '';'') p = item \<or>
    (case dropWhile (\<lambda>c. c \<noteq> CHR '';'') p of [] \<Rightarrow> False | _ # rest \<Rightarrow> ListContains_loop rest item)"
  by (subst ListContains_loop.simps) simp

lemma entries_step:
  "item \<in> set (entries p) \<longleftrightarrow>
    takeWhile (\<lambda>c. c \<noteq> CHR '';'') p = item \<or>
    (case dropWhile (\<lambda>c. c \<noteq> CHR '';'') p of [] \<Rightarrow> False | _ # rest \<Rightarrow> item \<in> set (entries rest))"
proof (cases "dropWhile (\<lambda>c. c \<noteq> CHR '';'') p")
  case Nil
  then show ?thesis unfolding entries_split [of p] Nil by auto
next
  case (Cons x rest)
  then show ?thesis unfolding entries_split [of p] Cons by auto
qed

lemma ListContains_loop_iff:
  "item \<noteq> [] \<Longrightarrow> ListContains_loop p item \<longleftrightarrow> item \<in> set (entries p)"
proof (induction p item rule: ListContains_loop.induct)
  case (1 p item)
  let ?t = "takeWhile (\<lambda>c. c \<noteq> CHR '';'') p" and ?d = "dropWhile (\<lambda>c. c \<noteq> CHR '';'') p"
  show ?case
  proof (cases "p = []")
    case True
    with 1(2) show ?thesis by (simp add: ListContains_loop.simps)
  next
    case ne: False
    have "(case ?d of [] \<Rightarrow> False | _ # rest \<Rightarrow> ListContains_loop rest item) \<longleftrightarrow>
        (case ?d of [] \<Rightarrow> False | _ # rest \<Rightarrow> item \<in> set (entries rest))" if "?t \<noteq> item"
      by (cases ?d) (simp_all only: list.case 1(1) [OF ne that _ 1(2)])
    then show ?thesis
      unfolding ListContains_loop_step [OF ne] entries_step [of item p] by blast
  qed
qed

lemma CheckPermission_iff:
  "CheckPermission tm p \<longleftrightarrow>
    p \<noteq> [] \<and> (\<exists>g. tm_granted tm = Some g \<and> p \<in> set (entries g))"
  by (auto simp: CheckPermission_def ListContains_def ListContains_loop_iff split: option.splits)

lemma CheckPermission_default [simp]: "\<not> CheckPermission TrustModel_default p"
  by (simp add: CheckPermission_iff TrustModel_default_def)

end
