(* ===== verification/Call_Table.thy ===== *)
theory Call_Table
  imports Cm_State Number_Utils
begin

text \<open>
  The table of calls: \<open>services/call/src/mini/call_object_manager.cpp\<close>. The list keeps the order in
  which calls were added. Lookups by id, number, index or reported state find the oldest match,
  lookups by running state the newest. Operations that only look are functions of the state.
\<close>

section \<open>Adding and removing\<close>

definition table_limit :: "call \<Rightarrow> nat" where
  "table_limit c = (if GetEmergencyState c then MINI_MAX_CALL_OBJECTS
     else MINI_MAX_CALL_OBJECTS - MINI_ECC_RESERVED_CALL_OBJECTS)"

definition AddOneCallObject :: "nat option \<Rightarrow> ErrCode cmM" where
  "AddOneCallObject call =
     (case call of
        None \<Rightarrow> ret TELEPHONY_ERR_LOCAL_PTR_NULL
      | Some a \<Rightarrow> do {
          s \<leftarrow> gets id;
          if \<exists>c \<in> set (calls s). cb_callId c = cb_callId (cm_heap s a)
          then ret CALL_ERR_PHONE_CALL_ALREADY_EXISTS
          else if table_limit (cm_heap s a) \<le> length (cm_callList s)
          then ret CALL_ERR_CALL_COUNTS_EXCEED_LIMIT
          else do {
            modify (\<lambda>s. s\<lparr>cm_callList := cm_callList s @ [a]\<rparr>);
            s \<leftarrow> gets id;
            whenM (length (cm_callList s) = 1 \<and> cb_callState (hd (calls s)) = CALL_STATUS_DIALING)
              (modify (\<lambda>s. s\<lparr>cm_isFirstDialCallAdded := True\<rparr>));
            ret TELEPHONY_SUCCESS
          }
        })"

text \<open>The first call with the id is erased; nothing happens when there is none.\<close>

definition DeleteOneCallObject :: "int \<Rightarrow> ErrCode cmM" where
  "DeleteOneCallObject callId = do {
     modify (\<lambda>s. s\<lparr>cm_callList :=
       takeWhile (\<lambda>a. cb_callId (cm_heap s a) \<noteq> callId) (cm_callList s) @
       tl (dropWhile (\<lambda>a. cb_callId (cm_heap s a) \<noteq> callId) (cm_callList s))\<rparr>);
     ret TELEPHONY_SUCCESS
   }"

definition DeleteOneCallObject_ptr :: "nat option \<Rightarrow> unit cmM" where
  "DeleteOneCallObject_ptr call =
     (case call of
        None \<Rightarrow> ret ()
      | Some a \<Rightarrow> modify (\<lambda>s. s\<lparr>cm_callList := filter (\<lambda>b. b \<noteq> a) (cm_callList s)\<rparr>))"

definition GetNewCallId :: "int cmM" where
  "GetNewCallId = do {
     modify (\<lambda>s. s\<lparr>cm_callId := wrap32 (cm_callId s + 1)\<rparr>);
     gets cm_callId
   }"

definition UpdateOneCallObjectByCallId :: "int \<Rightarrow> TelCallState \<Rightarrow> unit cmM" where
  "UpdateOneCallObjectByCallId callId nextCallState = do {
     as \<leftarrow> gets cm_callList;
     for_each as (\<lambda>a. do {
       c \<leftarrow> getCall a;
       whenM (cb_callId c = callId) (ignore (call_SetTelCallState a nextCallState))
     })
   }"

section \<open>Lookups\<close>

definition first_call :: "(call \<Rightarrow> bool) \<Rightarrow> cm \<Rightarrow> nat option" where
  "first_call P s = List.find (\<lambda>a. P (cm_heap s a)) (cm_callList s)"

definition last_call :: "(call \<Rightarrow> bool) \<Rightarrow> cm \<Rightarrow> nat option" where
  "last_call P s = List.find (\<lambda>a. P (cm_heap s a)) (rev (cm_callList s))"

definition any_call :: "(call \<Rightarrow> bool) \<Rightarrow> cm \<Rightarrow> bool" where
  "any_call P s \<longleftrightarrow> list_ex P (calls s)"

definition count_calls :: "(call \<Rightarrow> bool) \<Rightarrow> cm \<Rightarrow> int" where
  "count_calls P s = int (length (filter P (calls s)))"

definition GetOneCallObject :: "int \<Rightarrow> cm \<Rightarrow> nat option" where
  "GetOneCallObject callId s = first_call (\<lambda>c. cb_callId c = callId) s"

definition GetOneCallObject_number :: "string \<Rightarrow> cm \<Rightarrow> nat option" where
  "GetOneCallObject_number phoneNumber s =
    (if phoneNumber = [] then None
     else first_call (\<lambda>c. RemovePostDialPhoneNumber (cb_accountNumber c) = phoneNumber) s)"

definition GetOneCallObject_state :: "CallRunningState \<Rightarrow> cm \<Rightarrow> nat option" where
  "GetOneCallObject_state callState s = last_call (\<lambda>c. cb_callRunningState c = callState) s"

definition GetOneCarrierCallObject :: "CallRunningState \<Rightarrow> cm \<Rightarrow> nat option" where
  "GetOneCarrierCallObject callState s =
    last_call (\<lambda>c. cb_callRunningState c = callState \<and> cb_callType c \<noteq> TYPE_VOIP) s"

definition GetOneCallObjectByIndex :: "int \<Rightarrow> cm \<Rightarrow> nat option" where
  "GetOneCallObjectByIndex index s = first_call (\<lambda>c. cc_index c = index \<and> cb_callType c \<noteq> TYPE_VOIP) s"

definition GetDialingCall_table :: "cm \<Rightarrow> nat option" where
  "GetDialingCall_table s = first_call (\<lambda>c. cb_callState c = CALL_STATUS_DIALING) s"

definition GetOneCallObjectByIndexAndSlotId :: "int \<Rightarrow> int \<Rightarrow> cm \<Rightarrow> nat option" where
  "GetOneCallObjectByIndexAndSlotId index slotId s =
    first_call (\<lambda>c. cc_index c = index \<and> cc_slotId c = slotId \<and> cb_callType c \<noteq> TYPE_VOIP) s"

text \<open>The call type and the phone index are arguments of the code that it does not look at.\<close>

definition GetOneCallObjectByIndexSlotIdAndCallType ::
    "int \<Rightarrow> int \<Rightarrow> CallType \<Rightarrow> int \<Rightarrow> cm \<Rightarrow> nat option" where
  "GetOneCallObjectByIndexSlotIdAndCallType index slotId callType phoneIndex s =
    first_call (\<lambda>c. cb_callType c \<noteq> TYPE_BLUETOOTH \<and> cc_index c = index \<and> cc_slotId c = slotId \<and>
      cb_callType c \<noteq> TYPE_VOIP) s"

definition IsCallExist :: "int \<Rightarrow> cm \<Rightarrow> bool" where
  "IsCallExist callId s = any_call (\<lambda>c. cb_callId c = callId) s"

definition IsCallExist_number :: "string \<Rightarrow> cm \<Rightarrow> bool" where
  "IsCallExist_number phoneNumber s =
    (phoneNumber \<noteq> [] \<and> any_call (\<lambda>c. RemovePostDialPhoneNumber (cb_accountNumber c) = phoneNumber) s)"

definition IsCallExist_type_state :: "CallType \<Rightarrow> TelCallState \<Rightarrow> cm \<Rightarrow> bool" where
  "IsCallExist_type_state callType callState s =
    any_call (\<lambda>c. cb_callType c = callType \<and> cb_callState c = callState) s"

definition IsCallExist_state :: "TelCallState \<Rightarrow> cm \<Rightarrow> bool" where
  "IsCallExist_state callState s = any_call (\<lambda>c. cb_callState c = callState) s"

text \<open>Variants that also deliver the id of the first match.\<close>

definition IsCallExist_state_id :: "TelCallState \<Rightarrow> cm \<Rightarrow> int option" where
  "IsCallExist_state_id callState s =
    map_option (\<lambda>a. cb_callId (cm_heap s a)) (first_call (\<lambda>c. cb_callState c = callState) s)"

definition IsConferenceCallExist :: "TelConferenceState \<Rightarrow> cm \<Rightarrow> int option" where
  "IsConferenceCallExist state s =
    map_option (\<lambda>a. cb_callId (cm_heap s a)) (first_call (\<lambda>c. cb_conferenceState c = state) s)"

definition HasActivedCallExist :: "cm \<Rightarrow> int option" where
  "HasActivedCallExist s =
    map_option (\<lambda>a. cb_callId (cm_heap s a))
      (first_call (\<lambda>c. cb_callState c = CALL_STATUS_ACTIVE \<and> cb_callType c \<noteq> TYPE_VOIP) s)"

definition GetCallState_table :: "int \<Rightarrow> cm \<Rightarrow> TelCallState" where
  "GetCallState_table callId s =
    (case GetOneCallObject callId s of None \<Rightarrow> CALL_STATUS_IDLE | Some a \<Rightarrow> cb_callState (cm_heap s a))"

section \<open>Questions about the whole table\<close>

definition is_new :: "call \<Rightarrow> bool" where
  "is_new c \<longleftrightarrow> cb_callRunningState c = CALL_RUNNING_STATE_CREATE \<or>
     cb_callRunningState c = CALL_RUNNING_STATE_CONNECTING \<or> cb_callRunningState c = CALL_RUNNING_STATE_DIALING"

definition HasNewCall :: "cm \<Rightarrow> ErrCode" where
  "HasNewCall s =
    (if any_call (\<lambda>c. cb_callType c \<noteq> TYPE_VOIP \<and> (is_new c \<or> cb_callType c = TYPE_SATELLITE)) s
     then CALL_ERR_CALL_COUNTS_EXCEED_LIMIT else TELEPHONY_SUCCESS)"

definition is_carrier :: "call \<Rightarrow> bool" where
  "is_carrier c \<longleftrightarrow> cb_callType c = TYPE_CS \<or> cb_callType c = TYPE_IMS \<or>
     cb_callType c = TYPE_SATELLITE \<or> cb_callType c = TYPE_BLUETOOTH"

definition GetCarrierCallList :: "cm \<Rightarrow> int list" where
  "GetCarrierCallList s = map cb_callId (filter is_carrier (calls s))"

text \<open>How many calls the user sees: a conference counts once, by its main call.\<close>

definition GetCurrentCallNum :: "cm \<Rightarrow> int" where
  "GetCurrentCallNum s =
    int (length (filter (\<lambda>otherCallId.
      case GetOneCallObject otherCallId s of
        None \<Rightarrow> False
      | Some a \<Rightarrow>
          (let confState = cb_conferenceState (cm_heap s a); conferenceId = cf_mainCallId (cm_imsConference s)
           in (confState \<noteq> TEL_CONFERENCE_IDLE \<and> conferenceId = otherCallId) \<or> confState = TEL_CONFERENCE_IDLE))
      (GetCarrierCallList s)))"

definition IsNewCallAllowedCreate :: "cm \<Rightarrow> bool" where
  "IsNewCallAllowedCreate s =
    (if any_call (\<lambda>c. cb_callType c \<noteq> TYPE_VOIP \<and>
          (is_new c \<or> cb_callRunningState c = CALL_RUNNING_STATE_RINGING)) s
     then False else GetCurrentCallNum s < 2)"

definition GetCallNumByRunningState :: "CallRunningState \<Rightarrow> cm \<Rightarrow> int" where
  "GetCallNumByRunningState callState s = count_calls (\<lambda>c. cb_callRunningState c = callState) s"

definition HasRingingMaximum :: "cm \<Rightarrow> bool" where
  "HasRingingMaximum s = (int RINGING_CALL_NUMBER_LEN \<le> count_calls (\<lambda>c. cb_callRunningState c = CALL_RUNNING_STATE_RINGING) s)"

definition HasDialingMaximum :: "cm \<Rightarrow> bool" where
  "HasDialingMaximum s = (int DIALING_CALL_NUMBER_LEN \<le> count_calls (\<lambda>c. cb_callRunningState c = CALL_RUNNING_STATE_ACTIVE) s)"

definition HasEmergencyCall :: "cm \<Rightarrow> bool" where
  "HasEmergencyCall s = any_call GetEmergencyState s"

definition HasCallExist :: "cm \<Rightarrow> bool" where
  "HasCallExist s = (cm_callList s \<noteq> [])"

definition GetAllCallList :: "cm \<Rightarrow> nat list" where
  "GetAllCallList s = cm_callList s"

definition HasCellularCallExist :: "cm \<Rightarrow> bool" where
  "HasCellularCallExist s = any_call (\<lambda>c. is_carrier c \<and>
     cb_callState c \<noteq> CALL_STATUS_DISCONNECTED \<and> cb_callState c \<noteq> CALL_STATUS_DISCONNECTING) s"

definition HasIncomingCallCrsType :: "cm \<Rightarrow> bool" where
  "HasIncomingCallCrsType s =
    any_call (\<lambda>c. cb_callRunningState c = CALL_RUNNING_STATE_RINGING \<and> cb_crsType c = 2) s"

definition HasVideoCall :: "cm \<Rightarrow> bool" where
  "HasVideoCall s = any_call (\<lambda>c. cb_videoState c = TYPE_VIDEO \<and> cb_callType c \<noteq> TYPE_VOIP) s"

definition HasSatelliteCallExist :: "cm \<Rightarrow> bool" where
  "HasSatelliteCallExist s = any_call (\<lambda>c. cb_callType c = TYPE_SATELLITE) s"

definition GetSatelliteCallList :: "cm \<Rightarrow> int list" where
  "GetSatelliteCallList s = map cb_callId (filter (\<lambda>c. cb_callType c = TYPE_SATELLITE) (calls s))"

definition HasRingingCall :: "cm \<Rightarrow> bool" where
  "HasRingingCall s = any_call (\<lambda>c. cb_callRunningState c = CALL_RUNNING_STATE_RINGING) s"

definition HasHoldCall :: "cm \<Rightarrow> bool" where
  "HasHoldCall s = any_call (\<lambda>c. cb_callRunningState c = CALL_RUNNING_STATE_HOLD) s"

definition GetCallNum :: "TelCallState \<Rightarrow> cm \<Rightarrow> int" where
  "GetCallNum callState s = count_calls (\<lambda>c. cb_callState c = callState \<and> cb_callType c \<noteq> TYPE_VOIP) s"

definition GetCallNumber :: "TelCallState \<Rightarrow> cm \<Rightarrow> string" where
  "GetCallNumber callState s =
    (case first_call (\<lambda>c. cb_callState c = callState \<and> cb_callType c \<noteq> TYPE_VOIP) s of
       None \<Rightarrow> [] | Some a \<Rightarrow> cb_accountNumber (cm_heap s a))"

definition GetCallInfoList :: "int \<Rightarrow> cm \<Rightarrow> CallAttributeInfo list" where
  "GetCallInfoList slotId s =
    filter (\<lambda>info. at_accountId info = slotId \<and> at_callType info \<noteq> TYPE_OTT)
      (map GetCallAttributeInfo (filter (\<lambda>c. cb_callType c \<noteq> TYPE_VOIP) (calls s)))"

definition GetAllCallInfoList :: "cm \<Rightarrow> CallAttributeInfo list" where
  "GetAllCallInfoList s = map GetCallAttributeInfo (filter (\<lambda>c. cb_callType c \<noteq> TYPE_VOIP) (calls s))"

section \<open>The call in the foreground\<close>

fun GetForegroundCall_loop :: "(nat \<Rightarrow> call) \<Rightarrow> bool \<Rightarrow> nat list \<Rightarrow> nat option \<Rightarrow> nat option" where
  "GetForegroundCall_loop h incl [] liveCall = liveCall"
| "GetForegroundCall_loop h incl (a # as) liveCall =
    (if \<not> incl \<and> cb_callType (h a) = TYPE_VOIP then GetForegroundCall_loop h incl as liveCall
     else let st = cb_callState (h a) in
       if st = CALL_STATUS_WAITING \<or> st = CALL_STATUS_INCOMING then Some a
       else GetForegroundCall_loop h incl as
         (if st = CALL_STATUS_ALERTING \<or> st = CALL_STATUS_DIALING \<or> st = CALL_STATUS_ACTIVE \<or>
             st = CALL_STATUS_HOLDING then Some a else liveCall))"

definition GetForegroundCall :: "bool \<Rightarrow> cm \<Rightarrow> nat option" where
  "GetForegroundCall isIncludeVoipCall s = GetForegroundCall_loop (cm_heap s) isIncludeVoipCall (cm_callList s) None"

definition GetForegroundLiveCall :: "bool \<Rightarrow> cm \<Rightarrow> nat option" where
  "GetForegroundLiveCall isIncludeVoipCall s =
    first_call (\<lambda>c. (isIncludeVoipCall \<or> cb_callType c \<noteq> TYPE_VOIP) \<and>
      (cb_callState c = CALL_STATUS_ACTIVE \<or> cb_callState c = CALL_STATUS_ALERTING \<or>
       cb_callState c = CALL_STATUS_DIALING)) s"

definition GetIncomingCall :: "bool \<Rightarrow> cm \<Rightarrow> nat option" where
  "GetIncomingCall isIncludeVoipCall s =
    first_call (\<lambda>c. (isIncludeVoipCall \<or> cb_callType c \<noteq> TYPE_VOIP) \<and>
      (cb_callState c = CALL_STATUS_INCOMING \<or> cb_callState c = CALL_STATUS_WAITING)) s"

definition GetAudioLiveCall :: "cm \<Rightarrow> nat option" where
  "GetAudioLiveCall s =
    (case GetForegroundLiveCall False s of
       Some a \<Rightarrow> Some a
     | None \<Rightarrow> (case GetIncomingCall False s of
         Some a \<Rightarrow> Some a
       | None \<Rightarrow> GetOneCarrierCallObject CALL_RUNNING_STATE_HOLD s))"

fun GetForegroundLiveCallByCallId_loop :: "(nat \<Rightarrow> call) \<Rightarrow> int \<Rightarrow> nat list \<Rightarrow> nat option \<Rightarrow> nat option" where
  "GetForegroundLiveCallByCallId_loop h callId [] liveCall = liveCall"
| "GetForegroundLiveCallByCallId_loop h callId (a # as) liveCall =
    (if cb_callId (h a) \<noteq> callId then GetForegroundLiveCallByCallId_loop h callId as liveCall
     else let st = cb_callState (h a) in
       if st = CALL_STATUS_ACTIVE \<or> st = CALL_STATUS_ALERTING \<or> st = CALL_STATUS_DIALING then Some a
       else GetForegroundLiveCallByCallId_loop h callId as
         (if st = CALL_STATUS_WAITING \<or> st = CALL_STATUS_INCOMING then Some a else liveCall))"

definition GetForegroundLiveCallByCallId :: "int \<Rightarrow> cm \<Rightarrow> nat option" where
  "GetForegroundLiveCallByCallId callId s =
    GetForegroundLiveCallByCallId_loop (cm_heap s) callId (cm_callList s) None"

end
