(* ===== verification/Observers.thy ===== *)
theory Observers
  imports Stack_Connection Call_Table
begin

text \<open>
  Who is told when a call changes: \<open>services/call/src/mini/call_state_listener.cpp\<close> and the two
  observers of the program, the audio control (\<open>services/audio/src/mini/audio_control_manager.cpp\<close>)
  and the reports to the application (\<open>services/call_report/src/mini/call_ability_report_proxy.cpp\<close>).

  The listener keeps its observers in a set ordered by address; the model keeps a list without
  duplicates. The two observers write to disjoint parts of the state, so their order does not show.
  A registered callback is a number with its bundle name.
\<close>

section \<open>Audio\<close>

definition onAudio :: "(audio \<Rightarrow> audio) \<Rightarrow> unit cmM" where
  "onAudio f = modify (\<lambda>s. s\<lparr>cm_audio := f (cm_audio s)\<rparr>)"

definition Unavailable :: "ErrCode cmM" where
  "Unavailable = do {
     onAudio (\<lambda>u. u\<lparr>au_unavailableLogged := True\<rparr>);
     ret CALL_ERR_FUNCTION_NOT_SUPPORTED
   }"

text \<open>The registered audio implementation, when there is one.\<close>

definition audio_call :: "audio_cmd \<Rightarrow> ErrCode cmM" where
  "audio_call c = do {
     modify (\<lambda>s. s\<lparr>cm_audioOut := cm_audioOut s @ [c]\<rparr>);
     s \<leftarrow> gets id;
     ret (e_audioReply (cm_env s) (cm_audioOut s))
   }"

definition StartRingtone :: "ErrCode cmM" where
  "StartRingtone = do {
     s \<leftarrow> gets id;
     if au_ringtonePlaying (cm_audio s) then ret TELEPHONY_SUCCESS
     else if \<not> e_hasAudio (cm_env s) then Unavailable
     else do {
       r \<leftarrow> audio_call AC_StartRingtone;
       onAudio (\<lambda>u. u\<lparr>au_ringtonePlaying := (r = TELEPHONY_SUCCESS)\<rparr>);
       ret r
     }
   }"

definition StopRingtone :: "ErrCode cmM" where
  "StopRingtone = do {
     s \<leftarrow> gets id;
     if \<not> au_ringtonePlaying (cm_audio s) then ret TELEPHONY_SUCCESS
     else do {
       onAudio (\<lambda>u. u\<lparr>au_ringtonePlaying := False\<rparr>);
       if \<not> e_hasAudio (cm_env s) then Unavailable else audio_call AC_StopRingtone
     }
   }"

definition PlayWaitingTone :: "ErrCode cmM" where
  "PlayWaitingTone = do {
     s \<leftarrow> gets id;
     if au_waitingTonePlaying (cm_audio s) then ret TELEPHONY_SUCCESS
     else if \<not> e_hasAudio (cm_env s) then Unavailable
     else do {
       r \<leftarrow> audio_call AC_PlayWaitingTone;
       onAudio (\<lambda>u. u\<lparr>au_waitingTonePlaying := (r = TELEPHONY_SUCCESS)\<rparr>);
       ret r
     }
   }"

definition StopWaitingTone :: "ErrCode cmM" where
  "StopWaitingTone = do {
     s \<leftarrow> gets id;
     if \<not> au_waitingTonePlaying (cm_audio s) then ret TELEPHONY_SUCCESS
     else do {
       onAudio (\<lambda>u. u\<lparr>au_waitingTonePlaying := False\<rparr>);
       if \<not> e_hasAudio (cm_env s) then Unavailable else audio_call AC_StopWaitingTone
     }
   }"

definition SetCallAudioActive :: "bool \<Rightarrow> ErrCode cmM" where
  "SetCallAudioActive active = do {
     s \<leftarrow> gets id;
     if au_callAudioActive (cm_audio s) = active then ret TELEPHONY_SUCCESS
     else if \<not> e_hasAudio (cm_env s) then Unavailable
     else do {
       r \<leftarrow> audio_call (AC_SetCallAudioActive active);
       whenM (r = TELEPHONY_SUCCESS) (onAudio (\<lambda>u. u\<lparr>au_callAudioActive := active\<rparr>));
       ret r
     }
   }"

definition ReleaseAll :: "unit cmM" where
  "ReleaseAll = onAudio (\<lambda>u. u\<lparr>au_ringtonePlaying := False, au_waitingTonePlaying := False, au_callAudioActive := False\<rparr>)"

definition Audio_Init :: "unit cmM" where
  "Audio_Init = do {
     ReleaseAll;
     onAudio (\<lambda>u. u\<lparr>au_unavailableLogged := False\<rparr>)
   }"

definition Audio_UnInit :: "unit cmM" where
  "Audio_UnInit = do {
     u \<leftarrow> gets cm_audio;
     whenM (au_callAudioActive u \<or> au_ringtonePlaying u \<or> au_waitingTonePlaying u) (do {
       ignore StopRingtone;
       ignore StopWaitingTone;
       ignore (SetCallAudioActive False)
     });
     ReleaseAll
   }"

definition Audio_CallStateUpdated :: "TelCallState \<Rightarrow> TelCallState \<Rightarrow> unit cmM" where
  "Audio_CallStateUpdated priorState nextState =
     (if nextState = CALL_STATUS_INCOMING then ignore StartRingtone
      else if nextState = CALL_STATUS_WAITING then ignore PlayWaitingTone
      else if nextState = CALL_STATUS_ANSWERED \<or> nextState = CALL_STATUS_ACTIVE then do {
        ignore StopRingtone;
        ignore StopWaitingTone;
        ignore (SetCallAudioActive True)
      }
      else if nextState = CALL_STATUS_DISCONNECTED then do {
        (if priorState = CALL_STATUS_INCOMING then ignore StopRingtone
         else if priorState = CALL_STATUS_WAITING then ignore StopWaitingTone
         else ret ());
        s \<leftarrow> gets id;
        whenM (\<not> HasCellularCallExist s) (do {
          ignore StopRingtone;
          ignore StopWaitingTone;
          ignore (SetCallAudioActive False);
          ReleaseAll
        })
      }
      else ret ())"

definition Audio_IncomingCallHungUp :: "unit cmM" where
  "Audio_IncomingCallHungUp = ignore StopRingtone"

section \<open>Reports to the application\<close>

definition Report_RegisterCallBack :: "nat option \<Rightarrow> string \<Rightarrow> ErrCode cmM" where
  "Report_RegisterCallBack callback bundleInfo =
     (case callback of
        None \<Rightarrow> ret TELEPHONY_ERR_LOCAL_PTR_NULL
      | Some k \<Rightarrow> do {
          cb \<leftarrow> gets cm_callback;
          if cb \<noteq> None then ret TELEPHONY_ERR_REGISTER_CALLBACK_FAIL
          else do {
            modify (\<lambda>s. s\<lparr>cm_callback := Some (k, bundleInfo)\<rparr>);
            ret TELEPHONY_SUCCESS
          }
        })"

definition Report_UnRegisterCallBack :: "string \<Rightarrow> ErrCode cmM" where
  "Report_UnRegisterCallBack bundleInfo = do {
     cb \<leftarrow> gets cm_callback;
     case cb of
       None \<Rightarrow> ret TELEPHONY_ERR_LOCAL_PTR_NULL
     | Some (k, bundle) \<Rightarrow> do {
         whenM (bundle = bundleInfo) (modify (\<lambda>s. s\<lparr>cm_callback := None\<rparr>));
         ret TELEPHONY_SUCCESS
       }
   }"

definition Report_UnRegisterCallBack_ptr :: "nat option \<Rightarrow> ErrCode cmM" where
  "Report_UnRegisterCallBack_ptr callback = do {
     cb \<leftarrow> gets cm_callback;
     whenM (callback \<noteq> None \<and> map_option fst cb = callback) (modify (\<lambda>s. s\<lparr>cm_callback := None\<rparr>));
     ret TELEPHONY_SUCCESS
   }"

definition ReportCallStateInfo :: "CallAttributeInfo \<Rightarrow> ErrCode cmM" where
  "ReportCallStateInfo info = do {
     cb \<leftarrow> gets cm_callback;
     case cb of
       None \<Rightarrow> ret TELEPHONY_ERR_FAIL
     | Some (k, _) \<Rightarrow> post (T_ReportCallState k info)
   }"

definition ReportCallStateInfo_bundle :: "CallAttributeInfo \<Rightarrow> string \<Rightarrow> ErrCode cmM" where
  "ReportCallStateInfo_bundle info bundleInfo = do {
     cb \<leftarrow> gets cm_callback;
     if (case cb of None \<Rightarrow> True | Some (k, bundle) \<Rightarrow> bundle \<noteq> bundleInfo) then ret TELEPHONY_ERROR
     else ReportCallStateInfo info
   }"

definition ReportCallEvent :: "CallEventInfo \<Rightarrow> ErrCode cmM" where
  "ReportCallEvent info = do {
     cb \<leftarrow> gets cm_callback;
     case cb of
       None \<Rightarrow> ret TELEPHONY_ERR_FAIL
     | Some (k, _) \<Rightarrow> post (T_ReportCallEvent k info)
   }"

text \<open>The number the application sees stops at the first pause character.\<close>

definition cut_post_dial :: "string \<Rightarrow> string" where
  "cut_post_dial n = takeWhile (\<lambda>c. c \<noteq> CHR '','' \<and> c \<noteq> CHR '';'') n"

definition reported_info :: "call \<Rightarrow> TelCallState \<Rightarrow> CallAttributeInfo" where
  "reported_info c nextState =
    (let info = GetCallAttributeInfo c;
         info = info\<lparr>at_accountNumber := cut_post_dial (at_accountNumber info)\<rparr>
     in if nextState = CALL_STATUS_ANSWERED then info\<lparr>at_callState := CALL_STATUS_ANSWERED\<rparr> else info)"

definition Report_CallStateUpdated :: "nat option \<Rightarrow> TelCallState \<Rightarrow> unit cmM" where
  "Report_CallStateUpdated call nextState =
     (case call of
        None \<Rightarrow> ret ()
      | Some a \<Rightarrow> do {
          c \<leftarrow> getCall a;
          ignore (ReportCallStateInfo (reported_info c nextState))
        })"

definition Report_CallEventUpdated :: "CallEventInfo \<Rightarrow> unit cmM" where
  "Report_CallEventUpdated info = ignore (ReportCallEvent info)"

definition Report_CallDestroyed :: "DisconnectedDetails \<Rightarrow> unit cmM" where
  "Report_CallDestroyed details = do {
     cb \<leftarrow> gets cm_callback;
     case cb of
       None \<Rightarrow> ret ()
     | Some (k, _) \<Rightarrow> ignore (post (T_ReportDisconnectedCause k details))
   }"

section \<open>The listener\<close>

definition AddOneObserver :: "observer \<Rightarrow> observer list \<Rightarrow> observer list" where
  "AddOneObserver ob obs = (if ob \<in> set obs then obs else obs @ [ob])"

definition RemoveOneObserver :: "observer \<Rightarrow> observer list \<Rightarrow> observer list" where
  "RemoveOneObserver ob obs = filter (\<lambda>p. p \<noteq> ob) obs"

definition RemoveAllObserver :: "observer list \<Rightarrow> observer list" where
  "RemoveAllObserver obs = []"

text \<open>Tell every observer; \<open>None\<close> is a listener that was never set (no observer then).\<close>

definition to_observers :: "(observer \<Rightarrow> unit cmM) \<Rightarrow> unit cmM" where
  "to_observers f = do {
     l \<leftarrow> gets cm_listener;
     for_each (case l of None \<Rightarrow> [] | Some obs \<Rightarrow> obs) f
   }"

text \<open>Neither observer overrides \<open>NewCallCreated\<close> and \<open>IncomingCallActivated\<close>.\<close>

definition Listener_NewCallCreated :: "nat option \<Rightarrow> unit cmM" where
  "Listener_NewCallCreated call = (case call of None \<Rightarrow> ret () | Some a \<Rightarrow> to_observers (\<lambda>_. ret ()))"

definition Listener_IncomingCallActivated :: "nat option \<Rightarrow> unit cmM" where
  "Listener_IncomingCallActivated call = (case call of None \<Rightarrow> ret () | Some a \<Rightarrow> to_observers (\<lambda>_. ret ()))"

definition Listener_CallDestroyed :: "DisconnectedDetails \<Rightarrow> unit cmM" where
  "Listener_CallDestroyed details = to_observers (\<lambda>ob. case ob of
       CallAbilityReportProxy \<Rightarrow> Report_CallDestroyed details
     | AudioControlManager \<Rightarrow> ret ())"

definition Listener_CallStateUpdated :: "nat option \<Rightarrow> TelCallState \<Rightarrow> TelCallState \<Rightarrow> unit cmM" where
  "Listener_CallStateUpdated call priorState nextState =
     (case call of
        None \<Rightarrow> ret ()
      | Some a \<Rightarrow> to_observers (\<lambda>ob. case ob of
            CallAbilityReportProxy \<Rightarrow> Report_CallStateUpdated call nextState
          | AudioControlManager \<Rightarrow> Audio_CallStateUpdated priorState nextState))"

definition Listener_IncomingCallHungUp :: "nat option \<Rightarrow> unit cmM" where
  "Listener_IncomingCallHungUp call =
     (case call of
        None \<Rightarrow> ret ()
      | Some a \<Rightarrow> to_observers (\<lambda>ob. case ob of
            CallAbilityReportProxy \<Rightarrow> ret ()
          | AudioControlManager \<Rightarrow> Audio_IncomingCallHungUp))"

definition Listener_CallEventUpdated :: "CallEventInfo \<Rightarrow> unit cmM" where
  "Listener_CallEventUpdated info = to_observers (\<lambda>ob. case ob of
       CallAbilityReportProxy \<Rightarrow> Report_CallEventUpdated info
     | AudioControlManager \<Rightarrow> ret ())"

section \<open>How they run\<close>

lemma run_onAudio [simp]: "run_state (onAudio f) s = ((), s\<lparr>cm_audio := f (cm_audio s)\<rparr>)"
  by (simp add: onAudio_def)

lemma run_audio_call [simp]:
  "run_state (audio_call c) s =
    (e_audioReply (cm_env s) (cm_audioOut s @ [c]), s\<lparr>cm_audioOut := cm_audioOut s @ [c]\<rparr>)"
  by (simp add: audio_call_def)

end
