(* ===== verification/Request_Helper.thy ===== *)
theory Request_Helper
  imports Cm_State
begin

text \<open>
  The flags shared by requests and reports:
  \<open>services/call/src/mini/call_request_event_handler_helper.cpp\<close>. A dial is processed by the stack
  between the request and the first report about the new call; a hang-up that comes in between is
  remembered (\<open>pendingHangup\<close>) and carried out when the call is reported. The restore task clears
  the dialing flag when no report comes.
\<close>

definition DELAY_TIME_MS :: "32 word" where
  "DELAY_TIME_MS = 3000"

definition IsDialingCallProcessing :: "bool cmM" where
  "IsDialingCallProcessing = gets (\<lambda>s. hp_isDialingCallProcessing (cm_helper s))"

definition RestoreDialingFlag :: "bool \<Rightarrow> unit cmM" where
  "RestoreDialingFlag b = onHelper (\<lambda>p. p\<lparr>hp_isDialingCallProcessing := b\<rparr>)"

definition RemoveEventHandlerTask :: "unit cmM" where
  "RemoveEventHandlerTask = do {
     p \<leftarrow> gets cm_helper;
     whenM (hp_restoreTaskId p \<noteq> 0) (do {
       ignore (onLoop (RemoveAsyncTask (hp_restoreTaskId p)));
       onHelper (\<lambda>p. p\<lparr>hp_restoreTaskId := 0\<rparr>)
     })
   }"

definition SetDialingCallProcessing :: "ErrCode cmM" where
  "SetDialingCallProcessing = do {
     b \<leftarrow> IsDialingCallProcessing;
     if \<not> b then ret TELEPHONY_ERROR
     else do {
       RemoveEventHandlerTask;
       (r, i) \<leftarrow> onLoop (PostAsyncTask T_RestoreDialingFlag DELAY_TIME_MS);
       (case i of None \<Rightarrow> ret () | Some k \<Rightarrow> onHelper (\<lambda>p. p\<lparr>hp_restoreTaskId := k\<rparr>));
       if r \<noteq> TELEPHONY_SUCCESS then ret TELEPHONY_ERROR else ret TELEPHONY_SUCCESS
     }
   }"

text \<open>What the restore task does.\<close>

definition RestoreDialingFlag_task :: "unit cmM" where
  "RestoreDialingFlag_task = do {
     onHelper (\<lambda>p. p\<lparr>hp_restoreTaskId := 0\<rparr>);
     RestoreDialingFlag False
   }"

definition SetPendingMo :: "bool \<Rightarrow> int \<Rightarrow> unit cmM" where
  "SetPendingMo b callId = onHelper (\<lambda>p. p\<lparr>hp_pendingMo := b, hp_pendingMoCallId := callId\<rparr>)"

definition HasPendingMo :: "int \<Rightarrow> bool cmM" where
  "HasPendingMo callId = gets (\<lambda>s. hp_pendingMo (cm_helper s) \<and> hp_pendingMoCallId (cm_helper s) = callId)"

definition IsPendingHangup :: "bool cmM" where
  "IsPendingHangup = gets (\<lambda>s. if hp_pendingHangupCallId (cm_helper s) \<noteq> -1 then hp_pendingHangup (cm_helper s) else False)"

definition GetPendingHangupCallId :: "int cmM" where
  "GetPendingHangupCallId = gets (\<lambda>s. if hp_pendingHangup (cm_helper s) then hp_pendingHangupCallId (cm_helper s) else -1)"

definition SetPendingHangup :: "bool \<Rightarrow> int \<Rightarrow> unit cmM" where
  "SetPendingHangup b callId = onHelper (\<lambda>p. p\<lparr>hp_pendingHangup := b, hp_pendingHangupCallId := callId\<rparr>)"

definition HasPendingHangup :: "int \<Rightarrow> bool cmM" where
  "HasPendingHangup callId =
     gets (\<lambda>s. hp_pendingHangup (cm_helper s) \<and> hp_pendingHangupCallId (cm_helper s) = callId)"

lemmas helper_simps = IsDialingCallProcessing_def RestoreDialingFlag_def SetPendingMo_def HasPendingMo_def
  IsPendingHangup_def GetPendingHangupCallId_def SetPendingHangup_def HasPendingHangup_def RestoreDialingFlag_task_def

end
