(* ===== verification/Control_Notify.thy ===== *)
theory Control_Notify
  imports Observers Request_Helper
begin

text \<open>
  The operations of \<open>CallControlManager\<close> (\<open>services/call/src/mini/call_control_manager.cpp\<close>) that the
  status machine calls: the notifications of the observers, the parameters of the last dial and the
  removal of the task that guards a pending hang-up.
\<close>

section \<open>Notifications\<close>

definition NotifyNewCallCreated :: "nat option \<Rightarrow> bool cmM" where
  "NotifyNewCallCreated call = do {
     l \<leftarrow> gets cm_listener;
     if call = None then ret False
     else do {
       whenM (l \<noteq> None) (Listener_NewCallCreated call);
       ret True
     }
   }"

definition NotifyCallDestroyed :: "DisconnectedDetails \<Rightarrow> bool cmM" where
  "NotifyCallDestroyed details = do {
     l \<leftarrow> gets cm_listener;
     if l \<noteq> None then do { Listener_CallDestroyed details; ret True }
     else ret False
   }"

definition NotifyCallStateUpdated :: "nat option \<Rightarrow> TelCallState \<Rightarrow> TelCallState \<Rightarrow> bool cmM" where
  "NotifyCallStateUpdated call priorState nextState = do {
     l \<leftarrow> gets cm_listener;
     if call = None \<or> l = None then ret False
     else do { Listener_CallStateUpdated call priorState nextState; ret True }
   }"

definition NotifyIncomingCallAnswered :: "nat option \<Rightarrow> bool cmM" where
  "NotifyIncomingCallAnswered call = do {
     l \<leftarrow> gets cm_listener;
     if call = None then ret False
     else if l \<noteq> None then do { Listener_IncomingCallActivated call; ret True }
     else ret False
   }"

definition NotifyIncomingCallRejected :: "nat option \<Rightarrow> bool \<Rightarrow> string \<Rightarrow> bool cmM" where
  "NotifyIncomingCallRejected call isSendSms content = do {
     l \<leftarrow> gets cm_listener;
     if call = None then ret False
     else if l \<noteq> None then do { Listener_IncomingCallHungUp call; ret True }
     else ret False
   }"

definition NotifyCallEventUpdated :: "CallEventInfo \<Rightarrow> bool cmM" where
  "NotifyCallEventUpdated info = do {
     l \<leftarrow> gets cm_listener;
     if l \<noteq> None then do { Listener_CallEventUpdated info; ret True }
     else ret False
   }"

section \<open>The last dial\<close>

definition GetDialParaInfo :: "DialParaInfo cmM" where
  "GetDialParaInfo = gets cm_dialSrcInfo"

definition GetDialParaInfo_extras :: "(DialParaInfo \<times> PacMap) cmM" where
  "GetDialParaInfo_extras = gets (\<lambda>s. (cm_dialSrcInfo s, cm_extras s))"

definition RemovePendingHangupProtectTask :: "unit cmM" where
  "RemovePendingHangupProtectTask = do {
     i \<leftarrow> gets cm_pendingHangupTaskId;
     whenM (i \<noteq> 0) (do {
       ignore (onLoop (RemoveAsyncTask i));
       modify (\<lambda>s. s\<lparr>cm_pendingHangupTaskId := 0\<rparr>)
     })
   }"

end
