(* ===== verification/Call_Status.thy ===== *)
theory Call_Status
  imports Control_Notify
begin

text \<open>
  The state machine that follows the reports of the network:
  \<open>services/call/src/mini/call_status_manager.cpp\<close> with \<open>call_status_policy.cpp\<close>, the entry
  \<open>services/telephony_interaction/src/mini/report_call_info_handler.cpp\<close>, and \<open>DealFailDial\<close> and
  \<open>ReportCallDisconnected\<close> of \<open>call_object_manager.cpp\<close>, which report a call that never reached the
  network as disconnected.

  The machine calls itself in one place: \<open>DealFailDial\<close> reports a disconnected call from within the
  handling of another report, and the handling of a disconnected call may do so once more while
  \<open>needWaitHold_\<close> is set. The handler of a disconnected call therefore takes \<open>DealFailDial\<close> as an
  argument and is instantiated twice; \<open>DisconnectedHandle_unfold\<close> in this theory shows that the
  result satisfies the recursion of the code.

  A call object that the code holds by \<open>sptr\<close> is an address; operations that replace the object
  answer the new address.
\<close>

section \<open>Small steps\<close>

definition INIT_INDEX :: int where "INIT_INDEX = 0"
definition WATCH_DIAL :: int where "WATCH_DIAL = 1"

definition CallDetailsInfo_init :: CallDetailsInfo where
  "CallDetailsInfo_init = \<lparr>ds_callVec = [], ds_slotId = 0, ds_bundleName = []\<rparr>"

definition status_init :: status where
  "status_init = \<lparr>st_callDetailsInfo = (\<lambda>_. CallDetailsInfo_init), st_tmpCallDetailsInfo = (\<lambda>_. CallDetailsInfo_init),
     st_callReportInfo = CallDetailInfo_default\<rparr>"

definition getStatus :: "status cmM" where
  "getStatus = gets (\<lambda>s. case cm_status s of None \<Rightarrow> status_init | Some st \<Rightarrow> st)"

definition onStatus :: "(status \<Rightarrow> status) \<Rightarrow> unit cmM" where
  "onStatus f = modify (\<lambda>s. s\<lparr>cm_status := map_option f (cm_status s)\<rparr>)"

definition SetNeedWaitHold :: "bool \<Rightarrow> unit cmM" where
  "SetNeedWaitHold b = modify (\<lambda>s. s\<lparr>cm_needWaitHold := b\<rparr>)"

definition UpdateCallState :: "nat option \<Rightarrow> TelCallState \<Rightarrow> ErrCode cmM" where
  "UpdateCallState call nextState =
     (case call of
        None \<Rightarrow> ret TELEPHONY_ERR_LOCAL_PTR_NULL
      | Some a \<Rightarrow> do {
          c \<leftarrow> getCall a;
          let priorState = cb_callState c;
          r \<leftarrow> call_SetTelCallState a nextState;
          UpdateOneCallObjectByCallId (cb_callId c) nextState;
          if r \<noteq> TELEPHONY_SUCCESS \<and> r \<noteq> CALL_ERR_NOT_NEW_STATE then ret TELEPHONY_ERR_LOCAL_PTR_NULL
          else do {
            ok \<leftarrow> NotifyCallStateUpdated call priorState nextState;
            if \<not> ok then ret CALL_ERR_PHONE_CALLSTATE_NOTIFY_FAILED else ret TELEPHONY_SUCCESS
          }
        })"

definition ClearPendingState :: "nat \<Rightarrow> unit cmM" where
  "ClearPendingState a = do {
     c \<leftarrow> getCall a;
     mo \<leftarrow> HasPendingMo (cb_callId c);
     whenM mo (SetPendingMo False (-1));
     hang \<leftarrow> HasPendingHangup (cb_callId c);
     whenM hang (do {
       whenM (cb_callRunningState c \<noteq> CALL_RUNNING_STATE_ENDED) (ignore (CarrierHangUpCall a));
       SetPendingHangup False (-1);
       RemovePendingHangupProtectTask
     })
   }"

text \<open>\<open>uint32_t\<close> arithmetic on the video states seen so far.\<close>

definition or32 :: "int \<Rightarrow> int \<Rightarrow> int" where
  "or32 a b = sint (or (word_of_int a) (word_of_int b) :: 32 word)"

definition SetOriginalCallTypeForActiveState :: "nat \<Rightarrow> unit cmM" where
  "SetOriginalCallTypeForActiveState a = do {
     c \<leftarrow> getCall a;
     let priorState = cb_callState c;
     let videoState = VideoStateType_code (cb_videoState c);
     let history = cb_originalCallType c;
     if priorState = CALL_STATUS_ALERTING \<or> priorState = CALL_STATUS_INCOMING \<or> priorState = CALL_STATUS_WAITING
     then whenM (history \<noteq> videoState) (updCall a (\<lambda>c. c\<lparr>cb_originalCallType := videoState\<rparr>))
     else whenM (priorState = CALL_STATUS_ACTIVE \<or> priorState = CALL_STATUS_HOLDING)
            (updCall a (\<lambda>c. c\<lparr>cb_originalCallType := or32 history videoState\<rparr>))
   }"

definition SetOriginalCallTypeForDisconnectState :: "nat \<Rightarrow> unit cmM" where
  "SetOriginalCallTypeForDisconnectState a = do {
     c \<leftarrow> getCall a;
     let priorState = cb_callState c;
     let attrInfo = GetCallAttributeBaseInfo c CallAttributeInfo_default;
     whenM (priorState = CALL_STATUS_DIALING \<or> priorState = CALL_STATUS_ALERTING \<or>
         ((priorState = CALL_STATUS_INCOMING \<or> priorState = CALL_STATUS_WAITING) \<and>
          at_answerType attrInfo \<noteq> CALL_ANSWER_REJECT))
       (updCall a (\<lambda>c. c\<lparr>cb_originalCallType := VideoStateType_code TYPE_VOICE\<rparr>))
   }"

text \<open>\<open>std::transform\<close> with \<open>tolower\<close>, then \<open>std::string::find\<close>.\<close>

definition to_lower :: "char \<Rightarrow> char" where
  "to_lower c = (if (65 :: nat) \<le> of_char c \<and> of_char c \<le> (90 :: nat) then char_of (of_char c + 32 :: nat) else c)"

definition has_substring :: "string \<Rightarrow> string \<Rightarrow> bool" where
  "has_substring sub s = list_ex (\<lambda>n. take (length sub) (drop n s) = sub) [0..<Suc (length s)]"

definition CS_CALL_ANSWERED_ELSEWHER :: int where "CS_CALL_ANSWERED_ELSEWHER = 13"
definition ANSWERED_ELSEWHER :: int where "ANSWERED_ELSEWHER = 18632"

definition RefreshCallDisconnectReason :: "nat \<Rightarrow> int \<Rightarrow> string \<Rightarrow> unit cmM" where
  "RefreshCallDisconnectReason a reason message = do {
     c \<leftarrow> getCall a;
     if reason = CS_CALL_ANSWERED_ELSEWHER then
       whenM (cb_callType c = TYPE_CS) (updCall a (\<lambda>c. c\<lparr>cb_answerType := CALL_ANSWERED_ELSEWHER\<rparr>))
     else whenM (reason = ANSWERED_ELSEWHER \<and> has_substring ''elsewhere'' (map to_lower message))
       (updCall a (\<lambda>c. c\<lparr>cb_answerType := CALL_ANSWERED_ELSEWHER\<rparr>))
   }"

section \<open>Creating and replacing a call\<close>

definition PackParaInfo :: "CallDetailInfo \<Rightarrow> CallDirection \<Rightarrow> (DialParaInfo \<times> PacMap) cmM" where
  "PackParaInfo info dir = do {
     (p, extras) \<leftarrow> (if dir = CALL_DIRECTION_OUT then GetDialParaInfo_extras
        else ret (DialParaInfo_default\<lparr>dp_isEcc := False, dp_dialType := DIAL_CARRIER_TYPE\<rparr>, PacMap_empty));
     callId \<leftarrow> GetNewCallId;
     ret (p\<lparr>dp_number := di_phoneNum info, dp_callId := callId, dp_index := di_index info,
       dp_videoState := di_callMode info, dp_accountId := di_accountId info, dp_callType := di_callType info,
       dp_callState := di_state info, dp_bundleName := di_bundleName info, dp_crsType := di_crsType info,
       dp_originalCallType := di_originalCallType info, dp_phoneOrWatch := di_phoneOrWatch info,
       dp_newCallUseBox := di_newCallUseBox info, dp_phoneIndex := di_phoneIndex info\<rparr>, extras)
   }"

definition CreateNewCallByCallType :: "DialParaInfo \<Rightarrow> CallDetailInfo \<Rightarrow> CallDirection \<Rightarrow> PacMap \<Rightarrow> call option" where
  "CreateNewCallByCallType paraInfo info dir extras =
    (case di_callType info of
       TYPE_CS \<Rightarrow> Some (if dir = CALL_DIRECTION_OUT then CarrierCall_out CSCall paraInfo extras else CarrierCall_in CSCall paraInfo)
     | TYPE_IMS \<Rightarrow> Some (if dir = CALL_DIRECTION_OUT then CarrierCall_out IMSCall paraInfo extras else CarrierCall_in IMSCall paraInfo)
     | _ \<Rightarrow> None)"

definition CreateNewCall :: "CallDetailInfo \<Rightarrow> CallDirection \<Rightarrow> nat option cmM" where
  "CreateNewCall info dir = do {
     (paraInfo, extras) \<leftarrow> PackParaInfo info dir;
     case CreateNewCallByCallType paraInfo info dir extras of
       None \<Rightarrow> ret None
     | Some c \<Rightarrow> do {
         a \<leftarrow> newCall c;
         whenM (DialScene_cast (GetIntValue ''dialScene'' 0 extras) = CALL_EMERGENCY)
           (updCall a (\<lambda>c. c\<lparr>cb_isEccContact := True\<rparr>));
         updCall a (\<lambda>c. c\<lparr>cb_originalCallType := di_originalCallType info\<rparr>);
         now \<leftarrow> gets cm_now;
         updCall a (\<lambda>c. c\<lparr>cb_callCreateTime := max now 0\<rparr>);
         ret (Some a)
       }
   }"

text \<open>What the replacement takes over from the old object \<open>o\<close> and its attributes.\<close>

definition take_over :: "call \<Rightarrow> CallAttributeInfo \<Rightarrow> call \<Rightarrow> call" where
  "take_over old attrInfo c =
    (SetPolicyFlag (cb_policyFlag old)
      (c\<lparr>cb_callRunningState := cb_callRunningState old, cb_conferenceState := cb_conferenceState old,
         cb_startTime := at_startTime attrInfo\<rparr>))
    \<lparr>cb_isSpeakerphoneOn := cb_isSpeakerphoneOn old, cb_callBeginTime := at_callBeginTime attrInfo,
     cb_callCreateTime := at_callCreateTime attrInfo, cb_callEndTime := at_callEndTime attrInfo,
     cb_ringBeginTime := at_ringBeginTime attrInfo, cb_ringEndTime := at_ringEndTime attrInfo,
     cb_answerType := at_answerType attrInfo, cb_isMuted := cb_isMuted old\<rparr>"

definition RefreshCall_fill :: "nat \<Rightarrow> call \<Rightarrow> CallAttributeInfo \<Rightarrow> CallDetailInfo \<Rightarrow> unit cmM" where
  "RefreshCall_fill b old attrInfo info = do {
     updCall b (take_over old attrInfo);
     new \<leftarrow> getCall b;
     whenM (cb_callType old = TYPE_IMS \<and> cb_callType new = TYPE_CS \<and> di_mpty info = 1)
       (CSCall_UpdateConferenceId (cb_callId old));
     ignore (call_SetTelCallState b (cb_callState old));
     updCall b (\<lambda>c. c\<lparr>cb_imsDomain := at_imsDomain attrInfo\<rparr>);
     whenM (cb_numberLocation old \<noteq> ''default'')
       (updCall b (\<lambda>c. c\<lparr>cb_numberLocation := cb_numberLocation old\<rparr>))
   }"

definition RefreshCall :: "nat \<Rightarrow> CallDetailInfo \<Rightarrow> nat cmM" where
  "RefreshCall a info = do {
     old \<leftarrow> getCall a;
     let attrInfo = GetCallAttributeBaseInfo old CallAttributeInfo_default;
     created \<leftarrow> CreateNewCall info (at_callDirection attrInfo);
     case created of
       None \<Rightarrow> ret a
     | Some b \<Rightarrow> do {
         ignore (DeleteOneCallObject (cb_callId old));
         updCall b (\<lambda>c. c\<lparr>cb_callId := cb_callId old\<rparr>);
         r \<leftarrow> AddOneCallObject (Some b);
         if r \<noteq> TELEPHONY_SUCCESS then do {
           ignore (AddOneCallObject (Some a));
           ret a
         }
         else do {
           RefreshCall_fill b old attrInfo info;
           ret b
         }
       }
   }"

definition RefreshCallIfNecessary :: "nat \<Rightarrow> CallDetailInfo \<Rightarrow> nat cmM" where
  "RefreshCallIfNecessary a info = do {
     updCall a (\<lambda>c. c\<lparr>cb_newCallUseBox := di_newCallUseBox info\<rparr>);
     c \<leftarrow> getCall a;
     whenM (cb_callType c = TYPE_IMS \<and> cb_videoState c \<noteq> di_callMode info)
       (updCall a (\<lambda>c. c\<lparr>cb_videoState := di_callMode info\<rparr>));
     updCall a (\<lambda>c. c\<lparr>cb_imsDomain := di_imsDomain info\<rparr>);
     whenM (cb_callType c = TYPE_IMS) (updCall a (\<lambda>c. c\<lparr>cb_crsType := di_crsType info\<rparr>));
     if cb_callType c = di_callType info then ret a else RefreshCall a info
   }"

section \<open>An outgoing call\<close>

text \<open>Every lookup of a report goes by index and slot.\<close>

definition reported_call :: "CallDetailInfo \<Rightarrow> nat option cmM" where
  "reported_call info =
     gets (GetOneCallObjectByIndexSlotIdAndCallType (di_index info) (di_accountId info) (di_callType info) (di_phoneIndex info))"

definition UpdateDialingCallInfo :: "CallDetailInfo \<Rightarrow> ErrCode cmM" where
  "UpdateDialingCallInfo info = do {
     known \<leftarrow> reported_call info;
     case known of
       Some a \<Rightarrow> do { ignore (RefreshCallIfNecessary a info); ret TELEPHONY_SUCCESS }
     | None \<Rightarrow> do {
         initial \<leftarrow> gets (GetOneCallObjectByIndex INIT_INDEX);
         case initial of
           None \<Rightarrow> ret TELEPHONY_ERR_LOCAL_PTR_NULL
         | Some a \<Rightarrow> do {
             c \<leftarrow> getCall a;
             let oriNum = cb_accountNumber c;
             a \<leftarrow> RefreshCallIfNecessary a info;
             updCall a (\<lambda>c. c\<lparr>cc_index := di_index info, cb_bundleName := di_bundleName info,
               cc_slotId := di_accountId info\<rparr>);
             ignore (call_SetTelCallState a (di_state info));
             updCall a (\<lambda>c. c\<lparr>cb_videoState := di_callMode info, cb_callType := di_callType info,
               cb_accountNumber := oriNum, cb_imsDomain := di_imsDomain info\<rparr>);
             ClearPendingState a;
             ret TELEPHONY_SUCCESS
           }
       }
   }"

definition UpdateDialingHandle :: "CallDetailInfo \<Rightarrow> bool cmM" where
  "UpdateDialingHandle info = do {
     a \<leftarrow> gets (GetOneCallObjectByIndexSlotIdAndCallType INIT_INDEX (di_accountId info) (di_callType info) (di_phoneIndex info));
     b \<leftarrow> reported_call info;
     ret (a \<noteq> None \<or> b \<noteq> None)
   }"

definition DialingHandle_new :: "CallDetailInfo \<Rightarrow> ErrCode cmM" where
  "DialingHandle_new info = do {
     created \<leftarrow> CreateNewCall info CALL_DIRECTION_OUT;
     case created of
       None \<Rightarrow> ret TELEPHONY_ERR_LOCAL_PTR_NULL
     | Some a \<Rightarrow> do {
         r \<leftarrow> AddOneCallObject created;
         if r \<noteq> TELEPHONY_SUCCESS then ret r
         else do {
           c \<leftarrow> getCall a;
           whenM (di_index info = INIT_INDEX) (do {
             SetPendingMo True (cb_callId c);
             updCall a (\<lambda>c. c\<lparr>cb_phoneOrWatch := WATCH_DIAL\<rparr>)
           });
           RestoreDialingFlag False;
           RemoveEventHandlerTask;
           r \<leftarrow> CarrierDialingProcess a;
           if r \<noteq> TELEPHONY_SUCCESS then ret r
           else do {
             ignore (NotifyNewCallCreated created);
             UpdateCallState created CALL_STATUS_DIALING
           }
         }
       }
   }"

definition DialingHandle :: "CallDetailInfo \<Rightarrow> ErrCode cmM" where
  "DialingHandle info = do {
     known \<leftarrow> (if 0 < di_index info then UpdateDialingHandle info else ret False);
     if known then UpdateDialingCallInfo info else DialingHandle_new info
   }"

text \<open>
  The network may skip the dialing report: the call that was dialed without an index takes the
  reported one. The caller's pointer becomes the call found afterwards.
\<close>

definition RefreshDialingStateByOtherState :: "CallDetailInfo \<Rightarrow> nat option cmM" where
  "RefreshDialingStateByOtherState info = do {
     initial \<leftarrow> gets (GetOneCallObjectByIndex INIT_INDEX);
     case initial of
       None \<Rightarrow> ret None
     | Some _ \<Rightarrow> do {
         ignore (DialingHandle (info\<lparr>di_state := CALL_STATUS_DIALING\<rparr>));
         reported_call info
       }
   }"

text \<open>\<open>call == nullptr && !RefreshDialingStateByOtherState(call, info)\<close>\<close>

definition reported_or_dialed :: "CallDetailInfo \<Rightarrow> nat option cmM" where
  "reported_or_dialed info = do {
     known \<leftarrow> reported_call info;
     case known of Some a \<Rightarrow> ret (Some a) | None \<Rightarrow> RefreshDialingStateByOtherState info
   }"

section \<open>Conferences of a slot\<close>

definition GetConferenceCallList :: "int \<Rightarrow> nat list cmM" where
  "GetConferenceCallList slotId = do {
     st \<leftarrow> getStatus;
     s \<leftarrow> gets id;
     ret (if SLOT_NUM \<le> slotId \<or> slotId < 0 then []
          else List.map_filter (\<lambda>it. if di_mpty it = 1
              then GetOneCallObjectByIndexAndSlotId (di_index it) (di_accountId it) s else None)
            (ds_callVec (st_tmpCallDetailsInfo st slotId)))
   }"

definition SetConferenceCall :: "nat list \<Rightarrow> unit cmM" where
  "SetConferenceCall conferenceCallList = for_each conferenceCallList (\<lambda>a. do {
     SetTelConferenceState a TEL_CONFERENCE_IDLE;
     c \<leftarrow> getCall a;
     whenM (cb_conferenceState c \<noteq> TEL_CONFERENCE_ACTIVE) (do {
       ignore (call_LaunchConference a);
       c \<leftarrow> getCall a;
       ignore (UpdateCallState (Some a) (cb_callState c))
     })
   })"

section \<open>The reported states\<close>

definition ActiveHandle :: "CallDetailInfo \<Rightarrow> ErrCode cmM" where
  "ActiveHandle info = do {
     found \<leftarrow> reported_or_dialed info;
     case found of
       None \<Rightarrow> ret TELEPHONY_ERR_LOCAL_PTR_NULL
     | Some a \<Rightarrow> do {
         ClearPendingState a;
         a \<leftarrow> RefreshCallIfNecessary a info;
         SetOriginalCallTypeForActiveState a;
         c \<leftarrow> getCall a;
         conferenceCallList \<leftarrow> GetConferenceCallList (cc_slotId c);
         (if di_mpty info = 1 \<and> 1 < length conferenceCallList then SetConferenceCall conferenceCallList
          else ignore (call_ExitConference a));
         r \<leftarrow> UpdateCallState (Some a) CALL_STATUS_ACTIVE;
         if r \<noteq> TELEPHONY_SUCCESS then ret r
         else do {
           holdCall \<leftarrow> gets (GetOneCallObject_state CALL_RUNNING_STATE_HOLD);
           (case holdCall of None \<Rightarrow> ret () | Some b \<Rightarrow> updCall b (\<lambda>c. c\<lparr>cb_canSwitchCallState := True\<rparr>));
           ret r
         }
       }
   }"

definition UpdateCallStateAndHandleDsdsMode :: "CallDetailInfo \<Rightarrow> nat option \<Rightarrow> ErrCode cmM" where
  "UpdateCallStateAndHandleDsdsMode info call =
     (if call = None then ret TELEPHONY_ERR_LOCAL_PTR_NULL else UpdateCallState call CALL_STATUS_HOLDING)"

definition HoldingHandle :: "CallDetailInfo \<Rightarrow> ErrCode cmM" where
  "HoldingHandle info = do {
     found \<leftarrow> reported_call info;
     case found of
       None \<Rightarrow> ret TELEPHONY_ERR_LOCAL_PTR_NULL
     | Some a \<Rightarrow> do {
         a \<leftarrow> RefreshCallIfNecessary a info;
         whenM (di_mpty info = 1) (ignore (call_HoldConference a));
         UpdateCallStateAndHandleDsdsMode info (Some a)
       }
   }"

definition AlertHandle :: "CallDetailInfo \<Rightarrow> ErrCode cmM" where
  "AlertHandle info = do {
     found \<leftarrow> reported_or_dialed info;
     case found of
       None \<Rightarrow> ret TELEPHONY_ERR_LOCAL_PTR_NULL
     | Some a \<Rightarrow> do {
         ClearPendingState a;
         c \<leftarrow> getCall a;
         if cb_callState c = CALL_STATUS_DISCONNECTING then ret CALL_ERR_CALL_STATE_MISMATCH_OPERATION
         else do {
           a \<leftarrow> RefreshCallIfNecessary a info;
           UpdateCallState (Some a) CALL_STATUS_ALERTING
         }
       }
   }"

definition DisconnectingHandle :: "CallDetailInfo \<Rightarrow> ErrCode cmM" where
  "DisconnectingHandle info = do {
     found \<leftarrow> reported_call info;
     case found of
       None \<Rightarrow> ret TELEPHONY_ERR_LOCAL_PTR_NULL
     | Some a \<Rightarrow> do {
         a \<leftarrow> RefreshCallIfNecessary a info;
         SetOriginalCallTypeForDisconnectState a;
         UpdateCallState (Some a) CALL_STATUS_DISCONNECTING
       }
   }"

section \<open>A disconnected call\<close>

definition IsCanUnHold :: "int \<Rightarrow> int \<Rightarrow> nat \<Rightarrow> cm \<Rightarrow> bool" where
  "IsCanUnHold activeCallNum waitingCallNum n s \<longleftrightarrow>
     GetCallNum CALL_STATUS_ANSWERED s = 0 \<and> GetCallNum CALL_STATUS_INCOMING s = 0 \<and>
     (n = 0 \<or> n = 1) \<and> activeCallNum = 0 \<and> waitingCallNum = 0 \<and> GetCallNum CALL_STATUS_ALERTING s = 0"

definition HandleHoldCallOrAutoAnswerCall ::
    "nat \<Rightarrow> u16string list \<Rightarrow> CallRunningState \<Rightarrow> TelCallState \<Rightarrow> unit cmM" where
  "HandleHoldCallOrAutoAnswerCall a callIdList previousState priorState = do {
     s \<leftarrow> gets id;
     let canUnHold = IsCanUnHold (GetCallNum CALL_STATUS_ACTIVE s) (GetCallNum CALL_STATUS_WAITING s) (length callIdList) s;
     let holdCall = GetOneCallObject_state CALL_RUNNING_STATE_HOLD s;
     (case holdCall of
        None \<Rightarrow> ret ()
      | Some b \<Rightarrow> whenM (previousState \<noteq> CALL_RUNNING_STATE_HOLD \<and> previousState \<noteq> CALL_RUNNING_STATE_ACTIVE \<and>
            priorState = CALL_STATUS_DISCONNECTING \<and> canUnHold \<and> cb_canUnHoldState (cm_heap s b) \<and>
            cc_slotId (cm_heap s b) = cc_slotId (cm_heap s a))
          (ignore (CarrierUnHoldCall b)));
     c \<leftarrow> getCall a;
     ignore (DeleteOneCallObject (cb_callId c))
   }"

definition HandleDialWhenHolding :: "(nat option \<Rightarrow> ErrCode cmM) \<Rightarrow> int \<Rightarrow> nat option \<Rightarrow> unit cmM" where
  "HandleDialWhenHolding dealFailDial callId call = do {
     pending \<leftarrow> IsPendingHangup;
     if pending then do {
       holdCall \<leftarrow> gets (GetOneCallObject callId);
       (case holdCall of None \<Rightarrow> ret () | Some b \<Rightarrow> ignore (CarrierUnHoldCall b));
       pendingHangupCallId \<leftarrow> GetPendingHangupCallId;
       pendingHangupCall \<leftarrow> gets (GetOneCallObject pendingHangupCallId);
       (case pendingHangupCall of
          None \<Rightarrow> ret ()
        | Some b \<Rightarrow> do {
            ignore (UpdateCallState (Some b) CALL_STATUS_DISCONNECTED);
            ignore (DeleteOneCallObject pendingHangupCallId)
          });
       SetPendingHangup False (-1);
       RemovePendingHangupProtectTask
     }
     else do {
       info \<leftarrow> gets cm_dialCallInfo;
       result \<leftarrow> Conn_Dial info;
       dialCall \<leftarrow> gets (GetOneCallObject_state CALL_RUNNING_STATE_DIALING);
       whenM (result \<noteq> TELEPHONY_SUCCESS \<and> dialCall \<noteq> None) (ignore (dealFailDial call))
     }
   }"

text \<open>\<open>GetSubCallIdList\<close> of the call's class, as far as its length goes.\<close>

definition call_GetSubCallIdList :: "nat \<Rightarrow> u16string list cmM" where
  "call_GetSubCallIdList a = do {
     c \<leftarrow> getCall a;
     f \<leftarrow> getConference (cb_class c);
     ret (snd (GetSubCallIdList (cb_callId c) f))
   }"

text \<open>The part up to the question whether a dial waited for this call to be held.\<close>

definition Disconnected_update :: "CallDetailInfo \<Rightarrow> nat \<Rightarrow> (nat \<times> u16string list \<times> CallRunningState \<times> TelCallState) cmM" where
  "Disconnected_update info a = do {
     a \<leftarrow> RefreshCallIfNecessary a info;
     RefreshCallDisconnectReason a (di_reason info) (di_message info);
     ClearPendingState a;
     SetOriginalCallTypeForDisconnectState a;
     callIdList \<leftarrow> call_GetSubCallIdList a;
     c \<leftarrow> getCall a;
     let previousState = cb_callRunningState c;
     ignore (call_ExitConference a);
     c \<leftarrow> getCall a;
     let priorState = cb_callState c;
     ignore (UpdateCallState (Some a) CALL_STATUS_DISCONNECTED);
     ret (a, callIdList, previousState, priorState)
   }"

text \<open>The part after it: recover a held call, drop the call, dissolve a conference of one.\<close>

definition Disconnected_finish :: "nat \<Rightarrow> u16string list \<Rightarrow> CallRunningState \<Rightarrow> TelCallState \<Rightarrow> unit cmM" where
  "Disconnected_finish a callIdList previousState priorState = do {
     HandleHoldCallOrAutoAnswerCall a callIdList previousState priorState;
     c \<leftarrow> getCall a;
     conferenceCallList \<leftarrow> GetConferenceCallList (cc_slotId c);
     (case conferenceCallList of
        [b] \<Rightarrow> do {
          d \<leftarrow> getCall b;
          whenM (cb_conferenceState d \<noteq> TEL_CONFERENCE_IDLE) (do {
            SetTelConferenceState b TEL_CONFERENCE_IDLE;
            ignore (UpdateCallState (Some b) (cb_callState d))
          })
        }
      | _ \<Rightarrow> ret ())
   }"

definition DisconnectedHandle_with :: "(nat option \<Rightarrow> ErrCode cmM) \<Rightarrow> CallDetailInfo \<Rightarrow> ErrCode cmM" where
  "DisconnectedHandle_with dealFailDial info = do {
     found \<leftarrow> reported_or_dialed info;
     case found of
       None \<Rightarrow> ret TELEPHONY_ERR_LOCAL_PTR_NULL
     | Some a \<Rightarrow> do {
         (a, callIdList, previousState, priorState) \<leftarrow> Disconnected_update info a;
         c \<leftarrow> getCall a;
         s \<leftarrow> gets id;
         whenM (cm_needWaitHold s \<and> GetCallNum CALL_STATUS_ACTIVE s = 0) (do {
           SetNeedWaitHold False;
           HandleDialWhenHolding dealFailDial (cb_callId c) (Some a)
         });
         Disconnected_finish a callIdList previousState priorState;
         ret TELEPHONY_SUCCESS
       }
   }"

text \<open>
  \<open>ReportCallDisconnected\<close> builds a report for the call and hands it to the report handler, whose
  machine handles it. The handler is the argument.
\<close>

definition disconnect_report :: "call \<Rightarrow> CallDetailInfo" where
  "disconnect_report c = CallDetailInfo_default
     \<lparr>di_callType := cb_callType c, di_accountId := cc_slotId c, di_index := cc_index c,
      di_state := CALL_STATUS_DISCONNECTED, di_callMode := cb_videoState c,
      di_voiceDomain := CallType_code (cb_callType c), di_phoneNum := cb_accountNumber c\<rparr>"

definition ReportCallDisconnected_with :: "(CallDetailInfo \<Rightarrow> ErrCode cmM) \<Rightarrow> nat option \<Rightarrow> ErrCode cmM" where
  "ReportCallDisconnected_with disconnectedHandle call =
     (case call of
        None \<Rightarrow> ret TELEPHONY_ERR_LOCAL_PTR_NULL
      | Some a \<Rightarrow> do {
          c \<leftarrow> getCall a;
          if kMaxNumberLen < length (cb_accountNumber c) then ret CALL_ERR_NUMBER_OUT_OF_RANGE
          else do {
            st \<leftarrow> gets cm_status;
            if st = None then ret TELEPHONY_ERR_LOCAL_PTR_NULL
            else do {
              onStatus (\<lambda>st. st\<lparr>st_callReportInfo := disconnect_report c\<rparr>);
              disconnectedHandle (disconnect_report c)
            }
          }
        })"

text \<open>With \<open>needWaitHold_\<close> clear the argument is never called; the innermost level has none.\<close>

definition DisconnectedHandle_inner :: "CallDetailInfo \<Rightarrow> ErrCode cmM" where
  "DisconnectedHandle_inner = DisconnectedHandle_with (\<lambda>_. ret TELEPHONY_ERR_FAIL)"

definition DisconnectedHandle :: "CallDetailInfo \<Rightarrow> ErrCode cmM" where
  "DisconnectedHandle = DisconnectedHandle_with (ReportCallDisconnected_with DisconnectedHandle_inner)"

definition ReportCallDisconnected :: "nat option \<Rightarrow> ErrCode cmM" where
  "ReportCallDisconnected = ReportCallDisconnected_with DisconnectedHandle"

definition DealFailDial :: "nat option \<Rightarrow> ErrCode cmM" where
  "DealFailDial call = ReportCallDisconnected call"

section \<open>An incoming call\<close>

text \<open>The second result says whether the report is about a call that was already known.\<close>

definition RefreshOldCall :: "CallDetailInfo \<Rightarrow> (ErrCode \<times> bool) cmM" where
  "RefreshOldCall info = do {
     initial \<leftarrow> gets (GetOneCallObjectByIndex INIT_INDEX);
     (if initial \<noteq> None then ignore (DealFailDial initial) else ret ());
     known \<leftarrow> reported_call info;
     case known of
       None \<Rightarrow> ret (TELEPHONY_SUCCESS, False)
     | Some a \<Rightarrow> do {
         c \<leftarrow> getCall a;
         let oldCallType = cb_callType c;
         let videoState = cb_videoState c;
         if oldCallType \<noteq> di_callType info \<or> cb_callState c \<noteq> di_state info \<or> videoState \<noteq> di_callMode info
         then do {
           a \<leftarrow> RefreshCallIfNecessary a info;
           if oldCallType \<noteq> di_callType info \<or> videoState \<noteq> di_callMode info
           then do { r \<leftarrow> UpdateCallState (Some a) (di_state info); ret (r, True) }
           else ret (TELEPHONY_SUCCESS, True)
         }
         else ret (TELEPHONY_SUCCESS, True)
       }
   }"

definition PrepareIncomingCall :: "CallDetailInfo \<Rightarrow> (ErrCode \<times> bool) cmM" where
  "PrepareIncomingCall info = RefreshOldCall info"

definition HandleRejectCall :: "nat option \<Rightarrow> bool \<Rightarrow> ErrCode cmM" where
  "HandleRejectCall call isBlock =
     (case call of
        None \<Rightarrow> ret TELEPHONY_ERR_LOCAL_PTR_NULL
      | Some a \<Rightarrow> do {
          r \<leftarrow> call_SetTelCallState a CALL_STATUS_INCOMING;
          if r \<noteq> TELEPHONY_SUCCESS \<and> r \<noteq> CALL_ERR_NOT_NEW_STATE then ret r
          else CarrierRejectCall a
        })"

definition DialingHandlePolicy :: "CallDetailInfo \<Rightarrow> cm \<Rightarrow> ErrCode" where
  "DialingHandlePolicy info s =
     (if IsCallExist_number (di_phoneNum info) s then CALL_ERR_CALL_ALREADY_EXISTS else TELEPHONY_SUCCESS)"

definition FilterResultsDispose :: "nat option \<Rightarrow> ErrCode cmM" where
  "FilterResultsDispose call =
     (case call of
        None \<Rightarrow> ret CALL_ERR_CALL_OBJECT_IS_NULL
      | Some a \<Rightarrow> do {
          s \<leftarrow> gets id;
          if HasRingingMaximum s \<or> HasDialingMaximum s then do {
            updCall a (\<lambda>c. c\<lparr>cb_isApCauseReported := True\<rparr>);
            r \<leftarrow> CarrierHangUpCall a;
            if r \<noteq> TELEPHONY_SUCCESS then ret r else ret TELEPHONY_SUCCESS
          }
          else do {
            ignore (onCall a IncomingCallBase);
            ignore (NotifyNewCallCreated call);
            ret TELEPHONY_SUCCESS
          }
        })"

definition FinalizeIncomingState :: "nat option \<Rightarrow> TelCallState \<Rightarrow> ErrCode cmM" where
  "FinalizeIncomingState call nextState = do {
     r \<leftarrow> UpdateCallState call nextState;
     if r \<noteq> TELEPHONY_SUCCESS then ret r else FilterResultsDispose call
   }"

definition IncomingHandle :: "CallDetailInfo \<Rightarrow> ErrCode cmM" where
  "IncomingHandle info = do {
     (r, isExisted) \<leftarrow> PrepareIncomingCall info;
     if isExisted \<or> r \<noteq> TELEPHONY_SUCCESS then ret r
     else do {
       created \<leftarrow> CreateNewCall info CALL_DIRECTION_IN;
       if created = None then ret CALL_ERR_CALL_OBJECT_IS_NULL
       else do {
         r \<leftarrow> AddOneCallObject created;
         if r \<noteq> TELEPHONY_SUCCESS then do {
           ignore (HandleRejectCall created False);
           ret r
         }
         else do {
           ignore (NotifyNewCallCreated created);
           FinalizeIncomingState created (di_state info)
         }
       }
     }
   }"

definition WaitingHandle :: "CallDetailInfo \<Rightarrow> ErrCode cmM" where
  "WaitingHandle info = IncomingHandle info"

section \<open>One report, and a batch\<close>

definition HandleCallReportInfoEx :: "CallDetailInfo \<Rightarrow> ErrCode cmM" where
  "HandleCallReportInfoEx info =
     (case di_state info of
        CALL_STATUS_WAITING \<Rightarrow> WaitingHandle info
      | CALL_STATUS_DISCONNECTED \<Rightarrow> DisconnectedHandle info
      | CALL_STATUS_DISCONNECTING \<Rightarrow> DisconnectingHandle info
      | _ \<Rightarrow> ret TELEPHONY_ERR_FAIL)"

definition HandleCallReportInfo :: "CallDetailInfo \<Rightarrow> ErrCode cmM" where
  "HandleCallReportInfo info = do {
     onStatus (\<lambda>st. st\<lparr>st_callReportInfo := info\<rparr>);
     case di_state info of
       CALL_STATUS_ACTIVE \<Rightarrow> ActiveHandle info
     | CALL_STATUS_HOLDING \<Rightarrow> HoldingHandle info
     | CALL_STATUS_DIALING \<Rightarrow> DialingHandle info
     | CALL_STATUS_ALERTING \<Rightarrow> AlertHandle info
     | CALL_STATUS_INCOMING \<Rightarrow> IncomingHandle info
     | CALL_STATUS_WAITING \<Rightarrow> HandleCallReportInfoEx info
     | CALL_STATUS_DISCONNECTED \<Rightarrow> HandleCallReportInfoEx info
     | CALL_STATUS_DISCONNECTING \<Rightarrow> HandleCallReportInfoEx info
     | _ \<Rightarrow> ret TELEPHONY_ERR_FAIL
   }"

definition UpdateCallDetailsInfo :: "CallDetailsInfo \<Rightarrow> unit cmM" where
  "UpdateCallDetailsInfo info = onStatus (\<lambda>st.
     let vec = filter (\<lambda>i. di_state i \<noteq> CALL_STATUS_DISCONNECTED) (ds_callVec info);
         st = st\<lparr>st_callDetailsInfo := (st_callDetailsInfo st)(ds_slotId info := info\<lparr>ds_callVec := vec\<rparr>)\<rparr>
     in if vec = [] then st\<lparr>st_tmpCallDetailsInfo := (st_tmpCallDetailsInfo st)
             (ds_slotId info := (st_tmpCallDetailsInfo st (ds_slotId info))\<lparr>ds_callVec := []\<rparr>)\<rparr>
        else st)"

text \<open>
  What a batch makes of the previous one: a known index is handled when something changed, an
  unknown one always, and what is missing from the batch is disconnected.
\<close>

definition report_changed :: "CallDetailInfo \<Rightarrow> CallDetailInfo \<Rightarrow> bool" where
  "report_changed it it1 \<longleftrightarrow> di_state it \<noteq> di_state it1 \<or> di_mpty it \<noteq> di_mpty it1 \<or>
     di_state it = CALL_STATUS_ALERTING \<or> di_callMode it \<noteq> di_callMode it1 \<or> di_callType it \<noteq> di_callType it1"

definition handled_reports :: "CallDetailInfo list \<Rightarrow> CallDetailInfo list \<Rightarrow> CallDetailInfo list" where
  "handled_reports old new =
     filter (\<lambda>it. case List.find (\<lambda>it1. di_index it = di_index it1) old of
         None \<Rightarrow> True
       | Some it1 \<Rightarrow> report_changed it it1) new @
     map (\<lambda>it2. it2\<lparr>di_state := CALL_STATUS_DISCONNECTED\<rparr>)
       (filter (\<lambda>it2. \<not> list_ex (\<lambda>it3. di_index it2 = di_index it3) new) old)"

definition HandleCallsReportInfo :: "CallDetailsInfo \<Rightarrow> ErrCode cmM" where
  "HandleCallsReportInfo info =
     (if \<not> IsValidSlotId (ds_slotId info) then ret CALL_ERR_INVALID_SLOT_ID
      else do {
        onStatus (\<lambda>st. st\<lparr>st_tmpCallDetailsInfo := (st_tmpCallDetailsInfo st)(ds_slotId info := info)\<rparr>);
        st \<leftarrow> getStatus;
        for_each (handled_reports (ds_callVec (st_callDetailsInfo st (ds_slotId info))) (ds_callVec info))
          (\<lambda>it. ignore (HandleCallReportInfo it));
        UpdateCallDetailsInfo info;
        ret TELEPHONY_SUCCESS
      })"

section \<open>Causes and events\<close>

definition HandleDisconnectedCause :: "DisconnectedDetails \<Rightarrow> ErrCode cmM" where
  "HandleDisconnectedCause details = do {
     ok \<leftarrow> NotifyCallDestroyed details;
     if \<not> ok then ret CALL_ERR_PHONE_CALLSTATE_NOTIFY_FAILED else ret TELEPHONY_SUCCESS
   }"

definition EVENT_REQUEST_RESULT_TYPE :: int where "EVENT_REQUEST_RESULT_TYPE = 0"

definition mEventIdTransferMap :: "RequestResultEventId \<Rightarrow> CallAbilityEventId option" where
  "mEventIdTransferMap i =
    (case i of
       RESULT_DIAL_NO_CARRIER \<Rightarrow> Some EVENT_DIAL_NO_CARRIER
     | RESULT_HOLD_SEND_FAILED \<Rightarrow> Some EVENT_HOLD_CALL_FAILED
     | RESULT_SWAP_SEND_FAILED \<Rightarrow> Some EVENT_SWAP_CALL_FAILED
     | RESULT_COMBINE_SEND_FAILED \<Rightarrow> Some EVENT_COMBINE_CALL_FAILED
     | RESULT_SPLIT_SEND_FAILED \<Rightarrow> Some EVENT_SPLIT_CALL_FAILED
     | _ \<Rightarrow> None)"

definition HandleEventResultReportInfo :: "CellularCallEventInfo \<Rightarrow> ErrCode cmM" where
  "HandleEventResultReportInfo info =
     (if ce_eventType info \<noteq> EVENT_REQUEST_RESULT_TYPE then ret CALL_ERR_PHONE_TYPE_UNEXPECTED
      else do {
        call \<leftarrow> gets (GetOneCallObject_state CALL_RUNNING_STATE_DIALING);
        (if call \<noteq> None then ignore (DealFailDial call) else ret ());
        case mEventIdTransferMap (ce_eventId info) of
          None \<Rightarrow> ret TELEPHONY_SUCCESS
        | Some eventId \<Rightarrow>
            (let eventInfo = CallEventInfo_default\<lparr>ev_eventId := eventId\<rparr>
             in case eventId of
               EVENT_DIAL_NO_CARRIER \<Rightarrow> do {
                 dialInfo \<leftarrow> GetDialParaInfo;
                 if kMaxNumberLen < length (dp_number dialInfo) then ret CALL_ERR_NUMBER_OUT_OF_RANGE
                 else do {
                   ignore (NotifyCallEventUpdated (eventInfo\<lparr>ev_phoneNum := dp_number dialInfo\<rparr>));
                   ret TELEPHONY_SUCCESS
                 }
               }
             | EVENT_COMBINE_CALL_FAILED \<Rightarrow> do {
                 activeCall \<leftarrow> gets (GetOneCallObject_state CALL_RUNNING_STATE_ACTIVE);
                 (case activeCall of None \<Rightarrow> ret () | Some a \<Rightarrow> call_HandleCombineConferenceFailEvent a);
                 ignore (NotifyCallEventUpdated eventInfo);
                 ret TELEPHONY_SUCCESS
               }
             | EVENT_HOLD_CALL_FAILED \<Rightarrow> do {
                 SetNeedWaitHold False;
                 ignore (NotifyCallEventUpdated eventInfo);
                 ret TELEPHONY_SUCCESS
               }
             | _ \<Rightarrow> do {
                 ignore (NotifyCallEventUpdated eventInfo);
                 ret TELEPHONY_SUCCESS
               })
      })"

section \<open>The report handler\<close>

definition StatusManager_Init :: status where
  "StatusManager_Init = status_init"

definition ReportHandler_Init :: "unit cmM" where
  "ReportHandler_Init = do {
     st \<leftarrow> gets cm_status;
     whenM (st = None) (modify (\<lambda>s. s\<lparr>cm_status := Some StatusManager_Init\<rparr>))
   }"

definition ReportHandler_UnInit :: "unit cmM" where
  "ReportHandler_UnInit = modify (\<lambda>s. s\<lparr>cm_status := None\<rparr>)"

definition whenStatus :: "ErrCode cmM \<Rightarrow> ErrCode cmM" where
  "whenStatus m = do {
     st \<leftarrow> gets cm_status;
     if st = None then ret TELEPHONY_ERR_LOCAL_PTR_NULL else m
   }"

definition UpdateCallReportInfo :: "CallDetailInfo \<Rightarrow> ErrCode cmM" where
  "UpdateCallReportInfo info = whenStatus (HandleCallReportInfo info)"

definition UpdateCallsReportInfo :: "CallDetailsInfo \<Rightarrow> ErrCode cmM" where
  "UpdateCallsReportInfo info = whenStatus (HandleCallsReportInfo info)"

definition DISCONNECTED_REASON_NORMAL :: int where "DISCONNECTED_REASON_NORMAL = 0"
definition NORMAL_CALL_CLEARING :: int where "NORMAL_CALL_CLEARING = 16"

definition UpdateDisconnectedCause :: "DisconnectedDetails \<Rightarrow> ErrCode cmM" where
  "UpdateDisconnectedCause details = whenStatus (HandleDisconnectedCause
     (if dd_reason details = DISCONNECTED_REASON_NORMAL then details\<lparr>dd_reason := NORMAL_CALL_CLEARING\<rparr> else details))"

definition UpdateEventResultInfo :: "CellularCallEventInfo \<Rightarrow> ErrCode cmM" where
  "UpdateEventResultInfo info = whenStatus (HandleEventResultReportInfo info)"

end
