(* ===== verification/Uplink.thy ===== *)
theory Uplink
  imports Call_Status
begin

text \<open>
  What the protocol stack may call: \<open>services/telephony_interaction/src/mini/call_status_callback_guard.cpp\<close>
  checks every report in the caller's task and posts a copy to the loop, where
  \<open>call_status_callback.cpp\<close> turns it into the structures of the state machine.
\<close>

section \<open>The guard\<close>

definition Guard_IsValidSlot :: "int \<Rightarrow> bool" where
  "Guard_IsValidSlot slotId \<longleftrightarrow> 0 \<le> slotId \<and> slotId < MINI_SLOT_COUNT"

definition IsReportedState :: "TelCallState \<Rightarrow> bool" where
  "IsReportedState st \<longleftrightarrow> TelCallState_code CALL_STATUS_ACTIVE \<le> TelCallState_code st \<and>
     TelCallState_code st \<le> TelCallState_code CALL_STATUS_DISCONNECTING"

definition IsCarrierCallType :: "CallType \<Rightarrow> bool" where
  "IsCarrierCallType t \<longleftrightarrow> t = TYPE_CS \<or> t = TYPE_IMS"

definition IsVideoState :: "VideoStateType \<Rightarrow> bool" where
  "IsVideoState mode \<longleftrightarrow> VideoStateType_code TYPE_VOICE \<le> VideoStateType_code mode \<and>
     VideoStateType_code mode \<le> VideoStateType_code TYPE_VIDEO"

definition IsTerminated :: "char list \<Rightarrow> nat \<Rightarrow> bool" where
  "IsTerminated text capacity \<longleftrightarrow> List.member (take capacity text) (CHR 0x00)"

definition IsValidReport :: "CallReportInfo \<Rightarrow> bool" where
  "IsValidReport info \<longleftrightarrow>
     (if \<not> Guard_IsValidSlot (ri_accountId info) then False
      else if \<not> IsReportedState (ri_state info) \<or> \<not> IsCarrierCallType (ri_callType info) \<or> \<not> IsVideoState (ri_callMode info)
      then False
      else if \<not> IsTerminated (ri_accountNum info) (kMaxNumberLen + 1) then False
      else True)"

definition PostToLoop :: "task \<Rightarrow> ErrCode cmM" where
  "PostToLoop t = post t"

definition Guard_UpdateCallReportInfo :: "CallReportInfo \<Rightarrow> ErrCode cmM" where
  "Guard_UpdateCallReportInfo info =
     (if \<not> IsValidReport info then ret TELEPHONY_ERR_ARGUMENT_INVALID else PostToLoop (T_UpdateCallReportInfo info))"

definition Guard_UpdateCallsReportInfo :: "CallsReportInfo \<Rightarrow> ErrCode cmM" where
  "Guard_UpdateCallsReportInfo info =
     (if MINI_MAX_REPORTED_CALLS < length (rs_callVec info) then ret TELEPHONY_ERR_ARGUMENT_INVALID
      else if \<not> Guard_IsValidSlot (rs_slotId info) then ret TELEPHONY_ERR_ARGUMENT_INVALID
      else if list_ex (\<lambda>call. \<not> IsValidReport call \<or> ri_accountId call \<noteq> rs_slotId info) (rs_callVec info)
      then ret TELEPHONY_ERR_ARGUMENT_INVALID
      else PostToLoop (T_UpdateCallsReportInfo info))"

definition Guard_UpdateDisconnectedCause :: "DisconnectedDetails \<Rightarrow> ErrCode cmM" where
  "Guard_UpdateDisconnectedCause details = PostToLoop (T_UpdateDisconnectedCause details)"

definition Guard_UpdateEventResultInfo :: "CellularCallEventInfo \<Rightarrow> ErrCode cmM" where
  "Guard_UpdateEventResultInfo info =
     (if ce_eventType info \<noteq> EVENT_REQUEST_RESULT_TYPE then ret TELEPHONY_ERR_ARGUMENT_INVALID
      else PostToLoop (T_UpdateEventResultInfo info))"

definition Guard_UpdateRBTPlayInfo :: "RBTPlayInfo \<Rightarrow> ErrCode cmM" where
  "Guard_UpdateRBTPlayInfo info =
     (if info \<noteq> NETWORK_ALERTING \<and> info \<noteq> LOCAL_ALERTING then ret TELEPHONY_ERR_ARGUMENT_INVALID
      else PostToLoop (T_UpdateRBTPlayInfo info))"

section \<open>On the loop\<close>

text \<open>255 bytes are copied into a zeroed array of 256; the number is what stands before the first 0.\<close>

definition copied_number :: "char list \<Rightarrow> string" where
  "copied_number raw = takeWhile (\<lambda>c. c \<noteq> CHR 0x00) (take kMaxNumberLen raw)"

definition single_detail :: "CallReportInfo \<Rightarrow> CallDetailInfo" where
  "single_detail info = CallDetailInfo_default
     \<lparr>di_callType := ri_callType info, di_accountId := ri_accountId info, di_index := ri_index info,
      di_state := ri_state info, di_callMode := ri_callMode info, di_voiceDomain := ri_voiceDomain info,
      di_mpty := ri_mpty info, di_phoneIndex := ri_phoneIndex info,
      di_phoneNum := copied_number (ri_accountNum info), di_bundleName := []\<rparr>"

text \<open>One object is filled again for each call of a batch; \<open>phoneIndex\<close> is not among what is filled.\<close>

definition batch_detail :: "CallReportInfo \<Rightarrow> CallDetailInfo" where
  "batch_detail call = CallDetailInfo_default
     \<lparr>di_callType := ri_callType call, di_accountId := ri_accountId call, di_index := ri_index call,
      di_state := ri_state call, di_callMode := ri_callMode call, di_voiceDomain := ri_voiceDomain call,
      di_mpty := ri_mpty call, di_crsType := ri_crsType call, di_originalCallType := ri_originalCallType call,
      di_phoneNum := copied_number (ri_accountNum call), di_bundleName := [], di_name := ri_name call,
      di_namePresentation := ri_namePresentation call, di_reason := ri_reason call, di_message := ri_message call,
      di_newCallUseBox := ri_newCallUseBox call, di_imsDomain := ri_imsDomain call\<rparr>"

definition Callback_UpdateCallReportInfo :: "CallReportInfo \<Rightarrow> ErrCode cmM" where
  "Callback_UpdateCallReportInfo info = UpdateCallReportInfo (single_detail info)"

definition Callback_UpdateCallsReportInfo :: "CallsReportInfo \<Rightarrow> ErrCode cmM" where
  "Callback_UpdateCallsReportInfo info = UpdateCallsReportInfo
     \<lparr>ds_callVec = map batch_detail (rs_callVec info), ds_slotId = rs_slotId info, ds_bundleName = []\<rparr>"

definition Callback_UpdateDisconnectedCause :: "DisconnectedDetails \<Rightarrow> ErrCode cmM" where
  "Callback_UpdateDisconnectedCause details = UpdateDisconnectedCause details"

definition Callback_UpdateEventResultInfo :: "CellularCallEventInfo \<Rightarrow> ErrCode cmM" where
  "Callback_UpdateEventResultInfo info = UpdateEventResultInfo info"

definition Callback_UpdateRBTPlayInfo :: "RBTPlayInfo \<Rightarrow> ErrCode cmM" where
  "Callback_UpdateRBTPlayInfo info = do {
     whenM (info = LOCAL_ALERTING)
       (Report_CallEventUpdated (CallEventInfo_default\<lparr>ev_eventId := EVENT_LOCAL_ALERTING\<rparr>));
     ret TELEPHONY_SUCCESS
   }"

end
