(* ===== verification/Call_Control.thy ===== *)
theory Call_Control
  imports Call_Status
begin

text \<open>
  What an application asks for: the policies (\<open>services/call/src/mini/call_policy.cpp\<close>), the requests
  carried out on the loop (\<open>call_request_process.cpp\<close>, \<open>call_request_handler.cpp\<close>) and the control
  operations (\<open>call_control_manager.cpp\<close>).

  A dial runs to its end inside the call of the service; every other operation passes its policy,
  then posts the request, which finds the call again by its id when it runs. \<open>extras\<close> is a map the
  dial changes; each step answers the new map.
\<close>

section \<open>Policies\<close>

definition CheckDialType :: "DialType \<Rightarrow> ErrCode" where
  "CheckDialType dialType =
    (if dialType = DIAL_CARRIER_TYPE \<or> dialType = DIAL_VOICE_MAIL_TYPE then TELEPHONY_SUCCESS
     else if dialType = DIAL_OTT_TYPE \<or> dialType = DIAL_BLUETOOTH_TYPE then CALL_ERR_FUNCTION_NOT_SUPPORTED
     else TELEPHONY_ERR_ARGUMENT_INVALID)"

definition IsDialingEnable :: "string \<Rightarrow> bool" where
  "IsDialingEnable phoneNum = True"

definition CheckMdmPolicy :: "string \<Rightarrow> ErrCode" where
  "CheckMdmPolicy phoneNum = (if \<not> IsDialingEnable phoneNum then TELEPHONY_ERR_POLICY_DISABLED else TELEPHONY_SUCCESS)"

definition SelectAccountIdForCarrier :: "int \<Rightarrow> DialType \<Rightarrow> PacMap \<Rightarrow> ErrCode \<times> PacMap" where
  "SelectAccountIdForCarrier accountId dialType extras =
    (TELEPHONY_SUCCESS,
     if dialType = DIAL_CARRIER_TYPE \<and> \<not> SelectAccountId accountId then PutIntValue ''accountId'' 0 extras else extras)"

definition IsValidCallType :: "CallType \<Rightarrow> ErrCode" where
  "IsValidCallType callType =
    (if callType = TYPE_CS \<or> callType = TYPE_IMS then TELEPHONY_SUCCESS
     else if callType = TYPE_OTT \<or> callType = TYPE_SATELLITE \<or> callType = TYPE_BLUETOOTH
     then CALL_ERR_FUNCTION_NOT_SUPPORTED
     else CALL_ERR_UNKNOW_CALL_TYPE)"

definition ValidateCallType :: "CallType \<Rightarrow> ErrCode" where
  "ValidateCallType callType =
    (let r = IsValidCallType callType
     in if r = CALL_ERR_FUNCTION_NOT_SUPPORTED then r
        else if r \<noteq> TELEPHONY_SUCCESS then TELEPHONY_ERR_ARGUMENT_INVALID
        else TELEPHONY_SUCCESS)"

definition ValidateDialScene :: "DialScene \<Rightarrow> ErrCode" where
  "ValidateDialScene dialScene =
    (if dialScene \<noteq> CALL_NORMAL \<and> dialScene \<noteq> CALL_PRIVILEGED \<and> dialScene \<noteq> CALL_EMERGENCY
     then TELEPHONY_ERR_ARGUMENT_INVALID else TELEPHONY_SUCCESS)"

definition ValidateVideoState :: "VideoStateType \<Rightarrow> ErrCode" where
  "ValidateVideoState videoState =
    (if videoState \<noteq> TYPE_VOICE \<and> videoState \<noteq> TYPE_VIDEO then TELEPHONY_ERR_ARGUMENT_INVALID else TELEPHONY_SUCCESS)"

definition CheckCallLimit :: "bool \<Rightarrow> VideoStateType \<Rightarrow> cm \<Rightarrow> ErrCode" where
  "CheckCallLimit isEcc videoState s =
    (if \<not> isEcc \<and> HasEmergencyCall s then CALL_ERR_CALL_COUNTS_EXCEED_LIMIT else TELEPHONY_SUCCESS)"

definition GetAirplaneMode :: "ErrCode \<times> bool" where
  "GetAirplaneMode = (CALL_ERR_FUNCTION_NOT_SUPPORTED, False)"

definition HasNormalCall :: "bool \<Rightarrow> int \<Rightarrow> CallType \<Rightarrow> cm \<Rightarrow> ErrCode" where
  "HasNormalCall isEcc slotId callType s =
    (if isEcc then TELEPHONY_SUCCESS
     else if \<not> snd (HasSimCard slotId False s) then TELEPHONY_ERR_NO_SIM_CARD
     else if fst GetAirplaneMode = TELEPHONY_SUCCESS \<and> snd GetAirplaneMode then TELEPHONY_ERR_AIRPLANE_MODE_ON
     else if \<not> snd (IsNetworkInService slotId False s) then TELEPHONY_ERR_NETWORK_NOT_IN_SERVICE
     else TELEPHONY_SUCCESS)"

definition SuperPrivacyMode :: "PacMap \<Rightarrow> bool \<Rightarrow> cm \<Rightarrow> ErrCode" where
  "SuperPrivacyMode extras isEcc s =
    HasNormalCall isEcc (GetIntValue ''accountId'' 0 extras) (CallType_cast (GetIntValue ''callType'' 0 extras)) s"

definition DialPolicy :: "u16string \<Rightarrow> PacMap \<Rightarrow> bool \<Rightarrow> cm \<Rightarrow> ErrCode \<times> PacMap" where
  "DialPolicy number extras isEcc s =
    (let dialType = DialType_cast (GetIntValue ''dialType'' 0 extras); r = CheckDialType dialType
     in if r \<noteq> TELEPHONY_SUCCESS then (r, extras)
     else let r = CheckMdmPolicy (Str16ToStr8 number)
     in if r \<noteq> TELEPHONY_SUCCESS then (r, extras)
     else let (r, extras) = SelectAccountIdForCarrier (GetIntValue ''accountId'' 0 extras) dialType extras
     in if r \<noteq> TELEPHONY_SUCCESS then (r, extras)
     else let r = ValidateCallType (CallType_cast (GetIntValue ''callType'' 0 extras))
     in if r \<noteq> TELEPHONY_SUCCESS then (r, extras)
     else let r = ValidateDialScene (DialScene_cast (GetIntValue ''dialScene'' 0 extras))
     in if r \<noteq> TELEPHONY_SUCCESS then (r, extras)
     else let videoState = VideoStateType_cast (GetIntValue ''videoState'' 0 extras); r = ValidateVideoState videoState
     in if r \<noteq> TELEPHONY_SUCCESS then (r, extras)
     else let r = CheckCallLimit isEcc videoState s
     in if r \<noteq> TELEPHONY_SUCCESS then (r, extras)
     else (SuperPrivacyMode extras isEcc s, extras))"

text \<open>The carrier's answer about video call waiting is not available, so \<open>enabled\<close> stays false.\<close>

definition CanDialMulityCall :: "PacMap \<Rightarrow> bool \<Rightarrow> cm \<Rightarrow> ErrCode" where
  "CanDialMulityCall extras isEcc s =
    (let videoState = VideoStateType_cast (GetIntValue ''videoState'' 0 extras); enabled = False
     in if \<not> enabled \<and> videoState = TYPE_VIDEO \<and> HasCellularCallExist s then CALL_ERR_DIAL_IS_BUSY
        else if \<not> enabled \<and> \<not> isEcc \<and> videoState = TYPE_VOICE \<and> HasVideoCall s then CALL_ERR_DIAL_IS_BUSY
        else TELEPHONY_SUCCESS)"

text \<open>\<open>IsCarrierVtConfig\<close> is not supported and leaves \<open>vtEnabled\<close> false.\<close>

definition IsSupportVideoCall :: "PacMap \<Rightarrow> bool" where
  "IsSupportVideoCall extras =
    (let vtEnabled = False
     in if \<not> vtEnabled then False else DialScene_cast (GetIntValue ''dialScene'' 0 extras) = CALL_NORMAL)"

definition IsVoiceCallValid :: "VideoStateType \<Rightarrow> cm \<Rightarrow> ErrCode" where
  "IsVoiceCallValid videoState s =
    (case GetOneCallObject_state CALL_RUNNING_STATE_RINGING s of
       None \<Rightarrow> TELEPHONY_SUCCESS
     | Some a \<Rightarrow> if videoState = TYPE_VOICE \<and> cb_videoState (cm_heap s a) = TYPE_VOICE \<and> cb_callType (cm_heap s a) \<noteq> TYPE_VOIP
         then CALL_ERR_CALL_COUNTS_EXCEED_LIMIT else TELEPHONY_SUCCESS)"

definition ring_policy :: "int \<Rightarrow> cm \<Rightarrow> ErrCode" where
  "ring_policy callId s =
    (if \<not> IsCallExist callId s then TELEPHONY_ERR_ARGUMENT_INVALID
     else if GetCallState_table callId s \<noteq> CALL_STATUS_INCOMING \<and> GetCallState_table callId s \<noteq> CALL_STATUS_WAITING
     then CALL_ERR_ILLEGAL_CALL_OPERATION else TELEPHONY_SUCCESS)"

definition AnswerCallPolicy :: "int \<Rightarrow> int \<Rightarrow> cm \<Rightarrow> ErrCode" where
  "AnswerCallPolicy callId videoState s =
    (if videoState \<noteq> VideoStateType_code TYPE_VOICE \<and> videoState \<noteq> VideoStateType_code TYPE_VIDEO
     then TELEPHONY_ERR_ARGUMENT_INVALID else ring_policy callId s)"

definition RejectCallPolicy :: "int \<Rightarrow> cm \<Rightarrow> ErrCode" where
  "RejectCallPolicy callId s = ring_policy callId s"

definition HoldCallPolicy :: "int \<Rightarrow> cm \<Rightarrow> ErrCode" where
  "HoldCallPolicy callId s =
    (case GetOneCallObject callId s of
       None \<Rightarrow> TELEPHONY_ERR_ARGUMENT_INVALID
     | Some a \<Rightarrow> if cb_callRunningState (cm_heap s a) \<noteq> CALL_RUNNING_STATE_ACTIVE then CALL_ERR_CALL_IS_NOT_ACTIVATED
         else TELEPHONY_SUCCESS)"

definition UnHoldCallPolicy :: "int \<Rightarrow> cm \<Rightarrow> ErrCode" where
  "UnHoldCallPolicy callId s =
    (case GetOneCallObject callId s of
       None \<Rightarrow> TELEPHONY_ERR_ARGUMENT_INVALID
     | Some a \<Rightarrow> if cb_callRunningState (cm_heap s a) \<noteq> CALL_RUNNING_STATE_HOLD then CALL_ERR_CALL_IS_NOT_ON_HOLDING
         else TELEPHONY_SUCCESS)"

definition HangUpPolicy :: "int \<Rightarrow> cm \<Rightarrow> ErrCode" where
  "HangUpPolicy callId s =
    (if \<not> IsCallExist callId s then TELEPHONY_ERR_ARGUMENT_INVALID
     else let st = GetCallState_table callId s
       in if st = CALL_STATUS_IDLE \<or> st = CALL_STATUS_DISCONNECTING \<or> st = CALL_STATUS_DISCONNECTED
          then CALL_ERR_ILLEGAL_CALL_OPERATION else TELEPHONY_SUCCESS)"

definition onlyTwoCall :: nat where "onlyTwoCall = 2"

definition SwitchCallPolicy :: "int \<Rightarrow> cm \<Rightarrow> ErrCode" where
  "SwitchCallPolicy callId s =
    (if \<not> IsCallExist callId s then TELEPHONY_ERR_ARGUMENT_INVALID
     else if length (GetCarrierCallList s) < onlyTwoCall then CALL_ERR_PHONE_CALLS_TOO_FEW
     else if GetCallState_table callId s \<noteq> CALL_STATUS_HOLDING \<or> IsCallExist_state CALL_STATUS_DIALING s \<or>
         IsCallExist_state CALL_STATUS_ALERTING s
     then CALL_ERR_ILLEGAL_CALL_OPERATION else TELEPHONY_SUCCESS)"

definition IsValidSlotId_policy :: "int \<Rightarrow> ErrCode" where
  "IsValidSlotId_policy slotId = (if \<not> IsValidSlotId slotId then CALL_ERR_INVALID_SLOT_ID else TELEPHONY_SUCCESS)"

section \<open>Requests on an existing call\<close>

text \<open>Run a request on the call with the id; a call that is gone is only logged.\<close>

definition with_call :: "int \<Rightarrow> (nat \<Rightarrow> unit cmM) \<Rightarrow> unit cmM" where
  "with_call callId f = do {
     call \<leftarrow> gets (GetOneCallObject callId);
     case call of None \<Rightarrow> ret () | Some a \<Rightarrow> f a
   }"

definition AnswerRequestForDsda :: "nat \<Rightarrow> int \<Rightarrow> bool \<Rightarrow> unit cmM" where
  "AnswerRequestForDsda a videoState isRTT = do {
     r \<leftarrow> call_AnswerCall a videoState isRTT;
     if r \<noteq> TELEPHONY_SUCCESS then ret () else ignore (NotifyIncomingCallAnswered (Some a))
   }"

definition AnswerRequest :: "int \<Rightarrow> int \<Rightarrow> bool \<Rightarrow> unit cmM" where
  "AnswerRequest callId videoState isRTT = with_call callId (\<lambda>a. do {
     updCall a (\<lambda>c. c\<lparr>cb_answerVideoState := videoState\<rparr>);
     AnswerRequestForDsda a videoState isRTT
   })"

definition RejectRequest :: "int \<Rightarrow> bool \<Rightarrow> string \<Rightarrow> unit cmM" where
  "RejectRequest callId isSendSms content = with_call callId (\<lambda>a. do {
     r \<leftarrow> CarrierRejectCall a;
     if r \<noteq> TELEPHONY_SUCCESS then ret ()
     else do {
       holdCall \<leftarrow> gets (GetOneCallObject_state CALL_RUNNING_STATE_HOLD);
       (case holdCall of None \<Rightarrow> ret () | Some b \<Rightarrow> updCall b (\<lambda>c. c\<lparr>cb_canUnHoldState := False\<rparr>));
       ignore (NotifyIncomingCallRejected (Some a) isSendSms content)
     }
   })"

definition HangUpForDsdaRequest :: "nat \<Rightarrow> bool" where
  "HangUpForDsdaRequest a = False"

definition hang_up_flag :: "call \<Rightarrow> nat \<Rightarrow> cm \<Rightarrow> 64 word option" where
  "hang_up_flag c a s =
    (if ((cb_callState c = CALL_STATUS_ACTIVE \<and> IsCallExist_type_state (cb_callType c) CALL_STATUS_HOLDING s) \<or>
         cb_conferenceState c = TEL_CONFERENCE_ACTIVE) \<and> GetCallNum CALL_STATUS_WAITING s = 0
     then if \<not> HangUpForDsdaRequest a then Some POLICY_FLAG_HANG_UP_ACTIVE else None
     else if cb_conferenceState c = TEL_CONFERENCE_HOLDING \<and> GetCallNum CALL_STATUS_WAITING s = 0
     then Some POLICY_FLAG_HANG_UP_HOLD_WAIT
     else None)"

definition HangUpRequest :: "int \<Rightarrow> unit cmM" where
  "HangUpRequest callId = with_call callId (\<lambda>a. do {
     s \<leftarrow> gets id;
     (case hang_up_flag (cm_heap s a) a s of None \<Rightarrow> ret () | Some flag \<Rightarrow> updCall a (SetPolicyFlag flag));
     ignore (CarrierHangUpCall a)
   })"

definition HoldRequest :: "int \<Rightarrow> unit cmM" where
  "HoldRequest callId = with_call callId (\<lambda>a. ignore (CarrierHoldCall a))"

definition IsExistCallOtherSlot :: "int list \<Rightarrow> int \<Rightarrow> cm \<Rightarrow> bool" where
  "IsExistCallOtherSlot ids slotId s \<longleftrightarrow>
     \<not> (1 < length ids \<and> list_ex (\<lambda>otherCallId.
          case GetOneCallObject otherCallId s of None \<Rightarrow> False | Some b \<Rightarrow> cc_slotId (cm_heap s b) \<noteq> slotId) ids)"

definition UnHoldRequest :: "int \<Rightarrow> unit cmM" where
  "UnHoldRequest callId = with_call callId (\<lambda>a. do {
     updCall a (\<lambda>c. c\<lparr>cb_canUnHoldState := True\<rparr>);
     s \<leftarrow> gets id;
     let noOtherCall = IsExistCallOtherSlot (GetCarrierCallList s) (cc_slotId (cm_heap s a)) s;
     whenM noOtherCall (ignore (CarrierUnHoldCall a))
   })"

definition SwitchRequest :: "int \<Rightarrow> unit cmM" where
  "SwitchRequest callId = with_call callId (\<lambda>a. ignore (CarrierSwitchCall a))"

section \<open>The request of a dial\<close>

definition CheckNumberIsEmergency :: "string \<Rightarrow> int \<Rightarrow> bool \<Rightarrow> (ErrCode \<times> bool) cmM" where
  "CheckNumberIsEmergency phoneNumber slotId enabled = Conn_IsEmergencyPhoneNumber phoneNumber slotId enabled"

text \<open>
  An emergency dial makes room: dialing, active and held calls are hung up, ringing ones rejected,
  unless an emergency call is being dialed already.
\<close>

datatype ecc_action = EccNothing | EccHangUp | EccReject | EccRefuse

definition ecc_action_for :: "call \<Rightarrow> ecc_action" where
  "ecc_action_for c =
    (if cb_callType c = TYPE_SATELLITE then EccHangUp
     else if is_new c then if GetEmergencyState c then EccRefuse else EccHangUp
     else if cb_callRunningState c = CALL_RUNNING_STATE_RINGING then EccReject
     else if cb_callRunningState c = CALL_RUNNING_STATE_ACTIVE \<or> cb_callRunningState c = CALL_RUNNING_STATE_HOLD
     then EccHangUp
     else EccNothing)"

definition EccDialPolicy :: "ErrCode cmM" where
  "EccDialPolicy = do {
     s \<leftarrow> gets id;
     let found = List.map_filter (\<lambda>i. GetOneCallObject i s) (GetCarrierCallList s);
     if list_ex (\<lambda>a. ecc_action_for (cm_heap s a) = EccRefuse) found then ret CALL_ERR_CALL_COUNTS_EXCEED_LIMIT
     else do {
       for_each (filter (\<lambda>a. ecc_action_for (cm_heap s a) = EccHangUp) found) (\<lambda>a. ignore (CarrierHangUpCall a));
       for_each (filter (\<lambda>a. ecc_action_for (cm_heap s a) = EccReject) found) (\<lambda>a. ignore (CarrierRejectCall a));
       ret TELEPHONY_SUCCESS
     }
   }"

definition HandleEccCallForDsda :: "string \<Rightarrow> DialParaInfo \<Rightarrow> bool \<Rightarrow> (ErrCode \<times> bool) cmM" where
  "HandleEccCallForDsda newPhoneNum info isEcc = do {
     (_, isEcc) \<leftarrow> CheckNumberIsEmergency newPhoneNum (dp_accountId info) isEcc;
     if isEcc then do { r \<leftarrow> EccDialPolicy; ret (r, isEcc) } else ret (TELEPHONY_SUCCESS, isEcc)
   }"

definition HandleDialingInfo :: "string \<Rightarrow> DialParaInfo \<Rightarrow> ErrCode cmM" where
  "HandleDialingInfo newPhoneNum info = do {
     (r, isEcc) \<leftarrow> HandleEccCallForDsda newPhoneNum info False;
     if r \<noteq> TELEPHONY_SUCCESS then ret r
     else do {
       canDial \<leftarrow> gets IsNewCallAllowedCreate;
       if \<not> isEcc \<and> \<not> canDial then ret CALL_ERR_CALL_COUNTS_EXCEED_LIMIT else ret TELEPHONY_SUCCESS
     }
   }"

definition dial_report :: "DialParaInfo \<Rightarrow> TelCallState \<Rightarrow> CallDetailInfo" where
  "dial_report info st = CallDetailInfo_default
     \<lparr>di_callType := dp_callType info, di_accountId := dp_accountId info, di_index := dp_index info,
      di_state := st, di_callMode := dp_videoState info, di_originalCallType := dp_originalCallType info,
      di_voiceDomain := CallType_code (dp_callType info), di_phoneOrWatch := dp_phoneOrWatch info,
      di_phoneIndex := dp_phoneIndex info, di_phoneNum := dp_number info\<rparr>"

definition Process_UpdateCallReportInfo :: "DialParaInfo \<Rightarrow> TelCallState \<Rightarrow> ErrCode cmM" where
  "Process_UpdateCallReportInfo info st =
     (if kMaxNumberLen < length (dp_number info) then ret CALL_ERR_NUMBER_OUT_OF_RANGE
      else UpdateCallReportInfo (dial_report info st))"

definition Process_PackCellularCallInfo :: "DialParaInfo \<Rightarrow> ErrCode \<times> CellularCallInfo" where
  "Process_PackCellularCallInfo info =
    (let callInfo = CellularCallInfo_default\<lparr>ci_callId := dp_callId info, ci_accountId := dp_accountId info,
           ci_callType := dp_callType info, ci_videoState := VideoStateType_code (dp_videoState info),
           ci_index := dp_index info, ci_slotId := dp_accountId info, ci_isRTT := dp_isRTT info, ci_phoneNum := []\<rparr>
     in if kMaxNumberLen < length (dp_number info) then (CALL_ERR_NUMBER_OUT_OF_RANGE, callInfo)
        else (TELEPHONY_SUCCESS, callInfo\<lparr>ci_phoneNum := dp_number info\<rparr>))"

definition GetDialingCall :: "cm \<Rightarrow> nat option" where
  "GetDialingCall s =
    (case GetOneCarrierCallObject CALL_RUNNING_STATE_CREATE s of
       Some a \<Rightarrow> Some a
     | None \<Rightarrow> (case GetOneCarrierCallObject CALL_RUNNING_STATE_CONNECTING s of
         Some a \<Rightarrow> Some a
       | None \<Rightarrow> GetOneCarrierCallObject CALL_RUNNING_STATE_DIALING s))"

definition HandleDialFail :: "ErrCode cmM" where
  "HandleDialFail = do {
     call \<leftarrow> gets GetDialingCall;
     if call \<noteq> None then DealFailDial call else ret CALL_ERR_CALL_STATE
   }"

definition HandleStartDial :: "bool \<Rightarrow> DialParaInfo \<Rightarrow> ErrCode cmM" where
  "HandleStartDial isMMiCode info = do {
     let (r, callInfo) = Process_PackCellularCallInfo info;
     if r \<noteq> TELEPHONY_SUCCESS then do { SetNeedWaitHold False; ret r }
     else do {
       wait \<leftarrow> gets cm_needWaitHold;
       if wait \<and> \<not> isMMiCode then do { modify (\<lambda>s. s\<lparr>cm_dialCallInfo := callInfo\<rparr>); ret r }
       else do {
         r \<leftarrow> Conn_Dial callInfo;
         if r \<noteq> TELEPHONY_SUCCESS then do {
           handleRet \<leftarrow> HandleDialFail;
           ret (if handleRet \<noteq> TELEPHONY_SUCCESS then handleRet else r)
         }
         else ret TELEPHONY_SUCCESS
       }
     }
   }"

definition dial_given_up :: "ErrCode \<Rightarrow> ErrCode cmM" where
  "dial_given_up r = do {
     RestoreDialingFlag False;
     RemoveEventHandlerTask;
     SetNeedWaitHold False;
     ret r
   }"

definition CarrierDialProcess :: "DialParaInfo \<Rightarrow> ErrCode cmM" where
  "CarrierDialProcess info = do {
     processing \<leftarrow> IsDialingCallProcessing;
     if processing then ret CALL_ERR_CALL_COUNTS_EXCEED_LIMIT
     else do {
       RestoreDialingFlag True;
       ignore SetDialingCallProcessing;
       let newPhoneNum = RemoveSeparatorsPhoneNumber (dp_number info);
       r \<leftarrow> HandleDialingInfo newPhoneNum info;
       if r \<noteq> TELEPHONY_SUCCESS then dial_given_up r
       else do {
         modify (\<lambda>s. s\<lparr>cm_isFirstDialCallAdded := False\<rparr>);
         r \<leftarrow> Process_UpdateCallReportInfo (info\<lparr>dp_number := newPhoneNum\<rparr>) CALL_STATUS_DIALING;
         if r \<noteq> TELEPHONY_SUCCESS then dial_given_up r
         else HandleStartDial False info
       }
     }
   }"

definition HandleDialRequest :: "DialParaInfo \<Rightarrow> ErrCode cmM" where
  "HandleDialRequest info =
     (if dp_dialType info = DIAL_CARRIER_TYPE \<or> dp_dialType info = DIAL_VOICE_MAIL_TYPE then CarrierDialProcess info
      else ret CALL_ERR_FUNCTION_NOT_SUPPORTED)"

definition DialRequest :: "ErrCode cmM" where
  "DialRequest = do {
     info \<leftarrow> GetDialParaInfo;
     if \<not> dp_isDialing info then ret CALL_ERR_ILLEGAL_CALL_OPERATION
     else if kMaxNumberLen < length (dp_number info) then ret CALL_ERR_NUMBER_OUT_OF_RANGE
     else HandleDialRequest info
   }"

section \<open>The request handler: posting to the loop\<close>

text \<open>\<open>cm_requestHandler\<close> stands for both the handler and its process object: \<open>Init\<close> makes both.\<close>

definition Handler_DialCall :: "ErrCode cmM" where
  "Handler_DialCall = DialRequest"

definition Handler_AnswerCall :: "int \<Rightarrow> int \<Rightarrow> bool \<Rightarrow> ErrCode cmM" where
  "Handler_AnswerCall callId videoState isRTT = post (T_AnswerRequest callId videoState isRTT)"

definition Handler_RejectCall :: "int \<Rightarrow> bool \<Rightarrow> string \<Rightarrow> ErrCode cmM" where
  "Handler_RejectCall callId isSendSms content = post (T_RejectRequest callId isSendSms content)"

definition Handler_HangUpCall :: "int \<Rightarrow> ErrCode cmM" where
  "Handler_HangUpCall callId = post (T_HangUpRequest callId)"

definition Handler_HoldCall :: "int \<Rightarrow> ErrCode cmM" where
  "Handler_HoldCall callId = post (T_HoldRequest callId)"

definition Handler_UnHoldCall :: "int \<Rightarrow> ErrCode cmM" where
  "Handler_UnHoldCall callId = post (T_UnHoldRequest callId)"

definition Handler_SwitchCall :: "int \<Rightarrow> ErrCode cmM" where
  "Handler_SwitchCall callId = post (T_SwitchRequest callId)"

definition whenHandler :: "ErrCode cmM \<Rightarrow> ErrCode cmM" where
  "whenHandler m = do {
     b \<leftarrow> gets cm_requestHandler;
     if \<not> b then ret TELEPHONY_ERR_LOCAL_PTR_NULL else m
   }"

section \<open>Control operations\<close>

definition Control_Init :: "bool cmM" where
  "Control_Init = do {
     l \<leftarrow> gets cm_listener;
     if l \<noteq> None then ret True
     else do {
       modify (\<lambda>s. s\<lparr>cm_listener := Some [], cm_requestHandler := True\<rparr>);
       Audio_Init;
       modify (\<lambda>s. s\<lparr>cm_listener := map_option (\<lambda>obs.
         AddOneObserver AudioControlManager (AddOneObserver CallAbilityReportProxy obs)) (cm_listener s)\<rparr>);
       ret True
     }
   }"

definition Control_UnInit :: "unit cmM" where
  "Control_UnInit = do {
     RemovePendingHangupProtectTask;
     modify (\<lambda>s. s\<lparr>cm_listener := map_option RemoveAllObserver (cm_listener s)\<rparr>);
     Audio_UnInit;
     modify (\<lambda>s. s\<lparr>cm_listener := None, cm_requestHandler := False\<rparr>)
   }"

definition NumberLegalityCheck :: "string \<Rightarrow> ErrCode \<times> string" where
  "NumberLegalityCheck number =
    (if number = [] then (CALL_ERR_PHONE_NUMBER_EMPTY, number)
     else if kMaxNumberLen < length number then (CALL_ERR_NUMBER_OUT_OF_RANGE, number)
     else (TELEPHONY_SUCCESS, takeWhile (\<lambda>c. c \<noteq> CHR '','') number))"

definition SetCallTypeExtras :: "PacMap \<Rightarrow> PacMap" where
  "SetCallTypeExtras extras =
    (let dialType = DialType_cast (GetIntValue ''dialType'' 0 extras)
     in if dialType = DIAL_CARRIER_TYPE \<or> dialType = DIAL_VOICE_MAIL_TYPE then
          let extras = (if \<not> IsSupportVideoCall extras
                then PutIntValue ''videoState'' (VideoStateType_code TYPE_VOICE) extras else extras)
          in if VideoStateType_cast (GetIntValue ''videoState'' 0 extras) = TYPE_VIDEO
             then PutIntValue ''callType'' (CallType_code TYPE_IMS) extras else extras
        else extras)"

definition CanDial :: "u16string \<Rightarrow> PacMap \<Rightarrow> bool \<Rightarrow> cm \<Rightarrow> ErrCode \<times> PacMap" where
  "CanDial number extras isEcc s =
    (let (r, extras) = DialPolicy number extras isEcc s
     in if r \<noteq> TELEPHONY_SUCCESS then (r, extras) else (CanDialMulityCall extras isEcc s, extras))"

definition PackageDialInformation :: "PacMap \<Rightarrow> string \<Rightarrow> bool \<Rightarrow> unit cmM" where
  "PackageDialInformation extras accountNumber isEcc = modify (\<lambda>s.
     s\<lparr>cm_dialSrcInfo := (cm_dialSrcInfo s)
         \<lparr>dp_callId := ERR_ID, dp_number := accountNumber, dp_isDialing := True, dp_isEcc := isEcc,
          dp_isRTT := GetBooleanValue ''isRTT'' False extras,
          dp_callType := CallType_cast (GetIntValue ''callType'' 0 extras),
          dp_accountId := GetIntValue ''accountId'' 0 extras,
          dp_dialType := DialType_cast (GetIntValue ''dialType'' 0 extras),
          dp_videoState := VideoStateType_cast (GetIntValue ''videoState'' 0 extras),
          dp_originalCallType := GetIntValue ''videoState'' 0 extras,
          dp_bundleName := GetStringValue ''bundleName'' [] extras,
          dp_isCustomAccessibility := GetBooleanValue ''isCustomAccessibility'' False extras,
          dp_token := GetStringValue ''token'' [] extras,
          dp_phoneIndex := GetIntValue ''phoneIndex'' 0 extras\<rparr>,
       cm_extras := extras\<rparr>)"

definition DialCall :: "u16string \<Rightarrow> PacMap \<Rightarrow> ErrCode cmM" where
  "DialCall number extras = do {
     let (r, accountNumber) = NumberLegalityCheck (Str16ToStr8 number);
     if r \<noteq> TELEPHONY_SUCCESS then ret r
     else do {
       let newPhoneNum = RemoveSeparatorsPhoneNumber accountNumber;
       (_, isEcc) \<leftarrow> CheckNumberIsEmergency newPhoneNum (GetIntValue ''accountId'' 0 extras) False;
       let extras = (if isEcc then PutIntValue ''dialScene'' (DialScene_code CALL_EMERGENCY) extras else extras);
       (r, extras) \<leftarrow> gets (CanDial (Str8ToStr16 newPhoneNum) extras isEcc);
       if r \<noteq> TELEPHONY_SUCCESS then ret r
       else do {
         more \<leftarrow> gets HasNewCall;
         if \<not> isEcc \<and> more \<noteq> TELEPHONY_SUCCESS then ret CALL_ERR_CALL_COUNTS_EXCEED_LIMIT
         else do {
           PackageDialInformation (SetCallTypeExtras extras) newPhoneNum isEcc;
           whenHandler Handler_DialCall
         }
       }
     }
   }"

text \<open>With a given id the ringing call only has to exist; the call that is answered is the one with the id.\<close>

definition GetRingCall :: "int \<Rightarrow> cm \<Rightarrow> nat option" where
  "GetRingCall callId s =
    (case GetOneCallObject_state CALL_RUNNING_STATE_RINGING s of
       None \<Rightarrow> None
     | Some a \<Rightarrow> GetOneCallObject (if callId = INVALID_CALLID then cb_callId (cm_heap s a) else callId) s)"

definition HandlerAnswerCall :: "int \<Rightarrow> int \<Rightarrow> bool \<Rightarrow> ErrCode cmM" where
  "HandlerAnswerCall callId videoState isRTT = whenHandler (Handler_AnswerCall callId videoState isRTT)"

definition AnswerCall :: "int \<Rightarrow> int \<Rightarrow> bool \<Rightarrow> ErrCode cmM" where
  "AnswerCall callId videoState isRTT = do {
     call \<leftarrow> gets (GetRingCall callId);
     case call of
       None \<Rightarrow> ret TELEPHONY_ERR_LOCAL_PTR_NULL
     | Some a \<Rightarrow> do {
         c \<leftarrow> getCall a;
         let ringCallId = cb_callId c;
         updCall a (\<lambda>c. c\<lparr>cb_isAnswered := True\<rparr>);
         ignore (NotifyCallStateUpdated call CALL_STATUS_INCOMING CALL_STATUS_ANSWERED);
         r \<leftarrow> gets (AnswerCallPolicy ringCallId videoState);
         if r \<noteq> TELEPHONY_SUCCESS then ret r
         else HandlerAnswerCall ringCallId videoState isRTT
       }
   }"

definition RejectCall :: "int \<Rightarrow> bool \<Rightarrow> u16string \<Rightarrow> ErrCode cmM" where
  "RejectCall callId rejectWithMessage textMessage = whenHandler (do {
     s \<leftarrow> gets id;
     case GetOneCallObject_state CALL_RUNNING_STATE_RINGING s of
       None \<Rightarrow> ret TELEPHONY_ERR_LOCAL_PTR_NULL
     | Some a \<Rightarrow>
         (let callId = (if callId = INVALID_CALLID then cb_callId (cm_heap s a) else callId);
              r = RejectCallPolicy callId s
          in if r \<noteq> TELEPHONY_SUCCESS then ret r
             else Handler_RejectCall callId rejectWithMessage (Str16ToStr8 textMessage))
   })"

definition PENDINGHANGUP_DELAY_TIME_MS :: "32 word" where
  "PENDINGHANGUP_DELAY_TIME_MS = 30000"

definition PostPendingHangupProtectTask :: "int \<Rightarrow> unit cmM" where
  "PostPendingHangupProtectTask callId = do {
     i \<leftarrow> gets cm_pendingHangupTaskId;
     whenM (i = 0) (do {
       (_, k) \<leftarrow> onLoop (PostAsyncTask (T_PendingHangupProtect callId) PENDINGHANGUP_DELAY_TIME_MS);
       (case k of None \<Rightarrow> ret () | Some k \<Rightarrow> modify (\<lambda>s. s\<lparr>cm_pendingHangupTaskId := k\<rparr>))
     })
   }"

text \<open>What the protecting task does after its delay.\<close>

definition PendingHangupProtect_task :: "int \<Rightarrow> unit cmM" where
  "PendingHangupProtect_task callId = do {
     modify (\<lambda>s. s\<lparr>cm_pendingHangupTaskId := 0\<rparr>);
     b \<leftarrow> HasPendingHangup callId;
     whenM b (do {
       call \<leftarrow> gets (GetOneCallObject callId);
       (if call \<noteq> None then ignore (DealFailDial call) else ret ());
       SetPendingHangup False (-1)
     })
   }"

text \<open>The newest call of the first of these states that has one.\<close>

definition hang_up_order :: "CallRunningState list" where
  "hang_up_order = [CALL_RUNNING_STATE_ACTIVE, CALL_RUNNING_STATE_DIALING, CALL_RUNNING_STATE_CONNECTING,
     CALL_RUNNING_STATE_HOLD]"

fun HangUpCall_pick :: "CallRunningState list \<Rightarrow> cm \<Rightarrow> int" where
  "HangUpCall_pick [] s = INVALID_CALLID"
| "HangUpCall_pick (st # sts) s =
    (case GetOneCallObject_state st s of
       Some a \<Rightarrow> cb_callId (cm_heap s a)
     | None \<Rightarrow> HangUpCall_pick sts s)"

definition HangUpCall :: "int \<Rightarrow> ErrCode cmM" where
  "HangUpCall callId = do {
     callId \<leftarrow> gets (\<lambda>s. if callId = INVALID_CALLID then HangUpCall_pick hang_up_order s else callId);
     if callId = INVALID_CALLID then ret TELEPHONY_ERR_ARGUMENT_INVALID
     else whenHandler (do {
       r \<leftarrow> gets (HangUpPolicy callId);
       if r \<noteq> TELEPHONY_SUCCESS then ret r
       else do {
         mo \<leftarrow> HasPendingMo callId;
         if mo then do {
           SetPendingMo False (-1);
           SetPendingHangup True callId;
           PostPendingHangupProtectTask callId;
           ret TELEPHONY_SUCCESS
         }
         else Handler_HangUpCall callId
       }
     })
   }"

definition GetCallState :: "cm \<Rightarrow> int" where
  "GetCallState s = CallStateToApp_code
    (if \<not> HasCellularCallExist s then CALL_STATE_IDLE
     else if HasRingingCall s then CALL_STATE_RINGING else CALL_STATE_OFFHOOK)"

definition HoldCall :: "int \<Rightarrow> ErrCode cmM" where
  "HoldCall callId = do {
     r \<leftarrow> gets (HoldCallPolicy callId);
     if r \<noteq> TELEPHONY_SUCCESS then ret r else whenHandler (Handler_HoldCall callId)
   }"

definition UnHoldCall :: "int \<Rightarrow> ErrCode cmM" where
  "UnHoldCall callId = do {
     r \<leftarrow> gets (UnHoldCallPolicy callId);
     if r \<noteq> TELEPHONY_SUCCESS then ret r else whenHandler (Handler_UnHoldCall callId)
   }"

definition SwitchCall :: "int \<Rightarrow> ErrCode cmM" where
  "SwitchCall callId = do {
     r \<leftarrow> gets (SwitchCallPolicy callId);
     if r \<noteq> TELEPHONY_SUCCESS then ret r else whenHandler (Handler_SwitchCall callId)
   }"

definition HasCall :: "cm \<Rightarrow> bool" where
  "HasCall s = HasCellularCallExist s"

definition IsNewCallAllowed :: "cm \<Rightarrow> bool" where
  "IsNewCallAllowed s = IsNewCallAllowedCreate s"

definition IsRinging :: "cm \<Rightarrow> bool" where
  "IsRinging s = HasRingingCall s"

definition HasEmergency :: "cm \<Rightarrow> bool" where
  "HasEmergency s = HasEmergencyCall s"

definition IsEmergencyPhoneNumber :: "u16string \<Rightarrow> int \<Rightarrow> bool \<Rightarrow> (ErrCode \<times> bool) cmM" where
  "IsEmergencyPhoneNumber number slotId enabled =
     (if IsValidSlotId_policy slotId \<noteq> TELEPHONY_SUCCESS then ret (CALL_ERR_INVALID_SLOT_ID, enabled)
      else CheckNumberIsEmergency (RemoveSeparatorsPhoneNumber (Str16ToStr8 number)) slotId enabled)"

definition end_call_order :: "CallRunningState list" where
  "end_call_order = [CALL_RUNNING_STATE_ACTIVE, CALL_RUNNING_STATE_RINGING, CALL_RUNNING_STATE_DIALING,
     CALL_RUNNING_STATE_CONNECTING, CALL_RUNNING_STATE_HOLD]"

fun EndCall_pick :: "CallRunningState list \<Rightarrow> cm \<Rightarrow> (CallRunningState \<times> int) option" where
  "EndCall_pick [] s = None"
| "EndCall_pick (st # sts) s =
    (case GetOneCallObject_state st s of
       None \<Rightarrow> EndCall_pick sts s
     | Some a \<Rightarrow> if cb_callId (cm_heap s a) = INVALID_CALLID then EndCall_pick sts s
         else Some (st, cb_callId (cm_heap s a)))"

definition EndCall :: "bool cmM" where
  "EndCall = do {
     picked \<leftarrow> gets (EndCall_pick end_call_order);
     case picked of
       None \<Rightarrow> ret True
     | Some (st, callId) \<Rightarrow> do {
         r \<leftarrow> (if st = CALL_RUNNING_STATE_RINGING then RejectCall callId False (Str8ToStr16 []) else HangUpCall callId);
         ret (r = TELEPHONY_SUCCESS)
       }
   }"

end
