(* ===== verification/Service.thy ===== *)
theory Service
  imports Call_Control
begin

text \<open>
  The facade: \<open>services/call_manager_service/src/mini/call_manager_service.cpp\<close>. Every entry point
  checks the caller against the build-time trust model \<open>tm\<close> before anything else happens. The
  failing init steps exist in the host test build only and are left out.
\<close>

section \<open>Checks\<close>

definition SET_TELEPHONY_STATE :: string where "SET_TELEPHONY_STATE = ''ohos.permission.SET_TELEPHONY_STATE''"
definition GET_TELEPHONY_STATE :: string where "GET_TELEPHONY_STATE = ''ohos.permission.GET_TELEPHONY_STATE''"
definition PLACE_CALL :: string where "PLACE_CALL = ''ohos.permission.PLACE_CALL''"
definition ANSWER_CALL :: string where "ANSWER_CALL = ''ohos.permission.ANSWER_CALL''"
definition MANAGE_CALL_FOR_DEVICES :: string where "MANAGE_CALL_FOR_DEVICES = ''ohos.permission.MANAGE_CALL_FOR_DEVICES''"
definition GET_CALL_TRANSFER_INFO :: string where "GET_CALL_TRANSFER_INFO = ''ohos.permission.GET_CALL_TRANSFER_INFO''"
definition SEND_MESSAGES :: string where "SEND_MESSAGES = ''ohos.permission.SEND_MESSAGES''"
definition ACCOUNT_NUMBER_MAX_LENGTH :: nat where "ACCOUNT_NUMBER_MAX_LENGTH = 255"

definition CheckSetTelephonyStatePermission :: "TrustModel \<Rightarrow> bool" where
  "CheckSetTelephonyStatePermission tm = CheckPermission tm SET_TELEPHONY_STATE"

definition CheckCallerIsSystemApp :: "TrustModel \<Rightarrow> bool" where
  "CheckCallerIsSystemApp tm = IsSystemCaller tm"

definition GetBundleInfo :: "TrustModel \<Rightarrow> string" where
  "GetBundleInfo tm = GetCallerBundleName tm"

text \<open>Most entry points end in: call the control manager if there is one.\<close>

definition whenControl :: "ErrCode cmM \<Rightarrow> ErrCode cmM" where
  "whenControl m = do {
     b \<leftarrow> gets cm_hasControl;
     if b then m else ret TELEPHONY_ERR_LOCAL_PTR_NULL
   }"

definition BuildDialInfo :: "PacMap \<Rightarrow> string \<Rightarrow> PacMap" where
  "BuildDialInfo extras bundleName =
    PutBooleanValue ''btSlotIdUnknown'' (GetBooleanValue ''btSlotIdUnknown'' False extras)
    (PutStringValue ''bundleName'' bundleName
    (PutStringValue ''extraParams'' (GetStringValue ''extraParams'' [] extras)
    (PutIntValue ''phoneIndex'' (GetIntValue ''phoneIndex'' 0 extras)
    (PutBooleanValue ''isRTT'' (GetBooleanValue ''isRTT'' False extras)
    (PutIntValue ''callType'' (GetIntValue ''callType'' 0 extras)
    (PutIntValue ''dialType'' (GetIntValue ''dialType'' 0 extras)
    (PutIntValue ''dialScene'' (GetIntValue ''dialScene'' 0 extras)
    (PutIntValue ''videoState'' (GetIntValue ''videoState'' 0 extras)
    (PutIntValue ''accountId'' (GetIntValue ''accountId'' 0 extras) PacMap_empty)))))))))"

section \<open>Life cycle\<close>

definition Service_Init :: "ErrCode cmM" where
  "Service_Init = do {
     ready \<leftarrow> gets cm_ready;
     if ready then ret TELEPHONY_SUCCESS
     else do {
       ok \<leftarrow> Control_Init;
       if \<not> ok then ret TELEPHONY_ERR_FAIL
       else do {
         ReportHandler_Init;
         Conn_Init;
         modify (\<lambda>s. s\<lparr>cm_hasControl := True, cm_ready := True\<rparr>);
         ret TELEPHONY_SUCCESS
       }
     }
   }"

definition Service_UnInit :: "TrustModel \<Rightarrow> unit cmM" where
  "Service_UnInit tm = do {
     ready \<leftarrow> gets cm_ready;
     modify (\<lambda>s. s\<lparr>cm_ready := False\<rparr>);
     whenM ready (do {
       Conn_UnInit;
       ReportHandler_UnInit;
       control \<leftarrow> gets cm_hasControl;
       whenM control Control_UnInit;
       as \<leftarrow> gets GetAllCallList;
       for_each as (\<lambda>a. DeleteOneCallObject_ptr (Some a));
       ignore (Report_UnRegisterCallBack (GetBundleInfo tm));
       modify (\<lambda>s. s\<lparr>cm_hasControl := False\<rparr>)
     })
   }"

section \<open>Callbacks\<close>

definition Service_RegisterCallBack :: "TrustModel \<Rightarrow> nat option \<Rightarrow> ErrCode cmM" where
  "Service_RegisterCallBack tm callback =
     (if \<not> CheckPermission tm SET_TELEPHONY_STATE \<and> \<not> CheckPermission tm GET_TELEPHONY_STATE \<and>
         \<not> CheckPermission tm GET_CALL_TRANSFER_INFO
      then ret TELEPHONY_ERR_PERMISSION_ERR
      else Report_RegisterCallBack callback (GetBundleInfo tm))"

definition Service_UnRegisterCallBack :: "TrustModel \<Rightarrow> ErrCode cmM" where
  "Service_UnRegisterCallBack tm =
     (if \<not> CheckCallerIsSystemApp tm then ret TELEPHONY_ERR_ILLEGAL_USE_OF_SYSTEM_API
      else if \<not> CheckSetTelephonyStatePermission tm then ret TELEPHONY_ERR_PERMISSION_ERR
      else Report_UnRegisterCallBack (GetBundleInfo tm))"

definition Service_ObserverOnCallDetailsChange :: "TrustModel \<Rightarrow> ErrCode cmM" where
  "Service_ObserverOnCallDetailsChange tm =
     (if \<not> CheckCallerIsSystemApp tm then ret TELEPHONY_ERR_ILLEGAL_USE_OF_SYSTEM_API
      else if \<not> CheckPermission tm SET_TELEPHONY_STATE \<and> \<not> CheckPermission tm GET_TELEPHONY_STATE
      then ret TELEPHONY_ERR_PERMISSION_ERR
      else do {
        infos \<leftarrow> gets GetAllCallInfoList;
        for_each infos (\<lambda>info. ignore (ReportCallStateInfo_bundle info (GetBundleInfo tm)));
        ret TELEPHONY_SUCCESS
      })"

section \<open>Calls\<close>

definition Service_DialCall :: "TrustModel \<Rightarrow> u16string \<Rightarrow> PacMap \<Rightarrow> ErrCode cmM" where
  "Service_DialCall tm number extras =
     (if ACCOUNT_NUMBER_MAX_LENGTH < length number then ret CALL_ERR_NUMBER_OUT_OF_RANGE
      else if \<not> CheckCallerIsSystemApp tm then ret TELEPHONY_ERR_ILLEGAL_USE_OF_SYSTEM_API
      else let dialInfo = BuildDialInfo extras (GetCallerBundleName tm)
        in if \<not> CheckPermission tm PLACE_CALL then ret TELEPHONY_ERR_PERMISSION_ERR
           else whenControl (DialCall number dialInfo))"

definition Service_AnswerCall :: "TrustModel \<Rightarrow> int \<Rightarrow> int \<Rightarrow> bool \<Rightarrow> ErrCode cmM" where
  "Service_AnswerCall tm callId videoState isRTT =
     (if \<not> CheckCallerIsSystemApp tm then ret TELEPHONY_ERR_ILLEGAL_USE_OF_SYSTEM_API
      else if \<not> CheckPermission tm ANSWER_CALL then ret TELEPHONY_ERR_PERMISSION_ERR
      else if videoState \<noteq> VideoStateType_code TYPE_VOICE then ret CALL_ERR_VIDEO_NOT_SUPPORTED
      else if isRTT then ret CALL_ERR_FUNCTION_NOT_SUPPORTED
      else whenControl (AnswerCall callId videoState isRTT))"

definition Service_RejectCall :: "TrustModel \<Rightarrow> int \<Rightarrow> bool \<Rightarrow> u16string \<Rightarrow> ErrCode cmM" where
  "Service_RejectCall tm callId rejectWithMessage textMessage =
     (if \<not> CheckCallerIsSystemApp tm then ret TELEPHONY_ERR_ILLEGAL_USE_OF_SYSTEM_API
      else if \<not> CheckPermission tm ANSWER_CALL \<and> \<not> CheckPermission tm SET_TELEPHONY_STATE
      then ret TELEPHONY_ERR_PERMISSION_ERR
      else if rejectWithMessage \<and> \<not> CheckPermission tm SEND_MESSAGES then ret TELEPHONY_ERR_PERMISSION_ERR
      else if rejectWithMessage then ret CALL_ERR_FUNCTION_NOT_SUPPORTED
      else whenControl (RejectCall callId rejectWithMessage textMessage))"

definition Service_HangUpCall :: "TrustModel \<Rightarrow> int \<Rightarrow> ErrCode cmM" where
  "Service_HangUpCall tm callId =
     (if \<not> CheckCallerIsSystemApp tm then ret TELEPHONY_ERR_ILLEGAL_USE_OF_SYSTEM_API
      else if \<not> CheckPermission tm ANSWER_CALL \<and> \<not> CheckPermission tm SET_TELEPHONY_STATE
      then ret TELEPHONY_ERR_PERMISSION_ERR
      else whenControl (HangUpCall callId))"

definition Service_GetCallState :: "cm \<Rightarrow> ErrCode + int" where
  "Service_GetCallState s = (if cm_hasControl s then Inr (GetCallState s) else Inl TELEPHONY_ERR_LOCAL_PTR_NULL)"

definition Service_HoldCall :: "TrustModel \<Rightarrow> int \<Rightarrow> ErrCode cmM" where
  "Service_HoldCall tm callId =
     (if \<not> CheckCallerIsSystemApp tm then ret TELEPHONY_ERR_ILLEGAL_USE_OF_SYSTEM_API
      else if \<not> CheckPermission tm ANSWER_CALL then ret TELEPHONY_ERR_PERMISSION_ERR
      else whenControl (HoldCall callId))"

definition Service_UnHoldCall :: "TrustModel \<Rightarrow> int \<Rightarrow> ErrCode cmM" where
  "Service_UnHoldCall tm callId =
     (if \<not> CheckCallerIsSystemApp tm then ret TELEPHONY_ERR_ILLEGAL_USE_OF_SYSTEM_API
      else if \<not> CheckPermission tm ANSWER_CALL then ret TELEPHONY_ERR_PERMISSION_ERR
      else whenControl (UnHoldCall callId))"

definition Service_SwitchCall :: "TrustModel \<Rightarrow> int \<Rightarrow> ErrCode cmM" where
  "Service_SwitchCall tm callId =
     (if \<not> CheckCallerIsSystemApp tm then ret TELEPHONY_ERR_ILLEGAL_USE_OF_SYSTEM_API
      else if \<not> CheckPermission tm ANSWER_CALL then ret TELEPHONY_ERR_PERMISSION_ERR
      else whenControl (SwitchCall callId))"

definition Service_HasCall :: "bool \<Rightarrow> cm \<Rightarrow> bool" where
  "Service_HasCall isInCludeVoipCall s =
     (if cm_hasControl s then if isInCludeVoipCall then HasCall s else HasCellularCallExist s else False)"

text \<open>Queries with an output argument: a code, and the value when it was written.\<close>

definition Service_IsNewCallAllowed :: "TrustModel \<Rightarrow> cm \<Rightarrow> ErrCode \<times> bool option" where
  "Service_IsNewCallAllowed tm s =
     (if \<not> CheckCallerIsSystemApp tm then (TELEPHONY_ERR_ILLEGAL_USE_OF_SYSTEM_API, None)
      else if cm_hasControl s then (TELEPHONY_SUCCESS, Some (IsNewCallAllowed s))
      else (TELEPHONY_ERR_LOCAL_PTR_NULL, None))"

definition Service_IsRinging :: "TrustModel \<Rightarrow> cm \<Rightarrow> ErrCode \<times> bool option" where
  "Service_IsRinging tm s =
     (if \<not> CheckCallerIsSystemApp tm then (TELEPHONY_ERR_ILLEGAL_USE_OF_SYSTEM_API, None)
      else if \<not> CheckSetTelephonyStatePermission tm then (TELEPHONY_ERR_PERMISSION_ERR, None)
      else if cm_hasControl s then (TELEPHONY_SUCCESS, Some (IsRinging s))
      else (TELEPHONY_ERR_LOCAL_PTR_NULL, None))"

definition Service_IsEmergencyPhoneNumber :: "u16string \<Rightarrow> int \<Rightarrow> bool \<Rightarrow> (ErrCode \<times> bool) cmM" where
  "Service_IsEmergencyPhoneNumber number slotId enabled = do {
     b \<leftarrow> gets cm_hasControl;
     if b then IsEmergencyPhoneNumber number slotId enabled else ret (TELEPHONY_ERR_LOCAL_PTR_NULL, enabled)
   }"

definition Service_EndCall :: "TrustModel \<Rightarrow> bool cmM" where
  "Service_EndCall tm =
     (if \<not> CheckCallerIsSystemApp tm then ret False
      else if \<not> CheckPermission tm ANSWER_CALL \<and> \<not> CheckPermission tm SET_TELEPHONY_STATE then ret False
      else do {
        b \<leftarrow> gets cm_hasControl;
        if b then EndCall else ret False
      })"

text \<open>The variants without arguments, for devices: no system caller is asked for.\<close>

definition Service_AnswerCall_device :: "TrustModel \<Rightarrow> ErrCode cmM" where
  "Service_AnswerCall_device tm =
     (if \<not> CheckPermission tm ANSWER_CALL \<and> \<not> CheckPermission tm MANAGE_CALL_FOR_DEVICES
      then ret TELEPHONY_ERR_PERMISSION_ERR
      else whenControl (AnswerCall INVALID_CALLID (VideoStateType_code TYPE_VOICE) False))"

definition Service_RejectCall_device :: "TrustModel \<Rightarrow> ErrCode cmM" where
  "Service_RejectCall_device tm =
     (if \<not> CheckPermission tm ANSWER_CALL \<and> \<not> CheckPermission tm SET_TELEPHONY_STATE \<and>
         \<not> CheckPermission tm MANAGE_CALL_FOR_DEVICES
      then ret TELEPHONY_ERR_PERMISSION_ERR
      else whenControl (RejectCall INVALID_CALLID False []))"

definition Service_HangUpCall_device :: "TrustModel \<Rightarrow> ErrCode cmM" where
  "Service_HangUpCall_device tm =
     (if \<not> CheckPermission tm ANSWER_CALL \<and> \<not> CheckPermission tm SET_TELEPHONY_STATE \<and>
         \<not> CheckPermission tm MANAGE_CALL_FOR_DEVICES
      then ret TELEPHONY_ERR_PERMISSION_ERR
      else whenControl (HangUpCall INVALID_CALLID))"

end
