(* ===== verification/Call_Invariant.thy ===== *)
theory Call_Invariant
  imports Uplink Service
begin

text \<open>
  The invariant of the call table, of the call objects and of the conferences, and the proof that
  every operation keeps it. An operation is \<open>safe\<close> when it keeps the invariant; \<open>A\<close> is a set of
  addresses the surrounding code holds, which have to stay allocated because they may come (back)
  into the table. An operation that answers addresses adds them to the set: \<open>safe A m B\<close> with the
  addresses \<open>B x\<close> for the answer \<open>x\<close>. Collection \<open>safe\<close> holds one rule per operation.
\<close>

named_theorems safe \<open>operations that keep the invariant of the call table\<close>
named_theorems frame \<open>operations that do not touch calls, table and conferences\<close>

section \<open>The invariant\<close>

text \<open>The running state that belongs to a reported state.\<close>

fun running_state :: "TelCallState \<Rightarrow> CallRunningState option" where
  "running_state CALL_STATUS_DIALING = Some CALL_RUNNING_STATE_DIALING"
| "running_state CALL_STATUS_ALERTING = Some CALL_RUNNING_STATE_DIALING"
| "running_state CALL_STATUS_INCOMING = Some CALL_RUNNING_STATE_RINGING"
| "running_state CALL_STATUS_WAITING = Some CALL_RUNNING_STATE_RINGING"
| "running_state CALL_STATUS_ACTIVE = Some CALL_RUNNING_STATE_ACTIVE"
| "running_state CALL_STATUS_HOLDING = Some CALL_RUNNING_STATE_HOLD"
| "running_state CALL_STATUS_DISCONNECTED = Some CALL_RUNNING_STATE_ENDED"
| "running_state CALL_STATUS_DISCONNECTING = Some CALL_RUNNING_STATE_ENDING"
| "running_state _ = None"

text \<open>Not yet set up, or in step with the reported state where that one has a running state.\<close>

definition coherent :: "call \<Rightarrow> bool" where
  "coherent c \<longleftrightarrow> cb_callRunningState c = CALL_RUNNING_STATE_CREATE \<or>
     cb_callRunningState c = CALL_RUNNING_STATE_CONNECTING \<or>
     (\<forall>r. running_state (cb_callState c) = Some r \<longrightarrow> cb_callRunningState c = r)"

definition conference_free :: "call \<Rightarrow> bool" where
  "conference_free c \<longleftrightarrow> cb_conferenceState c = TEL_CONFERENCE_IDLE \<or> cb_conferenceState c = TEL_CONFERENCE_HOLDING"

definition call_ok :: "call \<Rightarrow> bool" where
  "call_ok c \<longleftrightarrow> coherent c \<and> conference_free c"

definition ims_idle :: "ConferenceBase \<Rightarrow> bool" where
  "ims_idle f \<longleftrightarrow> cf_state f = CONFERENCE_STATE_IDLE \<and> cf_oldState f = CONFERENCE_STATE_IDLE \<and> cf_subCallIdSet f = {}"

definition table_ok :: "cm \<Rightarrow> bool" where
  "table_ok s \<longleftrightarrow> distinct (map cb_callId (calls s)) \<and> length (cm_callList s) \<le> MINI_MAX_CALL_OBJECTS \<and>
     length (filter (\<lambda>c. \<not> GetEmergencyState c) (calls s)) \<le> MINI_MAX_CALL_OBJECTS - MINI_ECC_RESERVED_CALL_OBJECTS"

definition inv :: "nat set \<Rightarrow> cm \<Rightarrow> bool" where
  "inv A s \<longleftrightarrow> (\<forall>a \<in> A \<union> set (cm_callList s). a < cm_nextAddr s) \<and> table_ok s \<and> (\<forall>a. call_ok (cm_heap s a)) \<and>
     ims_idle (cm_imsConference s) \<and> \<not> cm_needWaitHold s"

section \<open>Safe operations\<close>

definition safe :: "nat set \<Rightarrow> 'a cmM \<Rightarrow> ('a \<Rightarrow> nat set) \<Rightarrow> bool" where
  "safe A m B \<longleftrightarrow> (\<forall>s. inv A s \<longrightarrow> inv (A \<union> B (fst (run_state m s))) (snd (run_state m s)))"

abbreviation safe0 :: "nat set \<Rightarrow> 'a cmM \<Rightarrow> bool" where
  "safe0 A m \<equiv> safe A m (\<lambda>_. {})"

lemma inv_mono: "inv B s \<Longrightarrow> A \<subseteq> B \<Longrightarrow> inv A s"
  by (auto simp: inv_def)

lemma safe_bind:
  "safe A m B \<Longrightarrow> (\<And>x. safe (A \<union> B x) (f x) C) \<Longrightarrow> safe A (State_Monad.bind m f) C"
proof (unfold safe_def, intro allI impI)
  fix s
  assume m: "\<forall>s. inv A s \<longrightarrow> inv (A \<union> B (fst (run_state m s))) (snd (run_state m s))"
    and f: "\<And>x. \<forall>s. inv (A \<union> B x) s \<longrightarrow> inv (A \<union> B x \<union> C (fst (run_state (f x) s))) (snd (run_state (f x) s))"
    and s: "inv A s"
  obtain x t where xt: "run_state m s = (x, t)" by (cases "run_state m s")
  from m s xt have "inv (A \<union> B x) t" by (metis fst_conv snd_conv)
  with f have "inv (A \<union> B x \<union> C (fst (run_state (f x) t))) (snd (run_state (f x) t))" by blast
  then have "inv (A \<union> C (fst (run_state (f x) t))) (snd (run_state (f x) t))" by (rule inv_mono) auto
  with xt show "inv (A \<union> C (fst (run_state (State_Monad.bind m f) s))) (snd (run_state (State_Monad.bind m f) s))"
    by simp
qed

lemma safe_bind0 [safe]:
  "safe0 A m \<Longrightarrow> (\<And>x. safe A (f x) C) \<Longrightarrow> safe A (State_Monad.bind m f) C"
  using safe_bind [of A m "\<lambda>_. {}" f C] by simp

lemma safe_return: "B x \<subseteq> A \<Longrightarrow> safe A (ret x) B"
  by (auto simp: safe_def intro: inv_mono)

lemma safe0_return [safe]: "safe0 A (ret x)"
  by (simp add: safe_return)

lemma safe0_gets [safe]: "safe0 A (gets f)"
  by (simp add: safe_def)

lemma safe_whenM [safe]: "(b \<Longrightarrow> safe0 A m) \<Longrightarrow> safe0 A (whenM b m)"
  by (simp add: safe_def)

lemma safe_ignore [safe]: "safe0 A m \<Longrightarrow> safe0 A (ignore m)"
  by (simp add: safe_def)

lemma safe_if [safe]:
  "(b \<Longrightarrow> safe A m B) \<Longrightarrow> (\<not> b \<Longrightarrow> safe A n B) \<Longrightarrow> safe A (if b then m else n) B"
  by simp

lemma safe_let [safe]: "(\<And>x. x = t \<Longrightarrow> safe A (f x) B) \<Longrightarrow> safe A (let x = t in f x) B"
  by (simp add: Let_def)

lemma safe_case_option [safe]:
  "safe A n B \<Longrightarrow> (\<And>x. v = Some x \<Longrightarrow> safe A (f x) B) \<Longrightarrow>
   safe A (case v of None \<Rightarrow> n | Some x \<Rightarrow> f x) B"
  by (cases v) auto

lemma safe_case_prod [safe]:
  "(\<And>x y. v = (x, y) \<Longrightarrow> safe A (f x y) B) \<Longrightarrow> safe A (case v of (x, y) \<Rightarrow> f x y) B"
  by (cases v) auto

lemma safe_for_each [safe]: "(\<And>x. x \<in> set xs \<Longrightarrow> safe0 A (f x)) \<Longrightarrow> safe0 A (for_each xs f)"
  by (induction xs) (auto intro!: safe)

text \<open>A lookup answers an address of the table.\<close>

lemma safe_lookup:
  "(\<And>s a. f s = Some a \<Longrightarrow> a \<in> set (cm_callList s)) \<Longrightarrow> (\<And>x. safe (A \<union> set_option x) (g x) C) \<Longrightarrow>
   safe A (State_Monad.bind (gets f) g) C"
  by (rule safe_bind [where B = set_option]) (auto simp: safe_def inv_def)

section \<open>Operations that leave calls, table and conferences alone\<close>

definition same_calls_state :: "cm \<Rightarrow> cm \<Rightarrow> bool" where
  "same_calls_state s t \<longleftrightarrow> cm_heap t = cm_heap s \<and> cm_nextAddr t = cm_nextAddr s \<and> cm_callList t = cm_callList s \<and>
     cm_imsConference t = cm_imsConference s \<and> cm_needWaitHold t = cm_needWaitHold s"

definition frames :: "'a cmM \<Rightarrow> bool" where
  "frames m \<longleftrightarrow> (\<forall>s. same_calls_state s (snd (run_state m s)))"

lemma same_refl [simp]: "same_calls_state s s"
  by (simp add: same_calls_state_def)

lemma same_trans: "same_calls_state s t \<Longrightarrow> same_calls_state t u \<Longrightarrow> same_calls_state s u"
  by (simp add: same_calls_state_def)

lemma same_inv: "same_calls_state s t \<Longrightarrow> inv A s \<Longrightarrow> inv A t"
  by (simp add: same_calls_state_def inv_def table_ok_def calls_def)

lemma frames_safe: "frames m \<Longrightarrow> safe0 A m"
  by (auto simp: frames_def safe_def intro: same_inv)

lemma framesI: "(\<And>s. same_calls_state s (snd (run_state m s))) \<Longrightarrow> frames m"
  by (simp add: frames_def)

lemma frames_bind [frame]: "frames m \<Longrightarrow> (\<And>x. frames (f x)) \<Longrightarrow> frames (State_Monad.bind m f)"
  by (auto simp: frames_def split: prod.splits) (metis same_trans snd_conv)

lemma frames_return [frame]: "frames (ret x)"
  by (simp add: frames_def)

lemma frames_gets [frame]: "frames (gets f)"
  by (simp add: frames_def)

lemma frames_whenM [frame]: "frames m \<Longrightarrow> frames (whenM b m)"
  by (simp add: frames_def)

lemma frames_ignore [frame]: "frames m \<Longrightarrow> frames (ignore m)"
  by (simp add: frames_def)

lemma frames_if [frame]: "frames m \<Longrightarrow> frames n \<Longrightarrow> frames (if b then m else n)"
  by simp

lemma frames_let [frame]: "(\<And>x. frames (f x)) \<Longrightarrow> frames (let x = t in f x)"
  by (simp add: Let_def)

lemma frames_case_option [frame]:
  "frames n \<Longrightarrow> (\<And>x. frames (f x)) \<Longrightarrow> frames (case v of None \<Rightarrow> n | Some x \<Rightarrow> f x)"
  by (cases v) auto

lemma frames_case_prod [frame]: "(\<And>x y. frames (f x y)) \<Longrightarrow> frames (case v of (x, y) \<Rightarrow> f x y)"
  by (cases v) auto

lemma frames_case_observer [frame]:
  "frames m \<Longrightarrow> frames n \<Longrightarrow> frames (case v of CallAbilityReportProxy \<Rightarrow> m | AudioControlManager \<Rightarrow> n)"
  by (cases v) auto

lemma frames_for_each [frame]: "(\<And>x. frames (f x)) \<Longrightarrow> frames (for_each xs f)"
  by (induction xs) (auto intro!: frame)

lemma frames_modify:
  "(\<And>s. same_calls_state s (f s)) \<Longrightarrow> frames (modify f)"
  by (simp add: frames_def)

lemma frames_updates:
  "frames (onHelper g)" "frames (onLoop m)" "frames (post t)" "frames (onAudio k)" "frames (onConnection n)"
  "frames (stack_call c)" "frames (audio_call d)" "frames (packed a)" "frames (getCall a)" "frames (onStatus h)"
  "frames getStatus" "frames (onConference CSCall q)"
  by (simp_all add: frames_def same_calls_state_def onStatus_def getStatus_def getCall_def)

lemmas [frame] = frames_updates

lemma frames_conn [frame]:
  "frames (Conn_Dial i)"
  "frames (Conn_HangUp i t)"
  "frames (Conn_Reject i)"
  "frames (Conn_Answer i)"
  "frames (Conn_HoldCall i)"
  "frames (Conn_UnHoldCall i)"
  "frames (Conn_SwitchCall i)"
  "frames Conn_HangUpAllConnection"
  unfolding conn_defs
  by (intro frame)+

lemma frames_emergency [frame]: "frames (Conn_IsEmergencyPhoneNumber n i b)"
  unfolding Conn_IsEmergencyPhoneNumber_def by (intro frame frames_modify) (simp add: same_calls_state_def)

lemma frames_uplink [frame]:
  "frames OnStackReady"
  "frames AddReadyListener"
  "frames RemoveReadyListener"
  "frames Conn_Init"
  "frames Conn_UnInit"
  "frames RegisterCallbackOnLoop"
  unfolding OnStackReady_def AddReadyListener_def RemoveReadyListener_def Conn_Init_def Conn_UnInit_def RegisterCallbackOnLoop_def
  by (intro frame)+

lemma frames_carrier [frame]:
  "frames (CarrierAnswerCall a v b)"
  "frames (CarrierHangUpCall a)"
  "frames (CarrierHoldCall a)"
  "frames (CarrierUnHoldCall a)"
  "frames (CarrierSwitchCall a)"
  unfolding CarrierAnswerCall_def CarrierHangUpCall_def CarrierHoldCall_def CarrierUnHoldCall_def CarrierSwitchCall_def
  by (intro frame)+

lemma frames_audio [frame]:
  "frames Unavailable"
  "frames StartRingtone"
  "frames StopRingtone"
  "frames PlayWaitingTone"
  "frames StopWaitingTone"
  "frames (SetCallAudioActive b)"
  "frames ReleaseAll"
  unfolding Unavailable_def StartRingtone_def StopRingtone_def PlayWaitingTone_def StopWaitingTone_def SetCallAudioActive_def ReleaseAll_def
  by (intro frame)+

lemma frames_audio_control [frame]:
  "frames Audio_Init"
  "frames Audio_UnInit"
  "frames (Audio_CallStateUpdated p n)"
  "frames Audio_IncomingCallHungUp"
  unfolding Audio_Init_def Audio_UnInit_def Audio_CallStateUpdated_def Audio_IncomingCallHungUp_def
  by (intro frame)+

lemma frames_callback [frame]: "frames (modify (\<lambda>s. s\<lparr>cm_callback := k s\<rparr>))"
  by (rule frames_modify) (simp add: same_calls_state_def)

lemma frames_report [frame]:
  "frames (Report_RegisterCallBack k b)"
  "frames (Report_UnRegisterCallBack b)"
  "frames (Report_UnRegisterCallBack_ptr k)"
  "frames (ReportCallStateInfo i)"
  "frames (ReportCallStateInfo_bundle i b)"
  "frames (ReportCallEvent e)"
  "frames (Report_CallStateUpdated c n)"
  "frames (Report_CallEventUpdated e)"
  "frames (Report_CallDestroyed d)"
  unfolding Report_RegisterCallBack_def Report_UnRegisterCallBack_def Report_UnRegisterCallBack_ptr_def ReportCallStateInfo_def
    ReportCallStateInfo_bundle_def ReportCallEvent_def Report_CallStateUpdated_def Report_CallEventUpdated_def
    Report_CallDestroyed_def
  by (intro frame)+

lemma frames_to_observers [frame]: "(\<And>ob. frames (f ob)) \<Longrightarrow> frames (to_observers f)"
  unfolding to_observers_def by (intro frame; assumption)

lemma frames_listener [frame]:
  "frames (Listener_NewCallCreated c)"
  "frames (Listener_IncomingCallActivated c)"
  "frames (Listener_CallDestroyed d)"
  "frames (Listener_CallStateUpdated c p n)"
  "frames (Listener_IncomingCallHungUp c)"
  "frames (Listener_CallEventUpdated e)"
  unfolding Listener_NewCallCreated_def Listener_IncomingCallActivated_def Listener_CallDestroyed_def Listener_CallStateUpdated_def
    Listener_IncomingCallHungUp_def Listener_CallEventUpdated_def
  by (intro frame)+

lemma frames_notify [frame]:
  "frames (NotifyNewCallCreated c)"
  "frames (NotifyCallDestroyed d)"
  "frames (NotifyCallStateUpdated c p n)"
  "frames (NotifyIncomingCallAnswered c)"
  "frames (NotifyIncomingCallRejected c b t)"
  "frames (NotifyCallEventUpdated e)"
  unfolding NotifyNewCallCreated_def NotifyCallDestroyed_def NotifyCallStateUpdated_def NotifyIncomingCallAnswered_def
    NotifyIncomingCallRejected_def NotifyCallEventUpdated_def
  by (intro frame)+

lemma frames_helper [frame]:
  "frames IsDialingCallProcessing"
  "frames (RestoreDialingFlag b)"
  "frames RemoveEventHandlerTask"
  "frames SetDialingCallProcessing"
  "frames RestoreDialingFlag_task"
  "frames (SetPendingMo b i)"
  "frames (HasPendingMo i)"
  "frames IsPendingHangup"
  "frames GetPendingHangupCallId"
  "frames (SetPendingHangup b i)"
  "frames (HasPendingHangup i)"
  unfolding helper_simps RemoveEventHandlerTask_def SetDialingCallProcessing_def
  by (intro frame)+

lemma frames_control [frame]: "frames GetDialParaInfo" "frames GetDialParaInfo_extras" "frames RemovePendingHangupProtectTask"
  unfolding GetDialParaInfo_def GetDialParaInfo_extras_def RemovePendingHangupProtectTask_def
  by (intro frame frames_modify; simp add: same_calls_state_def)+

section \<open>The call object\<close>

lemma running_state_case:
  "running_state st = None \<or> (\<exists>r. running_state st = Some r)"
  by (cases "running_state st") auto

lemmas state_change_defs = StateChangesToDialing_def StateChangesToIncoming_def StateChangesToWaiting_def
  StateChangesToActive_def StateChangesToHolding_def StateChangesToDisconnected_def
  StateChangesToDisconnecting_def StateChangesToAlerting_def

lemma SetTelCallState_keeps:
  "cb_callId (snd (SetTelCallState now st c)) = cb_callId c"
  "cc_isEcc (snd (SetTelCallState now st c)) = cc_isEcc c"
  "cb_class (snd (SetTelCallState now st c)) = cb_class c"
  "cc_slotId (snd (SetTelCallState now st c)) = cc_slotId c"
  "cc_index (snd (SetTelCallState now st c)) = cc_index c"
  "cb_callType (snd (SetTelCallState now st c)) = cb_callType c"
  by (simp_all add: SetTelCallState_def state_change_defs Let_def split: TelCallState.split)

lemma SetTelCallState_coherent: "coherent c \<Longrightarrow> coherent (snd (SetTelCallState now st c))"
  by (cases st) (auto simp: SetTelCallState_def coherent_def state_change_defs Let_def)

lemma SetTelCallState_conference_free: "conference_free c \<Longrightarrow> conference_free (snd (SetTelCallState now st c))"
  by (cases st) (auto simp: SetTelCallState_def conference_free_def state_change_defs Let_def)

lemma SetTelCallState_ok: "call_ok c \<Longrightarrow> call_ok (snd (SetTelCallState now st c))"
  by (simp add: call_ok_def SetTelCallState_coherent SetTelCallState_conference_free)

text \<open>An update of an object that no invariant looks at.\<close>

definition harmless :: "(call \<Rightarrow> call) \<Rightarrow> bool" where
  "harmless f \<longleftrightarrow> (\<forall>c. cb_callId (f c) = cb_callId c \<and> cc_isEcc (f c) = cc_isEcc c \<and> (call_ok c \<longrightarrow> call_ok (f c)))"

lemma harmlessI:
  "(\<And>c. cb_callId (f c) = cb_callId c \<and> cc_isEcc (f c) = cc_isEcc c \<and> cb_callState (f c) = cb_callState c \<and>
     cb_callRunningState (f c) = cb_callRunningState c \<and> cb_conferenceState (f c) = cb_conferenceState c) \<Longrightarrow> harmless f"
  by (simp add: harmless_def call_ok_def coherent_def conference_free_def)

lemma inv_set_call:
  assumes "inv A s" and "call_ok c" and "cb_callId c = cb_callId (cm_heap s a)" and "cc_isEcc c = cc_isEcc (cm_heap s a)"
  shows "inv A (s\<lparr>cm_heap := (cm_heap s)(a := c)\<rparr>)"
proof -
  let ?h = "(cm_heap s)(a := c)"
  let ?t = "s\<lparr>cm_heap := ?h\<rparr>"
  have "cb_callId (?h b) = cb_callId (cm_heap s b)" "cc_isEcc (?h b) = cc_isEcc (cm_heap s b)" for b
    using assms(3,4) by simp_all
  then have ids: "map cb_callId (calls ?t) = map cb_callId (calls s)"
    and ecc: "length (filter (\<lambda>c. \<not> GetEmergencyState c) (calls ?t)) = length (filter (\<lambda>c. \<not> GetEmergencyState c) (calls s))"
    by (simp_all add: calls_def GetEmergencyState_def filter_map comp_def)
  have "table_ok ?t = table_ok s"
    by (simp only: table_ok_def ids ecc) simp
  with assms(1,2) show ?thesis
    by (simp add: inv_def)
qed

lemma inv_updCall:
  "harmless f \<Longrightarrow> inv A s \<Longrightarrow> inv A (s\<lparr>cm_heap := (cm_heap s)(a := f (cm_heap s a))\<rparr>)"
  by (rule inv_set_call) (auto simp: harmless_def inv_def)

text \<open>An object outside the table may change at will.\<close>

lemma inv_set_outside:
  "inv A s \<Longrightarrow> call_ok c \<Longrightarrow> a \<notin> set (cm_callList s) \<Longrightarrow> inv A (s\<lparr>cm_heap := (cm_heap s)(a := c)\<rparr>)"
  by (auto simp: inv_def table_ok_def calls_def)

lemma safe_updCall: "harmless f \<Longrightarrow> safe0 A (updCall a f)"
  by (simp add: safe_def inv_updCall)

lemma safe_onCall: "harmless (\<lambda>c. snd (f c)) \<Longrightarrow> safe0 A (onCall a f)"
  using inv_updCall [of "\<lambda>c. snd (f c)" A _ a] by (simp add: safe_def)

lemma safe_SetTelCallState [safe]: "safe0 A (call_SetTelCallState a st)"
  unfolding call_SetTelCallState_def
  by (intro safe safe_onCall) (simp add: harmless_def SetTelCallState_keeps SetTelCallState_ok)

lemma safe_UpdateOne [safe]: "safe0 A (UpdateOneCallObjectByCallId i st)"
  unfolding UpdateOneCallObjectByCallId_def by (intro safe frames_safe [OF frames_updates(9)])

lemma safe_SetTelConferenceState:
  "st = TEL_CONFERENCE_IDLE \<or> st = TEL_CONFERENCE_HOLDING \<Longrightarrow> safe0 A (SetTelConferenceState a st)"
  unfolding SetTelConferenceState_def
  by (rule safe_updCall) (auto simp: harmless_def call_ok_def coherent_def conference_free_def)

section \<open>The table\<close>

lemma safe_newCall: "call_ok c \<Longrightarrow> safe A (newCall c) (\<lambda>a. {a})"
proof (unfold safe_def, intro allI impI)
  fix s assume c: "call_ok c" and i: "inv A s"
  then have "cm_nextAddr s \<notin> set (cm_callList s)" by (auto simp: inv_def)
  then have t: "table_ok (s\<lparr>cm_heap := (cm_heap s)(cm_nextAddr s := c), cm_nextAddr := cm_nextAddr s + 1\<rparr>) = table_ok s"
    by (simp add: table_ok_def calls_def)
  from c i t show "inv (A \<union> {fst (run_state (newCall c) s)}) (snd (run_state (newCall c) s))"
    by (auto simp: inv_def less_SucI)
qed

lemma frames_GetNewCallId [frame]: "frames GetNewCallId"
  unfolding GetNewCallId_def by (intro frame frames_modify) (simp add: same_calls_state_def)

lemma frames_firstDial [frame]: "frames (modify (\<lambda>s. s\<lparr>cm_isFirstDialCallAdded := b\<rparr>))"
  by (rule frames_modify) (simp add: same_calls_state_def)

lemma inv_push:
  assumes "a \<in> A" and "inv A s" and "\<forall>c \<in> set (calls s). cb_callId c \<noteq> cb_callId (cm_heap s a)"
    and "length (cm_callList s) < table_limit (cm_heap s a)"
  shows "inv A (s\<lparr>cm_callList := cm_callList s @ [a]\<rparr>)"
proof -
  have "length (cm_callList s) < 4 \<Longrightarrow>
      length (filter ((\<lambda>c. \<not> GetEmergencyState c) \<circ> cm_heap s) (cm_callList s)) < 4"
    by (rule le_less_trans [OF length_filter_le])
  with assms have "table_ok (s\<lparr>cm_callList := cm_callList s @ [a]\<rparr>)"
    by (auto simp: inv_def table_ok_def table_limit_def calls_def MINI_MAX_CALL_OBJECTS_def
      MINI_ECC_RESERVED_CALL_OBJECTS_def split: if_splits)
  with assms(1,2) show ?thesis by (auto simp: inv_def)
qed

lemma safe_AddOne: "a \<in> A \<Longrightarrow> safe0 A (AddOneCallObject (Some a))"
proof (unfold safe_def, intro allI impI)
  fix s assume a: "a \<in> A" and i: "inv A s"
  let ?t = "s\<lparr>cm_callList := cm_callList s @ [a]\<rparr>"
  have "frames (do { s \<leftarrow> gets id;
      whenM (length (cm_callList s) = 1 \<and> cb_callState (hd (calls s)) = CALL_STATUS_DIALING)
        (modify (\<lambda>s. s\<lparr>cm_isFirstDialCallAdded := True\<rparr>)); ret TELEPHONY_SUCCESS })"
    by (intro frame)
  then have f: "inv A ?t \<Longrightarrow> inv A (snd (run_state (do { s \<leftarrow> gets id;
      whenM (length (cm_callList s) = 1 \<and> cb_callState (hd (calls s)) = CALL_STATUS_DIALING)
        (modify (\<lambda>s. s\<lparr>cm_isFirstDialCallAdded := True\<rparr>)); ret TELEPHONY_SUCCESS }) ?t))"
    unfolding frames_def using same_inv by blast
  show "inv (A \<union> {}) (snd (run_state (AddOneCallObject (Some a)) s))"
    using i f inv_push [OF a i] by (auto simp: AddOneCallObject_def not_le simp del: run_if)
qed

lemma inv_shrink:
  assumes "inv A s" and "set xs \<subseteq> set (cm_callList s)" and "length xs \<le> length (cm_callList s)"
    and "distinct (map (cb_callId \<circ> cm_heap s) (cm_callList s)) \<longrightarrow> distinct (map (cb_callId \<circ> cm_heap s) xs)"
    and "length (filter (\<lambda>c. \<not> GetEmergencyState c) (map (cm_heap s) xs)) \<le>
      length (filter (\<lambda>c. \<not> GetEmergencyState c) (calls s))"
  shows "inv A (s\<lparr>cm_callList := xs\<rparr>)"
  using assms by (auto simp: inv_def table_ok_def calls_def)

lemma safe_Delete [safe]: "safe0 A (DeleteOneCallObject i)"
  unfolding safe_def DeleteOneCallObject_def
  by (auto intro!: inv_shrink drop_first_set drop_first_length drop_first_distinct
    simp: calls_def drop_first_filter)

lemma safe_Delete_ptr [safe]: "safe0 A (DeleteOneCallObject_ptr c)"
proof -
  have "length (filter P (map h (filter Q xs))) \<le> length (filter P (map h xs))" for P Q h and xs :: "nat list"
    by (induction xs) auto
  then show ?thesis
    unfolding safe_def DeleteOneCallObject_ptr_def
    by (cases c) (auto intro!: inv_shrink distinct_map_filter simp: calls_def)
qed

section \<open>Conferences\<close>

lemma safe_onIms:
  "(\<And>f. ims_idle f \<Longrightarrow> ims_idle (snd (q f))) \<Longrightarrow> safe0 A (onConference IMSCall q)"
  by (simp add: safe_def inv_def table_ok_def calls_def)

lemma ims_idle_keeps:
  "ims_idle f \<Longrightarrow> ims_idle (snd (ImsConference_LeaveFromConference i f))"
  "ims_idle f \<Longrightarrow> ims_idle (snd (ImsConference_HoldConference i f))"
  "ims_idle f \<Longrightarrow> ims_idle (snd (combine_failed f))"
  by (simp_all add: ims_idle_def ImsConference_LeaveFromConference_def ImsConference_HoldConference_def
    combine_failed_def SetMainCall_def SetConferenceState_def Let_def)

lemma IMSCall_LaunchConference_refused:
  "ims_idle (cm_imsConference s) \<Longrightarrow>
    run_state (IMSCall_LaunchConference a) s = (CALL_ERR_ILLEGAL_CALL_OPERATION, s)"
  by (simp add: IMSCall_LaunchConference_def ImsConference_JoinToConference_def ims_idle_def)

lemma safe_Launch [safe]: "safe0 A (call_LaunchConference a)"
proof (unfold safe_def, intro allI impI)
  fix s assume i: "inv A s"
  then have "ims_idle (cm_imsConference s)" by (simp add: inv_def)
  moreover have "inv A (s\<lparr>cm_csConference := f\<rparr>)" for f
    by (rule same_inv [OF _ i]) (simp add: same_calls_state_def)
  ultimately show "inv (A \<union> {}) (snd (run_state (call_LaunchConference a) s))"
    using i by (cases "cb_class (cm_heap s a)")
      (simp_all add: call_LaunchConference_def CSCall_LaunchConference_refused IMSCall_LaunchConference_refused)
qed

lemma safe_case_class [safe]:
  "safe A m B \<Longrightarrow> safe A n B \<Longrightarrow> safe A (case k of CSCall \<Rightarrow> m | IMSCall \<Rightarrow> n) B"
  by (cases k) auto

lemma safe_onCs [safe]: "safe0 A (onConference CSCall q)"
  by (intro frames_safe frame)

lemma safe_getCall [safe]: "safe0 A (getCall a)"
  by (intro frames_safe frame)

lemma safe_Exit [safe]: "safe0 A (call_ExitConference a)"
  unfolding call_ExitConference_def CSCall_ExitConference_def IMSCall_ExitConference_def
  by (intro safe safe_onIms safe_SetTelConferenceState ims_idle_keeps; simp)

lemma safe_Hold [safe]: "safe0 A (call_HoldConference a)"
  unfolding call_HoldConference_def CSCall_HoldConference_def IMSCall_HoldConference_def
  by (intro safe safe_onIms safe_SetTelConferenceState ims_idle_keeps; simp)

lemma safe_CombineFail [safe]: "safe0 A (call_HandleCombineConferenceFailEvent a)"
proof -
  have "safe0 A (onConference k combine_failed)" for k
    by (cases k) (auto intro: safe safe_onIms ims_idle_keeps)
  then show ?thesis
    unfolding call_HandleCombineConferenceFailEvent_def by (intro safe)
qed

section \<open>Creating and replacing calls\<close>

lemma CarrierCall_new_ok: "call_ok (CarrierCall_new k p d sc)"
  by (simp add: call_ok_def coherent_def conference_free_def CarrierCall_new_def)

lemma CreateNewCallByCallType_ok: "CreateNewCallByCallType p i d e = Some c \<Longrightarrow> call_ok c"
  by (auto simp: CreateNewCallByCallType_def CarrierCall_in_def CarrierCall_out_def CarrierCall_new_ok
    split: CallType.splits)

lemma frames_PackParaInfo [frame]: "frames (PackParaInfo info dir)"
  unfolding PackParaInfo_def by (intro frame)

lemma safe_CreateNewCall: "safe A (CreateNewCall info dir) set_option"
  unfolding CreateNewCall_def
  apply (rule safe_bind0, intro frames_safe frame)
  apply (intro safe_case_prod safe_case_option safe_return, simp)
  apply (rule safe_bind [OF safe_newCall], erule CreateNewCallByCallType_ok)
  apply (intro safe safe_updCall harmlessI safe_return; simp)
  done

lemma CreateNewCall_fresh:
  assumes "inv A s" and "run_state (CreateNewCall info dir) s = (Some b, t)"
  shows "b \<notin> set (cm_callList t) \<and> inv (insert b A) t"
proof -
  obtain p e s' where 1: "run_state (PackParaInfo info dir) s = ((p, e), s')" by (metis surj_pair)
  with frames_PackParaInfo have same: "same_calls_state s s'" unfolding frames_def by (metis snd_conv)
  with assms(1) have "cm_nextAddr s' \<notin> set (cm_callList s')" using same_inv [OF same] by (auto simp: inv_def)
  moreover from assms(2) 1 have "b = cm_nextAddr s' \<and> cm_callList t = cm_callList s'"
    by (auto simp: CreateNewCall_def split: option.splits if_splits)
  moreover have "inv (insert b A) t"
    using safe_CreateNewCall [of A info dir] assms by (auto simp: safe_def)
  ultimately show ?thesis by simp
qed

lemma take_over_ok:
  "call_ok old \<Longrightarrow> call_ok (snd (SetTelCallState now (cb_callState old) (take_over old attrInfo c)))"
  by (cases "cb_callState old")
    (auto simp: call_ok_def SetTelCallState_def coherent_def conference_free_def state_change_defs take_over_def
      SetPolicyFlag_def Let_def)

lemma take_over_keeps:
  "cb_callId (take_over old attrInfo c) = cb_callId c" "cc_isEcc (take_over old attrInfo c) = cc_isEcc c"
  by (simp_all add: take_over_def SetPolicyFlag_def)

lemma safe_fill: "call_ok old \<Longrightarrow> safe0 A (RefreshCall_fill b old attrInfo info)"
proof (unfold safe_def, intro allI impI)
  fix s assume old: "call_ok old" and i: "inv A s"
  define c where "c = snd (SetTelCallState (cm_now s) (cb_callState old) (take_over old attrInfo (cm_heap s b)))"
  define d where "d = (if cb_numberLocation old \<noteq> ''default''
     then c\<lparr>cb_imsDomain := at_imsDomain attrInfo, cb_numberLocation := cb_numberLocation old\<rparr>
     else c\<lparr>cb_imsDomain := at_imsDomain attrInfo\<rparr>)"
  let ?t = "snd (run_state (RefreshCall_fill b old attrInfo info) s)"
  have "call_ok c" unfolding c_def by (rule take_over_ok [OF old])
  then have "call_ok d" "cb_callId d = cb_callId (cm_heap s b)" "cc_isEcc d = cc_isEcc (cm_heap s b)"
    by (simp_all add: d_def c_def SetTelCallState_keeps take_over_keeps call_ok_def coherent_def conference_free_def)
  with i have "inv A (s\<lparr>cm_heap := (cm_heap s)(b := d)\<rparr>)" by (intro inv_set_call) simp_all
  moreover have "same_calls_state (s\<lparr>cm_heap := (cm_heap s)(b := d)\<rparr>) ?t"
    by (simp add: RefreshCall_fill_def call_SetTelCallState_def CSCall_UpdateConferenceId_def same_calls_state_def
      d_def c_def)
  ultimately show "inv (A \<union> {}) ?t" using same_inv by simp
qed

lemma safe_ReplaceCall:
  assumes "a \<in> A" and "call_ok old" and "inv (insert b A) s" and "b \<notin> set (cm_callList s)"
    and m: "m = do {
      ignore (DeleteOneCallObject (cb_callId old));
      updCall b (\<lambda>c. c\<lparr>cb_callId := cb_callId old\<rparr>);
      r \<leftarrow> AddOneCallObject (Some b);
      if r \<noteq> TELEPHONY_SUCCESS then do { ignore (AddOneCallObject (Some a)); ret a }
      else do { RefreshCall_fill b old attrInfo info; ret b } }"
  shows "inv (A \<union> {fst (run_state m s)}) (snd (run_state m s))"
proof -
  define t where "t = snd (run_state (DeleteOneCallObject (cb_callId old)) s)"
  define u where "u = t\<lparr>cm_heap := (cm_heap t)(b := (cm_heap t b)\<lparr>cb_callId := cb_callId old\<rparr>)\<rparr>"
  have t: "inv (insert b A) t" using safe_Delete assms(3) by (simp add: safe_def t_def)
  have "set (cm_callList t) \<subseteq> set (cm_callList s)"
    unfolding t_def DeleteOneCallObject_def using drop_first_set by fastforce
  with assms(4) t have u: "inv (insert b A) u"
    unfolding u_def by (intro inv_set_outside) (auto simp: inv_def call_ok_def coherent_def conference_free_def)
  have rest: "safe (insert b A) (do {
      r \<leftarrow> AddOneCallObject (Some b);
      if r \<noteq> TELEPHONY_SUCCESS then do { ignore (AddOneCallObject (Some a)); ret a }
      else do { RefreshCall_fill b old attrInfo info; ret b } }) (\<lambda>x. {x})"
    using assms(1) by (intro safe_bind0 safe_if safe_ignore safe_AddOne safe_fill [OF assms(2)] safe_return) auto
  from rest u have "inv (insert b A \<union> {fst (run_state m s)}) (snd (run_state m s))"
    by (simp add: m safe_def u_def t_def)
  then show ?thesis by (rule inv_mono) auto
qed

lemma safe_RefreshCall: "a \<in> A \<Longrightarrow> safe A (RefreshCall a info) (\<lambda>b. {b})"
proof (unfold safe_def, intro allI impI)
  fix s assume a: "a \<in> A" and i: "inv A s"
  let ?m = "CreateNewCall info (at_callDirection (GetCallAttributeBaseInfo (cm_heap s a) CallAttributeInfo_default))"
  obtain r t where rt: "run_state ?m s = (r, t)" by (cases "run_state ?m s")
  have ok: "call_ok (cm_heap s a)" using i by (simp add: inv_def)
  show "inv (A \<union> {fst (run_state (RefreshCall a info) s)}) (snd (run_state (RefreshCall a info) s))"
  proof (cases r)
    case None
    have "inv A t" using safe_CreateNewCall i rt None unfolding safe_def by (metis fst_conv snd_conv option.set(1) sup_bot_right)
    with a rt None show ?thesis by (simp add: RefreshCall_def Let_def insert_absorb)
  next
    case (Some b)
    from CreateNewCall_fresh [OF i] rt Some have "b \<notin> set (cm_callList t)" "inv (insert b A) t" by auto
    from safe_ReplaceCall [OF a ok this(2,1) refl] rt Some show ?thesis
      by (simp add: RefreshCall_def Let_def)
  qed
qed

lemma safe_RefreshIfNecessary: "a \<in> A \<Longrightarrow> safe A (RefreshCallIfNecessary a info) (\<lambda>b. {b})"
  unfolding RefreshCallIfNecessary_def
  by (intro safe_bind0 safe_updCall safe_getCall safe_whenM safe_if safe_RefreshCall safe_return harmlessI; simp)

section \<open>The state machine\<close>

lemma find_table: "first_call P s = Some a \<Longrightarrow> a \<in> set (cm_callList s)" "last_call P s = Some a \<Longrightarrow> a \<in> set (cm_callList s)"
  by (auto simp: first_call_def last_call_def dest: find_SomeD)

lemmas lookup_defs = GetOneCallObject_def GetOneCallObject_state_def GetOneCallObjectByIndex_def
  GetOneCallObjectByIndexSlotIdAndCallType_def GetOneCallObjectByIndexAndSlotId_def GetOneCarrierCallObject_def

lemma safe_reported: "(\<And>x. safe (A \<union> set_option x) (g x) C) \<Longrightarrow> safe A (State_Monad.bind (reported_call info) g) C"
  unfolding reported_call_def by (rule safe_lookup) (auto simp: lookup_defs dest: find_table)

lemma safe_initial: "(\<And>x. safe (A \<union> set_option x) (g x) C) \<Longrightarrow> safe A (State_Monad.bind (gets (GetOneCallObjectByIndex i)) g) C"
  by (rule safe_lookup) (auto simp: lookup_defs dest: find_table)

lemma safe_Clear [safe]: "safe0 A (ClearPendingState a)"
  unfolding ClearPendingState_def by (intro frames_safe frame)

lemma safe_Reject [safe]: "safe0 A (CarrierRejectCall a)"
  unfolding CarrierRejectCall_def
  by (intro safe safe_onCall frames_safe frame harmlessI; simp add: RejectCallBase_def)

lemma safe_UpdateCallState [safe]: "safe0 A (UpdateCallState c st)"
  unfolding UpdateCallState_def by (intro safe; intro frames_safe frame)

lemma safe_DialingProcess [safe]: "safe0 A (CarrierDialingProcess a)"
  unfolding CarrierDialingProcess_def
  by (intro safe safe_onCall; (intro frames_safe frame)?)
    (auto simp: DialCallBase_def harmless_def call_ok_def coherent_def conference_free_def)

lemma safe_originals [safe]:
  "safe0 A (SetOriginalCallTypeForActiveState a)" "safe0 A (SetOriginalCallTypeForDisconnectState a)"
  "safe0 A (RefreshCallDisconnectReason a r t)"
  unfolding SetOriginalCallTypeForActiveState_def SetOriginalCallTypeForDisconnectState_def RefreshCallDisconnectReason_def
  by (intro safe safe_updCall harmlessI; simp)+

lemma safe_weaken: "safe A m B \<Longrightarrow> safe0 A m"
  unfolding safe_def by (auto intro: inv_mono)

lemma safe_Refresh_bind:
  "a \<in> A \<Longrightarrow> (\<And>b. safe (A \<union> {b}) (g b) C) \<Longrightarrow> safe A (State_Monad.bind (RefreshCallIfNecessary a info) g) C"
  by (rule safe_bind [OF safe_RefreshIfNecessary])

lemma safe_Create_bind:
  "(\<And>x. safe (A \<union> set_option x) (g x) C) \<Longrightarrow> safe A (State_Monad.bind (CreateNewCall info dir) g) C"
  by (rule safe_bind [OF safe_CreateNewCall])

lemma safe_Refresh_ignore: "a \<in> A \<Longrightarrow> safe0 A (ignore (RefreshCallIfNecessary a info))"
  by (intro safe safe_weaken [OF safe_RefreshIfNecessary])

text \<open>The rules that bring addresses in come first.\<close>

lemmas safe_sources = safe_reported safe_initial safe_Create_bind safe_Refresh_bind

lemma safe_frame_rules [safe]:
  "safe0 A (SetPendingMo b i)" "safe0 A (RestoreDialingFlag b)" "safe0 A RemoveEventHandlerTask"
  "safe0 A (SetPendingHangup b i)" "safe0 A IsPendingHangup" "safe0 A GetPendingHangupCallId"
  "safe0 A RemovePendingHangupProtectTask" "safe0 A (NotifyNewCallCreated c)" "safe0 A (NotifyCallDestroyed d)"
  "safe0 A (NotifyCallEventUpdated e)" "safe0 A (CarrierHangUpCall a)" "safe0 A (CarrierUnHoldCall a)"
  "safe0 A (Conn_Dial j)" "safe0 A getStatus" "safe0 A (onStatus f)" "safe0 A GetDialParaInfo"
  by (intro frames_safe frame)+

lemma safe_UpdateDialingCallInfo [safe]: "safe0 A (UpdateDialingCallInfo info)"
  unfolding UpdateDialingCallInfo_def
  apply (rule safe_reported, rule safe_case_option)
  subgoal
    apply (rule safe_initial, rule safe_case_option, intro safe)
    apply (rule safe_bind0, rule safe_getCall, rule safe_let, rule safe_Refresh_bind, simp)
    apply (intro safe safe_updCall harmlessI; simp)
    done
  by (intro safe_bind0 safe_Refresh_ignore safe0_return) simp

lemma safe_UpdateDialingHandle [safe]: "safe0 A (UpdateDialingHandle info)"
  unfolding UpdateDialingHandle_def reported_call_def by (intro safe)

lemma safe_AddCreated: "set_option c \<subseteq> A \<Longrightarrow> safe0 A (AddOneCallObject c)"
proof (cases c)
  case None
  then show ?thesis by (simp add: AddOneCallObject_def safe0_return)
qed (simp add: safe_AddOne)

lemma safe_DialingHandle_new [safe]: "safe0 A (DialingHandle_new info)"
  unfolding DialingHandle_new_def
  apply (rule safe_Create_bind, rule safe_case_option, intro safe)
  apply (rule safe_bind0, rule safe_AddCreated, simp, rule safe_if, rule safe0_return)
  apply (intro safe safe_updCall harmlessI; simp)
  done

lemma safe_DialingHandle [safe]: "safe0 A (DialingHandle info)"
  unfolding DialingHandle_def by (intro safe)

lemma safe_reported_call [safe]: "safe A (reported_call info) set_option"
  using safe_reported [of A ret set_option info] by (simp add: safe_return)

lemma safe_RefreshDialing: "safe A (RefreshDialingStateByOtherState info) set_option"
  unfolding RefreshDialingStateByOtherState_def
  by (intro safe_bind0 safe0_gets safe_case_option safe_return safe_ignore safe_DialingHandle safe_reported_call) simp

lemma safe_reported_or_dialed:
  assumes "\<And>x. safe (A \<union> set_option x) (g x) C"
  shows "safe A (State_Monad.bind (reported_or_dialed info) g) C"
proof (rule safe_bind [where B = set_option, OF _ assms])
  show "safe A (reported_or_dialed info) set_option"
    unfolding reported_or_dialed_def
    by (rule safe_reported, rule safe_case_option) (auto intro: safe_RefreshDialing safe_return)
qed

lemma safe_ConferenceList [safe]: "safe0 A (GetConferenceCallList i)"
  unfolding GetConferenceCallList_def by (intro safe)

lemma safe_SetConferenceCall [safe]: "safe0 A (SetConferenceCall as)"
  unfolding SetConferenceCall_def by (intro safe safe_SetTelConferenceState) simp

lemma safe_ActiveHandle [safe]: "safe0 A (ActiveHandle info)"
  unfolding ActiveHandle_def
  apply (rule safe_reported_or_dialed, rule safe_case_option, intro safe)
  apply (rule safe_bind0, intro safe)
  apply (rule safe_Refresh_bind, simp)
  apply (intro safe safe_updCall harmlessI; simp)
  done

lemma safe_HoldingHandle [safe]: "safe0 A (HoldingHandle info)"
  unfolding HoldingHandle_def UpdateCallStateAndHandleDsdsMode_def
  apply (rule safe_reported, rule safe_case_option, intro safe)
  apply (rule safe_Refresh_bind, simp, intro safe)
  done

lemma safe_AlertHandle [safe]: "safe0 A (AlertHandle info)"
  unfolding AlertHandle_def
  apply (rule safe_reported_or_dialed, rule safe_case_option, intro safe)
  apply (rule safe_bind0, rule safe_Clear, rule safe_bind0, rule safe_getCall, rule safe_if, rule safe0_return)
  apply (rule safe_Refresh_bind, simp, intro safe)
  done

lemma safe_DisconnectingHandle [safe]: "safe0 A (DisconnectingHandle info)"
  unfolding DisconnectingHandle_def
  apply (rule safe_reported, rule safe_case_option, intro safe)
  apply (rule safe_Refresh_bind, simp, intro safe)
  done

lemma safe_SetNeedWaitHold [safe]: "safe0 A (SetNeedWaitHold False)"
  by (simp add: safe_def SetNeedWaitHold_def inv_def table_ok_def calls_def)

lemma safe_HandleHold [safe]: "safe0 A (HandleHoldCallOrAutoAnswerCall a l p q)"
  unfolding HandleHoldCallOrAutoAnswerCall_def by (intro safe)

lemma safe_HandleDialWhenHolding [safe]: "(\<And>c. safe0 A (deal c)) \<Longrightarrow> safe0 A (HandleDialWhenHolding deal i c)"
  unfolding HandleDialWhenHolding_def by (intro safe)

lemma safe_Disconnected_update: "a \<in> A \<Longrightarrow> safe0 A (Disconnected_update info a)"
  unfolding Disconnected_update_def call_GetSubCallIdList_def getConference_def
  by (rule safe_Refresh_bind, simp, intro safe)

lemma safe_case_single [safe]:
  "(\<And>b. safe0 A (m b)) \<Longrightarrow> safe0 A n \<Longrightarrow> safe0 A (case xs of [] \<Rightarrow> n | [b] \<Rightarrow> m b | b # c # ys \<Rightarrow> n)"
  by (simp split: list.split)

lemma safe_Disconnected_finish [safe]: "safe0 A (Disconnected_finish a l p q)"
  unfolding Disconnected_finish_def by (intro safe safe_SetTelConferenceState) simp

lemma safe_DisconnectedHandle_with [safe]:
  "(\<And>A c. safe0 A (deal c)) \<Longrightarrow> safe0 A (DisconnectedHandle_with deal info)"
  unfolding DisconnectedHandle_with_def
  apply (rule safe_reported_or_dialed, rule safe_case_option, intro safe)
  apply (rule safe_bind0, rule safe_Disconnected_update, simp)
  apply (intro safe; blast)
  done

lemma safe_ReportCallDisconnected_with [safe]:
  "(\<And>i. safe0 A (h i)) \<Longrightarrow> safe0 A (ReportCallDisconnected_with h c)"
  unfolding ReportCallDisconnected_with_def by (intro safe)

lemma safe_DisconnectedHandle [safe]: "safe0 A (DisconnectedHandle info)"
  unfolding DisconnectedHandle_def DisconnectedHandle_inner_def by (intro safe)

lemma safe_DealFailDial [safe]: "safe0 A (DealFailDial c)"
  unfolding DealFailDial_def ReportCallDisconnected_def by (intro safe)

lemma safe_RefreshOldCall: "safe0 A (RefreshOldCall info)"
  unfolding RefreshOldCall_def
  apply (rule safe_bind0, rule safe0_gets, rule safe_bind0, intro safe)
  apply (rule safe_reported, rule safe_case_option, intro safe)
  apply (rule safe_bind0, rule safe_getCall, rule safe_let, rule safe_let, rule safe_if)
   apply (rule safe_Refresh_bind, simp)
   apply (intro safe)+
  done

text \<open>
  \<open>IncomingCallBase\<close> makes a call ring whatever its reported state; it only runs after the state was
  set to incoming or waiting.
\<close>

lemma SetTelCallState_state: "cb_callState (snd (SetTelCallState now st c)) = st"
  by (cases st) (simp_all add: SetTelCallState_def state_change_defs Let_def)

lemma frames_keeps: "frames m \<Longrightarrow> (\<And>s t. same_calls_state s t \<Longrightarrow> P s = P t) \<Longrightarrow> keeps P m"
  unfolding frames_def keeps_def by blast

lemma UpdateCallState_state: "cb_callState (cm_heap (snd (run_state (UpdateCallState (Some a) st) s)) a) = st"
proof -
  let ?P = "\<lambda>s. cb_callState (cm_heap s a) = st"
  have set: "keeps ?P (call_SetTelCallState b st)" for b
    by (simp add: keeps_def call_SetTelCallState_def SetTelCallState_state)
  have "keeps ?P (UpdateOneCallObjectByCallId i st)" for i
    unfolding UpdateOneCallObjectByCallId_def getCall_def by (intro hoare set)
  moreover have "keeps ?P (NotifyCallStateUpdated c p n)" for c p n
    by (rule frames_keeps) (auto intro: frame simp: same_calls_state_def)
  ultimately have k: "keeps ?P (do { UpdateOneCallObjectByCallId i st;
      if r \<noteq> TELEPHONY_SUCCESS \<and> r \<noteq> CALL_ERR_NOT_NEW_STATE then ret TELEPHONY_ERR_LOCAL_PTR_NULL
      else do { ok \<leftarrow> NotifyCallStateUpdated c p st;
        if \<not> ok then ret CALL_ERR_PHONE_CALLSTATE_NOTIFY_FAILED else ret TELEPHONY_SUCCESS } })" for i r c p
    by (intro hoare)
  have v: "valid (\<lambda>_. True) (call_SetTelCallState a st) (\<lambda>_. ?P)"
    by (simp add: valid_def call_SetTelCallState_def SetTelCallState_state)
  have "valid (\<lambda>_. True) (UpdateCallState (Some a) st) (\<lambda>_. ?P)"
    unfolding UpdateCallState_def option.case Let_def
    apply (rule valid_bind [where Q = "\<lambda>_ _. True"], simp add: valid_def)
    apply (rule valid_bind, rule v)
    unfolding valid_keeps
    apply (rule k)
    done
  then show ?thesis by (simp add: valid_def)
qed

definition ringing_state :: "TelCallState \<Rightarrow> bool" where
  "ringing_state st \<longleftrightarrow> st = CALL_STATUS_INCOMING \<or> st = CALL_STATUS_WAITING"

lemma inv_Filter:
  assumes "inv A s" and "ringing_state (cb_callState (cm_heap s a))"
  shows "inv A (snd (run_state (FilterResultsDispose (Some a)) s))"
proof -
  have "safe0 A (do { updCall a (\<lambda>c. c\<lparr>cb_isApCauseReported := True\<rparr>); r \<leftarrow> CarrierHangUpCall a;
      if r \<noteq> TELEPHONY_SUCCESS then ret r else ret TELEPHONY_SUCCESS })"
    by (intro safe safe_updCall harmlessI) simp
  moreover have "safe0 A (do { ignore (NotifyNewCallCreated (Some a)); ret TELEPHONY_SUCCESS })"
    by (intro safe)
  moreover have "inv A (s\<lparr>cm_heap := (cm_heap s)(a := snd (IncomingCallBase (cm_heap s a)))\<rparr>)"
  proof (rule inv_set_call [OF assms(1)])
    have "call_ok (cm_heap s a)" using assms(1) by (simp add: inv_def)
    with assms(2) show "call_ok (snd (IncomingCallBase (cm_heap s a)))"
      by (auto simp: IncomingCallBase_def call_ok_def coherent_def conference_free_def ringing_state_def)
  qed (simp_all add: IncomingCallBase_def)
  ultimately show ?thesis
    using assms(1) by (cases "HasRingingMaximum s \<or> HasDialingMaximum s")
      (simp_all add: FilterResultsDispose_def safe_def)
qed

lemma safe_Finalize: "ringing_state st \<Longrightarrow> safe0 A (FinalizeIncomingState (Some a) st)"
proof (unfold safe_def, intro allI impI)
  fix s assume st: "ringing_state st" and i: "inv A s"
  obtain r t where rt: "run_state (UpdateCallState (Some a) st) s = (r, t)"
    by (cases "run_state (UpdateCallState (Some a) st) s")
  have "inv A t" using safe_UpdateCallState i rt unfolding safe_def by (metis snd_conv sup_bot_right)
  moreover have "cb_callState (cm_heap t a) = st" using UpdateCallState_state [of a st s] rt by simp
  ultimately show "inv (A \<union> {}) (snd (run_state (FinalizeIncomingState (Some a) st) s))"
    using inv_Filter st rt by (simp add: FinalizeIncomingState_def)
qed

lemma safe_HandleRejectCall [safe]: "safe0 A (HandleRejectCall c b)"
  unfolding HandleRejectCall_def by (intro safe)

lemma safe_IncomingHandle: "ringing_state (di_state info) \<Longrightarrow> safe0 A (IncomingHandle info)"
  unfolding IncomingHandle_def PrepareIncomingCall_def
  apply (rule safe_bind0, rule safe_RefreshOldCall, rule safe_case_prod, rule safe_if, rule safe0_return)
  apply (rule safe_Create_bind, rule safe_if, rule safe0_return)
  apply (rule safe_bind0, rule safe_AddCreated, simp, rule safe_if, (intro safe)[1])
  apply (intro safe, auto intro: safe_Finalize)
  done

lemma safe_HandleCallReportInfo [safe]: "safe0 A (HandleCallReportInfo info)"
  unfolding HandleCallReportInfo_def HandleCallReportInfoEx_def WaitingHandle_def
  by (cases "di_state info")
    (auto intro!: safe safe_IncomingHandle simp: ringing_state_def)

lemma safe_HandleCallsReportInfo [safe]: "safe0 A (HandleCallsReportInfo info)"
  unfolding HandleCallsReportInfo_def UpdateCallDetailsInfo_def by (intro safe)

lemma safe_HandleDisconnectedCause [safe]: "safe0 A (HandleDisconnectedCause d)"
  unfolding HandleDisconnectedCause_def by (intro safe)

lemma safe_HandleEventResult [safe]: "safe0 A (HandleEventResultReportInfo info)"
  unfolding HandleEventResultReportInfo_def
  by (intro safe) (auto intro!: safe split: CallAbilityEventId.split simp: Let_def)

lemma safe_report_handler [safe]:
  "safe0 A (UpdateCallReportInfo i)" "safe0 A (UpdateCallsReportInfo is)" "safe0 A (UpdateDisconnectedCause d)"
  "safe0 A (UpdateEventResultInfo e)"
  unfolding UpdateCallReportInfo_def UpdateCallsReportInfo_def UpdateDisconnectedCause_def UpdateEventResultInfo_def
    whenStatus_def
  by (intro safe)+

section \<open>Requests, control and service\<close>

lemma safe_requests [safe]:
  "safe0 A (AnswerRequest i v b)" "safe0 A (RejectRequest i b t)" "safe0 A (HangUpRequest i)"
  "safe0 A (HoldRequest i)" "safe0 A (UnHoldRequest i)" "safe0 A (SwitchRequest i)"
  unfolding AnswerRequest_def AnswerRequestForDsda_def call_AnswerCall_def RejectRequest_def HangUpRequest_def
    HoldRequest_def UnHoldRequest_def SwitchRequest_def with_call_def
  by (intro safe safe_updCall; (intro frames_safe frame)?;
      auto simp: harmless_def call_ok_def coherent_def conference_free_def SetPolicyFlag_def)+

lemma safe_emergency [safe]: "safe0 A (CheckNumberIsEmergency n i b)"
  unfolding CheckNumberIsEmergency_def by (intro frames_safe frame)

lemma safe_EccDialPolicy [safe]: "safe0 A EccDialPolicy"
  unfolding EccDialPolicy_def by (intro safe)

lemma safe_helper [safe]: "safe0 A SetDialingCallProcessing" "safe0 A IsDialingCallProcessing" "safe0 A (HasPendingMo i)"
    "safe0 A (HasPendingHangup i)"
  by (intro frames_safe frame)+

lemma safe_dial_parts [safe]:
  "safe0 A (modify (\<lambda>s. s\<lparr>cm_dialCallInfo := c\<rparr>))" "safe0 A (modify (\<lambda>s. s\<lparr>cm_isFirstDialCallAdded := b\<rparr>))"
  "safe0 A (modify (\<lambda>s. s\<lparr>cm_pendingHangupTaskId := w\<rparr>))" "safe0 A (PackageDialInformation p n e)"
  "safe0 A (modify (\<lambda>s. s\<lparr>cm_hasControl := b, cm_ready := b\<rparr>))" "safe0 A (modify (\<lambda>s. s\<lparr>cm_ready := b\<rparr>))"
  "safe0 A (modify (\<lambda>s. s\<lparr>cm_hasControl := b\<rparr>))"
  by (auto intro!: frames_safe frames_modify simp: same_calls_state_def PackageDialInformation_def)

lemma safe_DialRequest [safe]: "safe0 A DialRequest"
  unfolding DialRequest_def HandleDialRequest_def CarrierDialProcess_def HandleDialingInfo_def HandleEccCallForDsda_def
    dial_given_up_def Process_UpdateCallReportInfo_def HandleStartDial_def HandleDialFail_def
  by (intro safe)

lemma safe_whenHandler [safe]: "safe0 A m \<Longrightarrow> safe0 A (whenHandler m)"
  unfolding whenHandler_def by (intro safe)

lemma safe_post [safe]: "safe0 A (post t)"
  by (intro frames_safe frame)

lemma safe_DialCall [safe]: "safe0 A (DialCall n e)"
  unfolding DialCall_def Handler_DialCall_def by (intro safe)

lemma safe_AnswerCall [safe]: "safe0 A (AnswerCall i v b)"
  unfolding AnswerCall_def HandlerAnswerCall_def Handler_AnswerCall_def
  by (intro safe safe_updCall harmlessI; (intro frames_safe frame)?; simp)

lemma safe_control [safe]:
  "safe0 A (RejectCall i b t)" "safe0 A (HoldCall i)" "safe0 A (UnHoldCall i)" "safe0 A (SwitchCall i)"
  unfolding RejectCall_def HoldCall_def UnHoldCall_def SwitchCall_def Handler_RejectCall_def Handler_HoldCall_def
    Handler_UnHoldCall_def Handler_SwitchCall_def Let_def
  by (intro safe)+

lemma safe_HangUpCall [safe]: "safe0 A (HangUpCall i)"
  unfolding HangUpCall_def PostPendingHangupProtectTask_def Handler_HangUpCall_def
  by (intro safe; intro frames_safe frame)

lemma safe_EndCall [safe]: "safe0 A EndCall"
  unfolding EndCall_def by (intro safe)

lemma safe_EmergencyNumber [safe]: "safe0 A (IsEmergencyPhoneNumber n i b)"
  unfolding IsEmergencyPhoneNumber_def by (intro safe)

lemma safe_protect_task [safe]: "safe0 A (PendingHangupProtect_task i)"
  unfolding PendingHangupProtect_task_def by (intro safe)

end
