(* ===== verification/System.thy ===== *)
theory System
  imports Call_Invariant
begin

text \<open>
  The whole call manager: the tasks that the main loop runs, one turn of the loop on the shared
  state, the events of the world (calls of the service, reports of the stack, the timer, time, the
  products that register themselves) and the states that can be reached through them. Every entry
  runs on the loop task, so one event is one atomic step; the loop theory and the theory of
  synchronous calls show that the entries are serialised.
\<close>

section \<open>Tasks\<close>

definition tell_app :: "app_report \<Rightarrow> unit cmM" where
  "tell_app r = modify (\<lambda>s. s\<lparr>cm_appOut := cm_appOut s @ [r]\<rparr>)"

fun run_task :: "task \<Rightarrow> unit cmM" where
  "run_task (T_AnswerRequest callId videoState isRTT) = AnswerRequest callId videoState isRTT"
| "run_task (T_RejectRequest callId isSendSms content) = RejectRequest callId isSendSms content"
| "run_task (T_HangUpRequest callId) = HangUpRequest callId"
| "run_task (T_HoldRequest callId) = HoldRequest callId"
| "run_task (T_UnHoldRequest callId) = UnHoldRequest callId"
| "run_task (T_SwitchRequest callId) = SwitchRequest callId"
| "run_task T_RestoreDialingFlag = RestoreDialingFlag_task"
| "run_task (T_PendingHangupProtect callId) = PendingHangupProtect_task callId"
| "run_task (T_ReportCallState k info) = tell_app (OnCallDetailsChange k info)"
| "run_task (T_ReportCallEvent k info) = tell_app (OnCallEventChange k info)"
| "run_task (T_ReportDisconnectedCause k details) = tell_app (OnCallDisconnectedCause k details)"
| "run_task T_RegisterCallbackOnLoop = RegisterCallbackOnLoop"
| "run_task (T_UpdateCallReportInfo info) = ignore (Callback_UpdateCallReportInfo info)"
| "run_task (T_UpdateCallsReportInfo info) = ignore (Callback_UpdateCallsReportInfo info)"
| "run_task (T_UpdateDisconnectedCause details) = ignore (Callback_UpdateDisconnectedCause details)"
| "run_task (T_UpdateEventResultInfo info) = ignore (Callback_UpdateEventResultInfo info)"
| "run_task (T_UpdateRBTPlayInfo info) = ignore (Callback_UpdateRBTPlayInfo info)"

section \<open>The loop on the shared state\<close>

text \<open>
  \<open>Dispatch\<close> and one turn of \<open>RunLoop\<close>, for tasks that work on the whole state. The due tasks
  leave the table and the timer is armed anew before the first of them runs.
\<close>

definition dispatch :: "(task \<Rightarrow> unit cmM) \<Rightarrow> task LosEventMessage option \<Rightarrow> unit cmM" where
  "dispatch run message =
     (case message of
        None \<Rightarrow> ret ()
      | Some message \<Rightarrow> do {
          st \<leftarrow> gets (\<lambda>s. lh_state (cm_loop s));
          if st \<noteq> STATE_RUNNING then onLoop (Recycle message)
          else case message of
            TIMER_FIRE \<Rightarrow> do {
              onLoop (modify (\<lambda>h. h\<lparr>lh_timerMessageQueued := False\<rparr>));
              due \<leftarrow> gets (\<lambda>s. takeWhile (\<lambda>e. IsDue (dt_dueTick e) (lh_now (cm_loop s))) (lh_delayed (cm_loop s)));
              onLoop (RunDueTasks (\<lambda>_. ret ()));
              for_each due (\<lambda>e. run (dt_task e))
            }
          | SYNC_CALL context \<Rightarrow> do {
              task \<leftarrow> gets (\<lambda>s. sc_task (lh_contexts (cm_loop s) ! context));
              run task;
              onLoop (Complete context TELEPHONY_SUCCESS)
            }
          | ASYNC_TASK task \<Rightarrow> run task
        })"

definition loop_turn :: "(task \<Rightarrow> unit cmM) \<Rightarrow> unit cmM" where
  "loop_turn run = do {
     onLoop (modify (\<lambda>h. h\<lparr>lh_queueSem := lh_queueSem h - 1\<rparr>));
     message \<leftarrow> onLoop PopLocked;
     dispatch run message
   }"

text \<open>
  For tasks that only use the loop this is the turn of the loop theory, so what is proved there about
  its queue and its table holds of the loop in this state.
\<close>

lemma onLoop_bind: "onLoop (State_Monad.bind m f) = State_Monad.bind (onLoop m) (\<lambda>x. onLoop (f x))"
  by (rule state.expand) (simp add: onLoop_def fun_eq_iff case_prod_beta Let_def)

lemma onLoop_ret: "onLoop (ret x) = ret x"
  by (rule state.expand) (simp add: onLoop_def fun_eq_iff)

lemma onLoop_gets: "onLoop (gets f) = gets (\<lambda>s. f (cm_loop s))"
  by (rule state.expand) (simp add: onLoop_def fun_eq_iff)

lemma onLoop_for_each: "onLoop (for_each xs f) = for_each xs (\<lambda>x. onLoop (f x))"
  by (induction xs) (simp_all add: onLoop_bind onLoop_ret)

lemma for_each_nothing [simp]: "for_each xs (\<lambda>_. ret ()) = ret ()"
  by (induction xs) simp_all

lemma RunDueTasks_split:
  "RunDueTasks run = do {
     due \<leftarrow> gets (\<lambda>h. takeWhile (\<lambda>e. IsDue (dt_dueTick e) (lh_now h)) (lh_delayed h));
     RunDueTasks (\<lambda>_. ret ());
     for_each due (\<lambda>e. run (dt_task e))
   }"
  by (rule state.expand) (simp add: RunDueTasks_def fun_eq_iff case_prod_beta)

lemmas onLoop_simps = onLoop_bind onLoop_ret onLoop_gets onLoop_for_each

lemma onLoop_case_message:
  "onLoop (case m of None \<Rightarrow> a | Some x \<Rightarrow> b x) = (case m of None \<Rightarrow> onLoop a | Some x \<Rightarrow> onLoop (b x))"
  "onLoop (case x of ASYNC_TASK t \<Rightarrow> p t | SYNC_CALL c \<Rightarrow> q c | TIMER_FIRE \<Rightarrow> r) =
    (case x of ASYNC_TASK t \<Rightarrow> onLoop (p t) | SYNC_CALL c \<Rightarrow> onLoop (q c) | TIMER_FIRE \<Rightarrow> onLoop r)"
  "onLoop (if c then d else e) = (if c then onLoop d else onLoop e)"
  by (simp_all split: option.split LosEventMessage.split)

lemma dispatch_onLoop: "dispatch (\<lambda>t. onLoop (run t)) m = onLoop (Dispatch run m)"
  unfolding dispatch_def Dispatch_def RunDueTasks_split [of run]
  by (simp add: onLoop_simps onLoop_case_message cong: if_cong option.case_cong LosEventMessage.case_cong)

lemma loop_turn_onLoop:
  "ignore (onLoop (RunLoop_turn run)) = loop_turn (\<lambda>t. onLoop (run t))"
  by (simp add: loop_turn_def RunLoop_turn_def dispatch_onLoop onLoop_simps ignore_def)
    (rule state.expand, simp add: fun_eq_iff case_prod_beta)

section \<open>Start and stop\<close>

text \<open>
  \<open>Stop\<close> asks the loop task to leave; the task drains its queue on the way out. The outcomes of the
  bounded waits are arguments, as in the loop theory.
\<close>

definition loop_stop :: "bool \<Rightarrow> bool \<Rightarrow> unit cmM" where
  "loop_stop loopExits quiescent = do {
     stopping \<leftarrow> onLoop (Stop_begin False);
     whenM stopping (do {
       whenM loopExits (onLoop RunLoop_exit);
       onLoop (Stop_end loopExits quiescent)
     })
   }"

text \<open>\<open>posted\<close> is what the synchronous call answered; the service ran when it is a success.\<close>

definition CallManagerServiceMiniStart :: "bool \<Rightarrow> bool \<Rightarrow> ErrCode \<Rightarrow> bool \<Rightarrow> bool \<Rightarrow> ErrCode cmM" where
  "CallManagerServiceMiniStart objectsOk taskOk posted loopExits quiescent = do {
     st \<leftarrow> gets (\<lambda>s. lh_state (cm_loop s));
     r \<leftarrow> (if st \<noteq> STATE_RUNNING then onLoop (Init objectsOk taskOk DefaultConfig) else ret TELEPHONY_SUCCESS);
     if r \<noteq> TELEPHONY_SUCCESS then ret r
     else do {
       result \<leftarrow> (if posted = TELEPHONY_SUCCESS then Service_Init else ret TELEPHONY_ERR_FAIL);
       if posted \<noteq> TELEPHONY_SUCCESS \<or> result \<noteq> TELEPHONY_SUCCESS then do {
         loop_stop loopExits quiescent;
         ret (if posted \<noteq> TELEPHONY_SUCCESS then posted else result)
       }
       else ret TELEPHONY_SUCCESS
     }
   }"

definition CallManagerServiceMiniStop :: "TrustModel \<Rightarrow> ErrCode \<Rightarrow> bool \<Rightarrow> bool \<Rightarrow> unit cmM" where
  "CallManagerServiceMiniStop tm posted loopExits quiescent = do {
     st \<leftarrow> gets (\<lambda>s. lh_state (cm_loop s));
     if st \<noteq> STATE_RUNNING then ret ()
     else do {
       whenM (posted = TELEPHONY_SUCCESS) (Service_UnInit tm);
       loop_stop loopExits quiescent
     }
   }"

section \<open>Events\<close>

datatype event =
    E_Start bool bool ErrCode bool bool
  | E_Stop TrustModel ErrCode bool bool
  | E_Init
  | E_UnInit TrustModel
  | E_RegisterCallBack TrustModel "nat option"
  | E_UnRegisterCallBack TrustModel
  | E_CloseCallBack "nat option"
  | E_ObserverOnCallDetailsChange TrustModel
  | E_DialCall TrustModel u16string PacMap
  | E_AnswerCall TrustModel int int bool
  | E_RejectCall TrustModel int bool u16string
  | E_HangUpCall TrustModel int
  | E_HoldCall TrustModel int
  | E_UnHoldCall TrustModel int
  | E_SwitchCall TrustModel int
  | E_IsEmergencyPhoneNumber u16string int bool
  | E_EndCall TrustModel
  | E_AnswerCall_device TrustModel
  | E_RejectCall_device TrustModel
  | E_HangUpCall_device TrustModel
  | E_CallReport CallReportInfo
  | E_CallsReport CallsReportInfo
  | E_DisconnectedCause DisconnectedDetails
  | E_EventResult CellularCallEventInfo
  | E_RBTPlay RBTPlayInfo
  | E_LoopTurn
  | E_TimerExpired
  | E_Time int "32 word"
  | E_Stack bool
  | E_World env

text \<open>
  \<open>E_World\<close>: the products change what they answer; whether a stack is registered changes with
  \<open>E_Stack\<close> only. The timer expires only when it is armed.
\<close>

fun handle :: "event \<Rightarrow> unit cmM" where
  "handle (E_Start objectsOk taskOk posted loopExits quiescent) =
     ignore (CallManagerServiceMiniStart objectsOk taskOk posted loopExits quiescent)"
| "handle (E_Stop tm posted loopExits quiescent) = CallManagerServiceMiniStop tm posted loopExits quiescent"
| "handle E_Init = ignore Service_Init"
| "handle (E_UnInit tm) = Service_UnInit tm"
| "handle (E_RegisterCallBack tm callback) = ignore (Service_RegisterCallBack tm callback)"
| "handle (E_UnRegisterCallBack tm) = ignore (Service_UnRegisterCallBack tm)"
| "handle (E_CloseCallBack callback) = ignore (Report_UnRegisterCallBack_ptr callback)"
| "handle (E_ObserverOnCallDetailsChange tm) = ignore (Service_ObserverOnCallDetailsChange tm)"
| "handle (E_DialCall tm number extras) = ignore (Service_DialCall tm number extras)"
| "handle (E_AnswerCall tm callId videoState isRTT) = ignore (Service_AnswerCall tm callId videoState isRTT)"
| "handle (E_RejectCall tm callId withMessage text) = ignore (Service_RejectCall tm callId withMessage text)"
| "handle (E_HangUpCall tm callId) = ignore (Service_HangUpCall tm callId)"
| "handle (E_HoldCall tm callId) = ignore (Service_HoldCall tm callId)"
| "handle (E_UnHoldCall tm callId) = ignore (Service_UnHoldCall tm callId)"
| "handle (E_SwitchCall tm callId) = ignore (Service_SwitchCall tm callId)"
| "handle (E_IsEmergencyPhoneNumber number slotId enabled) =
     ignore (Service_IsEmergencyPhoneNumber number slotId enabled)"
| "handle (E_EndCall tm) = ignore (Service_EndCall tm)"
| "handle (E_AnswerCall_device tm) = ignore (Service_AnswerCall_device tm)"
| "handle (E_RejectCall_device tm) = ignore (Service_RejectCall_device tm)"
| "handle (E_HangUpCall_device tm) = ignore (Service_HangUpCall_device tm)"
| "handle (E_CallReport info) = ignore (Guard_UpdateCallReportInfo info)"
| "handle (E_CallsReport info) = ignore (Guard_UpdateCallsReportInfo info)"
| "handle (E_DisconnectedCause details) = ignore (Guard_UpdateDisconnectedCause details)"
| "handle (E_EventResult info) = ignore (Guard_UpdateEventResultInfo info)"
| "handle (E_RBTPlay info) = ignore (Guard_UpdateRBTPlayInfo info)"
| "handle E_LoopTurn = loop_turn run_task"
| "handle E_TimerExpired = do {
     armed \<leftarrow> gets (\<lambda>s. lh_timer (cm_loop s) \<noteq> None);
     whenM armed (onLoop TimerExpired)
   }"
| "handle (E_Time seconds ticks) = do {
     modify (\<lambda>s. s\<lparr>cm_now := cm_now s + seconds\<rparr>);
     onLoop (modify (\<lambda>h. h\<lparr>lh_now := lh_now h + ticks\<rparr>))
   }"
| "handle (E_Stack present) = Registry_Register present"
| "handle (E_World e) = modify (\<lambda>s. s\<lparr>cm_env := e\<lparr>e_hasStack := e_hasStack (cm_env s)\<rparr>\<rparr>)"

section \<open>The states that can be reached\<close>

definition loop_init :: "nat \<Rightarrow> task LosEventHandler" where
  "loop_init tickFreq =
    \<lparr>lh_config = DefaultConfig, lh_state = STATE_UNINIT, lh_ring = [], lh_ringHead = 0, lh_ringCount = 0,
     lh_queueSem = 0, lh_posted = [], lh_delayed = [], lh_lastTaskId = 0, lh_timer = None,
     lh_timerMessageQueued = False, lh_waiterSems = [], lh_waiterInUse = [], lh_contexts = [], lh_now = 0,
     lh_tickFreq = tickFreq\<rparr>"

text \<open>What the statics and the members of the singletons start with.\<close>

definition cm_init :: "env \<Rightarrow> nat \<Rightarrow> cm" where
  "cm_init e tickFreq =
    \<lparr>cm_env = e, cm_now = 0, cm_heap = (\<lambda>_. CarrierCall_in CSCall DialParaInfo_default), cm_nextAddr = 0,
     cm_callList = [], cm_callId = 0, cm_isFirstDialCallAdded = False, cm_needWaitHold = False,
     cm_dialCallInfo = CellularCallInfo_default, cm_csConference = CsConference_init,
     cm_imsConference = ImsConference_init, cm_helper = helper_init, cm_dialSrcInfo = DialParaInfo_default,
     cm_extras = PacMap_empty, cm_listener = None, cm_requestHandler = False, cm_pendingHangupTaskId = 0,
     cm_status = None, cm_audio = audio_init, cm_callback = None,
     cm_connection = \<lparr>cn_initialized = False, cn_callbackRegistered = False, cn_hasCallback = False,
       cn_listening = False\<rparr>,
     cm_ready = False, cm_hasControl = False, cm_loop = loop_init tickFreq, cm_stackOut = [], cm_audioOut = [],
     cm_appOut = []\<rparr>"

inductive cm_step :: "cm \<Rightarrow> event \<Rightarrow> cm \<Rightarrow> bool" where
  event: "t = snd (run_state (handle e) s) \<Longrightarrow> cm_step s e t"

inductive cm_reach :: "env \<Rightarrow> nat \<Rightarrow> cm \<Rightarrow> bool" for e tickFreq where
  start: "cm_reach e tickFreq (cm_init e tickFreq)"
| step: "cm_reach e tickFreq s \<Longrightarrow> cm_step s ev t \<Longrightarrow> cm_reach e tickFreq t"

inductive_simps cm_step_simps: "cm_step s e t"

text \<open>A run of events, for concrete examples.\<close>

definition after :: "env \<Rightarrow> nat \<Rightarrow> event list \<Rightarrow> cm" where
  "after e tickFreq evs = snd (run_state (for_each evs handle) (cm_init e tickFreq))"

lemma reach_run: "cm_reach e k s \<Longrightarrow> cm_reach e k (snd (run_state (for_each evs handle) s))"
proof (induction evs arbitrary: s)
  case (Cons ev evs)
  have "cm_reach e k (snd (run_state (handle ev) s))"
    using Cons.prems by (rule cm_reach.step) (simp add: cm_step_simps)
  from Cons.IH [OF this] show ?case by (simp add: case_prod_beta)
qed simp

lemma reach_after: "cm_reach e k (after e k evs)"
  unfolding after_def by (intro reach_run cm_reach.start)

end
