(* ===== verification/Reachable.thy ===== *)
theory Reachable
  imports System
begin

text \<open>
  Every event keeps the invariant of the call table, so it holds in every state that can be reached,
  from any world and over any sequence of events.
\<close>

section \<open>Operations outside the table\<close>

lemma frames_env [frame]: "frames (modify (\<lambda>s. s\<lparr>cm_env := f s\<rparr>))" "frames (modify (\<lambda>s. s\<lparr>cm_now := g s\<rparr>))"
  "frames (modify (\<lambda>s. s\<lparr>cm_status := k s\<rparr>))" "frames (modify (\<lambda>s. s\<lparr>cm_listener := l s\<rparr>))"
  "frames (modify (\<lambda>s. s\<lparr>cm_listener := l s, cm_requestHandler := b\<rparr>))"
  "frames (modify (\<lambda>s. s\<lparr>cm_hasControl := b, cm_ready := c\<rparr>))" "frames (modify (\<lambda>s. s\<lparr>cm_ready := c\<rparr>))"
  "frames (modify (\<lambda>s. s\<lparr>cm_hasControl := b\<rparr>))" "frames (tell_app r)"
  by (simp_all add: frames_def same_calls_state_def tell_app_def)

lemma frames_life [frame]:
  "frames (Registry_Register p)" "frames Control_Init" "frames Control_UnInit" "frames ReportHandler_Init"
  "frames ReportHandler_UnInit" "frames (loop_stop a b)" "frames Service_Init"
  unfolding Registry_Register_def Control_Init_def Control_UnInit_def ReportHandler_Init_def ReportHandler_UnInit_def
    loop_stop_def Service_Init_def
  by (intro frame)+

lemma frames_start [frame]: "frames (CallManagerServiceMiniStart a b r c d)"
  unfolding CallManagerServiceMiniStart_def by (intro frame)

lemma frames_guard [frame]:
  "frames (Guard_UpdateCallReportInfo i)" "frames (Guard_UpdateCallsReportInfo is)"
  "frames (Guard_UpdateDisconnectedCause d)" "frames (Guard_UpdateEventResultInfo e)" "frames (Guard_UpdateRBTPlayInfo r)"
  unfolding Guard_UpdateCallReportInfo_def Guard_UpdateCallsReportInfo_def Guard_UpdateDisconnectedCause_def
    Guard_UpdateEventResultInfo_def Guard_UpdateRBTPlayInfo_def PostToLoop_def
  by (intro frame)+

lemma frames_facade [frame]:
  "frames (Service_RegisterCallBack tm k)" "frames (Service_UnRegisterCallBack tm)"
  "frames (Service_ObserverOnCallDetailsChange tm)"
  unfolding Service_RegisterCallBack_def Service_UnRegisterCallBack_def Service_ObserverOnCallDetailsChange_def
  by (intro frame)+

section \<open>Tasks, entry points and events\<close>

lemma safe_callback [safe]:
  "safe0 A (Callback_UpdateCallReportInfo i)" "safe0 A (Callback_UpdateCallsReportInfo is)"
  "safe0 A (Callback_UpdateDisconnectedCause d)" "safe0 A (Callback_UpdateEventResultInfo e)"
  "safe0 A (Callback_UpdateRBTPlayInfo r)"
  unfolding Callback_UpdateCallReportInfo_def Callback_UpdateCallsReportInfo_def Callback_UpdateDisconnectedCause_def
    Callback_UpdateEventResultInfo_def Callback_UpdateRBTPlayInfo_def
  by (intro safe frames_safe frames_report)+

lemma safe_run_task [safe]: "safe0 A (run_task t)"
  by (cases t) (simp_all add: safe frames_safe frame)

lemma safe_loop_turn [safe]: "(\<And>t. safe0 A (run t)) \<Longrightarrow> safe0 A (loop_turn run)"
proof -
  assume run: "\<And>t. safe0 A (run t)"
  have loop: "safe0 A (onLoop m)" for m :: "(task LosEventHandler, 'a) state"
    by (intro frames_safe frame)
  have loop_u: "safe0 A (onLoop m)" for m :: "(task LosEventHandler, unit) state"
    by (intro frames_safe frame)
  have pop: "safe0 A (onLoop PopLocked)"
    by (intro frames_safe frame)
  have "safe0 A (dispatch run m)" for m
    unfolding dispatch_def
    by (cases m; simp split: LosEventMessage.split; intro allI conjI impI safe run loop_u)
  then show ?thesis
    unfolding loop_turn_def by (intro safe loop_u pop)
qed

lemma safe_whenControl [safe]: "safe0 A m \<Longrightarrow> safe0 A (whenControl m)"
  unfolding whenControl_def by (intro safe)

lemma safe_service [safe]:
  "safe0 A (Service_DialCall tm n e)" "safe0 A (Service_AnswerCall tm i v b)" "safe0 A (Service_RejectCall tm i b t)"
  "safe0 A (Service_HangUpCall tm i)" "safe0 A (Service_HoldCall tm i)" "safe0 A (Service_UnHoldCall tm i)"
  "safe0 A (Service_SwitchCall tm i)" "safe0 A (Service_IsEmergencyPhoneNumber n i b)" "safe0 A (Service_EndCall tm)"
  "safe0 A (Service_AnswerCall_device tm)" "safe0 A (Service_RejectCall_device tm)"
  "safe0 A (Service_HangUpCall_device tm)"
  unfolding Service_DialCall_def Service_AnswerCall_def Service_RejectCall_def Service_HangUpCall_def Service_HoldCall_def
    Service_UnHoldCall_def Service_SwitchCall_def Service_IsEmergencyPhoneNumber_def Service_EndCall_def
    Service_AnswerCall_device_def Service_RejectCall_device_def Service_HangUpCall_device_def
  by (intro safe)+

lemma safe_UnInit [safe]: "safe0 A (Service_UnInit tm)"
proof -
  have "safe0 A (modify (\<lambda>s. s\<lparr>cm_ready := b\<rparr>))" "safe0 A (modify (\<lambda>s. s\<lparr>cm_hasControl := b\<rparr>))" for b
    by (intro frames_safe frame)+
  moreover have "safe0 A Conn_UnInit" "safe0 A ReportHandler_UnInit" "safe0 A Control_UnInit"
      "safe0 A (Report_UnRegisterCallBack n)" for n
    by (intro frames_safe frame)+
  ultimately show ?thesis
    unfolding Service_UnInit_def by (intro safe)
qed

lemma safe_stop [safe]: "safe0 A (CallManagerServiceMiniStop tm r a b)"
  unfolding CallManagerServiceMiniStop_def by (intro safe) (intro frames_safe frame)

lemma safe_handle: "safe0 A (handle ev)"
  by (cases ev; simp only: handle.simps; (intro safe; fail)?; intro safe frames_safe frame)

section \<open>Reachable states\<close>

lemma inv_init: "inv {} (cm_init e k)"
  by (simp add: inv_def cm_init_def table_ok_def calls_def CarrierCall_in_def CarrierCall_new_ok
    ims_idle_def ImsConference_init_def ConferenceBase_init_def)

lemma reach_inv: "cm_reach e k s \<Longrightarrow> inv {} s"
proof (induction rule: cm_reach.induct)
  case (step s ev t)
  with safe_handle [of "{}" ev] show ?case by (auto simp: cm_step_simps safe_def)
qed (rule inv_init)

end
