(* ===== verification/Onward.thy ===== *)
theory Onward
  imports Reachable "HOL-Library.Sublist"
begin

text \<open>
  What never goes back, whatever the call manager does. \<open>onward\<close> orders states: commands that were sent to
  the stack or to the audio implementation, and reports that were delivered, stay in their histories;
  addresses of calls are not given out again; a registered application callback is only ever
  dropped, except by a registration. \<open>feeds\<close> orders them by the queue of
  the main loop: a task may add messages to it, and takes none away.

  Both are instances of the locale \<open>progress\<close>: an order that everything outside the loop that is \<open>onward\<close>
  respects, and with it the posting and the removal of a task. \<open>along R m\<close> says that the operation \<open>m\<close> follows
  the order; the locale proves it once for every operation of the call manager (collection \<open>along\<close>).
\<close>

named_theorems along \<open>introduction rules for operations that follow an order\<close>

section \<open>Orders\<close>

definition onward :: "cm \<Rightarrow> cm \<Rightarrow> bool" where
  "onward s t \<longleftrightarrow> prefix (cm_stackOut s) (cm_stackOut t) \<and> prefix (cm_audioOut s) (cm_audioOut t) \<and>
     prefix (cm_appOut s) (cm_appOut t) \<and> cm_nextAddr s \<le> cm_nextAddr t \<and>
     (cm_callback t = cm_callback s \<or> cm_callback t = None)"

definition along :: "(cm \<Rightarrow> cm \<Rightarrow> bool) \<Rightarrow> 'a cmM \<Rightarrow> bool" where
  "along R m \<longleftrightarrow> (\<forall>s. R s (snd (run_state m s)))"

lemma alongD: "along R m \<Longrightarrow> R s (snd (run_state m s))"
  by (simp add: along_def)

locale progress =
  fixes R :: "cm \<Rightarrow> cm \<Rightarrow> bool"
  assumes outside: "cm_loop t = cm_loop s \<Longrightarrow> onward s t \<Longrightarrow> R s t"
    and trans: "R s t \<Longrightarrow> R t u \<Longrightarrow> R s u"
    and posting: "along R (onLoop (PostAsyncTask task delay))"
    and removing: "along R (onLoop (RemoveAsyncTask i))"
begin

lemma refl: "R s s"
  by (rule outside) (simp_all add: onward_def)

text \<open>Combinators\<close>

lemma along_bind [along]: "along R m \<Longrightarrow> (\<And>x. along R (f x)) \<Longrightarrow> along R (State_Monad.bind m f)"
  by (auto simp: along_def split: prod.splits) (metis trans snd_conv)

lemma along_basic [along]: "along R (ret x)" "along R (gets f)"
  by (simp_all add: along_def refl)

lemma along_control [along]:
  "along R m \<Longrightarrow> along R (whenM b m)"
  "along R m' \<Longrightarrow> along R (ignore m')"
  "along R f \<Longrightarrow> along R n \<Longrightarrow> along R (if b then f else n)"
  by (simp_all add: along_def refl)

lemma along_let [along]: "(\<And>x. along R (f x)) \<Longrightarrow> along R (let x = t in f x)"
  by (simp add: Let_def)

lemma along_case_option [along]: "along R n \<Longrightarrow> (\<And>x. along R (f x)) \<Longrightarrow> along R (case v of None \<Rightarrow> n | Some x \<Rightarrow> f x)"
  by (cases v) simp_all

lemma along_case_prod [along]: "(\<And>x y. along R (g x y)) \<Longrightarrow> along R (case p of (x, y) \<Rightarrow> g x y)"
  by (cases p) simp

lemma along_case_class [along]: "along R m \<Longrightarrow> along R n \<Longrightarrow> along R (case k of CSCall \<Rightarrow> m | IMSCall \<Rightarrow> n)"
  by (cases k) simp_all

lemma along_case_observer [along]:
  "along R m \<Longrightarrow> along R n \<Longrightarrow> along R (case ob of CallAbilityReportProxy \<Rightarrow> m | AudioControlManager \<Rightarrow> n)"
  by (cases ob) simp_all

lemma along_case_single [along]:
  "(\<And>b. along R (m b)) \<Longrightarrow> along R n \<Longrightarrow> along R (case xs of [] \<Rightarrow> n | [b] \<Rightarrow> m b | b # c # ys \<Rightarrow> n)"
  by (simp split: list.split)

lemma along_for_each [along]: "(\<And>x. along R (f x)) \<Longrightarrow> along R (for_each xs f)"
  by (induction xs) (auto intro!: along)

lemma along_modify [along]:
  "along R (modify (\<lambda>s. s\<lparr>cm_env := k1 s\<rparr>))"
  "along R (modify (\<lambda>s. s\<lparr>cm_now := k2 s\<rparr>))"
  "along R (modify (\<lambda>s. s\<lparr>cm_callList := k3 s\<rparr>))"
  "along R (modify (\<lambda>s. s\<lparr>cm_callId := k4 s\<rparr>))"
  "along R (modify (\<lambda>s. s\<lparr>cm_isFirstDialCallAdded := k5 s\<rparr>))"
  "along R (modify (\<lambda>s. s\<lparr>cm_needWaitHold := False\<rparr>))"
  "along R (modify (\<lambda>s. s\<lparr>cm_dialCallInfo := k7 s\<rparr>))"
  "along R (modify (\<lambda>s. s\<lparr>cm_listener := k8 s\<rparr>))"
  "along R (modify (\<lambda>s. s\<lparr>cm_listener := k8 s, cm_requestHandler := k9 s\<rparr>))"
  "along R (modify (\<lambda>s. s\<lparr>cm_pendingHangupTaskId := k10 s\<rparr>))"
  "along R (modify (\<lambda>s. s\<lparr>cm_status := k11 s\<rparr>))"
  "along R (modify (\<lambda>s. s\<lparr>cm_audio := k12 s\<rparr>))"
  "along R (modify (\<lambda>s. s\<lparr>cm_connection := k13 s\<rparr>))"
  "along R (modify (\<lambda>s. s\<lparr>cm_ready := k14 s\<rparr>))"
  "along R (modify (\<lambda>s. s\<lparr>cm_hasControl := k15 s\<rparr>))"
  "along R (modify (\<lambda>s. s\<lparr>cm_hasControl := k15 s, cm_ready := k14 s\<rparr>))"
  "along R (modify (\<lambda>s. s\<lparr>cm_dialSrcInfo := k18 s, cm_extras := k19 s\<rparr>))"
  "along R (modify (\<lambda>s. s\<lparr>cm_callback := None\<rparr>))"
  "along R (modify (\<lambda>s. s\<lparr>cm_stackOut := cm_stackOut s @ x1\<rparr>))"
  "along R (modify (\<lambda>s. s\<lparr>cm_audioOut := cm_audioOut s @ x2\<rparr>))"
  "along R (modify (\<lambda>s. s\<lparr>cm_appOut := cm_appOut s @ x3\<rparr>))"
  "along R (modify (\<lambda>s. case k of CSCall \<Rightarrow> s\<lparr>cm_csConference := k16 s\<rparr> | IMSCall \<Rightarrow> s\<lparr>cm_imsConference := k17 s\<rparr>))"
  by (auto simp: along_def onward_def split: CallClass.split intro!: outside)

lemma along_parts [along]:
  "along R (getCall a)" "along R (updCall a f)" "along R (onCall a g)" "along R (newCall c)" "along R (call_SetTelCallState a st)"
  "along R (onHelper h)"
  unfolding call_SetTelCallState_def by (auto simp: along_def onward_def intro!: outside)

lemma along_tasks [along]:
  "along R (onLoop (PostAsyncTask task delay))" "along R (onLoop (RemoveAsyncTask i))" "along R (post task)"
  unfolding post_def by (rule posting) (rule removing, intro along posting)

text \<open>Operations\<close>

lemma along_stack [along]:
  "along R (stack_call a)" "along R (Conn_Dial b)" "along R (Conn_HangUp b c)" "along R (Conn_Reject b)"
  "along R (Conn_Answer b)" "along R (Conn_HoldCall b)" "along R (Conn_UnHoldCall b)"
  "along R (Conn_SwitchCall b)" "along R Conn_HangUpAllConnection" "along R (Conn_IsEmergencyPhoneNumber d e f)"
  "along R (onConnection g)" "along R OnStackReady" "along R AddReadyListener" "along R RemoveReadyListener"
  "along R (Registry_Register f)" "along R Conn_Init" "along R Conn_UnInit" "along R RegisterCallbackOnLoop"
  unfolding stack_call_def Conn_Dial_def Conn_HangUp_def Conn_Reject_def Conn_Answer_def Conn_HoldCall_def
    Conn_UnHoldCall_def Conn_SwitchCall_def Conn_HangUpAllConnection_def Conn_IsEmergencyPhoneNumber_def
    onConnection_def OnStackReady_def AddReadyListener_def RemoveReadyListener_def Registry_Register_def
    Conn_Init_def Conn_UnInit_def RegisterCallbackOnLoop_def
  by (intro along)+

lemma along_carrier [along]:
  "along R (packed a)" "along R (CarrierAnswerCall a b c)" "along R (CarrierRejectCall a)"
  "along R (CarrierHangUpCall a)" "along R (CarrierHoldCall a)" "along R (CarrierUnHoldCall a)"
  "along R (CarrierSwitchCall a)" "along R (CarrierDialingProcess a)" "along R (call_AnswerCall a b c)"
  "along R (getConference d)" "along R (onConference d e)" "along R (SetTelConferenceState a f)"
  unfolding packed_def CarrierAnswerCall_def CarrierRejectCall_def CarrierHangUpCall_def CarrierHoldCall_def
    CarrierUnHoldCall_def CarrierSwitchCall_def CarrierDialingProcess_def call_AnswerCall_def
    getConference_def onConference_def SetTelConferenceState_def
  by (intro along)+

lemma along_conference [along]:
  "along R (CSCall_LaunchConference a)" "along R (IMSCall_LaunchConference a)" "along R (call_LaunchConference a)"
  "along R (CSCall_ExitConference a)" "along R (IMSCall_ExitConference a)" "along R (call_ExitConference a)"
  "along R (CSCall_HoldConference a)" "along R (IMSCall_HoldConference a)" "along R (call_HoldConference a)"
  "along R (call_HandleCombineConferenceFailEvent a)" "along R (CSCall_UpdateConferenceId b)"
  unfolding CSCall_LaunchConference_def IMSCall_LaunchConference_def call_LaunchConference_def
    CSCall_ExitConference_def IMSCall_ExitConference_def call_ExitConference_def CSCall_HoldConference_def
    IMSCall_HoldConference_def call_HoldConference_def call_HandleCombineConferenceFailEvent_def
    CSCall_UpdateConferenceId_def
  by (intro along)+

lemma along_table [along]:
  "along R (AddOneCallObject a)" "along R (DeleteOneCallObject b)" "along R (DeleteOneCallObject_ptr a)"
  "along R GetNewCallId" "along R (UpdateOneCallObjectByCallId b c)"
  unfolding AddOneCallObject_def DeleteOneCallObject_def DeleteOneCallObject_ptr_def GetNewCallId_def
    UpdateOneCallObjectByCallId_def
  by (intro along)+

lemma along_audio [along]:
  "along R (onAudio a)" "along R Unavailable" "along R (audio_call b)" "along R StartRingtone"
  "along R StopRingtone" "along R PlayWaitingTone" "along R StopWaitingTone" "along R (SetCallAudioActive c)"
  "along R ReleaseAll" "along R Audio_Init" "along R Audio_UnInit" "along R (Audio_CallStateUpdated d e)"
  "along R Audio_IncomingCallHungUp"
  unfolding onAudio_def Unavailable_def audio_call_def StartRingtone_def StopRingtone_def PlayWaitingTone_def
    StopWaitingTone_def SetCallAudioActive_def ReleaseAll_def Audio_Init_def Audio_UnInit_def
    Audio_CallStateUpdated_def Audio_IncomingCallHungUp_def
  by (intro along)+

lemma along_report [along]:
  "along R (Report_UnRegisterCallBack a)" "along R (Report_UnRegisterCallBack_ptr b)"
  "along R (ReportCallStateInfo c)" "along R (ReportCallStateInfo_bundle c a)" "along R (ReportCallEvent d)"
  "along R (Report_CallStateUpdated b e)" "along R (Report_CallEventUpdated d)" "along R (Report_CallDestroyed f)"
  unfolding Report_UnRegisterCallBack_def Report_UnRegisterCallBack_ptr_def ReportCallStateInfo_def
    ReportCallStateInfo_bundle_def ReportCallEvent_def Report_CallStateUpdated_def
    Report_CallEventUpdated_def Report_CallDestroyed_def
  by (intro along)+

lemma along_to_observers [along]: "(\<And>ob. along R (f ob)) \<Longrightarrow> along R (to_observers f)"
  unfolding to_observers_def by (intro along; assumption)

lemma along_listener [along]:
  "along R (Listener_NewCallCreated a)" "along R (Listener_IncomingCallActivated a)"
  "along R (Listener_CallDestroyed b)" "along R (Listener_CallStateUpdated a c d)"
  "along R (Listener_IncomingCallHungUp a)" "along R (Listener_CallEventUpdated e)"
  unfolding Listener_NewCallCreated_def Listener_IncomingCallActivated_def Listener_CallDestroyed_def
    Listener_CallStateUpdated_def Listener_IncomingCallHungUp_def Listener_CallEventUpdated_def
  by (intro along)+

lemma along_helper [along]:
  "along R IsDialingCallProcessing" "along R (RestoreDialingFlag a)" "along R RemoveEventHandlerTask"
  "along R SetDialingCallProcessing" "along R RestoreDialingFlag_task" "along R (SetPendingMo a b)"
  "along R (HasPendingMo b)" "along R IsPendingHangup" "along R GetPendingHangupCallId"
  "along R (SetPendingHangup a b)" "along R (HasPendingHangup b)"
  unfolding IsDialingCallProcessing_def RestoreDialingFlag_def RemoveEventHandlerTask_def
    SetDialingCallProcessing_def RestoreDialingFlag_task_def SetPendingMo_def HasPendingMo_def
    IsPendingHangup_def GetPendingHangupCallId_def SetPendingHangup_def HasPendingHangup_def
  by (intro along)+

lemma along_notify [along]:
  "along R (NotifyNewCallCreated a)" "along R (NotifyCallDestroyed b)" "along R (NotifyCallStateUpdated a c d)"
  "along R (NotifyIncomingCallAnswered a)" "along R (NotifyIncomingCallRejected a e f)"
  "along R (NotifyCallEventUpdated g)" "along R GetDialParaInfo" "along R GetDialParaInfo_extras"
  "along R RemovePendingHangupProtectTask"
  unfolding NotifyNewCallCreated_def NotifyCallDestroyed_def NotifyCallStateUpdated_def
    NotifyIncomingCallAnswered_def NotifyIncomingCallRejected_def NotifyCallEventUpdated_def
    GetDialParaInfo_def GetDialParaInfo_extras_def RemovePendingHangupProtectTask_def
  by (intro along)+

lemma along_wait [along]: "along R (SetNeedWaitHold False)"
  unfolding SetNeedWaitHold_def by (intro along)

lemma along_calls [along]:
  "along R getStatus" "along R (onStatus a)" "along R (UpdateCallState b c)" "along R (ClearPendingState d)"
  "along R (SetOriginalCallTypeForActiveState d)" "along R (SetOriginalCallTypeForDisconnectState d)"
  "along R (RefreshCallDisconnectReason d e f)" "along R (PackParaInfo g h)"
  unfolding getStatus_def onStatus_def UpdateCallState_def ClearPendingState_def
    SetOriginalCallTypeForActiveState_def SetOriginalCallTypeForDisconnectState_def
    RefreshCallDisconnectReason_def PackParaInfo_def
  by (intro along)+

lemma along_create [along]:
  "along R (CreateNewCall a b)" "along R (RefreshCall_fill c d e a)"
  unfolding CreateNewCall_def RefreshCall_fill_def
  by (intro along)+

lemma along_refresh [along]:
  "along R (RefreshCall a b)"
  unfolding RefreshCall_def
  by (intro along)+

lemma along_reported [along]:
  "along R (RefreshCallIfNecessary a b)" "along R (reported_call b)"
  unfolding RefreshCallIfNecessary_def reported_call_def
  by (intro along)+

lemma along_dialing [along]:
  "along R (UpdateDialingCallInfo a)" "along R (UpdateDialingHandle a)" "along R (DialingHandle_new a)"
  "along R (DialingHandle a)"
  unfolding UpdateDialingCallInfo_def UpdateDialingHandle_def DialingHandle_new_def DialingHandle_def
  by (intro along)+

lemma along_moves [along]:
  "along R (RefreshDialingStateByOtherState a)" "along R (reported_or_dialed a)"
  "along R (GetConferenceCallList b)" "along R (SetConferenceCall c)" "along R (ActiveHandle a)"
  "along R (UpdateCallStateAndHandleDsdsMode a d)" "along R (HoldingHandle a)" "along R (AlertHandle a)"
  "along R (DisconnectingHandle a)"
  unfolding RefreshDialingStateByOtherState_def reported_or_dialed_def GetConferenceCallList_def
    SetConferenceCall_def ActiveHandle_def UpdateCallStateAndHandleDsdsMode_def HoldingHandle_def
    AlertHandle_def DisconnectingHandle_def
  by (intro along)+

lemma along_disconnect [along]:
  "along R (HandleHoldCallOrAutoAnswerCall a b c d)" "along R (call_GetSubCallIdList a)"
  "along R (Disconnected_update e a)" "along R (Disconnected_finish a b c d)"
  unfolding HandleHoldCallOrAutoAnswerCall_def call_GetSubCallIdList_def Disconnected_update_def
    Disconnected_finish_def
  by (intro along)+

lemma along_disconnected_with [along]:
  "(\<And>c. along R (f c)) \<Longrightarrow> along R (DisconnectedHandle_with f i)"
  "(\<And>i. along R (g i)) \<Longrightarrow> along R (ReportCallDisconnected_with g c)"
  unfolding DisconnectedHandle_with_def HandleDialWhenHolding_def ReportCallDisconnected_with_def
  by (intro along; assumption)+

lemma along_disconnected [along]: "along R (DisconnectedHandle i)" "along R (DealFailDial c)" "along R (ReportCallDisconnected c)"
  unfolding DisconnectedHandle_def DealFailDial_def ReportCallDisconnected_def DisconnectedHandle_inner_def
  by (intro along)+

lemma along_incoming [along]:
  "along R (RefreshOldCall a)" "along R (PrepareIncomingCall a)" "along R (HandleRejectCall b c)"
  "along R (FilterResultsDispose b)" "along R (FinalizeIncomingState b d)"
  unfolding RefreshOldCall_def PrepareIncomingCall_def HandleRejectCall_def FilterResultsDispose_def
    FinalizeIncomingState_def
  by (intro along)+

lemma along_incoming_report [along]: "along R (IncomingHandle i)" "along R (WaitingHandle i)"
  unfolding IncomingHandle_def WaitingHandle_def by (intro along)+

lemma along_state_report [along]: "along R (HandleCallReportInfo i)"
  unfolding HandleCallReportInfo_def HandleCallReportInfoEx_def
  by (cases "di_state i") (auto intro!: along)

lemma along_event_result [along]: "along R (HandleEventResultReportInfo i)"
  unfolding HandleEventResultReportInfo_def
  by (intro along) (auto intro!: along split: CallAbilityEventId.split simp: Let_def)

lemma along_batch [along]:
  "along R (UpdateCallDetailsInfo a)" "along R (HandleCallsReportInfo a)" "along R (HandleDisconnectedCause b)"
  "along R ReportHandler_Init" "along R ReportHandler_UnInit"
  unfolding UpdateCallDetailsInfo_def HandleCallsReportInfo_def HandleDisconnectedCause_def ReportHandler_Init_def
    ReportHandler_UnInit_def
  by (intro along)+

lemma along_whenStatus [along]: "along R m \<Longrightarrow> along R (whenStatus m)"
  unfolding whenStatus_def by (intro along)

lemma along_uplink [along]:
  "along R (UpdateCallReportInfo a)" "along R (UpdateCallsReportInfo b)" "along R (UpdateDisconnectedCause c)"
  "along R (UpdateEventResultInfo d)" "along R (PostToLoop e)" "along R (Guard_UpdateCallReportInfo f)"
  "along R (Guard_UpdateCallsReportInfo g)" "along R (Guard_UpdateDisconnectedCause c)"
  "along R (Guard_UpdateEventResultInfo d)" "along R (Guard_UpdateRBTPlayInfo h)"
  "along R (Callback_UpdateCallReportInfo f)" "along R (Callback_UpdateCallsReportInfo g)"
  "along R (Callback_UpdateDisconnectedCause c)" "along R (Callback_UpdateEventResultInfo d)"
  "along R (Callback_UpdateRBTPlayInfo h)"
  unfolding UpdateCallReportInfo_def UpdateCallsReportInfo_def UpdateDisconnectedCause_def UpdateEventResultInfo_def
    PostToLoop_def Guard_UpdateCallReportInfo_def Guard_UpdateCallsReportInfo_def
    Guard_UpdateDisconnectedCause_def Guard_UpdateEventResultInfo_def Guard_UpdateRBTPlayInfo_def
    Callback_UpdateCallReportInfo_def Callback_UpdateCallsReportInfo_def Callback_UpdateDisconnectedCause_def
    Callback_UpdateEventResultInfo_def Callback_UpdateRBTPlayInfo_def
  by (intro along)+

lemma along_with_call [along]: "(\<And>a. along R (f a)) \<Longrightarrow> along R (with_call i f)"
  unfolding with_call_def by (intro along; assumption)

lemma along_requests [along]:
  "along R (AnswerRequestForDsda a b c)" "along R (AnswerRequest b d c)" "along R (RejectRequest b c e)"
  "along R (HangUpRequest b)" "along R (HoldRequest b)" "along R (UnHoldRequest b)" "along R (SwitchRequest b)"
  "along R (CheckNumberIsEmergency e b c)" "along R EccDialPolicy"
  unfolding AnswerRequestForDsda_def AnswerRequest_def RejectRequest_def HangUpRequest_def HoldRequest_def
    UnHoldRequest_def SwitchRequest_def CheckNumberIsEmergency_def EccDialPolicy_def
  by (intro along)+

lemma along_dials [along]:
  "along R (HandleEccCallForDsda a b c)" "along R (HandleDialingInfo a b)"
  "along R (Process_UpdateCallReportInfo b d)" "along R HandleDialFail" "along R (HandleStartDial c b)"
  "along R (dial_given_up e)" "along R (CarrierDialProcess b)" "along R (HandleDialRequest b)"
  "along R DialRequest"
  unfolding HandleEccCallForDsda_def HandleDialingInfo_def Process_UpdateCallReportInfo_def HandleDialFail_def
    HandleStartDial_def dial_given_up_def CarrierDialProcess_def HandleDialRequest_def DialRequest_def
  by (intro along)+

lemma along_whenHandler [along]: "along R m \<Longrightarrow> along R (whenHandler m)"
  unfolding whenHandler_def by (intro along)

lemma along_handler [along]:
  "along R Handler_DialCall" "along R (Handler_AnswerCall a b c)" "along R (Handler_RejectCall a c d)"
  "along R (Handler_HangUpCall a)" "along R (Handler_HoldCall a)" "along R (Handler_UnHoldCall a)"
  "along R (Handler_SwitchCall a)" "along R Control_Init" "along R Control_UnInit"
  "along R (PackageDialInformation e d c)"
  unfolding Handler_DialCall_def Handler_AnswerCall_def Handler_RejectCall_def Handler_HangUpCall_def
    Handler_HoldCall_def Handler_UnHoldCall_def Handler_SwitchCall_def Control_Init_def Control_UnInit_def
    PackageDialInformation_def
  by (intro along)+

lemma along_control_calls [along]:
  "along R (DialCall a b)" "along R (HandlerAnswerCall c d e)" "along R (AnswerCall c d e)"
  "along R (RejectCall c e a)" "along R (PostPendingHangupProtectTask c)" "along R (PendingHangupProtect_task c)"
  "along R (HangUpCall c)" "along R (HoldCall c)" "along R (UnHoldCall c)" "along R (SwitchCall c)"
  "along R (IsEmergencyPhoneNumber a c e)" "along R EndCall"
  unfolding DialCall_def HandlerAnswerCall_def AnswerCall_def RejectCall_def PostPendingHangupProtectTask_def
    PendingHangupProtect_task_def HangUpCall_def HoldCall_def UnHoldCall_def SwitchCall_def
    IsEmergencyPhoneNumber_def EndCall_def
  by (intro along)+

lemma along_whenControl [along]: "along R m \<Longrightarrow> along R (whenControl m)"
  unfolding whenControl_def by (intro along)

lemma along_service [along]:
  "along R Service_Init" "along R (Service_UnInit a)" "along R (Service_UnRegisterCallBack a)"
  "along R (Service_ObserverOnCallDetailsChange a)" "along R (Service_DialCall a b c)"
  "along R (Service_AnswerCall a d e f)" "along R (Service_RejectCall a d f b)" "along R (Service_HangUpCall a d)"
  "along R (Service_HoldCall a d)" "along R (Service_UnHoldCall a d)" "along R (Service_SwitchCall a d)"
  "along R (Service_IsEmergencyPhoneNumber b d f)" "along R (Service_EndCall a)"
  "along R (Service_AnswerCall_device a)" "along R (Service_RejectCall_device a)"
  "along R (Service_HangUpCall_device a)"
  unfolding Service_Init_def Service_UnInit_def Service_UnRegisterCallBack_def
    Service_ObserverOnCallDetailsChange_def Service_DialCall_def Service_AnswerCall_def
    Service_RejectCall_def Service_HangUpCall_def Service_HoldCall_def Service_UnHoldCall_def
    Service_SwitchCall_def Service_IsEmergencyPhoneNumber_def Service_EndCall_def
    Service_AnswerCall_device_def Service_RejectCall_device_def Service_HangUpCall_device_def
  by (intro along)+

lemma along_start [along]:
  "along R (tell_app a)"
  unfolding tell_app_def
  by (intro along)+

lemma along_run_task [along]: "along R (run_task t)"
  by (cases t) (simp_all only: run_task.simps, (intro along)+)

end

section \<open>Histories\<close>

lemma onward_refl [simp]: "onward s s"
  by (simp add: onward_def)

lemma onward_trans: "onward s t \<Longrightarrow> onward t u \<Longrightarrow> onward s u"
  unfolding onward_def by (auto intro: prefix_order.trans)

lemma onward_onLoop [along]: "along onward (onLoop m)"
  by (simp add: along_def onward_def)

interpretation histories: progress onward
  by unfold_locales (auto intro: onward_trans onward_onLoop)

lemma onward_loop_turn [along]: "along onward (loop_turn run_task)"
proof -
  have "along onward (dispatch run_task m)" for m
    unfolding dispatch_def by (cases m; simp split: LosEventMessage.split; intro allI conjI impI along)
  then show ?thesis
    unfolding loop_turn_def by (intro along)
qed

lemma onward_start [along]:
  "along onward (loop_stop a b)" "along onward (CallManagerServiceMiniStart a b c d e)"
  "along onward (CallManagerServiceMiniStop tm c d e)"
  unfolding loop_stop_def CallManagerServiceMiniStart_def CallManagerServiceMiniStop_def by (intro along)+

lemma onward_handle: "\<forall>tm k. ev \<noteq> E_RegisterCallBack tm k \<Longrightarrow> along onward (handle ev)"
  by (cases ev) (simp_all only: handle.simps; (intro along; fail)?; simp)+

end
