(* ===== verification/Sync_Calls.thy ===== *)
theory Sync_Calls
  imports Event_Loop
begin

text \<open>
  Synchronous calls under interleaving. Any number of tasks call \<open>PostSyncTask\<close> while the loop
  pops and dispatches messages and timers fire; each step below is one stretch of code between two
  points where another task can run. A blocked caller that times out leaves its context behind
  ("abandoned") and the loop frees the waiter slot later; a caller that finds its context completed
  after a timeout consumes the semaphore count that was left for it.
\<close>

section \<open>The steps\<close>

text \<open>Where the caller of a context is: \<open>PostSyncTask\<close> before, at and after its wait.\<close>

datatype caller = C_Waiting | C_Woken | C_TimedOut | C_Returned ErrCode

text \<open>
  \<open>ss_ran\<close> records whose task was run by the loop; it is not part of the program. \<open>ss_inflight\<close> is
  the message between \<open>PopLocked\<close> and the end of its \<open>Dispatch\<close>.
\<close>

record 't sync_sys =
  ss_handler :: "'t LosEventHandler"
  ss_inflight :: "'t LosEventMessage option"
  ss_caller :: "nat \<Rightarrow> caller"
  ss_ran :: "nat set"

abbreviation no_run :: "'t \<Rightarrow> ('t LosEventHandler, unit) state" where
  "no_run \<equiv> \<lambda>_. ret ()"

inductive sync_step :: "'t sync_sys \<Rightarrow> 't sync_sys \<Rightarrow> bool" where
  post: "run_state (PostSyncTask_begin no_run False task) (ss_handler s) = (r, h) \<Longrightarrow>
    sync_step s (s\<lparr>ss_handler := h,
      ss_caller := (case r of Inl _ \<Rightarrow> ss_caller s | Inr c \<Rightarrow> (ss_caller s)(c := C_Waiting))\<rparr>)"
| post_async: "run_state (Enqueue (ASYNC_TASK task)) (ss_handler s) = (r, h) \<Longrightarrow>
    sync_step s (s\<lparr>ss_handler := h\<rparr>)"
| timer: "run_state TimerExpired (ss_handler s) = (r, h) \<Longrightarrow> sync_step s (s\<lparr>ss_handler := h\<rparr>)"
| pop: "ss_inflight s = None \<Longrightarrow> run_state PopLocked (ss_handler s) = (m, h) \<Longrightarrow>
    sync_step s (s\<lparr>ss_handler := h, ss_inflight := m\<rparr>)"
| dispatch: "ss_inflight s = Some m \<Longrightarrow> run_state (Dispatch no_run (Some m)) (ss_handler s) = (r, h) \<Longrightarrow>
    sync_step s (s\<lparr>ss_handler := h, ss_inflight := None,
      ss_ran := (case m of SYNC_CALL c \<Rightarrow>
                   if lh_state (ss_handler s) = STATE_RUNNING then insert c (ss_ran s) else ss_ran s
                 | _ \<Rightarrow> ss_ran s)\<rparr>)"
| wake: "ss_caller s c = C_Waiting \<Longrightarrow> slot = sc_slot (lh_contexts (ss_handler s) ! c) \<Longrightarrow>
    0 < lh_waiterSems (ss_handler s) ! slot \<Longrightarrow> run_state (SemTake slot) (ss_handler s) = (r, h) \<Longrightarrow>
    sync_step s (s\<lparr>ss_handler := h, ss_caller := (ss_caller s)(c := C_Woken)\<rparr>)"
| timeout: "ss_caller s c = C_Waiting \<Longrightarrow>
    sync_step s (s\<lparr>ss_caller := (ss_caller s)(c := C_TimedOut)\<rparr>)"
| finish: "ss_caller s c = w \<Longrightarrow> w = C_Woken \<or> w = C_TimedOut \<Longrightarrow>
    run_state (PostSyncTask_end c (w = C_Woken)) (ss_handler s) = (r, h) \<Longrightarrow>
    sync_step s (s\<lparr>ss_handler := h, ss_caller := (ss_caller s)(c := C_Returned r)\<rparr>)"
| stop: "run_state (Stop_begin False) (ss_handler s) = (r, h) \<Longrightarrow> sync_step s (s\<lparr>ss_handler := h\<rparr>)"

text \<open>A self-driven handler that was just set up: every slot free, nothing queued, no callers.\<close>

definition sync_init :: "'t sync_sys \<Rightarrow> bool" where
  "sync_init s \<longleftrightarrow>
    ring_ok (ss_handler s) \<and> lh_ringCount (ss_handler s) = 0 \<and>
    lh_contexts (ss_handler s) = [] \<and> ss_inflight s = None \<and>
    (\<exists>n. lh_waiterInUse (ss_handler s) = replicate n False \<and> lh_waiterSems (ss_handler s) = replicate n 0) \<and>
    (\<forall>c. ss_caller s c = C_Returned TELEPHONY_ERR_UNINIT)"

inductive sync_reach :: "'t sync_sys \<Rightarrow> bool" where
  init: "sync_init s \<Longrightarrow> sync_reach s"
| step: "sync_reach s \<Longrightarrow> sync_step s t \<Longrightarrow> sync_reach t"

section \<open>The invariant\<close>

text \<open>
  A context is live while its caller has not returned, or was abandoned by it and the loop has not
  reached it yet. Each slot in use belongs to exactly one live context, the semaphore of a slot is
  up exactly while a completed context's caller has not taken it, and the queue holds the live
  contexts that are not completed.
\<close>

definition sync_queue :: "'t sync_sys \<Rightarrow> 't LosEventMessage list" where
  "sync_queue s = (case ss_inflight s of None \<Rightarrow> [] | Some m \<Rightarrow> [m]) @ ring_items (ss_handler s)"

fun sync_id :: "'t LosEventMessage \<Rightarrow> nat list" where
  "sync_id (SYNC_CALL c) = [c]"
| "sync_id (ASYNC_TASK t) = []"
| "sync_id TIMER_FIRE = []"

text \<open>What the protocol is about, as functions of the slot and of the context number.\<close>

record sync_view =
  v_inUse :: "nat \<Rightarrow> bool"
  v_sem :: "nat \<Rightarrow> bool"
  v_slot :: "nat \<Rightarrow> nat"
  v_abandoned :: "nat \<Rightarrow> bool"
  v_done :: "nat \<Rightarrow> bool"
  v_pc :: "nat \<Rightarrow> caller"
  v_ids :: "nat list"
  v_next :: nat

definition blocked :: "(nat \<Rightarrow> caller) \<Rightarrow> nat \<Rightarrow> bool" where
  "blocked pc c \<longleftrightarrow> pc c = C_Waiting \<or> pc c = C_Woken \<or> pc c = C_TimedOut"

definition live :: "sync_view \<Rightarrow> nat \<Rightarrow> bool" where
  "live v c \<longleftrightarrow> blocked (v_pc v) c \<or> (v_abandoned v c \<and> \<not> v_done v c)"

definition signalled :: "sync_view \<Rightarrow> nat \<Rightarrow> bool" where
  "signalled v c \<longleftrightarrow> v_done v c \<and> (v_pc v c = C_Waiting \<or> v_pc v c = C_TimedOut)"

definition slots_ok :: "sync_view \<Rightarrow> bool" where
  "slots_ok v \<longleftrightarrow> (\<forall>i. v_inUse v i \<longleftrightarrow> (\<exists>c. live v c \<and> v_slot v c = i)) \<and> inj_on (v_slot v) {c. live v c}"

definition sems_ok :: "sync_view \<Rightarrow> bool" where
  "sems_ok v \<longleftrightarrow> (\<forall>i. v_sem v i \<longleftrightarrow> (\<exists>c. signalled v c \<and> v_slot v c = i))"

definition ctxs_ok :: "sync_view \<Rightarrow> bool" where
  "ctxs_ok v \<longleftrightarrow>
    distinct (v_ids v) \<and> set (v_ids v) = {c. live v c \<and> \<not> v_done v c} \<and>
    (\<forall>c. blocked (v_pc v) c \<or> v_abandoned v c \<or> v_done v c \<longrightarrow> c < v_next v) \<and>
    (\<forall>c. v_pc v c = C_Woken \<longrightarrow> v_done v c) \<and>
    (\<forall>c. v_abandoned v c \<longrightarrow> \<not> blocked (v_pc v) c)"

definition sync_inv :: "sync_view \<Rightarrow> bool" where
  "sync_inv v \<longleftrightarrow> slots_ok v \<and> sems_ok v \<and> ctxs_ok v"

definition view_of :: "'t sync_sys \<Rightarrow> sync_view" where
  "view_of s = (let h = ss_handler s; n = length (lh_contexts h) in
     \<lparr>v_inUse = (\<lambda>i. i < length (lh_waiterInUse h) \<and> lh_waiterInUse h ! i),
      v_sem = (\<lambda>i. i < length (lh_waiterSems h) \<and> lh_waiterSems h ! i \<noteq> 0),
      v_slot = (\<lambda>c. if c < n then sc_slot (lh_contexts h ! c) else 0),
      v_abandoned = (\<lambda>c. c < n \<and> sc_abandoned (lh_contexts h ! c)),
      v_done = (\<lambda>c. c < n \<and> sc_done (lh_contexts h ! c)),
      v_pc = ss_caller s,
      v_ids = concat (map sync_id (sync_queue s)),
      v_next = n\<rparr>)"

subsection \<open>The moves of the protocol\<close>

lemma inv_post:
  assumes inv: "sync_inv v" and i: "\<not> v_inUse v i"
  shows "sync_inv (v\<lparr>v_inUse := (v_inUse v)(i := True), v_slot := (v_slot v)(v_next v := i),
    v_pc := (v_pc v)(v_next v := C_Waiting), v_ids := v_ids v @ [v_next v], v_next := Suc (v_next v)\<rparr>)"
    (is "sync_inv ?v")
proof -
  let ?n = "v_next v"
  have A: "slots_ok v" and B: "sems_ok v" and C: "ctxs_ok v" using inv by (auto simp: sync_inv_def)
  have n: "\<not> v_done v ?n" "\<not> v_abandoned v ?n" "\<not> blocked (v_pc v) ?n" "\<not> live v ?n" "\<not> signalled v ?n"
    using C by (auto simp: ctxs_ok_def live_def signalled_def)
  have L: "live ?v d \<longleftrightarrow> live v d \<or> d = ?n" for d by (auto simp: live_def blocked_def n)
  have S: "signalled ?v d \<longleftrightarrow> signalled v d" for d using n by (auto simp: signalled_def)
  have free: "live v d \<Longrightarrow> v_slot v d \<noteq> i" for d using A i by (auto simp: slots_ok_def)
  have slot: "live v d \<Longrightarrow> ((v_slot v)(?n := i)) d = v_slot v d" for d using n(4) by auto
  have ex: "(\<exists>c. (live v c \<or> c = ?n) \<and> ((v_slot v)(?n := i)) c = j) \<longleftrightarrow>
      (\<exists>c. live v c \<and> v_slot v c = j) \<or> j = i" for j
    using slot by (metis fun_upd_same)
  have "inj_on ((v_slot v)(?n := i)) {c. live v c \<or> c = ?n}"
    using A n(4) free by (auto simp: slots_ok_def inj_on_def)
  then have "slots_ok ?v"
    using A ex unfolding slots_ok_def L by simp
  moreover have "(\<exists>c. signalled v c \<and> ((v_slot v)(?n := i)) c = j) \<longleftrightarrow> (\<exists>c. signalled v c \<and> v_slot v c = j)" for j
    using n(5) by (metis fun_upd_other)
  then have "sems_ok ?v" using B unfolding sems_ok_def S by simp
  moreover have "ctxs_ok ?v"
    using C n unfolding ctxs_ok_def L by (auto simp: blocked_def less_Suc_eq)
  ultimately show ?thesis by (simp add: sync_inv_def)
qed

lemma signalled_live: "signalled v c \<Longrightarrow> live v c"
  by (auto simp: signalled_def live_def blocked_def)

lemma same_slot: "slots_ok v \<Longrightarrow> live v c \<Longrightarrow> live v d \<Longrightarrow> v_slot v c = v_slot v d \<longleftrightarrow> c = d"
  by (auto simp: slots_ok_def inj_on_def)

lemma inv_parts: "sync_inv v \<Longrightarrow> slots_ok v \<and> sems_ok v \<and> ctxs_ok v"
  by (simp add: sync_inv_def)

text \<open>A semaphore that is up belongs to the context that waits on the slot.\<close>

lemma sem_owner:
  assumes "sync_inv v" "v_pc v c = C_Waiting" "v_sem v (v_slot v c)"
  shows "signalled v c"
proof -
  obtain d where d: "signalled v d" "v_slot v d = v_slot v c"
    using assms by (auto simp: sync_inv_def sems_ok_def)
  moreover have "live v c" using assms(2) by (simp add: live_def blocked_def)
  ultimately show ?thesis
    using same_slot [of v d c] assms(1) signalled_live [of v d] by (auto simp: sync_inv_def)
qed

lemma inv_wake:
  assumes inv: "sync_inv v" and c: "v_pc v c = C_Waiting" "v_sem v (v_slot v c)"
  shows "sync_inv (v\<lparr>v_sem := (v_sem v)(v_slot v c := False), v_pc := (v_pc v)(c := C_Woken)\<rparr>)"
    (is "sync_inv ?v")
proof -
  have A: "slots_ok v" and B: "sems_ok v" and C: "ctxs_ok v" using inv_parts [OF inv] by auto
  have sg: "signalled v c" by (rule sem_owner [OF assms])
  have L: "live ?v d \<longleftrightarrow> live v d" for d using c by (auto simp: live_def blocked_def)
  have S: "signalled ?v d \<longleftrightarrow> signalled v d \<and> d \<noteq> c" for d by (auto simp: signalled_def)
  have "slots_ok ?v" using A unfolding slots_ok_def L by simp
  moreover have "sems_ok ?v"
    using B same_slot [OF A signalled_live [OF sg] signalled_live] unfolding sems_ok_def S by auto metis
  moreover have "ctxs_ok ?v"
    using C c sg unfolding ctxs_ok_def L by (auto simp: blocked_def signalled_def)
  ultimately show ?thesis by (simp add: sync_inv_def)
qed

lemma inv_timeout:
  assumes inv: "sync_inv v" and c: "v_pc v c = C_Waiting"
  shows "sync_inv (v\<lparr>v_pc := (v_pc v)(c := C_TimedOut)\<rparr>)" (is "sync_inv ?v")
proof -
  have L: "live ?v d \<longleftrightarrow> live v d" for d using c by (auto simp: live_def blocked_def)
  have S: "signalled ?v d \<longleftrightarrow> signalled v d" for d using c by (auto simp: signalled_def)
  show ?thesis
    using inv c unfolding sync_inv_def slots_ok_def sems_ok_def ctxs_ok_def L S by (auto simp: blocked_def)
qed

lemma inv_complete:
  assumes inv: "sync_inv v" and c: "v_ids v = c # ids"
  shows "sync_inv (v\<lparr>v_done := (v_done v)(c := True), v_ids := ids,
    v_inUse := (if v_abandoned v c then (v_inUse v)(v_slot v c := False) else v_inUse v),
    v_sem := (if v_abandoned v c then v_sem v else (v_sem v)(v_slot v c := True))\<rparr>)" (is "sync_inv ?v")
proof -
  have A: "slots_ok v" and B: "sems_ok v" and C: "ctxs_ok v" using inv_parts [OF inv] by auto
  have "c \<in> set (v_ids v)" using c by simp
  then have l: "live v c" and nd: "\<not> v_done v c" using C by (auto simp: ctxs_ok_def)
  have p: "v_abandoned v c \<longleftrightarrow> \<not> blocked (v_pc v) c" using l C by (auto simp: live_def ctxs_ok_def)
  have w: "v_pc v c \<noteq> C_Woken" using nd C by (auto simp: ctxs_ok_def)
  have L: "live ?v d \<longleftrightarrow> live v d \<and> (d = c \<longrightarrow> \<not> v_abandoned v c)" for d
    using l p by (auto simp: live_def)
  have S: "signalled ?v d \<longleftrightarrow> signalled v d \<or> (d = c \<and> \<not> v_abandoned v c)" for d
    using p w nd by (auto simp: signalled_def blocked_def)
  have "slots_ok ?v"
    using A same_slot [OF A l] l unfolding slots_ok_def L by (auto simp: inj_on_def)
  moreover have "sems_ok ?v"
    using B unfolding sems_ok_def S by auto
  moreover have "ctxs_ok ?v"
    using C c l nd unfolding ctxs_ok_def L by (auto simp: live_def)
  ultimately show ?thesis by (simp add: sync_inv_def)
qed

lemma inv_finish:
  assumes inv: "sync_inv v" and c: "v_pc v c = C_Woken \<or> (v_pc v c = C_TimedOut \<and> v_done v c)"
  shows "sync_inv (v\<lparr>v_inUse := (v_inUse v)(v_slot v c := False), v_pc := (v_pc v)(c := C_Returned r),
    v_sem := (if v_pc v c = C_Woken then v_sem v else (v_sem v)(v_slot v c := False))\<rparr>)" (is "sync_inv ?v")
proof -
  have A: "slots_ok v" and B: "sems_ok v" and C: "ctxs_ok v" using inv_parts [OF inv] by auto
  have d: "v_done v c" and l: "live v c" using c C by (auto simp: ctxs_ok_def live_def blocked_def)
  have L: "live ?v e \<longleftrightarrow> live v e \<and> e \<noteq> c" for e
    using d by (auto simp: live_def blocked_def)
  have S: "signalled ?v e \<longleftrightarrow> signalled v e \<and> e \<noteq> c" for e by (auto simp: signalled_def)
  have sw: "v_pc v c = C_Woken \<Longrightarrow> \<not> signalled v c" by (simp add: signalled_def)
  have st: "v_pc v c \<noteq> C_Woken \<Longrightarrow> signalled v c" using c by (auto simp: signalled_def)
  have "slots_ok ?v"
    using A same_slot [OF A l] unfolding slots_ok_def L by (auto simp: inj_on_def) metis
  moreover have "sems_ok ?v"
    using B same_slot [OF A l signalled_live] sw st unfolding sems_ok_def S by auto metis+
  moreover have "ctxs_ok ?v"
    using C c d unfolding ctxs_ok_def L by (auto simp: blocked_def)
  ultimately show ?thesis by (simp add: sync_inv_def)
qed

lemma inv_abandon:
  assumes inv: "sync_inv v" and c: "v_pc v c = C_TimedOut" "\<not> v_done v c"
  shows "sync_inv (v\<lparr>v_abandoned := (v_abandoned v)(c := True), v_pc := (v_pc v)(c := C_Returned r)\<rparr>)"
    (is "sync_inv ?v")
proof -
  have L: "live ?v d \<longleftrightarrow> live v d" for d using c by (auto simp: live_def blocked_def)
  have S: "signalled ?v d \<longleftrightarrow> signalled v d" for d using c by (auto simp: signalled_def)
  show ?thesis
    using inv c unfolding sync_inv_def slots_ok_def sems_ok_def ctxs_ok_def L S by (auto simp: blocked_def)
qed

lemma inv_dead:
  assumes inv: "sync_inv v"
  shows "sync_inv (v\<lparr>v_slot := (v_slot v)(v_next v := i), v_next := Suc (v_next v)\<rparr>)" (is "sync_inv ?v")
proof -
  let ?n = "v_next v"
  have A: "slots_ok v" and B: "sems_ok v" and C: "ctxs_ok v" using inv_parts [OF inv] by auto
  have n: "\<not> live v ?n" "\<not> signalled v ?n" using C by (auto simp: ctxs_ok_def live_def signalled_def)
  have L: "live ?v d \<longleftrightarrow> live v d" for d by (simp add: live_def)
  have S: "signalled ?v d \<longleftrightarrow> signalled v d" for d by (simp add: signalled_def)
  have eq: "(\<exists>c. live v c \<and> ((v_slot v)(?n := i)) c = j) \<longleftrightarrow> (\<exists>c. live v c \<and> v_slot v c = j)"
    "(\<exists>c. signalled v c \<and> ((v_slot v)(?n := i)) c = j) \<longleftrightarrow> (\<exists>c. signalled v c \<and> v_slot v c = j)" for j
    using n by (metis fun_upd_other)+
  have "inj_on ((v_slot v)(?n := i)) {c. live v c}" using A n by (auto simp: slots_ok_def inj_on_def)
  then have "slots_ok ?v" using A eq unfolding slots_ok_def L by simp
  moreover have "sems_ok ?v" using B eq unfolding sems_ok_def S by simp
  moreover have "ctxs_ok ?v" using C unfolding ctxs_ok_def L by auto
  ultimately show ?thesis by (simp add: sync_inv_def)
qed

section \<open>Every step keeps the invariant\<close>

definition sync_wf :: "'t LosEventHandler \<Rightarrow> bool" where
  "sync_wf h \<longleftrightarrow> ring_wf h \<and> length (lh_waiterSems h) = length (lh_waiterInUse h) \<and>
    (\<forall>i < length (lh_waiterSems h). lh_waiterSems h ! i \<le> 1) \<and>
    (\<forall>c < length (lh_contexts h). sc_slot (lh_contexts h ! c) < length (lh_waiterInUse h))"

definition sync_good :: "'t sync_sys \<Rightarrow> bool" where
  "sync_good s \<longleftrightarrow> sync_wf (ss_handler s) \<and> sync_inv (view_of s)"

lemma Enqueue_cases:
  assumes "ring_wf h"
  obtains r where "run_state (Enqueue m) h = (r, h)" "r \<noteq> TELEPHONY_SUCCESS"
  | "run_state (Enqueue m) h = (TELEPHONY_SUCCESS, ring_push m h)" "ring_wf (ring_push m h)"
    "ring_items (ring_push m h) = ring_items h @ [m]"
proof (cases "lh_state h = STATE_RUNNING")
  case True
  then have ok: "ring_ok h" using assms by (simp add: ring_ok_def)
  show ?thesis
  proof (cases "ring_limit m h \<le> lh_ringCount h")
    case True
    then show ?thesis using that(1) Enqueue_run [OF ok, of m] by simp
  next
    case False
    with that(2) Enqueue_run [OF ok, of m] assms show ?thesis
      using ring_push_wf [OF assms ring_limit_room [OF ok False]]
        ring_push_items [OF assms ring_limit_room [OF ok False]] by simp
  qed
qed (use that(1) in \<open>simp add: Enqueue_def\<close>)

lemma ring_push_fields [simp]:
  "lh_waiterInUse (ring_push m h) = lh_waiterInUse h" "lh_waiterSems (ring_push m h) = lh_waiterSems h"
  "lh_contexts (ring_push m h) = lh_contexts h"
  by (simp_all add: ring_push_def)

lemma fun_of_update:
  "j < length xs \<Longrightarrow> (\<lambda>i. i < length xs \<and> P (xs[j := b] ! i)) = (\<lambda>i. i < length xs \<and> P (xs ! i))(j := P b)"
  by (auto simp: nth_list_update fun_eq_iff)

text \<open>Fields the protocol does not look at.\<close>

lemma ring_fields [simp]:
  "ring_items (h\<lparr>lh_timer := a\<rparr>) = ring_items h" "ring_items (h\<lparr>lh_timerMessageQueued := b\<rparr>) = ring_items h"
  "ring_items (h\<lparr>lh_delayed := d\<rparr>) = ring_items h" "ring_items (h\<lparr>lh_state := e\<rparr>) = ring_items h"
  "ring_items (h\<lparr>lh_waiterInUse := f\<rparr>) = ring_items h" "ring_items (h\<lparr>lh_waiterSems := g\<rparr>) = ring_items h"
  "ring_items (h\<lparr>lh_contexts := k\<rparr>) = ring_items h" "ring_items (h\<lparr>lh_queueSem := q\<rparr>) = ring_items h"
  by (simp_all add: ring_items_def ring_at_def)

lemma wf_fields [simp]:
  "ring_wf (h\<lparr>lh_timer := a\<rparr>) = ring_wf h" "ring_wf (h\<lparr>lh_timerMessageQueued := b\<rparr>) = ring_wf h"
  "ring_wf (h\<lparr>lh_delayed := d\<rparr>) = ring_wf h" "ring_wf (h\<lparr>lh_state := e\<rparr>) = ring_wf h"
  "ring_wf (h\<lparr>lh_waiterInUse := f\<rparr>) = ring_wf h" "ring_wf (h\<lparr>lh_waiterSems := g\<rparr>) = ring_wf h"
  "ring_wf (h\<lparr>lh_contexts := k\<rparr>) = ring_wf h" "ring_wf (h\<lparr>lh_queueSem := q\<rparr>) = ring_wf h"
  by (simp_all add: ring_wf_def ring_at_def)

text \<open>A change of the handler that is invisible to the protocol, or queues a message without caller.\<close>

definition same_calls :: "'t LosEventHandler \<Rightarrow> 't LosEventHandler \<Rightarrow> bool" where
  "same_calls h h' \<longleftrightarrow>
    lh_waiterInUse h' = lh_waiterInUse h \<and> lh_waiterSems h' = lh_waiterSems h \<and> lh_contexts h' = lh_contexts h \<and>
    (ring_wf h \<longrightarrow> ring_wf h' \<and>
      (ring_items h' = ring_items h \<or> (\<exists>m. sync_id m = [] \<and> ring_items h' = ring_items h @ [m])))"

lemma same_calls_good:
  "sync_good s \<Longrightarrow> same_calls (ss_handler s) h \<Longrightarrow> sync_good (s\<lparr>ss_handler := h\<rparr>)"
proof -
  assume g: "sync_good s" and e: "same_calls (ss_handler s) h"
  then have "concat (map sync_id (sync_queue (s\<lparr>ss_handler := h\<rparr>))) = concat (map sync_id (sync_queue s))"
    by (auto simp: same_calls_def sync_good_def sync_wf_def sync_queue_def)
  then have "view_of (s\<lparr>ss_handler := h\<rparr>) = view_of s"
    using e by (auto simp: view_of_def Let_def same_calls_def)
  with g e show ?thesis by (auto simp: sync_good_def sync_wf_def same_calls_def)
qed

lemma Enqueue_same:
  "sync_id m = [] \<Longrightarrow> same_calls h (snd (run_state (Enqueue m) h))" if "ring_wf h"
  by (rule Enqueue_cases [OF that, of m]) (auto simp: same_calls_def)

lemma TimerExpired_same: "ring_wf h \<Longrightarrow> same_calls h (snd (run_state TimerExpired h))"
proof -
  assume wf: "ring_wf h"
  have "same_calls (h\<lparr>lh_timer := None, lh_timerMessageQueued := True\<rparr>)
     (snd (run_state (Enqueue TIMER_FIRE) (h\<lparr>lh_timer := None, lh_timerMessageQueued := True\<rparr>)))"
    using wf by (intro Enqueue_same) simp_all
  then show ?thesis
    by (auto simp: TimerExpired_def OnTimerExpired_def same_calls_def case_prod_beta)
qed

lemma Stop_begin_same: "same_calls h (snd (run_state (Stop_begin False) h))"
  by (auto simp: Stop_begin_def same_calls_def)

lemma for_each_no_run [simp]: "run_state (for_each xs (\<lambda>e. no_run (f e))) h = ((), h)"
  by (induction xs) simp_all

lemma ArmTimer_same: "same_calls h (snd (run_state ArmTimerLocked h))"
  by (auto simp: ArmTimerLocked_def same_calls_def Let_def split: list.splits)

lemma RunDue_same: "same_calls h (snd (run_state (RunDueTasks no_run) h))"
  using ArmTimer_same [of "h\<lparr>lh_delayed := d\<rparr>" for d]
  by (auto simp: RunDueTasks_def same_calls_def case_prod_beta)

lemma dead_view:
  assumes "sync_good s" "i < length (lh_waiterInUse (ss_handler s))" "sc_slot c = i"
    and "\<not> sc_abandoned c" "\<not> sc_done c"
  shows "sync_good (s\<lparr>ss_handler := (ss_handler s)\<lparr>lh_contexts := lh_contexts (ss_handler s) @ [c]\<rparr>\<rparr>)"
proof -
  let ?h = "ss_handler s"
  have "view_of (s\<lparr>ss_handler := ?h\<lparr>lh_contexts := lh_contexts ?h @ [c]\<rparr>\<rparr>) =
    (view_of s)\<lparr>v_slot := (v_slot (view_of s))(v_next (view_of s) := i), v_next := Suc (v_next (view_of s))\<rparr>"
    using assms(3-) by (auto simp: view_of_def Let_def sync_queue_def nth_append fun_eq_iff less_Suc_eq)
  with assms inv_dead [of "view_of s" i] show ?thesis
    by (auto simp: sync_good_def sync_wf_def nth_append less_Suc_eq)
qed

lemma post_view:
  assumes "sync_good s" "i < length (lh_waiterInUse (ss_handler s))" "\<not> lh_waiterInUse (ss_handler s) ! i"
    and c: "sc_slot c = i" "\<not> sc_abandoned c" "\<not> sc_done c"
    and h: "lh_waiterInUse h = (lh_waiterInUse (ss_handler s))[i := True]"
      "lh_contexts h = lh_contexts (ss_handler s) @ [c]" "lh_waiterSems h = lh_waiterSems (ss_handler s)"
      "ring_wf h" "ring_items h = ring_items (ss_handler s) @ [SYNC_CALL (length (lh_contexts (ss_handler s)))]"
  shows "sync_good (s\<lparr>ss_handler := h,
    ss_caller := (ss_caller s)(length (lh_contexts (ss_handler s)) := C_Waiting)\<rparr>)" (is "sync_good ?t")
proof -
  let ?v = "view_of s"
  have "view_of ?t = ?v\<lparr>v_inUse := (v_inUse ?v)(i := True), v_slot := (v_slot ?v)(v_next ?v := i),
    v_pc := (v_pc ?v)(v_next ?v := C_Waiting), v_ids := v_ids ?v @ [v_next ?v], v_next := Suc (v_next ?v)\<rparr>"
    using assms by (auto simp: view_of_def Let_def sync_queue_def nth_append fun_eq_iff less_Suc_eq
      nth_list_update split: option.splits)
  moreover have "\<not> v_inUse ?v i" using assms(3) by (simp add: view_of_def Let_def)
  ultimately show ?thesis
    using assms inv_post [of ?v i] by (auto simp: sync_good_def sync_wf_def nth_append less_Suc_eq)
qed

lemma AcquireWaiter_run:
  "run_state AcquireWaiter h =
    (case List.find (\<lambda>i. \<not> lh_waiterInUse h ! i) [0..<length (lh_waiterInUse h)] of
       None \<Rightarrow> (None, h)
     | Some i \<Rightarrow> (Some i, h\<lparr>lh_waiterInUse := (lh_waiterInUse h)[i := True]\<rparr>))"
  by (simp add: AcquireWaiter_def split: option.splits)

lemma step_post:
  assumes g: "sync_good s" and r: "run_state (PostSyncTask_begin no_run False task) (ss_handler s) = (r, h)"
  shows "sync_good (s\<lparr>ss_handler := h,
    ss_caller := (case r of Inl _ \<Rightarrow> ss_caller s | Inr c \<Rightarrow> (ss_caller s)(c := C_Waiting))\<rparr>)"
proof -
  let ?h = "ss_handler s"
  show ?thesis
  proof (cases "lh_state ?h = STATE_RUNNING \<and> List.find (\<lambda>i. \<not> lh_waiterInUse ?h ! i) [0..<length (lh_waiterInUse ?h)] \<noteq> None")
    case False
    then have "h = ?h \<and> (\<exists>e. r = Inl e)"
      using r by (auto simp: PostSyncTask_begin_def AcquireWaiter_run split: if_splits)
    then show ?thesis using g by auto
  next
    case True
    then obtain i where fi: "List.find (\<lambda>i. \<not> lh_waiterInUse ?h ! i) [0..<length (lh_waiterInUse ?h)] = Some i" by auto
    then have i: "i < length (lh_waiterInUse ?h)" "\<not> lh_waiterInUse ?h ! i" by (auto dest!: find_SomeD)
    let ?c = "\<lparr>sc_task = task, sc_slot = i, sc_abandoned = False, sc_done = False, sc_status = TELEPHONY_SUCCESS\<rparr>"
    let ?h1 = "?h\<lparr>lh_waiterInUse := (lh_waiterInUse ?h)[i := True], lh_contexts := lh_contexts ?h @ [?c]\<rparr>"
    have wf1: "ring_wf ?h1" using g by (simp add: sync_good_def sync_wf_def)
    show ?thesis
    proof (rule Enqueue_cases [OF wf1, of "SYNC_CALL (length (lh_contexts ?h))"])
      fix e assume "run_state (Enqueue (SYNC_CALL (length (lh_contexts ?h)))) ?h1 = (e, ?h1)" "e \<noteq> TELEPHONY_SUCCESS"
      then have "h = ?h\<lparr>lh_contexts := lh_contexts ?h @ [?c]\<rparr> \<and> r = Inl e"
        using r True fi i by (auto simp: PostSyncTask_begin_def AcquireWaiter_run ReleaseWaiter_def list_update_same_conv)
      then show ?thesis using dead_view [OF g i(1), of ?c] by simp
    next
      assume e: "run_state (Enqueue (SYNC_CALL (length (lh_contexts ?h)))) ?h1 =
          (TELEPHONY_SUCCESS, ring_push (SYNC_CALL (length (lh_contexts ?h))) ?h1)"
        and wf: "ring_wf (ring_push (SYNC_CALL (length (lh_contexts ?h))) ?h1)"
        and it: "ring_items (ring_push (SYNC_CALL (length (lh_contexts ?h))) ?h1) =
          ring_items ?h1 @ [SYNC_CALL (length (lh_contexts ?h))]"
      then have "h = ring_push (SYNC_CALL (length (lh_contexts ?h))) ?h1 \<and> r = Inr (length (lh_contexts ?h))"
        using r True fi by (auto simp: PostSyncTask_begin_def AcquireWaiter_run)
      then show ?thesis using post_view [OF g i, of ?c h] wf it by simp
    qed
  qed
qed

lemma step_pop:
  assumes g: "sync_good s" and n: "ss_inflight s = None" and r: "run_state PopLocked (ss_handler s) = (m, h)"
  shows "sync_good (s\<lparr>ss_handler := h, ss_inflight := m\<rparr>)" (is "sync_good ?t")
proof -
  let ?h = "ss_handler s"
  have wf: "ring_wf ?h" using g by (simp add: sync_good_def sync_wf_def)
  then have head: "lh_ringHead ?h < length (lh_ring ?h)" by (simp add: ring_wf_def)
  have h: "h = snd (run_state PopLocked ?h)" and m: "m = fst (run_state PopLocked ?h)" using r by simp_all
  have same: "lh_waiterInUse h = lh_waiterInUse ?h" "lh_waiterSems h = lh_waiterSems ?h"
    "lh_contexts h = lh_contexts ?h" using r by (auto simp: PopLocked_run [OF head] split: if_splits)
  have "sync_queue ?t = sync_queue s"
  proof (cases "ring_items ?h")
    case Nil
    with m h show ?thesis using n by (simp add: sync_queue_def PopLocked_run [OF head] ring_items_def)
  next
    case (Cons x xs)
    with PopLocked_items [OF wf Cons] m h n show ?thesis by (simp add: sync_queue_def)
  qed
  then have "view_of ?t = view_of s" using same by (simp add: view_of_def Let_def cong: if_cong)
  then show ?thesis using g same PopLocked_wf [OF wf] h by (simp add: sync_good_def sync_wf_def)
qed

lemma Complete_run:
  "run_state (Complete c st) h =
    (let x = (lh_contexts h ! c)\<lparr>sc_status := st, sc_done := True\<rparr>;
         h1 = h\<lparr>lh_contexts := (lh_contexts h)[c := x]\<rparr>
     in if sc_abandoned (lh_contexts h ! c)
        then ((), h1\<lparr>lh_waiterInUse := (lh_waiterInUse h)[sc_slot x := False]\<rparr>)
        else if lh_waiterSems h ! sc_slot x < 1
          then ((), h1\<lparr>lh_waiterSems := (lh_waiterSems h)[sc_slot x := 1]\<rparr>) else ((), h1))"
  if "c < length (lh_contexts h)"
  using that by (simp add: Complete_def ReleaseWaiter_def SemPost_def Let_def)

lemma complete_good:
  assumes g: "sync_good s" and m: "ss_inflight s = Some (SYNC_CALL c)"
    and h: "h = snd (run_state (Complete c st) (ss_handler s))"
  shows "sync_good (s\<lparr>ss_handler := h, ss_inflight := None\<rparr>)" (is "sync_good ?t")
proof -
  let ?h = "ss_handler s" and ?v = "view_of s"
  let ?x = "(lh_contexts ?h ! c)\<lparr>sc_status := st, sc_done := True\<rparr>"
  obtain ids where ids: "v_ids ?v = c # ids" "ids = concat (map sync_id (ring_items ?h))"
    using m by (simp add: view_of_def Let_def sync_queue_def)
  have C: "ctxs_ok ?v" using g by (simp add: sync_good_def sync_inv_def)
  have "live ?v c" using ids C by (auto simp: ctxs_ok_def)
  then have "c < v_next ?v" using C by (auto simp: ctxs_ok_def live_def)
  then have cn: "c < length (lh_contexts ?h)" by (simp add: view_of_def Let_def)
  then have slot: "sc_slot (lh_contexts ?h ! c) < length (lh_waiterInUse ?h)"
    "sc_slot (lh_contexts ?h ! c) < length (lh_waiterSems ?h)"
    "lh_waiterSems ?h ! sc_slot (lh_contexts ?h ! c) \<le> 1"
    using g by (auto simp: sync_good_def sync_wf_def)
  have id1: "\<not> lh_waiterSems ?h ! sc_slot (lh_contexts ?h ! c) < 1 \<Longrightarrow>
      (lh_waiterSems ?h)[sc_slot (lh_contexts ?h ! c) := 1] = lh_waiterSems ?h"
    using slot(3) by (metis list_update_id le_antisym not_less)
  have hc: "lh_contexts h = (lh_contexts ?h)[c := ?x]"
    and hu: "lh_waiterInUse h = (if sc_abandoned (lh_contexts ?h ! c)
      then (lh_waiterInUse ?h)[sc_slot (lh_contexts ?h ! c) := False] else lh_waiterInUse ?h)"
    and hs: "lh_waiterSems h = (if sc_abandoned (lh_contexts ?h ! c) then lh_waiterSems ?h
      else (lh_waiterSems ?h)[sc_slot (lh_contexts ?h ! c) := 1])"
    and hr: "ring_items h = ring_items ?h" "ring_wf h = ring_wf ?h"
    using h slot id1 by (auto simp: Complete_run [OF cn] Let_def)
  have "view_of ?t = ?v\<lparr>v_done := (v_done ?v)(c := True), v_ids := ids,
    v_inUse := (if v_abandoned ?v c then (v_inUse ?v)(v_slot ?v c := False) else v_inUse ?v),
    v_sem := (if v_abandoned ?v c then v_sem ?v else (v_sem ?v)(v_slot ?v c := True))\<rparr>"
    using cn slot ids by (auto simp: view_of_def Let_def sync_queue_def hc hu hs hr nth_list_update fun_eq_iff)
  moreover have "sync_wf h"
    using g slot cn by (auto simp: sync_good_def sync_wf_def hc hu hs hr nth_list_update)
  ultimately show ?thesis using inv_complete [of ?v c ids] g ids by (simp add: sync_good_def)
qed

lemma drop_inflight:
  assumes "sync_good s" "ss_inflight s = Some m" "sync_id m = []" "same_calls (ss_handler s) h"
  shows "sync_good (s\<lparr>ss_handler := h, ss_inflight := None\<rparr>)"
proof -
  have "view_of (s\<lparr>ss_inflight := None\<rparr>) = view_of s"
    using assms by (simp add: view_of_def Let_def sync_queue_def)
  then have "sync_good (s\<lparr>ss_inflight := None\<rparr>)" using assms(1) by (simp add: sync_good_def)
  from same_calls_good [OF this, of h] show ?thesis using assms(4) by (cases s) simp
qed

lemma step_dispatch:
  assumes g: "sync_good s" and m: "ss_inflight s = Some m"
    and r: "run_state (Dispatch no_run (Some m)) (ss_handler s) = (r, h)"
  shows "sync_good (s\<lparr>ss_handler := h, ss_inflight := None\<rparr>)"
proof (cases m)
  case (ASYNC_TASK t)
  then have "h = ss_handler s" using r by (simp add: Dispatch_def Recycle_def split: if_splits)
  then show ?thesis using drop_inflight [OF g m, of h] ASYNC_TASK by (simp add: same_calls_def)
next
  case (SYNC_CALL c)
  then have "\<exists>st. h = snd (run_state (Complete c st) (ss_handler s))"
    using r by (auto simp: Dispatch_def Recycle_def split: if_splits) (metis snd_conv)+
  then show ?thesis using complete_good [OF g] m SYNC_CALL by blast
next
  case TIMER_FIRE
  have "same_calls (ss_handler s) ((ss_handler s)\<lparr>lh_timerMessageQueued := False\<rparr>)"
    by (simp add: same_calls_def)
  moreover have "same_calls (ss_handler s)
      (snd (run_state (RunDueTasks no_run) ((ss_handler s)\<lparr>lh_timerMessageQueued := False\<rparr>)))"
    using RunDue_same [of "(ss_handler s)\<lparr>lh_timerMessageQueued := False\<rparr>"] by (simp add: same_calls_def)
  ultimately have "same_calls (ss_handler s) h"
    using r TIMER_FIRE by (auto simp: Dispatch_def Recycle_def split: if_splits)
  then show ?thesis using drop_inflight [OF g m] TIMER_FIRE by simp
qed

lemma waiting_bound:
  "sync_good s \<Longrightarrow> blocked (ss_caller s) c \<Longrightarrow>
    c < length (lh_contexts (ss_handler s)) \<and>
    sc_slot (lh_contexts (ss_handler s) ! c) < length (lh_waiterSems (ss_handler s)) \<and>
    lh_waiterSems (ss_handler s) ! sc_slot (lh_contexts (ss_handler s) ! c) \<le> 1"
  by (auto simp: sync_good_def sync_wf_def sync_inv_def ctxs_ok_def view_of_def Let_def)

lemma step_wake:
  assumes g: "sync_good s" and c: "ss_caller s c = C_Waiting"
    and u: "0 < lh_waiterSems (ss_handler s) ! sc_slot (lh_contexts (ss_handler s) ! c)"
    and h: "h = snd (run_state (SemTake (sc_slot (lh_contexts (ss_handler s) ! c))) (ss_handler s))"
  shows "sync_good (s\<lparr>ss_handler := h, ss_caller := (ss_caller s)(c := C_Woken)\<rparr>)" (is "sync_good ?t")
proof -
  let ?h = "ss_handler s" and ?v = "view_of s"
  let ?i = "sc_slot (lh_contexts ?h ! c)"
  have b: "c < length (lh_contexts ?h)" "?i < length (lh_waiterSems ?h)" "lh_waiterSems ?h ! ?i = 1"
    using waiting_bound [OF g, of c] c u by (auto simp: blocked_def)
  have h': "h = ?h\<lparr>lh_waiterSems := (lh_waiterSems ?h)[?i := 0]\<rparr>" using h b by (simp add: SemTake_def)
  have "view_of ?t = ?v\<lparr>v_sem := (v_sem ?v)(v_slot ?v c := False), v_pc := (v_pc ?v)(c := C_Woken)\<rparr>"
    using b by (auto simp: view_of_def Let_def sync_queue_def h' nth_list_update fun_eq_iff)
  moreover have "v_sem ?v (v_slot ?v c)" "v_pc ?v c = C_Waiting" using b c by (simp_all add: view_of_def Let_def)
  moreover have "sync_wf h" using g b by (auto simp: sync_good_def sync_wf_def h' nth_list_update)
  ultimately show ?thesis using inv_wake [of ?v c] g by (simp add: sync_good_def)
qed

lemma step_timeout:
  assumes g: "sync_good s" and c: "ss_caller s c = C_Waiting"
  shows "sync_good (s\<lparr>ss_caller := (ss_caller s)(c := C_TimedOut)\<rparr>)" (is "sync_good ?t")
proof -
  have "view_of ?t = (view_of s)\<lparr>v_pc := (v_pc (view_of s))(c := C_TimedOut)\<rparr>"
    by (simp add: view_of_def Let_def sync_queue_def)
  moreover have "v_pc (view_of s) c = C_Waiting" using c by (simp add: view_of_def Let_def)
  ultimately show ?thesis using inv_timeout [of "view_of s" c] g by (simp add: sync_good_def)
qed

lemma PostSync_end_run:
  "run_state (PostSyncTask_end c w) h =
    (let x = lh_contexts h ! c
     in if w \<or> sc_done x then
          (sc_status x, h\<lparr>lh_waiterSems := (if w then lh_waiterSems h
              else (lh_waiterSems h)[sc_slot x := lh_waiterSems h ! sc_slot x - 1]),
            lh_waiterInUse := (lh_waiterInUse h)[sc_slot x := False]\<rparr>)
        else (TELEPHONY_ERR_IPC_CONNECT_STUB_FAIL,
          h\<lparr>lh_contexts := (lh_contexts h)[c := x\<lparr>sc_abandoned := True\<rparr>]\<rparr>))"
  by (simp add: PostSyncTask_end_def SemTake_def ReleaseWaiter_def Let_def)

lemma step_finish:
  assumes g: "sync_good s" and c: "ss_caller s c = C_Woken \<or> ss_caller s c = C_TimedOut"
    and r: "run_state (PostSyncTask_end c (ss_caller s c = C_Woken)) (ss_handler s) = (r, h)"
  shows "sync_good (s\<lparr>ss_handler := h, ss_caller := (ss_caller s)(c := C_Returned r)\<rparr>)" (is "sync_good ?t")
proof -
  let ?h = "ss_handler s" and ?v = "view_of s"
  let ?x = "lh_contexts ?h ! c"
  have b: "c < length (lh_contexts ?h)" "sc_slot ?x < length (lh_waiterSems ?h)"
    "lh_waiterSems ?h ! sc_slot ?x \<le> 1" "length (lh_waiterSems ?h) = length (lh_waiterInUse ?h)"
    using waiting_bound [OF g, of c] c g by (auto simp: blocked_def sync_good_def sync_wf_def)
  have pc: "v_pc ?v c = ss_caller s c" by (simp add: view_of_def Let_def)
  have dn: "v_done ?v c \<longleftrightarrow> sc_done ?x" using b by (simp add: view_of_def Let_def)
  have inv: "sync_inv ?v" and wf: "sync_wf ?h" using g by (auto simp: sync_good_def)
  show ?thesis
  proof (cases "ss_caller s c = C_Woken \<or> sc_done ?x")
    case True
    let ?w = "ss_caller s c = C_Woken"
    have h: "h = ?h\<lparr>lh_waiterSems := (if ?w then lh_waiterSems ?h
              else (lh_waiterSems ?h)[sc_slot ?x := 0]), lh_waiterInUse := (lh_waiterInUse ?h)[sc_slot ?x := False]\<rparr>"
      using r True b by (auto simp: PostSync_end_run Let_def)
    have "view_of ?t = ?v\<lparr>v_inUse := (v_inUse ?v)(v_slot ?v c := False), v_pc := (v_pc ?v)(c := C_Returned r),
        v_sem := (if v_pc ?v c = C_Woken then v_sem ?v else (v_sem ?v)(v_slot ?v c := False))\<rparr>"
      using b by (auto simp: view_of_def Let_def sync_queue_def h nth_list_update fun_eq_iff)
    moreover have "sync_wf h" using wf b by (auto simp: sync_wf_def h nth_list_update)
    ultimately show ?thesis using inv_finish [OF inv, of c r] c True pc dn by (auto simp: sync_good_def)
  next
    case False
    then have h: "h = ?h\<lparr>lh_contexts := (lh_contexts ?h)[c := ?x\<lparr>sc_abandoned := True\<rparr>]\<rparr>"
      using r by (auto simp: PostSync_end_run Let_def)
    have "view_of ?t = ?v\<lparr>v_abandoned := (v_abandoned ?v)(c := True), v_pc := (v_pc ?v)(c := C_Returned r)\<rparr>"
      using b by (auto simp: view_of_def Let_def sync_queue_def h nth_list_update fun_eq_iff)
    moreover have "sync_wf h" using wf b by (auto simp: sync_wf_def h nth_list_update)
    ultimately show ?thesis using inv_abandon [OF inv, of c r] c False pc dn by (auto simp: sync_good_def)
  qed
qed

lemma ran_irrelevant [simp]: "sync_good (s\<lparr>ss_ran := r\<rparr>) = sync_good s"
  by (simp add: sync_good_def view_of_def Let_def sync_queue_def)

lemma sync_step_good: "sync_step s t \<Longrightarrow> sync_good s \<Longrightarrow> sync_good t"
proof (induction rule: sync_step.induct)
  case (post task s r h) then show ?case by (intro step_post) auto
next
  case (post_async task s r h)
  then show ?case using Enqueue_same [of "ss_handler s" "ASYNC_TASK task"]
    by (intro same_calls_good) (auto simp: sync_good_def sync_wf_def)
next
  case (timer s r h)
  then show ?case using TimerExpired_same [of "ss_handler s"]
    by (intro same_calls_good) (auto simp: sync_good_def sync_wf_def)
next
  case (pop s m h) then show ?case by (intro step_pop)
next
  case (dispatch s m r h)
  then show ?case using step_dispatch [of s m r h] ran_irrelevant by (cases s) fastforce
next
  case (wake s c slot r h)
  then show ?case using step_wake [of s c h] by simp
next
  case (timeout s c) then show ?case by (intro step_timeout)
next
  case (finish s c w r h) then show ?case using step_finish [of s c r h] by auto
next
  case (stop s r h)
  then show ?case using Stop_begin_same [of "ss_handler s"] by (intro same_calls_good) auto
qed

lemma sync_init_good: "sync_init s \<Longrightarrow> sync_good s"
  by (auto simp: sync_init_def sync_good_def sync_wf_def ring_ok_def sync_inv_def slots_ok_def sems_ok_def
    ctxs_ok_def view_of_def Let_def sync_queue_def ring_items_def live_def signalled_def blocked_def inj_on_def)

lemma sync_reach_good: "sync_reach s \<Longrightarrow> sync_good s"
  by (induction rule: sync_reach.induct) (auto intro: sync_init_good sync_step_good)

section \<open>A successful answer is the caller's own\<close>

definition answers_ok :: "'t sync_sys \<Rightarrow> bool" where
  "answers_ok s \<longleftrightarrow> (let cs = lh_contexts (ss_handler s) in
    (\<forall>c < length cs. sc_done (cs ! c) \<and> sc_status (cs ! c) = TELEPHONY_SUCCESS \<longrightarrow> c \<in> ss_ran s) \<and>
    (\<forall>c. ss_caller s c = C_Returned TELEPHONY_SUCCESS \<longrightarrow>
       c < length cs \<and> sc_done (cs ! c) \<and> sc_status (cs ! c) = TELEPHONY_SUCCESS))"

lemma answers_same:
  "answers_ok s \<Longrightarrow> lh_contexts h = lh_contexts (ss_handler s) \<Longrightarrow> answers_ok (s\<lparr>ss_handler := h, ss_inflight := m\<rparr>)"
  by (simp add: answers_ok_def Let_def)

lemma same_calls_contexts: "same_calls h h' \<Longrightarrow> lh_contexts h' = lh_contexts h"
  by (simp add: same_calls_def)

lemma PopLocked_contexts [simp]: "lh_contexts (snd (run_state PopLocked h)) = lh_contexts h"
  by (simp add: PopLocked_def)

lemma Enqueue_contexts [simp]: "lh_contexts (snd (run_state (Enqueue m) h)) = lh_contexts h"
  by (simp add: Enqueue_def split: option.split)

lemma Post_contexts:
  "run_state (PostSyncTask_begin no_run False task) h = (r, h') \<Longrightarrow>
    (lh_contexts h' = lh_contexts h \<and> (\<exists>e. r = Inl e)) \<or>
    (\<exists>x. \<not> sc_done x \<and> lh_contexts h' = lh_contexts h @ [x] \<and> (r = Inr (length (lh_contexts h)) \<or> (\<exists>e. r = Inl e)))"
  by (auto simp: PostSyncTask_begin_def AcquireWaiter_run ReleaseWaiter_def case_prod_beta
    split: if_splits option.splits)

lemma dispatch_answers:
  assumes g: "sync_good s" and a: "answers_ok s" and m: "ss_inflight s = Some (SYNC_CALL c)"
    and st: "st = TELEPHONY_SUCCESS \<Longrightarrow> c \<in> R" and ran: "ss_ran s \<subseteq> R"
  shows "answers_ok (s\<lparr>ss_handler := snd (run_state (Complete c st) (ss_handler s)),
    ss_inflight := None, ss_ran := R\<rparr>)"
proof -
  have "c \<in> set (v_ids (view_of s))" using m by (simp add: view_of_def Let_def sync_queue_def)
  then have nd: "\<not> v_done (view_of s) c" and l: "live (view_of s) c"
    using g by (auto simp: sync_good_def sync_inv_def ctxs_ok_def)
  then have "c < v_next (view_of s)" using g by (auto simp: sync_good_def sync_inv_def ctxs_ok_def live_def)
  then have c: "c < length (lh_contexts (ss_handler s))" by (simp add: view_of_def Let_def)
  then have "\<not> sc_done (lh_contexts (ss_handler s) ! c)" using nd by (simp add: view_of_def Let_def)
  moreover have "lh_contexts (snd (run_state (Complete c st) (ss_handler s))) =
    (lh_contexts (ss_handler s))[c := (lh_contexts (ss_handler s) ! c)\<lparr>sc_status := st, sc_done := True\<rparr>]"
    using c by (simp add: Complete_run Let_def)
  ultimately show ?thesis using a st ran c by (auto simp: answers_ok_def Let_def nth_list_update)
qed

lemma step_answers: "sync_step s t \<Longrightarrow> sync_good s \<Longrightarrow> answers_ok s \<Longrightarrow> answers_ok t"
proof (induction rule: sync_step.induct)
  case (post task s r h)
  from Post_contexts [OF post(1)] post(3) show ?case
    by (auto simp: answers_ok_def Let_def nth_append less_Suc_eq split: if_splits)
next
  case (post_async task s r h)
  then have "lh_contexts h = lh_contexts (ss_handler s)" by (metis Enqueue_contexts snd_conv)
  with post_async show ?case by (simp add: answers_ok_def Let_def)
next
  case (timer s r h)
  then have "ring_wf (ss_handler s)" by (simp add: sync_good_def sync_wf_def)
  from same_calls_contexts [OF TimerExpired_same [OF this]] timer show ?case by (simp add: answers_ok_def Let_def)
next
  case (pop s m h)
  then have "lh_contexts h = lh_contexts (ss_handler s)" by (metis PopLocked_contexts snd_conv)
  with pop show ?case by (intro answers_same)
next
  case (dispatch s m r h)
  show ?case
  proof (cases m)
    case (SYNC_CALL c)
    let ?st = "if lh_state (ss_handler s) = STATE_RUNNING then TELEPHONY_SUCCESS else TELEPHONY_ERR_UNINIT"
    have "h = snd (run_state (Complete c ?st) (ss_handler s))"
      using dispatch(2) SYNC_CALL by (auto simp: Dispatch_def Recycle_def split: if_splits)
    then show ?thesis using dispatch SYNC_CALL
        dispatch_answers [of s c ?st "if lh_state (ss_handler s) = STATE_RUNNING then insert c (ss_ran s) else ss_ran s"]
      by (auto simp: subset_insertI)
  next
    case (ASYNC_TASK t)
    then have "h = ss_handler s" using dispatch(2) by (simp add: Dispatch_def Recycle_def split: if_splits)
    with dispatch ASYNC_TASK show ?thesis by (simp add: answers_ok_def Let_def)
  next
    case TIMER_FIRE
    have "lh_contexts h = lh_contexts (ss_handler s)"
      using dispatch(2) TIMER_FIRE
        same_calls_contexts [OF RunDue_same, of "(ss_handler s)\<lparr>lh_timerMessageQueued := False\<rparr>"]
      by (auto simp: Dispatch_def Recycle_def split: if_splits)
    with dispatch TIMER_FIRE show ?thesis by (simp add: answers_ok_def Let_def)
  qed
next
  case (wake s c slot r h)
  then show ?case by (auto simp: answers_ok_def Let_def SemTake_def)
next
  case (timeout s c) then show ?case by (auto simp: answers_ok_def Let_def)
next
  case (finish s c w r h)
  have c: "c < length (lh_contexts (ss_handler s))"
    using waiting_bound [of s c] finish by (auto simp: blocked_def)
  have "w = C_Woken \<Longrightarrow> sc_done (lh_contexts (ss_handler s) ! c)"
    using finish c by (auto simp: sync_good_def sync_inv_def ctxs_ok_def view_of_def Let_def)
  with finish c show ?case
    by (auto simp: answers_ok_def Let_def PostSync_end_run nth_list_update split: if_splits)
next
  case (stop s r h)
  from same_calls_contexts [OF Stop_begin_same, of "ss_handler s"] stop show ?case by (simp add: answers_ok_def Let_def) 
qed

lemma sync_reach_answers: "sync_reach s \<Longrightarrow> answers_ok s"
proof (induction rule: sync_reach.induct)
  case (init s) then show ?case by (simp add: sync_init_def answers_ok_def)
next
  case (step s t) then show ?case using step_answers sync_reach_good by blast
qed

section \<open>The properties of the protocol\<close>

text \<open>A concrete run for the witnesses: one slot, one synchronous call that the loop answers.\<close>

definition run_0 :: "nat sync_sys" where
  "run_0 = \<lparr>ss_handler =
      \<lparr>lh_config = \<lparr>cfg_queueSize = 1, cfg_maxDelayedTasks = 1, cfg_maxSyncWaiters = 1, cfg_hasLoopName = True,
         cfg_poster = None\<rparr>,
       lh_state = STATE_RUNNING, lh_ring = [None, None], lh_ringHead = 0, lh_ringCount = 0, lh_queueSem = 0,
       lh_posted = [], lh_delayed = [], lh_lastTaskId = 0, lh_timer = None, lh_timerMessageQueued = False,
       lh_waiterSems = [0], lh_waiterInUse = [False], lh_contexts = [], lh_now = 0, lh_tickFreq = 1000\<rparr>,
     ss_inflight = None, ss_caller = (\<lambda>_. C_Returned TELEPHONY_ERR_UNINIT), ss_ran = {}\<rparr>"

definition run_1 :: "nat sync_sys" where
  "run_1 = run_0\<lparr>ss_handler := snd (run_state (PostSyncTask_begin no_run False 7) (ss_handler run_0)),
     ss_caller := (ss_caller run_0)(0 := C_Waiting)\<rparr>"

definition run_2 :: "nat sync_sys" where
  "run_2 = run_1\<lparr>ss_handler := snd (run_state PopLocked (ss_handler run_1)),
     ss_inflight := Some (SYNC_CALL 0)\<rparr>"

definition run_3 :: "nat sync_sys" where
  "run_3 = run_2\<lparr>ss_handler := snd (run_state (Dispatch no_run (Some (SYNC_CALL 0))) (ss_handler run_2)),
     ss_inflight := None, ss_ran := {0}\<rparr>"

definition run_4 :: "nat sync_sys" where
  "run_4 = run_3\<lparr>ss_handler := snd (run_state (SemTake 0) (ss_handler run_3)),
     ss_caller := (ss_caller run_3)(0 := C_Woken)\<rparr>"

definition run_5 :: "nat sync_sys" where
  "run_5 = run_4\<lparr>ss_handler := snd (run_state (PostSyncTask_end 0 True) (ss_handler run_4)),
     ss_caller := (ss_caller run_4)(0 := C_Returned TELEPHONY_SUCCESS)\<rparr>"

lemmas run_defs = run_0_def run_1_def run_2_def run_3_def run_4_def run_5_def

lemma run_0_reach: "sync_reach run_0"
  by (rule sync_reach.init)
    (auto simp: sync_init_def run_0_def ring_ok_def ring_wf_def intro!: exI [of _ 1])

lemma run_1_step: "sync_step run_0 run_1"
  using sync_step.post [of 7 run_0 "Inr 0" "ss_handler run_1"]
  by (simp add: run_defs PostSyncTask_begin_def AcquireWaiter_def Enqueue_def)

lemma run_2_step: "sync_step run_1 run_2"
  using sync_step.pop [of run_1 "Some (SYNC_CALL 0)" "ss_handler run_2"]
  by (simp add: run_defs PostSyncTask_begin_def AcquireWaiter_def Enqueue_def PopLocked_def)

lemma run_3_step: "sync_step run_2 run_3"
  using sync_step.dispatch [of run_2 "SYNC_CALL 0" "()" "ss_handler run_3"]
  by (simp add: run_defs PostSyncTask_begin_def AcquireWaiter_def Enqueue_def PopLocked_def
    Dispatch_def Complete_def SemPost_def)

lemma run_4_step: "sync_step run_3 run_4"
  using sync_step.wake [of run_3 0 0 "()" "ss_handler run_4"]
  by (simp add: run_defs PostSyncTask_begin_def AcquireWaiter_def Enqueue_def PopLocked_def
    Dispatch_def Complete_def SemPost_def SemTake_def)

lemma run_5_step: "sync_step run_4 run_5"
  using sync_step.finish [of run_4 0 C_Woken TELEPHONY_SUCCESS "ss_handler run_5"]
  by (simp add: run_defs PostSyncTask_begin_def AcquireWaiter_def Enqueue_def PopLocked_def
    Dispatch_def Complete_def SemPost_def PostSync_end_run Let_def SemTake_def)

lemma run_5_reach: "sync_reach run_5"
  using run_0_reach run_1_step run_2_step run_3_step run_4_step run_5_step sync_reach.step by metis



text \<open>
  C14. Waiter slots are neither leaked nor shared: in every reachable state a slot is in use exactly
  when some caller still waits with it or abandoned a call on it that the loop has not reached, no
  two such calls hold the same slot, and the semaphore of a free slot is down.
\<close>

theorem sync_slots_exact:
  assumes "sync_reach s" and "i < length (lh_waiterInUse (ss_handler s))"
  shows "(lh_waiterInUse (ss_handler s) ! i \<longleftrightarrow> (\<exists>!c. live (view_of s) c \<and> v_slot (view_of s) c = i))
    \<and> (\<not> lh_waiterInUse (ss_handler s) ! i \<longrightarrow> lh_waiterSems (ss_handler s) ! i = 0)"
proof -
  have g: "sync_good s" by (rule sync_reach_good [OF assms(1)])
  then have A: "slots_ok (view_of s)" and B: "sems_ok (view_of s)"
    and len: "length (lh_waiterSems (ss_handler s)) = length (lh_waiterInUse (ss_handler s))"
    by (auto simp: sync_good_def sync_inv_def sync_wf_def)
  have u: "v_inUse (view_of s) i = lh_waiterInUse (ss_handler s) ! i"
    and m: "v_sem (view_of s) i = (lh_waiterSems (ss_handler s) ! i \<noteq> 0)"
    using assms(2) len by (simp_all add: view_of_def Let_def)
  show ?thesis
    using A B u m same_slot [OF A] signalled_live unfolding slots_ok_def sems_ok_def by metis
qed

theorem sync_slots_exact_witness:
  "\<not> lh_waiterInUse (ss_handler run_5) ! 0 \<and> lh_waiterSems (ss_handler run_5) ! 0 = 0"
  using sync_slots_exact [OF run_5_reach, of 0]
  by (simp add: run_defs PostSyncTask_begin_def AcquireWaiter_def Enqueue_def PopLocked_def
    Dispatch_def Complete_def SemPost_def PostSync_end_run Let_def SemTake_def)

end
