(* ===== verification/Demo.thy ===== *)
theory Demo
  imports Reachable
begin

text \<open>
  Concrete worlds and runs for the examples: a stack that accepts every command, a SIM in service, an
  audio implementation, a caller with every permission.
\<close>

definition demo_env :: env where
  "demo_env =
    \<lparr>e_hasStack = True, e_stackReply = (\<lambda>_. TELEPHONY_SUCCESS), e_emergency = (\<lambda>_. (TELEPHONY_SUCCESS, Some False)),
     e_hasCoreService = True, e_hasSimCard = (\<lambda>_. (TELEPHONY_SUCCESS, Some True)),
     e_inService = (\<lambda>_. (TELEPHONY_SUCCESS, Some True)), e_hasAudio = True, e_audioReply = (\<lambda>_. TELEPHONY_SUCCESS)\<rparr>"

definition demo_caller :: TrustModel where
  "demo_caller = \<lparr>tm_granted = Some ''ohos.permission.PLACE_CALL;ohos.permission.ANSWER_CALL;ohos.permission.SET_TELEPHONY_STATE'',
     tm_isSystemApp = True, tm_bundleName = Some ''app''\<rparr>"

definition demo_start :: "event list" where
  "demo_start = [E_Start True True TELEPHONY_SUCCESS True True, E_LoopTurn, E_RegisterCallBack demo_caller (Some 7)]"

definition demo_ready :: cm where
  "demo_ready = after demo_env 100 demo_start"

definition demo_extras :: PacMap where
  "demo_extras = PutIntValue ''callType'' 1 PacMap_empty"

text \<open>A report of the stack about a circuit-switched call of slot 0.\<close>

definition demo_report :: "int \<Rightarrow> TelCallState \<Rightarrow> CallReportInfo" where
  "demo_report index st =
    \<lparr>ri_index = index, ri_accountNum = [CHR ''1'', CHR ''2'', CHR 0x00], ri_accountId = 0, ri_callType = TYPE_CS,
     ri_callMode = TYPE_VOICE, ri_state = st, ri_voiceDomain = 0, ri_mpty = 0, ri_crsType = 0,
     ri_originalCallType = 0, ri_namePresentation = 0, ri_name = [], ri_reason = 0, ri_message = [],
     ri_newCallUseBox = 0, ri_imsDomain = 0, ri_phoneIndex = 0\<rparr>"

text \<open>A call comes in; the application hears of it.\<close>

definition demo_ringing :: cm where
  "demo_ringing = after demo_env 100 (demo_start @ [E_CallReport (demo_report 1 CALL_STATUS_INCOMING), E_LoopTurn])"

definition demo_active :: cm where
  "demo_active = after demo_env 100 (demo_start @ [E_CallReport (demo_report 1 CALL_STATUS_INCOMING), E_LoopTurn,
     E_CallReport (demo_report 1 CALL_STATUS_ACTIVE), E_LoopTurn, E_LoopTurn])"


definition demo_dialed :: cm where
  "demo_dialed = after demo_env 100 (demo_start @ [E_DialCall demo_caller [49, 50] demo_extras])"

section \<open>Running the model in the simplifier\<close>

text \<open>
  The congruence rules keep the simplifier out of what follows a statement until its result is
  known; \<open>exec\<close> unfolds the operations.
\<close>

lemma bind_weak: "m = m' \<Longrightarrow> State_Monad.bind m f = State_Monad.bind m' f"
  by simp

lemma whenM_weak: "b = b' \<Longrightarrow> whenM b m = whenM b' m"
  by simp

lemma for_each_weak: "xs = ys \<Longrightarrow> for_each xs m = for_each ys m"
  by simp

lemma demo_caller_simps [simp]:
  "CheckPermission demo_caller SET_TELEPHONY_STATE" "CheckPermission demo_caller PLACE_CALL"
  "CheckPermission demo_caller ANSWER_CALL" "IsSystemCaller demo_caller" "GetCallerBundleName demo_caller = ''app''"
  by (simp_all add: CheckPermission_iff IsSystemCaller_def GetCallerBundleName_def demo_caller_def
    SET_TELEPHONY_STATE_def PLACE_CALL_def ANSWER_CALL_def)

lemmas exec_defs =
  CallType_cast_def VideoStateType_cast_def DialScene_cast_def DialType_cast_def kMaxNumberLen_def
  kMaxBundleNameLen_def ERR_ID_def INVALID_CALLID_def MINI_QUEUE_SIZE_def MINI_SYNC_WAIT_MS_def
  MINI_MAX_SYNC_WAITERS_def MINI_MAX_CALL_OBJECTS_def MINI_ECC_RESERVED_CALL_OBJECTS_def
  MINI_MAX_DELAYED_TASKS_def MINI_PACMAP_MAX_ENTRIES_def MINI_SLOT_COUNT_def MINI_MAX_REPORTED_CALLS_def
  RINGING_CALL_NUMBER_LEN_def DIALING_CALL_NUMBER_LEN_def SLOT_NUM_def DialParaInfo_default_def FAILED_UNKNOWN_def
  CallDetailInfo_default_def CellularCallInfo_default_def CallEventInfo_default_def CallAttributeInfo_default_def
  is_dial_char_def is_post_dial_char_def IsValidSlotId_def SelectAccountId_def ListContains_def
  TrustModel_default_def PacMap_empty_def Put_def Find_def PutIntValue_def PutLongValue_def PutBooleanValue_def
  PutStringValue_def GetIntValue_def GetLongValue_def GetBooleanValue_def GetStringValue_def HasKey_def Remove_def
  IsEmpty_def GetSize_def pac_ok_def pac_room_def CS_CONFERENCE_MAX_CALLS_CNT_def ConferenceBase_init_def
  CsConference_init_def ImsConference_init_def SetMainCall_def SetConferenceState_def SetOldConferenceState_def
  GetSubCallIdList_def GetCallIdListForConference_def CsConference_JoinToConference_def
  CsConference_LeaveFromConference_def CsConference_HoldConference_def CsConference_CanCombineConference_def
  CsConference_CanSeparateConference_def CsConference_CanKickOutFromConference_def
  CsConference_UpdateConferenceId_def ImsConference_JoinToConference_def ImsConference_LeaveFromConference_def
  ImsConference_HoldConference_def ImsConference_CanCombineConference_def ImsConference_CanSeparateConference_def
  ImsConference_CanKickOutFromConference_def TEL_OS_WAIT_FOREVER_def TEL_OS_MAX_FINITE_TICKS_def
  TelOsMsToTicks_def TicksToMs_def IsDue_def DefaultConfig_def ReleaseObjects_def Init_def Enqueue_def
  PopLocked_def ArmTimerLocked_def OnTimerExpired_def TimerExpired_def NextTaskId_def PostAsyncTask_def
  RemoveAsyncTask_def RunDueTasks_def AcquireWaiter_def ReleaseWaiter_def SemPost_def SemTake_def
  PostSyncTask_begin_def PostSyncTask_end_def Complete_def Recycle_def Dispatch_def RunLoop_turn_def
  RunLoop_exit_def Stop_begin_def Stop_end_def CarrierCall_new_def CarrierCall_in_def CarrierCall_out_def
  DialCallBase_def IncomingCallBase_def IsCurrentRinging_def AnswerCallBase_def RejectCallBase_def
  GetCallAttributeBaseInfo_def StateChangesToDialing_def StateChangesToIncoming_def StateChangesToWaiting_def
  StateChangesToActive_def StateChangesToHolding_def StateChangesToDisconnected_def
  StateChangesToDisconnecting_def StateChangesToAlerting_def SetTelCallState_def IsAliveState_def
  POLICY_FLAG_HANG_UP_HOLD_WAIT_def POLICY_FLAG_HANG_UP_ACTIVE_def SetPolicyFlag_def GetCallAttributeInfo_def
  GetEmergencyState_def IsSupportConferenceable_def CarrierCall_PackCellularCallInfo_def helper_init_def
  audio_init_def call_SetTelCallState_def calls_def table_limit_def AddOneCallObject_def DeleteOneCallObject_def
  DeleteOneCallObject_ptr_def GetNewCallId_def UpdateOneCallObjectByCallId_def first_call_def last_call_def
  any_call_def count_calls_def GetOneCallObject_def GetOneCallObject_number_def GetOneCallObject_state_def
  GetOneCarrierCallObject_def GetOneCallObjectByIndex_def GetDialingCall_table_def
  GetOneCallObjectByIndexAndSlotId_def GetOneCallObjectByIndexSlotIdAndCallType_def IsCallExist_def
  IsCallExist_number_def IsCallExist_type_state_def IsCallExist_state_def IsCallExist_state_id_def
  IsConferenceCallExist_def HasActivedCallExist_def GetCallState_table_def is_new_def HasNewCall_def
  is_carrier_def GetCarrierCallList_def GetCurrentCallNum_def IsNewCallAllowedCreate_def
  GetCallNumByRunningState_def HasRingingMaximum_def HasDialingMaximum_def HasEmergencyCall_def HasCallExist_def
  GetAllCallList_def HasCellularCallExist_def HasIncomingCallCrsType_def HasVideoCall_def
  HasSatelliteCallExist_def GetSatelliteCallList_def HasRingingCall_def HasHoldCall_def GetCallNum_def
  GetCallNumber_def GetCallInfoList_def GetAllCallInfoList_def GetForegroundCall_def GetForegroundLiveCall_def
  GetIncomingCall_def GetAudioLiveCall_def GetForegroundLiveCallByCallId_def Conn_Dial_def Conn_HangUp_def
  Conn_Reject_def Conn_Answer_def Conn_HoldCall_def Conn_UnHoldCall_def Conn_SwitchCall_def
  Conn_HangUpAllConnection_def Conn_IsEmergencyPhoneNumber_def NotSupported_def HasSimCard_def
  IsNetworkInService_def OnStackReady_def AddReadyListener_def RemoveReadyListener_def Registry_Register_def
  Conn_Init_def Conn_UnInit_def RegisterCallbackOnLoop_def refused_as_def CarrierAnswerCall_def
  CarrierRejectCall_def hang_up_type_def CarrierHangUpCall_def CarrierHoldCall_def CarrierUnHoldCall_def
  CarrierSwitchCall_def CarrierDialingProcess_def call_AnswerCall_def getConference_def
  CSCall_LaunchConference_def IMSCall_LaunchConference_def call_LaunchConference_def CSCall_ExitConference_def
  IMSCall_ExitConference_def call_ExitConference_def CSCall_HoldConference_def IMSCall_HoldConference_def
  call_HoldConference_def combine_failed_def call_HandleCombineConferenceFailEvent_def
  CSCall_UpdateConferenceId_def Unavailable_def StartRingtone_def StopRingtone_def PlayWaitingTone_def
  StopWaitingTone_def SetCallAudioActive_def ReleaseAll_def Audio_Init_def Audio_UnInit_def
  Audio_CallStateUpdated_def Audio_IncomingCallHungUp_def Report_RegisterCallBack_def
  Report_UnRegisterCallBack_def Report_UnRegisterCallBack_ptr_def ReportCallStateInfo_def
  ReportCallStateInfo_bundle_def ReportCallEvent_def cut_post_dial_def reported_info_def
  Report_CallStateUpdated_def Report_CallEventUpdated_def Report_CallDestroyed_def AddOneObserver_def
  RemoveOneObserver_def RemoveAllObserver_def to_observers_def Listener_NewCallCreated_def
  Listener_IncomingCallActivated_def Listener_CallDestroyed_def Listener_CallStateUpdated_def
  Listener_IncomingCallHungUp_def Listener_CallEventUpdated_def DELAY_TIME_MS_def IsDialingCallProcessing_def
  RestoreDialingFlag_def RemoveEventHandlerTask_def SetDialingCallProcessing_def RestoreDialingFlag_task_def
  SetPendingMo_def HasPendingMo_def IsPendingHangup_def GetPendingHangupCallId_def SetPendingHangup_def
  HasPendingHangup_def NotifyNewCallCreated_def NotifyCallDestroyed_def NotifyCallStateUpdated_def
  NotifyIncomingCallAnswered_def NotifyIncomingCallRejected_def NotifyCallEventUpdated_def GetDialParaInfo_def
  GetDialParaInfo_extras_def RemovePendingHangupProtectTask_def INIT_INDEX_def WATCH_DIAL_def
  CallDetailsInfo_init_def status_init_def getStatus_def onStatus_def SetNeedWaitHold_def UpdateCallState_def
  ClearPendingState_def or32_def SetOriginalCallTypeForActiveState_def SetOriginalCallTypeForDisconnectState_def
  to_lower_def CS_CALL_ANSWERED_ELSEWHER_def ANSWERED_ELSEWHER_def RefreshCallDisconnectReason_def
  PackParaInfo_def CreateNewCallByCallType_def CreateNewCall_def take_over_def RefreshCall_fill_def
  RefreshCall_def RefreshCallIfNecessary_def reported_call_def UpdateDialingCallInfo_def UpdateDialingHandle_def
  DialingHandle_new_def DialingHandle_def RefreshDialingStateByOtherState_def reported_or_dialed_def
  GetConferenceCallList_def SetConferenceCall_def ActiveHandle_def UpdateCallStateAndHandleDsdsMode_def
  HoldingHandle_def AlertHandle_def DisconnectingHandle_def IsCanUnHold_def HandleHoldCallOrAutoAnswerCall_def
  HandleDialWhenHolding_def call_GetSubCallIdList_def Disconnected_update_def Disconnected_finish_def
  DisconnectedHandle_with_def disconnect_report_def ReportCallDisconnected_with_def DisconnectedHandle_inner_def
  DisconnectedHandle_def ReportCallDisconnected_def DealFailDial_def RefreshOldCall_def PrepareIncomingCall_def
  HandleRejectCall_def DialingHandlePolicy_def FilterResultsDispose_def FinalizeIncomingState_def
  IncomingHandle_def WaitingHandle_def HandleCallReportInfoEx_def HandleCallReportInfo_def
  UpdateCallDetailsInfo_def report_changed_def handled_reports_def HandleCallsReportInfo_def
  HandleDisconnectedCause_def EVENT_REQUEST_RESULT_TYPE_def mEventIdTransferMap_def
  HandleEventResultReportInfo_def StatusManager_Init_def ReportHandler_Init_def ReportHandler_UnInit_def
  whenStatus_def UpdateCallReportInfo_def UpdateCallsReportInfo_def DISCONNECTED_REASON_NORMAL_def
  NORMAL_CALL_CLEARING_def UpdateDisconnectedCause_def UpdateEventResultInfo_def CheckDialType_def
  IsDialingEnable_def CheckMdmPolicy_def SelectAccountIdForCarrier_def IsValidCallType_def ValidateCallType_def
  ValidateDialScene_def ValidateVideoState_def CheckCallLimit_def GetAirplaneMode_def HasNormalCall_def
  SuperPrivacyMode_def DialPolicy_def CanDialMulityCall_def IsSupportVideoCall_def IsVoiceCallValid_def
  ring_policy_def AnswerCallPolicy_def RejectCallPolicy_def HoldCallPolicy_def UnHoldCallPolicy_def
  HangUpPolicy_def onlyTwoCall_def SwitchCallPolicy_def IsValidSlotId_policy_def with_call_def
  AnswerRequestForDsda_def AnswerRequest_def RejectRequest_def HangUpForDsdaRequest_def hang_up_flag_def
  HangUpRequest_def HoldRequest_def IsExistCallOtherSlot_def UnHoldRequest_def SwitchRequest_def
  CheckNumberIsEmergency_def ecc_action_for_def EccDialPolicy_def HandleEccCallForDsda_def HandleDialingInfo_def
  dial_report_def Process_UpdateCallReportInfo_def Process_PackCellularCallInfo_def GetDialingCall_def
  HandleDialFail_def HandleStartDial_def dial_given_up_def CarrierDialProcess_def HandleDialRequest_def
  DialRequest_def Handler_DialCall_def Handler_AnswerCall_def Handler_RejectCall_def Handler_HangUpCall_def
  Handler_HoldCall_def Handler_UnHoldCall_def Handler_SwitchCall_def whenHandler_def Control_Init_def
  Control_UnInit_def NumberLegalityCheck_def SetCallTypeExtras_def CanDial_def PackageDialInformation_def
  DialCall_def GetRingCall_def HandlerAnswerCall_def AnswerCall_def RejectCall_def PENDINGHANGUP_DELAY_TIME_MS_def
  PostPendingHangupProtectTask_def PendingHangupProtect_task_def hang_up_order_def HangUpCall_def GetCallState_def
  HoldCall_def UnHoldCall_def SwitchCall_def HasCall_def IsNewCallAllowed_def IsRinging_def HasEmergency_def
  IsEmergencyPhoneNumber_def end_call_order_def EndCall_def Guard_IsValidSlot_def IsReportedState_def
  IsCarrierCallType_def IsVideoState_def IsTerminated_def IsValidReport_def PostToLoop_def
  Guard_UpdateCallReportInfo_def Guard_UpdateCallsReportInfo_def Guard_UpdateDisconnectedCause_def
  Guard_UpdateEventResultInfo_def Guard_UpdateRBTPlayInfo_def copied_number_def single_detail_def batch_detail_def
  Callback_UpdateCallReportInfo_def Callback_UpdateCallsReportInfo_def Callback_UpdateDisconnectedCause_def
  Callback_UpdateEventResultInfo_def Callback_UpdateRBTPlayInfo_def MANAGE_CALL_FOR_DEVICES_def
  GET_CALL_TRANSFER_INFO_def SEND_MESSAGES_def ACCOUNT_NUMBER_MAX_LENGTH_def CheckSetTelephonyStatePermission_def
  CheckCallerIsSystemApp_def GetBundleInfo_def whenControl_def BuildDialInfo_def Service_Init_def
  Service_UnInit_def Service_RegisterCallBack_def Service_UnRegisterCallBack_def
  Service_ObserverOnCallDetailsChange_def Service_DialCall_def Service_AnswerCall_def Service_RejectCall_def
  Service_HangUpCall_def Service_GetCallState_def Service_HoldCall_def Service_UnHoldCall_def
  Service_SwitchCall_def Service_HasCall_def Service_IsNewCallAllowed_def Service_IsRinging_def
  Service_IsEmergencyPhoneNumber_def Service_EndCall_def Service_AnswerCall_device_def
  Service_RejectCall_device_def Service_HangUpCall_device_def tell_app_def dispatch_def loop_turn_def
  loop_stop_def CallManagerServiceMiniStart_def CallManagerServiceMiniStop_def loop_init_def cm_init_def after_def

lemma demo_number [simp]: "Str16ToStr8 [49, 50] = ''12''" "Str8ToStr16 ''12'' = [49, 50]"
    "RemoveSeparatorsPhoneNumber ''12'' = ''12''"
proof -
  have "encode8 [49, 50] = ''12''" "encode16 [49, 50] = [49, 50]"
    by (simp_all add: encode8_def encode16_def Utf8_of_def Utf16_of_def utf_constants char_of_def bit_0)
  moreover have "\<forall>cp \<in> set [49, 50]. scalar cp" by (simp add: scalar_def utf_constants)
  ultimately show "Str16ToStr8 [49, 50] = ''12''" "Str8ToStr16 ''12'' = [49, 50]"
    using Str16ToStr8_loop_encode [of "[49, 50]" "[]"] Str8ToStr16_loop_encode [of "[49, 50]" "[]"]
    by (simp_all add: Str16ToStr8_def Str8ToStr16_def)
  show "RemoveSeparatorsPhoneNumber ''12'' = ''12''"
    by (simp add: is_dial_char_def less_eq_char_def)
qed

lemmas exec_cong = bind_weak whenM_weak for_each_weak let_weak_cong

lemmas exec = exec_defs Let_def demo_env_def demo_start_def demo_extras_def demo_report_def post_def wrap32_def

section \<open>The example states\<close>

lemma demo_states_reachable:
  "cm_reach demo_env 100 demo_ready" "cm_reach demo_env 100 demo_ringing" "cm_reach demo_env 100 demo_active"
  "cm_reach demo_env 100 demo_dialed"
  unfolding demo_ready_def demo_ringing_def demo_active_def demo_dialed_def by (rule reach_after)+

lemma demo_ringing_run:
  "let s = demo_ringing in cm_callList s = [0] \<and> cb_callId (cm_heap s 0) = 1 \<and>
     cb_callState (cm_heap s 0) = CALL_STATUS_INCOMING \<and> cb_callRunningState (cm_heap s 0) = CALL_RUNNING_STATE_RINGING \<and>
     cm_stackOut s = [SC_RegisterCallback] \<and> cm_audioOut s = [AC_StartRingtone] \<and> cm_status s \<noteq> None \<and>
     cc_index (cm_heap s 0) = 1 \<and> cc_slotId (cm_heap s 0) = 0 \<and> cb_callType (cm_heap s 0) = TYPE_CS \<and>
     \<not> cc_isEcc (cm_heap s 0) \<and> cm_requestHandler s \<and> lh_state (cm_loop s) = STATE_RUNNING"
  by (simp add: exec demo_ringing_def cong: exec_cong)

lemma demo_active_run:
  "let s = demo_active in cm_callList s = [0] \<and> cb_callId (cm_heap s 0) = 1 \<and>
     cb_callState (cm_heap s 0) = CALL_STATUS_ACTIVE \<and> cb_callRunningState (cm_heap s 0) = CALL_RUNNING_STATE_ACTIVE \<and>
     cm_stackOut s = [SC_RegisterCallback] \<and> au_callAudioActive (cm_audio s) \<and> cm_status s \<noteq> None \<and>
     cc_index (cm_heap s 0) = 1 \<and> cc_slotId (cm_heap s 0) = 0 \<and> cb_callType (cm_heap s 0) = TYPE_CS \<and>
     \<not> cc_isEcc (cm_heap s 0) \<and> cm_requestHandler s \<and> lh_state (cm_loop s) = STATE_RUNNING"
  by (simp add: exec demo_active_def cong: exec_cong)

lemma demo_dialed_run:
  "let s = demo_dialed in cm_callList s = [0] \<and> cb_callId (cm_heap s 0) = 1 \<and>
     cb_callState (cm_heap s 0) = CALL_STATUS_DIALING \<and> cb_callRunningState (cm_heap s 0) = CALL_RUNNING_STATE_DIALING \<and>
     length (cm_stackOut s) = 4 \<and> hp_pendingMo (cm_helper s) \<and> hp_pendingMoCallId (cm_helper s) = 1"
  by (simp add: exec demo_dialed_def cong: exec_cong)

lemmas demo_runs [simp] = demo_ringing_run [unfolded Let_def] demo_active_run [unfolded Let_def]
  demo_dialed_run [unfolded Let_def]

end
