(* ===== verification/Loop_Progress.thy ===== *)
theory Loop_Progress
  imports Onward Sync_Calls Demo
begin

text \<open>
  A task that is in the queue of the main loop is run, in its turn, whatever else happens meanwhile, unless the loop is
  stopped: the second instance of \<open>progress\<close>, with the queue as the measure.
\<close>

section \<open>The queue only grows while a task runs\<close>

definition grows :: "'t LosEventHandler \<Rightarrow> 't LosEventHandler \<Rightarrow> bool" where
  "grows h h' \<longleftrightarrow> (ring_ok h \<longrightarrow> ring_ok h' \<and> prefix (ring_items h) (ring_items h'))"

definition feeds :: "cm \<Rightarrow> cm \<Rightarrow> bool" where
  "feeds s t \<longleftrightarrow> grows (cm_loop s) (cm_loop t)"

lemma grows_refl [simp]: "grows h h"
  by (simp add: grows_def)

lemma grows_trans: "grows h h' \<Longrightarrow> grows h' h'' \<Longrightarrow> grows h h''"
  unfolding grows_def by (auto intro: prefix_order.trans)

lemma grows_fields [simp]:
  "grows h (h'\<lparr>lh_timer := a\<rparr>) = grows h h'" "grows h (h'\<lparr>lh_timerMessageQueued := b\<rparr>) = grows h h'"
  "grows h (h'\<lparr>lh_delayed := d\<rparr>) = grows h h'" "grows h (h'\<lparr>lh_waiterInUse := f\<rparr>) = grows h h'"
  "grows h (h'\<lparr>lh_waiterSems := g\<rparr>) = grows h h'" "grows h (h'\<lparr>lh_contexts := k\<rparr>) = grows h h'"
  "grows h (h'\<lparr>lh_queueSem := q\<rparr>) = grows h h'"
  by (simp_all add: grows_def ring_ok_def)

lemma grows_clock [simp]:
  "grows h (h'\<lparr>lh_now := a\<rparr>) = grows h h'" "grows h (h'\<lparr>lh_lastTaskId := i\<rparr>) = grows h h'"
  by (simp_all add: grows_def ring_ok_def ring_wf_def ring_items_def ring_at_def)

lemma grows_Arm [simp]: "grows h (snd (run_state ArmTimerLocked h')) = grows h h'"
  by (simp add: ArmTimerLocked_def Let_def split: list.split)

lemma grows_Enqueue: "grows h (snd (run_state (Enqueue m) h))"
  by (simp add: grows_def Enqueue_ok Enqueue_items)

lemma grows_PostAsync: "grows h (snd (run_state (PostAsyncTask task delay) h))"
  by (simp add: PostAsyncTask_def case_prod_beta grows_Enqueue Let_def)

lemma grows_Remove: "grows h (snd (run_state (RemoveAsyncTask i) h))"
  by (simp add: RemoveAsyncTask_def case_prod_beta Let_def split: option.split)

lemma grows_Expired: "grows h (snd (run_state TimerExpired h))"
proof -
  have "grows h (snd (run_state (Enqueue m) (h\<lparr>lh_timer := a, lh_timerMessageQueued := b\<rparr>)))" for m b a
    using grows_Enqueue [of "h\<lparr>lh_timer := a, lh_timerMessageQueued := b\<rparr>" m] by (simp add: grows_def ring_ok_def)
  then show ?thesis
    using grows_Enqueue
    by (simp add: TimerExpired_def OnTimerExpired_def case_prod_beta)
qed

interpretation queue: progress feeds
proof unfold_locales
  show "feeds s t" if "cm_loop t = cm_loop s" for s t using that by (simp add: feeds_def)
  show "feeds s u" if "feeds s t" "feeds t u" for s t u using that unfolding feeds_def by (rule grows_trans)
qed (simp_all add: along_def feeds_def grows_PostAsync grows_Remove)

lemma feeds_onLoop: "(\<And>h. grows h (snd (run_state m h))) \<Longrightarrow> along feeds (onLoop m)"
  by (simp add: along_def feeds_def)

section \<open>A turn of the loop\<close>

lemma feeds_dispatch: "along feeds (dispatch run_task message)"
proof -
  have due: "along feeds (onLoop (RunDueTasks (\<lambda>_. ret ())))"
    by (rule feeds_onLoop) (simp add: RunDueTasks_def case_prod_beta)
  have complete: "along feeds (onLoop (Complete c r))" for c r
    by (rule feeds_onLoop) (simp add: Complete_def ReleaseWaiter_def SemPost_def)
  have mark: "along feeds (onLoop (modify (\<lambda>h. h\<lparr>lh_timerMessageQueued := b\<rparr>)))" for b
    by (rule feeds_onLoop) simp
  have recycle: "along feeds (onLoop (Recycle x))" for x
    by (rule feeds_onLoop) (simp add: Recycle_def Complete_def ReleaseWaiter_def SemPost_def split: LosEventMessage.split)
  show ?thesis
    unfolding dispatch_def
    by (cases message; simp split: LosEventMessage.split; intro allI conjI impI along due complete mark recycle)
qed

text \<open>An event that neither takes a turn nor starts or stops the loop.\<close>

fun beside :: "event \<Rightarrow> bool" where
  "beside E_LoopTurn = False"
| "beside (E_Start _ _ _ _ _) = False"
| "beside (E_Stop _ _ _ _) = False"
| "beside _ = True"

lemma feeds_beside: "beside ev \<Longrightarrow> along feeds (handle ev)"
proof (cases ev)
  case (E_RegisterCallBack tm k)
  then show ?thesis
    by (cases k) (auto simp: along_def feeds_def Service_RegisterCallBack_def Report_RegisterCallBack_def)
next
  case E_TimerExpired
  then show ?thesis by (auto intro!: along feeds_onLoop grows_Expired)
next
  case (E_Time d n)
  then show ?thesis by (auto simp: along_def feeds_def)
qed (simp_all only: handle.simps beside.simps; (intro along; fail)?; simp)+

lemma turn_takes_first:
  assumes "ring_ok (cm_loop s)" and "ring_items (cm_loop s) = x # xs"
  obtains t where "run_state (loop_turn run_task) s = run_state (dispatch run_task (Some x)) t"
    and "ring_ok (cm_loop t)" and "ring_items (cm_loop t) = xs"
proof -
  let ?h = "(cm_loop s)\<lparr>lh_queueSem := lh_queueSem (cm_loop s) - 1\<rparr>"
  have h: "ring_ok ?h" "ring_items ?h = x # xs" using assms by (simp_all add: ring_ok_def)
  obtain m h' where pop: "run_state PopLocked ?h = (m, h')" by fastforce
  from PopLocked_items_ok [OF h] PopLocked_ok [OF h(1)] have "m = Some x" "ring_items h' = xs" "ring_ok h'"
    by (simp_all only: pop fst_conv snd_conv option.inject)
  moreover have "run_state (loop_turn run_task) s = run_state (dispatch run_task m) (s\<lparr>cm_loop := h'\<rparr>)"
    by (simp add: loop_turn_def pop [simplified])
  ultimately show ?thesis by (intro that [of "s\<lparr>cm_loop := h'\<rparr>"]) simp_all
qed

lemma queue_after:
  assumes "ring_ok (cm_loop s)" and "prefix xs (ring_items (cm_loop s))"
    and "\<forall>ev \<in> set evs. beside ev \<or> ev = E_LoopTurn" and "length (filter (\<lambda>ev. ev = E_LoopTurn) evs) \<le> length xs"
  shows "ring_ok (cm_loop (snd (run_state (for_each evs handle) s))) \<and>
    prefix (drop (length (filter (\<lambda>ev. ev = E_LoopTurn) evs)) xs) (ring_items (cm_loop (snd (run_state (for_each evs handle) s))))"
  using assms
proof (induction evs arbitrary: s xs)
  case (Cons ev evs)
  let ?t = "snd (run_state (handle ev) s)"
  show ?case
  proof (cases "ev = E_LoopTurn")
    case True
    with Cons.prems(4) obtain x ys where xs: "xs = x # ys" by (cases xs) auto
    with Cons.prems(2) obtain zs where items: "ring_items (cm_loop s) = x # ys @ zs" by (auto simp: prefix_def)
    from turn_takes_first [OF Cons.prems(1) items] obtain u
      where u: "run_state (loop_turn run_task) s = run_state (dispatch run_task (Some x)) u" "ring_ok (cm_loop u)"
        "ring_items (cm_loop u) = ys @ zs" .
    have "feeds u ?t" using alongD [OF feeds_dispatch] by (simp add: True u(1))
    with u have t: "ring_ok (cm_loop ?t)" "prefix ys (ring_items (cm_loop ?t))"
      by (auto simp: feeds_def grows_def intro: prefix_order.trans dest: append_prefixD)
    from Cons.IH [OF t] Cons.prems(3,4) True xs show ?thesis by (simp add: case_prod_beta)
  next
    case False
    with Cons.prems(3) have "feeds s ?t" using alongD [OF feeds_beside] by auto
    with Cons.prems have t: "ring_ok (cm_loop ?t)" "prefix xs (ring_items (cm_loop ?t))"
      by (auto simp: feeds_def grows_def intro: prefix_order.trans dest: append_prefixD)
    from Cons.IH [OF t] Cons.prems(3,4) False show ?thesis by (simp add: case_prod_beta)
  qed
qed simp

section \<open>Liveness\<close>

text \<open>C8. A task in the queue is run in its turn: when so many turns of the loop have passed as there are messages before
  it, whatever applications, the stack and the timer did in between, the next turn runs it, and what was queued
  behind it is still there. Only a stop of the loop takes this away.\<close>
theorem queued_task_runs:
  assumes "ring_ok (cm_loop s)" and "ring_items (cm_loop s) = before @ ASYNC_TASK task # behind"
    and "\<forall>ev \<in> set evs. beside ev \<or> ev = E_LoopTurn" and "length (filter (\<lambda>ev. ev = E_LoopTurn) evs) = length before"
  shows "\<exists>t. run_state (for_each (evs @ [E_LoopTurn]) handle) s = run_state (run_task task) t \<and>
    prefix behind (ring_items (cm_loop t)) \<and> prefix behind (ring_items (cm_loop (snd (run_state (run_task task) t))))"
proof -
  let ?u = "snd (run_state (for_each evs handle) s)"
  from queue_after [OF assms(1) _ assms(3), of "ring_items (cm_loop s)"] assms(2,4)
  have ok: "ring_ok (cm_loop ?u)" and "prefix (ASYNC_TASK task # behind) (ring_items (cm_loop ?u))" by simp_all
  then obtain more where items: "ring_items (cm_loop ?u) = ASYNC_TASK task # behind @ more" by (auto simp: prefix_def)
  from turn_takes_first [OF ok items] obtain t
    where t: "run_state (loop_turn run_task) ?u = run_state (dispatch run_task (Some (ASYNC_TASK task))) t"
      "ring_ok (cm_loop t)" "ring_items (cm_loop t) = behind @ more" .
  have "run_state (dispatch run_task (Some (ASYNC_TASK task))) t = run_state (run_task task) t"
    using t(2) by (simp add: dispatch_def ring_ok_def)
  moreover have "feeds t (snd (run_state (run_task task) t))" by (intro alongD along)
  moreover have "run_state (for_each (evs @ [E_LoopTurn]) handle) s = run_state (loop_turn run_task) ?u"
    by (simp add: for_each_append case_prod_beta)
  ultimately show ?thesis
    using t by (intro exI [of _ t]) (auto simp: feeds_def grows_def intro: prefix_order.trans dest: append_prefixD)
qed

definition demo_started :: cm where
  "demo_started = after demo_env 100 [E_Start True True TELEPHONY_SUCCESS True True]"

lemma demo_started_run:
  "let s = demo_started in ring_ok (cm_loop s) \<and> ring_items (cm_loop s) = [ASYNC_TASK T_RegisterCallbackOnLoop]"
  by (simp add: exec demo_started_def ring_ok_def ring_wf_def ring_items_def ring_at_def cong: exec_cong)

theorem queued_task_runs_witness:
  "\<exists>t. run_state (for_each [E_CallReport (demo_report 1 CALL_STATUS_INCOMING), E_LoopTurn] handle) demo_started =
     run_state (run_task T_RegisterCallbackOnLoop) t"
  using queued_task_runs [of demo_started "[]" T_RegisterCallbackOnLoop "[]"
      "[E_CallReport (demo_report 1 CALL_STATUS_INCOMING)]"] demo_started_run [unfolded Let_def]
  by (auto simp only: append.simps list.set filter.simps) auto

end
