(* ===== verification/Table_Properties.thy ===== *)
theory Table_Properties
  imports Demo
begin

text \<open>
  Properties of the call table and of the call objects, in every state that can be reached and
  operation by operation.
\<close>

section \<open>Every reachable state\<close>

text \<open>C1. Whatever the applications ask for, whatever the stack reports and however the timer fires: the ids in
  the call table are distinct, it holds at most \<open>MINI_MAX_CALL_OBJECTS\<close> calls, and at most all but the reserved
  ones of them are not emergency calls.\<close>
theorem reachable_table_ok:
  assumes "cm_reach e k s"
  shows "distinct (map cb_callId (calls s)) \<and> length (cm_callList s) \<le> 5 \<and>
    length (filter (\<lambda>c. \<not> GetEmergencyState c) (calls s)) \<le> 4"
  using reach_inv [OF assms]
  by (simp add: inv_def table_ok_def MINI_MAX_CALL_OBJECTS_def MINI_ECC_RESERVED_CALL_OBJECTS_def)

theorem reachable_table_ok_witness:
  "map cb_callId (calls demo_ringing) = [1] \<and> length (cm_callList demo_ringing) \<le> 5 \<and>
   distinct (map cb_callId (calls demo_ringing))"
  using reachable_table_ok [OF demo_states_reachable(2)] by (simp add: calls_def)

text \<open>C2. The running state of every call that was set up agrees with the state last reported for it: a ringing call
  was reported incoming or waiting, an active one active, and so on.\<close>
theorem reachable_states_agree:
  assumes "cm_reach e k s" and "c \<in> set (calls s)"
    and "cb_callRunningState c \<noteq> CALL_RUNNING_STATE_CREATE" and "cb_callRunningState c \<noteq> CALL_RUNNING_STATE_CONNECTING"
  shows "\<forall>r. running_state (cb_callState c) = Some r \<longrightarrow> cb_callRunningState c = r"
proof -
  have "\<forall>a. call_ok (cm_heap s a)" using reach_inv [OF assms(1)] by (simp add: inv_def)
  then have "coherent c" using assms(2) by (auto simp: calls_def call_ok_def)
  then show ?thesis using assms(3,4) by (simp add: coherent_def)
qed

theorem reachable_states_agree_witness:
  "cb_callState (cm_heap demo_active 0) = CALL_STATUS_ACTIVE \<and>
   cb_callRunningState (cm_heap demo_active 0) = CALL_RUNNING_STATE_ACTIVE"
  using reachable_states_agree [OF demo_states_reachable(3), of "cm_heap demo_active 0"] by (simp add: calls_def)

text \<open>C31. No conference can ever be launched: in every reachable state the launch for any call is refused, no call
  object is in an active conference, and the IMS conference has no member.\<close>
theorem conference_never_starts:
  assumes "cm_reach e k s"
  shows "fst (run_state (call_LaunchConference a) s) = CALL_ERR_ILLEGAL_CALL_OPERATION \<and>
    cb_conferenceState (cm_heap s a) \<noteq> TEL_CONFERENCE_ACTIVE \<and> cf_subCallIdSet (cm_imsConference s) = {}"
proof -
  have i: "inv {} s" using assms by (rule reach_inv)
  then have "ims_idle (cm_imsConference s)" and "conference_free (cm_heap s a)"
    by (simp_all add: inv_def call_ok_def)
  then show ?thesis
    by (cases "cb_class (cm_heap s a)")
      (auto simp: call_LaunchConference_def CSCall_LaunchConference_refused IMSCall_LaunchConference_refused
        conference_free_def ims_idle_def)
qed

theorem conference_never_starts_witness:
  "cb_callState (cm_heap demo_active 0) = CALL_STATUS_ACTIVE \<and>
   fst (run_state (call_LaunchConference 0) demo_active) = CALL_ERR_ILLEGAL_CALL_OPERATION"
  using conference_never_starts [OF demo_states_reachable(3), of 0] by simp

section \<open>Adding, removing, finding\<close>



text \<open>Deleting an id from a table with distinct ids removes exactly the call with this id: it is not found any
  more, every other call is, in the same order.\<close>
theorem DeleteOneCallObject_spec:
  assumes "distinct (map cb_callId (calls s))"
  shows "snd (run_state (DeleteOneCallObject callId) s) =
      s\<lparr>cm_callList := filter (\<lambda>a. cb_callId (cm_heap s a) \<noteq> callId) (cm_callList s)\<rparr> \<and>
    GetOneCallObject callId (snd (run_state (DeleteOneCallObject callId) s)) = None \<and>
    (other \<noteq> callId \<longrightarrow> GetOneCallObject other (snd (run_state (DeleteOneCallObject callId) s)) = GetOneCallObject other s)"
proof -
  have drop: "distinct (map g xs) \<Longrightarrow>
      takeWhile (\<lambda>a. g a \<noteq> callId) xs @ tl (dropWhile (\<lambda>a. g a \<noteq> callId) xs) = filter (\<lambda>a. g a \<noteq> callId) xs"
    for g and xs :: "nat list"
  proof (induction xs)
    case (Cons x xs)
    then show ?case by (auto simp: filter_id_conv image_iff intro!: filter_True [symmetric])
  qed simp
  have keep: "find (\<lambda>a. g a = other) (filter (\<lambda>a. g a \<noteq> callId) xs) =
      (if other = callId then None else find (\<lambda>a. g a = other) xs)" for g and xs :: "nat list"
    by (induction xs) auto
  have "distinct (map (cb_callId \<circ> cm_heap s) (cm_callList s))" using assms by (simp add: calls_def)
  from drop [OF this] keep [of "\<lambda>a. cb_callId (cm_heap s a)" "cm_callList s"] show ?thesis
    by (simp add: DeleteOneCallObject_def GetOneCallObject_def first_call_def find_None_iff comp_def)
qed

theorem DeleteOneCallObject_spec_witness:
  "GetOneCallObject 1 (snd (run_state (DeleteOneCallObject 1) demo_ringing)) = None"
proof -
  have "distinct (map cb_callId (calls demo_ringing))" by (simp add: calls_def)
  from DeleteOneCallObject_spec [OF this, of 1 0] show ?thesis by blast
qed

text \<open>Lookups by running state find the newest call in that state, lookups by id the oldest one with it; either
  answers nothing exactly when the table has no such call.\<close>
theorem lookup_order:
  "(GetOneCallObject_state st s = Some a \<longleftrightarrow>
     (\<exists>older newer. cm_callList s = older @ a # newer \<and> cb_callRunningState (cm_heap s a) = st \<and>
        (\<forall>b \<in> set newer. cb_callRunningState (cm_heap s b) \<noteq> st))) \<and>
   (GetOneCallObject_state st s = None \<longleftrightarrow> st \<notin> cb_callRunningState ` set (calls s)) \<and>
   (GetOneCallObject i s = Some a \<longleftrightarrow>
     (\<exists>older newer. cm_callList s = older @ a # newer \<and> cb_callId (cm_heap s a) = i \<and>
        (\<forall>b \<in> set older. cb_callId (cm_heap s b) \<noteq> i))) \<and>
   (GetOneCallObject i s = None \<longleftrightarrow> \<not> IsCallExist i s)"
proof -
  have first: "find P xs = Some a \<longleftrightarrow> (\<exists>us vs. xs = us @ a # vs \<and> P a \<and> (\<forall>b \<in> set us. \<not> P b))"
    for P and xs :: "nat list"
  proof
    show "find P xs = Some a \<Longrightarrow> \<exists>us vs. xs = us @ a # vs \<and> P a \<and> (\<forall>b \<in> set us. \<not> P b)"
    proof (induction xs)
      case (Cons x xs)
      show ?case
      proof (cases "P x")
        case True
        with Cons.prems show ?thesis by (intro exI [of _ "[]"] exI [of _ xs]) simp
      next
        case False
        with Cons obtain us vs where "xs = us @ a # vs \<and> P a \<and> (\<forall>b \<in> set us. \<not> P b)" by auto
        with False show ?thesis by (intro exI [of _ "x # us"] exI [of _ vs]) simp
      qed
    qed simp
    have "\<forall>b \<in> set us. \<not> P b \<Longrightarrow> find P (us @ vs) = find P vs" for us vs
      by (induction us) auto
    then show "\<exists>us vs. xs = us @ a # vs \<and> P a \<and> (\<forall>b \<in> set us. \<not> P b) \<Longrightarrow> find P xs = Some a" by auto
  qed
  have last: "find P (rev xs) = Some a \<longleftrightarrow> (\<exists>us vs. xs = us @ a # vs \<and> P a \<and> (\<forall>b \<in> set vs. \<not> P b))"
    for P and xs :: "nat list"
  proof
    show "find P (rev xs) = Some a \<Longrightarrow> \<exists>us vs. xs = us @ a # vs \<and> P a \<and> (\<forall>b \<in> set vs. \<not> P b)"
    proof -
      assume "find P (rev xs) = Some a"
      then obtain us vs where *: "rev xs = us @ a # vs" "P a" "\<forall>b \<in> set us. \<not> P b" using first by blast
      from *(1) have "xs = rev vs @ a # rev us" by (simp add: rev_swap)
      with *(2,3) show ?thesis by (intro exI [of _ "rev vs"] exI [of _ "rev us"]) simp
    qed
  next
    assume "\<exists>us vs. xs = us @ a # vs \<and> P a \<and> (\<forall>b \<in> set vs. \<not> P b)"
    then obtain us vs where *: "xs = us @ a # vs" "P a" "\<forall>b \<in> set vs. \<not> P b" by blast
    show "find P (rev xs) = Some a"
      unfolding first using * by (intro exI [of _ "rev vs"] exI [of _ "rev us"]) simp
  qed
  have none: "find P xs = None \<longleftrightarrow> \<not> (\<exists>b \<in> set xs. P b)" for P and xs :: "nat list"
    by (auto simp: find_None_iff)
  show ?thesis
  proof (intro conjI)
    show "GetOneCallObject_state st s = None \<longleftrightarrow> st \<notin> cb_callRunningState ` set (calls s)"
      unfolding GetOneCallObject_state_def last_call_def none calls_def by auto
    show "GetOneCallObject i s = None \<longleftrightarrow> \<not> IsCallExist i s"
      unfolding GetOneCallObject_def first_call_def none calls_def IsCallExist_def any_call_def list_ex_iff by auto
  qed (simp_all only: GetOneCallObject_state_def last_call_def GetOneCallObject_def first_call_def last, simp only: first)
qed

theorem lookup_order_witness:
  "GetOneCallObject_state CALL_RUNNING_STATE_RINGING demo_ringing = Some 0 \<and> GetOneCallObject 7 demo_ringing = None"
proof -
  have "cm_callList demo_ringing = [] @ 0 # []" by simp
  then have "\<exists>older newer. cm_callList demo_ringing = older @ 0 # newer \<and>
      cb_callRunningState (cm_heap demo_ringing 0) = CALL_RUNNING_STATE_RINGING \<and>
      (\<forall>b \<in> set newer. cb_callRunningState (cm_heap demo_ringing b) \<noteq> CALL_RUNNING_STATE_RINGING)"
    by (intro exI [of _ "[]"]) simp
  moreover have "\<not> IsCallExist 7 demo_ringing" by (simp add: IsCallExist_def any_call_def calls_def)
  ultimately show ?thesis
    using lookup_order [of CALL_RUNNING_STATE_RINGING demo_ringing 0 7] by blast
qed

section \<open>One call object\<close>

text \<open>C9. Setting the reported state: it is refused, without effect, exactly when it is the old one (unless the
  object is new or the state is dialing). Otherwise the object is in the new state and in its running
  state; who is called, by what and under which id never changes, and neither does a begin time once set.\<close>
theorem SetTelCallState_spec:
  "let (r, c') = SetTelCallState now st c in
     (r = CALL_ERR_NOT_NEW_STATE \<longleftrightarrow>
        cb_callRunningState c \<noteq> CALL_RUNNING_STATE_CREATE \<and> cb_callState c = st \<and> st \<noteq> CALL_STATUS_DIALING) \<and>
     (r = CALL_ERR_NOT_NEW_STATE \<longrightarrow> c' = c) \<and>
     (r \<noteq> CALL_ERR_NOT_NEW_STATE \<longrightarrow> r = TELEPHONY_SUCCESS \<and> cb_callState c' = st \<and>
        (\<forall>q. running_state st = Some q \<longrightarrow> cb_callRunningState c' = q)) \<and>
     (cb_callId c', cb_accountNumber c', cb_callType c', cb_class c', cc_isEcc c', cc_index c', cc_slotId c') =
       (cb_callId c, cb_accountNumber c, cb_callType c, cb_class c, cc_isEcc c, cc_index c, cc_slotId c) \<and>
     (cb_callBeginTime c \<noteq> 0 \<longrightarrow> cb_callBeginTime c' = cb_callBeginTime c \<and> cb_startTime c' = cb_startTime c)"
  by (cases st) (auto simp: SetTelCallState_def state_change_defs Let_def)

theorem SetTelCallState_spec_witness:
  "let (r, c') = SetTelCallState 5 CALL_STATUS_HOLDING (cm_heap demo_active 0) in
     r = TELEPHONY_SUCCESS \<and> cb_callState c' = CALL_STATUS_HOLDING \<and> cb_callRunningState c' = CALL_RUNNING_STATE_HOLD"
  using SetTelCallState_spec [of 5 CALL_STATUS_HOLDING "cm_heap demo_active 0"] by (simp add: Let_def case_prod_beta)

section \<open>Limits that are never met\<close>

text \<open>The table holds fewer calls than the limits by which an incoming call would be hung up unseen: in every
  reachable state the filter sends no command to the stack and makes the call ring.\<close>
theorem filter_never_hangs_up:
  assumes "cm_reach e k s"
  shows "\<not> HasRingingMaximum s \<and> \<not> HasDialingMaximum s \<and>
    (let t = snd (run_state (FilterResultsDispose (Some a)) s)
     in cm_stackOut t = cm_stackOut s \<and> cb_callRunningState (cm_heap t a) = CALL_RUNNING_STATE_RINGING)"
proof -
  have len: "length (cm_callList s) \<le> 5"
    using reach_inv [OF assms] by (simp add: inv_def table_ok_def MINI_MAX_CALL_OBJECTS_def)
  have "length (filter P (calls s)) < 30" for P
    using le_less_trans [OF length_filter_le, of "calls s" 30] len by (simp add: calls_def)
  then have max: "\<not> HasRingingMaximum s" "\<not> HasDialingMaximum s"
    by (simp_all add: HasRingingMaximum_def HasDialingMaximum_def count_calls_def RINGING_CALL_NUMBER_LEN_def
      DIALING_CALL_NUMBER_LEN_def not_le)
  have observers: "run_state (to_observers (\<lambda>_. ret ())) u = ((), u)" for u
    by (simp add: to_observers_def)
  have "snd (run_state (NotifyNewCallCreated (Some a)) u) = u" for u
    by (simp add: NotifyNewCallCreated_def Listener_NewCallCreated_def observers)
  with max show ?thesis
    by (simp add: FilterResultsDispose_def IncomingCallBase_def Let_def)
qed

theorem filter_never_hangs_up_witness:
  "HasRingingCall demo_ringing \<and> \<not> HasRingingMaximum demo_ringing"
  using filter_never_hangs_up [OF demo_states_reachable(2), of 0]
  by (simp add: HasRingingCall_def any_call_def calls_def)

end
