(* ===== verification/Identity.thy ===== *)
theory Identity
  imports Call_Invariant
begin

text \<open>
  Call objects never change their id once they are made. \<open>keeps_ids n m\<close>: the operation leaves the
  ids of the objects below the address \<open>n\<close> alone, and these stay allocated; an object made on the
  way is above it, so the replacement of a call may give it an id. Collection \<open>ids\<close> holds one rule
  per operation.
\<close>

named_theorems ids \<open>operations that leave the ids of allocated calls alone\<close>

definition same_ids :: "nat \<Rightarrow> cm \<Rightarrow> cm \<Rightarrow> bool" where
  "same_ids n s t \<longleftrightarrow> n \<le> cm_nextAddr t \<and> (\<forall>a < n. cb_callId (cm_heap t a) = cb_callId (cm_heap s a))"

definition keeps_ids :: "nat \<Rightarrow> 'a cmM \<Rightarrow> bool" where
  "keeps_ids n m \<longleftrightarrow> (\<forall>s. n \<le> cm_nextAddr s \<longrightarrow> same_ids n s (snd (run_state m s)))"

lemma keeps_idsD: "keeps_ids n m \<Longrightarrow> n \<le> cm_nextAddr s \<Longrightarrow> same_ids n s (snd (run_state m s))"
  by (simp add: keeps_ids_def)

lemma ids_bind [ids]: "keeps_ids n m \<Longrightarrow> (\<And>x. keeps_ids n (f x)) \<Longrightarrow> keeps_ids n (State_Monad.bind m f)"
proof (unfold keeps_ids_def, intro allI impI)
  fix s :: cm
  assume m: "\<forall>s. n \<le> cm_nextAddr s \<longrightarrow> same_ids n s (snd (run_state m s))"
    and f: "\<And>x. \<forall>s. n \<le> cm_nextAddr s \<longrightarrow> same_ids n s (snd (run_state (f x) s))" and s: "n \<le> cm_nextAddr s"
  obtain x t where xt: "run_state m s = (x, t)" by (cases "run_state m s")
  with m s have t: "same_ids n s t" by (metis snd_conv)
  with f [of x] have "same_ids n t (snd (run_state (f x) t))" by (simp add: same_ids_def)
  with t xt show "same_ids n s (snd (run_state (State_Monad.bind m f) s))" by (simp add: same_ids_def)
qed

lemma ids_frames: "frames m \<Longrightarrow> keeps_ids n m"
  unfolding frames_def keeps_ids_def same_ids_def same_calls_state_def by (metis order_refl)

lemma ids_return [ids]: "keeps_ids n (ret x)"
  by (simp add: keeps_ids_def same_ids_def)

lemma ids_gets [ids]: "keeps_ids n (gets f)"
  by (simp add: keeps_ids_def same_ids_def)

lemma ids_whenM [ids]: "(b \<Longrightarrow> keeps_ids n m) \<Longrightarrow> keeps_ids n (whenM b m)"
  by (auto simp: keeps_ids_def same_ids_def)

lemma ids_ignore [ids]: "keeps_ids n m \<Longrightarrow> keeps_ids n (ignore m)"
  by (simp add: keeps_ids_def)

lemma ids_if [ids]: "(b \<Longrightarrow> keeps_ids n m) \<Longrightarrow> (\<not> b \<Longrightarrow> keeps_ids n k) \<Longrightarrow> keeps_ids n (if b then m else k)"
  by simp

lemma ids_let [ids]: "(\<And>x. keeps_ids n (f x)) \<Longrightarrow> keeps_ids n (let x = t in f x)"
  by (simp add: Let_def)

lemma ids_case_option [ids]:
  "keeps_ids n m \<Longrightarrow> (\<And>x. keeps_ids n (f x)) \<Longrightarrow> keeps_ids n (case v of None \<Rightarrow> m | Some x \<Rightarrow> f x)"
  by (cases v) auto

lemma ids_case_prod [ids]: "(\<And>x y. keeps_ids n (f x y)) \<Longrightarrow> keeps_ids n (case v of (x, y) \<Rightarrow> f x y)"
  by (cases v) auto

lemma ids_case_class [ids]:
  "keeps_ids n m \<Longrightarrow> keeps_ids n k \<Longrightarrow> keeps_ids n (case c of CSCall \<Rightarrow> m | IMSCall \<Rightarrow> k)"
  by (cases c) auto

lemma ids_for_each [ids]: "(\<And>x. keeps_ids n (f x)) \<Longrightarrow> keeps_ids n (for_each xs f)"
  by (induction xs) (auto intro!: ids)

lemma ids_updCall_same: "(\<And>c. cb_callId (f c) = cb_callId c) \<Longrightarrow> keeps_ids n (updCall a f)"
  by (simp add: keeps_ids_def same_ids_def)

lemma ids_updCall_new: "n \<le> a \<Longrightarrow> keeps_ids n (updCall a f)"
  by (auto simp: keeps_ids_def same_ids_def)

lemma ids_onCall: "(\<And>c. cb_callId (snd (f c)) = cb_callId c) \<Longrightarrow> keeps_ids n (onCall a f)"
  by (simp add: keeps_ids_def same_ids_def)

lemma ids_getCall [ids]: "keeps_ids n (getCall a)"
  by (simp add: keeps_ids_def same_ids_def)

lemma ids_newCall [ids]: "keeps_ids n (newCall c)"
  by (simp add: keeps_ids_def same_ids_def)

lemma ids_table [ids]: "keeps_ids n (modify (\<lambda>s. s\<lparr>cm_callList := f s\<rparr>))" "keeps_ids n (AddOneCallObject c)"
    "keeps_ids n (DeleteOneCallObject i)" "keeps_ids n (DeleteOneCallObject_ptr c)"
proof -
  have m: "keeps_ids n (modify (\<lambda>s. s\<lparr>cm_callList := f s\<rparr>))" "keeps_ids n (modify (\<lambda>s. s\<lparr>cm_isFirstDialCallAdded := b\<rparr>))" for f b
    by (simp_all add: keeps_ids_def same_ids_def)
  show "keeps_ids n (modify (\<lambda>s. s\<lparr>cm_callList := f s\<rparr>))" by (rule m)
  show "keeps_ids n (AddOneCallObject c)" "keeps_ids n (DeleteOneCallObject i)" "keeps_ids n (DeleteOneCallObject_ptr c)"
    unfolding AddOneCallObject_def DeleteOneCallObject_def DeleteOneCallObject_ptr_def by (intro ids m)+
qed

lemma ids_state [ids]: "keeps_ids n (call_SetTelCallState a st)" "keeps_ids n (UpdateOneCallObjectByCallId i st)"
    "keeps_ids n (SetTelConferenceState a cs)"
proof -
  show s: "keeps_ids n (call_SetTelCallState a st)" for a
    unfolding call_SetTelCallState_def by (intro ids ids_onCall) (simp add: SetTelCallState_keeps)
  show "keeps_ids n (UpdateOneCallObjectByCallId i st)"
    unfolding UpdateOneCallObjectByCallId_def by (intro ids s)
  show "keeps_ids n (SetTelConferenceState a cs)"
    unfolding SetTelConferenceState_def by (intro ids_updCall_same) simp
qed

lemma ids_conference [ids]: "keeps_ids n (onConference k f)"
  by (cases k) (simp_all add: keeps_ids_def same_ids_def)

lemma ids_conferences [ids]:
  "keeps_ids n (call_LaunchConference a)" "keeps_ids n (call_ExitConference a)" "keeps_ids n (call_HoldConference a)"
  "keeps_ids n (call_GetSubCallIdList a)"
  unfolding call_LaunchConference_def CSCall_LaunchConference_def IMSCall_LaunchConference_def call_ExitConference_def
    CSCall_ExitConference_def IMSCall_ExitConference_def call_HoldConference_def CSCall_HoldConference_def
    IMSCall_HoldConference_def call_GetSubCallIdList_def getConference_def
  by (intro ids)+

lemma ids_UpdateCallState [ids]: "keeps_ids n (UpdateCallState c st)"
  unfolding UpdateCallState_def by (intro ids; intro ids_frames frame)

lemma ids_Clear [ids]: "keeps_ids n (ClearPendingState a)"
  unfolding ClearPendingState_def by (intro ids_frames frame)

section \<open>Replacing a call\<close>

lemma CreateNewCall_new: "run_state (CreateNewCall info dir) s = (Some b, t) \<Longrightarrow> b = cm_nextAddr s \<and> cm_nextAddr t = Suc b"
proof -
  assume run: "run_state (CreateNewCall info dir) s = (Some b, t)"
  obtain p e s' where 1: "run_state (PackParaInfo info dir) s = ((p, e), s')" by (metis surj_pair)
  with frames_PackParaInfo have "same_calls_state s s'" unfolding frames_def by (metis snd_conv)
  with run 1 show ?thesis
    by (auto simp: CreateNewCall_def same_calls_state_def split: option.splits if_splits)
qed

lemma ids_CreateNewCall [ids]: "keeps_ids n (CreateNewCall info dir)"
  unfolding CreateNewCall_def
  by (intro ids ids_updCall_same) (simp_all add: ids_frames [OF frames_PackParaInfo])

text \<open>What follows may treat a made object as new.\<close>

lemma ids_Create_bind:
  "keeps_ids n (g None) \<Longrightarrow> (\<And>b. n \<le> b \<Longrightarrow> keeps_ids n (g (Some b))) \<Longrightarrow>
   keeps_ids n (State_Monad.bind (CreateNewCall info dir) g)"
proof (unfold keeps_ids_def [of n "State_Monad.bind _ _"], intro allI impI)
  fix s :: cm
  assume none: "keeps_ids n (g None)" and some: "\<And>b. n \<le> b \<Longrightarrow> keeps_ids n (g (Some b))" and s: "n \<le> cm_nextAddr s"
  obtain x t where xt: "run_state (CreateNewCall info dir) s = (x, t)" by (cases "run_state (CreateNewCall info dir) s")
  then have t: "same_ids n s t" using keeps_idsD [OF ids_CreateNewCall s] by (metis snd_conv)
  have "keeps_ids n (g x)"
    using none some xt s by (cases x) (auto dest!: CreateNewCall_new)
  with t have "same_ids n t (snd (run_state (g x) t))" by (auto simp: same_ids_def keeps_ids_def)
  with t xt show "same_ids n s (snd (run_state (State_Monad.bind (CreateNewCall info dir) g) s))"
    by (simp add: same_ids_def)
qed

lemma ids_fill [ids]: "keeps_ids n (RefreshCall_fill b old attrInfo info)"
  unfolding RefreshCall_fill_def CSCall_UpdateConferenceId_def
  by (intro ids ids_updCall_same) (simp_all add: take_over_keeps)

lemma ids_Refresh [ids]: "keeps_ids n (RefreshCall a info)" "keeps_ids n (RefreshCallIfNecessary a info)"
proof -
  show r: "keeps_ids n (RefreshCall a info)"
    unfolding RefreshCall_def
    apply (rule ids_bind, rule ids_getCall, rule ids_let, rule ids_Create_bind)
     apply (simp add: ids_return)
    apply (unfold option.case, intro ids ids_updCall_new, assumption)
    done
  show "keeps_ids n (RefreshCallIfNecessary a info)"
    unfolding RefreshCallIfNecessary_def by (intro ids r ids_updCall_same) simp_all
qed

text \<open>The object that stands for the call afterwards has the id of the call.\<close>

lemma RefreshCall_id:
  assumes "a < cm_nextAddr s" and "run_state (RefreshCall a info) s = (b, t)"
  shows "cb_callId (cm_heap t b) = cb_callId (cm_heap s a) \<and> b < cm_nextAddr t"
proof -
  let ?old = "cm_heap s a"
  obtain x u where xu: "run_state (CreateNewCall info (at_callDirection (GetCallAttributeBaseInfo ?old CallAttributeInfo_default))) s = (x, u)"
    by (metis surj_pair)
  show ?thesis
  proof (cases "b = a")
    case True
    then show ?thesis
      using keeps_idsD [OF ids_Refresh(1), of "cm_nextAddr s" s a info] assms by (auto simp: same_ids_def)
  next
    case False
    with assms(2) xu obtain c where c: "x = Some c" by (cases x) (auto simp: RefreshCall_def Let_def)
    with xu have new: "cm_nextAddr u = Suc c" by (auto dest: CreateNewCall_new)
    define v where "v = snd (run_state (DeleteOneCallObject (cb_callId ?old)) u)"
    define w where "w = v\<lparr>cm_heap := (cm_heap v)(c := (cm_heap v c)\<lparr>cb_callId := cb_callId ?old\<rparr>)\<rparr>"
    have id: "cb_callId (cm_heap w c) = cb_callId ?old" by (simp add: w_def)
    have next_w: "cm_nextAddr w = Suc c"
      using new by (simp add: w_def v_def DeleteOneCallObject_def)
    have rest: "run_state (do { r \<leftarrow> AddOneCallObject (Some c);
        if r \<noteq> TELEPHONY_SUCCESS then do { ignore (AddOneCallObject (Some a)); ret a }
        else do { RefreshCall_fill c ?old (GetCallAttributeBaseInfo ?old CallAttributeInfo_default) info; ret c } }) w = (b, t)"
      (is "run_state ?m w = _")
      using assms(2) xu c by (simp add: RefreshCall_def Let_def v_def w_def)
    have "keeps_ids (Suc c) ?m" by (intro ids)
    from keeps_idsD [OF this, of w] next_w rest id have "cb_callId (cm_heap t c) = cb_callId ?old \<and> c < cm_nextAddr t"
      by (auto simp: same_ids_def)
    moreover have "b = c" using rest False by (auto split: prod.splits if_splits)
    ultimately show ?thesis by simp
  qed
qed

lemma RefreshIfNecessary_id:
  assumes "a < cm_nextAddr s" and "run_state (RefreshCallIfNecessary a info) s = (b, t)"
  shows "cb_callId (cm_heap t b) = cb_callId (cm_heap s a) \<and> b < cm_nextAddr t"
proof -
  show ?thesis
  proof (cases "cb_callType (cm_heap s a) = di_callType info")
    case True
    with assms(2) have "b = a" by (auto simp: RefreshCallIfNecessary_def split: if_splits)
    with keeps_idsD [OF ids_Refresh(2), of "cm_nextAddr s" s a info] assms show ?thesis by (auto simp: same_ids_def)
  next
    case False
    with assms(2) show ?thesis
      by (simp add: RefreshCallIfNecessary_def split: if_splits)
        (drule RefreshCall_id [rotated], simp add: assms(1), simp)+
  qed
qed

end
