(* ===== verification/Status_Properties.thy ===== *)
theory Status_Properties
  imports Identity Demo
begin

text \<open>
  Properties of the machine that follows the reports of the network: its recursion, what becomes of a
  disconnected call, the difference of two batches, and the replacement of a call whose type changes.
\<close>

section \<open>Calls that have left the table\<close>

definition gone :: "int \<Rightarrow> cm \<Rightarrow> bool" where
  "gone i s \<longleftrightarrow> i \<notin> cb_callId ` set (calls s)"

lemma gone_iff: "gone i s \<longleftrightarrow> \<not> IsCallExist i s"
  by (auto simp: gone_def IsCallExist_def any_call_def list_ex_iff)

lemma gone_frames: "frames m \<Longrightarrow> keeps (gone i) m"
  by (rule frames_keeps) (auto simp: gone_def calls_def same_calls_state_def)

lemma gone_updCall: "(\<And>c. cb_callId (f c) = cb_callId c) \<Longrightarrow> keeps (gone i) (updCall a f)"
  by (rule keepsI) (auto simp: gone_def calls_def split: if_splits)

lemma gone_onCall: "(\<And>c. cb_callId (snd (f c)) = cb_callId c) \<Longrightarrow> keeps (gone i) (onCall a f)"
  by (rule keepsI) (auto simp: gone_def calls_def split: if_splits)

lemma gone_SetTelCallState: "keeps (gone i) (call_SetTelCallState a st)"
  unfolding call_SetTelCallState_def by (intro hoare gone_onCall) (simp add: SetTelCallState_keeps)

lemma gone_UpdateCallState: "keeps (gone i) (UpdateCallState c st)"
  unfolding UpdateCallState_def UpdateOneCallObjectByCallId_def getCall_def
  by (intro hoare gone_SetTelCallState gone_frames frames_notify)

lemma Delete_gone:
  assumes "distinct (map cb_callId (calls s))"
  shows "gone i (snd (run_state (DeleteOneCallObject i) s))"
proof -
  have "i \<notin> set (map g (takeWhile (\<lambda>a. g a \<noteq> i) xs @ tl (dropWhile (\<lambda>a. g a \<noteq> i) xs)))"
    if "distinct (map g xs)" for g and xs :: "nat list"
    using that by (induction xs) auto
  from this [of "cb_callId \<circ> cm_heap s" "cm_callList s"] assms show ?thesis
    by (auto simp: gone_def DeleteOneCallObject_def calls_def)
qed

section \<open>A disconnected call\<close>

lemma reported_or_dialed_inv:
  assumes "inv A s" and "run_state (reported_or_dialed info) s = (x, t)"
  shows "inv (A \<union> set_option x) t"
proof -
  have "safe A (State_Monad.bind (reported_or_dialed info) ret) set_option"
    by (rule safe_reported_or_dialed) (simp add: safe_return)
  with assms show ?thesis by (auto simp: safe_def)
qed

lemma Disconnected_update_inv:
  assumes "inv A s" and "a \<in> A" and "run_state (Disconnected_update info a) s = (x, t)"
  shows "inv A t"
  using safe_Disconnected_update [OF assms(2), of info] assms(1,3) by (auto simp: safe_def)

lemma Disconnected_update_id:
  assumes "a < cm_nextAddr s" and "run_state (Disconnected_update info a) s = ((b, l, p, q), t)"
  shows "cb_callId (cm_heap t b) = cb_callId (cm_heap s a)"
proof -
  define R where "R b = do {
     RefreshCallDisconnectReason b (di_reason info) (di_message info);
     ClearPendingState b;
     SetOriginalCallTypeForDisconnectState b;
     callIdList \<leftarrow> call_GetSubCallIdList b;
     c \<leftarrow> getCall b;
     let previousState = cb_callRunningState c;
     ignore (call_ExitConference b);
     c \<leftarrow> getCall b;
     let priorState = cb_callState c;
     ignore (UpdateCallState (Some b) CALL_STATUS_DISCONNECTED);
     ret (b, callIdList, previousState, priorState)
   }" for b
  obtain d u where du: "run_state (RefreshCallIfNecessary a info) s = (d, u)" by (metis surj_pair)
  from RefreshIfNecessary_id [OF assms(1) du]
  have id: "cb_callId (cm_heap u d) = cb_callId (cm_heap s a)" "d < cm_nextAddr u" by simp_all
  have R: "run_state (R d) u = ((b, l, p, q), t)"
    using assms(2) du by (simp add: Disconnected_update_def R_def)
  have "keeps_ids n (R d)" for n
    unfolding R_def RefreshCallDisconnectReason_def SetOriginalCallTypeForDisconnectState_def
    by (intro ids ids_updCall_same) simp_all
  from keeps_idsD [OF this [of "cm_nextAddr u"], of u] R id have "cb_callId (cm_heap t d) = cb_callId (cm_heap s a)"
    by (simp add: same_ids_def)
  moreover have "b = d" using R by (auto simp: R_def Let_def split: prod.splits)
  ultimately show ?thesis by simp
qed

lemma Disconnected_finish_gone:
  assumes "distinct (map cb_callId (calls s))"
  shows "gone (cb_callId (cm_heap s b)) (snd (run_state (Disconnected_finish b l p q) s))"
proof -
  define m where "m = do {
     s \<leftarrow> gets id;
     let canUnHold = IsCanUnHold (GetCallNum CALL_STATUS_ACTIVE s) (GetCallNum CALL_STATUS_WAITING s) (length l) s;
     let holdCall = GetOneCallObject_state CALL_RUNNING_STATE_HOLD s;
     (case holdCall of
        None \<Rightarrow> ret ()
      | Some h \<Rightarrow> whenM (p \<noteq> CALL_RUNNING_STATE_HOLD \<and> p \<noteq> CALL_RUNNING_STATE_ACTIVE \<and>
            q = CALL_STATUS_DISCONNECTING \<and> canUnHold \<and> cb_canUnHoldState (cm_heap s h) \<and>
            cc_slotId (cm_heap s h) = cc_slotId (cm_heap s b))
          (ignore (CarrierUnHoldCall h)))
   }"
  have handle: "HandleHoldCallOrAutoAnswerCall b l p q =
      do { m; c \<leftarrow> getCall b; ignore (DeleteOneCallObject (cb_callId c)) }"
    by (simp add: HandleHoldCallOrAutoAnswerCall_def m_def Let_def)
  obtain t where t: "run_state m s = ((), t)" by (metis surj_pair unit.exhaust)
  have "frames m" unfolding m_def by (intro frame)
  with t have "same_calls_state s t" unfolding frames_def by (metis snd_conv)
  then have heap: "cm_heap t = cm_heap s" and "calls t = calls s" by (simp_all add: same_calls_state_def calls_def)
  with assms have gone: "gone (cb_callId (cm_heap s b)) (snd (run_state (HandleHoldCallOrAutoAnswerCall b l p q) s))"
    using Delete_gone [of t] t by (simp add: handle)
  have rest: "keeps (gone i) (do {
     c \<leftarrow> getCall b;
     conferenceCallList \<leftarrow> GetConferenceCallList (cc_slotId c);
     (case conferenceCallList of
        [b] \<Rightarrow> do {
          d \<leftarrow> getCall b;
          whenM (cb_conferenceState d \<noteq> TEL_CONFERENCE_IDLE) (do {
            SetTelConferenceState b TEL_CONFERENCE_IDLE;
            ignore (UpdateCallState (Some b) (cb_callState d))
          })
        }
      | _ \<Rightarrow> ret ())
   })" for i
  proof -
    have "keeps (gone i) (do {
          d \<leftarrow> getCall b;
          whenM (cb_conferenceState d \<noteq> TEL_CONFERENCE_IDLE) (do {
            SetTelConferenceState b TEL_CONFERENCE_IDLE;
            ignore (UpdateCallState (Some b) (cb_callState d))
          })
        })" for b
      unfolding SetTelConferenceState_def getCall_def by (intro hoare gone_updCall gone_UpdateCallState) simp
    then have "keeps (gone i) (case bs of
        [b] \<Rightarrow> do {
          d \<leftarrow> getCall b;
          whenM (cb_conferenceState d \<noteq> TEL_CONFERENCE_IDLE) (do {
            SetTelConferenceState b TEL_CONFERENCE_IDLE;
            ignore (UpdateCallState (Some b) (cb_callState d))
          })
        }
      | _ \<Rightarrow> ret ())" for bs
      by (auto intro: keeps_return split: list.split)
    then show ?thesis unfolding getCall_def GetConferenceCallList_def getStatus_def by (intro hoare)
  qed
  show ?thesis
    unfolding Disconnected_finish_def using keepsD [OF rest gone] by (simp add: case_prod_beta)
qed

text \<open>C6. A call reported as disconnected leaves the table: when the report belongs to a call of the table, the
  machine answers success and afterwards no call has its id, also when the report changes the type of the call
  and the object is replaced on the way.\<close>
theorem disconnected_call_leaves:
  assumes "cm_reach e k s"
    and "GetOneCallObjectByIndexSlotIdAndCallType (di_index info) (di_accountId info) (di_callType info)
      (di_phoneIndex info) s = Some a"
  shows "fst (run_state (DisconnectedHandle info) s) = TELEPHONY_SUCCESS \<and>
    \<not> IsCallExist (cb_callId (cm_heap s a)) (snd (run_state (DisconnectedHandle info) s))"
proof -
  have i: "inv {} s" using assms(1) by (rule reach_inv)
  have "a \<in> set (cm_callList s)" using assms(2) by (auto simp: lookup_defs dest: find_table)
  with i have a: "a < cm_nextAddr s" "inv {a} s" by (auto simp: inv_def)
  have found: "run_state (reported_or_dialed info) s = (Some a, s)"
    by (simp add: reported_or_dialed_def reported_call_def assms(2))
  obtain b l p q t where t: "run_state (Disconnected_update info a) s = ((b, l, p, q), t)" by (metis prod_cases4 surj_pair)
  have id: "cb_callId (cm_heap t b) = cb_callId (cm_heap s a)" using Disconnected_update_id [OF a(1) t] .
  have "inv {a} t" using Disconnected_update_inv [OF a(2) _ t] by simp
  then have "distinct (map cb_callId (calls t))" "\<not> cm_needWaitHold t" by (simp_all add: inv_def table_ok_def)
  with Disconnected_finish_gone [of t b l p q] id found t show ?thesis
    by (simp add: DisconnectedHandle_def DisconnectedHandle_with_def gone_iff case_prod_beta)
qed

theorem disconnected_call_leaves_witness:
  "IsCallExist 1 demo_ringing \<and>
   \<not> IsCallExist 1 (snd (run_state (DisconnectedHandle (single_detail (demo_report 1 CALL_STATUS_DISCONNECTED))) demo_ringing))"
proof -
  have "GetOneCallObjectByIndexSlotIdAndCallType 1 0 TYPE_CS 0 demo_ringing = Some 0"
    by (simp add: GetOneCallObjectByIndexSlotIdAndCallType_def first_call_def)
  then show ?thesis
    using disconnected_call_leaves [OF demo_states_reachable(2), of "single_detail (demo_report 1 CALL_STATUS_DISCONNECTED)" 0]
    by (simp add: single_detail_def demo_report_def IsCallExist_def any_call_def calls_def)
qed



section \<open>A call whose type changes\<close>

lemma CreateNewCall_in:
  assumes "di_callType info = TYPE_CS \<or> di_callType info = TYPE_IMS"
  shows "\<exists>c. run_state (CreateNewCall info CALL_DIRECTION_IN) s =
      (Some (cm_nextAddr s), s\<lparr>cm_callId := wrap32 (cm_callId s + 1), cm_nextAddr := Suc (cm_nextAddr s),
         cm_heap := (cm_heap s)(cm_nextAddr s := c)\<rparr>) \<and>
    \<not> cc_isEcc c \<and> cb_callType c = di_callType info \<and> call_ok c"
  using assms
  by (auto simp: CreateNewCall_def PackParaInfo_def GetNewCallId_def CreateNewCallByCallType_def CarrierCall_in_def
    CarrierCall_new_def DialParaInfo_default_def PacMap_empty_def GetIntValue_def Find_def DialScene_cast_def
    call_ok_def coherent_def conference_free_def)

text \<open>The table without the call, before its replacement is added.\<close>

lemma drop_id:
  assumes "distinct (map g xs)" and "(a :: nat) \<in> set xs"
  shows "takeWhile (\<lambda>b. g b \<noteq> g a) xs @ tl (dropWhile (\<lambda>b. g b \<noteq> g a) xs) = remove1 a xs"
  using assms
proof (induction xs)
  case (Cons x xs)
  show ?case
  proof (cases "x = a")
    case True
    then show ?thesis by simp
  next
    case False
    with Cons.prems have "a \<in> set xs" "g x \<noteq> g a" by (auto simp: image_iff)
    with Cons False show ?thesis by simp
  qed
qed simp

lemma RefreshCall_in_start:
  assumes "inv {} s" and "a \<in> set (cm_callList s)"
    and "cb_direction (cm_heap s a) = CALL_DIRECTION_IN" and "length (cb_accountNumber (cm_heap s a)) \<le> kMaxNumberLen"
    and "di_callType info = TYPE_CS \<or> di_callType info = TYPE_IMS"
  shows "\<exists>c t. run_state (RefreshCall a info) s =
      run_state (do { r \<leftarrow> AddOneCallObject (Some (cm_nextAddr s));
        if r \<noteq> TELEPHONY_SUCCESS then do { ignore (AddOneCallObject (Some a)); ret a }
        else do { RefreshCall_fill (cm_nextAddr s) (cm_heap s a)
                    (GetCallAttributeBaseInfo (cm_heap s a) CallAttributeInfo_default) info; ret (cm_nextAddr s) } }) t \<and>
    cm_callList t = remove1 a (cm_callList s) \<and> cm_nextAddr t = Suc (cm_nextAddr s) \<and>
    cm_heap t = (cm_heap s)(cm_nextAddr s := c) \<and> cb_callId c = cb_callId (cm_heap s a) \<and>
    \<not> cc_isEcc c \<and> cb_callType c = di_callType info"
proof -
  have a: "a < cm_nextAddr s" "distinct (map (\<lambda>b. cb_callId (cm_heap s b)) (cm_callList s))"
      "\<forall>b \<in> set (cm_callList s). b < cm_nextAddr s"
    using assms(1,2) by (auto simp: inv_def table_ok_def calls_def comp_def)
  obtain c where c: "run_state (CreateNewCall info CALL_DIRECTION_IN) s =
      (Some (cm_nextAddr s), s\<lparr>cm_callId := wrap32 (cm_callId s + 1), cm_nextAddr := Suc (cm_nextAddr s),
         cm_heap := (cm_heap s)(cm_nextAddr s := c)\<rparr>) \<and> \<not> cc_isEcc c \<and> cb_callType c = di_callType info"
    using CreateNewCall_in [OF assms(5)] by blast
  have dir: "at_callDirection (GetCallAttributeBaseInfo (cm_heap s a) CallAttributeInfo_default) = CALL_DIRECTION_IN"
    using assms(3,4) by (simp add: GetCallAttributeBaseInfo_def Let_def)
  let ?h = "(cm_heap s)(cm_nextAddr s := c\<lparr>cb_callId := cb_callId (cm_heap s a)\<rparr>)"
  define t where "t = s\<lparr>cm_callId := wrap32 (cm_callId s + 1), cm_nextAddr := Suc (cm_nextAddr s),
      cm_callList := remove1 a (cm_callList s), cm_heap := ?h\<rparr>"
  have eq: "\<And>b. b \<in> set (cm_callList s) \<Longrightarrow> b \<noteq> cm_nextAddr s" using a(3) by blast
  have "takeWhile (\<lambda>b. (if b = cm_nextAddr s then cb_callId c else cb_callId (cm_heap s b)) \<noteq> i) (cm_callList s) =
      takeWhile (\<lambda>b. cb_callId (cm_heap s b) \<noteq> i) (cm_callList s)" and
    "dropWhile (\<lambda>b. (if b = cm_nextAddr s then cb_callId c else cb_callId (cm_heap s b)) \<noteq> i) (cm_callList s) =
      dropWhile (\<lambda>b. cb_callId (cm_heap s b) \<noteq> i) (cm_callList s)" for i
    using eq by (auto intro!: takeWhile_cong dropWhile_cong)
  moreover have "cb_callId (((cm_heap s)(cm_nextAddr s := c)) b) =
      (if b = cm_nextAddr s then cb_callId c else cb_callId (cm_heap s b))" for b by simp
  ultimately have "run_state (RefreshCall a info) s =
      run_state (do { r \<leftarrow> AddOneCallObject (Some (cm_nextAddr s));
        if r \<noteq> TELEPHONY_SUCCESS then do { ignore (AddOneCallObject (Some a)); ret a }
        else do { RefreshCall_fill (cm_nextAddr s) (cm_heap s a)
                    (GetCallAttributeBaseInfo (cm_heap s a) CallAttributeInfo_default) info; ret (cm_nextAddr s) } }) t"
    using c dir drop_id [OF a(2) assms(2)]
    by (simp add: RefreshCall_def Let_def DeleteOneCallObject_def t_def fun_upd_same del: fun_upd_apply)
  with c show ?thesis by (intro exI [of _ "c\<lparr>cb_callId := cb_callId (cm_heap s a)\<rparr>"] exI [of _ t]) (simp add: t_def)
qed

text \<open>C28. A full table loses a call: when the type of an incoming normal call changes while the table holds its four
  normal calls and an emergency call, neither the replacement nor the call itself fits below the emergency
  reserve, and the call leaves the table although it goes on.\<close>
theorem retype_drops_call_when_full:
  assumes "inv {} s" and "a \<in> set (cm_callList s)" and "length (cm_callList s) = MINI_MAX_CALL_OBJECTS"
    and "\<not> GetEmergencyState (cm_heap s a)" and "cb_direction (cm_heap s a) = CALL_DIRECTION_IN"
    and "length (cb_accountNumber (cm_heap s a)) \<le> kMaxNumberLen"
    and "di_callType info = TYPE_CS \<or> di_callType info = TYPE_IMS"
  shows "fst (run_state (RefreshCall a info) s) = a \<and>
    \<not> IsCallExist (cb_callId (cm_heap s a)) (snd (run_state (RefreshCall a info) s)) \<and>
    cm_callList (snd (run_state (RefreshCall a info) s)) = remove1 a (cm_callList s)"
proof -
  obtain c t where t: "run_state (RefreshCall a info) s =
      run_state (do { r \<leftarrow> AddOneCallObject (Some (cm_nextAddr s));
        if r \<noteq> TELEPHONY_SUCCESS then do { ignore (AddOneCallObject (Some a)); ret a }
        else do { RefreshCall_fill (cm_nextAddr s) (cm_heap s a)
                    (GetCallAttributeBaseInfo (cm_heap s a) CallAttributeInfo_default) info; ret (cm_nextAddr s) } }) t"
    and list: "cm_callList t = remove1 a (cm_callList s)" and heap: "cm_heap t = (cm_heap s)(cm_nextAddr s := c)"
    and c: "\<not> cc_isEcc c"
    using RefreshCall_in_start [OF assms(1,2,5,6,7)] by blast
  have a: "a < cm_nextAddr s" "distinct (cm_callList s)" "inj_on (\<lambda>b. cb_callId (cm_heap s b)) (set (cm_callList s))"
      "cm_nextAddr s \<notin> set (cm_callList s)"
    using assms(1,2) by (auto simp: inv_def table_ok_def calls_def comp_def distinct_map)
  have len: "length (cm_callList t) = 4"
    using assms(2,3) by (simp add: list length_remove1 MINI_MAX_CALL_OBJECTS_def)
  have full: "\<not> cc_isEcc (cm_heap t b) \<Longrightarrow> fst (run_state (AddOneCallObject (Some b)) t) \<noteq> TELEPHONY_SUCCESS \<and>
      snd (run_state (AddOneCallObject (Some b)) t) = t" for b
    by (simp add: AddOneCallObject_def table_limit_def GetEmergencyState_def len MINI_MAX_CALL_OBJECTS_def
      MINI_ECC_RESERVED_CALL_OBJECTS_def)
  have "\<not> cc_isEcc (cm_heap t (cm_nextAddr s))" "\<not> cc_isEcc (cm_heap t a)"
    using c a(1) assms(4) by (simp_all add: heap GetEmergencyState_def)
  with full have "run_state (RefreshCall a info) s = (a, t)"
    by (simp add: t case_prod_beta)
  moreover have "\<not> IsCallExist (cb_callId (cm_heap s a)) t"
    using a assms(2) by (auto simp: IsCallExist_def any_call_def list_ex_iff calls_def list heap dest: inj_onD)
  ultimately show ?thesis by (simp add: list)
qed

text \<open>Five calls, the last one an emergency call.\<close>

definition demo_full :: cm where
  "demo_full = demo_ringing\<lparr>cm_callList := [0, 1, 2, 3, 4], cm_nextAddr := 5,
     cm_heap := (\<lambda>a. (CarrierCall_in CSCall DialParaInfo_default)\<lparr>cb_callId := int a + 1, cc_index := int a + 1,
       cc_isEcc := (a = 4)\<rparr>)\<rparr>"

lemma demo_full_inv: "inv {} demo_full"
proof -
  have "inv {} demo_ringing" using reach_inv [OF demo_states_reachable(2)] .
  then show ?thesis
    by (auto simp: inv_def demo_full_def table_ok_def calls_def MINI_MAX_CALL_OBJECTS_def MINI_ECC_RESERVED_CALL_OBJECTS_def
      GetEmergencyState_def call_ok_def coherent_def conference_free_def CarrierCall_in_def CarrierCall_new_def)
qed

lemma demo_full_simps [simp]:
  "cm_callList demo_full = [0, 1, 2, 3, 4]" "cm_nextAddr demo_full = 5" "cb_callId (cm_heap demo_full a) = int a + 1"
  "cc_isEcc (cm_heap demo_full a) = (a = 4)" "cb_direction (cm_heap demo_full a) = CALL_DIRECTION_IN"
  "cb_accountNumber (cm_heap demo_full a) = []"
  by (simp_all add: demo_full_def CarrierCall_in_def CarrierCall_new_def DialParaInfo_default_def)

theorem retype_drops_call_when_full_witness:
  "IsCallExist 2 demo_full \<and>
   \<not> IsCallExist 2 (snd (run_state (RefreshCall 1 (CallDetailInfo_default\<lparr>di_callType := TYPE_IMS\<rparr>)) demo_full))"
  using retype_drops_call_when_full [OF demo_full_inv, of 1 "CallDetailInfo_default\<lparr>di_callType := TYPE_IMS\<rparr>"]
  by (simp add: MINI_MAX_CALL_OBJECTS_def GetEmergencyState_def) (simp add: IsCallExist_def any_call_def calls_def)

text \<open>With room for it, the replacement takes the place of the call: under the same id, with the reported type,
  in the reported and the running state the call had, and nobody else is touched.\<close>
theorem retype_keeps_call:
  assumes "inv {} s" and "a \<in> set (cm_callList s)"
    and "length (cm_callList s) \<le> MINI_MAX_CALL_OBJECTS - MINI_ECC_RESERVED_CALL_OBJECTS"
    and "cb_direction (cm_heap s a) = CALL_DIRECTION_IN"
    and "length (cb_accountNumber (cm_heap s a)) \<le> kMaxNumberLen"
    and "di_callType info = TYPE_CS \<or> di_callType info = TYPE_IMS"
  shows "let (b, t) = run_state (RefreshCall a info) s in
    b = cm_nextAddr s \<and> cm_callList t = remove1 a (cm_callList s) @ [b] \<and>
    cb_callId (cm_heap t b) = cb_callId (cm_heap s a) \<and> cb_callState (cm_heap t b) = cb_callState (cm_heap s a) \<and>
    cb_callType (cm_heap t b) = di_callType info \<and> (\<forall>d < b. cm_heap t d = cm_heap s d)"
proof -
  let ?b = "cm_nextAddr s"
  let ?fill = "RefreshCall_fill ?b (cm_heap s a) (GetCallAttributeBaseInfo (cm_heap s a) CallAttributeInfo_default) info"
  obtain c t where t: "run_state (RefreshCall a info) s =
      run_state (do { r \<leftarrow> AddOneCallObject (Some ?b);
        if r \<noteq> TELEPHONY_SUCCESS then do { ignore (AddOneCallObject (Some a)); ret a }
        else do { ?fill; ret ?b } }) t"
    and list: "cm_callList t = remove1 a (cm_callList s)" and heap: "cm_heap t = (cm_heap s)(?b := c)"
    and c: "cb_callId c = cb_callId (cm_heap s a)" "cb_callType c = di_callType info"
    using RefreshCall_in_start [OF assms(1,2,4,5,6)] by blast
  have a: "a < ?b" "distinct (cm_callList s)" "inj_on (\<lambda>b. cb_callId (cm_heap s b)) (set (cm_callList s))"
      "?b \<notin> set (cm_callList s)"
    using assms(1,2) by (auto simp: inv_def table_ok_def calls_def comp_def distinct_map)
  have len: "length (cm_callList t) < 4"
    using assms(2,3) by (cases "cm_callList s")
      (auto simp: list length_remove1 MINI_MAX_CALL_OBJECTS_def MINI_ECC_RESERVED_CALL_OBJECTS_def)
  have none: "\<not> (\<exists>d \<in> set (calls t). cb_callId d = cb_callId (cm_heap t ?b))"
    using a assms(2) c by (auto simp: calls_def list heap dest: inj_onD)
  have "fst (run_state (AddOneCallObject (Some ?b)) t) = TELEPHONY_SUCCESS \<and>
      cm_heap (snd (run_state (AddOneCallObject (Some ?b)) t)) = cm_heap t \<and>
      cm_callList (snd (run_state (AddOneCallObject (Some ?b)) t)) = cm_callList t @ [?b]"
    using len none by (simp add: AddOneCallObject_def table_limit_def MINI_MAX_CALL_OBJECTS_def
      MINI_ECC_RESERVED_CALL_OBJECTS_def)
  then obtain u where u: "run_state (AddOneCallObject (Some ?b)) t = (TELEPHONY_SUCCESS, u)"
      "cm_heap u = cm_heap t" "cm_callList u = cm_callList t @ [?b]"
    by (metis prod.collapse)
  have run: "run_state (RefreshCall a info) s = (?b, snd (run_state ?fill u))"
    by (simp add: t u case_prod_beta)
  have fill: "cm_callList (snd (run_state ?fill u)) = cm_callList u \<and>
      (\<forall>d < ?b. cm_heap (snd (run_state ?fill u)) d = cm_heap u d) \<and>
      cb_callId (cm_heap (snd (run_state ?fill u)) ?b) = cb_callId (cm_heap u ?b) \<and>
      cb_callType (cm_heap (snd (run_state ?fill u)) ?b) = cb_callType (cm_heap u ?b) \<and>
      cb_callState (cm_heap (snd (run_state ?fill u)) ?b) = cb_callState (cm_heap s a)"
    by (simp add: RefreshCall_fill_def call_SetTelCallState_def CSCall_UpdateConferenceId_def SetTelCallState_keeps
      SetTelCallState_state take_over_keeps take_over_def SetPolicyFlag_def)
  have "cm_heap u d = cm_heap s d" if "d < ?b" for d using that by (simp add: u heap)
  with run fill u heap c list show ?thesis by simp
qed

theorem retype_keeps_call_witness:
  "let (b, t) = run_state (RefreshCall 0 (CallDetailInfo_default\<lparr>di_callType := TYPE_IMS\<rparr>)) (demo_full\<lparr>cm_callList := [0]\<rparr>) in
   cm_callList t = [5] \<and> cb_callId (cm_heap t 5) = 1 \<and> cb_callType (cm_heap t 5) = TYPE_IMS"
proof -
  have "inv {} (demo_full\<lparr>cm_callList := [0]\<rparr>)"
    using demo_full_inv by (auto simp: inv_def table_ok_def calls_def demo_full_def MINI_MAX_CALL_OBJECTS_def
      MINI_ECC_RESERVED_CALL_OBJECTS_def)
  moreover obtain b t where bt: "run_state (RefreshCall 0 (CallDetailInfo_default\<lparr>di_callType := TYPE_IMS\<rparr>))
      (demo_full\<lparr>cm_callList := [0]\<rparr>) = (b, t)" by (metis surj_pair)
  ultimately show ?thesis
    using retype_keeps_call [of "demo_full\<lparr>cm_callList := [0]\<rparr>" 0 "CallDetailInfo_default\<lparr>di_callType := TYPE_IMS\<rparr>"]
    by (auto simp: bt MINI_MAX_CALL_OBJECTS_def MINI_ECC_RESERVED_CALL_OBJECTS_def)
qed



end
