(* ===== verification/Service_Properties.thy ===== *)
theory Service_Properties
  imports Demo
begin

text \<open>
  Properties of the two doors of the call manager: the service facade with its trust model and the
  extras of a dial, and the guard through which the protocol stack reports; with the audio control and
  the reports to the application.
\<close>

section \<open>Callers\<close>

text \<open>A permission is held exactly when it is one of the entries between the semicolons of the list the build
  grants; nothing is ever granted by a prefix, by an empty entry or by a missing list.\<close>
theorem permission_is_list_entry:
  "CheckPermission tm p \<longleftrightarrow> p \<noteq> [] \<and> (\<exists>g. tm_granted tm = Some g \<and> p \<in> set (entries g))"
  by (rule CheckPermission_iff)

definition no_rights :: "TrustModel \<Rightarrow> bool" where
  "no_rights tm \<longleftrightarrow> \<not> IsSystemCaller tm \<and> (\<forall>p. \<not> CheckPermission tm p)"

text \<open>C26. A caller without rights, which is everyone in the default build, changes nothing: each entry point that acts
  on calls answers its refusal and leaves the whole state as it was.\<close>
theorem caller_without_rights_changes_nothing:
  assumes "no_rights tm"
  shows "run_state (Service_DialCall tm n x) s =
      (if 255 < length n then CALL_ERR_NUMBER_OUT_OF_RANGE else TELEPHONY_ERR_ILLEGAL_USE_OF_SYSTEM_API, s) \<and>
    run_state (Service_AnswerCall tm i v b) s = (TELEPHONY_ERR_ILLEGAL_USE_OF_SYSTEM_API, s) \<and>
    run_state (Service_RejectCall tm i b t) s = (TELEPHONY_ERR_ILLEGAL_USE_OF_SYSTEM_API, s) \<and>
    run_state (Service_HangUpCall tm i) s = (TELEPHONY_ERR_ILLEGAL_USE_OF_SYSTEM_API, s) \<and>
    run_state (Service_HoldCall tm i) s = (TELEPHONY_ERR_ILLEGAL_USE_OF_SYSTEM_API, s) \<and>
    run_state (Service_UnHoldCall tm i) s = (TELEPHONY_ERR_ILLEGAL_USE_OF_SYSTEM_API, s) \<and>
    run_state (Service_SwitchCall tm i) s = (TELEPHONY_ERR_ILLEGAL_USE_OF_SYSTEM_API, s) \<and>
    run_state (Service_EndCall tm) s = (False, s) \<and>
    run_state (Service_AnswerCall_device tm) s = (TELEPHONY_ERR_PERMISSION_ERR, s) \<and>
    run_state (Service_RejectCall_device tm) s = (TELEPHONY_ERR_PERMISSION_ERR, s) \<and>
    run_state (Service_HangUpCall_device tm) s = (TELEPHONY_ERR_PERMISSION_ERR, s) \<and>
    run_state (Service_RegisterCallBack tm k) s = (TELEPHONY_ERR_PERMISSION_ERR, s) \<and>
    run_state (Service_UnRegisterCallBack tm) s = (TELEPHONY_ERR_ILLEGAL_USE_OF_SYSTEM_API, s) \<and>
    run_state (Service_ObserverOnCallDetailsChange tm) s = (TELEPHONY_ERR_ILLEGAL_USE_OF_SYSTEM_API, s)"
  using assms
  by (simp add: no_rights_def Service_DialCall_def Service_AnswerCall_def Service_RejectCall_def Service_HangUpCall_def
    Service_HoldCall_def Service_UnHoldCall_def Service_SwitchCall_def Service_EndCall_def Service_AnswerCall_device_def
    Service_RejectCall_device_def Service_HangUpCall_device_def Service_RegisterCallBack_def
    Service_UnRegisterCallBack_def Service_ObserverOnCallDetailsChange_def CheckCallerIsSystemApp_def
    ACCOUNT_NUMBER_MAX_LENGTH_def)

theorem caller_without_rights_changes_nothing_witness:
  "run_state (Service_HangUpCall TrustModel_default 1) demo_active = (TELEPHONY_ERR_ILLEGAL_USE_OF_SYSTEM_API, demo_active)"
proof -
  have "no_rights TrustModel_default"
    by (simp add: no_rights_def IsSystemCaller_def TrustModel_default_def CheckPermission_iff)
  from caller_without_rights_changes_nothing [OF this] show ?thesis by blast
qed

section \<open>The extras of a dial\<close>

lemma BuildDialInfo_keys:
  "map fst (BuildDialInfo extras b) = [''accountId'', ''videoState'', ''dialScene'', ''dialType'', ''callType'', ''isRTT'',
     ''phoneIndex'', ''extraParams'', ''bundleName'', ''btSlotIdUnknown'']"
  by (simp add: BuildDialInfo_def PutIntValue_def PutBooleanValue_def PutStringValue_def Put_def PacMap_empty_def
    MINI_PACMAP_MAX_ENTRIES_def)

text \<open>Of the extras a caller passes, only a fixed set of keys with the right type reaches the dial, and the bundle
  name is the caller's own, whatever the extras say.\<close>
theorem dial_extras_whitelist:
  "set (map fst (BuildDialInfo extras caller)) = {''accountId'', ''videoState'', ''dialScene'', ''dialType'', ''callType'',
     ''isRTT'', ''phoneIndex'', ''extraParams'', ''bundleName'', ''btSlotIdUnknown''} \<and>
   GetStringValue ''bundleName'' [] (BuildDialInfo extras caller) = caller \<and>
   GetIntValue ''accountId'' 0 (BuildDialInfo extras caller) = GetIntValue ''accountId'' 0 extras \<and>
   GetIntValue ''callType'' 0 (BuildDialInfo extras caller) = GetIntValue ''callType'' 0 extras \<and>
   GetIntValue ''videoState'' 0 (BuildDialInfo extras caller) = GetIntValue ''videoState'' 0 extras \<and>
   GetIntValue ''dialScene'' 0 (BuildDialInfo extras caller) = GetIntValue ''dialScene'' 0 extras \<and>
   GetIntValue ''dialType'' 0 (BuildDialInfo extras caller) = GetIntValue ''dialType'' 0 extras \<and>
   GetStringValue ''token'' [] (BuildDialInfo extras caller) = []"
proof -
  have room: "fst (Put m k v)" if "length m < 32" for m k v
    using that by (rule Put_room [unfolded MINI_PACMAP_MAX_ENTRIES_def])
  have len: "length (snd (Put m k v)) \<le> Suc (length m)" for m k v
    by (simp add: Put_def length_update)
  show ?thesis
    unfolding BuildDialInfo_keys
    by (simp add: BuildDialInfo_def PutIntValue_def PutBooleanValue_def PutStringValue_def GetIntValue_def
      GetStringValue_def Find_def Put_def PacMap_empty_def MINI_PACMAP_MAX_ENTRIES_def)
qed

text \<open>A carrier call is dialed as a voice call: after the call type is settled the video state of the extras is
  voice, and the type is the one that was asked for.\<close>
theorem carrier_dial_is_voice:
  assumes "DialType_cast (GetIntValue ''dialType'' 0 extras) = DIAL_CARRIER_TYPE" and "pac_room extras"
  shows "VideoStateType_cast (GetIntValue ''videoState'' 0 (SetCallTypeExtras extras)) = TYPE_VOICE \<and>
    GetIntValue ''callType'' 0 (SetCallTypeExtras extras) = GetIntValue ''callType'' 0 extras"
  using assms pac_int.read_put [OF assms(2), of "''videoState''" 0]
  by (simp add: SetCallTypeExtras_def IsSupportVideoCall_def Let_def)

theorem carrier_dial_is_voice_witness:
  "GetIntValue ''videoState'' 0 (PutIntValue ''videoState'' 3 demo_extras) = 3 \<and>
   VideoStateType_cast (GetIntValue ''videoState'' 0 (SetCallTypeExtras (PutIntValue ''videoState'' 3 demo_extras))) = TYPE_VOICE"
  using carrier_dial_is_voice [of "PutIntValue ''videoState'' 3 demo_extras"]
  by (simp add: demo_extras_def PutIntValue_def Put_def PacMap_empty_def MINI_PACMAP_MAX_ENTRIES_def GetIntValue_def
    Find_def DialType_cast_def pac_room_def)

section \<open>Reports of the stack\<close>

text \<open>C30. A batch of reports passes the guard only when it is small, for one slot that exists, and every report in it
  is sound; what does not pass leaves the state alone and is answered with an argument error.\<close>
theorem guard_admits_sound_batches:
  "(if length (rs_callVec info) \<le> 5 \<and> 0 \<le> rs_slotId info \<and> rs_slotId info < 2 \<and>
      (\<forall>call \<in> set (rs_callVec info). ri_accountId call = rs_slotId info \<and> IsReportedState (ri_state call) \<and>
         (ri_callType call = TYPE_CS \<or> ri_callType call = TYPE_IMS) \<and> IsVideoState (ri_callMode call) \<and>
         CHR 0x00 \<in> set (take 256 (ri_accountNum call)))
    then run_state (Guard_UpdateCallsReportInfo info) s = run_state (post (T_UpdateCallsReportInfo info)) s
    else run_state (Guard_UpdateCallsReportInfo info) s = (TELEPHONY_ERR_ARGUMENT_INVALID, s))"
proof -
  have mem: "List.member xs x \<longleftrightarrow> x \<in> set xs" for x :: char and xs by simp
  show ?thesis
    by (auto simp: Guard_UpdateCallsReportInfo_def IsValidReport_def Guard_IsValidSlot_def IsCarrierCallType_def
      IsTerminated_def mem list_ex_iff PostToLoop_def MINI_MAX_REPORTED_CALLS_def MINI_SLOT_COUNT_def kMaxNumberLen_def)
qed

theorem guard_admits_sound_batches_witness:
  "run_state (Guard_UpdateCallsReportInfo \<lparr>rs_callVec = [demo_report 1 CALL_STATUS_INCOMING], rs_slotId = 1\<rparr>) demo_ready =
     (TELEPHONY_ERR_ARGUMENT_INVALID, demo_ready) \<and>
   run_state (Guard_UpdateCallsReportInfo \<lparr>rs_callVec = [demo_report 1 CALL_STATUS_INCOMING], rs_slotId = 0\<rparr>) demo_ready =
     run_state (post (T_UpdateCallsReportInfo \<lparr>rs_callVec = [demo_report 1 CALL_STATUS_INCOMING], rs_slotId = 0\<rparr>)) demo_ready"
  using guard_admits_sound_batches [of "\<lparr>rs_callVec = [demo_report 1 CALL_STATUS_INCOMING], rs_slotId = 1\<rparr>" demo_ready]
    guard_admits_sound_batches [of "\<lparr>rs_callVec = [demo_report 1 CALL_STATUS_INCOMING], rs_slotId = 0\<rparr>" demo_ready]
  by (simp add: demo_report_def IsReportedState_def IsVideoState_def del: run_post)

text \<open>The number that enters the status machine with a report, alone or in a batch, has at most \<open>kMaxNumberLen\<close>
  characters and no terminator in it, and for a report that passed the guard it is the whole number up to its
  terminator. A batch loses the phone index of its reports, which a single report keeps.\<close>
theorem reported_number_bounded:
  "(\<forall>n \<in> {di_phoneNum (single_detail r), di_phoneNum (batch_detail r)}. length n \<le> 255 \<and> CHR 0x00 \<notin> set n \<and>
     (IsValidReport r \<longrightarrow> n = takeWhile (\<lambda>c. c \<noteq> CHR 0x00) (ri_accountNum r))) \<and>
   di_phoneIndex (single_detail r) = ri_phoneIndex r \<and> di_phoneIndex (batch_detail r) = di_phoneIndex CallDetailInfo_default"
proof -
  have "length (takeWhile P (take k xs)) \<le> k" for P k and xs :: string
    using length_takeWhile_le [of P "take k xs"] by simp
  moreover have "z \<in> set (take (Suc k) xs) \<Longrightarrow> takeWhile (\<lambda>c. c \<noteq> z) (take k xs) = takeWhile (\<lambda>c. c \<noteq> z) xs"
    for z :: char and k xs
  proof (induction xs arbitrary: k)
    case (Cons x xs)
    then show ?case by (cases k) (auto split: if_splits)
  qed simp
  ultimately have "length (copied_number raw) \<le> 255 \<and> CHR 0x00 \<notin> set (copied_number raw) \<and>
      (IsTerminated raw (kMaxNumberLen + 1) \<longrightarrow> copied_number raw = takeWhile (\<lambda>c. c \<noteq> CHR 0x00) raw)" for raw
    by (auto simp: copied_number_def kMaxNumberLen_def IsTerminated_def dest: set_takeWhileD)
  then show ?thesis
    by (simp add: single_detail_def batch_detail_def IsValidReport_def)
qed

theorem reported_number_bounded_witness:
  "di_phoneNum (batch_detail (demo_report 1 CALL_STATUS_INCOMING)) = ''12''"
  using reported_number_bounded [of "demo_report 1 CALL_STATUS_INCOMING"]
  by (simp add: demo_report_def IsValidReport_def IsReportedState_def IsVideoState_def IsCarrierCallType_def
    Guard_IsValidSlot_def MINI_SLOT_COUNT_def IsTerminated_def kMaxNumberLen_def)

text \<open>Once the uplink was registered with a stack, another stack that replaces it is never given the uplink: the
  registration that its arrival posts does nothing.\<close>
theorem new_stack_gets_no_uplink:
  assumes "cn_callbackRegistered (cm_connection s)"
  shows "let t = snd (run_state (do { Registry_Register False; Registry_Register True }) s)
    in cn_callbackRegistered (cm_connection t) \<and> run_state (run_task T_RegisterCallbackOnLoop) t = ((), t)"
  using assms
  by (simp add: Registry_Register_def OnStackReady_def RegisterCallbackOnLoop_def Let_def)

theorem new_stack_gets_no_uplink_witness:
  "let t = snd (run_state (do { Registry_Register False; Registry_Register True }) demo_ready)
   in e_hasStack (cm_env t) \<and> run_state (run_task T_RegisterCallbackOnLoop) t = ((), t)"
proof -
  have "let s = demo_ready in cn_callbackRegistered (cm_connection s)"
    by (simp add: exec demo_ready_def cong: exec_cong)
  then have "cn_callbackRegistered (cm_connection demo_ready)" by (simp add: Let_def)
  from new_stack_gets_no_uplink [OF this] show ?thesis
    by (simp add: Let_def) (simp add: Registry_Register_def OnStackReady_def)
qed

section \<open>Audio\<close>

text \<open>When the last call that is still going on disconnects, everything the audio control had switched on is off
  afterwards, whatever the audio implementation answers; the same holds after \<open>UnInit\<close>.\<close>
theorem audio_off_after_last_call:
  assumes "\<not> HasCellularCallExist s"
  shows "(let u = cm_audio (snd (run_state (Audio_CallStateUpdated prior CALL_STATUS_DISCONNECTED) s))
      in \<not> au_ringtonePlaying u \<and> \<not> au_waitingTonePlaying u \<and> \<not> au_callAudioActive u) \<and>
    (let u = cm_audio (snd (run_state Audio_UnInit s))
      in \<not> au_ringtonePlaying u \<and> \<not> au_waitingTonePlaying u \<and> \<not> au_callAudioActive u)"
proof -
  have release: "cm_audio (snd (run_state ReleaseAll t)) = (cm_audio t)\<lparr>au_ringtonePlaying := False,
      au_waitingTonePlaying := False, au_callAudioActive := False\<rparr>" for t
    by (simp add: ReleaseAll_def)
  have tone: "same_calls_state t (snd (run_state StopRingtone t))" "same_calls_state t (snd (run_state StopWaitingTone t))" for t
    using frames_audio unfolding frames_def by blast+
  have quiet: "same_calls_state s t \<Longrightarrow> \<not> HasCellularCallExist t" for t
    using assms by (simp add: HasCellularCallExist_def any_call_def calls_def same_calls_state_def)
  define m where "m = (if prior = CALL_STATUS_INCOMING then ignore StopRingtone
      else if prior = CALL_STATUS_WAITING then ignore StopWaitingTone else ret ())"
  have "\<not> HasCellularCallExist (snd (run_state m s))"
    using tone quiet assms by (simp add: m_def)
  then show ?thesis
    by (simp add: Audio_CallStateUpdated_def m_def [symmetric] Audio_UnInit_def release case_prod_beta Let_def)
qed

theorem audio_off_after_last_call_witness:
  "au_callAudioActive (cm_audio demo_active) \<and>
   \<not> au_callAudioActive (cm_audio (snd (run_state (Audio_CallStateUpdated CALL_STATUS_ACTIVE CALL_STATUS_DISCONNECTED)
     (demo_active\<lparr>cm_callList := []\<rparr>))))"
  using audio_off_after_last_call [of "demo_active\<lparr>cm_callList := []\<rparr>" CALL_STATUS_ACTIVE]
  by (simp add: HasCellularCallExist_def any_call_def calls_def Let_def)

section \<open>Reports to the application\<close>

text \<open>One application callback at a time: a second registration fails and leaves the first in place, only the
  bundle that registered it can take it away, and after that another one can be registered.\<close>
theorem callback_exclusive:
  assumes "cm_callback s = Some (k, bundle)"
  shows "run_state (Report_RegisterCallBack (Some k') bundle') s = (TELEPHONY_ERR_REGISTER_CALLBACK_FAIL, s) \<and>
    (bundle' \<noteq> bundle \<longrightarrow> run_state (Report_UnRegisterCallBack bundle') s = (TELEPHONY_SUCCESS, s)) \<and>
    (let t = snd (run_state (Report_UnRegisterCallBack bundle) s)
     in cm_callback t = None \<and> fst (run_state (Report_RegisterCallBack (Some k') bundle') t) = TELEPHONY_SUCCESS)"
  using assms
  by (simp add: Report_RegisterCallBack_def Report_UnRegisterCallBack_def Let_def)

theorem callback_exclusive_witness:
  "fst (run_state (Report_RegisterCallBack (Some 8) ''other'') demo_ready) = TELEPHONY_ERR_REGISTER_CALLBACK_FAIL"
proof -
  have "let s = demo_ready in cm_callback s = Some (7, ''app'')"
    by (simp add: exec demo_ready_def cong: exec_cong)
  then have "cm_callback demo_ready = Some (7, ''app'')" by (simp add: Let_def)
  from callback_exclusive [OF this] show ?thesis by simp
qed

text \<open>A report is addressed when it is made: it is queued for the callback registered at that moment, and nothing is
  queued when there is none; the number in it stops before the first pause character.\<close>
theorem report_addressed_when_made:
  "run_state (Report_CallStateUpdated (Some a) st) s =
     ((), case cm_callback s of
        None \<Rightarrow> s
      | Some (k, _) \<Rightarrow> snd (run_state (post (T_ReportCallState k (reported_info (cm_heap s a) st))) s)) \<and>
   CHR '','' \<notin> set (at_accountNumber (reported_info (cm_heap s a) st)) \<and>
   CHR '';'' \<notin> set (at_accountNumber (reported_info (cm_heap s a) st))"
proof -
  have "CHR '','' \<notin> set (cut_post_dial n) \<and> CHR '';'' \<notin> set (cut_post_dial n)" for n
    unfolding cut_post_dial_def by (auto dest: set_takeWhileD)
  then show ?thesis
    by (auto simp: Report_CallStateUpdated_def ReportCallStateInfo_def reported_info_def Let_def split: option.splits
      simp del: run_post)
qed

end
