(* ===== verification/Api_Types.thy ===== *)
theory Api_Types
  imports Call_Types
begin

text \<open>
  The types of the public interface that only unsupported requests take:
  \<open>interfaces/innerkits/call_manager_info.h\<close>, \<open>call_manager_inner_type.h\<close> and \<open>call_manager_base.h\<close>.
  Character arrays are the string up to the terminator.
\<close>

section \<open>Supplementary services\<close>

datatype CallTransferSettingType =
    CALL_TRANSFER_DISABLE
  | CALL_TRANSFER_ENABLE
  | CALL_TRANSFER_REGISTRATION
  | CALL_TRANSFER_ERASURE

datatype CallTransferType =
    TRANSFER_TYPE_UNCONDITIONAL
  | TRANSFER_TYPE_BUSY
  | TRANSFER_TYPE_NO_REPLY
  | TRANSFER_TYPE_NOT_REACHABLE
  | TRANSFER_TYPE_ALL
  | TRANSFER_TYPE_CONDITIONAL

record CallTransferInfo =
  ti_transferNum :: string
  ti_settingType :: CallTransferSettingType
  ti_type :: CallTransferType
  ti_startHour :: int
  ti_startMinute :: int
  ti_endHour :: int
  ti_endMinute :: int

datatype CallRestrictionType =
    RESTRICTION_TYPE_ALL_INCOMING
  | RESTRICTION_TYPE_ALL_OUTGOING
  | RESTRICTION_TYPE_INTERNATIONAL
  | RESTRICTION_TYPE_INTERNATIONAL_EXCLUDING_HOME
  | RESTRICTION_TYPE_ROAMING_INCOMING
  | RESTRICTION_TYPE_ALL_CALLS
  | RESTRICTION_TYPE_OUTGOING_SERVICES
  | RESTRICTION_TYPE_INCOMING_SERVICES

datatype CallRestrictionMode = RESTRICTION_MODE_DEACTIVATION | RESTRICTION_MODE_ACTIVATION

record CallRestrictionInfo =
  cri_password :: string
  cri_fac :: CallRestrictionType
  cri_mode :: CallRestrictionMode

section \<open>IMS\<close>

datatype ImsConfigItem = ITEM_VIDEO_QUALITY | ITEM_IMS_SWITCH_STATUS

datatype FeatureType = TYPE_VOICE_OVER_LTE | TYPE_VIDEO_OVER_LTE | TYPE_SS_OVER_UT

datatype ImsCallMode =
    CALL_MODE_AUDIO_ONLY
  | CALL_MODE_SEND_ONLY
  | CALL_MODE_RECEIVE_ONLY
  | CALL_MODE_SEND_RECEIVE
  | CALL_MODE_VIDEO_PAUSED

section \<open>Audio devices\<close>

datatype AudioDeviceType =
    DEVICE_EARPIECE
  | DEVICE_SPEAKER
  | DEVICE_WIRED_HEADSET
  | DEVICE_BLUETOOTH_SCO
  | DEVICE_DISABLE
  | DEVICE_UNKNOWN
  | DEVICE_DISTRIBUTED_AUTOMOTIVE
  | DEVICE_DISTRIBUTED_PHONE
  | DEVICE_DISTRIBUTED_PAD
  | DEVICE_DISTRIBUTED_PC
  | DEVICE_NEARLINK
  | DEVICE_BLUETOOTH_HEARING_AID

record AudioDevice =
  ad_deviceType :: AudioDeviceType
  ad_address :: string
  ad_deviceName :: string

section \<open>OTT calls\<close>

record OttCallDetailsInfo =
  od_phoneNum :: string
  od_bundleName :: string
  od_videoState :: VideoStateType
  od_callState :: TelCallState

datatype OttCallEventId = OTT_CALL_EVENT_FUNCTION_UNSUPPORTED

record OttCallEventInfo =
  oe_ottCallEventId :: OttCallEventId
  oe_bundleName :: string

end
