(* ===== verification/Proxy.thy ===== *)
theory Proxy
  imports Complex_Main System Api_Types
begin

text \<open>
  The client side of the service, without IPC: \<open>frameworks/native/src/mini/call_manager_proxy.cpp\<close> and the
  callback object \<open>frameworks/native/include/mini/call_ability_callback.h\<close>. Every operation of the service
  is run on the loop by a synchronous call and answered there; everything else is refused.

  \<open>client\<close> joins the members of the client and of the proxy with the state \<open>cl_cm\<close> of the call manager.
  The callback objects live in a heap of their own; their address is what the service registers.
\<close>

section \<open>State\<close>

record ability_callback =
  ac_callbackPtr :: "nat option"
  ac_closed :: bool

record client =
  cl_isInit :: bool
  cl_hasProxy :: bool
  px_initStatus :: bool
  px_registerStatus :: bool
  px_callback :: "nat option"
  cl_heap :: "nat \<Rightarrow> ability_callback"
  cl_next :: nat
  cl_cm :: cm

type_synonym 'a clM = "(client, 'a) state"

definition onService :: "'a cmM \<Rightarrow> 'a clM" where
  "onService m = State (\<lambda>s. let (x, t) = run_state m (cl_cm s) in (x, s\<lparr>cl_cm := t\<rparr>))"

lemma run_onService [simp]:
  "run_state (onService m) s = (fst (run_state m (cl_cm s)), s\<lparr>cl_cm := snd (run_state m (cl_cm s))\<rparr>)"
  by (simp add: onService_def split: prod.splits)

section \<open>The callback object\<close>

definition CallAbilityCallback_new :: ability_callback where
  "CallAbilityCallback_new = \<lparr>ac_callbackPtr = None, ac_closed = False\<rparr>"

definition SetProcessCallback :: "nat option \<Rightarrow> ability_callback \<Rightarrow> ability_callback" where
  "SetProcessCallback callback c = c\<lparr>ac_callbackPtr := callback\<rparr>"

definition Close :: "ability_callback \<Rightarrow> ability_callback" where
  "Close c = c\<lparr>ac_closed := True, ac_callbackPtr := None\<rparr>"

text \<open>The application object that is called, if any; what it answers is its own affair.\<close>

definition deliver :: "(nat \<Rightarrow> ErrCode) \<Rightarrow> ability_callback \<Rightarrow> ErrCode \<times> nat option" where
  "deliver answer c =
     (if ac_closed c then (TELEPHONY_ERR_LOCAL_PTR_NULL, None)
      else case ac_callbackPtr c of
          None \<Rightarrow> (TELEPHONY_ERR_LOCAL_PTR_NULL, None)
        | Some p \<Rightarrow> (answer p, Some p))"

definition CallAbilityCallback_OnCallDetailsChange ::
  "(nat \<Rightarrow> CallAttributeInfo \<Rightarrow> ErrCode) \<Rightarrow> CallAttributeInfo \<Rightarrow> ability_callback \<Rightarrow> ErrCode \<times> nat option" where
  "CallAbilityCallback_OnCallDetailsChange app info = deliver (\<lambda>p. app p info)"

definition CallAbilityCallback_OnCallEventChange ::
  "(nat \<Rightarrow> CallEventInfo \<Rightarrow> ErrCode) \<Rightarrow> CallEventInfo \<Rightarrow> ability_callback \<Rightarrow> ErrCode \<times> nat option" where
  "CallAbilityCallback_OnCallEventChange app info = deliver (\<lambda>p. app p info)"

definition CallAbilityCallback_OnCallDisconnectedCause ::
  "(nat \<Rightarrow> DisconnectedDetails \<Rightarrow> ErrCode) \<Rightarrow> DisconnectedDetails \<Rightarrow> ability_callback \<Rightarrow> ErrCode \<times> nat option" where
  "CallAbilityCallback_OnCallDisconnectedCause app details = deliver (\<lambda>p. app p details)"

definition new_callback :: "nat \<Rightarrow> nat clM" where
  "new_callback p = do {
     k \<leftarrow> gets cl_next;
     modify (\<lambda>s. s\<lparr>cl_next := Suc k,
       cl_heap := (cl_heap s)(k := SetProcessCallback (Some p) CallAbilityCallback_new)\<rparr>);
     ret k
   }"

definition close_callback :: "nat \<Rightarrow> unit clM" where
  "close_callback k = modify (\<lambda>s. s\<lparr>cl_heap := (cl_heap s)(k := Close (cl_heap s k))\<rparr>)"

section \<open>Synchronous calls\<close>

text \<open>
  How a synchronous call ends, as the theory of the loop shows: the task ran before the wait was over; it
  ran, but the caller had given up; it found no waiter or no room in the queue; the loop was stopped
  first. The run of a task nobody waits for is placed at its call: what the loop does in between
  is a step of its own before the call. \<open>PostSyncCall\<close> leaves \<open>result\<close> alone when it fails.
\<close>

datatype sync_outcome = Sync_ran | Sync_late | Sync_refused | Sync_stopped

definition PostSyncCall :: "sync_outcome \<Rightarrow> 'a clM \<Rightarrow> 'a \<Rightarrow> (ErrCode \<times> 'a) clM" where
  "PostSyncCall w call result = do {
     st \<leftarrow> gets (\<lambda>s. lh_state (cm_loop (cl_cm s)));
     if st \<noteq> STATE_RUNNING then ret (TELEPHONY_ERR_UNINIT, result)
     else case w of
         Sync_ran \<Rightarrow> do { x \<leftarrow> call; ret (TELEPHONY_SUCCESS, x) }
       | Sync_late \<Rightarrow> do { _ \<leftarrow> call; ret (TELEPHONY_ERR_IPC_CONNECT_STUB_FAIL, result) }
       | Sync_refused \<Rightarrow> ret (TELEPHONY_ERR_IPC_CONNECT_STUB_FAIL, result)
       | Sync_stopped \<Rightarrow> ret (TELEPHONY_ERR_UNINIT, result)
   }"

definition ServiceNotReady :: ErrCode where
  "ServiceNotReady = TELEPHONY_ERR_UNINIT"

definition Proxy_NotSupported :: "ErrCode clM" where
  "Proxy_NotSupported = ret CALL_ERR_FUNCTION_NOT_SUPPORTED"

definition RunOnService :: "sync_outcome \<Rightarrow> 'a clM \<Rightarrow> 'a \<Rightarrow> (ErrCode \<times> 'a) clM" where
  "RunOnService w call notReady = do {
     initStatus \<leftarrow> gets px_initStatus;
     if \<not> initStatus then ret (ServiceNotReady, notReady)
     else do {
       (r, result) \<leftarrow> PostSyncCall w (do {
         ready \<leftarrow> gets (\<lambda>s. cm_ready (cl_cm s));
         if \<not> ready then ret notReady else call
       }) notReady;
       if r \<noteq> TELEPHONY_SUCCESS then ret (r, notReady) else ret (r, result)
     }
   }"

text \<open>What every operation with a return code does with the two results.\<close>

definition run_code :: "sync_outcome \<Rightarrow> ErrCode clM \<Rightarrow> ErrCode clM" where
  "run_code w call = do {
     (r, result) \<leftarrow> RunOnService w call TELEPHONY_ERR_UNINIT;
     ret (if r = TELEPHONY_SUCCESS then result else r)
   }"

definition run_query :: "sync_outcome \<Rightarrow> (ErrCode \<times> bool) clM \<Rightarrow> (ErrCode \<times> bool) clM" where
  "run_query w call = do {
     (r, result) \<leftarrow> RunOnService w call (TELEPHONY_ERR_UNINIT, False);
     ret (if r = TELEPHONY_SUCCESS then fst result else r, snd result)
   }"

section \<open>Life cycle and registration\<close>

definition Proxy_Init :: "int \<Rightarrow> unit clM" where
  "Proxy_Init systemAbilityId = modify (\<lambda>s. s\<lparr>px_initStatus := True\<rparr>)"

text \<open>The closures that run on the loop.\<close>

definition UnInit_task :: "unit clM" where
  "UnInit_task = do {
     callback \<leftarrow> gets px_callback;
     (case callback of
        None \<Rightarrow> ret ()
      | Some k \<Rightarrow> do {
          close_callback k;
          ignore (onService (Report_UnRegisterCallBack_ptr (Some k)))
        });
     modify (\<lambda>s. s\<lparr>px_callback := None, px_registerStatus := False\<rparr>)
   }"

definition RegisterCallBack_task :: "TrustModel \<Rightarrow> nat \<Rightarrow> ErrCode clM" where
  "RegisterCallBack_task tm k = do {
     registerStatus \<leftarrow> gets px_registerStatus;
     if registerStatus then ret TELEPHONY_ERR_REGISTER_CALLBACK_FAIL
     else do {
       serviceRet \<leftarrow> onService (Service_RegisterCallBack tm (Some k));
       if serviceRet = TELEPHONY_ERR_PERMISSION_ERR \<or> serviceRet = TELEPHONY_ERR_ILLEGAL_USE_OF_SYSTEM_API
       then ret serviceRet
       else if serviceRet \<noteq> TELEPHONY_SUCCESS then ret TELEPHONY_ERR_REGISTER_CALLBACK_FAIL
       else do {
         modify (\<lambda>s. s\<lparr>px_callback := Some k, px_registerStatus := True\<rparr>);
         ret TELEPHONY_SUCCESS
       }
     }
   }"

definition UnRegisterCallBack_task :: "TrustModel \<Rightarrow> ErrCode clM" where
  "UnRegisterCallBack_task tm = do {
     registerStatus \<leftarrow> gets px_registerStatus;
     if \<not> registerStatus then ret TELEPHONY_ERR_REGISTER_CALLBACK_FAIL
     else do {
       serviceRet \<leftarrow> onService (Service_UnRegisterCallBack tm);
       if serviceRet = TELEPHONY_ERR_PERMISSION_ERR \<or> serviceRet = TELEPHONY_ERR_ILLEGAL_USE_OF_SYSTEM_API
       then ret serviceRet
       else if serviceRet \<noteq> TELEPHONY_SUCCESS then ret TELEPHONY_ERR_UNREGISTER_CALLBACK_FAIL
       else do {
         callback \<leftarrow> gets px_callback;
         (case callback of None \<Rightarrow> ret () | Some k \<Rightarrow> close_callback k);
         modify (\<lambda>s. s\<lparr>px_callback := None, px_registerStatus := False\<rparr>);
         ret TELEPHONY_SUCCESS
       }
     }
   }"

definition Proxy_UnInit :: "sync_outcome \<Rightarrow> unit clM" where
  "Proxy_UnInit w = do {
     initStatus \<leftarrow> gets px_initStatus;
     modify (\<lambda>s. s\<lparr>px_initStatus := False\<rparr>);
     whenM initStatus (ignore (PostSyncCall w UnInit_task ()))
   }"

definition Proxy_RegisterCallBack :: "TrustModel \<Rightarrow> sync_outcome \<Rightarrow> nat option \<Rightarrow> ErrCode clM" where
  "Proxy_RegisterCallBack tm w callback = do {
     initStatus \<leftarrow> gets px_initStatus;
     if \<not> initStatus then ret ServiceNotReady
     else case callback of
       None \<Rightarrow> ret TELEPHONY_ERR_LOCAL_PTR_NULL
     | Some p \<Rightarrow> do {
         k \<leftarrow> new_callback p;
         run_code w (RegisterCallBack_task tm k)
       }
   }"

definition Proxy_UnRegisterCallBack :: "TrustModel \<Rightarrow> sync_outcome \<Rightarrow> ErrCode clM" where
  "Proxy_UnRegisterCallBack tm w = run_code w (UnRegisterCallBack_task tm)"

section \<open>Operations of the service\<close>

definition Proxy_ObserverOnCallDetailsChange :: "TrustModel \<Rightarrow> sync_outcome \<Rightarrow> ErrCode clM" where
  "Proxy_ObserverOnCallDetailsChange tm w = run_code w (onService (Service_ObserverOnCallDetailsChange tm))"

definition Proxy_DialCall :: "TrustModel \<Rightarrow> sync_outcome \<Rightarrow> u16string \<Rightarrow> PacMap \<Rightarrow> ErrCode clM" where
  "Proxy_DialCall tm w number extras =
     (let dialExtras = extras in run_code w (onService (Service_DialCall tm number dialExtras)))"

definition Proxy_AnswerCall :: "TrustModel \<Rightarrow> sync_outcome \<Rightarrow> int \<Rightarrow> int \<Rightarrow> bool \<Rightarrow> ErrCode clM" where
  "Proxy_AnswerCall tm w callId videoState isRTT = run_code w (onService (Service_AnswerCall tm callId videoState isRTT))"

definition Proxy_RejectCall :: "TrustModel \<Rightarrow> sync_outcome \<Rightarrow> int \<Rightarrow> bool \<Rightarrow> u16string \<Rightarrow> ErrCode clM" where
  "Proxy_RejectCall tm w callId isSendSms content = run_code w (onService (Service_RejectCall tm callId isSendSms content))"

definition Proxy_HangUpCall :: "TrustModel \<Rightarrow> sync_outcome \<Rightarrow> int \<Rightarrow> ErrCode clM" where
  "Proxy_HangUpCall tm w callId = run_code w (onService (Service_HangUpCall tm callId))"

text \<open>The state comes back as a number in the place of the code.\<close>

definition Proxy_GetCallState :: "sync_outcome \<Rightarrow> (ErrCode + int) clM" where
  "Proxy_GetCallState w = do {
     (r, result) \<leftarrow> RunOnService w (gets (\<lambda>s. Service_GetCallState (cl_cm s))) (Inl TELEPHONY_ERR_UNINIT);
     ret (if r = TELEPHONY_SUCCESS then result else Inl r)
   }"

definition Proxy_HoldCall :: "TrustModel \<Rightarrow> sync_outcome \<Rightarrow> int \<Rightarrow> ErrCode clM" where
  "Proxy_HoldCall tm w callId = run_code w (onService (Service_HoldCall tm callId))"

definition Proxy_UnHoldCall :: "TrustModel \<Rightarrow> sync_outcome \<Rightarrow> int \<Rightarrow> ErrCode clM" where
  "Proxy_UnHoldCall tm w callId = run_code w (onService (Service_UnHoldCall tm callId))"

definition Proxy_SwitchCall :: "TrustModel \<Rightarrow> sync_outcome \<Rightarrow> int \<Rightarrow> ErrCode clM" where
  "Proxy_SwitchCall tm w callId = run_code w (onService (Service_SwitchCall tm callId))"

text \<open>The queries start from \<open>false\<close> and write \<open>enabled\<close> in every case.\<close>

definition written :: "ErrCode \<times> bool option \<Rightarrow> ErrCode \<times> bool" where
  "written p = (fst p, case snd p of None \<Rightarrow> False | Some b \<Rightarrow> b)"

definition Proxy_IsRinging :: "TrustModel \<Rightarrow> sync_outcome \<Rightarrow> bool \<Rightarrow> (ErrCode \<times> bool) clM" where
  "Proxy_IsRinging tm w enabled = run_query w (gets (\<lambda>s. written (Service_IsRinging tm (cl_cm s))))"

definition Proxy_HasCall :: "sync_outcome \<Rightarrow> bool \<Rightarrow> bool clM" where
  "Proxy_HasCall w isInCludeVoipCall = do {
     (_, result) \<leftarrow> RunOnService w (gets (\<lambda>s. Service_HasCall isInCludeVoipCall (cl_cm s))) False;
     ret result
   }"

definition Proxy_IsNewCallAllowed :: "TrustModel \<Rightarrow> sync_outcome \<Rightarrow> bool \<Rightarrow> (ErrCode \<times> bool) clM" where
  "Proxy_IsNewCallAllowed tm w enabled = run_query w (gets (\<lambda>s. written (Service_IsNewCallAllowed tm (cl_cm s))))"

definition Proxy_IsEmergencyPhoneNumber ::
  "sync_outcome \<Rightarrow> u16string \<Rightarrow> int \<Rightarrow> bool \<Rightarrow> (ErrCode \<times> bool) clM" where
  "Proxy_IsEmergencyPhoneNumber w number slotId enabled =
     run_query w (onService (Service_IsEmergencyPhoneNumber number slotId False))"

definition Proxy_EndCall :: "TrustModel \<Rightarrow> sync_outcome \<Rightarrow> bool clM" where
  "Proxy_EndCall tm w = do {
     (_, result) \<leftarrow> RunOnService w (onService (Service_EndCall tm)) False;
     ret result
   }"

definition Proxy_AnswerCall_device :: "TrustModel \<Rightarrow> sync_outcome \<Rightarrow> ErrCode clM" where
  "Proxy_AnswerCall_device tm w = run_code w (onService (Service_AnswerCall_device tm))"

definition Proxy_RejectCall_device :: "TrustModel \<Rightarrow> sync_outcome \<Rightarrow> ErrCode clM" where
  "Proxy_RejectCall_device tm w = run_code w (onService (Service_RejectCall_device tm))"

definition Proxy_HangUpCall_device :: "TrustModel \<Rightarrow> sync_outcome \<Rightarrow> ErrCode clM" where
  "Proxy_HangUpCall_device tm w = run_code w (onService (Service_HangUpCall_device tm))"

section \<open>Operations that are not supported\<close>

text \<open>Arguments that the full system writes are results here, with the value they came in with.\<close>

definition Proxy_MakeCall :: "string \<Rightarrow> ErrCode clM" where
  "Proxy_MakeCall number = Proxy_NotSupported"

definition Proxy_MakeCallWithToken :: "string \<Rightarrow> PacMap \<Rightarrow> string \<Rightarrow> (ErrCode \<times> string) clM" where
  "Proxy_MakeCallWithToken number options token = do { code \<leftarrow> Proxy_NotSupported; ret (code, token) }"

definition Proxy_CombineConference :: "int \<Rightarrow> ErrCode clM" where
  "Proxy_CombineConference callId = Proxy_NotSupported"

definition Proxy_SeparateConference :: "int \<Rightarrow> ErrCode clM" where
  "Proxy_SeparateConference callId = Proxy_NotSupported"

definition Proxy_KickOutFromConference :: "int \<Rightarrow> ErrCode clM" where
  "Proxy_KickOutFromConference callId = Proxy_NotSupported"

definition Proxy_GetMainCallId :: "int \<Rightarrow> int \<Rightarrow> (ErrCode \<times> int \<times> int) clM" where
  "Proxy_GetMainCallId callId mainCallId =
     do { code \<leftarrow> Proxy_NotSupported; ret (code, callId, mainCallId) }"

definition Proxy_GetSubCallIdList :: "int \<Rightarrow> u16string list \<Rightarrow> (ErrCode \<times> u16string list) clM" where
  "Proxy_GetSubCallIdList callId callIdList = do { code \<leftarrow> Proxy_NotSupported; ret (code, callIdList) }"

definition Proxy_GetCallIdListForConference :: "int \<Rightarrow> u16string list \<Rightarrow> (ErrCode \<times> u16string list) clM" where
  "Proxy_GetCallIdListForConference callId callIdList =
     do { code \<leftarrow> Proxy_NotSupported; ret (code, callIdList) }"

definition Proxy_GetCallWaiting :: "int \<Rightarrow> ErrCode clM" where
  "Proxy_GetCallWaiting slotId = Proxy_NotSupported"

definition Proxy_SetCallWaiting :: "int \<Rightarrow> bool \<Rightarrow> ErrCode clM" where
  "Proxy_SetCallWaiting slotId activate = Proxy_NotSupported"

definition Proxy_GetCallRestriction :: "int \<Rightarrow> CallRestrictionType \<Rightarrow> ErrCode clM" where
  "Proxy_GetCallRestriction slotId type = Proxy_NotSupported"

definition Proxy_SetCallRestriction :: "int \<Rightarrow> CallRestrictionInfo \<Rightarrow> ErrCode clM" where
  "Proxy_SetCallRestriction slotId info = Proxy_NotSupported"

definition Proxy_SetCallRestrictionPassword :: "int \<Rightarrow> CallRestrictionType \<Rightarrow> string \<Rightarrow> string \<Rightarrow> ErrCode clM" where
  "Proxy_SetCallRestrictionPassword slotId fac oldPassword newPassword = Proxy_NotSupported"

definition Proxy_GetCallTransferInfo :: "int \<Rightarrow> CallTransferType \<Rightarrow> ErrCode clM" where
  "Proxy_GetCallTransferInfo slotId type = Proxy_NotSupported"

definition Proxy_SetCallTransferInfo :: "int \<Rightarrow> CallTransferInfo \<Rightarrow> ErrCode clM" where
  "Proxy_SetCallTransferInfo slotId info = Proxy_NotSupported"

definition Proxy_CanSetCallTransferTime :: "int \<Rightarrow> bool \<Rightarrow> (ErrCode \<times> bool) clM" where
  "Proxy_CanSetCallTransferTime slotId result = do { code \<leftarrow> Proxy_NotSupported; ret (code, result) }"

definition Proxy_SetCallPreferenceMode :: "int \<Rightarrow> int \<Rightarrow> ErrCode clM" where
  "Proxy_SetCallPreferenceMode slotId mode = Proxy_NotSupported"

definition Proxy_StartDtmf :: "int \<Rightarrow> char \<Rightarrow> ErrCode clM" where
  "Proxy_StartDtmf callId str = Proxy_NotSupported"

definition Proxy_StopDtmf :: "int \<Rightarrow> ErrCode clM" where
  "Proxy_StopDtmf callId = Proxy_NotSupported"

definition Proxy_PostDialProceed :: "int \<Rightarrow> bool \<Rightarrow> ErrCode clM" where
  "Proxy_PostDialProceed callId proceed = Proxy_NotSupported"

definition Proxy_RegisterVoipCallManagerCallback :: "ErrCode clM" where
  "Proxy_RegisterVoipCallManagerCallback = Proxy_NotSupported"

definition Proxy_UnRegisterVoipCallManagerCallback :: "ErrCode clM" where
  "Proxy_UnRegisterVoipCallManagerCallback = Proxy_NotSupported"

definition Proxy_IsInEmergencyCall :: "bool \<Rightarrow> (ErrCode \<times> bool) clM" where
  "Proxy_IsInEmergencyCall enabled = do { code \<leftarrow> Proxy_NotSupported; ret (code, enabled) }"

definition Proxy_FormatPhoneNumber :: "u16string \<Rightarrow> u16string \<Rightarrow> u16string \<Rightarrow> (ErrCode \<times> u16string) clM" where
  "Proxy_FormatPhoneNumber number countryCode formatNumber =
     do { code \<leftarrow> Proxy_NotSupported; ret (code, formatNumber) }"

definition Proxy_FormatPhoneNumberToE164 :: "u16string \<Rightarrow> u16string \<Rightarrow> u16string \<Rightarrow> (ErrCode \<times> u16string) clM" where
  "Proxy_FormatPhoneNumberToE164 number countryCode formatNumber =
     do { code \<leftarrow> Proxy_NotSupported; ret (code, formatNumber) }"

definition Proxy_SetMuted :: "bool \<Rightarrow> ErrCode clM" where
  "Proxy_SetMuted isMute = Proxy_NotSupported"

definition Proxy_MuteRinger :: "ErrCode clM" where
  "Proxy_MuteRinger = Proxy_NotSupported"

definition Proxy_SetAudioDevice :: "AudioDevice \<Rightarrow> ErrCode clM" where
  "Proxy_SetAudioDevice audioDevice = Proxy_NotSupported"

definition Proxy_ControlCamera :: "int \<Rightarrow> u16string \<Rightarrow> ErrCode clM" where
  "Proxy_ControlCamera callId cameraId = Proxy_NotSupported"

definition Proxy_SetPreviewWindow :: "int \<Rightarrow> string \<Rightarrow> ErrCode clM" where
  "Proxy_SetPreviewWindow callId surfaceId = Proxy_NotSupported"

definition Proxy_SetDisplayWindow :: "int \<Rightarrow> string \<Rightarrow> ErrCode clM" where
  "Proxy_SetDisplayWindow callId surfaceId = Proxy_NotSupported"

definition Proxy_SetCameraZoom :: "real \<Rightarrow> ErrCode clM" where
  "Proxy_SetCameraZoom zoomRatio = Proxy_NotSupported"

definition Proxy_SetPausePicture :: "int \<Rightarrow> u16string \<Rightarrow> ErrCode clM" where
  "Proxy_SetPausePicture callId path = Proxy_NotSupported"

definition Proxy_SetDeviceDirection :: "int \<Rightarrow> int \<Rightarrow> ErrCode clM" where
  "Proxy_SetDeviceDirection callId rotation = Proxy_NotSupported"

definition Proxy_GetImsConfig :: "int \<Rightarrow> ImsConfigItem \<Rightarrow> ErrCode clM" where
  "Proxy_GetImsConfig slotId item = Proxy_NotSupported"

definition Proxy_SetImsConfig :: "int \<Rightarrow> ImsConfigItem \<Rightarrow> u16string \<Rightarrow> ErrCode clM" where
  "Proxy_SetImsConfig slotId item value = Proxy_NotSupported"

definition Proxy_GetImsFeatureValue :: "int \<Rightarrow> FeatureType \<Rightarrow> ErrCode clM" where
  "Proxy_GetImsFeatureValue slotId type = Proxy_NotSupported"

definition Proxy_SetImsFeatureValue :: "int \<Rightarrow> FeatureType \<Rightarrow> int \<Rightarrow> ErrCode clM" where
  "Proxy_SetImsFeatureValue slotId type value = Proxy_NotSupported"

definition Proxy_UpdateImsCallMode :: "int \<Rightarrow> ImsCallMode \<Rightarrow> ErrCode clM" where
  "Proxy_UpdateImsCallMode callId mode = Proxy_NotSupported"

definition Proxy_EnableImsSwitch :: "int \<Rightarrow> ErrCode clM" where
  "Proxy_EnableImsSwitch slotId = Proxy_NotSupported"

definition Proxy_DisableImsSwitch :: "int \<Rightarrow> ErrCode clM" where
  "Proxy_DisableImsSwitch slotId = Proxy_NotSupported"

definition Proxy_IsImsSwitchEnabled :: "int \<Rightarrow> bool \<Rightarrow> (ErrCode \<times> bool) clM" where
  "Proxy_IsImsSwitchEnabled slotId enabled = do { code \<leftarrow> Proxy_NotSupported; ret (code, enabled) }"

definition Proxy_SetVoNRState :: "int \<Rightarrow> int \<Rightarrow> ErrCode clM" where
  "Proxy_SetVoNRState slotId state = Proxy_NotSupported"

definition Proxy_GetVoNRState :: "int \<Rightarrow> int \<Rightarrow> (ErrCode \<times> int) clM" where
  "Proxy_GetVoNRState slotId state = do { code \<leftarrow> Proxy_NotSupported; ret (code, state) }"

definition Proxy_JoinConference :: "int \<Rightarrow> u16string list \<Rightarrow> ErrCode clM" where
  "Proxy_JoinConference callId numberList = Proxy_NotSupported"

definition Proxy_ReportOttCallDetailsInfo :: "OttCallDetailsInfo list \<Rightarrow> ErrCode clM" where
  "Proxy_ReportOttCallDetailsInfo ottVec = Proxy_NotSupported"

definition Proxy_ReportOttCallEventInfo :: "OttCallEventInfo \<Rightarrow> ErrCode clM" where
  "Proxy_ReportOttCallEventInfo eventInfo = Proxy_NotSupported"

definition Proxy_CloseUnFinishedUssd :: "int \<Rightarrow> ErrCode clM" where
  "Proxy_CloseUnFinishedUssd slotId = Proxy_NotSupported"

definition Proxy_InputDialerSpecialCode :: "string \<Rightarrow> ErrCode clM" where
  "Proxy_InputDialerSpecialCode specialCode = Proxy_NotSupported"

definition Proxy_RemoveMissedIncomingCallNotification :: "ErrCode clM" where
  "Proxy_RemoveMissedIncomingCallNotification = Proxy_NotSupported"

definition Proxy_SetVoIPCallState :: "int \<Rightarrow> ErrCode clM" where
  "Proxy_SetVoIPCallState state = Proxy_NotSupported"

definition Proxy_GetVoIPCallState :: "int \<Rightarrow> (ErrCode \<times> int) clM" where
  "Proxy_GetVoIPCallState state = do { code \<leftarrow> Proxy_NotSupported; ret (code, state) }"

definition Proxy_SetVoIPCallInfo :: "int \<Rightarrow> int \<Rightarrow> string \<Rightarrow> ErrCode clM" where
  "Proxy_SetVoIPCallInfo callId state phoneNumber = Proxy_NotSupported"

definition Proxy_GetVoIPCallInfo :: "int \<Rightarrow> int \<Rightarrow> string \<Rightarrow> (ErrCode \<times> int \<times> int \<times> string) clM" where
  "Proxy_GetVoIPCallInfo callId state phoneNumber =
     do { code \<leftarrow> Proxy_NotSupported; ret (code, callId, state, phoneNumber) }"

definition Proxy_SetRegMmiCodeCallbackState :: "bool \<Rightarrow> ErrCode clM" where
  "Proxy_SetRegMmiCodeCallbackState isReg = Proxy_NotSupported"

definition Proxy_ReportAudioDeviceInfo :: "ErrCode clM" where
  "Proxy_ReportAudioDeviceInfo = Proxy_NotSupported"

definition Proxy_CancelCallUpgrade :: "int \<Rightarrow> ErrCode clM" where
  "Proxy_CancelCallUpgrade callId = Proxy_NotSupported"

definition Proxy_RequestCameraCapabilities :: "int \<Rightarrow> ErrCode clM" where
  "Proxy_RequestCameraCapabilities callId = Proxy_NotSupported"

definition Proxy_SendCallUiEvent :: "int \<Rightarrow> string \<Rightarrow> ErrCode clM" where
  "Proxy_SendCallUiEvent callId eventName = Proxy_NotSupported"

definition Proxy_PreloadCallUi :: "bool \<Rightarrow> ErrCode clM" where
  "Proxy_PreloadCallUi enable = Proxy_NotSupported"

definition Proxy_RegisterBluetoothCallManagerCallbackPtr :: "int \<Rightarrow> string \<Rightarrow> (nat option) clM" where
  "Proxy_RegisterBluetoothCallManagerCallbackPtr phoneIndex macAddress = do { Proxy_NotSupported; ret None }"

definition Proxy_SendUssdResponse :: "int \<Rightarrow> string \<Rightarrow> ErrCode clM" where
  "Proxy_SendUssdResponse slotId content = Proxy_NotSupported"

definition Proxy_SetCallPolicyInfo :: "bool \<Rightarrow> string list \<Rightarrow> bool \<Rightarrow> string list \<Rightarrow> ErrCode clM" where
  "Proxy_SetCallPolicyInfo isDialingTrustlist dialingList isIncomingTrustlist incomingList = Proxy_NotSupported"

definition Proxy_HasDistributedCommunicationCapability :: "bool clM" where
  "Proxy_HasDistributedCommunicationCapability = do { Proxy_NotSupported; ret False }"

definition Proxy_NotifyVoIPAudioStreamStart :: "int \<Rightarrow> ErrCode clM" where
  "Proxy_NotifyVoIPAudioStreamStart uid = Proxy_NotSupported"

definition Proxy_CheckCallRecordingPermission :: "string \<Rightarrow> string \<Rightarrow> bool clM" where
  "Proxy_CheckCallRecordingPermission cellularRecordPhoneNum cellularRecordToken =
     do { Proxy_NotSupported; ret False }"

definition Proxy_SetCallAudioMode :: "int \<Rightarrow> int \<Rightarrow> ErrCode clM" where
  "Proxy_SetCallAudioMode mode scenarios = Proxy_NotSupported"

definition Proxy_RejectCall_type :: "RejectType \<Rightarrow> ErrCode clM" where
  "Proxy_RejectCall_type rejectType = Proxy_NotSupported"

definition Proxy_GetCallTransferInfo_number :: "string \<Rightarrow> CallTransferType \<Rightarrow> ErrCode clM" where
  "Proxy_GetCallTransferInfo_number number type = Proxy_NotSupported"

end
