(* ===== verification/Client.thy ===== *)
theory Client
  imports Proxy
begin

text \<open>
  The public interface of the library: \<open>frameworks/native/src/call_manager_client.cpp\<close>. Each function
  forwards to the proxy once there is one. The functions under \<open>SUPPORT_RTT_CALL\<close> and
  \<open>CALL_MANAGER_CALL_TRANSFER\<close> are not built for this product.
\<close>

definition via_proxy :: "'a \<Rightarrow> 'a clM \<Rightarrow> 'a clM" where
  "via_proxy uninit m = do {
     hasProxy \<leftarrow> gets cl_hasProxy;
     if hasProxy then m else ret uninit
   }"

section \<open>Life cycle\<close>

definition Client_Init :: "int \<Rightarrow> unit clM" where
  "Client_Init systemAbilityId = do {
     isInit \<leftarrow> gets cl_isInit;
     whenM (\<not> isInit) (do {
       modify (\<lambda>s. s\<lparr>cl_hasProxy := True\<rparr>);
       Proxy_Init systemAbilityId;
       modify (\<lambda>s. s\<lparr>cl_isInit := True\<rparr>)
     })
   }"

definition Client_UnInit :: "sync_outcome \<Rightarrow> unit clM" where
  "Client_UnInit w = do {
     isInit \<leftarrow> gets cl_isInit;
     whenM isInit (do {
       Proxy_UnInit w;
       modify (\<lambda>s. s\<lparr>cl_isInit := False\<rparr>)
     })
   }"

section \<open>Operations of the service\<close>

definition Client_RegisterCallBack :: "TrustModel \<Rightarrow> sync_outcome \<Rightarrow> nat option \<Rightarrow> ErrCode clM" where
  "Client_RegisterCallBack tm w callback = via_proxy TELEPHONY_ERR_UNINIT (Proxy_RegisterCallBack tm w callback)"

definition Client_UnRegisterCallBack :: "TrustModel \<Rightarrow> sync_outcome \<Rightarrow> ErrCode clM" where
  "Client_UnRegisterCallBack tm w = via_proxy TELEPHONY_ERR_UNINIT (Proxy_UnRegisterCallBack tm w)"

definition Client_ObserverOnCallDetailsChange :: "TrustModel \<Rightarrow> sync_outcome \<Rightarrow> ErrCode clM" where
  "Client_ObserverOnCallDetailsChange tm w = via_proxy TELEPHONY_ERR_UNINIT (Proxy_ObserverOnCallDetailsChange tm w)"

definition Client_DialCall :: "TrustModel \<Rightarrow> sync_outcome \<Rightarrow> u16string \<Rightarrow> PacMap \<Rightarrow> ErrCode clM" where
  "Client_DialCall tm w number extras = via_proxy TELEPHONY_ERR_UNINIT (Proxy_DialCall tm w number extras)"

definition Client_AnswerCall :: "TrustModel \<Rightarrow> sync_outcome \<Rightarrow> int \<Rightarrow> int \<Rightarrow> bool \<Rightarrow> ErrCode clM" where
  "Client_AnswerCall tm w callId videoState isRTT =
     via_proxy TELEPHONY_ERR_UNINIT (Proxy_AnswerCall tm w callId videoState isRTT)"

definition Client_RejectCall :: "TrustModel \<Rightarrow> sync_outcome \<Rightarrow> int \<Rightarrow> bool \<Rightarrow> u16string \<Rightarrow> ErrCode clM" where
  "Client_RejectCall tm w callId isSendSms content =
     via_proxy TELEPHONY_ERR_UNINIT (Proxy_RejectCall tm w callId isSendSms content)"

definition Client_HangUpCall :: "TrustModel \<Rightarrow> sync_outcome \<Rightarrow> int \<Rightarrow> ErrCode clM" where
  "Client_HangUpCall tm w callId = via_proxy TELEPHONY_ERR_UNINIT (Proxy_HangUpCall tm w callId)"

definition Client_GetCallState :: "sync_outcome \<Rightarrow> (ErrCode + int) clM" where
  "Client_GetCallState w = via_proxy (Inl TELEPHONY_ERR_UNINIT) (Proxy_GetCallState w)"

definition Client_HoldCall :: "TrustModel \<Rightarrow> sync_outcome \<Rightarrow> int \<Rightarrow> ErrCode clM" where
  "Client_HoldCall tm w callId = via_proxy TELEPHONY_ERR_UNINIT (Proxy_HoldCall tm w callId)"

definition Client_UnHoldCall :: "TrustModel \<Rightarrow> sync_outcome \<Rightarrow> int \<Rightarrow> ErrCode clM" where
  "Client_UnHoldCall tm w callId = via_proxy TELEPHONY_ERR_UNINIT (Proxy_UnHoldCall tm w callId)"

definition Client_SwitchCall :: "TrustModel \<Rightarrow> sync_outcome \<Rightarrow> int \<Rightarrow> ErrCode clM" where
  "Client_SwitchCall tm w callId = via_proxy TELEPHONY_ERR_UNINIT (Proxy_SwitchCall tm w callId)"

definition Client_IsRinging :: "TrustModel \<Rightarrow> sync_outcome \<Rightarrow> bool \<Rightarrow> (ErrCode \<times> bool) clM" where
  "Client_IsRinging tm w enabled = via_proxy (TELEPHONY_ERR_UNINIT, enabled) (Proxy_IsRinging tm w enabled)"

definition Client_HasCall :: "sync_outcome \<Rightarrow> bool \<Rightarrow> bool clM" where
  "Client_HasCall w isInCludeVoipCall = via_proxy False (Proxy_HasCall w isInCludeVoipCall)"

definition Client_IsNewCallAllowed :: "TrustModel \<Rightarrow> sync_outcome \<Rightarrow> bool \<Rightarrow> (ErrCode \<times> bool) clM" where
  "Client_IsNewCallAllowed tm w enabled =
     via_proxy (TELEPHONY_ERR_UNINIT, enabled) (Proxy_IsNewCallAllowed tm w enabled)"

definition Client_IsEmergencyPhoneNumber ::
  "sync_outcome \<Rightarrow> u16string \<Rightarrow> int \<Rightarrow> bool \<Rightarrow> (ErrCode \<times> bool) clM" where
  "Client_IsEmergencyPhoneNumber w number slotId enabled =
     via_proxy (TELEPHONY_ERR_UNINIT, enabled) (Proxy_IsEmergencyPhoneNumber w number slotId enabled)"

definition Client_EndCall :: "TrustModel \<Rightarrow> sync_outcome \<Rightarrow> bool clM" where
  "Client_EndCall tm w = via_proxy False (Proxy_EndCall tm w)"

definition Client_AnswerCall_device :: "TrustModel \<Rightarrow> sync_outcome \<Rightarrow> ErrCode clM" where
  "Client_AnswerCall_device tm w = via_proxy TELEPHONY_ERR_UNINIT (Proxy_AnswerCall_device tm w)"

definition Client_RejectCall_device :: "TrustModel \<Rightarrow> sync_outcome \<Rightarrow> ErrCode clM" where
  "Client_RejectCall_device tm w = via_proxy TELEPHONY_ERR_UNINIT (Proxy_RejectCall_device tm w)"

definition Client_HangUpCall_device :: "TrustModel \<Rightarrow> sync_outcome \<Rightarrow> ErrCode clM" where
  "Client_HangUpCall_device tm w = via_proxy TELEPHONY_ERR_UNINIT (Proxy_HangUpCall_device tm w)"

text \<open>
  The capability is a parameter of the system: \<open>GetParameter key def len\<close> is the text it leaves in the buffer.
\<close>

definition HasVoiceCapability :: "(string \<Rightarrow> string \<Rightarrow> nat \<Rightarrow> string) \<Rightarrow> bool" where
  "HasVoiceCapability GetParameter =
     (if GetParameter ''const.telephony.voice.capable'' ''true'' 6 = ''true'' then True else False)"

section \<open>Operations that are not supported\<close>

definition Client_MakeCall :: "string \<Rightarrow> ErrCode clM" where
  "Client_MakeCall number = via_proxy TELEPHONY_ERR_UNINIT (Proxy_MakeCall number)"

definition Client_MakeCallWithToken :: "string \<Rightarrow> PacMap \<Rightarrow> string \<Rightarrow> (ErrCode \<times> string) clM" where
  "Client_MakeCallWithToken number options token =
     via_proxy (TELEPHONY_ERR_UNINIT, token) (Proxy_MakeCallWithToken number options token)"

definition Client_RegisterVoipCallManagerCallback :: "ErrCode clM" where
  "Client_RegisterVoipCallManagerCallback = via_proxy TELEPHONY_ERR_UNINIT Proxy_RegisterVoipCallManagerCallback"

definition Client_UnRegisterVoipCallManagerCallback :: "ErrCode clM" where
  "Client_UnRegisterVoipCallManagerCallback = via_proxy TELEPHONY_ERR_UNINIT Proxy_UnRegisterVoipCallManagerCallback"

definition Client_CombineConference :: "int \<Rightarrow> ErrCode clM" where
  "Client_CombineConference callId = via_proxy TELEPHONY_ERR_UNINIT (Proxy_CombineConference callId)"

definition Client_SeparateConference :: "int \<Rightarrow> ErrCode clM" where
  "Client_SeparateConference callId = via_proxy TELEPHONY_ERR_UNINIT (Proxy_SeparateConference callId)"

definition Client_KickOutFromConference :: "int \<Rightarrow> ErrCode clM" where
  "Client_KickOutFromConference callId = via_proxy TELEPHONY_ERR_UNINIT (Proxy_KickOutFromConference callId)"

definition Client_GetMainCallId :: "int \<Rightarrow> int \<Rightarrow> (ErrCode \<times> int \<times> int) clM" where
  "Client_GetMainCallId callId mainCallId =
     via_proxy (TELEPHONY_ERR_UNINIT, callId, mainCallId) (Proxy_GetMainCallId callId mainCallId)"

definition Client_GetSubCallIdList :: "int \<Rightarrow> u16string list \<Rightarrow> (ErrCode \<times> u16string list) clM" where
  "Client_GetSubCallIdList callId callIdList =
     via_proxy (TELEPHONY_ERR_UNINIT, []) (Proxy_GetSubCallIdList callId callIdList)"

definition Client_GetCallIdListForConference :: "int \<Rightarrow> u16string list \<Rightarrow> (ErrCode \<times> u16string list) clM" where
  "Client_GetCallIdListForConference callId callIdList =
     via_proxy (TELEPHONY_ERR_UNINIT, []) (Proxy_GetCallIdListForConference callId callIdList)"

definition Client_GetCallWaiting :: "int \<Rightarrow> ErrCode clM" where
  "Client_GetCallWaiting slotId = via_proxy TELEPHONY_ERR_UNINIT (Proxy_GetCallWaiting slotId)"

definition Client_SetCallWaiting :: "int \<Rightarrow> bool \<Rightarrow> ErrCode clM" where
  "Client_SetCallWaiting slotId activate = via_proxy TELEPHONY_ERR_UNINIT (Proxy_SetCallWaiting slotId activate)"

definition Client_GetCallRestriction :: "int \<Rightarrow> CallRestrictionType \<Rightarrow> ErrCode clM" where
  "Client_GetCallRestriction slotId type = via_proxy TELEPHONY_ERR_UNINIT (Proxy_GetCallRestriction slotId type)"

definition Client_SetCallRestriction :: "int \<Rightarrow> CallRestrictionInfo \<Rightarrow> ErrCode clM" where
  "Client_SetCallRestriction slotId info = via_proxy TELEPHONY_ERR_UNINIT (Proxy_SetCallRestriction slotId info)"

definition Client_SetCallRestrictionPassword :: "int \<Rightarrow> CallRestrictionType \<Rightarrow> string \<Rightarrow> string \<Rightarrow> ErrCode clM" where
  "Client_SetCallRestrictionPassword slotId fac oldPassword newPassword =
     via_proxy TELEPHONY_ERR_UNINIT (Proxy_SetCallRestrictionPassword slotId fac oldPassword newPassword)"

definition Client_GetCallTransferInfo :: "int \<Rightarrow> CallTransferType \<Rightarrow> ErrCode clM" where
  "Client_GetCallTransferInfo slotId type = via_proxy TELEPHONY_ERR_UNINIT (Proxy_GetCallTransferInfo slotId type)"

definition Client_SetCallTransferInfo :: "int \<Rightarrow> CallTransferInfo \<Rightarrow> ErrCode clM" where
  "Client_SetCallTransferInfo slotId info = via_proxy TELEPHONY_ERR_UNINIT (Proxy_SetCallTransferInfo slotId info)"

definition Client_CanSetCallTransferTime :: "int \<Rightarrow> bool \<Rightarrow> (ErrCode \<times> bool) clM" where
  "Client_CanSetCallTransferTime slotId result =
     via_proxy (TELEPHONY_ERR_UNINIT, result) (Proxy_CanSetCallTransferTime slotId result)"

definition Client_SetCallPreferenceMode :: "int \<Rightarrow> int \<Rightarrow> ErrCode clM" where
  "Client_SetCallPreferenceMode slotId mode =
     via_proxy TELEPHONY_ERR_UNINIT (Proxy_SetCallPreferenceMode slotId mode)"

definition Client_StartDtmf :: "int \<Rightarrow> char \<Rightarrow> ErrCode clM" where
  "Client_StartDtmf callId str = via_proxy TELEPHONY_ERR_UNINIT (Proxy_StartDtmf callId str)"

definition Client_StopDtmf :: "int \<Rightarrow> ErrCode clM" where
  "Client_StopDtmf callId = via_proxy TELEPHONY_ERR_UNINIT (Proxy_StopDtmf callId)"

definition Client_PostDialProceed :: "int \<Rightarrow> bool \<Rightarrow> ErrCode clM" where
  "Client_PostDialProceed callId proceed = via_proxy TELEPHONY_ERR_UNINIT (Proxy_PostDialProceed callId proceed)"

definition Client_IsInEmergencyCall :: "bool \<Rightarrow> (ErrCode \<times> bool) clM" where
  "Client_IsInEmergencyCall enabled = via_proxy (TELEPHONY_ERR_UNINIT, enabled) (Proxy_IsInEmergencyCall enabled)"

definition Client_FormatPhoneNumber :: "u16string \<Rightarrow> u16string \<Rightarrow> u16string \<Rightarrow> (ErrCode \<times> u16string) clM" where
  "Client_FormatPhoneNumber number countryCode formatNumber =
     via_proxy (TELEPHONY_ERR_UNINIT, formatNumber) (Proxy_FormatPhoneNumber number countryCode formatNumber)"

definition Client_FormatPhoneNumberToE164 :: "u16string \<Rightarrow> u16string \<Rightarrow> u16string \<Rightarrow> (ErrCode \<times> u16string) clM" where
  "Client_FormatPhoneNumberToE164 number countryCode formatNumber =
     via_proxy (TELEPHONY_ERR_UNINIT, formatNumber) (Proxy_FormatPhoneNumberToE164 number countryCode formatNumber)"

definition Client_SetMuted :: "bool \<Rightarrow> ErrCode clM" where
  "Client_SetMuted isMute = via_proxy TELEPHONY_ERR_UNINIT (Proxy_SetMuted isMute)"

definition Client_MuteRinger :: "ErrCode clM" where
  "Client_MuteRinger = via_proxy TELEPHONY_ERR_UNINIT Proxy_MuteRinger"

definition Client_SetAudioDevice :: "AudioDevice \<Rightarrow> ErrCode clM" where
  "Client_SetAudioDevice audioDevice = via_proxy TELEPHONY_ERR_UNINIT (Proxy_SetAudioDevice audioDevice)"

definition Client_ControlCamera :: "int \<Rightarrow> u16string \<Rightarrow> ErrCode clM" where
  "Client_ControlCamera callId cameraId = via_proxy TELEPHONY_ERR_UNINIT (Proxy_ControlCamera callId cameraId)"

definition Client_SetPreviewWindow :: "int \<Rightarrow> string \<Rightarrow> ErrCode clM" where
  "Client_SetPreviewWindow callId surfaceId =
     via_proxy TELEPHONY_ERR_UNINIT (Proxy_SetPreviewWindow callId surfaceId)"

definition Client_SetDisplayWindow :: "int \<Rightarrow> string \<Rightarrow> ErrCode clM" where
  "Client_SetDisplayWindow callId surfaceId =
     via_proxy TELEPHONY_ERR_UNINIT (Proxy_SetDisplayWindow callId surfaceId)"

definition Client_SetCameraZoom :: "real \<Rightarrow> ErrCode clM" where
  "Client_SetCameraZoom zoomRatio = via_proxy TELEPHONY_ERR_UNINIT (Proxy_SetCameraZoom zoomRatio)"

definition Client_SetPausePicture :: "int \<Rightarrow> u16string \<Rightarrow> ErrCode clM" where
  "Client_SetPausePicture callId path = via_proxy TELEPHONY_ERR_UNINIT (Proxy_SetPausePicture callId path)"

definition Client_SetDeviceDirection :: "int \<Rightarrow> int \<Rightarrow> ErrCode clM" where
  "Client_SetDeviceDirection callId rotation =
     via_proxy TELEPHONY_ERR_UNINIT (Proxy_SetDeviceDirection callId rotation)"

definition Client_GetImsConfig :: "int \<Rightarrow> ImsConfigItem \<Rightarrow> ErrCode clM" where
  "Client_GetImsConfig slotId item = via_proxy TELEPHONY_ERR_UNINIT (Proxy_GetImsConfig slotId item)"

definition Client_SetImsConfig :: "int \<Rightarrow> ImsConfigItem \<Rightarrow> u16string \<Rightarrow> ErrCode clM" where
  "Client_SetImsConfig slotId item value = via_proxy TELEPHONY_ERR_UNINIT (Proxy_SetImsConfig slotId item value)"

definition Client_GetImsFeatureValue :: "int \<Rightarrow> FeatureType \<Rightarrow> ErrCode clM" where
  "Client_GetImsFeatureValue slotId type = via_proxy TELEPHONY_ERR_UNINIT (Proxy_GetImsFeatureValue slotId type)"

definition Client_SetImsFeatureValue :: "int \<Rightarrow> FeatureType \<Rightarrow> int \<Rightarrow> ErrCode clM" where
  "Client_SetImsFeatureValue slotId type value =
     via_proxy TELEPHONY_ERR_UNINIT (Proxy_SetImsFeatureValue slotId type value)"

definition Client_UpdateImsCallMode :: "int \<Rightarrow> ImsCallMode \<Rightarrow> ErrCode clM" where
  "Client_UpdateImsCallMode callId mode = via_proxy TELEPHONY_ERR_UNINIT (Proxy_UpdateImsCallMode callId mode)"

definition Client_EnableImsSwitch :: "int \<Rightarrow> ErrCode clM" where
  "Client_EnableImsSwitch slotId = via_proxy TELEPHONY_ERR_UNINIT (Proxy_EnableImsSwitch slotId)"

definition Client_DisableImsSwitch :: "int \<Rightarrow> ErrCode clM" where
  "Client_DisableImsSwitch slotId = via_proxy TELEPHONY_ERR_UNINIT (Proxy_DisableImsSwitch slotId)"

definition Client_IsImsSwitchEnabled :: "int \<Rightarrow> bool \<Rightarrow> (ErrCode \<times> bool) clM" where
  "Client_IsImsSwitchEnabled slotId enabled =
     via_proxy (TELEPHONY_ERR_UNINIT, enabled) (Proxy_IsImsSwitchEnabled slotId enabled)"

definition Client_SetVoNRState :: "int \<Rightarrow> int \<Rightarrow> ErrCode clM" where
  "Client_SetVoNRState slotId state = via_proxy TELEPHONY_ERR_UNINIT (Proxy_SetVoNRState slotId state)"

definition Client_GetVoNRState :: "int \<Rightarrow> int \<Rightarrow> (ErrCode \<times> int) clM" where
  "Client_GetVoNRState slotId state = via_proxy (TELEPHONY_ERR_UNINIT, state) (Proxy_GetVoNRState slotId state)"

definition Client_JoinConference :: "int \<Rightarrow> u16string list \<Rightarrow> ErrCode clM" where
  "Client_JoinConference callId numberList = via_proxy TELEPHONY_ERR_UNINIT (Proxy_JoinConference callId numberList)"

definition Client_ReportOttCallDetailsInfo :: "OttCallDetailsInfo list \<Rightarrow> ErrCode clM" where
  "Client_ReportOttCallDetailsInfo ottVec = via_proxy TELEPHONY_ERR_UNINIT (Proxy_ReportOttCallDetailsInfo ottVec)"

definition Client_ReportOttCallEventInfo :: "OttCallEventInfo \<Rightarrow> ErrCode clM" where
  "Client_ReportOttCallEventInfo eventInfo = via_proxy TELEPHONY_ERR_UNINIT (Proxy_ReportOttCallEventInfo eventInfo)"

definition Client_CloseUnFinishedUssd :: "int \<Rightarrow> ErrCode clM" where
  "Client_CloseUnFinishedUssd slotId = via_proxy TELEPHONY_ERR_UNINIT (Proxy_CloseUnFinishedUssd slotId)"

definition Client_InputDialerSpecialCode :: "string \<Rightarrow> ErrCode clM" where
  "Client_InputDialerSpecialCode specialCode =
     via_proxy TELEPHONY_ERR_UNINIT (Proxy_InputDialerSpecialCode specialCode)"

definition Client_RemoveMissedIncomingCallNotification :: "ErrCode clM" where
  "Client_RemoveMissedIncomingCallNotification =
     via_proxy TELEPHONY_ERR_UNINIT Proxy_RemoveMissedIncomingCallNotification"

definition Client_SetVoIPCallState :: "int \<Rightarrow> ErrCode clM" where
  "Client_SetVoIPCallState state = via_proxy TELEPHONY_ERR_UNINIT (Proxy_SetVoIPCallState state)"

definition Client_SetVoIPCallInfo :: "int \<Rightarrow> int \<Rightarrow> string \<Rightarrow> ErrCode clM" where
  "Client_SetVoIPCallInfo callId state phoneNumber =
     via_proxy TELEPHONY_ERR_UNINIT (Proxy_SetVoIPCallInfo callId state phoneNumber)"

definition Client_GetVoIPCallInfo :: "int \<Rightarrow> int \<Rightarrow> string \<Rightarrow> (ErrCode \<times> int \<times> int \<times> string) clM" where
  "Client_GetVoIPCallInfo callId state phoneNumber =
     via_proxy (TELEPHONY_ERR_UNINIT, callId, state, phoneNumber) (Proxy_GetVoIPCallInfo callId state phoneNumber)"

definition Client_GetVoIPCallState :: "int \<Rightarrow> (ErrCode \<times> int) clM" where
  "Client_GetVoIPCallState state = via_proxy (TELEPHONY_ERR_UNINIT, state) (Proxy_GetVoIPCallState state)"

definition Client_SetRegMmiCodeCallbackState :: "bool \<Rightarrow> ErrCode clM" where
  "Client_SetRegMmiCodeCallbackState isReg = via_proxy TELEPHONY_ERR_UNINIT (Proxy_SetRegMmiCodeCallbackState isReg)"

definition Client_ReportAudioDeviceInfo :: "ErrCode clM" where
  "Client_ReportAudioDeviceInfo = via_proxy TELEPHONY_ERR_UNINIT Proxy_ReportAudioDeviceInfo"

definition Client_CancelCallUpgrade :: "int \<Rightarrow> ErrCode clM" where
  "Client_CancelCallUpgrade callId = via_proxy TELEPHONY_ERR_UNINIT (Proxy_CancelCallUpgrade callId)"

definition Client_RequestCameraCapabilities :: "int \<Rightarrow> ErrCode clM" where
  "Client_RequestCameraCapabilities callId = via_proxy TELEPHONY_ERR_UNINIT (Proxy_RequestCameraCapabilities callId)"

definition Client_PreloadCallUi :: "bool \<Rightarrow> ErrCode clM" where
  "Client_PreloadCallUi enable = via_proxy TELEPHONY_ERR_UNINIT (Proxy_PreloadCallUi enable)"

definition Client_SendCallUiEvent :: "int \<Rightarrow> string \<Rightarrow> ErrCode clM" where
  "Client_SendCallUiEvent callId eventName = via_proxy TELEPHONY_ERR_UNINIT (Proxy_SendCallUiEvent callId eventName)"

definition Client_RegisterBluetoothCallManagerCallbackPtr :: "string \<Rightarrow> (nat option) clM" where
  "Client_RegisterBluetoothCallManagerCallbackPtr macAddress =
     via_proxy None (Proxy_RegisterBluetoothCallManagerCallbackPtr 0 macAddress)"

definition Client_RegisterTwoPhoneCallManagerCallbackPtr :: "int \<Rightarrow> string \<Rightarrow> (nat option) clM" where
  "Client_RegisterTwoPhoneCallManagerCallbackPtr phoneIndex macAddress =
     via_proxy None (Proxy_RegisterBluetoothCallManagerCallbackPtr phoneIndex macAddress)"

definition Client_SendUssdResponse :: "int \<Rightarrow> string \<Rightarrow> ErrCode clM" where
  "Client_SendUssdResponse slotId content = via_proxy TELEPHONY_ERR_UNINIT (Proxy_SendUssdResponse slotId content)"

definition Client_SetCallPolicyInfo :: "bool \<Rightarrow> string list \<Rightarrow> bool \<Rightarrow> string list \<Rightarrow> ErrCode clM" where
  "Client_SetCallPolicyInfo isDialingTrustlist dialingList isIncomingTrustlist incomingList =
     via_proxy TELEPHONY_ERR_UNINIT (Proxy_SetCallPolicyInfo isDialingTrustlist dialingList isIncomingTrustlist incomingList)"

definition Client_NotifyVoIPAudioStreamStart :: "int \<Rightarrow> ErrCode clM" where
  "Client_NotifyVoIPAudioStreamStart uid = via_proxy TELEPHONY_ERR_UNINIT (Proxy_NotifyVoIPAudioStreamStart uid)"

definition Client_SetCallAudioMode :: "int \<Rightarrow> int \<Rightarrow> ErrCode clM" where
  "Client_SetCallAudioMode mode scenarios = via_proxy TELEPHONY_ERR_UNINIT (Proxy_SetCallAudioMode mode scenarios)"

definition Client_RejectCall_type :: "RejectType \<Rightarrow> ErrCode clM" where
  "Client_RejectCall_type rejectType = via_proxy TELEPHONY_ERR_UNINIT (Proxy_RejectCall_type rejectType)"

definition Client_GetCallTransferInfo_number :: "string \<Rightarrow> CallTransferType \<Rightarrow> ErrCode clM" where
  "Client_GetCallTransferInfo_number number type =
     via_proxy TELEPHONY_ERR_UNINIT (Proxy_GetCallTransferInfo_number number type)"

definition Client_RegisterTransferController :: "nat option \<Rightarrow> ErrCode clM" where
  "Client_RegisterTransferController transferControl = ret TELEPHONY_ERR_UNINIT"

definition Client_UnRegisterTransferController :: "ErrCode clM" where
  "Client_UnRegisterTransferController = ret TELEPHONY_ERR_UNINIT"

definition Client_NotifyTransferCallContact :: "string \<Rightarrow> ErrCode clM" where
  "Client_NotifyTransferCallContact contactName = ret TELEPHONY_ERR_UNINIT"

definition Client_CheckCallRecordingPermission :: "string \<Rightarrow> string \<Rightarrow> bool clM" where
  "Client_CheckCallRecordingPermission cellularRecordPhoneNum cellularRecordToken =
     via_proxy False (Proxy_CheckCallRecordingPermission cellularRecordPhoneNum cellularRecordToken)"

section \<open>All requests\<close>

text \<open>The requests that answer a code and that no service operation stands behind.\<close>

definition code_of :: "(ErrCode \<times> 'a) clM \<Rightarrow> ErrCode clM" where
  "code_of m = do { (code, _) \<leftarrow> m; ret code }"

datatype conference_request =
    R_CombineConference int
  | R_SeparateConference int
  | R_KickOutFromConference int
  | R_GetMainCallId int int
  | R_GetSubCallIdList int "u16string list"
  | R_GetCallIdListForConference int "u16string list"
  | R_JoinConference int "u16string list"

primrec conference_do :: "conference_request \<Rightarrow> ErrCode clM" where
  "conference_do (R_CombineConference callId) = Client_CombineConference callId"
| "conference_do (R_SeparateConference callId) = Client_SeparateConference callId"
| "conference_do (R_KickOutFromConference callId) = Client_KickOutFromConference callId"
| "conference_do (R_GetMainCallId callId mainCallId) = code_of (Client_GetMainCallId callId mainCallId)"
| "conference_do (R_GetSubCallIdList callId callIdList) = code_of (Client_GetSubCallIdList callId callIdList)"
| "conference_do (R_GetCallIdListForConference callId callIdList) = code_of (Client_GetCallIdListForConference callId callIdList)"
| "conference_do (R_JoinConference callId numberList) = Client_JoinConference callId numberList"

datatype supplementary_request =
    R_GetCallWaiting int
  | R_SetCallWaiting int bool
  | R_GetCallRestriction int CallRestrictionType
  | R_SetCallRestriction int CallRestrictionInfo
  | R_SetCallRestrictionPassword int CallRestrictionType string string
  | R_GetCallTransferInfo int CallTransferType
  | R_SetCallTransferInfo int CallTransferInfo
  | R_CanSetCallTransferTime int bool
  | R_GetCallTransferInfo_number string CallTransferType

primrec supplementary_do :: "supplementary_request \<Rightarrow> ErrCode clM" where
  "supplementary_do (R_GetCallWaiting slotId) = Client_GetCallWaiting slotId"
| "supplementary_do (R_SetCallWaiting slotId activate) = Client_SetCallWaiting slotId activate"
| "supplementary_do (R_GetCallRestriction slotId type) = Client_GetCallRestriction slotId type"
| "supplementary_do (R_SetCallRestriction slotId info) = Client_SetCallRestriction slotId info"
| "supplementary_do (R_SetCallRestrictionPassword slotId fac oldPassword newPassword) = Client_SetCallRestrictionPassword slotId fac oldPassword newPassword"
| "supplementary_do (R_GetCallTransferInfo slotId type) = Client_GetCallTransferInfo slotId type"
| "supplementary_do (R_SetCallTransferInfo slotId info) = Client_SetCallTransferInfo slotId info"
| "supplementary_do (R_CanSetCallTransferTime slotId result) = code_of (Client_CanSetCallTransferTime slotId result)"
| "supplementary_do (R_GetCallTransferInfo_number number type) = Client_GetCallTransferInfo_number number type"

datatype ims_request =
    R_SetCallPreferenceMode int int
  | R_GetImsConfig int ImsConfigItem
  | R_SetImsConfig int ImsConfigItem u16string
  | R_GetImsFeatureValue int FeatureType
  | R_SetImsFeatureValue int FeatureType int
  | R_UpdateImsCallMode int ImsCallMode
  | R_EnableImsSwitch int
  | R_DisableImsSwitch int
  | R_IsImsSwitchEnabled int bool
  | R_SetVoNRState int int
  | R_GetVoNRState int int

primrec ims_do :: "ims_request \<Rightarrow> ErrCode clM" where
  "ims_do (R_SetCallPreferenceMode slotId mode) = Client_SetCallPreferenceMode slotId mode"
| "ims_do (R_GetImsConfig slotId item) = Client_GetImsConfig slotId item"
| "ims_do (R_SetImsConfig slotId item value) = Client_SetImsConfig slotId item value"
| "ims_do (R_GetImsFeatureValue slotId type) = Client_GetImsFeatureValue slotId type"
| "ims_do (R_SetImsFeatureValue slotId type value) = Client_SetImsFeatureValue slotId type value"
| "ims_do (R_UpdateImsCallMode callId mode) = Client_UpdateImsCallMode callId mode"
| "ims_do (R_EnableImsSwitch slotId) = Client_EnableImsSwitch slotId"
| "ims_do (R_DisableImsSwitch slotId) = Client_DisableImsSwitch slotId"
| "ims_do (R_IsImsSwitchEnabled slotId enabled) = code_of (Client_IsImsSwitchEnabled slotId enabled)"
| "ims_do (R_SetVoNRState slotId state) = Client_SetVoNRState slotId state"
| "ims_do (R_GetVoNRState slotId state) = code_of (Client_GetVoNRState slotId state)"

datatype audio_video_request =
    R_SetMuted bool
  | R_MuteRinger
  | R_SetAudioDevice AudioDevice
  | R_ReportAudioDeviceInfo
  | R_SetCallAudioMode int int
  | R_ControlCamera int u16string
  | R_SetPreviewWindow int string
  | R_SetDisplayWindow int string
  | R_SetCameraZoom real
  | R_SetPausePicture int u16string
  | R_SetDeviceDirection int int

primrec audio_video_do :: "audio_video_request \<Rightarrow> ErrCode clM" where
  "audio_video_do (R_SetMuted isMute) = Client_SetMuted isMute"
| "audio_video_do R_MuteRinger = Client_MuteRinger"
| "audio_video_do (R_SetAudioDevice audioDevice) = Client_SetAudioDevice audioDevice"
| "audio_video_do R_ReportAudioDeviceInfo = Client_ReportAudioDeviceInfo"
| "audio_video_do (R_SetCallAudioMode mode scenarios) = Client_SetCallAudioMode mode scenarios"
| "audio_video_do (R_ControlCamera callId cameraId) = Client_ControlCamera callId cameraId"
| "audio_video_do (R_SetPreviewWindow callId surfaceId) = Client_SetPreviewWindow callId surfaceId"
| "audio_video_do (R_SetDisplayWindow callId surfaceId) = Client_SetDisplayWindow callId surfaceId"
| "audio_video_do (R_SetCameraZoom zoomRatio) = Client_SetCameraZoom zoomRatio"
| "audio_video_do (R_SetPausePicture callId path) = Client_SetPausePicture callId path"
| "audio_video_do (R_SetDeviceDirection callId rotation) = Client_SetDeviceDirection callId rotation"

datatype voip_request =
    R_RegisterVoipCallManagerCallback
  | R_UnRegisterVoipCallManagerCallback
  | R_SetVoIPCallState int
  | R_GetVoIPCallState int
  | R_SetVoIPCallInfo int int string
  | R_GetVoIPCallInfo int int string
  | R_NotifyVoIPAudioStreamStart int
  | R_ReportOttCallDetailsInfo "OttCallDetailsInfo list"
  | R_ReportOttCallEventInfo OttCallEventInfo

primrec voip_do :: "voip_request \<Rightarrow> ErrCode clM" where
  "voip_do R_RegisterVoipCallManagerCallback = Client_RegisterVoipCallManagerCallback"
| "voip_do R_UnRegisterVoipCallManagerCallback = Client_UnRegisterVoipCallManagerCallback"
| "voip_do (R_SetVoIPCallState state) = Client_SetVoIPCallState state"
| "voip_do (R_GetVoIPCallState state) = code_of (Client_GetVoIPCallState state)"
| "voip_do (R_SetVoIPCallInfo callId state phoneNumber) = Client_SetVoIPCallInfo callId state phoneNumber"
| "voip_do (R_GetVoIPCallInfo callId state phoneNumber) = code_of (Client_GetVoIPCallInfo callId state phoneNumber)"
| "voip_do (R_NotifyVoIPAudioStreamStart uid) = Client_NotifyVoIPAudioStreamStart uid"
| "voip_do (R_ReportOttCallDetailsInfo ottVec) = Client_ReportOttCallDetailsInfo ottVec"
| "voip_do (R_ReportOttCallEventInfo eventInfo) = Client_ReportOttCallEventInfo eventInfo"

datatype dialer_request =
    R_MakeCall string
  | R_MakeCallWithToken string PacMap string
  | R_StartDtmf int char
  | R_StopDtmf int
  | R_PostDialProceed int bool
  | R_RejectCall_type RejectType
  | R_IsInEmergencyCall bool
  | R_FormatPhoneNumber u16string u16string u16string
  | R_FormatPhoneNumberToE164 u16string u16string u16string

primrec dialer_do :: "dialer_request \<Rightarrow> ErrCode clM" where
  "dialer_do (R_MakeCall number) = Client_MakeCall number"
| "dialer_do (R_MakeCallWithToken number options token) = code_of (Client_MakeCallWithToken number options token)"
| "dialer_do (R_StartDtmf callId str) = Client_StartDtmf callId str"
| "dialer_do (R_StopDtmf callId) = Client_StopDtmf callId"
| "dialer_do (R_PostDialProceed callId proceed) = Client_PostDialProceed callId proceed"
| "dialer_do (R_RejectCall_type rejectType) = Client_RejectCall_type rejectType"
| "dialer_do (R_IsInEmergencyCall enabled) = code_of (Client_IsInEmergencyCall enabled)"
| "dialer_do (R_FormatPhoneNumber number countryCode formatNumber) = code_of (Client_FormatPhoneNumber number countryCode formatNumber)"
| "dialer_do (R_FormatPhoneNumberToE164 number countryCode formatNumber) = code_of (Client_FormatPhoneNumberToE164 number countryCode formatNumber)"

datatype service_request =
    R_CloseUnFinishedUssd int
  | R_SendUssdResponse int string
  | R_InputDialerSpecialCode string
  | R_SetRegMmiCodeCallbackState bool
  | R_RemoveMissedIncomingCallNotification
  | R_CancelCallUpgrade int
  | R_RequestCameraCapabilities int
  | R_SendCallUiEvent int string
  | R_PreloadCallUi bool
  | R_SetCallPolicyInfo bool "string list" bool "string list"

primrec service_do :: "service_request \<Rightarrow> ErrCode clM" where
  "service_do (R_CloseUnFinishedUssd slotId) = Client_CloseUnFinishedUssd slotId"
| "service_do (R_SendUssdResponse slotId content) = Client_SendUssdResponse slotId content"
| "service_do (R_InputDialerSpecialCode specialCode) = Client_InputDialerSpecialCode specialCode"
| "service_do (R_SetRegMmiCodeCallbackState isReg) = Client_SetRegMmiCodeCallbackState isReg"
| "service_do R_RemoveMissedIncomingCallNotification = Client_RemoveMissedIncomingCallNotification"
| "service_do (R_CancelCallUpgrade callId) = Client_CancelCallUpgrade callId"
| "service_do (R_RequestCameraCapabilities callId) = Client_RequestCameraCapabilities callId"
| "service_do (R_SendCallUiEvent callId eventName) = Client_SendCallUiEvent callId eventName"
| "service_do (R_PreloadCallUi enable) = Client_PreloadCallUi enable"
| "service_do (R_SetCallPolicyInfo isDialingTrustlist dialingList isIncomingTrustlist incomingList) = Client_SetCallPolicyInfo isDialingTrustlist dialingList isIncomingTrustlist incomingList"

datatype request =
    ConferenceRequest conference_request
  | SupplementaryRequest supplementary_request
  | ImsRequest ims_request
  | AudioVideoRequest audio_video_request
  | VoipRequest voip_request
  | DialerRequest dialer_request
  | CodeRequest service_request

primrec request_do :: "request \<Rightarrow> ErrCode clM" where
  "request_do (ConferenceRequest r) = conference_do r"
| "request_do (SupplementaryRequest r) = supplementary_do r"
| "request_do (ImsRequest r) = ims_do r"
| "request_do (AudioVideoRequest r) = audio_video_do r"
| "request_do (VoipRequest r) = voip_do r"
| "request_do (DialerRequest r) = dialer_do r"
| "request_do (CodeRequest r) = service_do r"

text \<open>Everything an application can ask for.\<close>

datatype client_call =
    C_Init int
  | C_UnInit
  | C_RegisterCallBack "nat option"
  | C_UnRegisterCallBack
  | C_ObserverOnCallDetailsChange
  | C_DialCall u16string PacMap
  | C_AnswerCall int int bool
  | C_RejectCall int bool u16string
  | C_HangUpCall int
  | C_GetCallState
  | C_HoldCall int
  | C_UnHoldCall int
  | C_SwitchCall int
  | C_IsRinging bool
  | C_HasCall bool
  | C_IsNewCallAllowed bool
  | C_IsEmergencyPhoneNumber u16string int bool
  | C_EndCall
  | C_AnswerCall_device
  | C_RejectCall_device
  | C_HangUpCall_device
  | C_request request

fun client_do :: "TrustModel \<Rightarrow> sync_outcome \<Rightarrow> client_call \<Rightarrow> unit clM" where
  "client_do tm w (C_Init systemAbilityId) = Client_Init systemAbilityId"
| "client_do tm w C_UnInit = Client_UnInit w"
| "client_do tm w (C_RegisterCallBack callback) = ignore (Client_RegisterCallBack tm w callback)"
| "client_do tm w C_UnRegisterCallBack = ignore (Client_UnRegisterCallBack tm w)"
| "client_do tm w C_ObserverOnCallDetailsChange = ignore (Client_ObserverOnCallDetailsChange tm w)"
| "client_do tm w (C_DialCall number extras) = ignore (Client_DialCall tm w number extras)"
| "client_do tm w (C_AnswerCall callId videoState isRTT) = ignore (Client_AnswerCall tm w callId videoState isRTT)"
| "client_do tm w (C_RejectCall callId isSendSms content) = ignore (Client_RejectCall tm w callId isSendSms content)"
| "client_do tm w (C_HangUpCall callId) = ignore (Client_HangUpCall tm w callId)"
| "client_do tm w C_GetCallState = ignore (Client_GetCallState w)"
| "client_do tm w (C_HoldCall callId) = ignore (Client_HoldCall tm w callId)"
| "client_do tm w (C_UnHoldCall callId) = ignore (Client_UnHoldCall tm w callId)"
| "client_do tm w (C_SwitchCall callId) = ignore (Client_SwitchCall tm w callId)"
| "client_do tm w (C_IsRinging enabled) = ignore (Client_IsRinging tm w enabled)"
| "client_do tm w (C_HasCall voip) = ignore (Client_HasCall w voip)"
| "client_do tm w (C_IsNewCallAllowed enabled) = ignore (Client_IsNewCallAllowed tm w enabled)"
| "client_do tm w (C_IsEmergencyPhoneNumber number slotId enabled) =
     ignore (Client_IsEmergencyPhoneNumber w number slotId enabled)"
| "client_do tm w C_EndCall = ignore (Client_EndCall tm w)"
| "client_do tm w C_AnswerCall_device = ignore (Client_AnswerCall_device tm w)"
| "client_do tm w C_RejectCall_device = ignore (Client_RejectCall_device tm w)"
| "client_do tm w C_HangUpCall_device = ignore (Client_HangUpCall_device tm w)"
| "client_do tm w (C_request r) = ignore (request_do r)"

section \<open>The states that can be reached\<close>

text \<open>
  An application of this build (one trust model \<open>tm\<close>) calls the client; between its calls the call manager
  handles what comes from elsewhere. Only the proxy registers callbacks.
\<close>

fun registers :: "event \<Rightarrow> bool" where
  "registers (E_RegisterCallBack _ _) = True"
| "registers (E_UnRegisterCallBack _) = True"
| "registers (E_CloseCallBack _) = True"
| "registers _ = False"

definition client_init :: "env \<Rightarrow> nat \<Rightarrow> client" where
  "client_init e tickFreq =
    \<lparr>cl_isInit = False, cl_hasProxy = False, px_initStatus = False, px_registerStatus = False, px_callback = None,
     cl_heap = (\<lambda>_. CallAbilityCallback_new), cl_next = 0, cl_cm = cm_init e tickFreq\<rparr>"

inductive client_step :: "TrustModel \<Rightarrow> client \<Rightarrow> client \<Rightarrow> bool" for tm where
  call: "t = snd (run_state (client_do tm w c) s) \<Longrightarrow> client_step tm s t"
| event: "cm_step (cl_cm s) ev u \<Longrightarrow> \<not> registers ev \<Longrightarrow> client_step tm s (s\<lparr>cl_cm := u\<rparr>)"

inductive client_reach :: "TrustModel \<Rightarrow> env \<Rightarrow> nat \<Rightarrow> client \<Rightarrow> bool" for tm e tickFreq where
  start: "client_reach tm e tickFreq (client_init e tickFreq)"
| step: "client_reach tm e tickFreq s \<Longrightarrow> client_step tm s t \<Longrightarrow> client_reach tm e tickFreq t"

end
