(* ===== verification/Client_Invariant.thy ===== *)
theory Client_Invariant
  imports Client Onward
begin

text \<open>
  Two facts about whatever an application does through the client. Seen from the call manager it is a run of
  events (\<open>follows\<close>, collection \<open>follow\<close>), so everything proved of reachable call managers holds behind
  every client. And the proxy and the service agree on the registered callback (\<open>registration\<close>,
  collection \<open>regs\<close>).
\<close>

named_theorems follow \<open>operations of the client that are runs of events of the call manager\<close>
named_theorems regs \<open>operations of the client that keep the registration consistent\<close>

section \<open>Client operations are runs of events\<close>

definition follows :: "'a clM \<Rightarrow> bool" where
  "follows m \<longleftrightarrow> (\<forall>s. \<exists>evs. cl_cm (snd (run_state m s)) = snd (run_state (for_each evs handle) (cl_cm s)))"

lemma follows_still: "(\<And>s. cl_cm (snd (run_state m s)) = cl_cm s) \<Longrightarrow> follows m"
  unfolding follows_def by (intro allI exI [of _ "[]"]) simp

lemma follows_onService: "handle ev = ignore m \<Longrightarrow> follows (onService m)"
  unfolding follows_def by (intro allI exI [of _ "[ev]"]) simp

lemma follows_bind [follow]: "follows m \<Longrightarrow> (\<And>x. follows (f x)) \<Longrightarrow> follows (State_Monad.bind m f)"
proof (unfold follows_def, intro allI)
  fix s
  assume m: "\<forall>s. \<exists>evs. cl_cm (snd (run_state m s)) = snd (run_state (for_each evs handle) (cl_cm s))"
    and f: "\<And>x. \<forall>s. \<exists>evs. cl_cm (snd (run_state (f x) s)) = snd (run_state (for_each evs handle) (cl_cm s))"
  obtain x t where xt: "run_state m s = (x, t)" by fastforce
  with m obtain e1 where "cl_cm t = snd (run_state (for_each e1 handle) (cl_cm s))" by (metis snd_conv)
  moreover from f obtain e2 where "cl_cm (snd (run_state (f x) t)) = snd (run_state (for_each e2 handle) (cl_cm t))" by blast
  ultimately have "cl_cm (snd (run_state (State_Monad.bind m f) s)) = snd (run_state (for_each (e1 @ e2) handle) (cl_cm s))"
    by (simp add: xt for_each_append case_prod_beta)
  then show "\<exists>evs. cl_cm (snd (run_state (State_Monad.bind m f) s)) = snd (run_state (for_each evs handle) (cl_cm s))" ..
qed

lemma follows_basic [follow]: "follows (ret x)" "follows (gets f)" "follows (close_callback k)" "follows (new_callback p)"
  unfolding close_callback_def new_callback_def by (rule follows_still; simp)+

lemma follows_modify [follow]:
  "follows (modify (\<lambda>s. s\<lparr>cl_hasProxy := a s\<rparr>))" "follows (modify (\<lambda>s. s\<lparr>cl_isInit := a s\<rparr>))"
  "follows (modify (\<lambda>s. s\<lparr>px_initStatus := a s\<rparr>))"
  "follows (modify (\<lambda>s. s\<lparr>px_callback := b s, px_registerStatus := a s\<rparr>))"
  by (rule follows_still; simp)+

lemma follows_whenM [follow]: "follows m \<Longrightarrow> follows (whenM b m)"
  by (cases b) (auto simp: whenM_def follow)

lemma follows_ignore [follow]: "follows m \<Longrightarrow> follows (ignore m)"
  by (simp add: follows_def)

lemma follows_if [follow]: "follows m \<Longrightarrow> follows n \<Longrightarrow> follows (if b then m else n)"
  by simp

lemma follows_let [follow]: "(\<And>x. follows (f x)) \<Longrightarrow> follows (let x = t in f x)"
  by (simp add: Let_def)

lemma follows_case_option [follow]: "follows n \<Longrightarrow> (\<And>x. follows (f x)) \<Longrightarrow> follows (case v of None \<Rightarrow> n | Some x \<Rightarrow> f x)"
  by (cases v) simp_all

lemma follows_case_prod [follow]: "(\<And>x y. follows (f x y)) \<Longrightarrow> follows (case p of (x, y) \<Rightarrow> f x y)"
  by (cases p) simp

lemma follows_Post [follow]: "follows m \<Longrightarrow> follows (PostSyncCall w m x)"
  unfolding PostSyncCall_def by (cases w) (simp_all only: sync_outcome.case, (intro follow; assumption)+)

lemma follows_Run [follow]: "follows m \<Longrightarrow> follows (RunOnService w m x)"
  unfolding RunOnService_def by (intro follow; assumption)

lemma follows_code [follow]: "follows m \<Longrightarrow> follows (run_code w m)"
  unfolding run_code_def by (intro follow; assumption)

lemma follows_query [follow]: "follows q \<Longrightarrow> follows (run_query w q)"
  unfolding run_query_def by (intro follow; assumption)

lemma follows_via [follow]: "follows m \<Longrightarrow> follows (via_proxy u m)"
  unfolding via_proxy_def by (intro follow; assumption)

lemmas service_events = handle.simps [symmetric]

lemma follows_service [follow]:
  "follows (onService (Service_RegisterCallBack tm k))" "follows (onService (Service_UnRegisterCallBack tm))"
  "follows (onService (Report_UnRegisterCallBack_ptr k))" "follows (onService (Service_ObserverOnCallDetailsChange tm))"
  "follows (onService (Service_DialCall tm n x))" "follows (onService (Service_AnswerCall tm i v b))"
  "follows (onService (Service_RejectCall tm i b n))" "follows (onService (Service_HangUpCall tm i))"
  "follows (onService (Service_HoldCall tm i))" "follows (onService (Service_UnHoldCall tm i))"
  "follows (onService (Service_SwitchCall tm i))" "follows (onService (Service_IsEmergencyPhoneNumber n i b))"
  "follows (onService (Service_EndCall tm))" "follows (onService (Service_AnswerCall_device tm))"
  "follows (onService (Service_RejectCall_device tm))" "follows (onService (Service_HangUpCall_device tm))"
  by (rule follows_onService, rule handle.simps)+

lemmas request_defs = via_proxy_def Proxy_NotSupported_def code_of_def
  Client_CombineConference_def Proxy_CombineConference_def Client_SeparateConference_def Proxy_SeparateConference_def
  Client_KickOutFromConference_def Proxy_KickOutFromConference_def Client_GetMainCallId_def Proxy_GetMainCallId_def
  Client_GetSubCallIdList_def Proxy_GetSubCallIdList_def Client_GetCallIdListForConference_def
  Proxy_GetCallIdListForConference_def Client_JoinConference_def Proxy_JoinConference_def Client_GetCallWaiting_def
  Proxy_GetCallWaiting_def Client_SetCallWaiting_def Proxy_SetCallWaiting_def Client_GetCallRestriction_def
  Proxy_GetCallRestriction_def Client_SetCallRestriction_def Proxy_SetCallRestriction_def
  Client_SetCallRestrictionPassword_def Proxy_SetCallRestrictionPassword_def Client_GetCallTransferInfo_def
  Proxy_GetCallTransferInfo_def Client_SetCallTransferInfo_def Proxy_SetCallTransferInfo_def
  Client_CanSetCallTransferTime_def Proxy_CanSetCallTransferTime_def Client_GetCallTransferInfo_number_def
  Proxy_GetCallTransferInfo_number_def Client_SetCallPreferenceMode_def Proxy_SetCallPreferenceMode_def
  Client_GetImsConfig_def Proxy_GetImsConfig_def Client_SetImsConfig_def Proxy_SetImsConfig_def
  Client_GetImsFeatureValue_def Proxy_GetImsFeatureValue_def Client_SetImsFeatureValue_def
  Proxy_SetImsFeatureValue_def Client_UpdateImsCallMode_def Proxy_UpdateImsCallMode_def Client_EnableImsSwitch_def
  Proxy_EnableImsSwitch_def Client_DisableImsSwitch_def Proxy_DisableImsSwitch_def Client_IsImsSwitchEnabled_def
  Proxy_IsImsSwitchEnabled_def Client_SetVoNRState_def Proxy_SetVoNRState_def Client_GetVoNRState_def
  Proxy_GetVoNRState_def Client_SetMuted_def Proxy_SetMuted_def Client_MuteRinger_def Proxy_MuteRinger_def
  Client_SetAudioDevice_def Proxy_SetAudioDevice_def Client_ReportAudioDeviceInfo_def Proxy_ReportAudioDeviceInfo_def
  Client_SetCallAudioMode_def Proxy_SetCallAudioMode_def Client_ControlCamera_def Proxy_ControlCamera_def
  Client_SetPreviewWindow_def Proxy_SetPreviewWindow_def Client_SetDisplayWindow_def Proxy_SetDisplayWindow_def
  Client_SetCameraZoom_def Proxy_SetCameraZoom_def Client_SetPausePicture_def Proxy_SetPausePicture_def
  Client_SetDeviceDirection_def Proxy_SetDeviceDirection_def Client_RegisterVoipCallManagerCallback_def
  Proxy_RegisterVoipCallManagerCallback_def Client_UnRegisterVoipCallManagerCallback_def
  Proxy_UnRegisterVoipCallManagerCallback_def Client_SetVoIPCallState_def Proxy_SetVoIPCallState_def
  Client_GetVoIPCallState_def Proxy_GetVoIPCallState_def Client_SetVoIPCallInfo_def Proxy_SetVoIPCallInfo_def
  Client_GetVoIPCallInfo_def Proxy_GetVoIPCallInfo_def Client_NotifyVoIPAudioStreamStart_def
  Proxy_NotifyVoIPAudioStreamStart_def Client_ReportOttCallDetailsInfo_def Proxy_ReportOttCallDetailsInfo_def
  Client_ReportOttCallEventInfo_def Proxy_ReportOttCallEventInfo_def Client_MakeCall_def Proxy_MakeCall_def
  Client_MakeCallWithToken_def Proxy_MakeCallWithToken_def Client_StartDtmf_def Proxy_StartDtmf_def
  Client_StopDtmf_def Proxy_StopDtmf_def Client_PostDialProceed_def Proxy_PostDialProceed_def
  Client_RejectCall_type_def Proxy_RejectCall_type_def Client_IsInEmergencyCall_def Proxy_IsInEmergencyCall_def
  Client_FormatPhoneNumber_def Proxy_FormatPhoneNumber_def Client_FormatPhoneNumberToE164_def
  Proxy_FormatPhoneNumberToE164_def Client_CloseUnFinishedUssd_def Proxy_CloseUnFinishedUssd_def
  Client_SendUssdResponse_def Proxy_SendUssdResponse_def Client_InputDialerSpecialCode_def
  Proxy_InputDialerSpecialCode_def Client_SetRegMmiCodeCallbackState_def Proxy_SetRegMmiCodeCallbackState_def
  Client_RemoveMissedIncomingCallNotification_def Proxy_RemoveMissedIncomingCallNotification_def
  Client_CancelCallUpgrade_def Proxy_CancelCallUpgrade_def Client_RequestCameraCapabilities_def
  Proxy_RequestCameraCapabilities_def Client_SendCallUiEvent_def Proxy_SendCallUiEvent_def Client_PreloadCallUi_def
  Proxy_PreloadCallUi_def Client_SetCallPolicyInfo_def Proxy_SetCallPolicyInfo_def

lemma conference_run: "run_state (conference_do r) s = (if cl_hasProxy s then CALL_ERR_FUNCTION_NOT_SUPPORTED else TELEPHONY_ERR_UNINIT, s)"
  by (cases r) (simp_all add: request_defs)

lemma supplementary_run: "run_state (supplementary_do r) s = (if cl_hasProxy s then CALL_ERR_FUNCTION_NOT_SUPPORTED else TELEPHONY_ERR_UNINIT, s)"
  by (cases r) (simp_all add: request_defs)

lemma ims_run: "run_state (ims_do r) s = (if cl_hasProxy s then CALL_ERR_FUNCTION_NOT_SUPPORTED else TELEPHONY_ERR_UNINIT, s)"
  by (cases r) (simp_all add: request_defs)

lemma audio_video_run: "run_state (audio_video_do r) s = (if cl_hasProxy s then CALL_ERR_FUNCTION_NOT_SUPPORTED else TELEPHONY_ERR_UNINIT, s)"
  by (cases r) (simp_all add: request_defs)

lemma voip_run: "run_state (voip_do r) s = (if cl_hasProxy s then CALL_ERR_FUNCTION_NOT_SUPPORTED else TELEPHONY_ERR_UNINIT, s)"
  by (cases r) (simp_all add: request_defs)

lemma dialer_run: "run_state (dialer_do r) s = (if cl_hasProxy s then CALL_ERR_FUNCTION_NOT_SUPPORTED else TELEPHONY_ERR_UNINIT, s)"
  by (cases r) (simp_all add: request_defs)

lemma service_run: "run_state (service_do r) s = (if cl_hasProxy s then CALL_ERR_FUNCTION_NOT_SUPPORTED else TELEPHONY_ERR_UNINIT, s)"
  by (cases r) (simp_all add: request_defs)

lemma request_run:
  "run_state (request_do r) s = (if cl_hasProxy s then CALL_ERR_FUNCTION_NOT_SUPPORTED else TELEPHONY_ERR_UNINIT, s)"
  by (cases r) (simp_all add: conference_run supplementary_run ims_run audio_video_run voip_run dialer_run service_run)

lemma follows_client_do: "follows (client_do tm w c)"
proof (cases c)
  case (C_request r)
  then show ?thesis by (simp, intro follow follows_still) (simp add: request_run)
qed (simp_all only: client_do.simps, unfold Client_Init_def Client_UnInit_def Proxy_Init_def Proxy_UnInit_def UnInit_task_def
    RegisterCallBack_task_def UnRegisterCallBack_task_def
  Client_RegisterCallBack_def Proxy_RegisterCallBack_def Client_UnRegisterCallBack_def Proxy_UnRegisterCallBack_def
  Client_ObserverOnCallDetailsChange_def Proxy_ObserverOnCallDetailsChange_def Client_DialCall_def Proxy_DialCall_def
  Client_AnswerCall_def Proxy_AnswerCall_def Client_RejectCall_def Proxy_RejectCall_def Client_HangUpCall_def
  Proxy_HangUpCall_def Client_GetCallState_def Proxy_GetCallState_def Client_HoldCall_def Proxy_HoldCall_def
  Client_UnHoldCall_def Proxy_UnHoldCall_def Client_SwitchCall_def Proxy_SwitchCall_def Client_IsRinging_def
  Proxy_IsRinging_def Client_HasCall_def Proxy_HasCall_def Client_IsNewCallAllowed_def Proxy_IsNewCallAllowed_def
  Client_IsEmergencyPhoneNumber_def Proxy_IsEmergencyPhoneNumber_def Client_EndCall_def Proxy_EndCall_def
  Client_AnswerCall_device_def Proxy_AnswerCall_device_def Client_RejectCall_device_def Proxy_RejectCall_device_def
  Client_HangUpCall_device_def Proxy_HangUpCall_device_def, (intro follow)+)

lemma client_reach_reach: "client_reach tm e n s \<Longrightarrow> cm_reach e n (cl_cm s)"
proof (induction rule: client_reach.induct)
  case start
  then show ?case by (simp add: client_init_def cm_reach.start)
next
  case (step s t)
  from step.hyps(2) show ?case
  proof cases
    case (call w c)
    from follows_client_do obtain evs where "cl_cm t = snd (run_state (for_each evs handle) (cl_cm s))"
      unfolding call follows_def by blast
    with reach_run [OF step.IH] show ?thesis by simp
  next
    case (event ev u)
    then show ?thesis using step.IH cm_reach.step by auto
  qed
qed

section \<open>The registered callback\<close>

text \<open>
  The proxy has a callback exactly while it is registered; the object is open; and the service, if it has a
  callback at all, has this one, under the bundle name of the caller.
\<close>

definition registration :: "TrustModel \<Rightarrow> client \<Rightarrow> bool" where
  "registration tm s \<longleftrightarrow> px_registerStatus s = (px_callback s \<noteq> None) \<and>
     (\<forall>k. px_callback s = Some k \<longrightarrow> k < cl_next s \<and> \<not> ac_closed (cl_heap s k) \<and> ac_callbackPtr (cl_heap s k) \<noteq> None) \<and>
     (\<forall>k b. cm_callback (cl_cm s) = Some (k, b) \<longrightarrow> px_callback s = Some k \<and> b = GetBundleInfo tm)"

definition closed :: "nat \<Rightarrow> client \<Rightarrow> bool" where
  "closed k s \<longleftrightarrow> k < cl_next s \<and> ac_closed (cl_heap s k)"

text \<open>Both at once: what was closed stays closed.\<close>

definition reg :: "TrustModel \<Rightarrow> nat set \<Rightarrow> client \<Rightarrow> bool" where
  "reg tm K s \<longleftrightarrow> registration tm s \<and> (\<forall>k \<in> K. closed k s)"

lemma reg_onService: "along onward m \<Longrightarrow> keeps (reg tm K) (onService m)"
proof (rule keepsI)
  fix s assume "along onward m" and r: "reg tm K s"
  then have "onward (cl_cm s) (snd (run_state m (cl_cm s)))" by (simp add: alongD)
  then have "cm_callback (snd (run_state m (cl_cm s))) = cm_callback (cl_cm s) \<or> cm_callback (snd (run_state m (cl_cm s))) = None"
    by (simp add: onward_def)
  with r show "reg tm K (snd (run_state (onService m) s))"
    by (auto simp: reg_def registration_def closed_def)
qed

lemma keeps_Post [regs]: "keeps P m \<Longrightarrow> keeps P (PostSyncCall w m x)"
  unfolding PostSyncCall_def by (cases w) (auto intro!: hoare)

lemma keeps_Run [regs]: "keeps P m \<Longrightarrow> keeps P (RunOnService w m x)"
  unfolding RunOnService_def by (auto intro!: hoare regs)

lemma keeps_code [regs]: "keeps P m \<Longrightarrow> keeps P (run_code w m)"
  unfolding run_code_def by (auto intro!: hoare regs)

lemma keeps_query [regs]: "keeps P m \<Longrightarrow> keeps P (run_query w m)"
  unfolding run_query_def by (auto intro!: hoare regs)

lemma keeps_via [regs]: "keeps P m \<Longrightarrow> keeps P (via_proxy u m)"
  unfolding via_proxy_def by (auto intro!: hoare regs)

lemma reg_fields [regs]:
  "keeps (reg tm K) (modify (\<lambda>s. s\<lparr>cl_hasProxy := a s\<rparr>))" "keeps (reg tm K) (modify (\<lambda>s. s\<lparr>cl_isInit := a s\<rparr>))"
  "keeps (reg tm K) (modify (\<lambda>s. s\<lparr>px_initStatus := a s\<rparr>))"
  by (rule keeps_modify; simp add: reg_def registration_def closed_def)+

lemma keeps_same: "(\<And>s. snd (run_state m s) = s) \<Longrightarrow> keeps P m"
  by (simp add: keeps_def)

text \<open>Registering, and taking a registration back.\<close>

definition fresh :: "nat \<Rightarrow> client \<Rightarrow> bool" where
  "fresh k s \<longleftrightarrow> k < cl_next s \<and> \<not> ac_closed (cl_heap s k) \<and> ac_callbackPtr (cl_heap s k) \<noteq> None"

lemma new_callback_fresh:
  "reg tm K s \<Longrightarrow> reg tm K (snd (run_state (new_callback p) s)) \<and>
     fresh (fst (run_state (new_callback p) s)) (snd (run_state (new_callback p) s))"
  by (auto simp: new_callback_def reg_def registration_def closed_def fresh_def SetProcessCallback_def CallAbilityCallback_new_def)

lemma Service_RegisterCallBack_run:
  "run_state (Service_RegisterCallBack tm (Some k)) s = (r, t) \<Longrightarrow>
     (r = TELEPHONY_SUCCESS \<longrightarrow> cm_callback t = Some (k, GetBundleInfo tm)) \<and>
     (r \<noteq> TELEPHONY_SUCCESS \<longrightarrow> t = s)"
  by (auto simp: Service_RegisterCallBack_def Report_RegisterCallBack_def split: if_splits)

lemma Service_UnRegisterCallBack_run:
  "run_state (Service_UnRegisterCallBack tm) s = (r, t) \<Longrightarrow>
     (r = TELEPHONY_SUCCESS \<longrightarrow> cm_callback s \<noteq> None \<and>
        cm_callback t = (if snd (the (cm_callback s)) = GetBundleInfo tm then None else cm_callback s)) \<and>
     (r \<noteq> TELEPHONY_SUCCESS \<longrightarrow> t = s)"
  by (auto simp: Service_UnRegisterCallBack_def Report_UnRegisterCallBack_def split: if_splits option.splits)

lemma reg_register: "keeps (\<lambda>s. reg tm K s \<and> fresh k s) (RegisterCallBack_task tm k)"
proof (rule keepsI)
  fix s assume r: "reg tm K s \<and> fresh k s"
  obtain c t where ct: "run_state (Service_RegisterCallBack tm (Some k)) (cl_cm s) = (c, t)" by fastforce
  from Service_RegisterCallBack_run [OF ct] r
  show "reg tm K (snd (run_state (RegisterCallBack_task tm k) s)) \<and> fresh k (snd (run_state (RegisterCallBack_task tm k) s))"
    by (auto simp: RegisterCallBack_task_def ct reg_def registration_def closed_def fresh_def)
qed

lemma reg_Register [regs]: "keeps (reg tm K) (Proxy_RegisterCallBack tm w callback)"
proof (rule keepsI)
  fix s assume r: "reg tm K s"
  have "reg tm K (snd (run_state (run_code w (RegisterCallBack_task tm (fst (run_state (new_callback p) s))))
      (snd (run_state (new_callback p) s))))" for p
    using keepsD [OF keeps_code [OF reg_register]] new_callback_fresh [OF r] by blast
  with r show "reg tm K (snd (run_state (Proxy_RegisterCallBack tm w callback) s))"
    by (simp add: Proxy_RegisterCallBack_def case_prod_beta split: option.split)
qed

lemma reg_unregister: "keeps (reg tm K) (UnRegisterCallBack_task tm)"
proof (rule keepsI)
  fix s assume r: "reg tm K s"
  obtain c t where ct: "run_state (Service_UnRegisterCallBack tm) (cl_cm s) = (c, t)" by fastforce
  from Service_UnRegisterCallBack_run [OF ct] r
  show "reg tm K (snd (run_state (UnRegisterCallBack_task tm) s))"
    by (auto simp: UnRegisterCallBack_task_def ct reg_def registration_def closed_def close_callback_def Close_def
      split: option.split)
qed

lemma reg_UnInit [regs]: "keeps (reg tm K) UnInit_task"
proof (rule keepsI)
  fix s assume r: "reg tm K s"
  then show "reg tm K (snd (run_state UnInit_task s))"
    by (auto simp: UnInit_task_def reg_def registration_def closed_def close_callback_def Close_def
      Report_UnRegisterCallBack_ptr_def split: option.split)
qed

lemma reg_client_do: "keeps (reg tm K) (client_do tm w c)"
proof (cases c)
  case (C_request r)
  then show ?thesis by (simp, intro hoare keeps_same) (simp add: request_run)
qed (simp_all only: client_do.simps, unfold Client_Init_def Client_UnInit_def Proxy_Init_def Proxy_UnInit_def
  Client_RegisterCallBack_def Client_UnRegisterCallBack_def Proxy_UnRegisterCallBack_def
  Client_ObserverOnCallDetailsChange_def Proxy_ObserverOnCallDetailsChange_def Client_DialCall_def Proxy_DialCall_def
  Client_AnswerCall_def Proxy_AnswerCall_def Client_RejectCall_def Proxy_RejectCall_def Client_HangUpCall_def
  Proxy_HangUpCall_def Client_GetCallState_def Proxy_GetCallState_def Client_HoldCall_def Proxy_HoldCall_def
  Client_UnHoldCall_def Proxy_UnHoldCall_def Client_SwitchCall_def Proxy_SwitchCall_def Client_IsRinging_def
  Proxy_IsRinging_def Client_HasCall_def Proxy_HasCall_def Client_IsNewCallAllowed_def Proxy_IsNewCallAllowed_def
  Client_IsEmergencyPhoneNumber_def Proxy_IsEmergencyPhoneNumber_def Client_EndCall_def Proxy_EndCall_def
  Client_AnswerCall_device_def Proxy_AnswerCall_device_def Client_RejectCall_device_def Proxy_RejectCall_device_def
  Client_HangUpCall_device_def Proxy_HangUpCall_device_def, (intro hoare regs reg_unregister reg_onService along)+)

lemma reg_step: "client_step tm s t \<Longrightarrow> reg tm K s \<Longrightarrow> reg tm K t"
proof (induction rule: client_step.induct)
  case (call t w c s)
  then show ?case by (simp add: keepsD [OF reg_client_do])
next
  case (event s ev u)
  have "\<forall>tm k. ev \<noteq> E_RegisterCallBack tm k" using event.hyps(2) by auto
  from keepsD [OF reg_onService [OF onward_handle [OF this]] event.prems] event.hyps(1)
  show ?case by (simp add: cm_step_simps)
qed

lemma registration_reach: "client_reach tm e n s \<Longrightarrow> registration tm s"
proof (induction rule: client_reach.induct)
  case start
  then show ?case by (simp add: registration_def client_init_def cm_init_def)
next
  case (step s t)
  then show ?case using reg_step [of tm s t "{}"] by (simp add: reg_def)
qed

lemma closed_steps: "(client_step tm)\<^sup>*\<^sup>* s t \<Longrightarrow> reg tm K s \<Longrightarrow> reg tm K t"
  by (induction rule: rtranclp_induct) (auto intro: reg_step)

end
