(* ===== verification/Client_Properties.thy ===== *)
theory Client_Properties
  imports Client_Invariant Demo
begin

text \<open>
  What an application can rely on: the calls it makes are calls of the service, or refused with a code that says
  why; the callback it registered is the one that is told, until it takes it back; and what is left of a
  registration when the service or the loop goes away first.
\<close>

section \<open>Calls\<close>


definition demo_client :: client where
  "demo_client = snd (run_state (client_do demo_caller Sync_ran (C_Init 4005)) (client_init demo_env 100))"

lemma demo_client_reach: "client_reach demo_caller demo_env 100 demo_client"
  unfolding demo_client_def by (rule client_reach.step [OF client_reach.start client_step.call [OF refl]])


text \<open>A client of a running service, and one with a callback.\<close>

definition demo_service :: cm where
  "demo_service = after demo_env 100 [E_Start True True TELEPHONY_SUCCESS True True, E_LoopTurn]"

definition demo_up :: client where
  "demo_up = demo_client\<lparr>cl_cm := demo_service\<rparr>"

definition demo_registered :: client where
  "demo_registered = snd (run_state (client_do demo_caller Sync_ran (C_RegisterCallBack (Some 9))) demo_up)"

lemma client_reach_events:
  assumes "client_reach tm e n s" and "\<forall>ev \<in> set evs. \<not> registers ev"
  shows "client_reach tm e n (s\<lparr>cl_cm := snd (run_state (for_each evs handle) (cl_cm s))\<rparr>)"
  using assms
proof (induction evs arbitrary: s)
  case (Cons ev evs)
  have "cm_step (cl_cm s) ev (snd (run_state (handle ev) (cl_cm s)))" by (simp add: cm_step_simps)
  with Cons.prems have "client_reach tm e n (s\<lparr>cl_cm := snd (run_state (handle ev) (cl_cm s))\<rparr>)"
    by (auto intro: client_reach.step client_step.event)
  from Cons.IH [OF this] Cons.prems(2) show ?case by (simp add: case_prod_beta)
qed simp

lemma demo_service_run:
  "let s = demo_service in cm_ready s \<and> lh_state (cm_loop s) = STATE_RUNNING \<and> cm_callback s = None \<and> cm_hasControl s \<and>
     cm_callList s = []"
  by (simp add: exec demo_service_def cong: exec_cong)

lemmas demo_service_simps [simp] = demo_service_run [unfolded Let_def]

lemma demo_client_cm: "cl_cm demo_client = cm_init demo_env 100"
  by (simp add: demo_client_def Client_Init_def Proxy_Init_def client_init_def)

lemma demo_up_reach: "client_reach demo_caller demo_env 100 demo_up"
  using client_reach_events [OF demo_client_reach, of "[E_Start True True TELEPHONY_SUCCESS True True, E_LoopTurn]"]
  by (simp add: demo_up_def demo_service_def after_def demo_client_cm)

lemma demo_registered_reach: "client_reach demo_caller demo_env 100 demo_registered"
  unfolding demo_registered_def by (rule client_reach.step [OF demo_up_reach client_step.call [OF refl]])

lemma demo_up_simps [simp]:
  "cl_hasProxy demo_up" "px_initStatus demo_up" "cl_isInit demo_up" "\<not> px_registerStatus demo_up" "cl_next demo_up = 0"
  "px_callback demo_up = None" "cl_cm demo_up = demo_service"
  by (simp_all add: demo_up_def demo_client_def Client_Init_def Proxy_Init_def client_init_def)

lemma demo_registered_simps [simp]:
  "cl_hasProxy demo_registered" "px_initStatus demo_registered" "cl_isInit demo_registered"
  "px_registerStatus demo_registered" "px_callback demo_registered = Some 0"
  "cm_callback (cl_cm demo_registered) = Some (0, ''app'')" "cm_ready (cl_cm demo_registered)"
  "lh_state (cm_loop (cl_cm demo_registered)) = STATE_RUNNING" "cm_callList (cl_cm demo_registered) = []"
  "cm_hasControl (cl_cm demo_registered)"
  by (simp_all add: demo_registered_def Client_RegisterCallBack_def via_proxy_def Proxy_RegisterCallBack_def
    new_callback_def run_code_def RunOnService_def PostSyncCall_def RegisterCallBack_task_def
    Service_RegisterCallBack_def Report_RegisterCallBack_def GetBundleInfo_def)

text \<open>How an answer of the service comes back.\<close>

definition answered :: "sync_outcome \<Rightarrow> ErrCode cmM \<Rightarrow> client \<Rightarrow> ErrCode \<times> client" where
  "answered w m s = (let (r, t) = run_state m (cl_cm s) in case w of
     Sync_ran \<Rightarrow> (r, s\<lparr>cl_cm := t\<rparr>)
   | Sync_late \<Rightarrow> (TELEPHONY_ERR_IPC_CONNECT_STUB_FAIL, s\<lparr>cl_cm := t\<rparr>)
   | Sync_refused \<Rightarrow> (TELEPHONY_ERR_IPC_CONNECT_STUB_FAIL, s)
   | Sync_stopped \<Rightarrow> (TELEPHONY_ERR_UNINIT, s))"

lemma run_code_answered:
  assumes "px_initStatus s" and "lh_state (cm_loop (cl_cm s)) = STATE_RUNNING" and "cm_ready (cl_cm s)"
  shows "run_state (run_code w (onService m)) s = answered w m s"
  using assms by (cases w) (simp_all add: run_code_def RunOnService_def PostSyncCall_def answered_def case_prod_beta)

text \<open>C29. On a service that is ready a client call is the call of the service: it answers what the service answered
  when the loop ran it in time; it answers a connection failure when it found no place or when the caller gave up,
  in which case the call still happens; it answers that the loop is gone when that is so.\<close>
theorem client_answers_service:
  assumes "cl_hasProxy s" and "px_initStatus s" and "lh_state (cm_loop (cl_cm s)) = STATE_RUNNING" and "cm_ready (cl_cm s)"
  shows "run_state (Client_DialCall tm w number extras) s = answered w (Service_DialCall tm number extras) s \<and>
    run_state (Client_AnswerCall tm w callId v b) s = answered w (Service_AnswerCall tm callId v b) s \<and>
    run_state (Client_RejectCall tm w callId b text) s = answered w (Service_RejectCall tm callId b text) s \<and>
    run_state (Client_HangUpCall tm w callId) s = answered w (Service_HangUpCall tm callId) s \<and>
    run_state (Client_HoldCall tm w callId) s = answered w (Service_HoldCall tm callId) s \<and>
    run_state (Client_UnHoldCall tm w callId) s = answered w (Service_UnHoldCall tm callId) s \<and>
    run_state (Client_SwitchCall tm w callId) s = answered w (Service_SwitchCall tm callId) s \<and>
    run_state (Client_AnswerCall_device tm w) s = answered w (Service_AnswerCall_device tm) s \<and>
    run_state (Client_RejectCall_device tm w) s = answered w (Service_RejectCall_device tm) s \<and>
    run_state (Client_HangUpCall_device tm w) s = answered w (Service_HangUpCall_device tm) s \<and>
    run_state (Client_ObserverOnCallDetailsChange tm w) s = answered w (Service_ObserverOnCallDetailsChange tm) s"
  using assms(1)
  by (simp add: Client_DialCall_def Client_AnswerCall_def Client_RejectCall_def Client_HangUpCall_def Client_HoldCall_def
    Client_UnHoldCall_def Client_SwitchCall_def Client_AnswerCall_device_def Client_RejectCall_device_def
    Client_HangUpCall_device_def Client_ObserverOnCallDetailsChange_def via_proxy_def Proxy_DialCall_def
    Proxy_AnswerCall_def Proxy_RejectCall_def Proxy_HangUpCall_def Proxy_HoldCall_def Proxy_UnHoldCall_def
    Proxy_SwitchCall_def Proxy_AnswerCall_device_def Proxy_RejectCall_device_def Proxy_HangUpCall_device_def
    Proxy_ObserverOnCallDetailsChange_def run_code_answered [OF assms(2-4)])

theorem client_answers_service_witness:
  "fst (run_state (Client_HangUpCall demo_caller Sync_refused 1) demo_registered) = TELEPHONY_ERR_IPC_CONNECT_STUB_FAIL \<and>
   fst (run_state (Client_HangUpCall demo_caller Sync_ran 1) demo_registered) =
     fst (run_state (Service_HangUpCall demo_caller 1) (cl_cm demo_registered))"
  using client_answers_service [of demo_registered] by (simp add: answered_def case_prod_beta)

text \<open>Without the client's \<open>Init\<close>, or after its \<open>UnInit\<close>, every operation of the service answers that it is not
  initialised, or that there is no call, and nothing changes.\<close>
theorem client_not_initialised:
  assumes "\<not> cl_hasProxy s \<or> \<not> px_initStatus s"
  shows "run_state (Client_RegisterCallBack tm w callback) s = (TELEPHONY_ERR_UNINIT, s) \<and>
    run_state (Client_UnRegisterCallBack tm w) s = (TELEPHONY_ERR_UNINIT, s) \<and>
    run_state (Client_ObserverOnCallDetailsChange tm w) s = (TELEPHONY_ERR_UNINIT, s) \<and>
    run_state (Client_DialCall tm w number extras) s = (TELEPHONY_ERR_UNINIT, s) \<and>
    run_state (Client_AnswerCall tm w callId v b) s = (TELEPHONY_ERR_UNINIT, s) \<and>
    run_state (Client_RejectCall tm w callId b text) s = (TELEPHONY_ERR_UNINIT, s) \<and>
    run_state (Client_HangUpCall tm w callId) s = (TELEPHONY_ERR_UNINIT, s) \<and>
    run_state (Client_HoldCall tm w callId) s = (TELEPHONY_ERR_UNINIT, s) \<and>
    run_state (Client_UnHoldCall tm w callId) s = (TELEPHONY_ERR_UNINIT, s) \<and>
    run_state (Client_SwitchCall tm w callId) s = (TELEPHONY_ERR_UNINIT, s) \<and>
    run_state (Client_AnswerCall_device tm w) s = (TELEPHONY_ERR_UNINIT, s) \<and>
    run_state (Client_RejectCall_device tm w) s = (TELEPHONY_ERR_UNINIT, s) \<and>
    run_state (Client_HangUpCall_device tm w) s = (TELEPHONY_ERR_UNINIT, s) \<and>
    run_state (Client_GetCallState w) s = (Inl TELEPHONY_ERR_UNINIT, s) \<and>
    run_state (Client_HasCall w b) s = (False, s) \<and>
    run_state (Client_EndCall tm w) s = (False, s) \<and>
    fst (fst (run_state (Client_IsRinging tm w b) s)) = TELEPHONY_ERR_UNINIT \<and>
    fst (fst (run_state (Client_IsNewCallAllowed tm w b) s)) = TELEPHONY_ERR_UNINIT \<and>
    fst (fst (run_state (Client_IsEmergencyPhoneNumber w number callId b) s)) = TELEPHONY_ERR_UNINIT"
proof -
  have off: "run_state (RunOnService w m x) s = ((TELEPHONY_ERR_UNINIT, x), s)" if "\<not> px_initStatus s"
    for m :: "'b clM" and x
    using that by (simp add: RunOnService_def ServiceNotReady_def)
  have code: "run_state (run_code w m) s = (TELEPHONY_ERR_UNINIT, s)" if "\<not> px_initStatus s" for m
    using that by (simp add: run_code_def RunOnService_def ServiceNotReady_def)
  have query: "run_state (run_query w q) s = ((TELEPHONY_ERR_UNINIT, False), s)" if "\<not> px_initStatus s" for q
    using that by (simp add: run_query_def RunOnService_def ServiceNotReady_def)
  show ?thesis
    using assms
    by (auto simp add: Client_RegisterCallBack_def Client_UnRegisterCallBack_def Client_ObserverOnCallDetailsChange_def
      Client_DialCall_def Client_AnswerCall_def Client_RejectCall_def Client_HangUpCall_def Client_HoldCall_def
      Client_UnHoldCall_def Client_SwitchCall_def Client_AnswerCall_device_def Client_RejectCall_device_def
      Client_HangUpCall_device_def Client_GetCallState_def Client_HasCall_def Client_EndCall_def Client_IsRinging_def
      Client_IsNewCallAllowed_def Client_IsEmergencyPhoneNumber_def via_proxy_def Proxy_RegisterCallBack_def
      Proxy_UnRegisterCallBack_def Proxy_ObserverOnCallDetailsChange_def Proxy_DialCall_def Proxy_AnswerCall_def
      Proxy_RejectCall_def Proxy_HangUpCall_def Proxy_HoldCall_def Proxy_UnHoldCall_def Proxy_SwitchCall_def
      Proxy_AnswerCall_device_def Proxy_RejectCall_device_def Proxy_HangUpCall_device_def Proxy_GetCallState_def
      Proxy_HasCall_def Proxy_EndCall_def Proxy_IsRinging_def Proxy_IsNewCallAllowed_def
      Proxy_IsEmergencyPhoneNumber_def ServiceNotReady_def code query off)
qed

theorem client_not_initialised_witness:
  "run_state (Client_HangUpCall demo_caller Sync_ran 1) (client_init demo_env 100) = (TELEPHONY_ERR_UNINIT, client_init demo_env 100)"
proof -
  have "\<not> cl_hasProxy (client_init demo_env 100) \<or> \<not> px_initStatus (client_init demo_env 100)" by (simp add: client_init_def)
  from client_not_initialised [OF this] show ?thesis by blast
qed

text \<open>A request the mini system does not support is refused and changes nothing; the refusal says so once there is
  a proxy. The call transfer functions, which this product does not build, always answer as if not initialised.\<close>
theorem unsupported_refused:
  "run_state (request_do r) s = (if cl_hasProxy s then CALL_ERR_FUNCTION_NOT_SUPPORTED else TELEPHONY_ERR_UNINIT, s) \<and>
   run_state (Client_RegisterBluetoothCallManagerCallbackPtr mac) s = (None, s) \<and>
   run_state (Client_RegisterTwoPhoneCallManagerCallbackPtr phone mac) s = (None, s) \<and>
   run_state (Client_CheckCallRecordingPermission number token) s = (False, s) \<and>
   run_state (Client_RegisterTransferController c) s = (TELEPHONY_ERR_UNINIT, s) \<and>
   run_state Client_UnRegisterTransferController s = (TELEPHONY_ERR_UNINIT, s) \<and>
   run_state (Client_NotifyTransferCallContact name) s = (TELEPHONY_ERR_UNINIT, s)"
  by (simp add: request_run Client_RegisterBluetoothCallManagerCallbackPtr_def
    Client_RegisterTwoPhoneCallManagerCallbackPtr_def Client_CheckCallRecordingPermission_def via_proxy_def
    Proxy_RegisterBluetoothCallManagerCallbackPtr_def Proxy_CheckCallRecordingPermission_def Proxy_NotSupported_def
    Client_RegisterTransferController_def Client_UnRegisterTransferController_def Client_NotifyTransferCallContact_def)

section \<open>The callback\<close>



text \<open>C24. A callback that was taken back hears nothing more: once \<open>UnRegisterCallBack\<close> answered success, in every
  later state the service does not hold the callback object, and a report still on its way to it is dropped
  there.\<close>
theorem unregistered_hears_nothing:
  assumes "client_reach tm e n s" and "px_callback s = Some k"
    and "run_state (Client_UnRegisterCallBack tm w) s = (TELEPHONY_SUCCESS, t)" and "(client_step tm)\<^sup>*\<^sup>* t u"
  shows "deliver answer (cl_heap u k) = (TELEPHONY_ERR_LOCAL_PTR_NULL, None) \<and> (\<forall>b. cm_callback (cl_cm u) \<noteq> Some (k, b))"
proof -
  have r: "registration tm s" using assms(1) by (rule registration_reach)
  obtain c v where cv: "run_state (Service_UnRegisterCallBack tm) (cl_cm s) = (c, v)" by fastforce
  have "closed k t"
    using assms(3) r assms(2)
    by (auto simp: Client_UnRegisterCallBack_def via_proxy_def Proxy_UnRegisterCallBack_def run_code_def RunOnService_def
      ServiceNotReady_def PostSyncCall_def UnRegisterCallBack_task_def cv closed_def registration_def close_callback_def
      Close_def split: if_splits sync_outcome.splits)
  moreover have "registration tm t"
    using keepsD [OF reg_client_do, of tm "{}" s w C_UnRegisterCallBack] r assms(3) by (simp add: reg_def)
  ultimately have "reg tm {k} u"
    using closed_steps [OF assms(4), of "{k}"] by (simp add: reg_def)
  then show ?thesis
    by (auto simp: reg_def registration_def closed_def deliver_def)
qed

theorem unregistered_hears_nothing_witness:
  "let t = snd (run_state (Client_UnRegisterCallBack demo_caller Sync_ran) demo_registered)
   in deliver (\<lambda>_. TELEPHONY_SUCCESS) (cl_heap t 0) = (TELEPHONY_ERR_LOCAL_PTR_NULL, None)"
proof -
  have "fst (run_state (Client_UnRegisterCallBack demo_caller Sync_ran) demo_registered) = TELEPHONY_SUCCESS"
    by (simp add: Client_UnRegisterCallBack_def via_proxy_def Proxy_UnRegisterCallBack_def run_code_def RunOnService_def
      PostSyncCall_def UnRegisterCallBack_task_def Service_UnRegisterCallBack_def CheckCallerIsSystemApp_def
      CheckSetTelephonyStatePermission_def Report_UnRegisterCallBack_def GetBundleInfo_def close_callback_def)
  then have "run_state (Client_UnRegisterCallBack demo_caller Sync_ran) demo_registered =
      (TELEPHONY_SUCCESS, snd (run_state (Client_UnRegisterCallBack demo_caller Sync_ran) demo_registered))"
    by (metis prod.collapse)
  from unregistered_hears_nothing [OF demo_registered_reach _ this rtranclp.rtrancl_refl] show ?thesis by simp
qed

text \<open>A registration outlives the service: when the service went away while a callback was registered, and came
  back, it has no callback; the proxy still counts as registered, so a new callback is refused, and so is taking the
  old one back. Only the client's \<open>UnInit\<close> on a running loop ends this; when its synchronous call fails, the
  registration survives even that and the \<open>Init\<close> after it.\<close>
theorem registration_outlives_service:
  assumes "cl_hasProxy s" and "cl_isInit s" and "px_initStatus s" and "px_registerStatus s"
    and "cm_callback (cl_cm s) = None"
    and "lh_state (cm_loop (cl_cm s)) = STATE_RUNNING" and "cm_ready (cl_cm s)"
  shows "fst (run_state (Client_RegisterCallBack tm Sync_ran (Some p)) s) = TELEPHONY_ERR_REGISTER_CALLBACK_FAIL \<and>
    (CheckCallerIsSystemApp tm \<and> CheckSetTelephonyStatePermission tm \<longrightarrow>
      run_state (Client_UnRegisterCallBack tm Sync_ran) s = (TELEPHONY_ERR_UNREGISTER_CALLBACK_FAIL, s)) \<and>
    (let t = snd (run_state (do { Client_UnInit Sync_refused; Client_Init i }) s) in t = s) \<and>
    (let t = snd (run_state (do { Client_UnInit Sync_ran; Client_Init i }) s)
     in px_callback t = None \<and> \<not> px_registerStatus t)"
proof -
  note defs = via_proxy_def run_code_def RunOnService_def PostSyncCall_def
  have refused: "fst (run_state (Client_RegisterCallBack tm Sync_ran (Some p)) s) = TELEPHONY_ERR_REGISTER_CALLBACK_FAIL"
    using assms by (simp add: Client_RegisterCallBack_def Proxy_RegisterCallBack_def new_callback_def
      RegisterCallBack_task_def defs)
  have kept: "run_state (Client_UnRegisterCallBack tm Sync_ran) s = (TELEPHONY_ERR_UNREGISTER_CALLBACK_FAIL, s)"
    if "CheckCallerIsSystemApp tm" "CheckSetTelephonyStatePermission tm"
    using assms that by (simp add: Client_UnRegisterCallBack_def Proxy_UnRegisterCallBack_def UnRegisterCallBack_task_def
      Service_UnRegisterCallBack_def Report_UnRegisterCallBack_def defs)
  have lost: "snd (run_state (do { Client_UnInit Sync_refused; Client_Init i }) s) = s"
    using assms by (simp add: Client_UnInit_def Proxy_UnInit_def Client_Init_def Proxy_Init_def defs)
  have ended: "px_callback (snd (run_state UnInit_task v)) = None" "\<not> px_registerStatus (snd (run_state UnInit_task v))" for v
    by (simp_all add: UnInit_task_def case_prod_beta)
  have "px_callback (snd (run_state (do { Client_UnInit Sync_ran; Client_Init i }) s)) = None \<and>
      \<not> px_registerStatus (snd (run_state (do { Client_UnInit Sync_ran; Client_Init i }) s))"
    using assms ended by (simp add: Client_UnInit_def Proxy_UnInit_def Client_Init_def Proxy_Init_def PostSyncCall_def
      case_prod_beta)
  with refused kept lost show ?thesis by (simp add: Let_def)
qed

text \<open>The service stops and starts again behind a registered client.\<close>

definition demo_restarted :: client where
  "demo_restarted = demo_registered\<lparr>cl_cm := snd (run_state (for_each [E_Stop demo_caller TELEPHONY_SUCCESS True True,
     E_Start True True TELEPHONY_SUCCESS True True] handle) (cl_cm demo_registered))\<rparr>"

lemma demo_restarted_reach: "client_reach demo_caller demo_env 100 demo_restarted"
  unfolding demo_restarted_def by (rule client_reach_events [OF demo_registered_reach]) simp

lemma demo_registered_cm: "cl_cm demo_registered = after demo_env 100 [E_Start True True TELEPHONY_SUCCESS True True,
     E_LoopTurn, E_RegisterCallBack demo_caller (Some 0)]"
proof -
  have "after demo_env 100 [E_Start True True TELEPHONY_SUCCESS True True, E_LoopTurn,
      E_RegisterCallBack demo_caller (Some 0)] = snd (run_state (handle (E_RegisterCallBack demo_caller (Some 0))) demo_service)"
    by (simp only: after_def demo_service_def for_each.simps State_Monad.run_state_bind case_prod_beta) simp
  then show ?thesis
    by (simp add: demo_registered_def Client_RegisterCallBack_def via_proxy_def Proxy_RegisterCallBack_def
      new_callback_def run_code_def RunOnService_def PostSyncCall_def RegisterCallBack_task_def
      Service_RegisterCallBack_def Report_RegisterCallBack_def GetBundleInfo_def)
qed

lemma demo_restarted_run:
  "let s = cl_cm demo_restarted in cm_ready s \<and> lh_state (cm_loop s) = STATE_RUNNING \<and> cm_callback s = None"
  by (simp add: exec demo_restarted_def demo_registered_cm cong: exec_cong)

theorem registration_outlives_service_witness:
  "client_reach demo_caller demo_env 100 demo_restarted \<and>
   fst (run_state (Client_RegisterCallBack demo_caller Sync_ran (Some 3)) demo_restarted) = TELEPHONY_ERR_REGISTER_CALLBACK_FAIL"
  using registration_outlives_service [of demo_restarted] demo_restarted_run [unfolded Let_def] demo_restarted_reach
  by (simp add: demo_restarted_def)

end
