(* ===== verification/Control_Properties.thy ===== *)
theory Control_Properties
  imports Identity Demo
begin

text \<open>
  What a request of an application does: when it is let through, what reaches the stack, and what is left behind when
  it is refused.
\<close>

section \<open>The call with an id\<close>

lemma lookup_unique:
  assumes "inv A s" and "c \<in> set (calls s)"
  obtains a where "GetOneCallObject (cb_callId c) s = Some a" "cm_heap s a = c" "a \<in> set (cm_callList s)"
proof -
  from assms(2) obtain a where a: "a \<in> set (cm_callList s)" "cm_heap s a = c" by (auto simp: calls_def)
  then obtain b where b: "GetOneCallObject (cb_callId c) s = Some b"
    by (cases "GetOneCallObject (cb_callId c) s") (auto simp: GetOneCallObject_def first_call_def find_None_iff)
  then have b': "b \<in> set (cm_callList s)" "cb_callId (cm_heap s b) = cb_callId c"
    by (auto simp: GetOneCallObject_def first_call_def find_Some_iff in_set_conv_nth)
  have "distinct (map (\<lambda>a. cb_callId (cm_heap s a)) (cm_callList s))"
    using assms(1) by (simp add: inv_def table_ok_def calls_def comp_def)
  with a b' have "a = b" by (auto simp: distinct_map inj_on_def)
  with a b that show ?thesis by blast
qed

lemma lookup_none: "i \<notin> cb_callId ` set (calls s) \<Longrightarrow> GetOneCallObject i s = None \<and> \<not> IsCallExist i s"
  by (auto simp: GetOneCallObject_def first_call_def find_None_iff IsCallExist_def any_call_def list_ex_iff calls_def)

lemma exist_iff: "IsCallExist i s \<longleftrightarrow> GetOneCallObject i s \<noteq> None"
  by (auto simp: IsCallExist_def any_call_def calls_def list_ex_iff GetOneCallObject_def first_call_def find_None_iff)

lemmas handler_defs = Handler_HoldCall_def Handler_UnHoldCall_def Handler_RejectCall_def Handler_SwitchCall_def
  Handler_HangUpCall_def Handler_AnswerCall_def

text \<open>C10. Requests on a call, in every reachable state. Hold, unhold, reject and switch are let through exactly in the
  state of the call (and of the table) in which they make sense; a hang-up unless the call is going away, and if
  the stack has not yet reported the call that is being dialed it is put off. A request that is let through is queued
  for the loop and does nothing else yet; one that is refused does nothing at all. An id of no call is refused.\<close>
theorem requests_by_policy:
  assumes "cm_reach e n s" and "cm_requestHandler s" and "i \<noteq> INVALID_CALLID"
  shows "(\<forall>c \<in> set (calls s). cb_callId c = i \<longrightarrow>
      run_state (HoldCall i) s = (if cb_callRunningState c = CALL_RUNNING_STATE_ACTIVE
        then run_state (post (T_HoldRequest i)) s else (CALL_ERR_CALL_IS_NOT_ACTIVATED, s)) \<and>
      run_state (UnHoldCall i) s = (if cb_callRunningState c = CALL_RUNNING_STATE_HOLD
        then run_state (post (T_UnHoldRequest i)) s else (CALL_ERR_CALL_IS_NOT_ON_HOLDING, s)) \<and>
      run_state (RejectCall i b text) s = (if \<not> HasRingingCall s then (TELEPHONY_ERR_LOCAL_PTR_NULL, s)
        else if cb_callState c = CALL_STATUS_INCOMING \<or> cb_callState c = CALL_STATUS_WAITING
        then run_state (post (T_RejectRequest i b (Str16ToStr8 text))) s else (CALL_ERR_ILLEGAL_CALL_OPERATION, s)) \<and>
      run_state (SwitchCall i) s = (if length (filter is_carrier (calls s)) < 2 then (CALL_ERR_PHONE_CALLS_TOO_FEW, s)
        else if cb_callState c = CALL_STATUS_HOLDING \<and>
          (\<forall>d \<in> set (calls s). cb_callState d \<noteq> CALL_STATUS_DIALING \<and> cb_callState d \<noteq> CALL_STATUS_ALERTING)
        then run_state (post (T_SwitchRequest i)) s else (CALL_ERR_ILLEGAL_CALL_OPERATION, s)) \<and>
      run_state (HangUpCall i) s = (if \<not> IsAliveState c then (CALL_ERR_ILLEGAL_CALL_OPERATION, s)
        else if hp_pendingMo (cm_helper s) \<and> hp_pendingMoCallId (cm_helper s) = i
        then (TELEPHONY_SUCCESS, snd (run_state (PostPendingHangupProtectTask i)
          (s\<lparr>cm_helper := (cm_helper s)\<lparr>hp_pendingMo := False, hp_pendingMoCallId := -1, hp_pendingHangup := True,
             hp_pendingHangupCallId := i\<rparr>\<rparr>)))
        else run_state (post (T_HangUpRequest i)) s)) \<and>
    (i \<notin> cb_callId ` set (calls s) \<longrightarrow>
      run_state (HoldCall i) s = (TELEPHONY_ERR_ARGUMENT_INVALID, s) \<and>
      run_state (UnHoldCall i) s = (TELEPHONY_ERR_ARGUMENT_INVALID, s) \<and>
      run_state (SwitchCall i) s = (TELEPHONY_ERR_ARGUMENT_INVALID, s) \<and>
      run_state (HangUpCall i) s = (TELEPHONY_ERR_ARGUMENT_INVALID, s) \<and>
      snd (run_state (RejectCall i b text) s) = s)"
proof (intro conjI ballI impI)
  have ring: "GetOneCallObject_state CALL_RUNNING_STATE_RINGING s = None \<longleftrightarrow> \<not> HasRingingCall s"
    by (auto simp: GetOneCallObject_state_def last_call_def find_None_iff HasRingingCall_def any_call_def calls_def
      list_ex_iff)
  note accepted = whenHandler_def assms(2) handler_defs
  fix c assume c: "c \<in> set (calls s)" and i: "cb_callId c = i"
  then obtain a where a: "GetOneCallObject i s = Some a" "cm_heap s a = c"
    using lookup_unique [OF reach_inv [OF assms(1)]] by metis
  have ex: "IsCallExist i s" using c i by (auto simp: IsCallExist_def any_call_def list_ex_iff)
  show "run_state (HoldCall i) s = (if cb_callRunningState c = CALL_RUNNING_STATE_ACTIVE
      then run_state (post (T_HoldRequest i)) s else (CALL_ERR_CALL_IS_NOT_ACTIVATED, s))"
    by (simp add: HoldCall_def HoldCallPolicy_def a accepted del: run_post)
  show "run_state (UnHoldCall i) s = (if cb_callRunningState c = CALL_RUNNING_STATE_HOLD
      then run_state (post (T_UnHoldRequest i)) s else (CALL_ERR_CALL_IS_NOT_ON_HOLDING, s))"
    by (simp add: UnHoldCall_def UnHoldCallPolicy_def a accepted del: run_post)
  show "run_state (RejectCall i b text) s = (if \<not> HasRingingCall s then (TELEPHONY_ERR_LOCAL_PTR_NULL, s)
      else if cb_callState c = CALL_STATUS_INCOMING \<or> cb_callState c = CALL_STATUS_WAITING
      then run_state (post (T_RejectRequest i b (Str16ToStr8 text))) s else (CALL_ERR_ILLEGAL_CALL_OPERATION, s))"
    using assms(3)
    by (cases "GetOneCallObject_state CALL_RUNNING_STATE_RINGING s")
      (auto simp: ring [symmetric] RejectCall_def RejectCallPolicy_def ring_policy_def ex GetCallState_table_def a accepted
        Let_def simp del: run_post)
  show "run_state (SwitchCall i) s = (if length (filter is_carrier (calls s)) < 2 then (CALL_ERR_PHONE_CALLS_TOO_FEW, s)
      else if cb_callState c = CALL_STATUS_HOLDING \<and>
        (\<forall>d \<in> set (calls s). cb_callState d \<noteq> CALL_STATUS_DIALING \<and> cb_callState d \<noteq> CALL_STATUS_ALERTING)
      then run_state (post (T_SwitchRequest i)) s else (CALL_ERR_ILLEGAL_CALL_OPERATION, s))"
    by (auto simp: SwitchCall_def SwitchCallPolicy_def onlyTwoCall_def GetCarrierCallList_def ex GetCallState_table_def a
      IsCallExist_state_def any_call_def list_ex_iff accepted simp del: run_post)
  show "run_state (HangUpCall i) s = (if \<not> IsAliveState c then (CALL_ERR_ILLEGAL_CALL_OPERATION, s)
      else if hp_pendingMo (cm_helper s) \<and> hp_pendingMoCallId (cm_helper s) = i
      then (TELEPHONY_SUCCESS, snd (run_state (PostPendingHangupProtectTask i)
        (s\<lparr>cm_helper := (cm_helper s)\<lparr>hp_pendingMo := False, hp_pendingMoCallId := -1, hp_pendingHangup := True,
           hp_pendingHangupCallId := i\<rparr>\<rparr>)))
      else run_state (post (T_HangUpRequest i)) s)"
    using assms(3)
    by (simp add: HangUpCall_def HangUpPolicy_def ex GetCallState_table_def a IsAliveState_def helper_simps accepted
      case_prod_beta del: run_post)
next
  assume "i \<notin> cb_callId ` set (calls s)"
  from lookup_none [OF this] have none: "GetOneCallObject i s = None" "\<not> IsCallExist i s" by simp_all
  show "run_state (HoldCall i) s = (TELEPHONY_ERR_ARGUMENT_INVALID, s)"
    by (simp add: HoldCall_def HoldCallPolicy_def none)
  show "run_state (UnHoldCall i) s = (TELEPHONY_ERR_ARGUMENT_INVALID, s)"
    by (simp add: UnHoldCall_def UnHoldCallPolicy_def none)
  show "run_state (SwitchCall i) s = (TELEPHONY_ERR_ARGUMENT_INVALID, s)"
    by (simp add: SwitchCall_def SwitchCallPolicy_def none)
  show "run_state (HangUpCall i) s = (TELEPHONY_ERR_ARGUMENT_INVALID, s)"
    using assms(2,3) by (simp add: HangUpCall_def HangUpPolicy_def none whenHandler_def)
  show "snd (run_state (RejectCall i b text) s) = s"
    using assms(2,3) by (simp add: RejectCall_def RejectCallPolicy_def ring_policy_def none whenHandler_def Let_def
      split: option.split)
qed

theorem requests_by_policy_witness:
  "run_state (HoldCall 1) demo_ringing = (CALL_ERR_CALL_IS_NOT_ACTIVATED, demo_ringing) \<and>
   run_state (HoldCall 1) demo_active = run_state (post (T_HoldRequest 1)) demo_active \<and>
   run_state (HangUpCall 7) demo_active = (TELEPHONY_ERR_ARGUMENT_INVALID, demo_active)"
  using requests_by_policy [OF demo_states_reachable(2), of 1] requests_by_policy [OF demo_states_reachable(3), of 1]
    requests_by_policy [OF demo_states_reachable(3), of 7]
  by (simp add: calls_def INVALID_CALLID_def del: run_post)

section \<open>Answering\<close>

text \<open>Answering speaks before it asks: with an id that is not the ringing call's, while some call rings, the call with
  that id is marked as answered, the application is told that it was answered and the audio control silences the
  ringing, and only then the policy refuses the request; nothing takes this back.\<close>
theorem answer_speaks_first:
  assumes "cm_reach e n s" and "c \<in> set (calls s)" and "cb_callId c = i" and "i \<noteq> INVALID_CALLID"
    and "cb_callState c \<noteq> CALL_STATUS_INCOMING" and "cb_callState c \<noteq> CALL_STATUS_WAITING"
    and "HasRingingCall s" and "cm_listener s \<noteq> None"
  shows "\<exists>a t. a \<in> set (cm_callList s) \<and> cm_heap s a = c \<and> run_state (AnswerCall i 0 b) s = (CALL_ERR_ILLEGAL_CALL_OPERATION, t) \<and>
    t = snd (run_state (Listener_CallStateUpdated (Some a) CALL_STATUS_INCOMING CALL_STATUS_ANSWERED)
      (s\<lparr>cm_heap := (cm_heap s)(a := c\<lparr>cb_isAnswered := True\<rparr>)\<rparr>)) \<and>
    cb_isAnswered (cm_heap t a)"
proof -
  from lookup_unique [OF reach_inv [OF assms(1)] assms(2)] assms(3)
  obtain a where a: "GetOneCallObject i s = Some a" "cm_heap s a = c" "a \<in> set (cm_callList s)" by metis
  let ?s = "s\<lparr>cm_heap := (cm_heap s)(a := c\<lparr>cb_isAnswered := True\<rparr>)\<rparr>"
  let ?t = "snd (run_state (Listener_CallStateUpdated (Some a) CALL_STATUS_INCOMING CALL_STATUS_ANSWERED) ?s)"
  have ring: "GetOneCallObject_state CALL_RUNNING_STATE_RINGING s \<noteq> None"
    using assms(7) by (auto simp: GetOneCallObject_state_def last_call_def find_None_iff HasRingingCall_def any_call_def
      calls_def list_ex_iff)
  have "same_calls_state ?s ?t"
    using frames_listener(4) unfolding frames_def by blast
  then have t: "cm_heap ?t = (cm_heap s)(a := c\<lparr>cb_isAnswered := True\<rparr>)" "cm_callList ?t = cm_callList s"
    by (simp_all add: same_calls_state_def)
  have "cb_callId (cm_heap ?t x) = cb_callId (cm_heap s x)" for x using a by (simp add: t)
  then have "GetOneCallObject i ?t = Some a"
    using a by (simp add: GetOneCallObject_def first_call_def t)
  then have found: "GetOneCallObject i ?t = Some a" "IsCallExist i ?t" by (simp_all add: exist_iff)
  have "ring_policy i ?t = CALL_ERR_ILLEGAL_CALL_OPERATION"
    using assms(5,6) by (simp add: ring_policy_def found GetCallState_table_def t)
  then have "run_state (AnswerCall i 0 b) s = (CALL_ERR_ILLEGAL_CALL_OPERATION, ?t)"
    using ring assms(3,4,8) a
    by (auto simp: AnswerCall_def GetRingCall_def NotifyCallStateUpdated_def AnswerCallPolicy_def case_prod_beta Let_def)
  with a t show ?thesis by (intro exI [of _ a] exI [of _ ?t]) simp
qed

text \<open>A second call knocks while one is active.\<close>

definition demo_busy :: cm where
  "demo_busy = after demo_env 100 [E_Start True True TELEPHONY_SUCCESS True True, E_LoopTurn,
     E_CallReport (demo_report 1 CALL_STATUS_INCOMING), E_LoopTurn,
     E_CallReport (demo_report 1 CALL_STATUS_ACTIVE), E_LoopTurn,
     E_CallReport (demo_report 2 CALL_STATUS_WAITING), E_LoopTurn]"

lemma demo_busy_run:
  "let s = demo_busy in cm_callList s = [0, 1] \<and> cb_callId (cm_heap s 0) = 1 \<and> cb_callId (cm_heap s 1) = 2 \<and>
     cb_callState (cm_heap s 0) = CALL_STATUS_ACTIVE \<and> cb_callState (cm_heap s 1) = CALL_STATUS_WAITING \<and>
     cb_callRunningState (cm_heap s 1) = CALL_RUNNING_STATE_RINGING \<and> cm_listener s \<noteq> None \<and>
     au_waitingTonePlaying (cm_audio s)"
  by (simp add: exec demo_busy_def cong: exec_cong)

lemmas demo_busy_simps [simp] = demo_busy_run [unfolded Let_def One_nat_def]

lemma demo_busy_reach: "cm_reach demo_env 100 demo_busy"
  unfolding demo_busy_def by (rule reach_after)

lemma demo_busy_answer:
  "let t = snd (run_state (AnswerCall 1 0 False) demo_busy)
   in \<not> au_waitingTonePlaying (cm_audio t) \<and> cb_callRunningState (cm_heap t 1) = CALL_RUNNING_STATE_RINGING"
  by (simp add: exec demo_busy_def AnswerCall_def GetRingCall_def AnswerCallPolicy_def ring_policy_def cong: exec_cong)

theorem answer_speaks_first_witness:
  "\<exists>t. run_state (AnswerCall 1 0 False) demo_busy = (CALL_ERR_ILLEGAL_CALL_OPERATION, t) \<and> cb_isAnswered (cm_heap t 0) \<and>
     \<not> au_waitingTonePlaying (cm_audio t) \<and> cb_callRunningState (cm_heap t 1) = CALL_RUNNING_STATE_RINGING"
proof -
  have "HasRingingCall demo_busy" by (simp add: HasRingingCall_def any_call_def calls_def)
  with answer_speaks_first [OF demo_busy_reach, of "cm_heap demo_busy 0" 1 False] obtain a t
    where t: "a \<in> {0, 1}" "cm_heap demo_busy a = cm_heap demo_busy 0"
      "run_state (AnswerCall 1 0 False) demo_busy = (CALL_ERR_ILLEGAL_CALL_OPERATION, t)" "cb_isAnswered (cm_heap t a)"
    by (auto simp: calls_def INVALID_CALLID_def)
  have "cb_callId (cm_heap demo_busy 0) \<noteq> cb_callId (cm_heap demo_busy (Suc 0))" by simp
  with t(1,2) have "a = 0" by (metis One_nat_def insert_iff empty_iff)
  with t demo_busy_answer [unfolded Let_def] show ?thesis by auto
qed

end
