(* ===== verification/Dial_Properties.thy ===== *)
theory Dial_Properties
  imports Onward Demo
begin

text \<open>
  The way of a dial to the stack: a request that is answered with success has sent the dial command, and what stands
  in the command.
\<close>

lemma along_onward: "along onward m \<Longrightarrow> run_state m s = (x, t) \<Longrightarrow> onward s t"
  by (metis alongD snd_conv)

lemma safe_run: "safe0 A m \<Longrightarrow> inv A s \<Longrightarrow> run_state m s = (x, t) \<Longrightarrow> inv A t"
  unfolding safe_def by force

lemma onward_stack: "onward s t \<Longrightarrow> prefix (cm_stackOut s) (cm_stackOut t)"
  by (simp add: onward_def)

lemma HandleStartDial_sends:
  assumes "\<not> cm_needWaitHold s" and "run_state (HandleStartDial b info) s = (TELEPHONY_SUCCESS, t)"
  shows "cm_stackOut t = cm_stackOut s @ [SC_Dial (snd (Process_PackCellularCallInfo info))] \<and>
    length (dp_number info) \<le> kMaxNumberLen"
  using assms
  by (auto simp: HandleStartDial_def Process_PackCellularCallInfo_def Let_def Conn_Dial_def stack_call_def case_prod_beta
    split: if_splits)

lemma CarrierDialProcess_sends:
  assumes "inv {} s" and "run_state (CarrierDialProcess info) s = (TELEPHONY_SUCCESS, t)"
  shows "\<exists>before. prefix (cm_stackOut s) before \<and>
    cm_stackOut t = before @ [SC_Dial (snd (Process_PackCellularCallInfo info))] \<and> length (dp_number info) \<le> kMaxNumberLen"
proof -
  let ?start = "do { RestoreDialingFlag True; ignore SetDialingCallProcessing }"
  let ?number = "RemoveSeparatorsPhoneNumber (dp_number info)"
  let ?report = "do {
    modify (\<lambda>s. s\<lparr>cm_isFirstDialCallAdded := False\<rparr>);
    Process_UpdateCallReportInfo (info\<lparr>dp_number := ?number\<rparr>) CALL_STATUS_DIALING }"
  have refused: "fst (run_state (dial_given_up r) u) = r" for r u
    by (simp add: dial_given_up_def case_prod_beta)
  obtain b s0 where s0: "run_state IsDialingCallProcessing s = (b, s0)" by (metis surj_pair)
  obtain x1 s1 where s1: "run_state ?start s0 = (x1, s1)" by (metis surj_pair)
  obtain r2 s2 where s2: "run_state (HandleDialingInfo ?number info) s1 = (r2, s2)" by (metis surj_pair)
  obtain r3 s3 where s3: "run_state ?report s2 = (r3, s3)" by (metis surj_pair)
  have "run_state (CarrierDialProcess info) s =
    (if b then (CALL_ERR_CALL_COUNTS_EXCEED_LIMIT, s0)
     else if r2 \<noteq> TELEPHONY_SUCCESS then run_state (dial_given_up r2) s2
     else if r3 \<noteq> TELEPHONY_SUCCESS then run_state (dial_given_up r3) s3
     else run_state (HandleStartDial False info) s3)"
    using s0 s1 s2 s3 by (auto simp: CarrierDialProcess_def Let_def case_prod_beta)
  then have last: "run_state (HandleStartDial False info) s3 = (TELEPHONY_SUCCESS, t)"
    using assms(2) refused by (auto split: if_splits) (metis fst_conv)+
  have "safe0 {} IsDialingCallProcessing" by (intro safe)
  from safe_run [OF this assms(1) s0] have "inv {} s0" .
  moreover have "safe0 {} ?start" by (intro safe)
  ultimately have "inv {} s1" using s1 by (blast intro: safe_run)
  moreover have "safe0 {} (HandleDialingInfo ?number info)"
    unfolding HandleDialingInfo_def HandleEccCallForDsda_def by (intro safe)
  ultimately have "inv {} s2" using s2 by (blast intro: safe_run)
  moreover have "safe0 {} ?report" unfolding Process_UpdateCallReportInfo_def by (intro safe)
  ultimately have "inv {} s3" using s3 by (blast intro: safe_run)
  then have "\<not> cm_needWaitHold s3" by (simp add: inv_def)
  from HandleStartDial_sends [OF this last] have sent:
    "cm_stackOut t = cm_stackOut s3 @ [SC_Dial (snd (Process_PackCellularCallInfo info))]"
    "length (dp_number info) \<le> kMaxNumberLen" by simp_all
  have "onward s s0" by (rule along_onward [OF _ s0]) (intro along)
  moreover have "onward s0 s1" by (rule along_onward [OF _ s1]) (intro along)
  moreover have "onward s1 s2" by (rule along_onward [OF _ s2]) (intro along)
  moreover have "onward s2 s3" by (rule along_onward [OF _ s3]) (intro along)
  ultimately have "prefix (cm_stackOut s) (cm_stackOut s3)" by (meson onward_stack prefix_order.trans)
  with sent show ?thesis by blast
qed

lemma CanDial_account:
  assumes "CanDial number extras isEcc s = (TELEPHONY_SUCCESS, extras')"
    and "SelectAccountId (GetIntValue ''accountId'' 0 extras)"
  shows "extras' = extras \<and> CheckDialType (DialType_cast (GetIntValue ''dialType'' 0 extras)) = TELEPHONY_SUCCESS"
  using assms by (auto simp: CanDial_def DialPolicy_def SelectAccountIdForCarrier_def Let_def split: if_splits)

lemma SetCallTypeExtras_other:
  "k \<noteq> ''videoState'' \<Longrightarrow> k \<noteq> ''callType'' \<Longrightarrow> GetIntValue k d (SetCallTypeExtras extras) = GetIntValue k d extras"
  by (simp add: SetCallTypeExtras_def Let_def)

text \<open>C4. A dial that is answered with success has reached the stack: in every reachable state, the last command the stack
  was given is the dial command, with the number of the request cut at the first comma and freed of its separators,
  on the slot the request asked for; the commands before it (the question whether the number is an emergency
  number, and the hang-ups that make room for an emergency call) only add to what the stack had been told.\<close>
theorem dial_reaches_stack:
  assumes "cm_reach e n s" and "SelectAccountId (GetIntValue ''accountId'' 0 extras)"
    and "run_state (DialCall number extras) s = (TELEPHONY_SUCCESS, t)"
  shows "\<exists>before callInfo. prefix (cm_stackOut s) before \<and> cm_stackOut t = before @ [SC_Dial callInfo] \<and>
    ci_phoneNum callInfo = RemoveSeparatorsPhoneNumber (takeWhile (\<lambda>c. c \<noteq> CHR '','') (Str16ToStr8 number)) \<and>
    ci_slotId callInfo = GetIntValue ''accountId'' 0 extras \<and> length (ci_phoneNum callInfo) \<le> kMaxNumberLen"
proof -
  let ?n = "RemoveSeparatorsPhoneNumber (takeWhile (\<lambda>c. c \<noteq> CHR '','') (Str16ToStr8 number))"
  let ?query = "CheckNumberIsEmergency ?n (GetIntValue ''accountId'' 0 extras) False"
  obtain r0 ecc s1 where s1: "run_state ?query s = ((r0, ecc), s1)" by (metis surj_pair)
  let ?extras = "if ecc then PutIntValue ''dialScene'' (DialScene_code CALL_EMERGENCY) extras else extras"
  obtain r extras' where can: "CanDial (Str8ToStr16 ?n) ?extras ecc s1 = (r, extras')" by (metis surj_pair)
  let ?s2 = "snd (run_state (PackageDialInformation (SetCallTypeExtras extras') ?n ecc) s1)"
  let ?info = "cm_dialSrcInfo ?s2"
  have "NumberLegalityCheck (Str16ToStr8 number) = (TELEPHONY_SUCCESS, takeWhile (\<lambda>c. c \<noteq> CHR '','') (Str16ToStr8 number))"
    using assms(3) by (auto simp: DialCall_def NumberLegalityCheck_def split: if_splits)
  then have "r = TELEPHONY_SUCCESS \<and> run_state DialRequest ?s2 = (TELEPHONY_SUCCESS, t)"
    using assms(3) s1 can by (auto simp: DialCall_def Let_def whenHandler_def Handler_DialCall_def case_prod_beta
      split: if_splits)
  then have ok: "r = TELEPHONY_SUCCESS" "run_state (CarrierDialProcess ?info) ?s2 = (TELEPHONY_SUCCESS, t)"
    by (auto simp: DialRequest_def GetDialParaInfo_def HandleDialRequest_def split: if_splits)
  have "safe0 {} ?query" by (intro frames_safe; simp add: CheckNumberIsEmergency_def; intro frame)
  then have "inv {} s1" using reach_inv [OF assms(1)] s1 by (blast intro: safe_run)
  then have "inv {} ?s2" by (simp add: PackageDialInformation_def inv_def table_ok_def calls_def)
  from CarrierDialProcess_sends [OF this ok(2)] obtain before where
    sent: "prefix (cm_stackOut ?s2) before" "cm_stackOut t = before @ [SC_Dial (snd (Process_PackCellularCallInfo ?info))]"
      "length (dp_number ?info) \<le> kMaxNumberLen" by blast
  have "along onward ?query" by (intro along)
  then have "prefix (cm_stackOut s) (cm_stackOut s1)" using s1 by (blast dest: along_onward onward_stack)
  with sent(1) have "prefix (cm_stackOut s) before" by (auto simp: PackageDialInformation_def intro: prefix_order.trans)
  moreover have account: "GetIntValue ''accountId'' 0 ?extras = GetIntValue ''accountId'' 0 extras" by simp
  have "dp_number ?info = ?n" "dp_accountId ?info = GetIntValue ''accountId'' 0 extras"
    using CanDial_account [of "Str8ToStr16 ?n" ?extras ecc s1 extras'] can ok(1) assms(2) account
    by (auto simp: PackageDialInformation_def SetCallTypeExtras_other)
  ultimately show ?thesis
    using sent by (intro exI [of _ before] exI [of _ "snd (Process_PackCellularCallInfo ?info)"])
      (simp add: Process_PackCellularCallInfo_def Let_def)
qed

lemma demo_spaced [simp]:
  "Str16ToStr8 [49, 45, 50, 44, 51] = ''1-2,3''" "RemoveSeparatorsPhoneNumber ''1-2'' = ''12''"
proof -
  have "encode8 [49, 45, 50, 44, 51] = ''1-2,3''" "encode16 [49, 45, 50, 44, 51] = [49, 45, 50, 44, 51]"
    by (simp_all add: encode8_def encode16_def Utf8_of_def Utf16_of_def utf_constants char_of_def bit_0)
  then show "Str16ToStr8 [49, 45, 50, 44, 51] = ''1-2,3''"
    using Str16ToStr8_loop_encode [of "[49, 45, 50, 44, 51]" "[]"]
    by (simp add: Str16ToStr8_def scalar_def utf_constants)
  show "RemoveSeparatorsPhoneNumber ''1-2'' = ''12''" by (simp add: is_dial_char_def is_post_dial_char_def less_eq_char_def)
qed

lemma demo_dial:
  "let (r, t) = run_state (DialCall [49, 45, 50, 44, 51] demo_extras) demo_ready
   in r = TELEPHONY_SUCCESS"
  by (simp add: exec demo_ready_def cong: exec_cong)

theorem dial_reaches_stack_witness:
  "\<exists>t before callInfo. run_state (DialCall [49, 45, 50, 44, 51] demo_extras) demo_ready = (TELEPHONY_SUCCESS, t) \<and>
    cm_stackOut t = before @ [SC_Dial callInfo] \<and> ci_phoneNum callInfo = ''12'' \<and> ci_slotId callInfo = 0"
proof -
  have reach: "cm_reach demo_env 100 demo_ready" unfolding demo_ready_def by (rule reach_after)
  obtain t where t: "run_state (DialCall [49, 45, 50, 44, 51] demo_extras) demo_ready = (TELEPHONY_SUCCESS, t)"
    using demo_dial by (metis (mono_tags, lifting) case_prod_beta prod.collapse)
  have slot: "SelectAccountId (GetIntValue ''accountId'' 0 demo_extras)" "GetIntValue ''accountId'' 0 demo_extras = 0"
    by (simp_all add: exec)
  have number: "RemoveSeparatorsPhoneNumber (takeWhile (\<lambda>c. c \<noteq> CHR '','') (Str16ToStr8 [49, 45, 50, 44, 51])) = ''12''"
    by (simp add: exec)
  from dial_reaches_stack [OF reach slot(1) t] t show ?thesis unfolding number slot(2) by blast
qed

end
