(* ===== verification/Interleaving.thy ===== *)
theory Interleaving
  imports Prelude
begin

text \<open>
  Tasks that share one object without a lock. A task is a local state; \<open>act g l g' l'\<close> is one atomic access of a
  task in local state \<open>l\<close> to the shared state \<open>g\<close>. The locales carry the proofs about such systems: what each task
  may rely on (\<open>ok\<close>, \<open>apart\<close>), and that whatever the shared state owes is owed by a task (\<open>need\<close>, \<open>carry\<close>).
\<close>

inductive interleaved ::
  "('g \<Rightarrow> 'l \<Rightarrow> 'g \<Rightarrow> 'l \<Rightarrow> bool) \<Rightarrow> ('g \<Rightarrow> (nat \<Rightarrow> 'l) \<Rightarrow> bool) \<Rightarrow> 'g \<Rightarrow> (nat \<Rightarrow> 'l) \<Rightarrow> bool"
  for act start where
  begins: "start g ls \<Longrightarrow> interleaved act start g ls"
| moves: "interleaved act start g ls \<Longrightarrow> act g (ls i) g' l' \<Longrightarrow> interleaved act start g' (ls(i := l'))"

text \<open>A task keeps what it relies on, and does not disturb what the others rely on.\<close>

locale interleaving =
  fixes act :: "'g \<Rightarrow> 'l \<Rightarrow> 'g \<Rightarrow> 'l \<Rightarrow> bool"
    and start :: "'g \<Rightarrow> (nat \<Rightarrow> 'l) \<Rightarrow> bool"
    and ok :: "'g \<Rightarrow> 'l \<Rightarrow> bool"
    and apart :: "'l \<Rightarrow> 'l \<Rightarrow> bool"
  assumes at_start: "start g ls \<Longrightarrow> ok g (ls i)" "start g ls \<Longrightarrow> i \<noteq> j \<Longrightarrow> apart (ls i) (ls j)"
    and own: "ok g l \<Longrightarrow> act g l g' l' \<Longrightarrow> ok g' l'"
    and others: "ok g l \<Longrightarrow> act g l g' l' \<Longrightarrow> ok g m \<Longrightarrow> apart l m \<Longrightarrow> ok g' m"
    and stays_apart: "ok g l \<Longrightarrow> act g l g' l' \<Longrightarrow> ok g m \<Longrightarrow> apart l m \<Longrightarrow> apart l' m"
    and apart_sym: "apart l m \<Longrightarrow> apart m l"
begin

theorem tasks_ok:
  assumes "interleaved act start g ls"
  shows "ok g (ls i) \<and> (i \<noteq> j \<longrightarrow> apart (ls i) (ls j))"
  using assms
proof (induction arbitrary: i j)
  case (begins g ls)
  then show ?case by (auto intro: at_start)
next
  case (moves g ls k g' l')
  then have ok: "ok g (ls i)" and apart: "i \<noteq> j \<Longrightarrow> apart (ls i) (ls j)" for i j by auto
  have others_ok: "j \<noteq> k \<Longrightarrow> ok g' (ls j)" "j \<noteq> k \<Longrightarrow> apart l' (ls j)" for j
    using others [OF ok moves.hyps(2) ok apart] stays_apart [OF ok moves.hyps(2) ok apart] by auto
  have "ok g' ((ls(k := l')) i)" using own [OF ok moves.hyps(2)] others_ok(1) by simp
  moreover have "i \<noteq> j \<longrightarrow> apart ((ls(k := l')) i) ((ls(k := l')) j)"
    using apart others_ok(2) apart_sym by simp
  ultimately show ?case by blast
qed

end

text \<open>Every debt of the shared state is carried by some task.\<close>

locale accounting = interleaving act start ok apart
  for act :: "'g \<Rightarrow> 'l \<Rightarrow> 'g \<Rightarrow> 'l \<Rightarrow> bool"
    and start :: "'g \<Rightarrow> (nat \<Rightarrow> 'l) \<Rightarrow> bool"
    and ok :: "'g \<Rightarrow> 'l \<Rightarrow> bool"
    and apart :: "'l \<Rightarrow> 'l \<Rightarrow> bool" +
  fixes need :: "'g \<Rightarrow> 'o set"
    and carry :: "'l \<Rightarrow> 'o set"
  assumes first: "start g ls \<Longrightarrow> need g \<subseteq> (\<Union>i. carry (ls i))"
    and passes_on: "ok g l \<Longrightarrow> act g l g' l' \<Longrightarrow> need g' \<subseteq> carry l' \<union> (need g - carry l)"
begin

theorem accounted: "interleaved act start g ls \<Longrightarrow> need g \<subseteq> (\<Union>i. carry (ls i))"
proof (induction rule: interleaved.induct)
  case (begins g ls)
  then show ?case by (rule first)
next
  case (moves g ls i g' l')
  have ok: "ok g (ls i)" using tasks_ok [OF moves.hyps(1)] by blast
  show ?case
  proof
    fix x assume "x \<in> need g'"
    with passes_on [OF ok moves.hyps(2)] consider "x \<in> carry l'" | "x \<in> need g" "x \<notin> carry (ls i)" by blast
    then show "x \<in> (\<Union>j. carry ((ls(i := l')) j))"
    proof cases
      case 2
      with moves.IH obtain j where "x \<in> carry (ls j)" "j \<noteq> i" by auto
      then show ?thesis by auto
    qed auto
  qed
qed

end

end
