(* ===== verification/Ref_Base.thy ===== *)
theory Ref_Base
  imports Interleaving
begin

text \<open>
  Reference counting: \<open>utils/mini/src/refbase.cpp\<close> and \<open>utils/mini/include/refbase.h\<close>. An object is destroyed when its
  last \<open>sptr\<close> goes away; its counter outlives it until the last \<open>wptr\<close> is gone as well. Both counts are atomic
  variables that any number of tasks change at the same time, so the model interleaves the tasks at every access.
\<close>

section \<open>The counter\<close>

record RefCounter =
  rc_strong :: int
  rc_weak :: int

definition RefCounter_new :: RefCounter where
  "RefCounter_new = \<lparr>rc_strong = 0, rc_weak = 1\<rparr>"

definition IncWeak :: "RefCounter \<Rightarrow> RefCounter" where
  "IncWeak c = c\<lparr>rc_weak := wrap32 (rc_weak c + 1)\<rparr>"

text \<open>Whether the counter was deleted, and its weak count before that.\<close>

definition DecWeak :: "RefCounter \<Rightarrow> bool \<times> RefCounter" where
  "DecWeak c = (rc_weak c = 1, c\<lparr>rc_weak := wrap32 (rc_weak c - 1)\<rparr>)"

text \<open>\<open>IncStrong\<close> is \<open>IncWeak\<close> and then this.\<close>

definition IncStrong_add :: "RefCounter \<Rightarrow> RefCounter" where
  "IncStrong_add c = c\<lparr>rc_strong := wrap32 (rc_strong c + 1)\<rparr>"

definition DecStrong :: "RefCounter \<Rightarrow> bool \<times> RefCounter" where
  "DecStrong c = (rc_strong c = 1, c\<lparr>rc_strong := wrap32 (rc_strong c - 1)\<rparr>)"

text \<open>
  One turn of the loop of \<open>AttemptIncStrong\<close>: the exchange may fail for no reason; when it fails, \<open>current\<close> becomes what
  the count is.
\<close>

definition AttemptIncStrong_exchange :: "bool \<Rightarrow> int \<Rightarrow> RefCounter \<Rightarrow> (RefCounter + int)" where
  "AttemptIncStrong_exchange spurious current c =
    (if \<not> spurious \<and> rc_strong c = current then Inl (c\<lparr>rc_strong := wrap32 (current + 1)\<rparr>) else Inr (rc_strong c))"

section \<open>The tasks\<close>

text \<open>
  References are named by numbers that the program does not see. A task owns the references in \<open>rt_strong\<close> (its \<open>sptr\<close>s) and
  \<open>rt_weak\<close> (its \<open>wptr\<close>s), and may be between two accesses of an operation on the object:
  \<^item> \<open>IncStrongRef\<close>: \<open>PC_First\<close> loads the count, \<open>PC_IncWeak\<close> and \<open>PC_IncStrong\<close> add, \<open>PC_OnFirst\<close> calls the hook;
  \<^item> \<open>DecStrongRef\<close>: \<open>PC_DecStrong\<close>, then for the last reference \<open>PC_Destroy\<close> (the hook, the destructor and its
    \<open>DecWeak\<close>), then \<open>PC_Release\<close>;
  \<^item> \<open>wptr\<close>: \<open>PC_Attach\<close> and \<open>PC_Detach\<close>; \<open>promote\<close>: \<open>PC_Load\<close>, \<open>PC_Exchange\<close>, and \<open>PC_AttemptWeak\<close> after the exchange.
    The two references that \<open>promote\<close> counts on top and drops again are ordinary ones.
\<close>

datatype ref_pc =
    PC_Idle
  | PC_First
  | PC_IncWeak bool
  | PC_IncStrong bool nat
  | PC_OnFirst nat
  | PC_DecStrong nat
  | PC_Destroy nat
  | PC_Release nat
  | PC_Attach
  | PC_Detach nat
  | PC_Load
  | PC_Exchange int
  | PC_AttemptWeak nat

record ref_task =
  rt_pc :: ref_pc
  rt_strong :: "nat set"
  rt_weak :: "nat set"

datatype phase = Fresh | Shared | Dying | Dead

text \<open>
  The object with its counter. \<open>ro_strongs\<close> and \<open>ro_weaks\<close> are the references that are counted now; a strong one is counted
  in both. \<open>ro_pool\<close> are strong references that lie in memory that tasks share under some other protection (a queued
  closure, a table of the main loop). \<open>ro_destroyed\<close> and \<open>ro_freed\<close> count destructions of the object and deletions of
  the counter.
\<close>

record ref_object =
  ro_counter :: RefCounter
  ro_destroyed :: nat
  ro_freed :: nat
  ro_phase :: phase
  ro_strongs :: "nat set"
  ro_weaks :: "nat set"
  ro_pool :: "nat set"

text \<open>Every reference is a pointer in a memory of less than \<open>2 ^ 31\<close> of them.\<close>

definition fresh_ref :: "nat \<Rightarrow> ref_object \<Rightarrow> bool" where
  "fresh_ref x g \<longleftrightarrow> x \<notin> ro_strongs g \<and> x \<notin> ro_weaks g \<and> card (ro_strongs g \<union> ro_weaks g) < 2147483646"

definition drop_weak :: "nat \<Rightarrow> ref_object \<Rightarrow> ref_object" where
  "drop_weak x g = (case DecWeak (ro_counter g) of (deleted, c) \<Rightarrow>
     g\<lparr>ro_counter := c, ro_weaks := ro_weaks g - {x}, ro_freed := ro_freed g + (if deleted then 1 else 0)\<rparr>)"

text \<open>The destructor of \<open>RefBase\<close> gives back the reference the living object has on the counter.\<close>

definition destroy :: "ref_object \<Rightarrow> ref_object" where
  "destroy g = (case DecWeak (ro_counter g) of (deleted, c) \<Rightarrow>
     g\<lparr>ro_counter := c, ro_destroyed := ro_destroyed g + 1, ro_phase := Dead,
       ro_freed := ro_freed g + (if deleted then 1 else 0)\<rparr>)"

inductive ref_act :: "ref_object \<Rightarrow> ref_task \<Rightarrow> ref_object \<Rightarrow> ref_task \<Rightarrow> bool" where
  copy: "rt_pc l = PC_Idle \<Longrightarrow> rt_strong l \<noteq> {} \<Longrightarrow> ref_act g l g (l\<lparr>rt_pc := PC_First\<rparr>)"
| first: "rt_pc l = PC_First \<Longrightarrow> ref_act g l g (l\<lparr>rt_pc := PC_IncWeak (rc_strong (ro_counter g) = 0)\<rparr>)"
| inc_weak: "rt_pc l = PC_IncWeak b \<Longrightarrow> fresh_ref x g \<Longrightarrow>
    ref_act g l (g\<lparr>ro_counter := IncWeak (ro_counter g), ro_weaks := insert x (ro_weaks g)\<rparr>)
      (l\<lparr>rt_pc := PC_IncStrong b x\<rparr>)"
| inc_strong: "rt_pc l = PC_IncStrong b x \<Longrightarrow>
    ref_act g l (g\<lparr>ro_counter := IncStrong_add (ro_counter g), ro_strongs := insert x (ro_strongs g),
        ro_phase := (if ro_phase g = Fresh then Shared else ro_phase g)\<rparr>)
      (if b then l\<lparr>rt_pc := PC_OnFirst x\<rparr> else l\<lparr>rt_pc := PC_Idle, rt_strong := insert x (rt_strong l)\<rparr>)"
| on_first: "rt_pc l = PC_OnFirst x \<Longrightarrow>
    ref_act g l g (l\<lparr>rt_pc := PC_Idle, rt_strong := insert x (rt_strong l)\<rparr>)"
| drop: "rt_pc l = PC_Idle \<Longrightarrow> x \<in> rt_strong l \<Longrightarrow>
    ref_act g l g (l\<lparr>rt_pc := PC_DecStrong x, rt_strong := rt_strong l - {x}\<rparr>)"
| dec_strong: "rt_pc l = PC_DecStrong x \<Longrightarrow> DecStrong (ro_counter g) = (gone, c) \<Longrightarrow>
    ref_act g l (g\<lparr>ro_counter := c, ro_strongs := ro_strongs g - {x}, ro_phase := (if gone then Dying else ro_phase g)\<rparr>)
      (l\<lparr>rt_pc := if gone then PC_Destroy x else PC_Release x\<rparr>)"
| destroyed: "rt_pc l = PC_Destroy x \<Longrightarrow> ref_act g l (destroy g) (l\<lparr>rt_pc := PC_Release x\<rparr>)"
| release: "rt_pc l = PC_Release x \<Longrightarrow> ref_act g l (drop_weak x g) (l\<lparr>rt_pc := PC_Idle\<rparr>)"
| watch: "rt_pc l = PC_Idle \<Longrightarrow> rt_strong l \<union> rt_weak l \<noteq> {} \<Longrightarrow> ref_act g l g (l\<lparr>rt_pc := PC_Attach\<rparr>)"
| attach: "rt_pc l = PC_Attach \<Longrightarrow> fresh_ref x g \<Longrightarrow>
    ref_act g l (g\<lparr>ro_counter := IncWeak (ro_counter g), ro_weaks := insert x (ro_weaks g)\<rparr>)
      (l\<lparr>rt_pc := PC_Idle, rt_weak := insert x (rt_weak l)\<rparr>)"
| unwatch: "rt_pc l = PC_Idle \<Longrightarrow> x \<in> rt_weak l \<Longrightarrow>
    ref_act g l g (l\<lparr>rt_pc := PC_Detach x, rt_weak := rt_weak l - {x}\<rparr>)"
| detach: "rt_pc l = PC_Detach x \<Longrightarrow> ref_act g l (drop_weak x g) (l\<lparr>rt_pc := PC_Idle\<rparr>)"
| promote: "rt_pc l = PC_Idle \<Longrightarrow> rt_weak l \<noteq> {} \<Longrightarrow> ref_act g l g (l\<lparr>rt_pc := PC_Load\<rparr>)"
| load: "rt_pc l = PC_Load \<Longrightarrow> ref_act g l g (l\<lparr>rt_pc := PC_Exchange (rc_strong (ro_counter g))\<rparr>)"
| too_late: "rt_pc l = PC_Exchange current \<Longrightarrow> current \<le> 0 \<Longrightarrow> ref_act g l g (l\<lparr>rt_pc := PC_Idle\<rparr>)"
| exchanged: "rt_pc l = PC_Exchange current \<Longrightarrow> 0 < current \<Longrightarrow> fresh_ref x g \<Longrightarrow>
    AttemptIncStrong_exchange spurious current (ro_counter g) = Inl c \<Longrightarrow>
    ref_act g l (g\<lparr>ro_counter := c, ro_strongs := insert x (ro_strongs g)\<rparr>) (l\<lparr>rt_pc := PC_AttemptWeak x\<rparr>)"
| again: "rt_pc l = PC_Exchange current \<Longrightarrow> 0 < current \<Longrightarrow>
    AttemptIncStrong_exchange spurious current (ro_counter g) = Inr v \<Longrightarrow>
    ref_act g l g (l\<lparr>rt_pc := PC_Exchange v\<rparr>)"
| attempt_weak: "rt_pc l = PC_AttemptWeak x \<Longrightarrow>
    ref_act g l (g\<lparr>ro_counter := IncWeak (ro_counter g), ro_weaks := insert x (ro_weaks g)\<rparr>)
      (l\<lparr>rt_pc := PC_Idle, rt_strong := insert x (rt_strong l)\<rparr>)"
| put: "rt_pc l = PC_Idle \<Longrightarrow> x \<in> rt_strong l \<Longrightarrow>
    ref_act g l (g\<lparr>ro_pool := insert x (ro_pool g)\<rparr>) (l\<lparr>rt_strong := rt_strong l - {x}\<rparr>)"
| take: "rt_pc l = PC_Idle \<Longrightarrow> x \<in> ro_pool g \<Longrightarrow>
    ref_act g l (g\<lparr>ro_pool := ro_pool g - {x}\<rparr>) (l\<lparr>rt_strong := insert x (rt_strong l)\<rparr>)"

text \<open>The object was just made; one task is about to put it into its first \<open>sptr\<close>.\<close>

definition ref_start :: "ref_object \<Rightarrow> (nat \<Rightarrow> ref_task) \<Rightarrow> bool" where
  "ref_start g ls \<longleftrightarrow>
    g = \<lparr>ro_counter = RefCounter_new, ro_destroyed = 0, ro_freed = 0, ro_phase = Fresh,
         ro_strongs = {}, ro_weaks = {}, ro_pool = {}\<rparr> \<and>
    ls = (\<lambda>_. \<lparr>rt_pc = PC_Idle, rt_strong = {}, rt_weak = {}\<rparr>)(0 := \<lparr>rt_pc = PC_First, rt_strong = {}, rt_weak = {}\<rparr>)"

lemma drop_weak_simps [simp]:
  "ro_strongs (drop_weak x g) = ro_strongs g" "ro_weaks (drop_weak x g) = ro_weaks g - {x}"
  "ro_pool (drop_weak x g) = ro_pool g" "ro_phase (drop_weak x g) = ro_phase g"
  by (simp_all add: drop_weak_def DecWeak_def)

lemma destroy_simps [simp]:
  "ro_strongs (destroy g) = ro_strongs g" "ro_weaks (destroy g) = ro_weaks g" "ro_pool (destroy g) = ro_pool g"
  "ro_phase (destroy g) = Dead"
  by (simp_all add: destroy_def DecWeak_def)

section \<open>What a task relies on\<close>

text \<open>The references an operation is working on: counted strong, and counted weak.\<close>

fun pc_strong :: "ref_pc \<Rightarrow> nat set" where
  "pc_strong (PC_OnFirst x) = {x}"
| "pc_strong (PC_DecStrong x) = {x}"
| "pc_strong (PC_AttemptWeak x) = {x}"
| "pc_strong _ = {}"

fun pc_weak :: "ref_pc \<Rightarrow> nat set" where
  "pc_weak (PC_IncStrong b x) = {x}"
| "pc_weak (PC_OnFirst x) = {x}"
| "pc_weak (PC_DecStrong x) = {x}"
| "pc_weak (PC_Destroy x) = {x}"
| "pc_weak (PC_Release x) = {x}"
| "pc_weak (PC_Detach x) = {x}"
| "pc_weak _ = {}"

definition owns_strong :: "ref_task \<Rightarrow> nat set" where
  "owns_strong l = rt_strong l \<union> pc_strong (rt_pc l)"

definition owns_weak :: "ref_task \<Rightarrow> nat set" where
  "owns_weak l = rt_strong l \<union> rt_weak l \<union> pc_weak (rt_pc l)"

fun is_inc :: "ref_pc \<Rightarrow> bool" where
  "is_inc PC_First = True"
| "is_inc (PC_IncWeak b) = True"
| "is_inc (PC_IncStrong b x) = True"
| "is_inc _ = False"

fun is_promote :: "ref_pc \<Rightarrow> bool" where
  "is_promote PC_Load = True"
| "is_promote (PC_Exchange v) = True"
| "is_promote (PC_AttemptWeak x) = True"
| "is_promote _ = False"

text \<open>Putting the object into its first \<open>sptr\<close>, and destroying it: one task at a time.\<close>

definition creates :: "ref_task \<Rightarrow> bool" where
  "creates l \<longleftrightarrow> is_inc (rt_pc l) \<and> rt_strong l = {}"

definition destroys :: "ref_task \<Rightarrow> bool" where
  "destroys l \<longleftrightarrow> (\<exists>x. rt_pc l = PC_Destroy x)"

definition object_ok :: "ref_object \<Rightarrow> bool" where
  "object_ok g \<longleftrightarrow> finite (ro_strongs g) \<and> finite (ro_weaks g) \<and> ro_pool g \<subseteq> ro_strongs g \<inter> ro_weaks g \<and>
     card (ro_strongs g \<union> ro_weaks g) \<le> 2147483646 \<and>
     rc_strong (ro_counter g) = int (card (ro_strongs g)) \<and>
     rc_weak (ro_counter g) = int (card (ro_weaks g)) + (if ro_phase g = Dead then 0 else 1) \<and>
     (ro_strongs g \<noteq> {} \<longleftrightarrow> ro_phase g = Shared) \<and>
     ro_destroyed g = (if ro_phase g = Dead then 1 else 0) \<and>
     ro_freed g = (if ro_phase g = Dead \<and> ro_weaks g = {} then 1 else 0)"

definition task_ok :: "ref_object \<Rightarrow> ref_task \<Rightarrow> bool" where
  "task_ok g l \<longleftrightarrow> object_ok g \<and> owns_strong l \<subseteq> ro_strongs g \<and> owns_weak l \<subseteq> ro_weaks g \<and>
     (owns_strong l \<union> owns_weak l) \<inter> ro_pool g = {} \<and>
     (\<forall>x. rt_pc l = PC_AttemptWeak x \<longrightarrow> x \<notin> ro_weaks g) \<and>
     (\<forall>x. x \<in> owns_weak l - owns_strong l \<longrightarrow> x \<notin> ro_strongs g) \<and>
     rt_strong l \<inter> (rt_weak l \<union> pc_weak (rt_pc l)) = {} \<and> rt_weak l \<inter> pc_weak (rt_pc l) = {} \<and>
     (creates l \<longrightarrow> ro_phase g = Fresh) \<and> (destroys l \<longrightarrow> ro_phase g = Dying) \<and>
     (rt_pc l = PC_Attach \<longrightarrow> rt_strong l \<union> rt_weak l \<noteq> {}) \<and> (is_promote (rt_pc l) \<longrightarrow> rt_weak l \<noteq> {})"

definition tasks_apart :: "ref_task \<Rightarrow> ref_task \<Rightarrow> bool" where
  "tasks_apart l m \<longleftrightarrow> (owns_strong l \<union> owns_weak l) \<inter> (owns_strong m \<union> owns_weak m) = {} \<and>
     \<not> (creates l \<and> creates m) \<and> \<not> (destroys l \<and> destroys m)"

lemma task_okD:
  assumes "task_ok g l"
  shows "object_ok g" "owns_strong l \<subseteq> ro_strongs g" "owns_weak l \<subseteq> ro_weaks g"
  using assms by (simp_all add: task_ok_def)

lemma fresh_counts:
  assumes "object_ok g" and "fresh_ref x g"
  shows "card (insert x (ro_weaks g)) = Suc (card (ro_weaks g))" "card (insert x (ro_strongs g)) = Suc (card (ro_strongs g))"
    "card (ro_weaks g) < 2147483646" "card (ro_strongs g) < 2147483646"
    "card (insert x (ro_strongs g \<union> ro_weaks g)) \<le> 2147483646"
proof -
  from assms have fin: "finite (ro_strongs g)" "finite (ro_weaks g)" by (simp_all add: object_ok_def)
  with assms(2) show "card (insert x (ro_weaks g)) = Suc (card (ro_weaks g))"
    "card (insert x (ro_strongs g)) = Suc (card (ro_strongs g))" by (simp_all add: fresh_ref_def)
  have "card (ro_weaks g) \<le> card (ro_strongs g \<union> ro_weaks g)" "card (ro_strongs g) \<le> card (ro_strongs g \<union> ro_weaks g)"
    using fin by (simp_all add: card_mono)
  with assms(2) show "card (ro_weaks g) < 2147483646" "card (ro_strongs g) < 2147483646" by (simp_all add: fresh_ref_def)
  show "card (insert x (ro_strongs g \<union> ro_weaks g)) \<le> 2147483646" using assms(2) fin by (simp add: fresh_ref_def)
qed

text \<open>The shared state after each access.\<close>

lemma object_ok_add_weak:
  assumes "object_ok g" and "fresh_ref x g" and "ro_phase g \<noteq> Dead \<or> ro_weaks g \<noteq> {}"
  shows "object_ok (g\<lparr>ro_counter := IncWeak (ro_counter g), ro_weaks := insert x (ro_weaks g)\<rparr>)"
  using assms fresh_counts [OF assms(1,2)] by (auto simp: object_ok_def IncWeak_def wrap32_id)

lemma object_ok_add_strong:
  assumes "object_ok g" and "x \<notin> ro_strongs g" and "x \<in> ro_weaks g" and "ro_phase g = Fresh \<or> ro_phase g = Shared"
  shows "object_ok (g\<lparr>ro_counter := IncStrong_add (ro_counter g), ro_strongs := insert x (ro_strongs g),
    ro_phase := (if ro_phase g = Fresh then Shared else ro_phase g)\<rparr>)"
proof -
  have "card (ro_strongs g) \<le> card (ro_strongs g \<union> ro_weaks g)" using assms(1) by (simp add: object_ok_def card_mono)
  with assms show ?thesis by (auto simp: object_ok_def IncStrong_add_def wrap32_id insert_absorb)
qed

lemma object_ok_drop_strong:
  assumes "object_ok g" and "x \<in> ro_strongs g" and "x \<in> ro_weaks g" and "x \<notin> ro_pool g"
    and "DecStrong (ro_counter g) = (gone, c)"
  shows "object_ok (g\<lparr>ro_counter := c, ro_strongs := ro_strongs g - {x}, ro_phase := (if gone then Dying else ro_phase g)\<rparr>)"
proof -
  let ?n = "card (ro_strongs g)"
  have fin: "finite (ro_strongs g)" and shared: "ro_phase g = Shared" using assms(1,2) by (auto simp: object_ok_def)
  then have n: "0 < ?n" "?n \<le> card (ro_strongs g \<union> ro_weaks g)" using assms(1,2) by (auto simp: object_ok_def card_gt_0_iff card_mono)
  have gone: "gone \<longleftrightarrow> ro_strongs g = {x}"
    using assms(1,2,5) by (auto simp: object_ok_def DecStrong_def card_1_singleton_iff)
  have "ro_strongs g - {x} \<union> ro_weaks g = ro_strongs g \<union> ro_weaks g" using assms(3) by blast
  with gone n assms shared fin show ?thesis
    by (auto simp: object_ok_def DecStrong_def wrap32_id of_nat_diff)
qed

lemma object_ok_destroy:
  assumes "object_ok g" and "x \<in> ro_weaks g" and "ro_phase g = Dying"
  shows "object_ok (destroy g)"
proof -
  have "0 < card (ro_weaks g)" "card (ro_weaks g) \<le> card (ro_strongs g \<union> ro_weaks g)"
    using assms(1,2) by (auto simp: object_ok_def card_gt_0_iff card_mono)
  with assms show ?thesis by (auto simp: object_ok_def destroy_def DecWeak_def wrap32_id)
qed

lemma object_ok_drop_weak:
  assumes "object_ok g" and "x \<in> ro_weaks g" and "x \<notin> ro_strongs g"
  shows "object_ok (drop_weak x g)"
proof -
  have n: "0 < card (ro_weaks g)" "card (ro_weaks g) \<le> card (ro_strongs g \<union> ro_weaks g)"
    using assms(1,2) by (auto simp: object_ok_def card_gt_0_iff card_mono)
  have "ro_weaks g - {x} = {} \<longleftrightarrow> card (ro_weaks g) = 1"
    using assms(1,2) by (auto simp: object_ok_def card_1_singleton_iff)
  moreover have "card (ro_strongs g \<union> (ro_weaks g - {x})) \<le> card (ro_strongs g \<union> ro_weaks g)"
    using assms(1) by (intro card_mono) (auto simp: object_ok_def)
  ultimately show ?thesis
    using n assms by (auto simp: object_ok_def drop_weak_def DecWeak_def wrap32_id of_nat_diff)
qed

lemma object_ok_exchanged:
  assumes "object_ok g" and "fresh_ref x g" and "0 < current"
    and "AttemptIncStrong_exchange spurious current (ro_counter g) = Inl c"
  shows "object_ok (g\<lparr>ro_counter := c, ro_strongs := insert x (ro_strongs g)\<rparr>) \<and> ro_phase g = Shared"
  using assms fresh_counts [OF assms(1,2)]
  by (auto simp: object_ok_def AttemptIncStrong_exchange_def wrap32_id split: if_splits)

lemma object_ok_attempt_weak:
  assumes "object_ok g" and "x \<in> ro_strongs g" and "x \<notin> ro_weaks g"
  shows "object_ok (g\<lparr>ro_counter := IncWeak (ro_counter g), ro_weaks := insert x (ro_weaks g)\<rparr>)"
proof -
  have "card (insert x (ro_weaks g)) \<le> card (ro_strongs g \<union> ro_weaks g)"
    using assms by (intro card_mono) (auto simp: object_ok_def)
  with assms show ?thesis by (auto simp: object_ok_def IncWeak_def wrap32_id insert_absorb)
qed

text \<open>An object with a strong reference is shared, one that is not counted weakly any more is gone.\<close>

lemma strong_shared: "object_ok g \<Longrightarrow> x \<in> ro_strongs g \<Longrightarrow> ro_phase g = Shared"
  by (auto simp: object_ok_def)

lemma ref_object_ok:
  assumes "task_ok g l" and "ref_act g l g' l'"
  shows "object_ok g'"
  using assms(2)
proof (cases rule: ref_act.cases)
  case (inc_weak b x)
  have "ro_phase g \<noteq> Dead"
    using assms(1) inc_weak strong_shared by (cases "rt_strong l = {}") (auto simp: task_ok_def creates_def owns_strong_def)
  with inc_weak assms(1) show ?thesis by (auto intro!: object_ok_add_weak dest: task_okD)
next
  case (inc_strong b x)
  have "x \<notin> ro_strongs g" "x \<in> ro_weaks g" using assms(1) inc_strong by (auto simp: task_ok_def owns_weak_def owns_strong_def)
  moreover have "ro_phase g = Fresh \<or> ro_phase g = Shared"
    using assms(1) inc_strong strong_shared by (cases "rt_strong l = {}") (auto simp: task_ok_def creates_def owns_strong_def)
  ultimately show ?thesis
    using object_ok_add_strong [OF task_okD(1) [OF assms(1)]] unfolding inc_strong(1) by blast
next
  case (dec_strong x gone c)
  have "x \<in> ro_strongs g" "x \<in> ro_weaks g" "x \<notin> ro_pool g"
    using assms(1) dec_strong by (auto simp: task_ok_def owns_weak_def owns_strong_def)
  with object_ok_drop_strong [OF task_okD(1) [OF assms(1)]] dec_strong(4) show ?thesis unfolding dec_strong(1) by blast
next
  case (destroyed x)
  then show ?thesis using assms(1)
    by (auto simp: task_ok_def destroys_def owns_weak_def intro!: object_ok_destroy [of g x])
next
  case (release x)
  then have "x \<in> ro_weaks g" "x \<notin> ro_strongs g"
    using assms(1) by (auto simp: task_ok_def owns_weak_def owns_strong_def)
  with release assms(1) show ?thesis by (auto intro!: object_ok_drop_weak dest: task_okD)
next
  case (attach x)
  then have "ro_phase g \<noteq> Dead \<or> ro_weaks g \<noteq> {}" using assms(1) by (auto simp: task_ok_def owns_weak_def)
  with attach assms(1) show ?thesis by (auto intro!: object_ok_add_weak dest: task_okD)
next
  case (detach x)
  then have "x \<in> ro_weaks g" "x \<notin> ro_strongs g"
    using assms(1) by (auto simp: task_ok_def owns_weak_def owns_strong_def)
  with detach assms(1) show ?thesis by (auto intro!: object_ok_drop_weak dest: task_okD)
next
  case (exchanged current x spurious c)
  with object_ok_exchanged [OF task_okD(1) [OF assms(1)]] show ?thesis by simp
next
  case (attempt_weak x)
  then have "x \<in> ro_strongs g" "x \<notin> ro_weaks g" using assms(1) by (auto simp: task_ok_def owns_strong_def)
  with attempt_weak assms(1) show ?thesis by (auto intro!: object_ok_attempt_weak dest: task_okD)
next
  case (put x)
  then show ?thesis using assms(1) by (auto simp: task_ok_def object_ok_def owns_strong_def owns_weak_def)
next
  case (take x)
  then show ?thesis using assms(1) by (auto simp: task_ok_def object_ok_def)
qed (use task_okD [OF assms(1)] in simp_all)

lemmas task_defs = task_ok_def owns_strong_def owns_weak_def creates_def destroys_def

lemma ref_own:
  assumes "task_ok g l" and "ref_act g l g' l'"
  shows "task_ok g' l'"
proof -
  note object = ref_object_ok [OF assms]
  have pool: "ro_pool g \<subseteq> ro_strongs g" "ro_pool g \<subseteq> ro_weaks g" using task_okD(1) [OF assms(1)] by (simp_all add: object_ok_def)
  show ?thesis
    using assms(2)
  proof (cases rule: ref_act.cases)
    case (inc_strong b x)
    then show ?thesis using assms(1) object by (auto simp: task_defs)
  next
    case (dec_strong x gone c)
    then show ?thesis using assms(1) object by (auto simp: task_defs)
  next
    case (exchanged current x spurious c)
    then show ?thesis using assms(1) object pool by (auto simp: task_defs fresh_ref_def)
  qed (use assms(1) object pool in \<open>auto simp: task_defs fresh_ref_def\<close>)
qed

lemma task_ok_cong:
  assumes "task_ok g m" and "object_ok g'"
    and "\<And>y. y \<in> owns_strong m \<union> owns_weak m \<Longrightarrow>
      (y \<in> ro_strongs g' \<longleftrightarrow> y \<in> ro_strongs g) \<and> (y \<in> ro_weaks g' \<longleftrightarrow> y \<in> ro_weaks g) \<and> y \<notin> ro_pool g'"
    and "creates m \<or> destroys m \<Longrightarrow> ro_phase g' = ro_phase g"
  shows "task_ok g' m"
  using assms unfolding task_ok_def by (auto simp: owns_strong_def)

lemma owned_by_other:
  assumes "task_ok g m" and "tasks_apart l m" and "y \<in> owns_strong m \<union> owns_weak m"
  shows "y \<notin> ro_pool g \<and> (y \<in> ro_strongs g \<or> y \<in> ro_weaks g) \<and> y \<notin> owns_strong l \<and> y \<notin> owns_weak l"
proof -
  have "(owns_strong m \<union> owns_weak m) \<inter> ro_pool g = {}" using assms(1) by (simp add: task_ok_def)
  moreover have "(owns_strong l \<union> owns_weak l) \<inter> (owns_strong m \<union> owns_weak m) = {}" using assms(2) by (simp add: tasks_apart_def)
  ultimately show ?thesis using task_okD(2,3) [OF assms(1)] assms(3) by blast
qed

lemma ref_leaves_alone:
  assumes "ref_act g l g' l'"
    and "y \<notin> ro_pool g \<and> (y \<in> ro_strongs g \<or> y \<in> ro_weaks g) \<and> y \<notin> owns_strong l \<and> y \<notin> owns_weak l"
  shows "(y \<in> ro_strongs g' \<longleftrightarrow> y \<in> ro_strongs g) \<and> (y \<in> ro_weaks g' \<longleftrightarrow> y \<in> ro_weaks g) \<and> y \<notin> ro_pool g' \<and>
    y \<notin> owns_strong l' \<union> owns_weak l'"
  using assms by (cases rule: ref_act.cases) (auto simp: owns_strong_def owns_weak_def fresh_ref_def)

lemma ref_others:
  assumes "task_ok g l" and "ref_act g l g' l'" and "task_ok g m" and "tasks_apart l m"
  shows "task_ok g' m"
proof (rule task_ok_cong [OF assms(3) ref_object_ok [OF assms(1,2)]])
  show "(y \<in> ro_strongs g' \<longleftrightarrow> y \<in> ro_strongs g) \<and> (y \<in> ro_weaks g' \<longleftrightarrow> y \<in> ro_weaks g) \<and> y \<notin> ro_pool g'"
    if "y \<in> owns_strong m \<union> owns_weak m" for y
    using ref_leaves_alone [OF assms(2) owned_by_other [OF assms(3,4) that]] by simp
  assume m: "creates m \<or> destroys m"
  then have "ro_phase g = Fresh \<or> ro_phase g = Dying" using assms(3) by (auto simp: task_ok_def)
  moreover have "ro_strongs g = {}" using m assms(3) by (auto simp: task_ok_def object_ok_def)
  then have "owns_strong l = {}" using task_okD(2) [OF assms(1)] by blast
  moreover have "ro_phase g = Fresh \<Longrightarrow> \<not> creates l" "\<not> destroys l"
    using m assms(1,3,4) by (auto simp: task_ok_def tasks_apart_def)
  ultimately show "ro_phase g' = ro_phase g"
    by (cases rule: ref_act.cases [OF assms(2)]) (auto simp: owns_strong_def creates_def destroys_def)
qed

lemma ref_stays_apart:
  assumes "task_ok g l" and "ref_act g l g' l'" and "task_ok g m" and "tasks_apart l m"
  shows "tasks_apart l' m"
proof -
  have "(owns_strong l' \<union> owns_weak l') \<inter> (owns_strong m \<union> owns_weak m) = {}"
    using ref_leaves_alone [OF assms(2) owned_by_other [OF assms(3,4)]] by blast
  moreover have "creates l' \<Longrightarrow> creates l"
    using assms(2) by (cases rule: ref_act.cases) (auto simp: creates_def split: if_splits)
  moreover have "destroys l' \<Longrightarrow> destroys l \<or> ro_phase g = Shared"
    using assms(2,1) by (cases rule: ref_act.cases) (auto simp: destroys_def task_ok_def object_ok_def owns_strong_def split: if_splits)
  moreover have "destroys m \<Longrightarrow> ro_phase g = Dying" using assms(3) by (simp add: task_ok_def)
  ultimately show ?thesis using assms(4) by (auto simp: tasks_apart_def)
qed

lemma ref_starts:
  assumes "ref_start g ls"
  shows "task_ok g (ls i)" "i \<noteq> j \<Longrightarrow> tasks_apart (ls i) (ls j)"
  using assms
  by (auto simp: ref_start_def task_defs object_ok_def RefCounter_new_def tasks_apart_def)

section \<open>What is still owed\<close>

text \<open>
  A counted reference that is not in the pool is held by a task; a new object is about to be put into its first
  \<open>sptr\<close>; and after the last \<open>sptr\<close> some task is about to destroy it.
\<close>

datatype debt = Counted nat | FirstReference | Destruction

definition ref_need :: "ref_object \<Rightarrow> debt set" where
  "ref_need g = Counted ` (ro_strongs g \<union> ro_weaks g - ro_pool g) \<union>
     (if ro_phase g = Fresh then {FirstReference} else {}) \<union> (if ro_phase g = Dying then {Destruction} else {})"

definition ref_carry :: "ref_task \<Rightarrow> debt set" where
  "ref_carry l = Counted ` (owns_strong l \<union> owns_weak l) \<union>
     (if is_inc (rt_pc l) then {FirstReference} else {}) \<union> (if destroys l then {Destruction} else {})"

interpretation references: accounting ref_act ref_start task_ok tasks_apart ref_need ref_carry
proof
  show "tasks_apart m l" if "tasks_apart l m" for l m using that by (auto simp: tasks_apart_def)
next
  fix g ls assume "ref_start g ls"
  then have "ref_need g = {FirstReference}" "FirstReference \<in> ref_carry (ls 0)"
    by (auto simp: ref_start_def ref_need_def ref_carry_def)
  then show "ref_need g \<subseteq> (\<Union>i. ref_carry (ls i))" by auto
next
  fix g l g' l' assume "task_ok g l" and "ref_act g l g' l'"
  moreover from this(1) have "pc_weak (rt_pc l) \<inter> ro_strongs g \<subseteq> rt_strong l \<union> pc_strong (rt_pc l)"
    by (auto simp: task_ok_def owns_strong_def owns_weak_def)
  ultimately show "ref_need g' \<subseteq> ref_carry l' \<union> (ref_need g - ref_carry l)"
    by (cases rule: ref_act.cases [OF \<open>ref_act g l g' l'\<close>])
      (auto simp: ref_need_def ref_carry_def owns_strong_def owns_weak_def destroys_def split: if_splits)
qed (blast intro: ref_starts ref_own ref_others ref_stays_apart)+

section \<open>Properties\<close>

text \<open>An operation that is about to read or call the object, and one that is about to access the counter.\<close>

fun uses_object :: "ref_pc \<Rightarrow> bool" where
  "uses_object PC_Idle = False"
| "uses_object (PC_Release x) = False"
| "uses_object PC_Attach = False"
| "uses_object (PC_Detach x) = False"
| "uses_object PC_Load = False"
| "uses_object (PC_Exchange v) = False"
| "uses_object (PC_AttemptWeak x) = False"
| "uses_object _ = True"

fun uses_counter :: "ref_pc \<Rightarrow> bool" where
  "uses_counter PC_Idle = False"
| "uses_counter (PC_OnFirst x) = False"
| "uses_counter _ = True"

lemma task_uses:
  assumes "task_ok g l"
  shows "uses_object (rt_pc l) \<or> rt_strong l \<noteq> {} \<Longrightarrow> ro_phase g \<noteq> Dead"
    and "uses_counter (rt_pc l) \<or> rt_strong l \<noteq> {} \<or> rt_weak l \<noteq> {} \<Longrightarrow> ro_phase g \<noteq> Dead \<or> ro_weaks g \<noteq> {}"
proof -
  have strong: "owns_strong l \<noteq> {} \<Longrightarrow> ro_phase g = Shared" using assms by (auto simp: task_ok_def object_ok_def)
  have inc: "is_inc (rt_pc l) \<Longrightarrow> rt_strong l = {} \<Longrightarrow> ro_phase g = Fresh" "destroys l \<Longrightarrow> ro_phase g = Dying"
    using assms by (auto simp: task_ok_def creates_def)
  have weak: "owns_weak l \<noteq> {} \<Longrightarrow> ro_weaks g \<noteq> {}" "rt_pc l = PC_Attach \<Longrightarrow> owns_weak l \<noteq> {}"
    "is_promote (rt_pc l) \<Longrightarrow> owns_weak l \<noteq> {}"
    using assms by (auto simp: task_ok_def owns_weak_def)
  show "uses_object (rt_pc l) \<or> rt_strong l \<noteq> {} \<Longrightarrow> ro_phase g \<noteq> Dead"
    using strong inc by (cases "rt_pc l"; cases "rt_strong l = {}") (auto simp: owns_strong_def destroys_def)
  show "uses_counter (rt_pc l) \<or> rt_strong l \<noteq> {} \<or> rt_weak l \<noteq> {} \<Longrightarrow> ro_phase g \<noteq> Dead \<or> ro_weaks g \<noteq> {}"
    using strong inc weak by (cases "rt_pc l"; cases "rt_strong l = {}") (auto simp: owns_strong_def owns_weak_def)
qed

text \<open>C17. In every interleaving of any number of tasks that copy, move, drop, watch and promote references to one object:
  nobody touches the object after its destruction or the counter after its deletion, whoever holds an \<open>sptr\<close> holds a
  living object, and neither is destroyed twice.\<close>
theorem references_safe:
  assumes "interleaved ref_act ref_start g ls"
  shows "(\<forall>i. uses_object (rt_pc (ls i)) \<or> rt_strong (ls i) \<noteq> {} \<longrightarrow> ro_destroyed g = 0) \<and>
    (\<forall>i. uses_counter (rt_pc (ls i)) \<or> rt_strong (ls i) \<union> rt_weak (ls i) \<noteq> {} \<longrightarrow> ro_freed g = 0) \<and>
    (ro_pool g \<noteq> {} \<longrightarrow> ro_destroyed g = 0) \<and> ro_destroyed g \<le> 1 \<and> ro_freed g \<le> 1"
proof -
  have ok: "task_ok g (ls i)" for i using references.tasks_ok [OF assms] by blast
  note object = task_okD(1) [OF ok]
  have "ro_pool g \<noteq> {} \<Longrightarrow> ro_phase g = Shared" using object by (auto simp: object_ok_def)
  moreover have "ro_destroyed g = (if ro_phase g = Dead then 1 else 0)"
    "ro_freed g = (if ro_phase g = Dead \<and> ro_weaks g = {} then 1 else 0)"
    using object by (simp_all add: object_ok_def)
  moreover note task_uses [OF ok]
  ultimately show ?thesis by (intro conjI allI impI) (auto simp: Un_empty)
qed

text \<open>C32. No reference is lost: when no task is in an operation, none holds a reference and none is stored, the object has
  been destroyed and its counter deleted, each exactly once.\<close>
theorem references_do_not_leak:
  assumes "interleaved ref_act ref_start g ls"
    and "\<forall>i. rt_pc (ls i) = PC_Idle \<and> rt_strong (ls i) = {} \<and> rt_weak (ls i) = {}" and "ro_pool g = {}"
  shows "ro_destroyed g = 1 \<and> ro_freed g = 1"
proof -
  have "ref_carry (ls i) = {}" for i
    using assms(2) by (simp add: ref_carry_def owns_strong_def owns_weak_def destroys_def)
  then have "ref_need g = {}" using references.accounted [OF assms(1)] by auto
  then have "ro_strongs g = {}" "ro_weaks g = {}" "ro_phase g \<noteq> Fresh" "ro_phase g \<noteq> Dying"
    using assms(3) by (auto simp: ref_need_def split: if_splits)
  moreover have "object_ok g" using references.tasks_ok [OF assms(1)] task_okD(1) by blast
  ultimately show ?thesis by (cases "ro_phase g") (auto simp: object_ok_def)
qed

text \<open>A promotion that gives up was too late: while some task or some shared memory holds an \<open>sptr\<close>, what the loop of
  \<open>AttemptIncStrong\<close> loads is positive, and the exchange with that value succeeds unless the count has moved.\<close>
theorem promotion_succeeds:
  assumes "interleaved ref_act ref_start g ls" and "rt_strong (ls i) \<noteq> {} \<or> ro_pool g \<noteq> {}"
  shows "0 < rc_strong (ro_counter g) \<and>
    AttemptIncStrong_exchange False (rc_strong (ro_counter g)) (ro_counter g) = Inl (IncStrong_add (ro_counter g))"
proof -
  have ok: "task_ok g (ls i)" using references.tasks_ok [OF assms(1)] by blast
  then have "ro_strongs g \<noteq> {}" using assms(2) by (auto simp: task_ok_def object_ok_def owns_strong_def)
  with task_okD(1) [OF ok] show ?thesis
    by (auto simp: object_ok_def AttemptIncStrong_exchange_def IncStrong_add_def card_gt_0_iff)
qed

text \<open>One task through the life of an object: the first \<open>sptr\<close>, a \<open>wptr\<close>, the last \<open>sptr\<close>, the last \<open>wptr\<close>.\<close>

definition demo_object :: "int \<Rightarrow> int \<Rightarrow> nat \<Rightarrow> nat \<Rightarrow> phase \<Rightarrow> nat set \<Rightarrow> nat set \<Rightarrow> ref_object" where
  "demo_object n w d f p S W =
    \<lparr>ro_counter = \<lparr>rc_strong = n, rc_weak = w\<rparr>, ro_destroyed = d, ro_freed = f, ro_phase = p, ro_strongs = S,
     ro_weaks = W, ro_pool = {}\<rparr>"

definition demo_task :: "ref_pc \<Rightarrow> nat set \<Rightarrow> nat set \<Rightarrow> ref_task" where
  "demo_task pc S W = \<lparr>rt_pc = pc, rt_strong = S, rt_weak = W\<rparr>"

definition demo_tasks :: "ref_task \<Rightarrow> nat \<Rightarrow> ref_task" where
  "demo_tasks l = (\<lambda>_. demo_task PC_Idle {} {})(0 := l)"

lemma demo_go:
  "interleaved ref_act ref_start g (demo_tasks l) \<Longrightarrow> ref_act g l g' l' \<Longrightarrow> interleaved ref_act ref_start g' (demo_tasks l')"
  using interleaved.moves [of ref_act ref_start g "demo_tasks l" 0 g' l'] by (simp add: demo_tasks_def)

lemmas demo_ref_defs = demo_object_def demo_task_def fresh_ref_def IncWeak_def IncStrong_add_def DecStrong_def DecWeak_def
  drop_weak_def destroy_def wrap32_def

lemma demo_shared:
  "interleaved ref_act ref_start (demo_object 1 3 0 0 Shared {0} {0, 1}) (demo_tasks (demo_task PC_Idle {0} {1}))"
proof -
  have s0: "interleaved ref_act ref_start (demo_object 0 1 0 0 Fresh {} {}) (demo_tasks (demo_task PC_First {} {}))"
    by (rule interleaved.begins) (simp add: ref_start_def demo_object_def demo_task_def demo_tasks_def RefCounter_new_def)
  have s1: "ref_act (demo_object 0 1 0 0 Fresh {} {}) (demo_task PC_First {} {})
      (demo_object 0 1 0 0 Fresh {} {}) (demo_task (PC_IncWeak True) {} {})"
    using ref_act.first [of "demo_task PC_First {} {}" "demo_object 0 1 0 0 Fresh {} {}"] by (simp add: demo_ref_defs)
  have s2: "ref_act (demo_object 0 1 0 0 Fresh {} {}) (demo_task (PC_IncWeak True) {} {})
      (demo_object 0 2 0 0 Fresh {} {0}) (demo_task (PC_IncStrong True 0) {} {})"
    using ref_act.inc_weak [of "demo_task (PC_IncWeak True) {} {}" True 0 "demo_object 0 1 0 0 Fresh {} {}"]
    by (simp add: demo_ref_defs)
  have s3: "ref_act (demo_object 0 2 0 0 Fresh {} {0}) (demo_task (PC_IncStrong True 0) {} {})
      (demo_object 1 2 0 0 Shared {0} {0}) (demo_task (PC_OnFirst 0) {} {})"
    using ref_act.inc_strong [of "demo_task (PC_IncStrong True 0) {} {}" True 0 "demo_object 0 2 0 0 Fresh {} {0}"]
    by (simp add: demo_ref_defs)
  have s4: "ref_act (demo_object 1 2 0 0 Shared {0} {0}) (demo_task (PC_OnFirst 0) {} {})
      (demo_object 1 2 0 0 Shared {0} {0}) (demo_task PC_Idle {0} {})"
    using ref_act.on_first [of "demo_task (PC_OnFirst 0) {} {}" 0 "demo_object 1 2 0 0 Shared {0} {0}"]
    by (simp add: demo_ref_defs)
  have s5: "ref_act (demo_object 1 2 0 0 Shared {0} {0}) (demo_task PC_Idle {0} {})
      (demo_object 1 2 0 0 Shared {0} {0}) (demo_task PC_Attach {0} {})"
    using ref_act.watch [of "demo_task PC_Idle {0} {}" "demo_object 1 2 0 0 Shared {0} {0}"] by (simp add: demo_ref_defs)
  have s6: "ref_act (demo_object 1 2 0 0 Shared {0} {0}) (demo_task PC_Attach {0} {})
      (demo_object 1 3 0 0 Shared {0} {0, 1}) (demo_task PC_Idle {0} {1})"
    using ref_act.attach [of "demo_task PC_Attach {0} {}" 1 "demo_object 1 2 0 0 Shared {0} {0}"]
    by (simp add: demo_ref_defs insert_commute)
  show ?thesis
    by (rule demo_go [OF demo_go [OF demo_go [OF demo_go [OF demo_go [OF demo_go [OF s0 s1] s2] s3] s4] s5] s6])
qed

lemma demo_gone:
  "interleaved ref_act ref_start (demo_object 0 0 1 1 Dead {} {}) (demo_tasks (demo_task PC_Idle {} {}))"
proof -
  have s1: "ref_act (demo_object 1 3 0 0 Shared {0} {0, 1}) (demo_task PC_Idle {0} {1})
      (demo_object 1 3 0 0 Shared {0} {0, 1}) (demo_task (PC_DecStrong 0) {} {1})"
    using ref_act.drop [of "demo_task PC_Idle {0} {1}" 0] by (simp add: demo_ref_defs)
  have s2: "ref_act (demo_object 1 3 0 0 Shared {0} {0, 1}) (demo_task (PC_DecStrong 0) {} {1})
      (demo_object 0 3 0 0 Dying {} {0, 1}) (demo_task (PC_Destroy 0) {} {1})"
    using ref_act.dec_strong [of "demo_task (PC_DecStrong 0) {} {1}" 0 "demo_object 1 3 0 0 Shared {0} {0, 1}"]
    by (simp add: demo_ref_defs)
  have s3: "ref_act (demo_object 0 3 0 0 Dying {} {0, 1}) (demo_task (PC_Destroy 0) {} {1})
      (demo_object 0 2 1 0 Dead {} {0, 1}) (demo_task (PC_Release 0) {} {1})"
    using ref_act.destroyed [of "demo_task (PC_Destroy 0) {} {1}" 0 "demo_object 0 3 0 0 Dying {} {0, 1}"]
    by (simp add: demo_ref_defs)
  have s4: "ref_act (demo_object 0 2 1 0 Dead {} {0, 1}) (demo_task (PC_Release 0) {} {1})
      (demo_object 0 1 1 0 Dead {} {1}) (demo_task PC_Idle {} {1})"
    using ref_act.release [of "demo_task (PC_Release 0) {} {1}" 0 "demo_object 0 2 1 0 Dead {} {0, 1}"]
    by (simp add: demo_ref_defs)
  have s5: "ref_act (demo_object 0 1 1 0 Dead {} {1}) (demo_task PC_Idle {} {1})
      (demo_object 0 1 1 0 Dead {} {1}) (demo_task (PC_Detach 1) {} {})"
    using ref_act.unwatch [of "demo_task PC_Idle {} {1}" 1] by (simp add: demo_ref_defs)
  have s6: "ref_act (demo_object 0 1 1 0 Dead {} {1}) (demo_task (PC_Detach 1) {} {})
      (demo_object 0 0 1 1 Dead {} {}) (demo_task PC_Idle {} {})"
    using ref_act.detach [of "demo_task (PC_Detach 1) {} {}" 1 "demo_object 0 1 1 0 Dead {} {1}"]
    by (simp add: demo_ref_defs)
  show ?thesis
    by (rule demo_go [OF demo_go [OF demo_go [OF demo_go [OF demo_go [OF demo_go [OF demo_shared s1] s2] s3] s4] s5] s6])
qed

theorem references_safe_witness:
  "interleaved ref_act ref_start (demo_object 1 3 0 0 Shared {0} {0, 1}) (demo_tasks (demo_task PC_Idle {0} {1})) \<and>
   ro_destroyed (demo_object 1 3 0 0 Shared {0} {0, 1}) \<le> 1"
  using references_safe [OF demo_shared] demo_shared by blast

theorem references_do_not_leak_witness:
  "ro_destroyed (demo_object 0 0 1 1 Dead {} {}) = 1 \<and> ro_freed (demo_object 0 0 1 1 Dead {} {}) = 1"
  by (rule references_do_not_leak [OF demo_gone])
    (simp_all add: demo_tasks_def demo_task_def demo_object_def)

theorem promotion_succeeds_witness:
  "0 < rc_strong (ro_counter (demo_object 1 3 0 0 Shared {0} {0, 1}))"
  using promotion_succeeds [OF demo_shared, of 0] by (simp add: demo_tasks_def demo_task_def)

end
