(* ===== verification/Singletons.thy ===== *)
theory Singletons
  imports Interleaving
begin

text \<open>
  The two ways in which tasks meet before any kernel object exists: the lazily made singletons of
  \<open>utils/mini/include/singleton.h\<close> and the spin lock of \<open>utils/mini/include/tel_mini_spin_lock.h\<close>, step by step, for any
  number of tasks.
\<close>

section \<open>DelayedSingleton\<close>

datatype SingletonState = EMPTY | BUSY | READY

text \<open>The instances that were made are numbered; \<open>sg_made\<close> is how many there are.\<close>

record singleton =
  sg_state :: SingletonState
  sg_instance :: "nat option"
  sg_made :: nat

text \<open>
  A task in \<open>GetInstance\<close>: \<open>S_Load\<close> and \<open>S_Check\<close> are the loop of \<open>AcquireOrWait\<close>; the winner constructs, publishes and
  sets the state; \<open>S_Done\<close> is what the call answers.
\<close>

datatype getter =
    S_Idle
  | S_Load
  | S_Check SingletonState
  | S_Construct
  | S_Publish nat
  | S_SetReady
  | S_GiveUp
  | S_Read
  | S_Done "nat option"

text \<open>The loop body of \<open>AcquireOrWait\<close> after the load.\<close>

definition AcquireOrWait_check :: "SingletonState \<Rightarrow> singleton \<Rightarrow> singleton \<times> getter" where
  "AcquireOrWait_check current g =
    (if current = READY then (g, S_Read)
     else if current = EMPTY \<and> sg_state g = EMPTY then (g\<lparr>sg_state := BUSY\<rparr>, S_Construct)
     else (g, S_Load))"

text \<open>\<open>memory\<close> is whether \<open>new (std::nothrow)\<close> found any.\<close>

fun getter_step :: "bool \<Rightarrow> singleton \<Rightarrow> getter \<Rightarrow> singleton \<times> getter" where
  "getter_step memory g S_Idle = (g, S_Load)"
| "getter_step memory g (S_Done r) = (g, S_Load)"
| "getter_step memory g S_Load = (g, S_Check (sg_state g))"
| "getter_step memory g (S_Check current) = AcquireOrWait_check current g"
| "getter_step memory g S_Construct =
    (if memory then (g\<lparr>sg_made := Suc (sg_made g)\<rparr>, S_Publish (sg_made g)) else (g, S_GiveUp))"
| "getter_step memory g (S_Publish n) = (g\<lparr>sg_instance := Some n\<rparr>, S_SetReady)"
| "getter_step memory g S_SetReady = (g\<lparr>sg_state := READY\<rparr>, S_Read)"
| "getter_step memory g S_GiveUp = (g\<lparr>sg_state := EMPTY\<rparr>, S_Done None)"
| "getter_step memory g S_Read = (g, S_Done (sg_instance g))"

definition getter_act :: "singleton \<Rightarrow> getter \<Rightarrow> singleton \<Rightarrow> getter \<Rightarrow> bool" where
  "getter_act g l g' l' \<longleftrightarrow> (\<exists>memory. getter_step memory g l = (g', l'))"

definition getter_start :: "singleton \<Rightarrow> (nat \<Rightarrow> getter) \<Rightarrow> bool" where
  "getter_start g ls \<longleftrightarrow> g = \<lparr>sg_state = EMPTY, sg_instance = None, sg_made = 0\<rparr> \<and> ls = (\<lambda>_. S_Idle)"

fun constructs :: "getter \<Rightarrow> bool" where
  "constructs S_Construct = True"
| "constructs (S_Publish n) = True"
| "constructs S_SetReady = True"
| "constructs S_GiveUp = True"
| "constructs _ = False"

text \<open>What the constructing task knows; the others know nothing but that a ready instance stays.\<close>

fun getter_knows :: "singleton \<Rightarrow> getter \<Rightarrow> bool" where
  "getter_knows g S_Construct \<longleftrightarrow> sg_instance g = None \<and> sg_made g = 0"
| "getter_knows g S_GiveUp \<longleftrightarrow> sg_instance g = None \<and> sg_made g = 0"
| "getter_knows g (S_Publish n) \<longleftrightarrow> sg_instance g = None \<and> sg_made g = 1 \<and> n = 0"
| "getter_knows g S_SetReady \<longleftrightarrow> sg_instance g = Some 0 \<and> sg_made g = 1"
| "getter_knows g (S_Check current) \<longleftrightarrow> (current = READY \<longrightarrow> sg_state g = READY)"
| "getter_knows g S_Read \<longleftrightarrow> sg_state g = READY"
| "getter_knows g (S_Done r) \<longleftrightarrow> r = None \<or> (r = Some 0 \<and> sg_state g = READY)"
| "getter_knows g _ \<longleftrightarrow> True"

definition getter_ok :: "singleton \<Rightarrow> getter \<Rightarrow> bool" where
  "getter_ok g l \<longleftrightarrow>
    (sg_state g = EMPTY \<longrightarrow> sg_instance g = None \<and> sg_made g = 0) \<and>
    (sg_state g = READY \<longrightarrow> sg_instance g = Some 0 \<and> sg_made g = 1) \<and> sg_made g \<le> 1 \<and>
    (constructs l \<longrightarrow> sg_state g = BUSY) \<and> getter_knows g l"

definition getter_need :: "singleton \<Rightarrow> unit set" where
  "getter_need g = (if sg_state g = BUSY then {()} else {})"

definition getter_carry :: "getter \<Rightarrow> unit set" where
  "getter_carry l = (if constructs l then {()} else {})"

interpretation singletons: accounting getter_act getter_start getter_ok "\<lambda>l m. \<not> (constructs l \<and> constructs m)"
  getter_need getter_carry
proof
  fix g l g' l' assume ok: "getter_ok g l" and "getter_act g l g' l'"
  then obtain memory where step: "getter_step memory g l = (g', l')" by (auto simp: getter_act_def)
  show "getter_ok g' l'"
    using ok step by (cases l) (auto simp: getter_ok_def AcquireOrWait_check_def split: if_splits)
  show "getter_need g' \<subseteq> getter_carry l' \<union> (getter_need g - getter_carry l)"
    using ok step
    by (cases l) (auto simp: getter_ok_def getter_need_def getter_carry_def AcquireOrWait_check_def split: if_splits)
  fix m assume m: "getter_ok g m" and apart: "\<not> (constructs l \<and> constructs m)"
  show "getter_ok g' m"
    using ok step m apart
    by (cases l; cases m) (auto simp: getter_ok_def AcquireOrWait_check_def split: if_splits)
  show "\<not> (constructs l' \<and> constructs m)"
    using ok step m apart by (cases l) (auto simp: getter_ok_def AcquireOrWait_check_def split: if_splits)
qed (auto simp: getter_start_def getter_ok_def getter_need_def)

text \<open>C33. However many tasks ask for a singleton at the same time, at most one instance is made, every call answers that
  instance (or nothing, when there was no memory for it), and a task that waits waits for another one that is making
  it.\<close>
theorem one_instance:
  assumes "interleaved getter_act getter_start g ls"
  shows "sg_made g \<le> 1 \<and> (\<forall>i r. ls i = S_Done r \<longrightarrow> r = None \<or> r = sg_instance g) \<and>
    (\<forall>i. ls i = S_Read \<longrightarrow> sg_instance g \<noteq> None) \<and> (\<forall>i j. constructs (ls i) \<and> constructs (ls j) \<longrightarrow> i = j) \<and>
    (sg_state g = BUSY \<longrightarrow> (\<exists>i. constructs (ls i)))"
proof -
  have ok: "getter_ok g (ls i)" "i \<noteq> j \<Longrightarrow> \<not> (constructs (ls i) \<and> constructs (ls j))" for i j
    using singletons.tasks_ok [OF assms] by blast+
  have "sg_state g = BUSY \<Longrightarrow> \<exists>i. constructs (ls i)"
    using singletons.accounted [OF assms] by (auto simp: getter_need_def getter_carry_def split: if_splits)
  moreover have "ls i = S_Done r \<Longrightarrow> r = None \<or> r = sg_instance g" "ls i = S_Read \<Longrightarrow> sg_instance g \<noteq> None" for i r
    using ok(1) [of i] by (auto simp: getter_ok_def)
  moreover have "sg_made g \<le> 1" using ok(1) by (simp add: getter_ok_def)
  ultimately show ?thesis using ok(2) by blast
qed

section \<open>The end of a singleton\<close>

definition DestroyInstance :: "singleton \<Rightarrow> singleton" where
  "DestroyInstance g = (if sg_state g = READY then g\<lparr>sg_instance := None, sg_state := EMPTY\<rparr> else g)"

text \<open>One call of \<open>GetInstance\<close> that no other task disturbs.\<close>

definition get_alone :: "singleton \<Rightarrow> singleton \<times> getter" where
  "get_alone g = (case getter_step True g S_Load of (g, l) \<Rightarrow>
     case getter_step True g l of (g, l) \<Rightarrow> case getter_step True g l of (g, l) \<Rightarrow>
     if l = S_Done (sg_instance g) then (g, l) else
     case getter_step True g l of (g, l) \<Rightarrow> case getter_step True g l of (g, l) \<Rightarrow> getter_step True g l)"

text \<open>
  Once every task has left \<open>GetInstance\<close> the instance goes, and the next call makes another one. The header forbids the
  destruction while another task may be inside, with reason: a task that has seen \<open>READY\<close> then answers nothing.
\<close>

lemma destroyed_is_made_again:
  assumes "sg_state g = READY"
  shows "case get_alone (DestroyInstance g) of (h, l) \<Rightarrow>
    l = S_Done (Some (sg_made g)) \<and> sg_state h = READY \<and> sg_made h = Suc (sg_made g)"
  using assms by (simp add: get_alone_def DestroyInstance_def AcquireOrWait_check_def)

lemma destroyed_under_reader:
  "sg_state g = READY \<Longrightarrow> getter_step memory (DestroyInstance g) S_Read = (DestroyInstance g, S_Done None)"
  by (simp add: DestroyInstance_def)

section \<open>TelMiniSpinLock\<close>

datatype locker = L_Idle | L_Spin nat | L_Critical

definition yieldsBeforeSleep :: nat where
  "yieldsBeforeSleep = 8"

text \<open>The \<open>attempts\<close>-th failed try yields or sleeps for a tick; what it does then does not show in the lock.\<close>

definition sleeps :: "nat \<Rightarrow> bool" where
  "sleeps attempts \<longleftrightarrow> \<not> attempts < yieldsBeforeSleep"

fun spin_step :: "bool \<Rightarrow> locker \<Rightarrow> bool \<times> locker" where
  "spin_step flag L_Idle = (flag, L_Spin 0)"
| "spin_step flag (L_Spin attempts) = (True, if flag then L_Spin (Suc attempts) else L_Critical)"
| "spin_step flag L_Critical = (False, L_Idle)"

definition spin_act :: "bool \<Rightarrow> locker \<Rightarrow> bool \<Rightarrow> locker \<Rightarrow> bool" where
  "spin_act flag l flag' l' \<longleftrightarrow> spin_step flag l = (flag', l')"

definition spin_start :: "bool \<Rightarrow> (nat \<Rightarrow> locker) \<Rightarrow> bool" where
  "spin_start flag ls \<longleftrightarrow> \<not> flag \<and> ls = (\<lambda>_. L_Idle)"

interpretation spin_locks: accounting spin_act spin_start "\<lambda>flag l. l = L_Critical \<longrightarrow> flag"
  "\<lambda>l m. \<not> (l = L_Critical \<and> m = L_Critical)" "\<lambda>flag. if flag then {()} else {}"
  "\<lambda>l. if l = L_Critical then {()} else {}"
proof
  fix flag l flag' l' assume "l = L_Critical \<longrightarrow> flag" and "spin_act flag l flag' l'"
  then show "l' = L_Critical \<longrightarrow> flag'"
    and "(if flag' then {()} else {}) \<subseteq> (if l' = L_Critical then {()} else {}) \<union>
      ((if flag then {()} else {}) - (if l = L_Critical then {()} else {}))"
    by (cases l; auto simp: spin_act_def split: if_splits)+
  fix m assume "m = L_Critical \<longrightarrow> flag" and "\<not> (l = L_Critical \<and> m = L_Critical)"
  with \<open>spin_act flag l flag' l'\<close> show "m = L_Critical \<longrightarrow> flag'" "\<not> (l' = L_Critical \<and> m = L_Critical)"
    by (cases l; auto simp: spin_act_def split: if_splits)+
qed (auto simp: spin_start_def)

text \<open>The spin lock excludes: at most one task is in its critical section, and the flag is up exactly while one is, so
  a task that spins waits for a holder.\<close>
theorem spin_lock_excludes:
  assumes "interleaved spin_act spin_start flag ls"
  shows "(\<forall>i j. ls i = L_Critical \<and> ls j = L_Critical \<longrightarrow> i = j) \<and> (flag \<longleftrightarrow> (\<exists>i. ls i = L_Critical))"
proof -
  have "ls i = L_Critical \<Longrightarrow> flag" "i \<noteq> j \<Longrightarrow> \<not> (ls i = L_Critical \<and> ls j = L_Critical)" for i j
    using spin_locks.tasks_ok [OF assms] by blast+
  moreover have "flag \<Longrightarrow> \<exists>i. ls i = L_Critical"
    using spin_locks.accounted [OF assms] by (auto split: if_splits)
  ultimately show ?thesis by blast
qed

section \<open>Examples\<close>

lemma interleaved_alone:
  assumes "start g (\<lambda>_. l)" and "\<And>g l. act g l (fst (step g l)) (snd (step g l))"
  shows "interleaved act start (fst (((\<lambda>(g, l). step g l) ^^ n) (g, l))) ((\<lambda>_. l)(0 := snd (((\<lambda>(g, l). step g l) ^^ n) (g, l))))"
proof (induction n)
  case 0
  then show ?case using assms(1) by (auto intro!: interleaved.begins simp: fun_upd_idem)
next
  case (Suc n)
  from interleaved.moves [OF this, of 0] assms(2) show ?case by (simp add: case_prod_beta fun_upd_def cong: if_cong)
qed

theorem one_instance_witness:
  "\<exists>g ls. interleaved getter_act getter_start g ls \<and> ls 0 = S_Done (Some 0) \<and> sg_instance g = Some 0 \<and> sg_made g \<le> 1"
proof -
  let ?g = "\<lparr>sg_state = EMPTY, sg_instance = None, sg_made = 0\<rparr>"
  let ?r = "((\<lambda>(g, l). getter_step True g l) ^^ 7) (?g, S_Idle)"
  have "?r = (\<lparr>sg_state = READY, sg_instance = Some 0, sg_made = 1\<rparr>, S_Done (Some 0))"
    by (simp add: eval_nat_numeral AcquireOrWait_check_def)
  moreover have "interleaved getter_act getter_start (fst ?r) ((\<lambda>_. S_Idle)(0 := snd ?r))"
    by (rule interleaved_alone) (auto simp: getter_start_def getter_act_def intro: exI [of _ True])
  ultimately have run: "interleaved getter_act getter_start \<lparr>sg_state = READY, sg_instance = Some 0, sg_made = 1\<rparr>
      ((\<lambda>_. S_Idle)(0 := S_Done (Some 0)))" by (simp only: fst_conv snd_conv)
  from one_instance [OF run] have "sg_made \<lparr>sg_state = READY, sg_instance = Some 0, sg_made = 1\<rparr> \<le> 1" by blast
  with run show ?thesis
    by (intro exI [of _ "\<lparr>sg_state = READY, sg_instance = Some 0, sg_made = 1\<rparr>"]
      exI [of _ "(\<lambda>_. S_Idle)(0 := S_Done (Some 0))"]) simp
qed

theorem spin_lock_excludes_witness:
  "\<exists>ls. interleaved spin_act spin_start True ls \<and> (\<exists>i. ls i = L_Critical)"
proof -
  let ?r = "((\<lambda>(g, l). spin_step g l) ^^ 2) (False, L_Idle)"
  have "?r = (True, L_Critical)" by (simp add: eval_nat_numeral)
  moreover have "interleaved spin_act spin_start (fst ?r) ((\<lambda>_. L_Idle)(0 := snd ?r))"
    by (rule interleaved_alone) (auto simp: spin_start_def spin_act_def)
  ultimately have run: "interleaved spin_act spin_start True ((\<lambda>_. L_Idle)(0 := L_Critical))"
    by (simp only: fst_conv snd_conv)
  from spin_lock_excludes [OF run] run show ?thesis by blast
qed

end
