(* ===== verification/Registry.thy ===== *)
theory Registry
  imports Interleaving
begin

text \<open>
  The table of the listeners for a protocol stack, \<open>utils/mini/src/tel_mini_registry.cpp\<close>, at the grain of its critical
  sections: products register stacks and components add and remove listeners from any tasks. (Theory
  \<open>Stack_Connection\<close> has the same operations as the call manager sees them, with itself as the only listener.)
\<close>

definition MAX_LISTENERS :: nat where
  "MAX_LISTENERS = 2"

text \<open>
  Listeners are numbers, stacks are numbers. \<open>rg_told\<close> are the listeners that were called since the last exchange of the
  stack.
\<close>

record registry =
  rg_stack :: "nat option"
  rg_listeners :: "nat option list"
  rg_told :: "nat set"

definition Slot_Exchange :: "nat option \<Rightarrow> registry \<Rightarrow> nat option \<times> registry" where
  "Slot_Exchange instance g = (rg_stack g, g\<lparr>rg_stack := instance, rg_told := {}\<rparr>)"

text \<open>The critical section of \<open>AddReadyListener\<close>: whether the listener is in the table now.\<close>

fun first_free :: "nat \<Rightarrow> nat option list \<Rightarrow> nat option list option" where
  "first_free listener [] = None"
| "first_free listener (slot # slots) =
    (if slot = None then Some (Some listener # slots)
     else map_option (\<lambda>slots. slot # slots) (first_free listener slots))"

definition add_listener :: "nat \<Rightarrow> registry \<Rightarrow> bool \<times> registry" where
  "add_listener listener g =
    (if Some listener \<in> set (rg_listeners g) then (True, g)
     else case first_free listener (rg_listeners g) of
         None \<Rightarrow> (False, g)
       | Some slots \<Rightarrow> (True, g\<lparr>rg_listeners := slots\<rparr>))"

definition remove_listener :: "nat \<Rightarrow> registry \<Rightarrow> registry" where
  "remove_listener listener g =
    g\<lparr>rg_listeners := map (\<lambda>slot. if slot = Some listener then None else slot) (rg_listeners g)\<rparr>"

definition present :: "nat option list \<Rightarrow> nat list" where
  "present slots = List.map_filter id slots"

definition call_listener :: "nat \<Rightarrow> registry \<Rightarrow> registry" where
  "call_listener listener g = g\<lparr>rg_told := insert listener (rg_told g)\<rparr>"

text \<open>
  \<open>Register\<close>: the exchange, the snapshot of the table, and \<open>NotifyReady\<close>, which calls one listener after the other.
  \<open>AddReadyListener\<close>: the table, the look for a stack, the call.
\<close>

datatype user =
    U_Idle
  | U_Exchange "nat option"
  | U_Snapshot
  | U_Notify "nat list"
  | U_Add nat
  | U_Look nat
  | U_Call nat
  | U_Remove nat

inductive registry_act :: "registry \<Rightarrow> user \<Rightarrow> registry \<Rightarrow> user \<Rightarrow> bool" where
  begin_use: "l \<in> {U_Exchange instance, U_Add listener, U_Remove listener} \<Longrightarrow> registry_act g U_Idle g l"
| exchange: "Slot_Exchange instance g = (previous, g') \<Longrightarrow>
    registry_act g (U_Exchange instance) g' (if instance = None then U_Idle else U_Snapshot)"
| snapshot: "registry_act g U_Snapshot g (U_Notify (present (rg_listeners g)))"
| notify: "registry_act g (U_Notify (listener # rest)) (call_listener listener g) (U_Notify rest)"
| notified: "registry_act g (U_Notify []) g U_Idle"
| add: "add_listener listener g = (added, g') \<Longrightarrow> registry_act g (U_Add listener) g' (if added then U_Look listener else U_Idle)"
| look: "registry_act g (U_Look listener) g (if rg_stack g = None then U_Idle else U_Call listener)"
| call: "registry_act g (U_Call listener) (call_listener listener g) U_Idle"
| remove: "registry_act g (U_Remove listener) (remove_listener listener g) U_Idle"

definition registry_start :: "registry \<Rightarrow> (nat \<Rightarrow> user) \<Rightarrow> bool" where
  "registry_start g ls \<longleftrightarrow>
    g = \<lparr>rg_stack = None, rg_listeners = replicate MAX_LISTENERS None, rg_told = {}\<rparr> \<and> ls = (\<lambda>_. U_Idle)"

definition listeners :: "registry \<Rightarrow> nat set" where
  "listeners g = set (present (rg_listeners g))"

definition registry_ok :: "registry \<Rightarrow> bool" where
  "registry_ok g \<longleftrightarrow> distinct (present (rg_listeners g)) \<and> length (rg_listeners g) = MAX_LISTENERS"

text \<open>Who has not been told of the stack that is there now, and who will still be told by a task.\<close>

definition untold :: "registry \<Rightarrow> nat set" where
  "untold g = (if rg_stack g = None then {} else listeners g - rg_told g)"

fun will_tell :: "user \<Rightarrow> nat set" where
  "will_tell U_Snapshot = UNIV"
| "will_tell (U_Notify rest) = set rest"
| "will_tell (U_Look listener) = {listener}"
| "will_tell (U_Call listener) = {listener}"
| "will_tell _ = {}"

lemma in_present: "x \<in> set (present slots) \<longleftrightarrow> Some x \<in> set slots"
  by (induction slots) (auto simp: present_def List.map_filter_def split: option.splits)

lemma present_simps [simp]: "present [] = []" "present (None # slots) = present slots"
  "present (Some x # slots) = x # present slots"
  by (simp_all add: present_def List.map_filter_def)

lemma first_free_present:
  "first_free x slots = Some slots' \<Longrightarrow> set (present slots') = insert x (set (present slots)) \<and> length slots' = length slots \<and>
     (distinct (present slots') \<longleftrightarrow> distinct (present slots) \<and> x \<notin> set (present slots))"
proof (induction slots arbitrary: slots')
  case (Cons slot slots)
  then show ?case by (cases slot) (auto split: if_splits)
qed simp

lemma present_removed:
  "present (map (\<lambda>slot. if slot = Some x then None else slot) slots) = filter (\<lambda>y. y \<noteq> x) (present slots)"
proof (induction slots)
  case (Cons slot slots)
  then show ?case by (cases slot) auto
qed simp

lemma add_listener_effect:
  assumes "add_listener x g = (added, g')"
  shows "rg_stack g' = rg_stack g \<and> rg_told g' = rg_told g \<and>
    listeners g' = (if added then insert x (listeners g) else listeners g) \<and> (registry_ok g \<longrightarrow> registry_ok g')"
proof (cases "Some x \<in> set (rg_listeners g)")
  case True
  with assms show ?thesis by (auto simp: add_listener_def listeners_def in_present)
next
  case False
  show ?thesis
  proof (cases "first_free x (rg_listeners g)")
    case (Some slots)
    with False assms have g': "added" "g' = g\<lparr>rg_listeners := slots\<rparr>" by (simp_all add: add_listener_def)
    have "x \<notin> set (present (rg_listeners g))" using False by (simp add: in_present)
    with first_free_present [OF Some] show ?thesis by (simp add: g' listeners_def registry_ok_def)
  qed (use False assms in \<open>auto simp: add_listener_def\<close>)
qed

lemma remove_listener_effect:
  "listeners (remove_listener x g) = listeners g - {x}" "registry_ok g \<Longrightarrow> registry_ok (remove_listener x g)"
  "rg_stack (remove_listener x g) = rg_stack g" "rg_told (remove_listener x g) = rg_told g"
  by (auto simp: remove_listener_def listeners_def registry_ok_def present_removed)

lemma registry_ok_kept:
  assumes "registry_ok g" and "registry_act g l g' l'"
  shows "registry_ok g'"
  using assms(2,1)
proof (cases rule: registry_act.cases)
  case (add listener added)
  then show ?thesis using assms(1) add_listener_effect by blast
next
  case (remove listener)
  then show ?thesis using assms(1) by (simp add: remove_listener_effect)
qed (auto simp: Slot_Exchange_def call_listener_def registry_ok_def)

interpretation registries: accounting registry_act registry_start "\<lambda>g _. registry_ok g" "\<lambda>_ _. True" untold will_tell
proof
  show "registry_ok g" if "registry_start g ls" for g ls
    using that by (auto simp: registry_start_def registry_ok_def MAX_LISTENERS_def eval_nat_numeral)
  show "untold g \<subseteq> (\<Union>i. will_tell (ls i))" if "registry_start g ls" for g ls
    using that by (simp add: registry_start_def untold_def)
  fix g l g' l' assume "registry_ok g" and "registry_act g l g' l'"
  from registry_ok_kept [OF this] show "registry_ok g'" .
  from \<open>registry_act g l g' l'\<close> show "untold g' \<subseteq> will_tell l' \<union> (untold g - will_tell l)"
  proof (cases rule: registry_act.cases)
    case (add listener added)
    then show ?thesis using add_listener_effect [OF add(3)] by (auto simp: untold_def)
  next
    case (remove listener)
    then show ?thesis by (auto simp: untold_def remove_listener_effect)
  next
    case snapshot
    then show ?thesis by (auto simp: untold_def listeners_def)
  qed (auto simp: untold_def listeners_def Slot_Exchange_def call_listener_def)
qed (use registry_ok_kept in blast)+

text \<open>C34. No stack is missed: in every interleaving of registrations, additions and removals, a listener in the table has
  been told of the stack that is registered now, or some task is on its way to tell it; at rest every listener has
  been told. The table holds no listener twice.\<close>
theorem no_stack_missed:
  assumes "interleaved registry_act registry_start g ls"
  shows "(rg_stack g \<noteq> None \<longrightarrow> (\<forall>x \<in> listeners g. x \<in> rg_told g \<or> (\<exists>i. x \<in> will_tell (ls i)))) \<and>
    ((\<forall>i. ls i = U_Idle) \<and> rg_stack g \<noteq> None \<longrightarrow> listeners g \<subseteq> rg_told g) \<and>
    distinct (present (rg_listeners g)) \<and> card (listeners g) \<le> MAX_LISTENERS"
proof -
  have ok: "registry_ok g" using registries.tasks_ok [OF assms] by blast
  have told: "untold g \<subseteq> (\<Union>i. will_tell (ls i))" using registries.accounted [OF assms] .
  have "length (present slots) \<le> length slots" for slots :: "nat option list"
  proof (induction slots)
    case (Cons slot slots)
    then show ?case by (cases slot) auto
  qed simp
  then have "card (listeners g) \<le> MAX_LISTENERS"
    using ok card_length [of "present (rg_listeners g)"] unfolding listeners_def registry_ok_def
    by (metis order.trans)
  moreover have "(\<forall>i. ls i = U_Idle) \<Longrightarrow> untold g = {}" using told by auto
  ultimately show ?thesis
    using ok told by (auto simp: registry_ok_def untold_def split: if_splits)
qed

text \<open>A component listens, a product registers its stack, the component is told.\<close>

definition demo_registry :: "nat option \<Rightarrow> nat option list \<Rightarrow> nat set \<Rightarrow> registry" where
  "demo_registry stack slots told = \<lparr>rg_stack = stack, rg_listeners = slots, rg_told = told\<rparr>"

lemma demo_registry_go:
  "interleaved registry_act registry_start g ((\<lambda>_. U_Idle)(0 := l)) \<Longrightarrow> registry_act g l g' l' \<Longrightarrow>
   interleaved registry_act registry_start g' ((\<lambda>_. U_Idle)(0 := l'))"
  using interleaved.moves [of registry_act registry_start g "(\<lambda>_. U_Idle)(0 := l)" 0 g' l'] by simp

lemma demo_registry_run:
  "interleaved registry_act registry_start (demo_registry (Some 1) [Some 7, None] {7}) (\<lambda>_. U_Idle)"
proof -
  have s0: "interleaved registry_act registry_start (demo_registry None [None, None] {}) ((\<lambda>_. U_Idle)(0 := U_Idle))"
    by (rule interleaved.begins) (simp add: registry_start_def demo_registry_def MAX_LISTENERS_def eval_nat_numeral fun_upd_idem)
  have s1: "registry_act (demo_registry None [None, None] {}) U_Idle (demo_registry None [None, None] {}) (U_Add 7)"
    by (rule registry_act.begin_use) simp
  have s2: "registry_act (demo_registry None [None, None] {}) (U_Add 7) (demo_registry None [Some 7, None] {}) (U_Look 7)"
    using registry_act.add [of 7 "demo_registry None [None, None] {}"] by (simp add: demo_registry_def add_listener_def)
  have s3: "registry_act (demo_registry None [Some 7, None] {}) (U_Look 7) (demo_registry None [Some 7, None] {}) U_Idle"
    using registry_act.look [of "demo_registry None [Some 7, None] {}" 7] by (simp add: demo_registry_def)
  have s4: "registry_act (demo_registry None [Some 7, None] {}) U_Idle (demo_registry None [Some 7, None] {}) (U_Exchange (Some 1))"
    by (rule registry_act.begin_use) simp
  have s5: "registry_act (demo_registry None [Some 7, None] {}) (U_Exchange (Some 1)) (demo_registry (Some 1) [Some 7, None] {}) U_Snapshot"
    using registry_act.exchange [of "Some 1" "demo_registry None [Some 7, None] {}"] by (simp add: demo_registry_def Slot_Exchange_def)
  have s6: "registry_act (demo_registry (Some 1) [Some 7, None] {}) U_Snapshot (demo_registry (Some 1) [Some 7, None] {}) (U_Notify [7])"
    using registry_act.snapshot [of "demo_registry (Some 1) [Some 7, None] {}"] by (simp add: demo_registry_def)
  have s7: "registry_act (demo_registry (Some 1) [Some 7, None] {}) (U_Notify [7]) (demo_registry (Some 1) [Some 7, None] {7}) (U_Notify [])"
    using registry_act.notify [of "demo_registry (Some 1) [Some 7, None] {}" 7 "[]"] by (simp add: demo_registry_def call_listener_def)
  have s8: "registry_act (demo_registry (Some 1) [Some 7, None] {7}) (U_Notify []) (demo_registry (Some 1) [Some 7, None] {7}) U_Idle"
    by (rule registry_act.notified)
  note go = demo_registry_go
  from go [OF go [OF go [OF go [OF go [OF go [OF go [OF go [OF s0 s1] s2] s3] s4] s5] s6] s7] s8]
  show ?thesis by (simp add: fun_upd_idem)
qed

theorem no_stack_missed_witness:
  "listeners (demo_registry (Some 1) [Some 7, None] {7}) = {7} \<and>
   listeners (demo_registry (Some 1) [Some 7, None] {7}) \<subseteq> rg_told (demo_registry (Some 1) [Some 7, None] {7})"
  using no_stack_missed [OF demo_registry_run] by (simp add: demo_registry_def listeners_def)

end
