(* ===== verification/Os_Posix.thy ===== *)
theory Os_Posix
  imports Interleaving Event_Loop
begin

text \<open>
  The semaphores and timers of the host, \<open>utils/mini/src/tel_os_adapter_posix.cpp\<close>, at the grain of their critical
  sections: the pthread mutex around each is taken to exclude, and a wait on a condition variable to give it up and
  come back at any time. One service thread runs the callbacks of all timers.
\<close>

datatype TelOsResult = OS_OK | OS_INVALID_PARAM | OS_NO_RESOURCE | OS_TIMEOUT | OS_FAIL

section \<open>Semaphores\<close>

record PosixSem =
  ps_count :: nat
  ps_maxCount :: nat

text \<open>\<open>memory\<close>: the objects could be made. The answer carries the handle.\<close>

definition TelOsSemCreate :: "bool \<Rightarrow> nat \<Rightarrow> nat \<Rightarrow> TelOsResult \<times> PosixSem option" where
  "TelOsSemCreate memory initialCount maxCount =
    (if maxCount = 0 \<or> maxCount < initialCount then (OS_INVALID_PARAM, None)
     else if \<not> memory then (OS_NO_RESOURCE, None)
     else (OS_OK, Some \<lparr>ps_count = initialCount, ps_maxCount = maxCount\<rparr>))"

definition TelOsSemPost :: "PosixSem \<Rightarrow> TelOsResult \<times> PosixSem" where
  "TelOsSemPost s = (if ps_count s < ps_maxCount s then (OS_OK, s\<lparr>ps_count := Suc (ps_count s)\<rparr>) else (OS_FAIL, s))"

text \<open>
  \<open>TelOsSemWait\<close> each time it holds the lock: the loop condition and, when the loop is left (a count, a poll, or a wait that
  timed out), what follows. No answer: it waits on.
\<close>

definition TelOsSemWait_locked :: "32 word \<Rightarrow> bool \<Rightarrow> PosixSem \<Rightarrow> TelOsResult option \<times> PosixSem" where
  "TelOsSemWait_locked timeoutMs timedOut s =
    (if ps_count s = 0 \<and> timeoutMs \<noteq> 0 \<and> \<not> (timeoutMs \<noteq> TEL_OS_WAIT_FOREVER \<and> timedOut) then (None, s)
     else if 0 < ps_count s then (Some OS_OK, s\<lparr>ps_count := ps_count s - 1\<rparr>)
     else (Some OS_TIMEOUT, s))"

text \<open>A task at a semaphore; \<open>Sem_Answer\<close> is what a finished call answered.\<close>

datatype sem_user = Sem_Idle | Sem_Waits "32 word" | Sem_Answer TelOsResult

text \<open>With the number of posts and of waits that succeeded.\<close>

record sem_sys =
  ss_sem :: PosixSem
  ss_posts :: nat
  ss_takes :: nat

inductive sem_act :: "sem_sys \<Rightarrow> sem_user \<Rightarrow> sem_sys \<Rightarrow> sem_user \<Rightarrow> bool" where
  post: "\<forall>t. l \<noteq> Sem_Waits t \<Longrightarrow> TelOsSemPost (ss_sem g) = (r, sem) \<Longrightarrow>
    sem_act g l (g\<lparr>ss_sem := sem, ss_posts := ss_posts g + (if r = OS_OK then 1 else 0)\<rparr>) (Sem_Answer r)"
| wait: "\<forall>t. l \<noteq> Sem_Waits t \<Longrightarrow> sem_act g l g (Sem_Waits timeoutMs)"
| locked: "TelOsSemWait_locked timeoutMs timedOut (ss_sem g) = (r, sem) \<Longrightarrow>
    sem_act g (Sem_Waits timeoutMs) (g\<lparr>ss_sem := sem, ss_takes := ss_takes g + (if r = Some OS_OK then 1 else 0)\<rparr>)
      (case r of None \<Rightarrow> Sem_Waits timeoutMs | Some r \<Rightarrow> Sem_Answer r)"

definition sem_start :: "nat \<Rightarrow> nat \<Rightarrow> sem_sys \<Rightarrow> (nat \<Rightarrow> sem_user) \<Rightarrow> bool" where
  "sem_start initialCount maxCount g ls \<longleftrightarrow>
    (OS_OK, Some (ss_sem g)) = TelOsSemCreate True initialCount maxCount \<and> ss_posts g = 0 \<and> ss_takes g = 0 \<and>
    ls = (\<lambda>_. Sem_Idle)"

definition sem_ok :: "nat \<Rightarrow> nat \<Rightarrow> sem_sys \<Rightarrow> bool" where
  "sem_ok initialCount maxCount g \<longleftrightarrow> ps_maxCount (ss_sem g) = maxCount \<and> ps_count (ss_sem g) \<le> maxCount \<and>
     ps_count (ss_sem g) + ss_takes g = initialCount + ss_posts g"

interpretation semaphores: interleaving sem_act "sem_start initialCount maxCount"
  "\<lambda>g _. sem_ok initialCount maxCount g" "\<lambda>_ _. True" for initialCount maxCount
proof
  show kept: "sem_ok initialCount maxCount g'" if "sem_ok initialCount maxCount g" "sem_act g l g' l'" for g l g' l'
    using that(2,1)
    by (cases rule: sem_act.cases)
      (auto simp: sem_ok_def TelOsSemPost_def TelOsSemWait_locked_def split: if_splits)
  then show "sem_ok initialCount maxCount g'" if "sem_ok initialCount maxCount g" "sem_act g l g' l'" for g l g' l'
    using that by blast
qed (auto simp: sem_start_def sem_ok_def TelOsSemCreate_def split: if_splits)

section \<open>Timers\<close>

record PosixTimer =
  pt_armed :: bool
  pt_deadlineNs :: int

text \<open>
  Timers are numbered; \<open>ts_list\<close> is the list \<open>timers\<close> of the service, \<open>ts_timer\<close> what the structs say, \<open>ts_freed\<close> the deleted
  ones, \<open>ts_fired\<close> the callbacks that were started, newest first, with the time.
\<close>

record timer_service =
  ts_list :: "nat list"
  ts_timer :: "nat \<Rightarrow> PosixTimer"
  ts_running :: "nat option"
  ts_next :: nat
  ts_freed :: "nat set"
  ts_now :: int
  ts_fired :: "(nat \<times> int) list"

definition NS_PER_SECOND :: int where
  "NS_PER_SECOND = 1000000000"

definition POSIX_TICK_PER_SECOND :: nat where
  "POSIX_TICK_PER_SECOND = 100"

definition TicksToNs :: "32 word \<Rightarrow> int" where
  "TicksToNs ticks = uint ticks * NS_PER_SECOND div int POSIX_TICK_PER_SECOND"

text \<open>The scan of \<open>TimerServiceLoop\<close>: the armed timer with the earliest deadline, the first of them in the list.\<close>

fun earliest :: "(nat \<Rightarrow> PosixTimer) \<Rightarrow> nat option \<Rightarrow> nat list \<Rightarrow> nat option" where
  "earliest timer best [] = best"
| "earliest timer best (t # ts) =
    (if pt_armed (timer t) \<and> (case best of None \<Rightarrow> True | Some b \<Rightarrow> pt_deadlineNs (timer t) < pt_deadlineNs (timer b))
     then earliest timer (Some t) ts else earliest timer best ts)"

definition TelOsTimerCreate :: "timer_service \<Rightarrow> nat \<times> timer_service" where
  "TelOsTimerCreate s = (ts_next s,
     s\<lparr>ts_timer := (ts_timer s)(ts_next s := \<lparr>pt_armed = False, pt_deadlineNs = 0\<rparr>), ts_list := ts_next s # ts_list s,
       ts_next := Suc (ts_next s)\<rparr>)"

definition TelOsTimerStart :: "nat \<Rightarrow> 32 word \<Rightarrow> timer_service \<Rightarrow> TelOsResult \<times> timer_service" where
  "TelOsTimerStart t delayMs s =
    (if delayMs = TEL_OS_WAIT_FOREVER then (OS_INVALID_PARAM, s)
     else let ticks = TelOsMsToTicks POSIX_TICK_PER_SECOND delayMs;
              ticks = (if ticks = 0 then 1 else ticks)
          in (OS_OK, s\<lparr>ts_timer := (ts_timer s)(t :=
                \<lparr>pt_armed = True, pt_deadlineNs = ts_now s + TicksToNs ticks\<rparr>)\<rparr>))"

definition TelOsTimerStop :: "nat \<Rightarrow> timer_service \<Rightarrow> TelOsResult \<times> timer_service" where
  "TelOsTimerStop t s =
    (if pt_armed (ts_timer s t) then OS_OK else OS_FAIL,
     s\<lparr>ts_timer := (ts_timer s)(t := (ts_timer s t)\<lparr>pt_armed := False\<rparr>)\<rparr>)"

text \<open>\<open>TelOsTimerDelete\<close> up to its wait; \<open>onService\<close>: called by the service thread, from a callback.\<close>

definition TelOsTimerDelete_unlink :: "bool \<Rightarrow> nat \<Rightarrow> timer_service \<Rightarrow> TelOsResult \<times> timer_service" where
  "TelOsTimerDelete_unlink onService t s =
    (if ts_running s = Some t \<and> onService then (OS_INVALID_PARAM, s)
     else if t \<notin> set (ts_list s) then (OS_INVALID_PARAM, s)
     else (OS_OK, s\<lparr>ts_list := remove1 t (ts_list s)\<rparr>))"

text \<open>
  \<open>Timer_Service\<close> is the service thread at its scan and \<open>Timer_Callback t\<close> in a callback, with the lock given up;
  \<open>Timer_Deletes t\<close> waits until the callback of \<open>t\<close> is over, \<open>Timer_Frees t\<close> has left the lock for the last time. A callback
  may itself use the timers (\<open>Timer_Callback\<close> stays as it is); when it deletes another timer there is nothing to wait for,
  since the only callback that runs is its own.
\<close>

datatype timer_user =
    Timer_Idle
  | Timer_Deletes nat
  | Timer_Frees nat
  | Timer_Service
  | Timer_Callback nat

fun may_use :: "timer_user \<Rightarrow> bool" where
  "may_use Timer_Idle = True"
| "may_use (Timer_Callback t) = True"
| "may_use _ = False"

text \<open>Handles are used only while their timer is not deleted, as for any object.\<close>

inductive timer_act :: "timer_service \<Rightarrow> timer_user \<Rightarrow> timer_service \<Rightarrow> timer_user \<Rightarrow> bool" where
  create: "may_use l \<Longrightarrow> TelOsTimerCreate g = (t, g') \<Longrightarrow> timer_act g l g' l"
| start: "may_use l \<Longrightarrow> t \<in> set (ts_list g) \<Longrightarrow> TelOsTimerStart t delayMs g = (r, g') \<Longrightarrow> timer_act g l g' l"
| stop: "may_use l \<Longrightarrow> t \<in> set (ts_list g) \<Longrightarrow> TelOsTimerStop t g = (r, g') \<Longrightarrow> timer_act g l g' l"
| delete: "l = Timer_Idle \<Longrightarrow> TelOsTimerDelete_unlink False t g = (r, g') \<Longrightarrow>
    timer_act g l g' (if r = OS_OK then Timer_Deletes t else l)"
| delete_own: "l = Timer_Callback u \<Longrightarrow> TelOsTimerDelete_unlink True t g = (r, g') \<Longrightarrow>
    timer_act g l (if r = OS_OK then g'\<lparr>ts_freed := insert t (ts_freed g')\<rparr> else g') l"
| waited: "l = Timer_Deletes t \<Longrightarrow> ts_running g \<noteq> Some t \<Longrightarrow> timer_act g l g (Timer_Frees t)"
| free: "l = Timer_Frees t \<Longrightarrow> timer_act g l (g\<lparr>ts_freed := insert t (ts_freed g)\<rparr>) Timer_Idle"
| fire: "l = Timer_Service \<Longrightarrow> earliest (ts_timer g) None (ts_list g) = Some t \<Longrightarrow>
    pt_deadlineNs (ts_timer g t) \<le> ts_now g \<Longrightarrow>
    timer_act g l
      (g\<lparr>ts_timer := (ts_timer g)(t := (ts_timer g t)\<lparr>pt_armed := False\<rparr>), ts_running := Some t,
         ts_fired := (t, ts_now g) # ts_fired g\<rparr>) (Timer_Callback t)"
| fired: "l = Timer_Callback t \<Longrightarrow> timer_act g l (g\<lparr>ts_running := None\<rparr>) Timer_Service"
| clock: "0 \<le> d \<Longrightarrow> timer_act g l (g\<lparr>ts_now := ts_now g + d\<rparr>) l"

text \<open>Task 0 is the service thread.\<close>

definition timer_start :: "timer_service \<Rightarrow> (nat \<Rightarrow> timer_user) \<Rightarrow> bool" where
  "timer_start g ls \<longleftrightarrow>
    ts_list g = [] \<and> ts_running g = None \<and> ts_next g = 0 \<and> ts_freed g = {} \<and> ts_fired g = [] \<and>
    ls = (\<lambda>_. Timer_Idle)(0 := Timer_Service)"

fun on_service :: "timer_user \<Rightarrow> bool" where
  "on_service Timer_Service = True"
| "on_service (Timer_Callback t) = True"
| "on_service _ = False"

fun deletes :: "timer_user \<Rightarrow> nat set" where
  "deletes (Timer_Deletes t) = {t}"
| "deletes (Timer_Frees t) = {t}"
| "deletes _ = {}"

definition service_ok :: "timer_service \<Rightarrow> bool" where
  "service_ok g \<longleftrightarrow> distinct (ts_list g) \<and> set (ts_list g) \<inter> ts_freed g = {} \<and>
     set (ts_list g) \<union> ts_freed g \<union> set_option (ts_running g) \<subseteq> {..<ts_next g} \<and>
     set_option (ts_running g) \<inter> ts_freed g = {}"

fun user_ok :: "timer_service \<Rightarrow> timer_user \<Rightarrow> bool" where
  "user_ok g Timer_Idle \<longleftrightarrow> True"
| "user_ok g (Timer_Deletes t) \<longleftrightarrow> t \<notin> set (ts_list g) \<and> t \<notin> ts_freed g \<and> t < ts_next g"
| "user_ok g (Timer_Frees t) \<longleftrightarrow> t \<notin> set (ts_list g) \<and> t \<notin> ts_freed g \<and> t < ts_next g \<and> ts_running g \<noteq> Some t"
| "user_ok g Timer_Service \<longleftrightarrow> ts_running g = None"
| "user_ok g (Timer_Callback t) \<longleftrightarrow> ts_running g = Some t"

definition timer_ok :: "timer_service \<Rightarrow> timer_user \<Rightarrow> bool" where
  "timer_ok g l \<longleftrightarrow> service_ok g \<and> user_ok g l"

lemma earliest_sound:
  "earliest timer best ts = Some t \<Longrightarrow> (\<forall>b. best = Some b \<longrightarrow> pt_armed (timer b)) \<Longrightarrow>
    (best = Some t \<or> t \<in> set ts) \<and> pt_armed (timer t) \<and>
    (\<forall>u \<in> set ts. pt_armed (timer u) \<longrightarrow> pt_deadlineNs (timer t) \<le> pt_deadlineNs (timer u)) \<and>
    (\<forall>b. best = Some b \<longrightarrow> pt_deadlineNs (timer t) \<le> pt_deadlineNs (timer b))"
  by (induction ts arbitrary: best) (force split: if_splits option.splits)+

text \<open>The linked list after an unlink, and a due timer.\<close>

lemma unlinked:
  assumes "TelOsTimerDelete_unlink onService t g = (r, g')" and "distinct (ts_list g)"
  shows "if r = OS_OK then t \<in> set (ts_list g) \<and> g' = g\<lparr>ts_list := remove1 t (ts_list g)\<rparr> \<and>
      set (remove1 t (ts_list g)) = set (ts_list g) - {t} \<and> (onService \<longrightarrow> ts_running g \<noteq> Some t) else g' = g"
  using assms by (auto simp: TelOsTimerDelete_unlink_def split: if_splits)

lemma due_timer:
  assumes "earliest (ts_timer g) None (ts_list g) = Some t"
  shows "t \<in> set (ts_list g) \<and> pt_armed (ts_timer g t)"
  using earliest_sound [OF assms] by simp

lemma timer_step:
  assumes "service_ok g" and "user_ok g l" and "timer_act g l g' l'"
  shows "service_ok g' \<and> user_ok g' l' \<and>
    (\<forall>m. user_ok g m \<longrightarrow> \<not> (on_service l \<and> on_service m) \<longrightarrow> deletes l \<inter> deletes m = {} \<longrightarrow>
       user_ok g' m \<and> \<not> (on_service l' \<and> on_service m) \<and> deletes l' \<inter> deletes m = {})"
  using assms(3)
proof (cases rule: timer_act.cases)
  case (create t)
  have "user_ok g' m" if "user_ok g m" for m
    using that create(3) by (cases m) (auto simp: TelOsTimerCreate_def)
  moreover have "ts_next g \<notin> set (ts_list g) \<union> ts_freed g" using assms(1) by (auto simp: service_ok_def)
  then have "service_ok g'"
    using assms(1) create(3) unfolding service_ok_def TelOsTimerCreate_def by (auto simp: less_Suc_eq)
  ultimately show ?thesis using assms(2) create by simp
next
  case (start t delayMs r)
  have "user_ok g' m \<longleftrightarrow> user_ok g m" for m
    using start(4) by (cases m) (auto simp: TelOsTimerStart_def Let_def split: if_splits)
  moreover have "service_ok g'" using assms(1) start(4) by (auto simp: service_ok_def TelOsTimerStart_def Let_def split: if_splits)
  ultimately show ?thesis using assms(2) start by simp
next
  case (stop t r)
  have "user_ok g' m \<longleftrightarrow> user_ok g m" for m using stop(4) by (cases m) (auto simp: TelOsTimerStop_def)
  moreover have "service_ok g'" using assms(1) stop(4) by (auto simp: service_ok_def TelOsTimerStop_def)
  ultimately show ?thesis using assms(2) stop by simp
next
  case (delete t r)
  have distinct: "distinct (ts_list g)" using assms(1) by (simp add: service_ok_def)
  show ?thesis
  proof (cases "r = OS_OK")
    case True
    with unlinked [OF delete(3) distinct] have g': "g' = g\<lparr>ts_list := remove1 t (ts_list g)\<rparr>"
      "set (remove1 t (ts_list g)) = set (ts_list g) - {t}" "t \<in> set (ts_list g)" by simp_all
    then have "service_ok g'" "user_ok g' (Timer_Deletes t)" using assms(1) by (auto simp: service_ok_def)
    moreover have "user_ok g' m \<and> t \<notin> deletes m" if "user_ok g m" for m using that g' by (cases m) auto
    ultimately show ?thesis using True delete by auto
  qed (use unlinked [OF delete(3) distinct] assms delete in simp)
next
  case (delete_own u t r)
  have distinct: "distinct (ts_list g)" using assms(1) by (simp add: service_ok_def)
  show ?thesis
  proof (cases "r = OS_OK")
    case True
    with unlinked [OF delete_own(4) distinct] delete_own(1) have g': "g' = g\<lparr>ts_list := remove1 t (ts_list g), ts_freed := insert t (ts_freed g)\<rparr>"
      "set (remove1 t (ts_list g)) = set (ts_list g) - {t}" "t \<in> set (ts_list g)" "ts_running g \<noteq> Some t" by auto
    then have "service_ok g'" using assms(1) by (auto simp: service_ok_def)
    moreover have "user_ok g' m" if "user_ok g m" for m using that g' by (cases m) auto
    ultimately show ?thesis using assms(2) delete_own(2,3) by metis
  qed (use unlinked [OF delete_own(4) distinct] assms delete_own in simp)
next
  case (fire t)
  from due_timer [OF fire(4)] have t: "t \<in> set (ts_list g)" by simp
  then have "service_ok g'" using assms(1) fire(1) by (auto simp: service_ok_def)
  moreover have "user_ok g' m" if "user_ok g m" "\<not> on_service m" for m using that fire(1) t by (cases m) auto
  ultimately show ?thesis using fire by auto
next
  case (free t)
  have "user_ok g' m" if "user_ok g m" "t \<notin> deletes m" for m
    using that free assms(2) by (cases m) auto
  moreover have "service_ok g'" using assms(1,2) free by (auto simp: service_ok_def)
  ultimately show ?thesis using free by auto
next
  case (fired t)
  have "user_ok g' m" if "user_ok g m" "\<not> on_service m" for m using that fired by (cases m) auto
  moreover have "service_ok g'" using assms(1) fired by (auto simp: service_ok_def)
  ultimately show ?thesis using fired by auto
next
  case (clock d)
  have "user_ok g' m \<longleftrightarrow> user_ok g m" for m using clock by (cases m) auto
  moreover have "service_ok g'" using assms(1) clock by (auto simp: service_ok_def)
  ultimately show ?thesis using assms(2) clock by simp
next
  case (waited t)
  then show ?thesis using assms by auto
qed

interpretation timers: interleaving timer_act timer_start timer_ok
  "\<lambda>l m. \<not> (on_service l \<and> on_service m) \<and> deletes l \<inter> deletes m = {}"
proof
  show "timer_ok g' l'" if "timer_ok g l" "timer_act g l g' l'" for g l g' l'
    using that timer_step by (auto simp: timer_ok_def)
  show "timer_ok g' m" "\<not> (on_service l' \<and> on_service m) \<and> deletes l' \<inter> deletes m = {}"
    if "timer_ok g l" "timer_act g l g' l'" "timer_ok g m" "\<not> (on_service l \<and> on_service m) \<and> deletes l \<inter> deletes m = {}"
    for g l g' l' m
    using that timer_step [of g l g' l'] by (auto simp: timer_ok_def)
qed (auto simp: timer_start_def timer_ok_def service_ok_def)

section \<open>Properties\<close>

text \<open>A counting semaphore loses no count: in every interleaving of posts and waits the count is the initial one, plus
  the posts that succeeded, less the waits that succeeded, and never exceeds the maximum.\<close>
theorem semaphore_counts:
  assumes "interleaved sem_act (sem_start initialCount maxCount) g ls"
  shows "ps_count (ss_sem g) + ss_takes g = initialCount + ss_posts g \<and> ps_count (ss_sem g) \<le> maxCount \<and>
    ps_maxCount (ss_sem g) = maxCount"
  using semaphores.tasks_ok [OF assms] by (simp add: sem_ok_def)

text \<open>Deleting a timer is safe against its callback: no callback of a deleted timer runs or starts, whoever waits to free a
  timer frees it only when its callback is over, no timer is freed twice, and a callback that starts belongs to an
  armed, due timer of the list with the earliest deadline.\<close>
theorem deleted_timer_is_quiet:
  assumes "interleaved timer_act timer_start g ls"
  shows "(\<forall>t. ts_running g = Some t \<longrightarrow> t \<notin> ts_freed g) \<and> (\<forall>i t. ls i = Timer_Callback t \<longrightarrow> t \<notin> ts_freed g) \<and>
    (\<forall>i t. ls i = Timer_Frees t \<longrightarrow> ts_running g \<noteq> Some t \<and> t \<notin> ts_freed g \<and> t \<notin> set (ts_list g)) \<and>
    (\<forall>i j t. ls i = Timer_Frees t \<and> ls j = Timer_Frees t \<longrightarrow> i = j) \<and>
    (\<forall>i g' t. timer_act g (ls i) g' (Timer_Callback t) \<and> ls i = Timer_Service \<longrightarrow>
       t \<in> set (ts_list g) \<and> t \<notin> ts_freed g \<and> pt_armed (ts_timer g t) \<and> pt_deadlineNs (ts_timer g t) \<le> ts_now g \<and>
       (\<forall>u \<in> set (ts_list g). pt_armed (ts_timer g u) \<longrightarrow> pt_deadlineNs (ts_timer g t) \<le> pt_deadlineNs (ts_timer g u)))"
proof -
  have service: "service_ok g" and user: "user_ok g (ls i)" and apart: "i \<noteq> j \<Longrightarrow> deletes (ls i) \<inter> deletes (ls j) = {}" for i j
    using timers.tasks_ok [OF assms] by (auto simp: timer_ok_def)
  have "t \<in> set (ts_list g) \<and> t \<notin> ts_freed g \<and> pt_armed (ts_timer g t) \<and> pt_deadlineNs (ts_timer g t) \<le> ts_now g \<and>
      (\<forall>u \<in> set (ts_list g). pt_armed (ts_timer g u) \<longrightarrow> pt_deadlineNs (ts_timer g t) \<le> pt_deadlineNs (ts_timer g u))"
    if "timer_act g Timer_Service g' (Timer_Callback t)" for g' t
    using that
  proof (cases rule: timer_act.cases)
    case fire
    from earliest_sound [OF fire(3)] fire(4) service show ?thesis by (auto simp: service_ok_def)
  qed auto
  moreover have "ls i = Timer_Frees t \<Longrightarrow> ts_running g \<noteq> Some t \<and> t \<notin> ts_freed g \<and> t \<notin> set (ts_list g)"
    "ls i = Timer_Callback t \<Longrightarrow> ts_running g = Some t" for i t
    using user [of i] by auto
  moreover have "ls i = Timer_Frees t \<Longrightarrow> ls j = Timer_Frees t \<Longrightarrow> i = j" for i j t
    using apart [of i j] by auto
  moreover have "ts_running g = Some t \<Longrightarrow> t \<notin> ts_freed g" for t using service by (auto simp: service_ok_def)
  ultimately show ?thesis by (intro conjI allI impI; (elim conjE)?; (simp | metis))
qed

text \<open>A semaphore of the loop is posted, a poll takes the count. A timer is made, started, fires, and is deleted.\<close>

theorem semaphore_counts_witness:
  "\<exists>g ls. interleaved sem_act (sem_start 0 1) g ls \<and> ls 0 = Sem_Answer OS_OK \<and> ps_count (ss_sem g) = 1 \<and>
     ps_count (ss_sem g) + ss_takes g = 0 + ss_posts g"
proof -
  let ?g = "\<lambda>n p. \<lparr>ss_sem = \<lparr>ps_count = n, ps_maxCount = 1\<rparr>, ss_posts = p, ss_takes = 0\<rparr>"
  have "interleaved sem_act (sem_start 0 1) (?g 0 0) (\<lambda>_. Sem_Idle)"
    by (rule interleaved.begins) (simp add: sem_start_def TelOsSemCreate_def)
  moreover have "sem_act (?g 0 0) Sem_Idle (?g 1 1) (Sem_Answer OS_OK)"
    using sem_act.post [of Sem_Idle "?g 0 0" OS_OK "\<lparr>ps_count = 1, ps_maxCount = 1\<rparr>"] by (simp add: TelOsSemPost_def)
  ultimately have run: "interleaved sem_act (sem_start 0 1) (?g 1 1) ((\<lambda>_. Sem_Idle)(0 := Sem_Answer OS_OK))"
    by (rule interleaved.moves)
  from semaphore_counts [OF run] run show ?thesis
    by (intro exI [of _ "?g 1 1"] exI [of _ "(\<lambda>_. Sem_Idle)(0 := Sem_Answer OS_OK)"]) simp
qed

definition demo_timers :: "bool \<Rightarrow> nat option \<Rightarrow> int \<Rightarrow> (nat \<times> int) list \<Rightarrow> timer_service" where
  "demo_timers armed running now fired =
    \<lparr>ts_list = [0], ts_timer = (\<lambda>_. \<lparr>pt_armed = False, pt_deadlineNs = 0\<rparr>)(0 := \<lparr>pt_armed = armed,
       pt_deadlineNs = (if armed \<or> running \<noteq> None then 10000000 else 0)\<rparr>), ts_running = running, ts_next = 1, ts_freed = {},
     ts_now = now, ts_fired = fired\<rparr>"

lemma demo_timers_go:
  assumes "interleaved timer_act timer_start g ((\<lambda>_. Timer_Idle)(0 := Timer_Service))" and "timer_act g Timer_Idle g' Timer_Idle"
  shows "interleaved timer_act timer_start g' ((\<lambda>_. Timer_Idle)(0 := Timer_Service))"
  using interleaved.moves [OF assms(1), of 1 g' Timer_Idle] assms(2) by (simp add: fun_upd_idem)

theorem deleted_timer_is_quiet_witness:
  "\<exists>g ls. interleaved timer_act timer_start g ls \<and> ls 0 = Timer_Callback 0 \<and> ts_fired g = [(0, 10000000)] \<and> 0 \<notin> ts_freed g"
proof -
  let ?z = "\<lambda>l. (\<lambda>_. Timer_Idle)(0 := l)"
  let ?start = "(demo_timers False None 0 [])\<lparr>ts_list := [], ts_next := 0\<rparr>"
  have s0: "interleaved timer_act timer_start ?start (?z Timer_Service)"
    by (rule interleaved.begins) (simp add: timer_start_def demo_timers_def)
  have "timer_act ?start Timer_Idle (demo_timers False None 0 []) Timer_Idle"
    by (rule timer_act.create [where t = 0]) (auto simp: TelOsTimerCreate_def demo_timers_def)
  note s1 = demo_timers_go [OF s0 this]
  have "timer_act (demo_timers False None 0 []) Timer_Idle (demo_timers True None 0 []) Timer_Idle"
    by (rule timer_act.start [where t = 0 and delayMs = 5 and r = OS_OK])
      (auto simp: TelOsTimerStart_def demo_timers_def TEL_OS_WAIT_FOREVER_def TelOsMsToTicks_def POSIX_TICK_PER_SECOND_def
        TicksToNs_def NS_PER_SECOND_def TEL_OS_MAX_FINITE_TICKS_def)
  note s2 = demo_timers_go [OF s1 this]
  have "timer_act (demo_timers True None 0 []) Timer_Idle (demo_timers True None 10000000 []) Timer_Idle"
    using timer_act.clock [of 10000000 "demo_timers True None 0 []" Timer_Idle] by (simp add: demo_timers_def)
  note s3 = demo_timers_go [OF s2 this]
  have "timer_act (demo_timers True None 10000000 []) (?z Timer_Service 0)
      (demo_timers False (Some 0) 10000000 [(0, 10000000)]) (Timer_Callback 0)"
    using timer_act.fire [of "?z Timer_Service 0" "demo_timers True None 10000000 []" 0] by (simp add: demo_timers_def)
  then have run: "interleaved timer_act timer_start (demo_timers False (Some 0) 10000000 [(0, 10000000)]) (?z (Timer_Callback 0))"
    using interleaved.moves [OF s3, of 0 "demo_timers False (Some 0) 10000000 [(0, 10000000)]" "Timer_Callback 0"] by simp
  from deleted_timer_is_quiet [OF run] run show ?thesis
    by (intro exI [of _ "demo_timers False (Some 0) 10000000 [(0, 10000000)]"] exI [of _ "?z (Timer_Callback 0)"])
      (simp add: demo_timers_def)
qed

end
