(* ===== verification/Os_Cmsis.thy ===== *)
theory Os_Cmsis
  imports Os_Posix
begin

text \<open>
  The adapter of the target, \<open>utils/mini/src/tel_os_adapter_cmsis.cpp\<close>, on the kernel objects of CMSIS-RTOS2. The kernel is not
  in the repository: what is used of it is that a call of it is one step, that a semaphore counts up to a bound of the
  kernel's own, and that a timer that was deleted is not handed to the timer task any more. Parameters say what it
  answers otherwise.
\<close>

section \<open>Semaphores\<close>

datatype osStatus = osOK | osError | osErrorTimeout | osErrorResource

record CmsisSem =
  cs_count :: nat
  cs_maxCount :: nat

definition osWaitForever :: "32 word" where
  "osWaitForever = 0xFFFFFFFF"

definition ToCmsisTimeout :: "nat \<Rightarrow> 32 word \<Rightarrow> 32 word" where
  "ToCmsisTimeout tickFreq timeoutMs =
    (if timeoutMs = TEL_OS_WAIT_FOREVER then osWaitForever else TelOsMsToTicks tickFreq timeoutMs)"

text \<open>\<open>memory\<close> and \<open>kernelOk\<close>: whether the object and the kernel's semaphore could be made.\<close>

definition Cmsis_SemCreate :: "bool \<Rightarrow> bool \<Rightarrow> nat \<Rightarrow> nat \<Rightarrow> TelOsResult \<times> CmsisSem option" where
  "Cmsis_SemCreate memory kernelOk initialCount maxCount =
    (if maxCount = 0 \<or> maxCount < initialCount then (OS_INVALID_PARAM, None)
     else if \<not> memory \<or> \<not> kernelOk then (OS_NO_RESOURCE, None)
     else (OS_OK, Some \<lparr>cs_count = initialCount, cs_maxCount = maxCount\<rparr>))"

text \<open>What \<open>TelOsSemWait\<close> makes of the answer of \<open>osSemaphoreAcquire\<close>.\<close>

definition Cmsis_SemWait_result :: "osStatus \<Rightarrow> TelOsResult" where
  "Cmsis_SemWait_result r =
    (if r = osOK then OS_OK else if r = osErrorTimeout \<or> r = osErrorResource then OS_TIMEOUT else OS_FAIL)"

text \<open>\<open>TelOsSemPost\<close>: the count is read, and then the semaphore released, in two calls of the kernel.\<close>

definition Cmsis_SemPost_full :: "CmsisSem \<Rightarrow> bool" where
  "Cmsis_SemPost_full s \<longleftrightarrow> cs_maxCount s \<le> cs_count s"

definition osSemaphoreRelease :: "nat \<Rightarrow> CmsisSem \<Rightarrow> osStatus \<times> CmsisSem" where
  "osSemaphoreRelease bound s =
    (if cs_count s < bound then (osOK, s\<lparr>cs_count := Suc (cs_count s)\<rparr>) else (osErrorResource, s))"

definition Cmsis_SemPost_release :: "nat \<Rightarrow> CmsisSem \<Rightarrow> TelOsResult \<times> CmsisSem" where
  "Cmsis_SemPost_release bound s =
    (case osSemaphoreRelease bound s of (r, s') \<Rightarrow> (if r = osOK then OS_OK else OS_FAIL, s'))"

text \<open>
  A task at a semaphore. \<open>cy_posting\<close> are the tasks between the two calls of a post; \<open>N\<close> tasks post at the same time at
  most. \<open>cy_posts\<close> and \<open>cy_takes\<close> count the posts and waits that succeeded.
\<close>

datatype csem_user = CU_Idle | CU_Release nat | CU_Waits "32 word" | CU_Answer TelOsResult

record csem_sys =
  cy_sem :: CmsisSem
  cy_posting :: "nat set"
  cy_posts :: nat
  cy_takes :: nat

fun csem_rests :: "csem_user \<Rightarrow> bool" where
  "csem_rests CU_Idle = True"
| "csem_rests (CU_Answer r) = True"
| "csem_rests _ = False"

inductive csem_act :: "nat \<Rightarrow> nat \<Rightarrow> csem_sys \<Rightarrow> csem_user \<Rightarrow> csem_sys \<Rightarrow> csem_user \<Rightarrow> bool" for N bound where
  full: "csem_rests l \<Longrightarrow> Cmsis_SemPost_full (cy_sem g) \<Longrightarrow> csem_act N bound g l g (CU_Answer OS_FAIL)"
| room: "csem_rests l \<Longrightarrow> \<not> Cmsis_SemPost_full (cy_sem g) \<Longrightarrow> n < N \<Longrightarrow> n \<notin> cy_posting g \<Longrightarrow>
    csem_act N bound g l (g\<lparr>cy_posting := insert n (cy_posting g)\<rparr>) (CU_Release n)"
| release: "Cmsis_SemPost_release bound (cy_sem g) = (r, sem) \<Longrightarrow>
    csem_act N bound g (CU_Release n)
      (g\<lparr>cy_sem := sem, cy_posting := cy_posting g - {n}, cy_posts := cy_posts g + (if r = OS_OK then 1 else 0)\<rparr>)
      (CU_Answer r)"
| wait: "csem_rests l \<Longrightarrow> csem_act N bound g l g (CU_Waits timeoutMs)"
| acquired: "0 < cs_count (cy_sem g) \<Longrightarrow>
    csem_act N bound g (CU_Waits timeoutMs)
      (g\<lparr>cy_sem := (cy_sem g)\<lparr>cs_count := cs_count (cy_sem g) - 1\<rparr>, cy_takes := Suc (cy_takes g)\<rparr>)
      (CU_Answer (Cmsis_SemWait_result osOK))"
| gave_up: "cs_count (cy_sem g) = 0 \<Longrightarrow> ToCmsisTimeout tickFreq timeoutMs \<noteq> osWaitForever \<Longrightarrow>
    r \<in> {osErrorTimeout, osErrorResource} \<Longrightarrow>
    csem_act N bound g (CU_Waits timeoutMs) g (CU_Answer (Cmsis_SemWait_result r))"

definition csem_start :: "nat \<Rightarrow> nat \<Rightarrow> csem_sys \<Rightarrow> (nat \<Rightarrow> csem_user) \<Rightarrow> bool" where
  "csem_start initialCount maxCount g ls \<longleftrightarrow>
    (OS_OK, Some (cy_sem g)) = Cmsis_SemCreate True True initialCount maxCount \<and> cy_posting g = {} \<and>
    cy_posts g = 0 \<and> cy_takes g = 0 \<and> ls = (\<lambda>_. CU_Idle)"

definition csem_limit :: "nat \<Rightarrow> nat \<Rightarrow> nat" where
  "csem_limit N maxCount = maxCount - 1 + max 1 N"

lemma csem_limit_room: "count < maxCount \<Longrightarrow> posting \<le> N \<Longrightarrow> count + posting \<le> csem_limit N maxCount"
  "count \<le> maxCount \<Longrightarrow> 0 < maxCount \<Longrightarrow> count \<le> csem_limit N maxCount"
  by (auto simp: csem_limit_def)

text \<open>A task that has read the count keeps room for its own release.\<close>

definition csem_ok :: "nat \<Rightarrow> nat \<Rightarrow> nat \<Rightarrow> csem_sys \<Rightarrow> csem_user \<Rightarrow> bool" where
  "csem_ok N initialCount maxCount g l \<longleftrightarrow> cs_maxCount (cy_sem g) = maxCount \<and> 0 < maxCount \<and> cy_posting g \<subseteq> {..<N} \<and>
     cs_count (cy_sem g) + card (cy_posting g) \<le> csem_limit N maxCount \<and>
     cs_count (cy_sem g) + cy_takes g = initialCount + cy_posts g \<and> (\<forall>n. l = CU_Release n \<longrightarrow> n \<in> cy_posting g)"

lemma csem_ok_room:
  assumes "csem_ok N initialCount maxCount g l" and "n < N" and "\<not> Cmsis_SemPost_full (cy_sem g)"
  shows "csem_ok N initialCount maxCount (g\<lparr>cy_posting := insert n (cy_posting g)\<rparr>) (CU_Release n)"
proof -
  have subset: "insert n (cy_posting g) \<subseteq> {..<N}" using assms(1,2) by (simp add: csem_ok_def)
  then have "card (insert n (cy_posting g)) \<le> N" using card_mono [of "{..<N}"] by fastforce
  moreover have "cs_count (cy_sem g) < maxCount" using assms(1,3) by (simp add: csem_ok_def Cmsis_SemPost_full_def)
  ultimately have "cs_count (cy_sem g) + card (insert n (cy_posting g)) \<le> csem_limit N maxCount"
    by (intro csem_limit_room)
  with subset assms(1) show ?thesis by (simp add: csem_ok_def)
qed

lemma csem_step:
  assumes "csem_ok N initialCount maxCount g l" and "csem_act N bound g l g' l'"
  shows "csem_ok N initialCount maxCount g' l'"
proof -
  have fin: "finite (cy_posting g)" "card (cy_posting g) \<le> N"
    using assms(1) finite_subset [of _ "{..<N}"] card_mono [of "{..<N}" "cy_posting g"] by (auto simp: csem_ok_def)
  show ?thesis
    using assms(2)
  proof (cases rule: csem_act.cases)
    case (room n)
    with csem_ok_room [OF assms(1)] show ?thesis by simp
  next
    case (release r sem n)
    then have "n \<in> cy_posting g" using assms(1) by (simp add: csem_ok_def)
    then have "card (cy_posting g - {n}) = card (cy_posting g) - 1" "0 < card (cy_posting g)"
      using fin by (auto simp: card_gt_0_iff)
    then show ?thesis
      using release assms(1)
      by (auto simp: csem_ok_def Cmsis_SemPost_release_def osSemaphoreRelease_def split: if_splits)
  qed (use assms(1) in \<open>auto simp: csem_ok_def\<close>)
qed

interpretation cmsis_semaphores: interleaving "csem_act N bound" "csem_start initialCount maxCount"
  "csem_ok N initialCount maxCount" "\<lambda>l m. \<forall>n. \<not> (l = CU_Release n \<and> m = CU_Release n)"
  for N bound initialCount maxCount
proof
  show "csem_ok N initialCount maxCount g' l'"
    if "csem_ok N initialCount maxCount g l" "csem_act N bound g l g' l'" for g l g' l'
    using that by (rule csem_step)
  show "csem_ok N initialCount maxCount g' m"
    if "csem_ok N initialCount maxCount g l" "csem_act N bound g l g' l'" "csem_ok N initialCount maxCount g m"
      "\<forall>n. \<not> (l = CU_Release n \<and> m = CU_Release n)" for g l g' l' m
    using that(2) csem_step [OF that(1,2)] that(3,4) by (cases rule: csem_act.cases) (auto simp: csem_ok_def)
  show "\<forall>n. \<not> (l' = CU_Release n \<and> m = CU_Release n)"
    if "csem_ok N initialCount maxCount g l" "csem_act N bound g l g' l'" "csem_ok N initialCount maxCount g m"
      "\<forall>n. \<not> (l = CU_Release n \<and> m = CU_Release n)" for g l g' l' m
    using that(2,3,4) by (cases rule: csem_act.cases) (auto simp: csem_ok_def)
qed (auto simp: csem_start_def csem_ok_def Cmsis_SemCreate_def csem_limit_room split: if_splits)

text \<open>Two tasks post at the same time: both read a count of one, then both release.\<close>

inductive_simps csem_act_simps: "csem_act N bound g CU_Idle g' l'" "csem_act N bound g (CU_Release n) g' l'"

definition demo_csem :: "nat \<Rightarrow> nat set \<Rightarrow> nat \<Rightarrow> csem_sys" where
  "demo_csem count posting posts =
    \<lparr>cy_sem = \<lparr>cs_count = count, cs_maxCount = 2\<rparr>, cy_posting = posting, cy_posts = posts, cy_takes = 0\<rparr>"

definition demo_posters :: "csem_user \<Rightarrow> csem_user \<Rightarrow> nat \<Rightarrow> csem_user" where
  "demo_posters a b = (\<lambda>_. CU_Idle)(0 := a, 1 := b)"

lemma demo_posters_go:
  assumes "interleaved act start g (demo_posters a b)"
  shows "act g a g' a' \<Longrightarrow> interleaved act start g' (demo_posters a' b)"
    "act g b g' b' \<Longrightarrow> interleaved act start g' (demo_posters a b')"
  using interleaved.moves [OF assms, of 0 g' a'] interleaved.moves [OF assms, of 1 g' b']
  by (auto simp: demo_posters_def fun_upd_twist)

lemmas demo_csem_defs = csem_act_simps demo_csem_def Cmsis_SemPost_full_def Cmsis_SemPost_release_def osSemaphoreRelease_def

lemma demo_overrun:
  "interleaved (csem_act 2 65535) (csem_start 1 2) (demo_csem 3 {} 2) (demo_posters (CU_Answer OS_OK) (CU_Answer OS_OK))"
proof -
  have s0: "interleaved (csem_act 2 65535) (csem_start 1 2) (demo_csem 1 {} 0) (demo_posters CU_Idle CU_Idle)"
    by (rule interleaved.begins) (auto simp: csem_start_def Cmsis_SemCreate_def demo_csem_def demo_posters_def)
  have s1: "csem_act 2 65535 (demo_csem 1 {} 0) CU_Idle (demo_csem 1 {0} 0) (CU_Release 0)" by (simp add: demo_csem_defs)
  have s2: "csem_act 2 65535 (demo_csem 1 {0} 0) CU_Idle (demo_csem 1 {0, 1} 0) (CU_Release 1)"
    by (auto simp: demo_csem_defs intro!: exI [of _ 1])
  have s3: "csem_act 2 65535 (demo_csem 1 {0, 1} 0) (CU_Release 0) (demo_csem 2 {1} 1) (CU_Answer OS_OK)"
    by (auto simp: demo_csem_defs)
  have s4: "csem_act 2 65535 (demo_csem 2 {1} 1) (CU_Release 1) (demo_csem 3 {} 2) (CU_Answer OS_OK)"
    by (auto simp: demo_csem_defs)
  show ?thesis
    by (rule demo_posters_go(2) [OF demo_posters_go(1) [OF demo_posters_go(2) [OF demo_posters_go(1) [OF s0 s1] s2] s3] s4])
qed

text \<open>A semaphore of the target loses no count, and is bounded by its maximum when one task at a time posts. When
  \<open>N\<close> tasks post at the same time it can exceed the maximum, by at most \<open>N - 1\<close>, and two that post to a semaphore
  with room for one do so when the kernel's own bound is higher.\<close>
theorem cmsis_semaphore_bound:
  "(interleaved (csem_act N bound) (csem_start initialCount maxCount) g ls \<longrightarrow>
      cs_count (cy_sem g) + cy_takes g = initialCount + cy_posts g \<and> cs_count (cy_sem g) \<le> maxCount - 1 + max 1 N) \<and>
    (\<exists>h hs. interleaved (csem_act 2 65535) (csem_start 1 2) h hs \<and> cs_count (cy_sem h) = 3)"
proof -
  have "cs_count (cy_sem g) + cy_takes g = initialCount + cy_posts g \<and> cs_count (cy_sem g) \<le> maxCount - 1 + max 1 N"
    if "interleaved (csem_act N bound) (csem_start initialCount maxCount) g ls"
    using cmsis_semaphores.tasks_ok [OF that, of 0 0] unfolding csem_ok_def csem_limit_def by linarith
  moreover have "cs_count (cy_sem (demo_csem 3 {} 2)) = 3" by (simp add: demo_csem_def)
  ultimately show ?thesis using demo_overrun by blast
qed

theorem cmsis_semaphore_bound_witness:
  "interleaved (csem_act 2 65535) (csem_start 1 2) (demo_csem 3 {} 2) (demo_posters (CU_Answer OS_OK) (CU_Answer OS_OK)) \<and>
   cs_count (cy_sem (demo_csem 3 {} 2)) \<le> 2 - 1 + max 1 2"
  using cmsis_semaphore_bound [of 2 65535 1 2 "demo_csem 3 {} 2" "demo_posters (CU_Answer OS_OK) (CU_Answer OS_OK)"]
    demo_overrun by blast

section \<open>Timers\<close>

definition CMSIS_MAX_TIMERS :: nat where
  "CMSIS_MAX_TIMERS = 4"

text \<open>
  A slot: \<open>SLOT_USED\<close>, the calls of \<open>TimerTrampoline\<close> that \<open>inCallback\<close> counts, and \<open>callback\<close> with its argument, which
  stands for the timer it was created for. \<open>tt_phase\<close> is who the slot belongs to: a task that sets it up; a timer that
  exists in the kernel and may be started, stopped and deleted; a task that deletes it, before and after it saw no
  callback.
\<close>

record TimerSlot =
  tsl_used :: bool
  tsl_inCallback :: "nat set"
  tsl_callback :: "nat option"

datatype slot_phase = P_Free | P_Setup | P_Live nat | P_Deleting nat | P_Clearing nat

record timer_table =
  tt_slot :: "nat \<Rightarrow> TimerSlot"
  tt_phase :: "nat \<Rightarrow> slot_phase"
  tt_next :: nat
  tt_deleted :: "nat set"

definition upd_slot :: "nat \<Rightarrow> (TimerSlot \<Rightarrow> TimerSlot) \<Rightarrow> timer_table \<Rightarrow> timer_table" where
  "upd_slot i f g = g\<lparr>tt_slot := (tt_slot g)(i := f (tt_slot g i))\<rparr>"

definition upd_phase :: "nat \<Rightarrow> slot_phase \<Rightarrow> timer_table \<Rightarrow> timer_table" where
  "upd_phase i p g = g\<lparr>tt_phase := (tt_phase g)(i := p)\<rparr>"

text \<open>
  \<open>TelOsTimerCreate\<close>: \<open>CT_Claimed\<close> after \<open>ClaimSlot\<close>, \<open>CT_New\<close> with the callback set, \<open>CT_Failed\<close> when the kernel had no timer.
  \<open>TimerTrampoline\<close>: \<open>CT_Late\<close> was handed the timer of \<open>c\<close> and has not counted itself, \<open>CT_Counted\<close>, \<open>CT_Checked\<close> after the look
  at the state, \<open>CT_Call i n c d\<close> in the callback of \<open>d\<close>, \<open>CT_Uncount\<close>. \<open>TelOsTimerDelete\<close>: \<open>CT_Deleting\<close> after \<open>osTimerDelete\<close>,
  \<open>CT_Freed\<close> when it saw no callback, \<open>CT_Clear\<close> before the last store.
\<close>

datatype ctimer_user =
    CT_Idle
  | CT_Claimed nat
  | CT_New nat nat
  | CT_Failed nat
  | CT_Late nat nat
  | CT_Counted nat nat nat
  | CT_Checked nat nat nat
  | CT_Call nat nat nat nat
  | CT_Uncount nat nat
  | CT_Deleting nat nat
  | CT_Freed nat nat
  | CT_Clear nat nat

text \<open>
  \<open>prompt\<close>: no other task runs between the kernel handing a timer over and the first store of the trampoline, because
  the timer task of the kernel has a priority above all tasks of the program.
\<close>

inductive ctimer_act :: "bool \<Rightarrow> timer_table \<Rightarrow> ctimer_user \<Rightarrow> timer_table \<Rightarrow> ctimer_user \<Rightarrow> bool" for prompt where
  claim: "i < CMSIS_MAX_TIMERS \<Longrightarrow> \<not> tsl_used (tt_slot g i) \<Longrightarrow>
    ctimer_act prompt g CT_Idle (upd_phase i P_Setup (upd_slot i (\<lambda>t. t\<lparr>tsl_used := True\<rparr>) g)) (CT_Claimed i)"
| sets_up: "c = tt_next g \<Longrightarrow>
    ctimer_act prompt g (CT_Claimed i) ((upd_slot i (\<lambda>t. t\<lparr>tsl_callback := Some c\<rparr>) g)\<lparr>tt_next := Suc c\<rparr>) (CT_New i c)"
| created: "ctimer_act prompt g (CT_New i c) (upd_phase i (P_Live c) g) CT_Idle"
| no_timer: "ctimer_act prompt g (CT_New i c) (upd_slot i (\<lambda>t. t\<lparr>tsl_callback := None\<rparr>) g) (CT_Failed i)"
| failed: "ctimer_act prompt g (CT_Failed i) (upd_phase i P_Free (upd_slot i (\<lambda>t. t\<lparr>tsl_used := False\<rparr>) g)) CT_Idle"
| fire: "prompt \<Longrightarrow> tt_phase g i = P_Live c \<Longrightarrow> n \<notin> tsl_inCallback (tt_slot g i) \<Longrightarrow>
    ctimer_act prompt g CT_Idle (upd_slot i (\<lambda>t. t\<lparr>tsl_inCallback := insert n (tsl_inCallback t)\<rparr>) g) (CT_Counted i n c)"
| hand_over: "\<not> prompt \<Longrightarrow> tt_phase g i = P_Live c \<Longrightarrow> ctimer_act prompt g CT_Idle g (CT_Late i c)"
| count_in: "n \<notin> tsl_inCallback (tt_slot g i) \<Longrightarrow>
    ctimer_act prompt g (CT_Late i c) (upd_slot i (\<lambda>t. t\<lparr>tsl_inCallback := insert n (tsl_inCallback t)\<rparr>) g) (CT_Counted i n c)"
| look: "ctimer_act prompt g (CT_Counted i n c) g (if tsl_used (tt_slot g i) then CT_Checked i n c else CT_Uncount i n)"
| pick: "ctimer_act prompt g (CT_Checked i n c) g
    (case tsl_callback (tt_slot g i) of None \<Rightarrow> CT_Uncount i n | Some d \<Rightarrow> CT_Call i n c d)"
| called: "ctimer_act prompt g (CT_Call i n c d) g (CT_Uncount i n)"
| uncount: "ctimer_act prompt g (CT_Uncount i n) (upd_slot i (\<lambda>t. t\<lparr>tsl_inCallback := tsl_inCallback t - {n}\<rparr>) g) CT_Idle"
| delete: "tt_phase g i = P_Live c \<Longrightarrow> ctimer_act prompt g CT_Idle (upd_phase i (P_Deleting c) g) (CT_Deleting i c)"
| waits: "tsl_inCallback (tt_slot g i) \<noteq> {} \<Longrightarrow> ctimer_act prompt g (CT_Deleting i c) g (CT_Deleting i c)"
| waited: "tsl_inCallback (tt_slot g i) = {} \<Longrightarrow>
    ctimer_act prompt g (CT_Deleting i c) (upd_phase i (P_Clearing c) g) (CT_Freed i c)"
| clear: "ctimer_act prompt g (CT_Freed i c) (upd_slot i (\<lambda>t. t\<lparr>tsl_callback := None\<rparr>) g) (CT_Clear i c)"
| free: "ctimer_act prompt g (CT_Clear i c)
    (upd_phase i P_Free ((upd_slot i (\<lambda>t. t\<lparr>tsl_used := False\<rparr>) g)\<lparr>tt_deleted := insert c (tt_deleted g)\<rparr>)) CT_Idle"

definition TimerSlot_free :: TimerSlot where
  "TimerSlot_free = \<lparr>tsl_used = False, tsl_inCallback = {}, tsl_callback = None\<rparr>"

definition ctimer_start :: "timer_table \<Rightarrow> (nat \<Rightarrow> ctimer_user) \<Rightarrow> bool" where
  "ctimer_start g ls \<longleftrightarrow>
    g = \<lparr>tt_slot = (\<lambda>_. TimerSlot_free), tt_phase = (\<lambda>_. P_Free), tt_next = 0, tt_deleted = {}\<rparr> \<and> ls = (\<lambda>_. CT_Idle)"

text \<open>The slot a task sets up or takes down, and the count of a callback it is in.\<close>

fun controls :: "ctimer_user \<Rightarrow> nat set" where
  "controls (CT_Claimed i) = {i}"
| "controls (CT_New i c) = {i}"
| "controls (CT_Failed i) = {i}"
| "controls (CT_Deleting i c) = {i}"
| "controls (CT_Freed i c) = {i}"
| "controls (CT_Clear i c) = {i}"
| "controls _ = {}"

fun counted :: "ctimer_user \<Rightarrow> (nat \<times> nat) set" where
  "counted (CT_Counted i n c) = {(i, n)}"
| "counted (CT_Checked i n c) = {(i, n)}"
| "counted (CT_Call i n c d) = {(i, n)}"
| "counted (CT_Uncount i n) = {(i, n)}"
| "counted _ = {}"

fun owner :: "slot_phase \<Rightarrow> nat set" where
  "owner (P_Live c) = {c}"
| "owner (P_Deleting c) = {c}"
| "owner (P_Clearing c) = {c}"
| "owner _ = {}"

text \<open>While a callback is counted, its timer is there, or its deletion waits.\<close>

definition serves :: "timer_table \<Rightarrow> nat \<Rightarrow> nat \<Rightarrow> bool" where
  "serves g i c \<longleftrightarrow> tt_phase g i \<in> {P_Live c, P_Deleting c}"

definition slot_ok :: "timer_table \<Rightarrow> nat \<Rightarrow> bool" where
  "slot_ok g i \<longleftrightarrow> (tsl_used (tt_slot g i) \<longleftrightarrow> tt_phase g i \<noteq> P_Free) \<and>
     (\<forall>c. serves g i c \<longrightarrow> tsl_callback (tt_slot g i) = Some c) \<and>
     (tsl_inCallback (tt_slot g i) \<noteq> {} \<longrightarrow> (\<exists>c. serves g i c)) \<and>
     owner (tt_phase g i) \<inter> tt_deleted g = {} \<and> owner (tt_phase g i) \<subseteq> {..<tt_next g} \<and>
     (\<forall>c. tsl_callback (tt_slot g i) = Some c \<longrightarrow> c < tt_next g)"

definition table_ok :: "timer_table \<Rightarrow> bool" where
  "table_ok g \<longleftrightarrow> (\<forall>i. slot_ok g i) \<and> tt_deleted g \<subseteq> {..<tt_next g} \<and>
     (\<forall>i j. owner (tt_phase g i) \<inter> owner (tt_phase g j) \<noteq> {} \<longrightarrow> i = j)"

fun user_at :: "timer_table \<Rightarrow> ctimer_user \<Rightarrow> bool" where
  "user_at g CT_Idle = True"
| "user_at g (CT_Claimed i) = (tt_phase g i = P_Setup)"
| "user_at g (CT_New i c) = (tt_phase g i = P_Setup \<and> tsl_callback (tt_slot g i) = Some c \<and> c < tt_next g \<and>
     c \<notin> tt_deleted g \<and> (\<forall>j. c \<notin> owner (tt_phase g j)))"
| "user_at g (CT_Failed i) = (tt_phase g i = P_Setup)"
| "user_at g (CT_Late i c) = False"
| "user_at g (CT_Counted i n c) = (n \<in> tsl_inCallback (tt_slot g i) \<and> serves g i c)"
| "user_at g (CT_Checked i n c) = (n \<in> tsl_inCallback (tt_slot g i) \<and> serves g i c)"
| "user_at g (CT_Call i n c d) = (n \<in> tsl_inCallback (tt_slot g i) \<and> serves g i c \<and> d = c)"
| "user_at g (CT_Uncount i n) = (n \<in> tsl_inCallback (tt_slot g i))"
| "user_at g (CT_Deleting i c) = (tt_phase g i = P_Deleting c)"
| "user_at g (CT_Freed i c) = (tt_phase g i = P_Clearing c)"
| "user_at g (CT_Clear i c) = (tt_phase g i = P_Clearing c)"

fun brings :: "ctimer_user \<Rightarrow> nat set" where
  "brings (CT_New i c) = {c}"
| "brings _ = {}"

definition ctimer_apart :: "ctimer_user \<Rightarrow> ctimer_user \<Rightarrow> bool" where
  "ctimer_apart l m \<longleftrightarrow> controls l \<inter> controls m = {} \<and> counted l \<inter> counted m = {} \<and> brings l \<inter> brings m = {}"

lemma slot_simps [simp]:
  "tt_slot (upd_phase i p g) = tt_slot g" "tt_next (upd_phase i p g) = tt_next g" "tt_deleted (upd_phase i p g) = tt_deleted g"
  "tt_phase (upd_slot i f g) = tt_phase g" "tt_next (upd_slot i f g) = tt_next g" "tt_deleted (upd_slot i f g) = tt_deleted g"
  "tt_phase (upd_phase i p g) j = (if j = i then p else tt_phase g j)"
  "tt_slot (upd_slot i f g) j = (if j = i then f (tt_slot g i) else tt_slot g j)"
  by (simp_all add: upd_phase_def upd_slot_def)

lemma serves_simps [simp]:
  "serves (upd_slot i f g) j c = serves g j c" "serves (g\<lparr>tt_next := k\<rparr>) j c = serves g j c"
  "serves (g\<lparr>tt_deleted := D\<rparr>) j c = serves g j c"
  "serves (upd_phase i p g) j c = (if j = i then p \<in> {P_Live c, P_Deleting c} else serves g j c)"
  by (auto simp: serves_def)

lemma owner_ok:
  "table_ok g \<Longrightarrow> owner (tt_phase g i) \<subseteq> {..<tt_next g} \<and> owner (tt_phase g i) \<inter> tt_deleted g = {}"
  by (simp add: table_ok_def slot_ok_def)

lemma ctimer_own:
  assumes "table_ok g" and "user_at g l" and "ctimer_act True g l g' l'"
  shows "table_ok g' \<and> user_at g' l'"
  using assms(3)
proof (cases rule: ctimer_act.cases)
  case (claim i)
  then show ?thesis using assms(1) by (auto simp: table_ok_def slot_ok_def serves_def)
next
  case (sets_up c i)
  have "\<forall>j. owner (tt_phase g j) \<subseteq> {..<Suc (tt_next g)}" "\<forall>j. tt_next g \<notin> owner (tt_phase g j)"
    "tt_next g \<notin> tt_deleted g" "tt_deleted g \<subseteq> {..<Suc (tt_next g)}"
    using assms(1) by (fastforce simp: table_ok_def slot_ok_def)+
  moreover have "tsl_inCallback (tt_slot g i) = {}" using assms sets_up by (auto simp: table_ok_def slot_ok_def serves_def)
  ultimately show ?thesis using sets_up assms(1,2) by (simp add: table_ok_def slot_ok_def less_Suc_eq serves_def)
next
  case (fire i c n)
  with owner_ok [OF assms(1), of i] have "serves g i c" "c < tt_next g" by (simp_all add: serves_def)
  with fire assms(1) show ?thesis by (auto simp: table_ok_def slot_ok_def)
next
  case (created i c)
  then show ?thesis
    using assms(1,2) owner_ok [OF assms(1), of i] by (auto simp: table_ok_def slot_ok_def serves_def split: option.split)
next
  case (no_timer i c)
  then show ?thesis
    using assms(1,2) owner_ok [OF assms(1), of i] by (auto simp: table_ok_def slot_ok_def serves_def split: option.split)
next
  case (failed i)
  then show ?thesis
    using assms(1,2) owner_ok [OF assms(1), of i] by (auto simp: table_ok_def slot_ok_def serves_def split: option.split)
next
  case (pick i n c)
  then show ?thesis
    using assms(1,2) owner_ok [OF assms(1), of i] by (auto simp: table_ok_def slot_ok_def serves_def split: option.split)
next
  case (uncount i n)
  then show ?thesis
    using assms(1,2) owner_ok [OF assms(1), of i] by (auto simp: table_ok_def slot_ok_def serves_def split: option.split)
next
  case (delete i c)
  then show ?thesis
    using assms(1,2) owner_ok [OF assms(1), of i] by (auto simp: table_ok_def slot_ok_def serves_def split: option.split)
next
  case (waited i c)
  then show ?thesis
    using assms(1,2) owner_ok [OF assms(1), of i] by (auto simp: table_ok_def slot_ok_def serves_def split: option.split)
next
  case (clear i c)
  then show ?thesis
    using assms(1,2) owner_ok [OF assms(1), of i] by (auto simp: table_ok_def slot_ok_def serves_def split: option.split)
next
  case (free i c)
  then show ?thesis
    using assms(1,2) owner_ok [OF assms(1), of i] by (auto simp: table_ok_def slot_ok_def serves_def split: option.split)
qed (use assms in auto)

lemma ctimer_others:
  assumes "table_ok g" and "user_at g l" and "ctimer_act True g l g' l'" and "user_at g m" and "ctimer_apart l m"
  shows "user_at g' m"
proof -
  have used: "tsl_used (tt_slot g i) \<longleftrightarrow> tt_phase g i \<noteq> P_Free" for i using assms(1) by (simp add: table_ok_def slot_ok_def)
  have owned: "owner (tt_phase g i) \<subseteq> {..<tt_next g}" for i using assms(1) by (simp add: table_ok_def slot_ok_def)
  show ?thesis
    using assms(3)
  proof (cases rule: ctimer_act.cases)
    case (claim i)
    then show ?thesis using assms(4,5) used [of i] by (cases m) (auto simp: serves_def)
  next
    case (sets_up c i)
    then show ?thesis using assms(2,4,5) by (cases m) (auto simp: ctimer_apart_def serves_def)
  next
    case (created i c)
    then show ?thesis using assms(2,4,5) by (cases m) (auto simp: ctimer_apart_def serves_def)
  next
    case (no_timer i c)
    then show ?thesis using assms(2,4,5) by (cases m) (auto simp: ctimer_apart_def serves_def)
  next
    case (failed i)
    then show ?thesis using assms(2,4,5) by (cases m) (auto simp: ctimer_apart_def serves_def)
  next
    case (fire i c n)
    then show ?thesis using assms(4,5) by (cases m) auto
  next
    case (uncount i n)
    then show ?thesis using assms(4,5) by (cases m) (auto simp: ctimer_apart_def)
  next
    case (delete i c)
    then have "c \<notin> brings m" using assms(4) by (cases m) (auto dest: spec [of _ i])
    with delete show ?thesis using assms(4) by (cases m) (auto simp: serves_def)
  next
    case (waited i c)
    then have "c \<notin> brings m" using assms(2,4) by (cases m) (auto dest: spec [of _ i])
    with waited show ?thesis using assms(2,4,5) by (cases m) (auto simp: ctimer_apart_def serves_def)
  next
    case (clear i c)
    then show ?thesis using assms(2,4,5) by (cases m) (auto simp: ctimer_apart_def serves_def)
  next
    case (free i c)
    then have "c \<notin> brings m" using assms(2,4) by (cases m) (auto dest: spec [of _ i])
    with free show ?thesis using assms(2,4,5) by (cases m) (auto simp: ctimer_apart_def serves_def)
  qed (use assms(2,4) in auto)
qed

lemma ctimer_stays_apart:
  assumes "table_ok g" and "user_at g l" and "ctimer_act True g l g' l'" and "user_at g m" and "ctimer_apart l m"
  shows "ctimer_apart l' m"
  using assms(3)
proof (cases rule: ctimer_act.cases)
  case (claim i)
  then show ?thesis using assms(1,4,5) by (cases m) (auto simp: ctimer_apart_def table_ok_def slot_ok_def)
next
  case (sets_up c i)
  then show ?thesis using assms(4,5) by (cases m) (auto simp: ctimer_apart_def)
next
  case (fire i c n)
  then show ?thesis using assms(4,5) by (cases m) (auto simp: ctimer_apart_def)
next
  case (pick i n c)
  then show ?thesis using assms(5) by (auto simp: ctimer_apart_def split: option.split)
next
  case (delete i c)
  then show ?thesis using assms(4,5) by (cases m) (auto simp: ctimer_apart_def)
qed (use assms(2,5) in \<open>auto simp: ctimer_apart_def\<close>)

interpretation cmsis_timers: interleaving "ctimer_act True" ctimer_start "\<lambda>g l. table_ok g \<and> user_at g l" ctimer_apart
proof
  show "table_ok g' \<and> user_at g' l'" if "table_ok g \<and> user_at g l" "ctimer_act True g l g' l'" for g l g' l'
    using that ctimer_own by blast
  show "table_ok g' \<and> user_at g' m"
    if "table_ok g \<and> user_at g l" "ctimer_act True g l g' l'" "table_ok g \<and> user_at g m" "ctimer_apart l m" for g l g' l' m
    using that ctimer_own ctimer_others by blast
  show "ctimer_apart l' m"
    if "table_ok g \<and> user_at g l" "ctimer_act True g l g' l'" "table_ok g \<and> user_at g m" "ctimer_apart l m" for g l g' l' m
    using that ctimer_stays_apart by blast
  show "ctimer_apart m l" if "ctimer_apart l m" for l m using that by (auto simp: ctimer_apart_def)
qed (auto simp: ctimer_start_def ctimer_apart_def table_ok_def slot_ok_def TimerSlot_free_def serves_def)

text \<open>A deleted timer of the target is quiet, and slots that are used again do not mix timers up: in every interleaving
  of creations, expiries and deletions a callback that runs is the one of the timer that expired, and that timer has
  not been deleted. This rests on the kernel handing timers over promptly.\<close>
theorem cmsis_deleted_timer_is_quiet:
  assumes "interleaved (ctimer_act True) ctimer_start g ls"
  shows "(\<forall>t i n c d. ls t = CT_Call i n c d \<longrightarrow> d = c \<and> c \<notin> tt_deleted g) \<and>
    (\<forall>i c. tt_phase g i = P_Live c \<longrightarrow> c \<notin> tt_deleted g \<and> tsl_callback (tt_slot g i) = Some c)"
proof -
  have ok: "table_ok g" "user_at g (ls t)" for t using cmsis_timers.tasks_ok [OF assms] by blast+
  have "d = c \<and> c \<notin> tt_deleted g" if "ls t = CT_Call i n c d" for t i n c d
    using ok(2) [of t] ok(1) that by (auto simp: table_ok_def slot_ok_def serves_def)
  moreover have "c \<notin> tt_deleted g \<and> tsl_callback (tt_slot g i) = Some c" if "tt_phase g i = P_Live c" for i c
    using ok(1) that by (auto simp: table_ok_def slot_ok_def serves_def dest!: spec [of _ i])
  ultimately show ?thesis by blast
qed

section \<open>Examples\<close>

definition demo_table :: "bool \<Rightarrow> nat set \<Rightarrow> nat option \<Rightarrow> slot_phase \<Rightarrow> nat \<Rightarrow> nat set \<Rightarrow> timer_table" where
  "demo_table used inCallback callback phase nextId deleted =
    \<lparr>tt_slot = (\<lambda>_. TimerSlot_free)(0 := \<lparr>tsl_used = used, tsl_inCallback = inCallback, tsl_callback = callback\<rparr>),
     tt_phase = (\<lambda>_. P_Free)(0 := phase), tt_next = nextId, tt_deleted = deleted\<rparr>"

definition demo_two :: "ctimer_user \<Rightarrow> ctimer_user \<Rightarrow> nat \<Rightarrow> ctimer_user" where
  "demo_two client timer = (\<lambda>_. CT_Idle)(0 := client, 1 := timer)"

lemma demo_two_go:
  assumes "interleaved act start g (demo_two a b)"
  shows "act g a g' a' \<Longrightarrow> interleaved act start g' (demo_two a' b)"
    "act g b g' b' \<Longrightarrow> interleaved act start g' (demo_two a b')"
  using interleaved.moves [OF assms, of 0 g' a'] interleaved.moves [OF assms, of 1 g' b']
  by (auto simp: demo_two_def fun_upd_twist)

inductive_simps ctimer_act_simps:
  "ctimer_act p g CT_Idle g' (CT_Claimed i)" "ctimer_act p g (CT_Claimed i) g' l'" "ctimer_act p g (CT_New i c) g' CT_Idle"
  "ctimer_act p g CT_Idle g' (CT_Late i c)" "ctimer_act p g CT_Idle g' (CT_Counted i n c)"
  "ctimer_act p g CT_Idle g' (CT_Deleting i c)" "ctimer_act p g (CT_Deleting i c) g' (CT_Freed j d)"
  "ctimer_act p g (CT_Late i c) g' l'" "ctimer_act p g (CT_Counted i n c) g' l'" "ctimer_act p g (CT_Checked i n c) g' l'"
  "ctimer_act p g (CT_Freed i c) g' l'" "ctimer_act p g (CT_Clear i c) g' l'"

lemmas demo_table_defs = ctimer_act_simps demo_table_def upd_slot_def upd_phase_def TimerSlot_free_def CMSIS_MAX_TIMERS_def

text \<open>A deletion that waits for the callback that runs.\<close>

lemma demo_callback:
  "interleaved (ctimer_act True) ctimer_start (demo_table True {0} (Some 0) (P_Deleting 0) 1 {}) (demo_two (CT_Deleting 0 0) (CT_Call 0 0 0 0))"
proof -
  have t0: "interleaved (ctimer_act True) ctimer_start (demo_table False {} None P_Free 0 {}) (demo_two CT_Idle CT_Idle)"
    by (rule interleaved.begins) (auto simp: ctimer_start_def demo_table_def demo_two_def TimerSlot_free_def)
  have s1: "ctimer_act True (demo_table False {} None P_Free 0 {}) CT_Idle
      (demo_table True {} None P_Setup 0 {}) (CT_Claimed 0)"
    by (auto simp: demo_table_defs)
  have s2: "ctimer_act True (demo_table True {} None P_Setup 0 {}) (CT_Claimed 0)
      (demo_table True {} (Some 0) P_Setup 1 {}) (CT_New 0 0)"
    by (auto simp: demo_table_defs)
  have s3: "ctimer_act True (demo_table True {} (Some 0) P_Setup 1 {}) (CT_New 0 0)
      (demo_table True {} (Some 0) (P_Live 0) 1 {}) CT_Idle"
    by (auto simp: demo_table_defs)
  have s4: "ctimer_act True (demo_table True {} (Some 0) (P_Live 0) 1 {}) CT_Idle
      (demo_table True {0} (Some 0) (P_Live 0) 1 {}) (CT_Counted 0 0 0)"
    by (auto simp: demo_table_defs)
  have s5: "ctimer_act True (demo_table True {0} (Some 0) (P_Live 0) 1 {}) CT_Idle
      (demo_table True {0} (Some 0) (P_Deleting 0) 1 {}) (CT_Deleting 0 0)"
    by (auto simp: demo_table_defs)
  have s6: "ctimer_act True (demo_table True {0} (Some 0) (P_Deleting 0) 1 {}) (CT_Counted 0 0 0)
      (demo_table True {0} (Some 0) (P_Deleting 0) 1 {}) (CT_Checked 0 0 0)"
    by (auto simp: demo_table_defs)
  have s7: "ctimer_act True (demo_table True {0} (Some 0) (P_Deleting 0) 1 {}) (CT_Checked 0 0 0)
      (demo_table True {0} (Some 0) (P_Deleting 0) 1 {}) (CT_Call 0 0 0 0)"
    by (auto simp: demo_table_defs)
  note t1 = demo_two_go(1) [OF t0 s1]
  note t2 = demo_two_go(1) [OF t1 s2]
  note t3 = demo_two_go(1) [OF t2 s3]
  note t4 = demo_two_go(2) [OF t3 s4]
  note t5 = demo_two_go(1) [OF t4 s5]
  note t6 = demo_two_go(2) [OF t5 s6]
  note t7 = demo_two_go(2) [OF t6 s7]
  show ?thesis by (rule t7)
qed

theorem cmsis_deleted_timer_is_quiet_witness:
  "interleaved (ctimer_act True) ctimer_start (demo_table True {0} (Some 0) (P_Deleting 0) 1 {}) (demo_two (CT_Deleting 0 0) (CT_Call 0 0 0 0)) \<and>
   0 \<notin> tt_deleted (demo_table True {0} (Some 0) (P_Deleting 0) 1 {})"
proof -
  have "demo_two (CT_Deleting 0 0) (CT_Call 0 0 0 0) 1 = CT_Call 0 0 0 0" by (simp add: demo_two_def)
  with cmsis_deleted_timer_is_quiet [OF demo_callback] demo_callback show ?thesis by blast
qed


text \<open>
  Without prompt handing over it would not be so: a trampoline that has not counted itself when the deletion looks calls
  the callback of a timer that is deleted by then.
\<close>

lemma demo_late:
  "interleaved (ctimer_act False) ctimer_start (demo_table False {0} None P_Free 1 {0}) (demo_two CT_Idle (CT_Call 0 0 0 0))"
proof -
  have t0: "interleaved (ctimer_act False) ctimer_start (demo_table False {} None P_Free 0 {}) (demo_two CT_Idle CT_Idle)"
    by (rule interleaved.begins) (auto simp: ctimer_start_def demo_table_def demo_two_def TimerSlot_free_def)
  have s1: "ctimer_act False (demo_table False {} None P_Free 0 {}) CT_Idle
      (demo_table True {} None P_Setup 0 {}) (CT_Claimed 0)"
    by (auto simp: demo_table_defs)
  have s2: "ctimer_act False (demo_table True {} None P_Setup 0 {}) (CT_Claimed 0)
      (demo_table True {} (Some 0) P_Setup 1 {}) (CT_New 0 0)"
    by (auto simp: demo_table_defs)
  have s3: "ctimer_act False (demo_table True {} (Some 0) P_Setup 1 {}) (CT_New 0 0)
      (demo_table True {} (Some 0) (P_Live 0) 1 {}) CT_Idle"
    by (auto simp: demo_table_defs)
  have s4: "ctimer_act False (demo_table True {} (Some 0) (P_Live 0) 1 {}) CT_Idle
      (demo_table True {} (Some 0) (P_Live 0) 1 {}) (CT_Late 0 0)"
    by (auto simp: demo_table_defs)
  have s5: "ctimer_act False (demo_table True {} (Some 0) (P_Live 0) 1 {}) CT_Idle
      (demo_table True {} (Some 0) (P_Deleting 0) 1 {}) (CT_Deleting 0 0)"
    by (auto simp: demo_table_defs)
  have s6: "ctimer_act False (demo_table True {} (Some 0) (P_Deleting 0) 1 {}) (CT_Deleting 0 0)
      (demo_table True {} (Some 0) (P_Clearing 0) 1 {}) (CT_Freed 0 0)"
    by (auto simp: demo_table_defs)
  have s7: "ctimer_act False (demo_table True {} (Some 0) (P_Clearing 0) 1 {}) (CT_Late 0 0)
      (demo_table True {0} (Some 0) (P_Clearing 0) 1 {}) (CT_Counted 0 0 0)"
    by (auto simp: demo_table_defs)
  have s8: "ctimer_act False (demo_table True {0} (Some 0) (P_Clearing 0) 1 {}) (CT_Counted 0 0 0)
      (demo_table True {0} (Some 0) (P_Clearing 0) 1 {}) (CT_Checked 0 0 0)"
    by (auto simp: demo_table_defs)
  have s9: "ctimer_act False (demo_table True {0} (Some 0) (P_Clearing 0) 1 {}) (CT_Checked 0 0 0)
      (demo_table True {0} (Some 0) (P_Clearing 0) 1 {}) (CT_Call 0 0 0 0)"
    by (auto simp: demo_table_defs)
  have s10: "ctimer_act False (demo_table True {0} (Some 0) (P_Clearing 0) 1 {}) (CT_Freed 0 0)
      (demo_table True {0} None (P_Clearing 0) 1 {}) (CT_Clear 0 0)"
    by (auto simp: demo_table_defs)
  have s11: "ctimer_act False (demo_table True {0} None (P_Clearing 0) 1 {}) (CT_Clear 0 0)
      (demo_table False {0} None P_Free 1 {0}) CT_Idle"
    by (auto simp: demo_table_defs)
  note t1 = demo_two_go(1) [OF t0 s1]
  note t2 = demo_two_go(1) [OF t1 s2]
  note t3 = demo_two_go(1) [OF t2 s3]
  note t4 = demo_two_go(2) [OF t3 s4]
  note t5 = demo_two_go(1) [OF t4 s5]
  note t6 = demo_two_go(1) [OF t5 s6]
  note t7 = demo_two_go(2) [OF t6 s7]
  note t8 = demo_two_go(2) [OF t7 s8]
  note t9 = demo_two_go(2) [OF t8 s9]
  note t10 = demo_two_go(1) [OF t9 s10]
  note t11 = demo_two_go(1) [OF t10 s11]
  show ?thesis by (rule t11)
qed

theorem late_timer_runs_after_delete:
  "\<exists>g ls i n c. interleaved (ctimer_act False) ctimer_start g ls \<and> ls 1 = CT_Call i n c c \<and> c \<in> tt_deleted g"
  using demo_late
  by (intro exI [of _ "(demo_table False {0} None P_Free 1 {0})"] exI [of _ "demo_two CT_Idle (CT_Call 0 0 0 0)"] exI [of _ 0])
    (simp add: demo_two_def demo_table_def)

end
