(* ===== verification/Loop_Shutdown.thy ===== *)
theory Loop_Shutdown
  imports Interleaving Event_Loop
begin

text \<open>
  How the main loop is taken down, \<open>utils/mini/src/los_event_handler.cpp\<close>, at the grain of its atomic variables and
  critical sections: \<open>Stop\<close> against callers, the timer callback and the loop task. Theories \<open>Event_Loop\<close> and
  \<open>Sync_Calls\<close> take a post as one step; here the load of the state, the lock and the post of the semaphore are steps of
  their own. What a task does when it runs, and the table of delayed tasks, do not matter here.
\<close>

section \<open>WaitUntil\<close>

definition STOP_POLL_MS :: "32 word" where
  "STOP_POLL_MS = 1"

definition STOP_WAIT_MS :: "32 word" where
  "STOP_WAIT_MS = word_of_nat MINI_SYNC_WAIT_MS + 1000"

lemma poll_counts:
  assumes "waited < timeoutMs"
  shows "unat (waited + STOP_POLL_MS) = Suc (unat waited)"
proof -
  have "unat timeoutMs < 4294967296" by (rule order_less_le_trans [OF unsigned_less]) simp
  with assms show ?thesis by (simp add: STOP_POLL_MS_def word_less_nat_alt unat_word_ariths)
qed

text \<open>
  \<open>ready\<close> is the condition that is waited for, at each tick of the clock; a delay takes the ticks it asks for. The answer
  comes with the tick at which it was given.
\<close>

function WaitUntil :: "nat \<Rightarrow> (nat \<Rightarrow> bool) \<Rightarrow> 32 word \<Rightarrow> 32 word \<Rightarrow> nat \<Rightarrow> bool \<times> nat" where
  "WaitUntil tickFreq ready timeoutMs waited now =
    (if waited < timeoutMs
     then if ready now then (True, now)
       else WaitUntil tickFreq ready timeoutMs (waited + STOP_POLL_MS) (now + unat (TelOsMsToTicks tickFreq STOP_POLL_MS))
     else (ready now, now))"
  by pat_completeness auto

termination
  by (relation "measure (\<lambda>(_, _, timeoutMs, waited, _). unat timeoutMs - unat waited)")
    (auto simp: poll_counts word_less_nat_alt)

declare WaitUntil.simps [simp del]

text \<open>C21. A wait of \<open>Stop\<close> ends, after at most as many polls as it has milliseconds to wait: it answers at the first poll
  that finds the condition, or what the condition is after the last. Each poll takes a whole tick of the kernel or
  more, so the wait is in ticks what it says in milliseconds.\<close>
theorem WaitUntil_ends:
  "\<exists>k \<le> unat timeoutMs. let t = (\<lambda>j. now + j * unat (TelOsMsToTicks tickFreq STOP_POLL_MS)) in
     WaitUntil tickFreq ready timeoutMs 0 now = (ready (t k), t k) \<and> (\<forall>j < k. \<not> ready (t j)) \<and>
     (k < unat timeoutMs \<longrightarrow> ready (t k))"
proof -
  let ?d = "unat (TelOsMsToTicks tickFreq STOP_POLL_MS)"
  have "waited \<le> timeoutMs \<Longrightarrow> \<exists>k \<le> unat timeoutMs - unat waited.
     WaitUntil tickFreq ready timeoutMs waited now = (ready (now + k * ?d), now + k * ?d) \<and>
     (\<forall>j < k. \<not> ready (now + j * ?d)) \<and> (k < unat timeoutMs - unat waited \<longrightarrow> ready (now + k * ?d))" for waited
  proof (induction "unat timeoutMs - unat waited" arbitrary: waited now)
    case 0
    then have "\<not> waited < timeoutMs" by (simp add: word_less_nat_alt)
    with 0 show ?case by (intro exI [of _ 0]) (simp add: WaitUntil.simps [of tickFreq ready timeoutMs _ now])
  next
    case (Suc r)
    then have less: "waited < timeoutMs" by (simp add: word_less_nat_alt)
    show ?case
    proof (cases "ready now")
      case True
      then show ?thesis using less by (intro exI [of _ 0]) (simp add: WaitUntil.simps [of _ _ _ waited])
    next
      case False
      have "r = unat timeoutMs - unat (waited + STOP_POLL_MS)" "waited + STOP_POLL_MS \<le> timeoutMs"
        using Suc.hyps(2) less by (simp_all add: poll_counts word_le_nat_alt word_less_nat_alt)
      from Suc.hyps(1) [OF this, of "now + ?d"] obtain k where k: "k \<le> r"
        "WaitUntil tickFreq ready timeoutMs (waited + STOP_POLL_MS) (now + ?d) =
          (ready (now + ?d + k * ?d), now + ?d + k * ?d)"
        "\<forall>j < k. \<not> ready (now + ?d + j * ?d)" "k < r \<longrightarrow> ready (now + ?d + k * ?d)"
        using \<open>r = _\<close> by metis
      then show ?thesis
        using False less Suc.hyps(2)
        by (intro exI [of _ "Suc k"])
          (auto simp: WaitUntil.simps [of _ _ _ waited] less_Suc_eq_0_disj add.assoc)
    qed
  qed
  from this [of 0] show ?thesis by (simp add: Let_def)
qed

text \<open>At 100 ticks in a second the wait of four seconds takes up to forty.\<close>

theorem WaitUntil_ends_witness:
  "WaitUntil 100 (\<lambda>_. False) STOP_WAIT_MS 0 0 = (False, 4000)"
proof -
  have "unat (TelOsMsToTicks 100 STOP_POLL_MS) = 1" "unat STOP_WAIT_MS = 4000"
    by (simp_all add: TelOsMsToTicks_def STOP_POLL_MS_def STOP_WAIT_MS_def MINI_SYNC_WAIT_MS_def TEL_OS_WAIT_FOREVER_def
        TEL_OS_MAX_FINITE_TICKS_def)
  with WaitUntil_ends [of STOP_WAIT_MS 0 100 "\<lambda>_. False"] show ?thesis
    by (auto simp: Let_def)
qed

section \<open>The tasks at the loop\<close>

datatype gate_message = M_Async | M_Sync nat | M_Timer

datatype call_kind = K_Post | K_Sync | K_Expired

text \<open>
  A caller is in \<open>PostAsyncTask\<close> or \<open>RemoveAsyncTask\<close> (\<open>K_Post\<close>), \<open>PostSyncTask\<close> (\<open>K_Sync\<close>) or \<open>OnTimerExpired\<close>
  (\<open>K_Expired\<close>); the first number of its states names its call (the object \<open>LosEventHandlerCall\<close> on its stack).
  \<^item> \<open>G_Enter\<close> has counted itself in and loads the state; \<open>G_Inside\<close> saw it running; \<open>G_Leave\<close> is the destructor.
  \<^item> \<open>G_Enqueue\<close> loads the state again, \<open>G_Put\<close> takes the lock, \<open>G_Signal\<close> posts the semaphore, \<open>G_Undo\<close> takes back what a
    failed post prepared; \<open>G_Wait n s\<close> waits for the semaphore of slot \<open>s\<close>.
  \<^item> The loop task is in \<open>RunLoop\<close>: at its semaphore, about to pop, with what it popped and whether it saw a stop, in the
    drain, and gone.
  \<^item> \<open>Stop\<close>: the timer and the delayed tasks, the semaphore, the wait for the loop, the three parts of the condition of the
    last wait in their order, the release, the last store.
  A task that runs on the loop and posts is a caller beside it.
\<close>

datatype gate_task =
    G_Idle
  | G_Enter nat call_kind
  | G_Inside nat call_kind
  | G_Enqueue nat gate_message
  | G_Put nat gate_message
  | G_Signal nat gate_message
  | G_Undo nat gate_message
  | G_Wait nat nat
  | G_Leave nat
  | R_Wait
  | R_Pop
  | R_Popped "gate_message option" bool
  | R_Drain
  | R_Recycle gate_message
  | R_Exit
  | R_Gone
  | T_Timer
  | T_Post
  | T_Join
  | T_Active
  | T_Queued
  | T_Slots
  | T_Release
  | T_Uninit

text \<open>
  \<open>lg_calls\<close> are the calls that \<open>activeCalls_\<close> counts; \<open>lg_slots\<close> the slots in use; \<open>lg_done\<close> and \<open>lg_abandoned\<close> those whose
  context is done, with its semaphore up, or abandoned; \<open>lg_released\<close> how often the kernel objects were released.
\<close>

record gate =
  lg_state :: LoopState
  lg_calls :: "nat set"
  lg_timerMessageQueued :: bool
  lg_loopRunning :: bool
  lg_ring :: "gate_message list"
  lg_queueSem :: nat
  lg_slots :: "nat set"
  lg_done :: "nat set"
  lg_abandoned :: "nat set"
  lg_released :: nat

definition ring_limit :: "gate_message \<Rightarrow> nat" where
  "ring_limit m = (if m = M_Timer then MINI_QUEUE_SIZE + 1 else MINI_QUEUE_SIZE)"

definition post_queueSem :: "gate \<Rightarrow> gate" where
  "post_queueSem g = (if lg_queueSem g < MINI_QUEUE_SIZE + 1 then g\<lparr>lg_queueSem := lg_queueSem g + 1\<rparr> else g)"

text \<open>\<open>Dispatch\<close> and \<open>Recycle\<close> of a message, which here differ only in whether its task runs.\<close>

fun settle :: "gate_message \<Rightarrow> gate \<Rightarrow> gate" where
  "settle M_Async g = g"
| "settle M_Timer g = g\<lparr>lg_timerMessageQueued := False\<rparr>"
| "settle (M_Sync s) g =
    (if s \<in> lg_abandoned g then g\<lparr>lg_slots := lg_slots g - {s}, lg_abandoned := lg_abandoned g - {s}\<rparr>
     else g\<lparr>lg_done := insert s (lg_done g)\<rparr>)"

fun undo_post :: "gate_message \<Rightarrow> gate \<Rightarrow> gate" where
  "undo_post M_Async g = g"
| "undo_post M_Timer g = g\<lparr>lg_timerMessageQueued := False\<rparr>"
| "undo_post (M_Sync s) g = g\<lparr>lg_slots := lg_slots g - {s}\<rparr>"

fun after_signal :: "nat \<Rightarrow> gate_message \<Rightarrow> gate_task" where
  "after_signal n (M_Sync s) = G_Wait n s"
| "after_signal n _ = G_Leave n"

inductive gate_act :: "gate \<Rightarrow> gate_task \<Rightarrow> gate \<Rightarrow> gate_task \<Rightarrow> bool" where
  enter: "n \<notin> lg_calls g \<Longrightarrow> gate_act g G_Idle (g\<lparr>lg_calls := insert n (lg_calls g)\<rparr>) (G_Enter n k)"
| check: "gate_act g (G_Enter n k) g (if lg_state g = STATE_RUNNING then G_Inside n k else G_Leave n)"
| delayed: "gate_act g (G_Inside n K_Post) g (G_Leave n)"
| posts: "gate_act g (G_Inside n K_Post) g (G_Enqueue n M_Async)"
| acquire: "s \<notin> lg_slots g \<Longrightarrow> s < MINI_MAX_SYNC_WAITERS \<Longrightarrow>
    gate_act g (G_Inside n K_Sync) (g\<lparr>lg_slots := insert s (lg_slots g)\<rparr>) (G_Enqueue n (M_Sync s))"
| no_slot: "{..<MINI_MAX_SYNC_WAITERS} \<subseteq> lg_slots g \<Longrightarrow> gate_act g (G_Inside n K_Sync) g (G_Leave n)"
| expired: "gate_act g (G_Inside n K_Expired) (g\<lparr>lg_timerMessageQueued := True\<rparr>)
    (if lg_timerMessageQueued g then G_Leave n else G_Enqueue n M_Timer)"
| running: "gate_act g (G_Enqueue n m) g (if lg_state g = STATE_RUNNING then G_Put n m else G_Undo n m)"
| put: "length (lg_ring g) < ring_limit m \<Longrightarrow>
    gate_act g (G_Put n m) (g\<lparr>lg_ring := lg_ring g @ [m]\<rparr>) (G_Signal n m)"
| full: "ring_limit m \<le> length (lg_ring g) \<Longrightarrow> gate_act g (G_Put n m) g (G_Undo n m)"
| signal: "gate_act g (G_Signal n m) (post_queueSem g) (after_signal n m)"
| undo: "gate_act g (G_Undo n m) (undo_post m g) (G_Leave n)"
| woken: "s \<in> lg_done g \<Longrightarrow>
    gate_act g (G_Wait n s) (g\<lparr>lg_slots := lg_slots g - {s}, lg_done := lg_done g - {s}\<rparr>) (G_Leave n)"
| timed_out: "s \<notin> lg_done g \<Longrightarrow>
    gate_act g (G_Wait n s) (g\<lparr>lg_abandoned := insert s (lg_abandoned g)\<rparr>) (G_Leave n)"
| leave: "gate_act g (G_Leave n) (g\<lparr>lg_calls := lg_calls g - {n}\<rparr>) G_Idle"
| wake: "0 < lg_queueSem g \<Longrightarrow> gate_act g R_Wait (g\<lparr>lg_queueSem := lg_queueSem g - 1\<rparr>) R_Pop"
| pop_none: "lg_ring g = [] \<Longrightarrow> gate_act g R_Pop g (R_Popped None (lg_state g \<noteq> STATE_RUNNING))"
| pop: "lg_ring g = m # ms \<Longrightarrow>
    gate_act g R_Pop (g\<lparr>lg_ring := ms\<rparr>) (R_Popped (Some m) (lg_state g \<noteq> STATE_RUNNING))"
| nothing: "gate_act g (R_Popped None stopping) g (if stopping then R_Drain else R_Wait)"
| dispatch: "gate_act g (R_Popped (Some m) stopping) (settle m g) (if stopping then R_Drain else R_Wait)"
| drain: "lg_ring g = m # ms \<Longrightarrow> gate_act g R_Drain (g\<lparr>lg_ring := ms\<rparr>) (R_Recycle m)"
| recycle: "gate_act g (R_Recycle m) (settle m g) R_Drain"
| drained: "lg_ring g = [] \<Longrightarrow> gate_act g R_Drain g R_Exit"
| gone: "gate_act g R_Exit (g\<lparr>lg_loopRunning := False\<rparr>) R_Gone"
| stop: "lg_state g = STATE_RUNNING \<Longrightarrow> gate_act g G_Idle (g\<lparr>lg_state := STATE_STOPPING\<rparr>) T_Timer"
| timer_off: "gate_act g T_Timer g T_Post"
| wake_loop: "gate_act g T_Post (post_queueSem g) T_Join"
| joined: "\<not> lg_loopRunning g \<Longrightarrow> gate_act g T_Join g T_Active"
| active: "gate_act g T_Active g (if lg_calls g = {} then T_Queued else T_Active)"
| queued: "gate_act g T_Queued g (if lg_timerMessageQueued g then T_Active else T_Slots)"
| slots: "gate_act g T_Slots g (if lg_slots g = {} then T_Release else T_Active)"
| gives_up: "l \<in> {T_Join, T_Active, T_Queued, T_Slots} \<Longrightarrow> gate_act g l g G_Idle"
| release: "gate_act g T_Release (g\<lparr>lg_released := lg_released g + 1, lg_ring := []\<rparr>) T_Uninit"
| uninit: "gate_act g T_Uninit (g\<lparr>lg_state := STATE_UNINIT\<rparr>) G_Idle"

text \<open>The handler was initialised; its loop task, task 0, waits for work.\<close>

definition gate_init :: gate where
  "gate_init = \<lparr>lg_state = STATE_RUNNING, lg_calls = {}, lg_timerMessageQueued = False, lg_loopRunning = True, lg_ring = [],
     lg_queueSem = 0, lg_slots = {}, lg_done = {}, lg_abandoned = {}, lg_released = 0\<rparr>"

definition gate_start :: "gate \<Rightarrow> (nat \<Rightarrow> gate_task) \<Rightarrow> bool" where
  "gate_start g ls \<longleftrightarrow> g = gate_init \<and> ls = (\<lambda>_. G_Idle)(0 := R_Wait)"

section \<open>What every task may rely on\<close>

text \<open>The call a task is in, whether it may use the kernel objects in it, the message it holds, and the slot it waits for.\<close>

fun call_of :: "gate_task \<Rightarrow> nat set" where
  "call_of (G_Enter n k) = {n}"
| "call_of (G_Inside n k) = {n}"
| "call_of (G_Enqueue n m) = {n}"
| "call_of (G_Put n m) = {n}"
| "call_of (G_Signal n m) = {n}"
| "call_of (G_Undo n m) = {n}"
| "call_of (G_Wait n s) = {n}"
| "call_of (G_Leave n) = {n}"
| "call_of _ = {}"

fun inside :: "gate_task \<Rightarrow> bool" where
  "inside (G_Enter n k) = False"
| "inside (G_Leave n) = False"
| "inside l = (call_of l \<noteq> {})"

definition ticket :: "gate_message \<Rightarrow> gate_message set" where
  "ticket m = (if m = M_Async then {} else {m})"

fun holds :: "gate_task \<Rightarrow> gate_message set" where
  "holds (G_Enqueue n m) = ticket m"
| "holds (G_Put n m) = ticket m"
| "holds (G_Undo n m) = ticket m"
| "holds (R_Popped (Some m) stopping) = ticket m"
| "holds (R_Recycle m) = ticket m"
| "holds _ = {}"

fun slot_of :: "gate_message \<Rightarrow> nat set" where
  "slot_of (M_Sync s) = {s}"
| "slot_of _ = {}"

fun waits_for :: "gate_task \<Rightarrow> nat set" where
  "waits_for (G_Enqueue n m) = slot_of m"
| "waits_for (G_Put n m) = slot_of m"
| "waits_for (G_Undo n m) = slot_of m"
| "waits_for (G_Signal n m) = slot_of m"
| "waits_for (G_Wait n s) = {s}"
| "waits_for _ = {}"

fun on_loop :: "gate_task \<Rightarrow> bool" where
  "on_loop R_Wait = True"
| "on_loop R_Pop = True"
| "on_loop (R_Popped m stopping) = True"
| "on_loop R_Drain = True"
| "on_loop (R_Recycle m) = True"
| "on_loop R_Exit = True"
| "on_loop _ = False"

text \<open>
  How far a \<open>Stop\<close> has come: it has begun, it may use the kernel objects, it has seen the loop gone, it has seen no call,
  it has seen no timer message, it has seen no slot.
\<close>

fun stage :: "gate_task \<Rightarrow> nat" where
  "stage T_Timer = 1"
| "stage T_Post = 1"
| "stage T_Join = 1"
| "stage T_Active = 2"
| "stage T_Queued = 3"
| "stage T_Slots = 4"
| "stage T_Release = 5"
| "stage T_Uninit = 6"
| "stage _ = 0"

text \<open>The messages that are on their way: the timer message, and one for each slot whose context is not done.\<close>

definition tickets :: "gate \<Rightarrow> gate_message set" where
  "tickets g = M_Sync ` (lg_slots g - lg_done g) \<union> (if lg_timerMessageQueued g then {M_Timer} else {})"

definition ring_tickets :: "gate \<Rightarrow> gate_message list" where
  "ring_tickets g = filter (\<lambda>m. m \<noteq> M_Async) (lg_ring g)"

definition gate_ok :: "gate \<Rightarrow> bool" where
  "gate_ok g \<longleftrightarrow> distinct (ring_tickets g) \<and> set (ring_tickets g) \<subseteq> tickets g \<and> lg_done g \<subseteq> lg_slots g \<and>
     lg_abandoned g \<subseteq> lg_slots g - lg_done g \<and> lg_released g \<le> 1 \<and>
     (lg_released g = 1 \<longrightarrow> lg_state g \<noteq> STATE_RUNNING \<and> \<not> lg_loopRunning g \<and> lg_slots g = {} \<and>
        \<not> lg_timerMessageQueued g \<and> lg_ring g = [])"

definition at_gate :: "gate \<Rightarrow> gate_task \<Rightarrow> bool" where
  "at_gate g l \<longleftrightarrow> gate_ok g \<and> call_of l \<subseteq> lg_calls g \<and> holds l \<subseteq> tickets g - set (ring_tickets g) \<and>
     waits_for l \<subseteq> lg_slots g - lg_abandoned g \<and> (inside l \<longrightarrow> lg_released g = 0) \<and> (on_loop l \<longrightarrow> lg_loopRunning g) \<and>
     (0 < stage l \<longrightarrow> lg_state g = STATE_STOPPING) \<and> (stage l \<in> {1..5} \<longrightarrow> lg_released g = 0) \<and>
     (2 \<le> stage l \<longrightarrow> \<not> lg_loopRunning g) \<and> (4 \<le> stage l \<longrightarrow> \<not> lg_timerMessageQueued g) \<and>
     (5 \<le> stage l \<longrightarrow> lg_slots g = {})"

definition gate_apart :: "gate_task \<Rightarrow> gate_task \<Rightarrow> bool" where
  "gate_apart l m \<longleftrightarrow> call_of l \<inter> call_of m = {} \<and> holds l \<inter> holds m = {} \<and> waits_for l \<inter> waits_for m = {} \<and>
     \<not> (on_loop l \<and> on_loop m) \<and> \<not> (0 < stage l \<and> 0 < stage m) \<and>
     \<not> (3 \<le> stage l \<and> inside m) \<and> \<not> (3 \<le> stage m \<and> inside l)"

lemma tickets_simps [simp]:
  "tickets (g\<lparr>lg_calls := c\<rparr>) = tickets g" "tickets (g\<lparr>lg_ring := r\<rparr>) = tickets g"
  "tickets (g\<lparr>lg_loopRunning := b\<rparr>) = tickets g" "tickets (g\<lparr>lg_state := st\<rparr>) = tickets g"
  "tickets (g\<lparr>lg_queueSem := q\<rparr>) = tickets g" "tickets (g\<lparr>lg_abandoned := a\<rparr>) = tickets g"
  "tickets (g\<lparr>lg_released := k\<rparr>) = tickets g"
  "ring_tickets (g\<lparr>lg_calls := c\<rparr>) = ring_tickets g" "ring_tickets (g\<lparr>lg_timerMessageQueued := b\<rparr>) = ring_tickets g"
  "ring_tickets (g\<lparr>lg_loopRunning := b\<rparr>) = ring_tickets g" "ring_tickets (g\<lparr>lg_state := st\<rparr>) = ring_tickets g"
  "ring_tickets (g\<lparr>lg_queueSem := q\<rparr>) = ring_tickets g" "ring_tickets (g\<lparr>lg_abandoned := a\<rparr>) = ring_tickets g"
  "ring_tickets (g\<lparr>lg_slots := sl\<rparr>) = ring_tickets g" "ring_tickets (g\<lparr>lg_done := d\<rparr>) = ring_tickets g"
  "ring_tickets (g\<lparr>lg_released := k\<rparr>) = ring_tickets g"
  by (simp_all add: tickets_def ring_tickets_def)

lemma in_tickets [simp]:
  "M_Async \<notin> tickets g" "M_Timer \<in> tickets g \<longleftrightarrow> lg_timerMessageQueued g"
  "M_Sync s \<in> tickets g \<longleftrightarrow> s \<in> lg_slots g \<and> s \<notin> lg_done g"
  by (auto simp: tickets_def)

lemma ticket_simps [simp]:
  "ticket M_Async = {}" "ticket M_Timer = {M_Timer}" "ticket (M_Sync s) = {M_Sync s}"
  by (simp_all add: ticket_def)

lemma post_queueSem_ok [simp]:
  "at_gate (post_queueSem g) l = at_gate g l" "gate_ok (post_queueSem g) = gate_ok g"
  "lg_state (post_queueSem g) = lg_state g" "lg_calls (post_queueSem g) = lg_calls g"
  "tickets (post_queueSem g) = tickets g" "ring_tickets (post_queueSem g) = ring_tickets g"
  "lg_slots (post_queueSem g) = lg_slots g" "lg_abandoned (post_queueSem g) = lg_abandoned g"
  "lg_done (post_queueSem g) = lg_done g" "lg_ring (post_queueSem g) = lg_ring g"
  "lg_released (post_queueSem g) = lg_released g" "lg_loopRunning (post_queueSem g) = lg_loopRunning g"
  "lg_timerMessageQueued (post_queueSem g) = lg_timerMessageQueued g"
  by (simp_all add: post_queueSem_def at_gate_def gate_ok_def)

text \<open>A settled or withdrawn message is no longer on its way; a slot goes away only with its owner.\<close>

lemma settle_simps [simp]:
  "lg_calls (settle m g) = lg_calls g" "lg_ring (settle m g) = lg_ring g" "lg_loopRunning (settle m g) = lg_loopRunning g"
  "lg_state (settle m g) = lg_state g" "lg_released (settle m g) = lg_released g" "tickets (settle m g) = tickets g - ticket m"
  "ring_tickets (settle m g) = ring_tickets g"
  by (cases m; auto simp: tickets_def ring_tickets_def)+

lemma undo_simps [simp]:
  "lg_calls (undo_post m g) = lg_calls g" "lg_ring (undo_post m g) = lg_ring g"
  "lg_loopRunning (undo_post m g) = lg_loopRunning g" "lg_state (undo_post m g) = lg_state g"
  "lg_released (undo_post m g) = lg_released g" "tickets (undo_post m g) = tickets g - ticket m"
  "ring_tickets (undo_post m g) = ring_tickets g"
  by (cases m; auto simp: tickets_def ring_tickets_def)+

lemma tickets_changes [simp]:
  "s \<notin> lg_done g \<Longrightarrow> tickets (g\<lparr>lg_slots := insert s (lg_slots g)\<rparr>) = insert (M_Sync s) (tickets g)"
  "tickets (g\<lparr>lg_timerMessageQueued := True\<rparr>) = insert M_Timer (tickets g)"
  "s \<in> lg_done g \<Longrightarrow> tickets (g\<lparr>lg_slots := lg_slots g - {s}, lg_done := lg_done g - {s}\<rparr>) = tickets g"
  by (auto simp: tickets_def)

lemma ring_changes:
  "ring_tickets (g\<lparr>lg_ring := lg_ring g @ [m]\<rparr>) = ring_tickets g @ (if m = M_Async then [] else [m])"
  "lg_ring g = m # ms \<Longrightarrow> ring_tickets g = (if m = M_Async then [] else [m]) @ ring_tickets (g\<lparr>lg_ring := ms\<rparr>)"
  "ring_tickets (g\<lparr>lg_released := k, lg_ring := []\<rparr>) = []"
  by (simp_all add: ring_tickets_def)

lemma gate_ok_settle:
  assumes "gate_ok g" and "ticket m \<subseteq> tickets g - set (ring_tickets g)" and "lg_released g = 0"
  shows "gate_ok (settle m g)"
proof -
  have "lg_done (settle m g) \<subseteq> lg_slots (settle m g)" "lg_abandoned (settle m g) \<subseteq> lg_slots (settle m g) - lg_done (settle m g)"
    using assms by (cases m; auto simp: gate_ok_def)+
  then show ?thesis using assms by (auto simp: gate_ok_def)
qed

lemma gate_ok_undo:
  assumes "gate_ok g" and "ticket m \<subseteq> tickets g - set (ring_tickets g)" and "lg_released g = 0"
    and "slot_of m \<inter> lg_abandoned g = {}"
  shows "gate_ok (undo_post m g)"
proof -
  have "lg_done (undo_post m g) \<subseteq> lg_slots (undo_post m g)"
    "lg_abandoned (undo_post m g) \<subseteq> lg_slots (undo_post m g) - lg_done (undo_post m g)"
    using assms by (cases m; auto simp: gate_ok_def)+
  then show ?thesis using assms by (auto simp: gate_ok_def)
qed

lemma gate_own:
  assumes "at_gate g l" and "gate_act g l g' l'"
  shows "at_gate g' l'"
  using assms(2,1)
proof (cases rule: gate_act.cases)
  case (signal n m)
  then show ?thesis using assms(1) by (cases m) (auto simp: at_gate_def gate_ok_def)
next
  case (undo n m)
  then show ?thesis using assms(1) by (auto simp: at_gate_def intro: gate_ok_undo)
next
  case (dispatch m stopping)
  moreover from this assms(1) have "lg_released g = 0" by (auto simp: at_gate_def gate_ok_def)
  ultimately show ?thesis using assms(1) by (auto simp: at_gate_def intro: gate_ok_settle)
next
  case (recycle m)
  moreover from this assms(1) have "lg_released g = 0" by (auto simp: at_gate_def gate_ok_def)
  ultimately show ?thesis using assms(1) by (auto simp: at_gate_def intro: gate_ok_settle)
next
  case (put m n)
  then show ?thesis using assms(1) by (cases m) (auto simp: at_gate_def gate_ok_def ring_tickets_def)
next
  case (acquire s n)
  moreover from this assms(1) have "s \<notin> lg_done g" by (auto simp: at_gate_def gate_ok_def)
  ultimately show ?thesis using assms(1) by (auto simp: at_gate_def gate_ok_def)
next
  case (pop m ms)
  then show ?thesis using assms(1) by (cases m) (auto simp: at_gate_def gate_ok_def ring_tickets_def)
next
  case (drain m ms)
  then show ?thesis using assms(1) by (cases m) (auto simp: at_gate_def gate_ok_def ring_tickets_def)
qed ((auto simp: at_gate_def gate_ok_def ring_tickets_def)[1])+

text \<open>What a step may take away from the others, and what it may newly claim.\<close>

lemma gate_takes:
  assumes "at_gate g l" and "gate_act g l g' l'"
  shows "lg_calls g - call_of l \<subseteq> lg_calls g'" "tickets g - holds l \<subseteq> tickets g'"
    "set (ring_tickets g') \<subseteq> set (ring_tickets g) \<union> holds l"
    "lg_slots g - lg_abandoned g - waits_for l \<subseteq> lg_slots g' - lg_abandoned g'"
    "lg_released g' = lg_released g \<or> stage l = 5" "lg_loopRunning g' \<Longrightarrow> lg_loopRunning g"
    "lg_loopRunning g \<Longrightarrow> lg_loopRunning g' \<or> on_loop l"
    "lg_state g' = lg_state g \<or> stage l = 6 \<or> lg_state g = STATE_RUNNING"
    "lg_timerMessageQueued g' \<Longrightarrow> lg_timerMessageQueued g \<or> inside l" "lg_slots g' \<subseteq> lg_slots g \<or> inside l"
proof -
  have settle: "lg_slots h - lg_abandoned h \<subseteq> lg_slots (settle m h) - lg_abandoned (settle m h)"
    "lg_slots h - lg_abandoned h - slot_of m \<subseteq> lg_slots (undo_post m h) - lg_abandoned (undo_post m h)"
    "lg_timerMessageQueued (settle m h) \<Longrightarrow> lg_timerMessageQueued h"
    "lg_timerMessageQueued (undo_post m h) \<Longrightarrow> lg_timerMessageQueued h"
    "lg_slots (settle m h) \<subseteq> lg_slots h" "lg_slots (undo_post m h) \<subseteq> lg_slots h" for h m
    by (cases m; auto split: if_splits)+
  show "lg_calls g - call_of l \<subseteq> lg_calls g'" using assms(2) by (cases rule: gate_act.cases) auto
  show "tickets g - holds l \<subseteq> tickets g'"
    using assms(2)
  proof (cases rule: gate_act.cases)
    case (acquire s n)
    moreover from this assms(1) have "s \<notin> lg_done g" by (auto simp: at_gate_def gate_ok_def)
    ultimately show ?thesis by auto
  qed auto
  show "set (ring_tickets g') \<subseteq> set (ring_tickets g) \<union> holds l"
    using assms(2)
  proof (cases rule: gate_act.cases)
    case (pop m ms)
    then show ?thesis using ring_changes(2) [OF pop(4)] by (cases m) auto
  next
    case (drain m ms)
    then show ?thesis using ring_changes(2) [OF drain(4)] by (cases m) auto
  next
    case (put m n)
    then show ?thesis by (cases m) (auto simp: ring_changes)
  qed (auto simp: ring_changes)
  show "lg_slots g - lg_abandoned g - waits_for l \<subseteq> lg_slots g' - lg_abandoned g'"
    using assms(2)
  proof (cases rule: gate_act.cases)
    case (undo n m)
    then show ?thesis using settle(2) [of g m] by simp
  next
    case (dispatch m stopping)
    then show ?thesis using settle(1) [of g m] by auto
  next
    case (recycle m)
    then show ?thesis using settle(1) [of g m] by auto
  qed auto
  show "lg_released g' = lg_released g \<or> stage l = 5" using assms(2) by (cases rule: gate_act.cases) auto
  show "lg_loopRunning g" if "lg_loopRunning g'" using assms(2) that by (cases rule: gate_act.cases) auto
  show "lg_loopRunning g' \<or> on_loop l" if "lg_loopRunning g"
    using assms(2) that by (cases rule: gate_act.cases) auto
  show "lg_state g' = lg_state g \<or> stage l = 6 \<or> lg_state g = STATE_RUNNING"
    using assms(2) by (cases rule: gate_act.cases) auto
  show "lg_timerMessageQueued g \<or> inside l" if "lg_timerMessageQueued g'"
    using assms(2) that by (cases rule: gate_act.cases) (auto dest: settle(3,4))
  show "lg_slots g' \<subseteq> lg_slots g \<or> inside l" using assms(2) by (cases rule: gate_act.cases) (auto simp: settle(5,6))
qed

lemma gate_claims:
  assumes "at_gate g l" and "gate_act g l g' l'"
  shows "call_of l' \<subseteq> call_of l \<union> - lg_calls g" "holds l' \<subseteq> holds l \<union> - tickets g \<union> set (ring_tickets g)"
    "waits_for l' \<subseteq> waits_for l \<union> - lg_slots g" "on_loop l' \<Longrightarrow> on_loop l"
    "0 < stage l' \<Longrightarrow> 0 < stage l \<or> lg_state g = STATE_RUNNING"
    "3 \<le> stage l' \<Longrightarrow> 3 \<le> stage l \<or> lg_calls g = {}" "inside l' \<Longrightarrow> inside l \<or> lg_state g = STATE_RUNNING"
proof -
  have after: "call_of (after_signal n m) = {n}" "holds (after_signal n m) = {}" "waits_for (after_signal n m) = slot_of m"
    "\<not> on_loop (after_signal n m)" "stage (after_signal n m) = 0" for n m
    by (cases m; simp)+
  show "call_of l' \<subseteq> call_of l \<union> - lg_calls g" using assms(2) by (cases rule: gate_act.cases) (auto simp: after)
  show "holds l' \<subseteq> holds l \<union> - tickets g \<union> set (ring_tickets g)"
    using assms(2)
  proof (cases rule: gate_act.cases)
    case (pop m ms)
    then show ?thesis using ring_changes(2) [OF pop(4)] by (cases m) auto
  next
    case (drain m ms)
    then show ?thesis using ring_changes(2) [OF drain(4)] by (cases m) auto
  qed (auto simp: after)
  show "waits_for l' \<subseteq> waits_for l \<union> - lg_slots g" using assms(2) by (cases rule: gate_act.cases) (auto simp: after)
  show "on_loop l" if "on_loop l'" using assms(2) that by (cases rule: gate_act.cases) (auto simp: after split: if_splits)
  show "0 < stage l \<or> lg_state g = STATE_RUNNING" if "0 < stage l'"
    using assms(2) that by (cases rule: gate_act.cases) (auto simp: after split: if_splits)
  show "3 \<le> stage l \<or> lg_calls g = {}" if "3 \<le> stage l'"
    using assms(2) that by (cases rule: gate_act.cases) (auto simp: after split: if_splits)
  show "inside l \<or> lg_state g = STATE_RUNNING" if "inside l'"
    using assms(2) that by (cases rule: gate_act.cases) (auto split: if_splits)
qed

lemma inside_call: "inside l \<Longrightarrow> call_of l \<noteq> {}"
  by (cases l) auto

lemma gate_others:
  assumes "at_gate g l" and "gate_act g l g' l'" and "at_gate g m" and "gate_apart l m"
  shows "at_gate g' m"
proof -
  note takes = gate_takes [OF assms(1,2)]
  have ok: "gate_ok g'" using gate_own [OF assms(1,2)] by (simp add: at_gate_def)
  from assms(3) have m: "call_of m \<subseteq> lg_calls g" "holds m \<subseteq> tickets g - set (ring_tickets g)"
    "waits_for m \<subseteq> lg_slots g - lg_abandoned g" "inside m \<longrightarrow> lg_released g = 0" "on_loop m \<longrightarrow> lg_loopRunning g"
    "0 < stage m \<longrightarrow> lg_state g = STATE_STOPPING" "stage m \<in> {1..5} \<longrightarrow> lg_released g = 0"
    "2 \<le> stage m \<longrightarrow> \<not> lg_loopRunning g" "4 \<le> stage m \<longrightarrow> \<not> lg_timerMessageQueued g" "5 \<le> stage m \<longrightarrow> lg_slots g = {}"
    by (simp_all add: at_gate_def)
  from assms(4) have apart: "call_of l \<inter> call_of m = {}" "holds l \<inter> holds m = {}" "waits_for l \<inter> waits_for m = {}"
    "\<not> (on_loop l \<and> on_loop m)" "\<not> (0 < stage l \<and> 0 < stage m)" "\<not> (3 \<le> stage l \<and> inside m)" "\<not> (3 \<le> stage m \<and> inside l)"
    by (simp_all add: gate_apart_def)
  have "call_of m \<subseteq> lg_calls g'" using m(1) apart(1) takes(1) by blast
  moreover have "holds m \<subseteq> tickets g' - set (ring_tickets g')" using m(2) apart(2) takes(2,3) by blast
  moreover have "waits_for m \<subseteq> lg_slots g' - lg_abandoned g'" using m(3) apart(3) takes(4) by blast
  moreover have "inside m \<longrightarrow> lg_released g' = 0" using m(4) apart(6) takes(5) by auto
  moreover have "on_loop m \<longrightarrow> lg_loopRunning g'" using m(5) apart(4) takes(7) by auto
  moreover have "0 < stage m \<longrightarrow> lg_state g' = STATE_STOPPING" using m(6) apart(5) takes(8) by auto
  moreover have "stage m \<in> {1..5} \<longrightarrow> lg_released g' = 0" using m(7) apart(5) takes(5) by auto
  moreover have "2 \<le> stage m \<longrightarrow> \<not> lg_loopRunning g'" using m(8) takes(6) by auto
  moreover have "4 \<le> stage m \<longrightarrow> \<not> lg_timerMessageQueued g'" using m(9) apart(7) takes(9) by auto
  moreover have "5 \<le> stage m \<longrightarrow> lg_slots g' = {}" using m(10) apart(7) takes(10) by auto
  ultimately show ?thesis using ok unfolding at_gate_def by blast
qed

lemma gate_stays_apart:
  assumes "at_gate g l" and "gate_act g l g' l'" and "at_gate g m" and "gate_apart l m"
  shows "gate_apart l' m"
proof -
  note claims = gate_claims [OF assms(1,2)]
  from assms(3) have m: "call_of m \<subseteq> lg_calls g" "holds m \<subseteq> tickets g - set (ring_tickets g)"
    "waits_for m \<subseteq> lg_slots g - lg_abandoned g" "0 < stage m \<longrightarrow> lg_state g = STATE_STOPPING"
    by (simp_all add: at_gate_def)
  from assms(4) have apart: "call_of l \<inter> call_of m = {}" "holds l \<inter> holds m = {}" "waits_for l \<inter> waits_for m = {}"
    "\<not> (on_loop l \<and> on_loop m)" "\<not> (0 < stage l \<and> 0 < stage m)" "\<not> (3 \<le> stage l \<and> inside m)" "\<not> (3 \<le> stage m \<and> inside l)"
    by (simp_all add: gate_apart_def)
  have "call_of l' \<inter> call_of m = {}" using m(1) apart(1) claims(1) by blast
  moreover have "holds l' \<inter> holds m = {}" using m(2) apart(2) claims(2) by blast
  moreover have "waits_for l' \<inter> waits_for m = {}" using m(3) apart(3) claims(3) by blast
  moreover have "\<not> (on_loop l' \<and> on_loop m)" using apart(4) claims(4) by blast
  moreover have "\<not> (0 < stage l' \<and> 0 < stage m)" using apart(5) m(4) claims(5) by (cases "0 < stage l'") auto
  moreover have "\<not> (3 \<le> stage l' \<and> inside m)" using apart(6) m(1) claims(6) inside_call [of m] by auto
  moreover have "\<not> (3 \<le> stage m \<and> inside l')" using apart(7) m(4) claims(7) by auto
  ultimately show ?thesis unfolding gate_apart_def by blast
qed

interpretation shutdown: interleaving gate_act gate_start at_gate gate_apart
proof
  show "gate_apart m l" if "gate_apart l m" for l m using that unfolding gate_apart_def by blast
next
  fix g ls i j assume start: "gate_start g ls"
  have init: "gate_ok gate_init"
    by (simp add: gate_init_def gate_ok_def ring_tickets_def)
  show "at_gate g (ls i)" using start init by (auto simp: gate_start_def at_gate_def gate_init_def)
  show "gate_apart (ls i) (ls j)" if "i \<noteq> j" using start that by (auto simp: gate_start_def gate_apart_def)
qed (fact gate_own gate_others gate_stays_apart)+

section \<open>Properties\<close>

text \<open>C16. Taking the loop down is safe. In every interleaving of posts, synchronous calls, timer expiries, the loop task and
  any number of stops: the kernel objects are released at most once; while they are, no call is inside the handler, the
  loop task is gone, no slot is in use and no timer message on its way; at most one stop is under way; and what a
  stop finds in the ring at the release is asynchronous tasks only.\<close>
theorem shutdown_is_safe:
  assumes "interleaved gate_act gate_start g ls"
  shows "lg_released g \<le> 1 \<and>
    (lg_released g = 1 \<longrightarrow> lg_slots g = {} \<and> \<not> lg_timerMessageQueued g \<and> lg_state g \<noteq> STATE_RUNNING) \<and>
    (\<forall>i. inside (ls i) \<or> on_loop (ls i) \<or> stage (ls i) \<in> {1..5} \<longrightarrow> lg_released g = 0) \<and>
    (\<forall>i j. 0 < stage (ls i) \<and> 0 < stage (ls j) \<longrightarrow> i = j) \<and> (\<forall>i. ls i = T_Release \<longrightarrow> set (lg_ring g) \<subseteq> {M_Async})"
proof -
  have ok: "at_gate g (ls i)" and apart: "i \<noteq> j \<Longrightarrow> gate_apart (ls i) (ls j)" for i j
    using shutdown.tasks_ok [OF assms] by blast+
  then have gate: "gate_ok g" by (simp add: at_gate_def)
  have "lg_released g = 0" if "inside (ls i) \<or> on_loop (ls i) \<or> stage (ls i) \<in> {1..5}" for i
    using ok [of i] gate that by (auto simp: at_gate_def gate_ok_def le_Suc_eq)
  moreover have "i = j" if "0 < stage (ls i)" "0 < stage (ls j)" for i j
    using apart [of i j] that by (auto simp: gate_apart_def)
  moreover have "set (lg_ring g) \<subseteq> {M_Async}" if "ls i = T_Release" for i
    using ok [of i] that by (auto simp: at_gate_def gate_ok_def tickets_def ring_tickets_def)
  ultimately show ?thesis using gate unfolding gate_ok_def by blast
qed

text \<open>A stop that waits, after the loop has gone, for a slot that nobody will give back.\<close>

definition stranded :: "gate \<Rightarrow> (nat \<Rightarrow> gate_task) \<Rightarrow> bool" where
  "stranded g ls \<longleftrightarrow> lg_state g = STATE_STOPPING \<and> lg_slots g \<noteq> {} \<and> lg_released g = 0 \<and>
     (\<forall>i. \<not> inside (ls i) \<and> \<not> on_loop (ls i) \<and> stage (ls i) \<le> 4)"

lemma stranded_step:
  assumes "stranded g ls" and "gate_act g (ls i) g' l'"
  shows "stranded g' (ls(i := l'))"
proof -
  have l: "lg_state g = STATE_STOPPING" "lg_slots g \<noteq> {}" "lg_released g = 0" "\<not> inside (ls i)" "\<not> on_loop (ls i)" "stage (ls i) \<le> 4"
    using assms(1) by (auto simp: stranded_def)
  from assms(2) have "lg_state g' = STATE_STOPPING \<and> lg_slots g' \<noteq> {} \<and> lg_released g' = 0 \<and> \<not> inside l' \<and> \<not> on_loop l' \<and> stage l' \<le> 4"
  proof (cases rule: gate_act.cases)
    case enter
    then show ?thesis using l by simp
  qed (use l in auto)
  with assms(1) show ?thesis by (simp add: stranded_def)
qed

lemma stranded_stays:
  assumes "interleaved gate_act (\<lambda>a b. a = g \<and> b = ls) h hs" and "stranded g ls"
  shows "stranded h hs"
  using assms by (induction rule: interleaved.induct) (auto intro: stranded_step)

inductive_simps gate_act_simps:
  "gate_act g (G_Enter n k) g' l'" "gate_act g (G_Inside n K_Sync) g' l'" "gate_act g (G_Enqueue n m) g' l'"
  "gate_act g (G_Put n m) g' l'" "gate_act g (G_Signal n m) g' l'" "gate_act g (G_Wait n s) g' l'" "gate_act g (G_Leave n) g' l'"
  "gate_act g R_Wait g' l'" "gate_act g R_Pop g' l'" "gate_act g (R_Popped None b) g' l'" "gate_act g R_Drain g' l'"
  "gate_act g R_Exit g' l'" "gate_act g G_Idle g' l'" "gate_act g T_Timer g' l'" "gate_act g T_Post g' l'" "gate_act g T_Join g' l'"

definition demo_gate :: "LoopState \<Rightarrow> nat set \<Rightarrow> bool \<Rightarrow> gate_message list \<Rightarrow> nat \<Rightarrow> nat set \<Rightarrow> nat set \<Rightarrow> gate" where
  "demo_gate st calls running ring sem slots abandoned =
    \<lparr>lg_state = st, lg_calls = calls, lg_timerMessageQueued = False, lg_loopRunning = running, lg_ring = ring,
     lg_queueSem = sem, lg_slots = slots, lg_done = {}, lg_abandoned = abandoned, lg_released = 0\<rparr>"

definition demo_three :: "gate_task \<Rightarrow> gate_task \<Rightarrow> gate_task \<Rightarrow> nat \<Rightarrow> gate_task" where
  "demo_three loop caller stopper = (\<lambda>_. G_Idle)(0 := loop, 1 := caller, 2 := stopper)"

lemma demo_three_go:
  assumes "interleaved gate_act gate_start g (demo_three a b c)"
  shows "gate_act g a g' a' \<Longrightarrow> interleaved gate_act gate_start g' (demo_three a' b c)"
    "gate_act g b g' b' \<Longrightarrow> interleaved gate_act gate_start g' (demo_three a b' c)"
    "gate_act g c g' c' \<Longrightarrow> interleaved gate_act gate_start g' (demo_three a b c')"
  using interleaved.moves [OF assms, of 0 g' a'] interleaved.moves [OF assms, of 1 g' b']
    interleaved.moves [OF assms, of 2 g' c']
  by (auto simp: demo_three_def fun_upd_twist)

lemmas demo_gate_defs = gate_act_simps demo_gate_def post_queueSem_def MINI_QUEUE_SIZE_def MINI_MAX_SYNC_WAITERS_def
  ring_limit_def

lemma demo_called:
  "interleaved gate_act gate_start (demo_gate STATE_RUNNING {0} True [] 0 {0} {}) (demo_three R_Wait (G_Put 0 (M_Sync 0)) G_Idle)"
proof -
  have s0: "interleaved gate_act gate_start (demo_gate STATE_RUNNING {} True [] 0 {} {}) (demo_three R_Wait G_Idle G_Idle)"
    by (rule interleaved.begins) (auto simp: gate_start_def gate_init_def demo_gate_def demo_three_def)
  have s1: "gate_act (demo_gate STATE_RUNNING {} True [] 0 {} {}) G_Idle (demo_gate STATE_RUNNING {0} True [] 0 {} {}) (G_Enter 0 K_Sync)"
    by (simp add: demo_gate_defs)
  have s2: "gate_act (demo_gate STATE_RUNNING {0} True [] 0 {} {}) (G_Enter 0 K_Sync)
      (demo_gate STATE_RUNNING {0} True [] 0 {} {}) (G_Inside 0 K_Sync)"
    by (simp add: demo_gate_defs)
  have s3: "gate_act (demo_gate STATE_RUNNING {0} True [] 0 {} {}) (G_Inside 0 K_Sync)
      (demo_gate STATE_RUNNING {0} True [] 0 {0} {}) (G_Enqueue 0 (M_Sync 0))"
    by (simp add: demo_gate_defs)
  have s4: "gate_act (demo_gate STATE_RUNNING {0} True [] 0 {0} {}) (G_Enqueue 0 (M_Sync 0))
      (demo_gate STATE_RUNNING {0} True [] 0 {0} {}) (G_Put 0 (M_Sync 0))"
    by (simp add: demo_gate_defs)
  show ?thesis
    by (rule demo_three_go(2) [OF demo_three_go(2) [OF demo_three_go(2) [OF demo_three_go(2) [OF s0 s1] s2] s3] s4])
qed

text \<open>The call has loaded the state when the stop begins; it puts its message in the ring when the loop has left.\<close>

lemma demo_stranded:
  "interleaved gate_act gate_start (demo_gate STATE_STOPPING {} False [M_Sync 0] 1 {0} {0}) (demo_three R_Gone G_Idle T_Active)"
proof -
  have s1: "gate_act (demo_gate STATE_RUNNING {0} True [] 0 {0} {}) G_Idle
      (demo_gate STATE_STOPPING {0} True [] 0 {0} {}) T_Timer"
    by (simp add: demo_gate_defs)
  have s2: "gate_act (demo_gate STATE_STOPPING {0} True [] 0 {0} {}) T_Timer
      (demo_gate STATE_STOPPING {0} True [] 0 {0} {}) T_Post"
    by (simp add: demo_gate_defs)
  have s3: "gate_act (demo_gate STATE_STOPPING {0} True [] 0 {0} {}) T_Post
      (demo_gate STATE_STOPPING {0} True [] 1 {0} {}) T_Join"
    by (simp add: demo_gate_defs)
  have s4: "gate_act (demo_gate STATE_STOPPING {0} True [] 1 {0} {}) R_Wait
      (demo_gate STATE_STOPPING {0} True [] 0 {0} {}) R_Pop"
    by (simp add: demo_gate_defs)
  have s5: "gate_act (demo_gate STATE_STOPPING {0} True [] 0 {0} {}) R_Pop
      (demo_gate STATE_STOPPING {0} True [] 0 {0} {}) (R_Popped None True)"
    by (simp add: demo_gate_defs)
  have s6: "gate_act (demo_gate STATE_STOPPING {0} True [] 0 {0} {}) (R_Popped None True)
      (demo_gate STATE_STOPPING {0} True [] 0 {0} {}) R_Drain"
    by (simp add: demo_gate_defs)
  have s7: "gate_act (demo_gate STATE_STOPPING {0} True [] 0 {0} {}) R_Drain
      (demo_gate STATE_STOPPING {0} True [] 0 {0} {}) R_Exit"
    by (simp add: demo_gate_defs)
  have s8: "gate_act (demo_gate STATE_STOPPING {0} True [] 0 {0} {}) R_Exit
      (demo_gate STATE_STOPPING {0} False [] 0 {0} {}) R_Gone"
    by (simp add: demo_gate_defs)
  have s9: "gate_act (demo_gate STATE_STOPPING {0} False [] 0 {0} {}) T_Join
      (demo_gate STATE_STOPPING {0} False [] 0 {0} {}) T_Active"
    by (simp add: demo_gate_defs)
  have s10: "gate_act (demo_gate STATE_STOPPING {0} False [] 0 {0} {}) (G_Put 0 (M_Sync 0))
      (demo_gate STATE_STOPPING {0} False [M_Sync 0] 0 {0} {}) (G_Signal 0 (M_Sync 0))"
    by (simp add: demo_gate_defs)
  have s11: "gate_act (demo_gate STATE_STOPPING {0} False [M_Sync 0] 0 {0} {}) (G_Signal 0 (M_Sync 0))
      (demo_gate STATE_STOPPING {0} False [M_Sync 0] 1 {0} {}) (G_Wait 0 0)"
    by (simp add: demo_gate_defs)
  have s12: "gate_act (demo_gate STATE_STOPPING {0} False [M_Sync 0] 1 {0} {}) (G_Wait 0 0)
      (demo_gate STATE_STOPPING {0} False [M_Sync 0] 1 {0} {0}) (G_Leave 0)"
    by (simp add: demo_gate_defs)
  have s13: "gate_act (demo_gate STATE_STOPPING {0} False [M_Sync 0] 1 {0} {0}) (G_Leave 0)
      (demo_gate STATE_STOPPING {} False [M_Sync 0] 1 {0} {0}) G_Idle"
    by (simp add: demo_gate_defs)
  note t1 = demo_three_go(3) [OF demo_called s1]
  note t2 = demo_three_go(3) [OF t1 s2]
  note t3 = demo_three_go(3) [OF t2 s3]
  note t4 = demo_three_go(1) [OF t3 s4]
  note t5 = demo_three_go(1) [OF t4 s5]
  note t6 = demo_three_go(1) [OF t5 s6]
  note t7 = demo_three_go(1) [OF t6 s7]
  note t8 = demo_three_go(1) [OF t7 s8]
  note t9 = demo_three_go(3) [OF t8 s9]
  note t10 = demo_three_go(2) [OF t9 s10]
  note t11 = demo_three_go(2) [OF t10 s11]
  note t12 = demo_three_go(2) [OF t11 s12]
  note t13 = demo_three_go(2) [OF t12 s13]
  show ?thesis by (rule t13)
qed



theorem shutdown_is_safe_witness:
  "interleaved gate_act gate_start (demo_gate STATE_STOPPING {} False [M_Sync 0] 1 {0} {0}) (demo_three R_Gone G_Idle T_Active) \<and>
   lg_released (demo_gate STATE_STOPPING {} False [M_Sync 0] 1 {0} {0}) \<le> 1"
  using shutdown_is_safe [OF demo_stranded] demo_stranded by blast

end
