(* ===== verification/Loop_Life.thy ===== *)
theory Loop_Life
  imports Onward Demo
begin

text \<open>
  When the main loop runs: the third instance of \<open>progress\<close>. Only \<open>Init\<close> and \<open>Stop\<close> change the state of the loop and
  how it is configured; everything else the call manager does leaves both alone and, on a loop that another task
  drives, only adds messages behind those it has posted.
\<close>

definition steady_loop :: "'t LosEventHandler \<Rightarrow> 't LosEventHandler \<Rightarrow> bool" where
  "steady_loop h h' \<longleftrightarrow> lh_state h' = lh_state h \<and> lh_config h' = lh_config h \<and> prefix (lh_posted h) (lh_posted h')"

definition steady :: "cm \<Rightarrow> cm \<Rightarrow> bool" where
  "steady s t \<longleftrightarrow> steady_loop (cm_loop s) (cm_loop t)"

lemma steady_loop_refl [simp]: "steady_loop h h"
  by (simp add: steady_loop_def)

lemma steady_loop_fields [simp]:
  "steady_loop h (h'\<lparr>lh_timer := a\<rparr>) = steady_loop h h'" "steady_loop h (h'\<lparr>lh_timerMessageQueued := b\<rparr>) = steady_loop h h'"
  "steady_loop h (h'\<lparr>lh_delayed := d\<rparr>) = steady_loop h h'" "steady_loop h (h'\<lparr>lh_waiterInUse := f\<rparr>) = steady_loop h h'"
  "steady_loop h (h'\<lparr>lh_waiterSems := g\<rparr>) = steady_loop h h'" "steady_loop h (h'\<lparr>lh_contexts := k\<rparr>) = steady_loop h h'"
  "steady_loop h (h'\<lparr>lh_queueSem := q\<rparr>) = steady_loop h h'" "steady_loop h (h'\<lparr>lh_now := n\<rparr>) = steady_loop h h'"
  "steady_loop h (h'\<lparr>lh_lastTaskId := i\<rparr>) = steady_loop h h'" "steady_loop h (h'\<lparr>lh_ring := r\<rparr>) = steady_loop h h'"
  "steady_loop h (h'\<lparr>lh_ringHead := p\<rparr>) = steady_loop h h'" "steady_loop h (h'\<lparr>lh_ringCount := c\<rparr>) = steady_loop h h'"
  by (simp_all add: steady_loop_def)

lemma steady_Arm [simp]: "steady_loop h (snd (run_state ArmTimerLocked h')) = steady_loop h h'"
  by (simp add: ArmTimerLocked_def Let_def split: list.split)

lemma steady_Enqueue: "steady_loop h (snd (run_state (Enqueue m) h))"
  by (auto simp: Enqueue_def Let_def steady_loop_def split: option.split)

lemma steady_PostAsync: "steady_loop h (snd (run_state (PostAsyncTask task delay) h))"
  by (simp add: PostAsyncTask_def case_prod_beta steady_Enqueue Let_def)

lemma steady_Remove: "steady_loop h (snd (run_state (RemoveAsyncTask i) h))"
  by (simp add: RemoveAsyncTask_def case_prod_beta Let_def split: option.split)

lemma steady_Expired: "steady_loop h (snd (run_state TimerExpired h))"
proof -
  have "steady_loop h (snd (run_state (Enqueue m) (h\<lparr>lh_timer := a, lh_timerMessageQueued := b\<rparr>)))" for m b a
    using steady_Enqueue [of "h\<lparr>lh_timer := a, lh_timerMessageQueued := b\<rparr>" m] by (simp add: steady_loop_def)
  then show ?thesis
    by (simp add: TimerExpired_def OnTimerExpired_def case_prod_beta)
qed

interpretation lives: progress steady
proof unfold_locales
  show "steady s t" if "cm_loop t = cm_loop s" for s t using that by (simp add: steady_def)
  show "steady s u" if "steady s t" "steady t u" for s t u
    using that unfolding steady_def steady_loop_def by (auto intro: prefix_order.trans)
qed (simp_all add: along_def steady_def steady_PostAsync steady_Remove)

lemma steady_onLoop: "(\<And>h. steady_loop h (snd (run_state m h))) \<Longrightarrow> along steady (onLoop m)"
  by (simp add: along_def steady_def)

lemma steady_loop_parts [along]:
  "along steady (onLoop (RunDueTasks (\<lambda>_. ret ())))" "along steady (onLoop (Complete c r))"
  "along steady (onLoop (modify (\<lambda>h. h\<lparr>lh_timerMessageQueued := b\<rparr>)))" "along steady (onLoop (Recycle x))"
  "along steady (onLoop PopLocked)" "along steady (onLoop (modify (\<lambda>h. h\<lparr>lh_queueSem := q h\<rparr>)))"
  "along steady (onLoop TimerExpired)"
  by (rule steady_onLoop; auto simp: RunDueTasks_def Complete_def ReleaseWaiter_def SemPost_def Recycle_def PopLocked_def
      case_prod_beta steady_Expired split: LosEventMessage.split)+

lemma steady_dispatch [along]: "along steady (dispatch run_task message)"
  unfolding dispatch_def
  by (cases message; simp split: LosEventMessage.split; intro allI conjI impI along)

text \<open>The events that may change whether the loop runs.\<close>

fun starts_or_stops :: "event \<Rightarrow> bool" where
  "starts_or_stops (E_Start _ _ _ _ _) = True"
| "starts_or_stops (E_Stop _ _ _ _) = True"
| "starts_or_stops _ = False"

lemma steady_handle: "\<not> starts_or_stops ev \<Longrightarrow> along steady (handle ev)"
proof (cases ev)
  case (E_RegisterCallBack tm k)
  then show ?thesis
    by (cases k) (auto simp: along_def steady_def Service_RegisterCallBack_def Report_RegisterCallBack_def)
next
  case E_LoopTurn
  show ?thesis unfolding E_LoopTurn handle.simps loop_turn_def by (intro along)
next
  case (E_Time d n)
  then show ?thesis by (auto simp: along_def steady_def)
qed (simp_all only: handle.simps starts_or_stops.simps; (intro along; fail)?; simp)+

section \<open>A stop that timed out\<close>

lemma Init_stopping:
  "lh_state h = STATE_STOPPING \<Longrightarrow> run_state (Init objectsOk taskOk config) h = (TELEPHONY_ERR_ARGUMENT_INVALID, h)"
  by (simp add: Init_def)

lemma Start_stopping:
  "lh_state (cm_loop s) = STATE_STOPPING \<Longrightarrow>
    run_state (CallManagerServiceMiniStart a b c d e) s = (TELEPHONY_ERR_ARGUMENT_INVALID, s)"
  by (simp add: CallManagerServiceMiniStart_def onLoop_def Init_stopping)

lemma handle_stopping:
  assumes "lh_state (cm_loop s) = STATE_STOPPING"
  shows "lh_state (cm_loop (snd (run_state (handle ev) s))) = STATE_STOPPING"
proof (cases "starts_or_stops ev")
  case False
  then have "along steady (handle ev)" by (rule steady_handle)
  then have "steady s (snd (run_state (handle ev) s))" by (rule alongD)
  with assms show ?thesis by (simp add: steady_def steady_loop_def)
next
  case True
  then show ?thesis
    using assms by (cases ev) (auto simp: Start_stopping CallManagerServiceMiniStop_def)
qed

text \<open>C35. A stop that gave up is final. When \<open>Stop\<close> does not find the loop quiescent in time it keeps the kernel objects
  and leaves the loop stopping; from then on, whatever happens, the loop stays so, every start of the service is
  refused as an invalid argument, and every stop returns at once.\<close>
theorem timed_out_stop_is_final:
  assumes "lh_state (cm_loop s) = STATE_RUNNING" and "loopExits \<longrightarrow> \<not> quiescent"
    and "t = snd (run_state (for_each evs handle) (snd (run_state (loop_stop loopExits quiescent) s)))"
    and "cfg_poster (lh_config (cm_loop s)) = None"
  shows "lh_state (cm_loop t) = STATE_STOPPING \<and>
    run_state (CallManagerServiceMiniStart a b c d e) t = (TELEPHONY_ERR_ARGUMENT_INVALID, t) \<and>
    run_state (CallManagerServiceMiniStop tm c d e) t = ((), t)"
proof -
  have "lh_state (snd (run_state (RunLoop_drain n) h)) = lh_state h" for n and h :: "task LosEventHandler"
  proof (induction n arbitrary: h)
    case (Suc n)
    have "lh_state (snd (run_state PopLocked h)) = lh_state h" "lh_state (snd (run_state (Recycle m) h)) = lh_state h"
      for m and h :: "task LosEventHandler"
      by (simp_all add: PopLocked_def Recycle_def Complete_def ReleaseWaiter_def SemPost_def split: LosEventMessage.split)
    with Suc show ?case by (simp add: case_prod_beta split: option.split)
  qed simp
  then have "lh_state (cm_loop (snd (run_state (loop_stop loopExits quiescent) s))) = STATE_STOPPING"
    using assms(1,2,4)
    by (simp add: loop_stop_def Stop_begin_def Stop_end_def RunLoop_exit_def onLoop_def case_prod_beta)
  then have "lh_state (cm_loop (snd (run_state (for_each evs handle) (snd (run_state (loop_stop loopExits quiescent) s))))) =
      STATE_STOPPING"
  proof (induction evs rule: rev_induct)
    case (snoc ev evs)
    then show ?case by (simp add: for_each_append case_prod_beta handle_stopping)
  qed simp
  with assms(3) show ?thesis by (simp add: Start_stopping CallManagerServiceMiniStop_def)
qed

lemma demo_ready_loop:
  "let s = demo_ready in lh_state (cm_loop s) = STATE_RUNNING \<and> cfg_poster (lh_config (cm_loop s)) = None"
  by (simp add: exec demo_ready_def DefaultConfig_def cong: exec_cong)

theorem timed_out_stop_is_final_witness:
  "lh_state (cm_loop (snd (run_state (for_each [E_LoopTurn, E_Start True True TELEPHONY_SUCCESS True True] handle)
     (snd (run_state (loop_stop True False) demo_ready))))) = STATE_STOPPING"
  using timed_out_stop_is_final [of demo_ready True False _ "[E_LoopTurn, E_Start True True TELEPHONY_SUCCESS True True]"]
    demo_ready_loop [unfolded Let_def] by blast

end
