(* ===== verification/Service_Lite.thy ===== *)
theory Service_Lite
  imports Loop_Life
begin

text \<open>
  The binding of the call manager to the service manager of the device,
  \<open>services/call_manager_service/src/mini/call_manager_service_lite.cpp\<close>. Here the main loop has no task and no ring of its
  own: each message goes to the queue of the service task with \<open>SAMGR_SendRequest\<close> and comes back through
  \<open>MessageHandle\<close>. The service manager is a parameter: what it answers to the n-th request it is sent, and to the two
  registrations.
\<close>

definition MSG_DISPATCH :: int where
  "MSG_DISPATCH = 1"

definition EC_SUCCESS :: int where
  "EC_SUCCESS = 0"

record Request =
  rq_msgId :: int
  rq_data :: "task LosEventMessage option"

definition PostToServiceTask :: "(nat \<Rightarrow> int) \<Rightarrow> nat \<Rightarrow> bool" where
  "PostToServiceTask SAMGR_SendRequest n \<longleftrightarrow> SAMGR_SendRequest n = EC_SUCCESS"

definition Lite_config :: "(nat \<Rightarrow> int) \<Rightarrow> LoopConfig" where
  "Lite_config SAMGR_SendRequest =
    DefaultConfig\<lparr>cfg_hasLoopName := False, cfg_poster := Some (PostToServiceTask SAMGR_SendRequest)\<rparr>"

text \<open>\<open>objectsOk\<close>: the kernel had the objects for the loop; \<open>quiescent\<close>: how the wait of \<open>Stop\<close> would end.\<close>

definition Initialize :: "bool \<Rightarrow> (nat \<Rightarrow> int) \<Rightarrow> bool \<Rightarrow> bool cmM" where
  "Initialize objectsOk SAMGR_SendRequest quiescent = do {
     r \<leftarrow> onLoop (Init objectsOk True (Lite_config SAMGR_SendRequest));
     if r \<noteq> TELEPHONY_SUCCESS then ret False
     else do {
       r \<leftarrow> Service_Init;
       if r \<noteq> TELEPHONY_SUCCESS then do { loop_stop False quiescent; ret False }
       else ret True
     }
   }"

definition MessageHandle :: "Request option \<Rightarrow> bool cmM" where
  "MessageHandle request =
     (case request of
        None \<Rightarrow> ret False
      | Some request \<Rightarrow>
          if rq_msgId request \<noteq> MSG_DISPATCH then ret False
          else do { dispatch run_task (rq_data request); ret True })"

text \<open>The fields of the struct are 16 bits wide.\<close>

datatype TaskLevel = LEVEL_HIGH
datatype TaskType = SINGLE_TASK

record TaskConfig =
  tc_level :: TaskLevel
  tc_priority :: "16 word"
  tc_stackSize :: "16 word"
  tc_queueSize :: "16 word"
  tc_taskFlags :: TaskType

text \<open>\<open>priority\<close> and \<open>stackSize\<close> are constants of the build.\<close>

definition GetTaskConfig :: "nat \<Rightarrow> nat \<Rightarrow> TaskConfig" where
  "GetTaskConfig MINI_TASK_PRIORITY MINI_TASK_STACK_SIZE =
    \<lparr>tc_level = LEVEL_HIGH, tc_priority = word_of_nat MINI_TASK_PRIORITY, tc_stackSize = word_of_nat MINI_TASK_STACK_SIZE,
     tc_queueSize = word_of_nat MINI_QUEUE_SIZE, tc_taskFlags = SINGLE_TASK\<rparr>"

text \<open>The registrations that were made, in order; the feature is only offered for a service that was registered.\<close>

datatype registration = RegisterService | RegisterDefaultFeatureApi

definition CallManagerServiceLiteInit :: "(registration \<Rightarrow> bool) \<Rightarrow> registration list" where
  "CallManagerServiceLiteInit samgr =
    (if \<not> samgr RegisterService then [RegisterService] else [RegisterService, RegisterDefaultFeatureApi])"

section \<open>Starting under the service manager\<close>

lemma Service_Init_success: "fst (run_state Service_Init s) = TELEPHONY_SUCCESS"
  by (simp add: Service_Init_def Control_Init_def case_prod_beta)

lemma Service_Init_ready: "cm_ready (snd (run_state Service_Init s))"
  by (simp add: Service_Init_def Control_Init_def case_prod_beta)

lemma steady_Service_Init: "steady s (snd (run_state Service_Init s))"
  by (intro alongD along)

text \<open>Starting as a service of the device is all or nothing. With the kernel objects at hand the loop runs, posts to the
  service task and the call manager is ready; without them the service manager is told of the failure, the loop is
  as if it had never been started, and nothing else has changed.\<close>
theorem lite_start_all_or_nothing:
  assumes "lh_state (cm_loop s) = STATE_UNINIT" and "run_state (Initialize objectsOk SAMGR_SendRequest quiescent) s = (ok, t)"
  shows "(ok \<longleftrightarrow> objectsOk) \<and>
    (ok \<longrightarrow> lh_state (cm_loop t) = STATE_RUNNING \<and> lh_config (cm_loop t) = Lite_config SAMGR_SendRequest \<and> cm_ready t) \<and>
    (\<not> ok \<longrightarrow> lh_state (cm_loop t) = STATE_UNINIT \<and> lh_waiterSems (cm_loop t) = [] \<and> lh_timer (cm_loop t) = None \<and>
      t = s\<lparr>cm_loop := cm_loop t\<rparr>)"
proof -
  let ?h = "snd (run_state (Init objectsOk True (Lite_config SAMGR_SendRequest)) (cm_loop s))"
  have init: "fst (run_state (Init objectsOk True (Lite_config SAMGR_SendRequest)) (cm_loop s)) =
      (if objectsOk then TELEPHONY_SUCCESS else TELEPHONY_ERR_FAIL)"
    "objectsOk \<Longrightarrow> lh_state ?h = STATE_RUNNING \<and> lh_config ?h = Lite_config SAMGR_SendRequest"
    "\<not> objectsOk \<Longrightarrow> lh_state ?h = STATE_UNINIT \<and> lh_waiterSems ?h = [] \<and> lh_timer ?h = None"
    using assms(1) by (simp_all add: Init_def Lite_config_def DefaultConfig_def ReleaseObjects_def
      MINI_QUEUE_SIZE_def MINI_MAX_DELAYED_TASKS_def MINI_MAX_SYNC_WAITERS_def)
  show ?thesis
  proof (cases objectsOk)
    case True
    let ?s = "s\<lparr>cm_loop := ?h\<rparr>"
    have "(ok, t) = (True, snd (run_state Service_Init ?s))"
      using assms(2) init(1) True by (simp add: Initialize_def onLoop_def case_prod_beta Service_Init_success)
    with steady_Service_Init [of ?s] Service_Init_ready [of ?s] init(2) True show ?thesis
      by (simp add: steady_def steady_loop_def)
  next
    case False
    with assms(2) init(1) have "(ok, t) = (False, s\<lparr>cm_loop := ?h\<rparr>)"
      by (simp add: Initialize_def onLoop_def case_prod_beta)
    with init(3) False show ?thesis by simp
  qed
qed

section \<open>Messages through the service manager\<close>

text \<open>A task that is posted comes back through the service manager: the post succeeds exactly when the request was
  accepted; whatever happens in between, short of a start or a stop, the message that is handed back runs that task
  and nothing else; after a stop it is dropped without a trace, and a request of another kind is refused.\<close>
theorem lite_tasks_come_back:
  assumes "lh_state (cm_loop s) = STATE_RUNNING" and "lh_config (cm_loop s) = Lite_config SAMGR_SendRequest"
    and "run_state (onLoop (PostAsyncTask task 0)) s = ((r, taskId), t)"
    and "n = length (lh_posted (cm_loop s))" and "\<forall>ev \<in> set evs. \<not> starts_or_stops ev"
    and "u = snd (run_state (for_each evs handle) t)" and "request = \<lparr>rq_msgId = k, rq_data = Some (lh_posted (cm_loop u) ! n)\<rparr>"
  shows "(r = TELEPHONY_SUCCESS \<longleftrightarrow> SAMGR_SendRequest n = EC_SUCCESS) \<and>
    (k = MSG_DISPATCH \<longrightarrow> run_state (MessageHandle (Some request)) u = (True, snd (run_state (run_task task) u))) \<and>
    (k = MSG_DISPATCH \<longrightarrow> lh_state (cm_loop v) \<noteq> STATE_RUNNING \<longrightarrow> run_state (MessageHandle (Some request)) v = (True, v)) \<and>
    (k \<noteq> MSG_DISPATCH \<longrightarrow> run_state (MessageHandle (Some request)) u = (False, u))"
proof -
  have post: "(r = TELEPHONY_SUCCESS \<longleftrightarrow> SAMGR_SendRequest n = EC_SUCCESS)"
    "lh_posted (cm_loop t) = lh_posted (cm_loop s) @ [ASYNC_TASK task]" "lh_state (cm_loop t) = STATE_RUNNING"
    using assms(1-4)
    by (auto simp: PostAsyncTask_def Enqueue_def onLoop_def Lite_config_def PostToServiceTask_def case_prod_beta split: if_splits)
  have "along steady (for_each evs handle)"
    using assms(5) by (induction evs) (auto intro!: along steady_handle)
  then have "steady t u" unfolding assms(6) by (rule alongD)
  then have "lh_posted (cm_loop u) ! n = ASYNC_TASK task" "lh_state (cm_loop u) = STATE_RUNNING"
    using post assms(4) by (auto simp: steady_def steady_loop_def prefix_def nth_append)
  then show ?thesis
    using post(1) assms(7)
    by (auto simp: MessageHandle_def dispatch_def Recycle_def onLoop_def case_prod_beta prod_eq_iff)
qed

section \<open>Examples\<close>

definition demo_lite :: cm where
  "demo_lite = snd (run_state (Initialize True (\<lambda>_. EC_SUCCESS) True) (cm_init demo_env 100))"

lemma demo_lite_run:
  "let s = demo_lite in lh_state (cm_loop s) = STATE_RUNNING \<and> lh_config (cm_loop s) = Lite_config (\<lambda>_. EC_SUCCESS) \<and>
     length (lh_posted (cm_loop s)) = 1"
  by (simp add: exec demo_lite_def Initialize_def Lite_config_def DefaultConfig_def PostToServiceTask_def cong: exec_cong)

theorem lite_start_all_or_nothing_witness:
  "fst (run_state (Initialize True (\<lambda>_. EC_SUCCESS) True) (cm_init demo_env 100)) \<and>
   \<not> fst (run_state (Initialize False (\<lambda>_. EC_SUCCESS) True) (cm_init demo_env 100))"
  using lite_start_all_or_nothing [OF _ prod.collapse [symmetric],
      of "cm_init demo_env 100" True "\<lambda>_. EC_SUCCESS" True]
    lite_start_all_or_nothing [OF _ prod.collapse [symmetric],
      of "cm_init demo_env 100" False "\<lambda>_. EC_SUCCESS" True]
  by (simp add: cm_init_def loop_init_def)

theorem lite_tasks_come_back_witness:
  "\<exists>t. run_state (MessageHandle (Some \<lparr>rq_msgId = 1, rq_data = Some (lh_posted (cm_loop t) ! 1)\<rparr>)) t =
     (True, snd (run_state (run_task (T_HangUpRequest 1)) t))"
proof -
  obtain r taskId t where post: "run_state (onLoop (PostAsyncTask (T_HangUpRequest 1) 0)) demo_lite = ((r, taskId), t)"
    by (metis prod.collapse)
  from lite_tasks_come_back [of demo_lite "\<lambda>_. EC_SUCCESS" "T_HangUpRequest 1" r taskId t 1
      "[E_CallReport (demo_report 1 CALL_STATUS_INCOMING)]" _ _ MSG_DISPATCH, OF _ _ post _ _ HOL.refl HOL.refl]
    demo_lite_run [unfolded Let_def]
  show ?thesis by (auto simp: MSG_DISPATCH_def)
qed

end
