(* ===== verification/Stack_Reports.thy ===== *)
theory Stack_Reports
  imports Uplink Api_Types
begin

text \<open>
  All that the protocol stack may call of the guard, \<open>call_status_callback_guard.cpp\<close>: the five reports of theory \<open>Uplink\<close>,
  and the reports of features that this system does not have, with the structures they carry
  (\<open>interfaces/innerkits/call_manager_inner_type.h\<close>, \<open>voip_call_manager_info.h\<close>). Character arrays are the string up to the
  terminator.
\<close>

section \<open>What the reports carry\<close>

datatype VideoRequestResultType =
    TYPE_REQUEST_SUCCESS
  | TYPE_REQUEST_FAIL
  | TYPE_REQUEST_INVALID
  | TYPE_REQUEST_TIMED_OUT
  | REQUEST_REJECTED_BY_REMOTE
  | TYPE_REQUEST_UPGRADE_CANCELED
  | TYPE_MODIFY_DOWNGRADE_RTP_OR_RTCP_TIMEOUT
  | TYPE_MODIFY_DOWNGRADE_RTP_AND_RTCP_TIMEOUT

datatype CallSessionEventId =
    EVENT_CAMERA_FAILURE
  | EVENT_CAMERA_READY
  | EVENT_RELEASE_DISPLAY_SURFACE
  | EVENT_RELEASE_PREVIEW_SURFACE

datatype VoipCallEvent =
    VOIP_CALL_EVENT_NONE
  | VOIP_CALL_EVENT_ANSWER_VOICE
  | VOIP_CALL_EVENT_ANSWER_VIDEO
  | VOIP_CALL_EVENT_REJECT
  | VOIP_CALL_EVENT_HANGUP
  | VOIP_CALL_EVENT_MUTED
  | VOIP_CALL_EVENT_UNMUTED
  | VOIP_CALL_EVENT_SPEAKER_ON
  | VOIP_CALL_EVENT_SPEAKER_OFF
  | VOIP_CALL_EVENT_MUTE_RINGTONE
  | VOIP_CALL_EVENT_MIC_DISABLE

datatype ErrorReason =
    ERROR_NONE
  | CELLULAR_CALL_EXISTS
  | VOIP_CALL_EXISTS
  | INVALID_CALL
  | USER_ANSWER_CELLULAR_FIRST

record CallWaitResponse =
  cwr_result :: int
  cwr_status :: int
  cwr_classCw :: int

record ClipResponse =
  clp_result :: int
  clp_action :: int
  clp_clipStat :: int

record ClirResponse =
  clr_result :: int
  clr_action :: int
  clr_clirStat :: int

record MmiCodeInfo =
  mmi_result :: int
  mmi_message :: string
  mmi_mmiCodeType :: int
  mmi_action :: int
  mmi_status :: int
  mmi_classCw :: int
  mmi_number :: string
  mmi_reason :: int
  mmi_time :: int

record CallTransferResponse =
  ctr_result :: int
  ctr_status :: int
  ctr_classx :: int
  ctr_type :: int
  ctr_number :: string
  ctr_reason :: int
  ctr_time :: int
  ctr_startHour :: int
  ctr_startMinute :: int
  ctr_endHour :: int
  ctr_endMinute :: int

record CallRestrictionResponse =
  crr_result :: int
  crr_status :: int
  crr_classCw :: int

record GetImsConfigResponse =
  gic_result :: int
  gic_value :: int

record GetImsFeatureValueResponse =
  gif_result :: int
  gif_value :: int

record CallModeReportInfo =
  cmr_callIndex :: int
  cmr_result :: VideoRequestResultType
  cmr_callMode :: ImsCallMode
  cmr_slotId :: int

record CallSessionReportInfo =
  csr_index :: int
  csr_eventId :: CallSessionEventId

record PeerDimensionsReportInfo =
  pdr_index :: int
  pdr_width :: int
  pdr_height :: int

record CameraCapabilitiesReportInfo =
  ccr_index :: int
  ccr_width :: int
  ccr_height :: int

record ImsSuppExtReportInfo =
  isr_slotId :: int
  isr_code :: int
  isr_callIndex :: int

record VoipCallEventInfo =
  vce_voipCallId :: string
  vce_bundleName :: string
  vce_uid :: int
  vce_voipCallEvent :: VoipCallEvent
  vce_errorReason :: ErrorReason

section \<open>The reports that are refused\<close>

definition Guard_NotSupported :: "ErrCode cmM" where
  "Guard_NotSupported = ret CALL_ERR_FUNCTION_NOT_SUPPORTED"

definition Guard_ReportCallProcedureEvents :: "string \<Rightarrow> string \<Rightarrow> ErrCode cmM" where
  "Guard_ReportCallProcedureEvents info more_info = Guard_NotSupported"

definition Guard_UpdateGetWaitingResult :: "CallWaitResponse \<Rightarrow> ErrCode cmM" where
  "Guard_UpdateGetWaitingResult info = Guard_NotSupported"

definition Guard_UpdateSetWaitingResult :: "int \<Rightarrow> ErrCode cmM" where
  "Guard_UpdateSetWaitingResult info = Guard_NotSupported"

definition Guard_UpdateGetRestrictionResult :: "CallRestrictionResponse \<Rightarrow> ErrCode cmM" where
  "Guard_UpdateGetRestrictionResult info = Guard_NotSupported"

definition Guard_UpdateSetRestrictionResult :: "int \<Rightarrow> ErrCode cmM" where
  "Guard_UpdateSetRestrictionResult info = Guard_NotSupported"

definition Guard_UpdateSetRestrictionPasswordResult :: "int \<Rightarrow> ErrCode cmM" where
  "Guard_UpdateSetRestrictionPasswordResult info = Guard_NotSupported"

definition Guard_UpdateGetTransferResult :: "CallTransferResponse \<Rightarrow> ErrCode cmM" where
  "Guard_UpdateGetTransferResult info = Guard_NotSupported"

definition Guard_UpdateSetTransferResult :: "int \<Rightarrow> ErrCode cmM" where
  "Guard_UpdateSetTransferResult info = Guard_NotSupported"

definition Guard_UpdateGetCallClipResult :: "ClipResponse \<Rightarrow> ErrCode cmM" where
  "Guard_UpdateGetCallClipResult info = Guard_NotSupported"

definition Guard_UpdateGetCallClirResult :: "ClirResponse \<Rightarrow> ErrCode cmM" where
  "Guard_UpdateGetCallClirResult info = Guard_NotSupported"

definition Guard_UpdateSetCallClirResult :: "int \<Rightarrow> ErrCode cmM" where
  "Guard_UpdateSetCallClirResult info = Guard_NotSupported"

definition Guard_StartRttResult :: "int \<Rightarrow> ErrCode cmM" where
  "Guard_StartRttResult info = Guard_NotSupported"

definition Guard_StopRttResult :: "int \<Rightarrow> ErrCode cmM" where
  "Guard_StopRttResult info = Guard_NotSupported"

definition Guard_GetImsConfigResult :: "GetImsConfigResponse \<Rightarrow> ErrCode cmM" where
  "Guard_GetImsConfigResult info = Guard_NotSupported"

definition Guard_SetImsConfigResult :: "int \<Rightarrow> ErrCode cmM" where
  "Guard_SetImsConfigResult info = Guard_NotSupported"

definition Guard_GetImsFeatureValueResult :: "GetImsFeatureValueResponse \<Rightarrow> ErrCode cmM" where
  "Guard_GetImsFeatureValueResult info = Guard_NotSupported"

definition Guard_SetImsFeatureValueResult :: "int \<Rightarrow> ErrCode cmM" where
  "Guard_SetImsFeatureValueResult info = Guard_NotSupported"

definition Guard_ReceiveUpdateCallMediaModeRequest :: "CallModeReportInfo \<Rightarrow> ErrCode cmM" where
  "Guard_ReceiveUpdateCallMediaModeRequest info = Guard_NotSupported"

definition Guard_ReceiveUpdateCallMediaModeResponse :: "CallModeReportInfo \<Rightarrow> ErrCode cmM" where
  "Guard_ReceiveUpdateCallMediaModeResponse info = Guard_NotSupported"

definition Guard_InviteToConferenceResult :: "int \<Rightarrow> ErrCode cmM" where
  "Guard_InviteToConferenceResult info = Guard_NotSupported"

definition Guard_StartDtmfResult :: "int \<Rightarrow> ErrCode cmM" where
  "Guard_StartDtmfResult info = Guard_NotSupported"

definition Guard_StopDtmfResult :: "int \<Rightarrow> ErrCode cmM" where
  "Guard_StopDtmfResult info = Guard_NotSupported"

definition Guard_SendUssdResult :: "int \<Rightarrow> ErrCode cmM" where
  "Guard_SendUssdResult info = Guard_NotSupported"

definition Guard_GetImsCallDataResult :: "int \<Rightarrow> ErrCode cmM" where
  "Guard_GetImsCallDataResult info = Guard_NotSupported"

definition Guard_SendMmiCodeResult :: "MmiCodeInfo \<Rightarrow> ErrCode cmM" where
  "Guard_SendMmiCodeResult info = Guard_NotSupported"

definition Guard_CloseUnFinishedUssdResult :: "int \<Rightarrow> ErrCode cmM" where
  "Guard_CloseUnFinishedUssdResult info = Guard_NotSupported"

definition Guard_ReportPostDialChar :: "string \<Rightarrow> ErrCode cmM" where
  "Guard_ReportPostDialChar info = Guard_NotSupported"

definition Guard_ReportPostDialDelay :: "string \<Rightarrow> ErrCode cmM" where
  "Guard_ReportPostDialDelay info = Guard_NotSupported"

definition Guard_HandleCallSessionEventChanged :: "CallSessionReportInfo \<Rightarrow> ErrCode cmM" where
  "Guard_HandleCallSessionEventChanged info = Guard_NotSupported"

definition Guard_HandlePeerDimensionsChanged :: "PeerDimensionsReportInfo \<Rightarrow> ErrCode cmM" where
  "Guard_HandlePeerDimensionsChanged info = Guard_NotSupported"

definition Guard_HandleCallDataUsageChanged :: "int \<Rightarrow> ErrCode cmM" where
  "Guard_HandleCallDataUsageChanged info = Guard_NotSupported"

definition Guard_HandleCameraCapabilitiesChanged :: "CameraCapabilitiesReportInfo \<Rightarrow> ErrCode cmM" where
  "Guard_HandleCameraCapabilitiesChanged info = Guard_NotSupported"

definition Guard_HandleImsSuppExtChanged :: "ImsSuppExtReportInfo \<Rightarrow> ErrCode cmM" where
  "Guard_HandleImsSuppExtChanged info = Guard_NotSupported"

definition Guard_UpdateVoipEventInfo :: "VoipCallEventInfo \<Rightarrow> ErrCode cmM" where
  "Guard_UpdateVoipEventInfo info = Guard_NotSupported"

section \<open>The interface of the guard\<close>

text \<open>A call of the stack, by the method it calls; the features that are cut stand behind one constructor.\<close>

datatype cut_report =
    S_ReportCallProcedureEvents string string
  | S_UpdateGetWaitingResult CallWaitResponse
  | S_UpdateSetWaitingResult int
  | S_UpdateGetRestrictionResult CallRestrictionResponse
  | S_UpdateSetRestrictionResult int
  | S_UpdateSetRestrictionPasswordResult int
  | S_UpdateGetTransferResult CallTransferResponse
  | S_UpdateSetTransferResult int
  | S_UpdateGetCallClipResult ClipResponse
  | S_UpdateGetCallClirResult ClirResponse
  | S_UpdateSetCallClirResult int
  | S_StartRttResult int
  | S_StopRttResult int
  | S_GetImsConfigResult GetImsConfigResponse
  | S_SetImsConfigResult int
  | S_GetImsFeatureValueResult GetImsFeatureValueResponse
  | S_SetImsFeatureValueResult int
  | S_ReceiveUpdateCallMediaModeRequest CallModeReportInfo
  | S_ReceiveUpdateCallMediaModeResponse CallModeReportInfo
  | S_InviteToConferenceResult int
  | S_StartDtmfResult int
  | S_StopDtmfResult int
  | S_SendUssdResult int
  | S_GetImsCallDataResult int
  | S_SendMmiCodeResult MmiCodeInfo
  | S_CloseUnFinishedUssdResult int
  | S_ReportPostDialChar string
  | S_ReportPostDialDelay string
  | S_HandleCallSessionEventChanged CallSessionReportInfo
  | S_HandlePeerDimensionsChanged PeerDimensionsReportInfo
  | S_HandleCallDataUsageChanged int
  | S_HandleCameraCapabilitiesChanged CameraCapabilitiesReportInfo
  | S_HandleImsSuppExtChanged ImsSuppExtReportInfo
  | S_UpdateVoipEventInfo VoipCallEventInfo

fun cut_do :: "cut_report \<Rightarrow> ErrCode cmM" where
  "cut_do (S_ReportCallProcedureEvents x y) = Guard_ReportCallProcedureEvents x y"
| "cut_do (S_UpdateGetWaitingResult x) = Guard_UpdateGetWaitingResult x"
| "cut_do (S_UpdateSetWaitingResult x) = Guard_UpdateSetWaitingResult x"
| "cut_do (S_UpdateGetRestrictionResult x) = Guard_UpdateGetRestrictionResult x"
| "cut_do (S_UpdateSetRestrictionResult x) = Guard_UpdateSetRestrictionResult x"
| "cut_do (S_UpdateSetRestrictionPasswordResult x) = Guard_UpdateSetRestrictionPasswordResult x"
| "cut_do (S_UpdateGetTransferResult x) = Guard_UpdateGetTransferResult x"
| "cut_do (S_UpdateSetTransferResult x) = Guard_UpdateSetTransferResult x"
| "cut_do (S_UpdateGetCallClipResult x) = Guard_UpdateGetCallClipResult x"
| "cut_do (S_UpdateGetCallClirResult x) = Guard_UpdateGetCallClirResult x"
| "cut_do (S_UpdateSetCallClirResult x) = Guard_UpdateSetCallClirResult x"
| "cut_do (S_StartRttResult x) = Guard_StartRttResult x"
| "cut_do (S_StopRttResult x) = Guard_StopRttResult x"
| "cut_do (S_GetImsConfigResult x) = Guard_GetImsConfigResult x"
| "cut_do (S_SetImsConfigResult x) = Guard_SetImsConfigResult x"
| "cut_do (S_GetImsFeatureValueResult x) = Guard_GetImsFeatureValueResult x"
| "cut_do (S_SetImsFeatureValueResult x) = Guard_SetImsFeatureValueResult x"
| "cut_do (S_ReceiveUpdateCallMediaModeRequest x) = Guard_ReceiveUpdateCallMediaModeRequest x"
| "cut_do (S_ReceiveUpdateCallMediaModeResponse x) = Guard_ReceiveUpdateCallMediaModeResponse x"
| "cut_do (S_InviteToConferenceResult x) = Guard_InviteToConferenceResult x"
| "cut_do (S_StartDtmfResult x) = Guard_StartDtmfResult x"
| "cut_do (S_StopDtmfResult x) = Guard_StopDtmfResult x"
| "cut_do (S_SendUssdResult x) = Guard_SendUssdResult x"
| "cut_do (S_GetImsCallDataResult x) = Guard_GetImsCallDataResult x"
| "cut_do (S_SendMmiCodeResult x) = Guard_SendMmiCodeResult x"
| "cut_do (S_CloseUnFinishedUssdResult x) = Guard_CloseUnFinishedUssdResult x"
| "cut_do (S_ReportPostDialChar x) = Guard_ReportPostDialChar x"
| "cut_do (S_ReportPostDialDelay x) = Guard_ReportPostDialDelay x"
| "cut_do (S_HandleCallSessionEventChanged x) = Guard_HandleCallSessionEventChanged x"
| "cut_do (S_HandlePeerDimensionsChanged x) = Guard_HandlePeerDimensionsChanged x"
| "cut_do (S_HandleCallDataUsageChanged x) = Guard_HandleCallDataUsageChanged x"
| "cut_do (S_HandleCameraCapabilitiesChanged x) = Guard_HandleCameraCapabilitiesChanged x"
| "cut_do (S_HandleImsSuppExtChanged x) = Guard_HandleImsSuppExtChanged x"
| "cut_do (S_UpdateVoipEventInfo x) = Guard_UpdateVoipEventInfo x"

datatype stack_report =
    S_UpdateCallReportInfo CallReportInfo
  | S_UpdateCallsReportInfo CallsReportInfo
  | S_UpdateDisconnectedCause DisconnectedDetails
  | S_UpdateEventResultInfo CellularCallEventInfo
  | S_UpdateRBTPlayInfo RBTPlayInfo
  | S_Cut cut_report

fun guard_do :: "stack_report \<Rightarrow> ErrCode cmM" where
  "guard_do (S_UpdateCallReportInfo info) = Guard_UpdateCallReportInfo info"
| "guard_do (S_UpdateCallsReportInfo info) = Guard_UpdateCallsReportInfo info"
| "guard_do (S_UpdateDisconnectedCause info) = Guard_UpdateDisconnectedCause info"
| "guard_do (S_UpdateEventResultInfo info) = Guard_UpdateEventResultInfo info"
| "guard_do (S_UpdateRBTPlayInfo info) = Guard_UpdateRBTPlayInfo info"
| "guard_do (S_Cut r) = cut_do r"

text \<open>The task a sound report becomes.\<close>

fun report_task :: "stack_report \<Rightarrow> task option" where
  "report_task (S_UpdateCallReportInfo info) = Some (T_UpdateCallReportInfo info)"
| "report_task (S_UpdateCallsReportInfo info) = Some (T_UpdateCallsReportInfo info)"
| "report_task (S_UpdateDisconnectedCause info) = Some (T_UpdateDisconnectedCause info)"
| "report_task (S_UpdateEventResultInfo info) = Some (T_UpdateEventResultInfo info)"
| "report_task (S_UpdateRBTPlayInfo info) = Some (T_UpdateRBTPlayInfo info)"
| "report_task (S_Cut r) = None"

lemma cut_refused: "run_state (cut_do r) s = (CALL_ERR_FUNCTION_NOT_SUPPORTED, s)"
  by (cases r)
    (simp_all add: Guard_NotSupported_def Guard_ReportCallProcedureEvents_def Guard_UpdateGetWaitingResult_def Guard_UpdateSetWaitingResult_def Guard_UpdateGetRestrictionResult_def
      Guard_UpdateSetRestrictionResult_def Guard_UpdateSetRestrictionPasswordResult_def Guard_UpdateGetTransferResult_def Guard_UpdateSetTransferResult_def
      Guard_UpdateGetCallClipResult_def Guard_UpdateGetCallClirResult_def Guard_UpdateSetCallClirResult_def Guard_StartRttResult_def
      Guard_StopRttResult_def Guard_GetImsConfigResult_def Guard_SetImsConfigResult_def Guard_GetImsFeatureValueResult_def
      Guard_SetImsFeatureValueResult_def Guard_ReceiveUpdateCallMediaModeRequest_def Guard_ReceiveUpdateCallMediaModeResponse_def Guard_InviteToConferenceResult_def
      Guard_StartDtmfResult_def Guard_StopDtmfResult_def Guard_SendUssdResult_def Guard_GetImsCallDataResult_def
      Guard_SendMmiCodeResult_def Guard_CloseUnFinishedUssdResult_def Guard_ReportPostDialChar_def Guard_ReportPostDialDelay_def
      Guard_HandleCallSessionEventChanged_def Guard_HandlePeerDimensionsChanged_def Guard_HandleCallDataUsageChanged_def Guard_HandleCameraCapabilitiesChanged_def
      Guard_HandleImsSuppExtChanged_def Guard_UpdateVoipEventInfo_def)

lemma PostToLoop_on_loop:
  "run_state (PostToLoop t) s =
    (let (r, h) = run_state (PostAsyncTask t 0) (cm_loop s) in (fst r, s\<lparr>cm_loop := h\<rparr>))"
  by (simp add: PostToLoop_def post_def onLoop_def split: prod.splits)

text \<open>Whatever the stack calls of the guard, from whatever task of its own: either it is refused with an error that says
  so and nothing changes, or exactly one task, the one for this report, is posted to the loop, the answer is that of the
  post, and nothing but the loop is touched.\<close>
theorem guard_only_posts:
  "run_state (guard_do report) s \<in>
     {(TELEPHONY_ERR_ARGUMENT_INVALID, s), (CALL_ERR_FUNCTION_NOT_SUPPORTED, s)} \<union>
     (\<lambda>t. let (r, h) = run_state (PostAsyncTask t 0) (cm_loop s) in (fst r, s\<lparr>cm_loop := h\<rparr>)) ` set_option (report_task report)"
proof (cases report)
  case (S_Cut r)
  then show ?thesis by (simp add: cut_refused)
qed (auto simp: PostToLoop_on_loop Guard_UpdateCallReportInfo_def Guard_UpdateCallsReportInfo_def Guard_UpdateDisconnectedCause_def
  Guard_UpdateEventResultInfo_def Guard_UpdateRBTPlayInfo_def)

end
