(* ===== verification/Call_Virtual.thy ===== *)
theory Call_Virtual
  imports Stack_Reports Demo
begin

text \<open>
  The two classes of calls, \<open>cs_call.cpp\<close> and \<open>ims_call.cpp\<close>, method by method, with what is left of \<open>carrier_call.cpp\<close> and
  \<open>cellular_call_connection.cpp\<close>. The status machine and call control run the carrier operations of theory
  \<open>Stack_Connection\<close>; here is how a call of a method reaches them in either class, and which methods end in a refusal.
\<close>

section \<open>What the connection does not support\<close>

definition Conn_CombineConference :: "CellularCallInfo \<Rightarrow> ErrCode cmM" where
  "Conn_CombineConference callInfo = ret NotSupported"

definition Conn_SeparateConference :: "CellularCallInfo \<Rightarrow> ErrCode cmM" where
  "Conn_SeparateConference callInfo = ret NotSupported"

definition Conn_KickOutFromConference :: "CellularCallInfo \<Rightarrow> ErrCode cmM" where
  "Conn_KickOutFromConference callInfo = ret NotSupported"

definition Conn_StartDtmf :: "char \<Rightarrow> CellularCallInfo \<Rightarrow> ErrCode cmM" where
  "Conn_StartDtmf cDTMFCode callInfo = ret NotSupported"

definition Conn_StopDtmf :: "CellularCallInfo \<Rightarrow> ErrCode cmM" where
  "Conn_StopDtmf callInfo = ret NotSupported"

definition Conn_PostDialProceed :: "CellularCallInfo \<Rightarrow> bool \<Rightarrow> ErrCode cmM" where
  "Conn_PostDialProceed callInfo proceed = ret NotSupported"

definition Conn_SetMute :: "int \<Rightarrow> int \<Rightarrow> ErrCode cmM" where
  "Conn_SetMute mute slotId = ret NotSupported"

definition Conn_GetVideoCallWaiting :: "int \<Rightarrow> ErrCode cmM" where
  "Conn_GetVideoCallWaiting slotId = ret NotSupported"

definition Conn_GetCarrierVtConfig :: "int \<Rightarrow> ErrCode cmM" where
  "Conn_GetCarrierVtConfig slotId = ret NotSupported"

definition Conn_IsMmiCode :: "int \<Rightarrow> string \<Rightarrow> bool" where
  "Conn_IsMmiCode slotId number = False"

section \<open>The rest of a carrier call\<close>

definition CarrierSetMute :: "int \<Rightarrow> int \<Rightarrow> ErrCode cmM" where
  "CarrierSetMute mute slotId = Conn_SetMute mute slotId"

definition CarrierCombineConference :: "nat \<Rightarrow> ErrCode cmM" where
  "CarrierCombineConference a = do { callInfo \<leftarrow> packed a; Conn_CombineConference callInfo }"

definition CarrierSeparateConference :: "nat \<Rightarrow> ErrCode cmM" where
  "CarrierSeparateConference a = do { callInfo \<leftarrow> packed a; Conn_SeparateConference callInfo }"

definition CarrierKickOutFromConference :: "nat \<Rightarrow> ErrCode cmM" where
  "CarrierKickOutFromConference a = do { callInfo \<leftarrow> packed a; Conn_KickOutFromConference callInfo }"

definition Carrier_StartDtmf :: "nat \<Rightarrow> char \<Rightarrow> ErrCode cmM" where
  "Carrier_StartDtmf a str = do { callInfo \<leftarrow> packed a; Conn_StartDtmf str callInfo }"

definition Carrier_StopDtmf :: "nat \<Rightarrow> ErrCode cmM" where
  "Carrier_StopDtmf a = do { callInfo \<leftarrow> packed a; Conn_StopDtmf callInfo }"

definition Carrier_PostDialProceed :: "nat \<Rightarrow> bool \<Rightarrow> ErrCode cmM" where
  "Carrier_PostDialProceed a proceed = do { callInfo \<leftarrow> packed a; Conn_PostDialProceed callInfo proceed }"

section \<open>A circuit-switched call\<close>

definition CSCall_DialingProcess :: "nat \<Rightarrow> ErrCode cmM" where
  "CSCall_DialingProcess a = CarrierDialingProcess a"

definition CSCall_AnswerCall :: "nat \<Rightarrow> int \<Rightarrow> bool \<Rightarrow> ErrCode cmM" where
  "CSCall_AnswerCall a videoState isRTT = CarrierAnswerCall a videoState False"

definition CSCall_RejectCall :: "nat \<Rightarrow> ErrCode cmM" where
  "CSCall_RejectCall a = CarrierRejectCall a"

definition CSCall_HangUpCall :: "nat \<Rightarrow> ErrCode cmM" where
  "CSCall_HangUpCall a = CarrierHangUpCall a"

definition CSCall_HoldCall :: "nat \<Rightarrow> ErrCode cmM" where
  "CSCall_HoldCall a = CarrierHoldCall a"

definition CSCall_UnHoldCall :: "nat \<Rightarrow> ErrCode cmM" where
  "CSCall_UnHoldCall a = CarrierUnHoldCall a"

definition CSCall_SwitchCall :: "nat \<Rightarrow> ErrCode cmM" where
  "CSCall_SwitchCall a = CarrierSwitchCall a"

definition CSCall_GetCallAttributeInfo :: "call \<Rightarrow> CallAttributeInfo" where
  "CSCall_GetCallAttributeInfo c = GetCallAttributeInfo c"

definition CSCall_SetMute :: "nat \<Rightarrow> int \<Rightarrow> int \<Rightarrow> ErrCode cmM" where
  "CSCall_SetMute a mute slotId = CarrierSetMute mute slotId"

definition CSCall_CombineConference :: "nat \<Rightarrow> ErrCode cmM" where
  "CSCall_CombineConference a = ret CALL_ERR_FUNCTION_NOT_SUPPORTED"

definition CSCall_HandleCombineConferenceFailEvent :: "unit cmM" where
  "CSCall_HandleCombineConferenceFailEvent = ignore (onConference CSCall combine_failed)"

definition CSCall_SeparateConference :: "nat \<Rightarrow> ErrCode cmM" where
  "CSCall_SeparateConference a = ret CALL_ERR_FUNCTION_NOT_SUPPORTED"

definition CSCall_KickOutFromConference :: "nat \<Rightarrow> ErrCode cmM" where
  "CSCall_KickOutFromConference a = ret CALL_ERR_FUNCTION_NOT_SUPPORTED"

definition CSCall_CanCombineConference :: "nat \<Rightarrow> ErrCode cmM" where
  "CSCall_CanCombineConference a = ret CALL_ERR_FUNCTION_NOT_SUPPORTED"

definition CSCall_CanSeparateConference :: "nat \<Rightarrow> ErrCode cmM" where
  "CSCall_CanSeparateConference a = ret CALL_ERR_FUNCTION_NOT_SUPPORTED"

definition CSCall_CanKickOutFromConference :: "nat \<Rightarrow> ErrCode cmM" where
  "CSCall_CanKickOutFromConference a = ret CALL_ERR_FUNCTION_NOT_SUPPORTED"

definition CSCall_GetMainCallId :: "(ErrCode \<times> int) cmM" where
  "CSCall_GetMainCallId = do { f \<leftarrow> getConference CSCall; ret (TELEPHONY_SUCCESS, cf_mainCallId f) }"

definition CSCall_GetSubCallIdList :: "nat \<Rightarrow> (ErrCode \<times> u16string list) cmM" where
  "CSCall_GetSubCallIdList a = do { c \<leftarrow> getCall a; f \<leftarrow> getConference CSCall; ret (GetSubCallIdList (cb_callId c) f) }"

definition CSCall_GetCallIdListForConference :: "nat \<Rightarrow> (ErrCode \<times> u16string list) cmM" where
  "CSCall_GetCallIdListForConference a = do { c \<leftarrow> getCall a; f \<leftarrow> getConference CSCall; ret (GetCallIdListForConference (cb_callId c) f) }"

definition CSCall_IsSupportConferenceable :: "nat \<Rightarrow> ErrCode cmM" where
  "CSCall_IsSupportConferenceable a = do { c \<leftarrow> getCall a; ret (IsSupportConferenceable c) }"

section \<open>A call over IMS\<close>

definition IMSCall_InitVideoCall :: "nat \<Rightarrow> ErrCode cmM" where
  "IMSCall_InitVideoCall a = ret CALL_ERR_VIDEO_NOT_SUPPORTED"

definition IMSCall_DialingProcess :: "nat \<Rightarrow> ErrCode cmM" where
  "IMSCall_DialingProcess a = CarrierDialingProcess a"

definition IMSCall_AnswerCall :: "nat \<Rightarrow> int \<Rightarrow> bool \<Rightarrow> ErrCode cmM" where
  "IMSCall_AnswerCall a videoState isRTT = CarrierAnswerCall a videoState isRTT"

definition IMSCall_RejectCall :: "nat \<Rightarrow> ErrCode cmM" where
  "IMSCall_RejectCall a = CarrierRejectCall a"

definition IMSCall_HangUpCall :: "nat \<Rightarrow> ErrCode cmM" where
  "IMSCall_HangUpCall a = CarrierHangUpCall a"

definition IMSCall_HoldCall :: "nat \<Rightarrow> ErrCode cmM" where
  "IMSCall_HoldCall a = CarrierHoldCall a"

definition IMSCall_UnHoldCall :: "nat \<Rightarrow> ErrCode cmM" where
  "IMSCall_UnHoldCall a = CarrierUnHoldCall a"

definition IMSCall_SwitchCall :: "nat \<Rightarrow> ErrCode cmM" where
  "IMSCall_SwitchCall a = CarrierSwitchCall a"

definition IMSCall_SetMute :: "nat \<Rightarrow> int \<Rightarrow> int \<Rightarrow> ErrCode cmM" where
  "IMSCall_SetMute a mute slotId = CarrierSetMute mute slotId"

definition IMSCall_GetCallAttributeInfo :: "call \<Rightarrow> CallAttributeInfo" where
  "IMSCall_GetCallAttributeInfo c = GetCallAttributeInfo c"

definition IMSCall_CombineConference :: "nat \<Rightarrow> ErrCode cmM" where
  "IMSCall_CombineConference a = ret CALL_ERR_FUNCTION_NOT_SUPPORTED"

definition IMSCall_HandleCombineConferenceFailEvent :: "unit cmM" where
  "IMSCall_HandleCombineConferenceFailEvent = ignore (onConference IMSCall combine_failed)"

definition IMSCall_SeparateConference :: "nat \<Rightarrow> ErrCode cmM" where
  "IMSCall_SeparateConference a = ret CALL_ERR_FUNCTION_NOT_SUPPORTED"

definition IMSCall_KickOutFromConference :: "nat \<Rightarrow> ErrCode cmM" where
  "IMSCall_KickOutFromConference a = ret CALL_ERR_FUNCTION_NOT_SUPPORTED"

definition IMSCall_CanCombineConference :: "nat \<Rightarrow> ErrCode cmM" where
  "IMSCall_CanCombineConference a = ret CALL_ERR_FUNCTION_NOT_SUPPORTED"

definition IMSCall_CanSeparateConference :: "nat \<Rightarrow> ErrCode cmM" where
  "IMSCall_CanSeparateConference a = ret CALL_ERR_FUNCTION_NOT_SUPPORTED"

definition IMSCall_CanKickOutFromConference :: "nat \<Rightarrow> ErrCode cmM" where
  "IMSCall_CanKickOutFromConference a = ret CALL_ERR_FUNCTION_NOT_SUPPORTED"

definition IMSCall_GetMainCallId :: "(ErrCode \<times> int) cmM" where
  "IMSCall_GetMainCallId = do { f \<leftarrow> getConference IMSCall; ret (TELEPHONY_SUCCESS, cf_mainCallId f) }"

definition IMSCall_GetSubCallIdList :: "nat \<Rightarrow> (ErrCode \<times> u16string list) cmM" where
  "IMSCall_GetSubCallIdList a = do { c \<leftarrow> getCall a; f \<leftarrow> getConference IMSCall; ret (GetSubCallIdList (cb_callId c) f) }"

definition IMSCall_GetCallIdListForConference :: "nat \<Rightarrow> (ErrCode \<times> u16string list) cmM" where
  "IMSCall_GetCallIdListForConference a = do { c \<leftarrow> getCall a; f \<leftarrow> getConference IMSCall; ret (GetCallIdListForConference (cb_callId c) f) }"

definition IMSCall_IsSupportConferenceable :: "nat \<Rightarrow> ErrCode cmM" where
  "IMSCall_IsSupportConferenceable a = do { c \<leftarrow> getCall a; ret (IsSupportConferenceable c) }"

definition IMSCall_UpdateImsCallMode :: "nat \<Rightarrow> ImsCallMode \<Rightarrow> ErrCode cmM" where
  "IMSCall_UpdateImsCallMode a mode = ret CALL_ERR_VIDEO_NOT_SUPPORTED"

definition IMSCall_SendUpdateCallMediaModeRequest :: "nat \<Rightarrow> ImsCallMode \<Rightarrow> ErrCode cmM" where
  "IMSCall_SendUpdateCallMediaModeRequest a mode = ret CALL_ERR_VIDEO_NOT_SUPPORTED"

definition IMSCall_RecieveUpdateCallMediaModeRequest :: "nat \<Rightarrow> CallModeReportInfo \<Rightarrow> ErrCode cmM" where
  "IMSCall_RecieveUpdateCallMediaModeRequest a response = ret CALL_ERR_VIDEO_NOT_SUPPORTED"

definition IMSCall_SendUpdateCallMediaModeResponse :: "nat \<Rightarrow> ImsCallMode \<Rightarrow> ErrCode cmM" where
  "IMSCall_SendUpdateCallMediaModeResponse a mode = ret CALL_ERR_VIDEO_NOT_SUPPORTED"

definition IMSCall_ReceiveUpdateCallMediaModeResponse :: "nat \<Rightarrow> CallModeReportInfo \<Rightarrow> ErrCode cmM" where
  "IMSCall_ReceiveUpdateCallMediaModeResponse a response = ret CALL_ERR_VIDEO_NOT_SUPPORTED"

definition IMSCall_ControlCamera :: "nat \<Rightarrow> string \<Rightarrow> int \<Rightarrow> int \<Rightarrow> ErrCode cmM" where
  "IMSCall_ControlCamera a cameraId callingUid callingPid = ret CALL_ERR_VIDEO_NOT_SUPPORTED"

definition IMSCall_SetPausePicture :: "nat \<Rightarrow> string \<Rightarrow> ErrCode cmM" where
  "IMSCall_SetPausePicture a path = ret CALL_ERR_VIDEO_NOT_SUPPORTED"

definition IMSCall_SetDeviceDirection :: "nat \<Rightarrow> int \<Rightarrow> ErrCode cmM" where
  "IMSCall_SetDeviceDirection a rotation = ret CALL_ERR_VIDEO_NOT_SUPPORTED"

definition IMSCall_CancelCallUpgrade :: "nat \<Rightarrow> ErrCode cmM" where
  "IMSCall_CancelCallUpgrade a = ret CALL_ERR_VIDEO_NOT_SUPPORTED"

definition IMSCall_RequestCameraCapabilities :: "nat \<Rightarrow> ErrCode cmM" where
  "IMSCall_RequestCameraCapabilities a = ret CALL_ERR_VIDEO_NOT_SUPPORTED"

definition IMSCall_IsSupportVideoCall :: "nat \<Rightarrow> bool" where
  "IMSCall_IsSupportVideoCall a = False"

definition IMSCall_IsVoiceModifyToVideo :: "nat \<Rightarrow> bool" where
  "IMSCall_IsVoiceModifyToVideo a = False"

section \<open>The commands of a call\<close>

text \<open>What call control asks of a call object, and which method of which class that is.\<close>

datatype call_command = V_Answer int bool | V_Reject | V_HangUp | V_Hold | V_UnHold | V_Switch

fun virtual_call :: "CallClass \<Rightarrow> call_command \<Rightarrow> nat \<Rightarrow> ErrCode cmM" where
  "virtual_call CSCall (V_Answer videoState isRTT) a = CSCall_AnswerCall a videoState isRTT"
| "virtual_call CSCall V_Reject a = CSCall_RejectCall a"
| "virtual_call CSCall V_HangUp a = CSCall_HangUpCall a"
| "virtual_call CSCall V_Hold a = CSCall_HoldCall a"
| "virtual_call CSCall V_UnHold a = CSCall_UnHoldCall a"
| "virtual_call CSCall V_Switch a = CSCall_SwitchCall a"
| "virtual_call IMSCall (V_Answer videoState isRTT) a = IMSCall_AnswerCall a videoState isRTT"
| "virtual_call IMSCall V_Reject a = IMSCall_RejectCall a"
| "virtual_call IMSCall V_HangUp a = IMSCall_HangUpCall a"
| "virtual_call IMSCall V_Hold a = IMSCall_HoldCall a"
| "virtual_call IMSCall V_UnHold a = IMSCall_UnHoldCall a"
| "virtual_call IMSCall V_Switch a = IMSCall_SwitchCall a"

text \<open>The object refuses some commands itself; a rejected call is marked before the stack hears of it.\<close>

fun accepts :: "call_command \<Rightarrow> call \<Rightarrow> ErrCode" where
  "accepts (V_Answer videoState isRTT) c = (if AnswerCallBase c = TELEPHONY_SUCCESS then TELEPHONY_SUCCESS else CALL_ERR_ANSWER_FAILED)"
| "accepts V_Reject c = fst (RejectCallBase c)"
| "accepts _ c = TELEPHONY_SUCCESS"

fun marked :: "call_command \<Rightarrow> call \<Rightarrow> call" where
  "marked V_Reject c = snd (RejectCallBase c)"
| "marked _ c = c"

text \<open>The command of the stack, with the identity of the call, and the error it becomes when the stack refuses it.\<close>

definition named :: "call \<Rightarrow> CellularCallInfo \<Rightarrow> bool" where
  "named c info \<longleftrightarrow> ci_callId info = cb_callId c \<and> ci_index info = cc_index c \<and> ci_slotId info = cc_slotId c \<and>
     ci_accountId info = cc_slotId c \<and> ci_callType info = cb_callType c \<and>
     ci_phoneNum info = (if length (cb_accountNumber c) \<le> 255 then cb_accountNumber c else [])"

fun sent_as :: "CallClass \<Rightarrow> call_command \<Rightarrow> call \<Rightarrow> stack_cmd \<Rightarrow> bool" where
  "sent_as k (V_Answer videoState isRTT) c (SC_Answer info) \<longleftrightarrow> named c info \<and> ci_videoState info = videoState \<and>
     ci_isRTT info = (k = IMSCall \<and> isRTT)"
| "sent_as k V_Reject c (SC_HangUp info t) \<longleftrightarrow> named c info \<and> t = TYPE_DEFAULT"
| "sent_as k V_HangUp c (SC_HangUp info t) \<longleftrightarrow> named c info \<and> t = hang_up_type (cb_policyFlag c)"
| "sent_as k V_Hold c (SC_HoldCall info) \<longleftrightarrow> named c info"
| "sent_as k V_UnHold c (SC_UnHoldCall info) \<longleftrightarrow> named c info"
| "sent_as k V_Switch c (SC_SwitchCall info) \<longleftrightarrow> named c info"
| "sent_as k _ c _ \<longleftrightarrow> False"

fun failure :: "call_command \<Rightarrow> ErrCode" where
  "failure (V_Answer videoState isRTT) = CALL_ERR_ANSWER_FAILED"
| "failure V_Reject = CALL_ERR_REJECT_FAILED"
| "failure V_HangUp = CALL_ERR_HANGUP_FAILED"
| "failure V_Hold = CALL_ERR_HOLD_FAILED"
| "failure _ = CALL_ERR_UNHOLD_FAILED"

section \<open>The features that are cut\<close>

text \<open>A call of a method that stands for a feature this system does not have.\<close>

datatype cut_feature =
    K_CombineConference CellularCallInfo
  | K_SeparateConference CellularCallInfo
  | K_KickOutFromConference CellularCallInfo
  | K_StartDtmf char CellularCallInfo
  | K_StopDtmf CellularCallInfo
  | K_PostDialProceed CellularCallInfo bool
  | K_SetMute int int
  | K_GetVideoCallWaiting int
  | K_GetCarrierVtConfig int
  | K_CarrierSetMute int int
  | K_CarrierCombineConference nat
  | K_CarrierSeparateConference nat
  | K_CarrierKickOutFromConference nat
  | K_Carrier_StartDtmf nat char
  | K_Carrier_StopDtmf nat
  | K_Carrier_PostDialProceed nat bool
  | K_CSCall_SetMute nat int int
  | K_CSCall_CombineConference nat
  | K_CSCall_SeparateConference nat
  | K_CSCall_KickOutFromConference nat
  | K_CSCall_CanCombineConference nat
  | K_CSCall_CanSeparateConference nat
  | K_CSCall_CanKickOutFromConference nat
  | K_IMSCall_InitVideoCall nat
  | K_IMSCall_SetMute nat int int
  | K_IMSCall_CombineConference nat
  | K_IMSCall_SeparateConference nat
  | K_IMSCall_KickOutFromConference nat
  | K_IMSCall_CanCombineConference nat
  | K_IMSCall_CanSeparateConference nat
  | K_IMSCall_CanKickOutFromConference nat
  | K_IMSCall_UpdateImsCallMode nat ImsCallMode
  | K_IMSCall_SendUpdateCallMediaModeRequest nat ImsCallMode
  | K_IMSCall_RecieveUpdateCallMediaModeRequest nat CallModeReportInfo
  | K_IMSCall_SendUpdateCallMediaModeResponse nat ImsCallMode
  | K_IMSCall_ReceiveUpdateCallMediaModeResponse nat CallModeReportInfo
  | K_IMSCall_ControlCamera nat string int int
  | K_IMSCall_SetPausePicture nat string
  | K_IMSCall_SetDeviceDirection nat int
  | K_IMSCall_CancelCallUpgrade nat
  | K_IMSCall_RequestCameraCapabilities nat

fun cut_feature_do :: "cut_feature \<Rightarrow> ErrCode cmM" where
  "cut_feature_do (K_CombineConference x) = Conn_CombineConference x"
| "cut_feature_do (K_SeparateConference x) = Conn_SeparateConference x"
| "cut_feature_do (K_KickOutFromConference x) = Conn_KickOutFromConference x"
| "cut_feature_do (K_StartDtmf x y) = Conn_StartDtmf x y"
| "cut_feature_do (K_StopDtmf x) = Conn_StopDtmf x"
| "cut_feature_do (K_PostDialProceed x y) = Conn_PostDialProceed x y"
| "cut_feature_do (K_SetMute x y) = Conn_SetMute x y"
| "cut_feature_do (K_GetVideoCallWaiting x) = Conn_GetVideoCallWaiting x"
| "cut_feature_do (K_GetCarrierVtConfig x) = Conn_GetCarrierVtConfig x"
| "cut_feature_do (K_CarrierSetMute x y) = CarrierSetMute x y"
| "cut_feature_do (K_CarrierCombineConference x) = CarrierCombineConference x"
| "cut_feature_do (K_CarrierSeparateConference x) = CarrierSeparateConference x"
| "cut_feature_do (K_CarrierKickOutFromConference x) = CarrierKickOutFromConference x"
| "cut_feature_do (K_Carrier_StartDtmf x y) = Carrier_StartDtmf x y"
| "cut_feature_do (K_Carrier_StopDtmf x) = Carrier_StopDtmf x"
| "cut_feature_do (K_Carrier_PostDialProceed x y) = Carrier_PostDialProceed x y"
| "cut_feature_do (K_CSCall_SetMute x y z) = CSCall_SetMute x y z"
| "cut_feature_do (K_CSCall_CombineConference x) = CSCall_CombineConference x"
| "cut_feature_do (K_CSCall_SeparateConference x) = CSCall_SeparateConference x"
| "cut_feature_do (K_CSCall_KickOutFromConference x) = CSCall_KickOutFromConference x"
| "cut_feature_do (K_CSCall_CanCombineConference x) = CSCall_CanCombineConference x"
| "cut_feature_do (K_CSCall_CanSeparateConference x) = CSCall_CanSeparateConference x"
| "cut_feature_do (K_CSCall_CanKickOutFromConference x) = CSCall_CanKickOutFromConference x"
| "cut_feature_do (K_IMSCall_InitVideoCall x) = IMSCall_InitVideoCall x"
| "cut_feature_do (K_IMSCall_SetMute x y z) = IMSCall_SetMute x y z"
| "cut_feature_do (K_IMSCall_CombineConference x) = IMSCall_CombineConference x"
| "cut_feature_do (K_IMSCall_SeparateConference x) = IMSCall_SeparateConference x"
| "cut_feature_do (K_IMSCall_KickOutFromConference x) = IMSCall_KickOutFromConference x"
| "cut_feature_do (K_IMSCall_CanCombineConference x) = IMSCall_CanCombineConference x"
| "cut_feature_do (K_IMSCall_CanSeparateConference x) = IMSCall_CanSeparateConference x"
| "cut_feature_do (K_IMSCall_CanKickOutFromConference x) = IMSCall_CanKickOutFromConference x"
| "cut_feature_do (K_IMSCall_UpdateImsCallMode x y) = IMSCall_UpdateImsCallMode x y"
| "cut_feature_do (K_IMSCall_SendUpdateCallMediaModeRequest x y) = IMSCall_SendUpdateCallMediaModeRequest x y"
| "cut_feature_do (K_IMSCall_RecieveUpdateCallMediaModeRequest x y) = IMSCall_RecieveUpdateCallMediaModeRequest x y"
| "cut_feature_do (K_IMSCall_SendUpdateCallMediaModeResponse x y) = IMSCall_SendUpdateCallMediaModeResponse x y"
| "cut_feature_do (K_IMSCall_ReceiveUpdateCallMediaModeResponse x y) = IMSCall_ReceiveUpdateCallMediaModeResponse x y"
| "cut_feature_do (K_IMSCall_ControlCamera x y z w) = IMSCall_ControlCamera x y z w"
| "cut_feature_do (K_IMSCall_SetPausePicture x y) = IMSCall_SetPausePicture x y"
| "cut_feature_do (K_IMSCall_SetDeviceDirection x y) = IMSCall_SetDeviceDirection x y"
| "cut_feature_do (K_IMSCall_CancelCallUpgrade x) = IMSCall_CancelCallUpgrade x"
| "cut_feature_do (K_IMSCall_RequestCameraCapabilities x) = IMSCall_RequestCameraCapabilities x"

lemmas cut_feature_defs =
  Conn_CombineConference_def Conn_SeparateConference_def Conn_KickOutFromConference_def Conn_StartDtmf_def
  Conn_StopDtmf_def Conn_PostDialProceed_def Conn_SetMute_def Conn_GetVideoCallWaiting_def
  Conn_GetCarrierVtConfig_def CarrierSetMute_def CarrierCombineConference_def CarrierSeparateConference_def
  CarrierKickOutFromConference_def Carrier_StartDtmf_def Carrier_StopDtmf_def Carrier_PostDialProceed_def
  CSCall_SetMute_def CSCall_CombineConference_def CSCall_SeparateConference_def CSCall_KickOutFromConference_def
  CSCall_CanCombineConference_def CSCall_CanSeparateConference_def CSCall_CanKickOutFromConference_def IMSCall_InitVideoCall_def
  IMSCall_SetMute_def IMSCall_CombineConference_def IMSCall_SeparateConference_def IMSCall_KickOutFromConference_def
  IMSCall_CanCombineConference_def IMSCall_CanSeparateConference_def IMSCall_CanKickOutFromConference_def IMSCall_UpdateImsCallMode_def
  IMSCall_SendUpdateCallMediaModeRequest_def IMSCall_RecieveUpdateCallMediaModeRequest_def IMSCall_SendUpdateCallMediaModeResponse_def IMSCall_ReceiveUpdateCallMediaModeResponse_def
  IMSCall_ControlCamera_def IMSCall_SetPausePicture_def IMSCall_SetDeviceDirection_def IMSCall_CancelCallUpgrade_def
  IMSCall_RequestCameraCapabilities_def

text \<open>Conferences of more calls, video, tones, muting and post-dial digits: every method for them, of the calls of either
  class and of the connection, answers that it is not supported, and leaves the call, the conferences and the stack alone.\<close>
theorem cut_features_refused:
  "fst (run_state (cut_feature_do feature) s) \<in> {CALL_ERR_FUNCTION_NOT_SUPPORTED, CALL_ERR_VIDEO_NOT_SUPPORTED} \<and>
   snd (run_state (cut_feature_do feature) s) = s"
  by (cases feature) (simp_all add: cut_feature_defs NotSupported_def)

section \<open>Each command names its call\<close>

lemmas virtual_defs =
  CSCall_AnswerCall_def CSCall_RejectCall_def CSCall_HangUpCall_def CSCall_HoldCall_def CSCall_UnHoldCall_def
  CSCall_SwitchCall_def IMSCall_AnswerCall_def IMSCall_RejectCall_def IMSCall_HangUpCall_def IMSCall_HoldCall_def
  IMSCall_UnHoldCall_def IMSCall_SwitchCall_def

lemma named_packed:
  "named c (snd (CarrierCall_PackCellularCallInfo c))"
  "named c (snd (CarrierCall_PackCellularCallInfo c)\<lparr>ci_videoState := v, ci_isRTT := b\<rparr>)"
  by (simp_all add: named_def CarrierCall_PackCellularCallInfo_def Let_def kMaxNumberLen_def)

lemma fst_rejected: "fst (RejectCallBase c) = TELEPHONY_SUCCESS"
  by (simp add: RejectCallBase_def)

lemma named_rejected: "named (snd (RejectCallBase c)) info = named c info"
  by (simp add: named_def RejectCallBase_def Let_def)

fun sent :: "CallClass \<Rightarrow> call_command \<Rightarrow> call \<Rightarrow> CellularCallInfo \<Rightarrow> stack_cmd" where
  "sent k (V_Answer videoState isRTT) c p = SC_Answer (p\<lparr>ci_videoState := videoState, ci_isRTT := (k = IMSCall \<and> isRTT)\<rparr>)"
| "sent k V_Reject c p = SC_HangUp p TYPE_DEFAULT"
| "sent k V_HangUp c p = SC_HangUp p (hang_up_type (cb_policyFlag c))"
| "sent k V_Hold c p = SC_HoldCall p"
| "sent k V_UnHold c p = SC_UnHoldCall p"
| "sent k V_Switch c p = SC_SwitchCall p"

lemma sent_names: "sent_as k cmd c (sent k cmd c (snd (CarrierCall_PackCellularCallInfo (marked cmd c))))"
proof (cases cmd)
  case V_Reject
  then show ?thesis using named_packed(1) [of "snd (RejectCallBase c)"] by (simp add: named_rejected)
qed (simp_all add: named_packed)

lemma virtual_sends:
  "run_state (virtual_call k cmd a) s =
    (if accepts cmd (cm_heap s a) \<noteq> TELEPHONY_SUCCESS then (accepts cmd (cm_heap s a), s)
     else let s\<^sub>0 = s\<lparr>cm_heap := (cm_heap s)(a := marked cmd (cm_heap s a))\<rparr>;
              x = sent k cmd (cm_heap s a) (snd (CarrierCall_PackCellularCallInfo (marked cmd (cm_heap s a))))
       in if \<not> e_hasStack (cm_env s) then (failure cmd, s\<^sub>0)
          else (if e_stackReply (cm_env s) (cm_stackOut s @ [x]) = TELEPHONY_SUCCESS then TELEPHONY_SUCCESS else failure cmd,
            s\<^sub>0\<lparr>cm_stackOut := cm_stackOut s @ [x]\<rparr>))"
  by (cases cmd; cases k; simp add: virtual_defs carrier_defs refused_as_def Let_def fst_rejected)

text \<open>C11. A command to a call object. When the object refuses it nothing happens. Otherwise, with no stack registered it fails
  with the error of the command; with one, exactly one command goes out, of the right kind, with the id, index, slot, kind
  and number of this very call, and the answer is success or the error of the command as the stack answers. A number of
  more than 255 characters goes out empty. Nothing but the mark of a rejected call changes.\<close>
theorem commands_name_their_call:
  "let c = cm_heap s a; s\<^sub>0 = s\<lparr>cm_heap := (cm_heap s)(a := marked cmd c)\<rparr> in
   if accepts cmd c \<noteq> TELEPHONY_SUCCESS then run_state (virtual_call k cmd a) s = (accepts cmd c, s)
   else if \<not> e_hasStack (cm_env s) then run_state (virtual_call k cmd a) s = (failure cmd, s\<^sub>0)
   else \<exists>x. sent_as k cmd c x \<and> run_state (virtual_call k cmd a) s =
     (if e_stackReply (cm_env s) (cm_stackOut s @ [x]) = TELEPHONY_SUCCESS then TELEPHONY_SUCCESS else failure cmd,
      s\<^sub>0\<lparr>cm_stackOut := cm_stackOut s @ [x]\<rparr>)"
  using virtual_sends [of k cmd a s] sent_names [of k cmd "cm_heap s a"]
  by (simp only: Let_def split: if_split) blast

end
