(* ===== verification/Call_Accessors.thy ===== *)
theory Call_Accessors
  imports Call_Base
begin

text \<open>
  The plain setters and getters of a call object, \<open>services/call/src/mini/call_base.cpp\<close> and \<open>carrier_call.cpp\<close>. Other theories
  write an update of the record where the code calls one of them. The members of \<open>CallBase\<close> that only their accessors
  touch on this system form a record of their own, \<open>call_rest\<close>.
\<close>

section \<open>Setters\<close>

definition SetCallId :: "int \<Rightarrow> call \<Rightarrow> call" where
  "SetCallId callId c = c\<lparr>cb_callId := callId\<rparr>"

definition SetCallType :: "CallType \<Rightarrow> call \<Rightarrow> call" where
  "SetCallType callType c = c\<lparr>cb_callType := callType\<rparr>"

definition SetVideoStateType :: "VideoStateType \<Rightarrow> call \<Rightarrow> call" where
  "SetVideoStateType videoState c = c\<lparr>cb_videoState := videoState\<rparr>"

definition SetAccountNumber :: "string \<Rightarrow> call \<Rightarrow> call" where
  "SetAccountNumber accountNumber c = c\<lparr>cb_accountNumber := accountNumber\<rparr>"

definition SetBundleName :: "string \<Rightarrow> call \<Rightarrow> call" where
  "SetBundleName bundleName c = c\<lparr>cb_bundleName := bundleName\<rparr>"

definition SetCallRunningState :: "CallRunningState \<Rightarrow> call \<Rightarrow> call" where
  "SetCallRunningState callRunningState c = c\<lparr>cb_callRunningState := callRunningState\<rparr>"

definition SetStartTime :: "int \<Rightarrow> call \<Rightarrow> call" where
  "SetStartTime startTime c = c\<lparr>cb_startTime := startTime\<rparr>"

definition SetCallDirection :: "CallDirection \<Rightarrow> call \<Rightarrow> call" where
  "SetCallDirection direction c = c\<lparr>cb_direction := direction\<rparr>"

definition SetCanUnHoldState :: "bool \<Rightarrow> call \<Rightarrow> call" where
  "SetCanUnHoldState canUnHoldState c = c\<lparr>cb_canUnHoldState := canUnHoldState\<rparr>"

definition SetCanSwitchCallState :: "bool \<Rightarrow> call \<Rightarrow> call" where
  "SetCanSwitchCallState canSwitchCallState c = c\<lparr>cb_canSwitchCallState := canSwitchCallState\<rparr>"

definition SetAnswerVideoState :: "int \<Rightarrow> call \<Rightarrow> call" where
  "SetAnswerVideoState answerVideoState c = c\<lparr>cb_answerVideoState := answerVideoState\<rparr>"

definition SetSpeakerphoneOn :: "bool \<Rightarrow> call \<Rightarrow> ErrCode \<times> call" where
  "SetSpeakerphoneOn isSpeakerphoneOn c = (TELEPHONY_SUCCESS, c\<lparr>cb_isSpeakerphoneOn := isSpeakerphoneOn\<rparr>)"

definition SetCallBeginTime :: "int \<Rightarrow> call \<Rightarrow> call" where
  "SetCallBeginTime callBeginTime c = c\<lparr>cb_callBeginTime := callBeginTime\<rparr>"

definition SetCallCreateTime :: "int \<Rightarrow> call \<Rightarrow> call" where
  "SetCallCreateTime callCreateTime c = c\<lparr>cb_callCreateTime := callCreateTime\<rparr>"

definition SetCallEndTime :: "int \<Rightarrow> call \<Rightarrow> call" where
  "SetCallEndTime callEndTime c = c\<lparr>cb_callEndTime := callEndTime\<rparr>"

definition SetRingBeginTime :: "int \<Rightarrow> call \<Rightarrow> call" where
  "SetRingBeginTime ringBeginTime c = c\<lparr>cb_ringBeginTime := ringBeginTime\<rparr>"

definition SetRingEndTime :: "int \<Rightarrow> call \<Rightarrow> call" where
  "SetRingEndTime ringEndTime c = c\<lparr>cb_ringEndTime := ringEndTime\<rparr>"

definition SetAnswerType :: "CallAnswerType \<Rightarrow> call \<Rightarrow> call" where
  "SetAnswerType answerType c = c\<lparr>cb_answerType := answerType\<rparr>"

definition SetRejectType :: "RejectType \<Rightarrow> call \<Rightarrow> call" where
  "SetRejectType rejectType c = c\<lparr>cb_rejectType := rejectType\<rparr>"

definition SetAccountId :: "int \<Rightarrow> call \<Rightarrow> call" where
  "SetAccountId accountId c = c\<lparr>cb_accountId := accountId\<rparr>"

definition SetCrsType :: "int \<Rightarrow> call \<Rightarrow> call" where
  "SetCrsType crsType c = c\<lparr>cb_crsType := crsType\<rparr>"

definition SetOriginalCallType :: "int \<Rightarrow> call \<Rightarrow> call" where
  "SetOriginalCallType originalCallType c = c\<lparr>cb_originalCallType := originalCallType\<rparr>"

definition SetMicPhoneState :: "bool \<Rightarrow> call \<Rightarrow> ErrCode \<times> call" where
  "SetMicPhoneState isMuted c = (TELEPHONY_SUCCESS, c\<lparr>cb_isMuted := isMuted\<rparr>)"

definition SetNumberLocation :: "string \<Rightarrow> call \<Rightarrow> call" where
  "SetNumberLocation numberLocation c = c\<lparr>cb_numberLocation := numberLocation\<rparr>"

definition SetIsEccContact :: "bool \<Rightarrow> call \<Rightarrow> call" where
  "SetIsEccContact isEccContact c = c\<lparr>cb_isEccContact := isEccContact\<rparr>"

definition SetAnsweredCall :: "bool \<Rightarrow> call \<Rightarrow> call" where
  "SetAnsweredCall isAnswered c = c\<lparr>cb_isAnswered := isAnswered\<rparr>"

definition SetPhoneOrWatchDial :: "int \<Rightarrow> call \<Rightarrow> call" where
  "SetPhoneOrWatchDial phoneOrWatch c = c\<lparr>cb_phoneOrWatch := phoneOrWatch\<rparr>"

definition SetNewCallUseBox :: "int \<Rightarrow> call \<Rightarrow> call" where
  "SetNewCallUseBox newCallUseBox c = c\<lparr>cb_newCallUseBox := newCallUseBox\<rparr>"

definition SetImsDomain :: "int \<Rightarrow> call \<Rightarrow> call" where
  "SetImsDomain imsDomain c = c\<lparr>cb_imsDomain := imsDomain\<rparr>"

definition SetApCauseReported :: "bool \<Rightarrow> call \<Rightarrow> call" where
  "SetApCauseReported isApCauseReported c = c\<lparr>cb_isApCauseReported := isApCauseReported\<rparr>"

definition SetSlotId :: "int \<Rightarrow> call \<Rightarrow> call" where
  "SetSlotId slotId c = c\<lparr>cc_slotId := slotId\<rparr>"

definition SetCallIndex :: "int \<Rightarrow> call \<Rightarrow> call" where
  "SetCallIndex index c = c\<lparr>cc_index := index\<rparr>"

section \<open>Getters\<close>

definition GetCallID :: "call \<Rightarrow> int" where
  "GetCallID c = cb_callId c"

definition GetCallType :: "call \<Rightarrow> CallType" where
  "GetCallType c = cb_callType c"

definition GetVideoStateType :: "call \<Rightarrow> VideoStateType" where
  "GetVideoStateType c = cb_videoState c"

definition GetAccountNumber :: "call \<Rightarrow> string" where
  "GetAccountNumber c = cb_accountNumber c"

definition GetCallRunningState :: "call \<Rightarrow> CallRunningState" where
  "GetCallRunningState c = cb_callRunningState c"

definition GetCallDirection :: "call \<Rightarrow> CallDirection" where
  "GetCallDirection c = cb_direction c"

definition GetCanUnHoldState :: "call \<Rightarrow> bool" where
  "GetCanUnHoldState c = cb_canUnHoldState c"

definition GetCanSwitchCallState :: "call \<Rightarrow> bool" where
  "GetCanSwitchCallState c = cb_canSwitchCallState c"

definition GetAnswerVideoState :: "call \<Rightarrow> int" where
  "GetAnswerVideoState c = cb_answerVideoState c"

definition IsSpeakerphoneOn :: "call \<Rightarrow> bool" where
  "IsSpeakerphoneOn c = cb_isSpeakerphoneOn c"

definition GetCallCreateTime :: "call \<Rightarrow> int" where
  "GetCallCreateTime c = cb_callCreateTime c"

definition GetAnswerType :: "call \<Rightarrow> CallAnswerType" where
  "GetAnswerType c = cb_answerType c"

definition GetAccountId :: "call \<Rightarrow> int" where
  "GetAccountId c = cb_accountId c"

definition GetCrsType :: "call \<Rightarrow> int" where
  "GetCrsType c = cb_crsType c"

definition GetOriginalCallType :: "call \<Rightarrow> int" where
  "GetOriginalCallType c = cb_originalCallType c"

definition IsMuted :: "call \<Rightarrow> bool" where
  "IsMuted c = cb_isMuted c"

definition GetNumberLocation :: "call \<Rightarrow> string" where
  "GetNumberLocation c = cb_numberLocation c"

definition IsAnsweredCall :: "call \<Rightarrow> bool" where
  "IsAnsweredCall c = cb_isAnswered c"

definition GetPhoneOrWatchDial :: "call \<Rightarrow> int" where
  "GetPhoneOrWatchDial c = cb_phoneOrWatch c"

definition GetNewCallUseBox :: "call \<Rightarrow> int" where
  "GetNewCallUseBox c = cb_newCallUseBox c"

definition GetImsDomain :: "call \<Rightarrow> int" where
  "GetImsDomain c = cb_imsDomain c"

definition IsApCauseReported :: "call \<Rightarrow> bool" where
  "IsApCauseReported c = cb_isApCauseReported c"

definition GetSlotId :: "call \<Rightarrow> int" where
  "GetSlotId c = cc_slotId c"

definition GetCallIndex :: "call \<Rightarrow> int" where
  "GetCallIndex c = cc_index c"

definition GetTelCallState :: "call \<Rightarrow> TelCallState" where
  "GetTelCallState c = cb_callState c"

definition GetTelConferenceState :: "call \<Rightarrow> TelConferenceState" where
  "GetTelConferenceState c = cb_conferenceState c"

definition GetPolicyFlag :: "call \<Rightarrow> 64 word" where
  "GetPolicyFlag c = cb_policyFlag c"

definition CheckVoicemailNumber :: "string \<Rightarrow> call \<Rightarrow> bool" where
  "CheckVoicemailNumber phoneNumber c = False"

definition IsSpeakerphoneEnabled :: "call \<Rightarrow> bool" where
  "IsSpeakerphoneEnabled c = True"

section \<open>The members that nothing else reads\<close>

definition BT_CALL_INVALID_SLOT :: int where
  "BT_CALL_INVALID_SLOT = -1"

record call_rest =
  cr_autoAnswerState :: bool
  cr_blockReason :: int
  cr_detectDetails :: string
  cr_celiaCallType :: int
  cr_isMicDisabled :: bool
  cr_isCustomAccessibility :: bool
  cr_token :: string
  cr_isAiAutoAnswer :: bool
  cr_isForcedReportVoiceCall :: bool
  cr_isAnsweredByPhone :: bool
  cr_btCallSlotId :: int
  cr_antiFraudState :: int
  cr_isNonVirtualCall :: bool

definition call_rest_new :: "bool \<Rightarrow> string \<Rightarrow> call_rest" where
  "call_rest_new isCustomAccessibility token =
    \<lparr>cr_autoAnswerState = False, cr_blockReason = 0, cr_detectDetails = [],
     cr_celiaCallType = -1, cr_isMicDisabled = False, cr_isCustomAccessibility = isCustomAccessibility,
     cr_token = token, cr_isAiAutoAnswer = False, cr_isForcedReportVoiceCall = False,
     cr_isAnsweredByPhone = False, cr_btCallSlotId = BT_CALL_INVALID_SLOT, cr_antiFraudState = 0,
     cr_isNonVirtualCall = False\<rparr>"

definition SetAutoAnswerState :: "bool \<Rightarrow> call_rest \<Rightarrow> call_rest" where
  "SetAutoAnswerState autoAnswerState c = c\<lparr>cr_autoAnswerState := autoAnswerState\<rparr>"

definition GetAutoAnswerState :: "call_rest \<Rightarrow> bool" where
  "GetAutoAnswerState c = cr_autoAnswerState c"

definition SetBlockReason :: "int \<Rightarrow> call_rest \<Rightarrow> call_rest" where
  "SetBlockReason blockReason c = c\<lparr>cr_blockReason := blockReason\<rparr>"

definition SetDetectDetails :: "string \<Rightarrow> call_rest \<Rightarrow> call_rest" where
  "SetDetectDetails detectDetails c = c\<lparr>cr_detectDetails := detectDetails\<rparr>"

definition GetDetectDetails :: "call_rest \<Rightarrow> string" where
  "GetDetectDetails c = cr_detectDetails c"

definition SetCeliaCallType :: "int \<Rightarrow> call_rest \<Rightarrow> call_rest" where
  "SetCeliaCallType celiaCallType c = c\<lparr>cr_celiaCallType := celiaCallType\<rparr>"

definition GetCeliaCallType :: "call_rest \<Rightarrow> int" where
  "GetCeliaCallType c = cr_celiaCallType c"

definition SetMicDisabled :: "bool \<Rightarrow> call_rest \<Rightarrow> call_rest" where
  "SetMicDisabled isMicDisabled c = c\<lparr>cr_isMicDisabled := isMicDisabled\<rparr>"

definition IsMicDisabled :: "call_rest \<Rightarrow> bool" where
  "IsMicDisabled c = cr_isMicDisabled c"

definition SetIsCustomAccessibility :: "bool \<Rightarrow> call_rest \<Rightarrow> call_rest" where
  "SetIsCustomAccessibility isCustomAccessibility c = c\<lparr>cr_isCustomAccessibility := isCustomAccessibility\<rparr>"

definition GetIsCustomAccessibility :: "call_rest \<Rightarrow> bool" where
  "GetIsCustomAccessibility c = cr_isCustomAccessibility c"

definition GetToken :: "call_rest \<Rightarrow> string" where
  "GetToken c = cr_token c"

definition SetAiAutoAnswer :: "bool \<Rightarrow> call_rest \<Rightarrow> call_rest" where
  "SetAiAutoAnswer isAiAutoAnswer c = c\<lparr>cr_isAiAutoAnswer := isAiAutoAnswer\<rparr>"

definition IsAiAutoAnswer :: "call_rest \<Rightarrow> bool" where
  "IsAiAutoAnswer c = cr_isAiAutoAnswer c"

definition SetForcedReportVoiceCall :: "bool \<Rightarrow> call_rest \<Rightarrow> call_rest" where
  "SetForcedReportVoiceCall isForcedReportVoiceCall c = c\<lparr>cr_isForcedReportVoiceCall := isForcedReportVoiceCall\<rparr>"

definition IsForcedReportVoiceCall :: "call_rest \<Rightarrow> bool" where
  "IsForcedReportVoiceCall c = cr_isForcedReportVoiceCall c"

definition SetIsAnsweredByPhone :: "bool \<Rightarrow> call_rest \<Rightarrow> call_rest" where
  "SetIsAnsweredByPhone isAnsweredByPhone c = c\<lparr>cr_isAnsweredByPhone := isAnsweredByPhone\<rparr>"

definition GetAnsweredByPhone :: "call_rest \<Rightarrow> bool" where
  "GetAnsweredByPhone c = cr_isAnsweredByPhone c"

definition SetBtCallSlotId :: "int \<Rightarrow> call_rest \<Rightarrow> call_rest" where
  "SetBtCallSlotId btCallSlotId c = c\<lparr>cr_btCallSlotId := btCallSlotId\<rparr>"

definition GetBtCallSlotId :: "call_rest \<Rightarrow> int" where
  "GetBtCallSlotId c = cr_btCallSlotId c"

definition SetAntiFraudState :: "int \<Rightarrow> call_rest \<Rightarrow> call_rest" where
  "SetAntiFraudState antiFraudState c = c\<lparr>cr_antiFraudState := antiFraudState\<rparr>"

definition GetAntiFraudState :: "call_rest \<Rightarrow> int" where
  "GetAntiFraudState c = cr_antiFraudState c"

definition SetNonVirtualCall :: "bool \<Rightarrow> call_rest \<Rightarrow> call_rest" where
  "SetNonVirtualCall isNonVirtualCall c = c\<lparr>cr_isNonVirtualCall := isNonVirtualCall\<rparr>"

definition isNonVirtualCall :: "call_rest \<Rightarrow> bool" where
  "isNonVirtualCall c = cr_isNonVirtualCall c"

section \<open>What a getter answers\<close>

text \<open>
  The contract of an attribute: what is put can be got, putting back what was got changes nothing, and the last put
  counts. Two attributes that can be put in either order do not disturb each other.
\<close>

locale attribute =
  fixes get :: "'c \<Rightarrow> 'v" and put :: "'v \<Rightarrow> 'c \<Rightarrow> 'c"
  assumes get_put: "get (put v c) = v" and put_get: "put (get c) c = c" and put_put: "put v (put w c) = put v c"
begin

lemma put_same: "put v c = put w c \<longleftrightarrow> v = w"
  by (metis get_put)

lemma get_fold: "ws \<noteq> [] \<Longrightarrow> get (fold put ws c) = last ws"
  by (induction ws rule: rev_induct) (simp_all add: get_put)

end

locale attributes = one: attribute get put + other: attribute get' put'
  for get :: "'c \<Rightarrow> 'v" and put :: "'v \<Rightarrow> 'c \<Rightarrow> 'c" and get' :: "'c \<Rightarrow> 'w" and put' :: "'w \<Rightarrow> 'c \<Rightarrow> 'c" +
  assumes commute: "put v (put' w c) = put' w (put v c)"
begin

lemma kept: "get' (put v c) = get' c"
  by (metis commute other.get_put other.put_get)

lemma kept_other: "get (put' w c) = get c"
  by (metis commute one.get_put one.put_get)

end

interpretation callId: attribute GetCallID SetCallId
  by unfold_locales (simp_all add: GetCallID_def SetCallId_def)

interpretation callType: attribute GetCallType SetCallType
  by unfold_locales (simp_all add: GetCallType_def SetCallType_def)

interpretation videoState: attribute GetVideoStateType SetVideoStateType
  by unfold_locales (simp_all add: GetVideoStateType_def SetVideoStateType_def)

interpretation accountNumber: attribute GetAccountNumber SetAccountNumber
  by unfold_locales (simp_all add: GetAccountNumber_def SetAccountNumber_def)

interpretation callRunningState: attribute GetCallRunningState SetCallRunningState
  by unfold_locales (simp_all add: GetCallRunningState_def SetCallRunningState_def)

interpretation direction: attribute GetCallDirection SetCallDirection
  by unfold_locales (simp_all add: GetCallDirection_def SetCallDirection_def)

interpretation canUnHoldState: attribute GetCanUnHoldState SetCanUnHoldState
  by unfold_locales (simp_all add: GetCanUnHoldState_def SetCanUnHoldState_def)

interpretation canSwitchCallState: attribute GetCanSwitchCallState SetCanSwitchCallState
  by unfold_locales (simp_all add: GetCanSwitchCallState_def SetCanSwitchCallState_def)

interpretation answerVideoState: attribute GetAnswerVideoState SetAnswerVideoState
  by unfold_locales (simp_all add: GetAnswerVideoState_def SetAnswerVideoState_def)

interpretation callCreateTime: attribute GetCallCreateTime SetCallCreateTime
  by unfold_locales (simp_all add: GetCallCreateTime_def SetCallCreateTime_def)

interpretation answerType: attribute GetAnswerType SetAnswerType
  by unfold_locales (simp_all add: GetAnswerType_def SetAnswerType_def)

interpretation accountId: attribute GetAccountId SetAccountId
  by unfold_locales (simp_all add: GetAccountId_def SetAccountId_def)

interpretation crsType: attribute GetCrsType SetCrsType
  by unfold_locales (simp_all add: GetCrsType_def SetCrsType_def)

interpretation originalCallType: attribute GetOriginalCallType SetOriginalCallType
  by unfold_locales (simp_all add: GetOriginalCallType_def SetOriginalCallType_def)

interpretation numberLocation: attribute GetNumberLocation SetNumberLocation
  by unfold_locales (simp_all add: GetNumberLocation_def SetNumberLocation_def)

interpretation isAnswered: attribute IsAnsweredCall SetAnsweredCall
  by unfold_locales (simp_all add: IsAnsweredCall_def SetAnsweredCall_def)

interpretation phoneOrWatch: attribute GetPhoneOrWatchDial SetPhoneOrWatchDial
  by unfold_locales (simp_all add: GetPhoneOrWatchDial_def SetPhoneOrWatchDial_def)

interpretation newCallUseBox: attribute GetNewCallUseBox SetNewCallUseBox
  by unfold_locales (simp_all add: GetNewCallUseBox_def SetNewCallUseBox_def)

interpretation imsDomain: attribute GetImsDomain SetImsDomain
  by unfold_locales (simp_all add: GetImsDomain_def SetImsDomain_def)

interpretation isApCauseReported: attribute IsApCauseReported SetApCauseReported
  by unfold_locales (simp_all add: IsApCauseReported_def SetApCauseReported_def)

interpretation slotId: attribute GetSlotId SetSlotId
  by unfold_locales (simp_all add: GetSlotId_def SetSlotId_def)

interpretation index: attribute GetCallIndex SetCallIndex
  by unfold_locales (simp_all add: GetCallIndex_def SetCallIndex_def)

interpretation autoAnswerState: attribute GetAutoAnswerState SetAutoAnswerState
  by unfold_locales (simp_all add: GetAutoAnswerState_def SetAutoAnswerState_def)

interpretation detectDetails: attribute GetDetectDetails SetDetectDetails
  by unfold_locales (simp_all add: GetDetectDetails_def SetDetectDetails_def)

interpretation celiaCallType: attribute GetCeliaCallType SetCeliaCallType
  by unfold_locales (simp_all add: GetCeliaCallType_def SetCeliaCallType_def)

interpretation isMicDisabled: attribute IsMicDisabled SetMicDisabled
  by unfold_locales (simp_all add: IsMicDisabled_def SetMicDisabled_def)

interpretation isCustomAccessibility: attribute GetIsCustomAccessibility SetIsCustomAccessibility
  by unfold_locales (simp_all add: GetIsCustomAccessibility_def SetIsCustomAccessibility_def)

interpretation isAiAutoAnswer: attribute IsAiAutoAnswer SetAiAutoAnswer
  by unfold_locales (simp_all add: IsAiAutoAnswer_def SetAiAutoAnswer_def)

interpretation isForcedReportVoiceCall: attribute IsForcedReportVoiceCall SetForcedReportVoiceCall
  by unfold_locales (simp_all add: IsForcedReportVoiceCall_def SetForcedReportVoiceCall_def)

interpretation isAnsweredByPhone: attribute GetAnsweredByPhone SetIsAnsweredByPhone
  by unfold_locales (simp_all add: GetAnsweredByPhone_def SetIsAnsweredByPhone_def)

interpretation btCallSlotId: attribute GetBtCallSlotId SetBtCallSlotId
  by unfold_locales (simp_all add: GetBtCallSlotId_def SetBtCallSlotId_def)

interpretation antiFraudState: attribute GetAntiFraudState SetAntiFraudState
  by unfold_locales (simp_all add: GetAntiFraudState_def SetAntiFraudState_def)

interpretation isNonVirtualCall: attribute isNonVirtualCall SetNonVirtualCall
  by unfold_locales (simp_all add: isNonVirtualCall_def SetNonVirtualCall_def)

text \<open>The call id and the kind of a call are put by different parts of the status machine.\<close>

interpretation id_and_type: attributes GetCallID SetCallId GetCallType SetCallType
  by unfold_locales (simp add: SetCallId_def SetCallType_def)

section \<open>Any sequence of setters\<close>

text \<open>A call of a setter, which attribute it is for, and the call of the same setter that would change nothing.\<close>

datatype setter_call =
    U_callId int
  | U_callType CallType
  | U_videoState VideoStateType
  | U_accountNumber string
  | U_bundleName string
  | U_callRunningState CallRunningState
  | U_startTime int
  | U_direction CallDirection
  | U_canUnHoldState bool
  | U_canSwitchCallState bool
  | U_answerVideoState int
  | U_isSpeakerphoneOn bool
  | U_callBeginTime int
  | U_callCreateTime int
  | U_callEndTime int
  | U_ringBeginTime int
  | U_ringEndTime int
  | U_answerType CallAnswerType
  | U_rejectType RejectType
  | U_accountId int
  | U_crsType int
  | U_originalCallType int
  | U_isMuted bool
  | U_numberLocation string
  | U_isEccContact bool
  | U_isAnswered bool
  | U_phoneOrWatch int
  | U_newCallUseBox int
  | U_imsDomain int
  | U_isApCauseReported bool
  | U_slotId int
  | U_index int

fun set_attribute :: "setter_call \<Rightarrow> call \<Rightarrow> call" where
  "set_attribute (U_callId v) c = SetCallId v c"
| "set_attribute (U_callType v) c = SetCallType v c"
| "set_attribute (U_videoState v) c = SetVideoStateType v c"
| "set_attribute (U_accountNumber v) c = SetAccountNumber v c"
| "set_attribute (U_bundleName v) c = SetBundleName v c"
| "set_attribute (U_callRunningState v) c = SetCallRunningState v c"
| "set_attribute (U_startTime v) c = SetStartTime v c"
| "set_attribute (U_direction v) c = SetCallDirection v c"
| "set_attribute (U_canUnHoldState v) c = SetCanUnHoldState v c"
| "set_attribute (U_canSwitchCallState v) c = SetCanSwitchCallState v c"
| "set_attribute (U_answerVideoState v) c = SetAnswerVideoState v c"
| "set_attribute (U_isSpeakerphoneOn v) c = snd (SetSpeakerphoneOn v c)"
| "set_attribute (U_callBeginTime v) c = SetCallBeginTime v c"
| "set_attribute (U_callCreateTime v) c = SetCallCreateTime v c"
| "set_attribute (U_callEndTime v) c = SetCallEndTime v c"
| "set_attribute (U_ringBeginTime v) c = SetRingBeginTime v c"
| "set_attribute (U_ringEndTime v) c = SetRingEndTime v c"
| "set_attribute (U_answerType v) c = SetAnswerType v c"
| "set_attribute (U_rejectType v) c = SetRejectType v c"
| "set_attribute (U_accountId v) c = SetAccountId v c"
| "set_attribute (U_crsType v) c = SetCrsType v c"
| "set_attribute (U_originalCallType v) c = SetOriginalCallType v c"
| "set_attribute (U_isMuted v) c = snd (SetMicPhoneState v c)"
| "set_attribute (U_numberLocation v) c = SetNumberLocation v c"
| "set_attribute (U_isEccContact v) c = SetIsEccContact v c"
| "set_attribute (U_isAnswered v) c = SetAnsweredCall v c"
| "set_attribute (U_phoneOrWatch v) c = SetPhoneOrWatchDial v c"
| "set_attribute (U_newCallUseBox v) c = SetNewCallUseBox v c"
| "set_attribute (U_imsDomain v) c = SetImsDomain v c"
| "set_attribute (U_isApCauseReported v) c = SetApCauseReported v c"
| "set_attribute (U_slotId v) c = SetSlotId v c"
| "set_attribute (U_index v) c = SetCallIndex v c"

fun attribute_of :: "setter_call \<Rightarrow> nat" where
  "attribute_of (U_callId v) = 0"
| "attribute_of (U_callType v) = 1"
| "attribute_of (U_videoState v) = 2"
| "attribute_of (U_accountNumber v) = 3"
| "attribute_of (U_bundleName v) = 4"
| "attribute_of (U_callRunningState v) = 5"
| "attribute_of (U_startTime v) = 6"
| "attribute_of (U_direction v) = 7"
| "attribute_of (U_canUnHoldState v) = 8"
| "attribute_of (U_canSwitchCallState v) = 9"
| "attribute_of (U_answerVideoState v) = 10"
| "attribute_of (U_isSpeakerphoneOn v) = 11"
| "attribute_of (U_callBeginTime v) = 12"
| "attribute_of (U_callCreateTime v) = 13"
| "attribute_of (U_callEndTime v) = 14"
| "attribute_of (U_ringBeginTime v) = 15"
| "attribute_of (U_ringEndTime v) = 16"
| "attribute_of (U_answerType v) = 17"
| "attribute_of (U_rejectType v) = 18"
| "attribute_of (U_accountId v) = 19"
| "attribute_of (U_crsType v) = 20"
| "attribute_of (U_originalCallType v) = 21"
| "attribute_of (U_isMuted v) = 22"
| "attribute_of (U_numberLocation v) = 23"
| "attribute_of (U_isEccContact v) = 24"
| "attribute_of (U_isAnswered v) = 25"
| "attribute_of (U_phoneOrWatch v) = 26"
| "attribute_of (U_newCallUseBox v) = 27"
| "attribute_of (U_imsDomain v) = 28"
| "attribute_of (U_isApCauseReported v) = 29"
| "attribute_of (U_slotId v) = 30"
| "attribute_of (U_index v) = 31"

text \<open>An attribute without a getter is read where \<open>GetCallAttributeInfo\<close> reads it.\<close>

fun current :: "setter_call \<Rightarrow> call \<Rightarrow> setter_call" where
  "current (U_callId v) c = U_callId (GetCallID c)"
| "current (U_callType v) c = U_callType (GetCallType c)"
| "current (U_videoState v) c = U_videoState (GetVideoStateType c)"
| "current (U_accountNumber v) c = U_accountNumber (GetAccountNumber c)"
| "current (U_bundleName v) c = U_bundleName (cb_bundleName c)"
| "current (U_callRunningState v) c = U_callRunningState (GetCallRunningState c)"
| "current (U_startTime v) c = U_startTime (cb_startTime c)"
| "current (U_direction v) c = U_direction (GetCallDirection c)"
| "current (U_canUnHoldState v) c = U_canUnHoldState (GetCanUnHoldState c)"
| "current (U_canSwitchCallState v) c = U_canSwitchCallState (GetCanSwitchCallState c)"
| "current (U_answerVideoState v) c = U_answerVideoState (GetAnswerVideoState c)"
| "current (U_isSpeakerphoneOn v) c = U_isSpeakerphoneOn (IsSpeakerphoneOn c)"
| "current (U_callBeginTime v) c = U_callBeginTime (cb_callBeginTime c)"
| "current (U_callCreateTime v) c = U_callCreateTime (GetCallCreateTime c)"
| "current (U_callEndTime v) c = U_callEndTime (cb_callEndTime c)"
| "current (U_ringBeginTime v) c = U_ringBeginTime (cb_ringBeginTime c)"
| "current (U_ringEndTime v) c = U_ringEndTime (cb_ringEndTime c)"
| "current (U_answerType v) c = U_answerType (GetAnswerType c)"
| "current (U_rejectType v) c = U_rejectType (cb_rejectType c)"
| "current (U_accountId v) c = U_accountId (GetAccountId c)"
| "current (U_crsType v) c = U_crsType (GetCrsType c)"
| "current (U_originalCallType v) c = U_originalCallType (GetOriginalCallType c)"
| "current (U_isMuted v) c = U_isMuted (IsMuted c)"
| "current (U_numberLocation v) c = U_numberLocation (GetNumberLocation c)"
| "current (U_isEccContact v) c = U_isEccContact (cb_isEccContact c)"
| "current (U_isAnswered v) c = U_isAnswered (IsAnsweredCall c)"
| "current (U_phoneOrWatch v) c = U_phoneOrWatch (GetPhoneOrWatchDial c)"
| "current (U_newCallUseBox v) c = U_newCallUseBox (GetNewCallUseBox c)"
| "current (U_imsDomain v) c = U_imsDomain (GetImsDomain c)"
| "current (U_isApCauseReported v) c = U_isApCauseReported (IsApCauseReported c)"
| "current (U_slotId v) c = U_slotId (GetSlotId c)"
| "current (U_index v) c = U_index (GetCallIndex c)"

lemmas accessor_defs = SetCallId_def GetCallID_def SetCallType_def GetCallType_def SetVideoStateType_def GetVideoStateType_def SetAccountNumber_def GetAccountNumber_def
  SetBundleName_def SetCallRunningState_def GetCallRunningState_def SetStartTime_def SetCallDirection_def GetCallDirection_def
  SetCanUnHoldState_def GetCanUnHoldState_def SetCanSwitchCallState_def GetCanSwitchCallState_def SetAnswerVideoState_def GetAnswerVideoState_def SetSpeakerphoneOn_def IsSpeakerphoneOn_def
  SetCallBeginTime_def SetCallCreateTime_def GetCallCreateTime_def SetCallEndTime_def SetRingBeginTime_def
  SetRingEndTime_def SetAnswerType_def GetAnswerType_def SetRejectType_def SetAccountId_def GetAccountId_def
  SetCrsType_def GetCrsType_def SetOriginalCallType_def GetOriginalCallType_def SetMicPhoneState_def IsMuted_def SetNumberLocation_def GetNumberLocation_def
  SetIsEccContact_def SetAnsweredCall_def IsAnsweredCall_def SetPhoneOrWatchDial_def GetPhoneOrWatchDial_def SetNewCallUseBox_def GetNewCallUseBox_def
  SetImsDomain_def GetImsDomain_def SetApCauseReported_def IsApCauseReported_def SetSlotId_def GetSlotId_def SetCallIndex_def GetCallIndex_def

lemma set_same: "attribute_of u = attribute_of v \<Longrightarrow> current u (set_attribute v c) = v"
  by (cases u; cases v; simp add: accessor_defs)

lemma set_other: "attribute_of u \<noteq> attribute_of v \<Longrightarrow> current u (set_attribute v c) = current u c"
  by (cases u; cases v; simp add: accessor_defs)

lemma set_others:
  "\<forall>w \<in> set ws. attribute_of u \<noteq> attribute_of w \<Longrightarrow> current u (fold set_attribute ws c) = current u c"
  by (induction ws arbitrary: c) (simp_all add: set_other)

text \<open>Whatever setters of a call object are called in whatever order, each attribute reads as the last setter for it put
  it, and as before when none was called for it.\<close>
theorem setters_last_write:
  assumes "\<forall>w \<in> set ws. attribute_of u \<noteq> attribute_of w"
  shows "current u (fold set_attribute (us @ u # ws) c) = u \<and> current u (fold set_attribute ws c) = current u c"
  using set_others [OF assms] by (simp add: set_same)

theorem setters_last_write_witness:
  "current (U_callId 7) (fold set_attribute [U_callId 1, U_callId 7, U_callType TYPE_IMS, U_isMuted True]
     (CarrierCall_in CSCall DialParaInfo_default)) = U_callId 7"
  using setters_last_write [of "[U_callType TYPE_IMS, U_isMuted True]" "U_callId 7" "[U_callId 1]"
    "CarrierCall_in CSCall DialParaInfo_default"] by simp

end
