(* ===== verification/Object_Rest.thy ===== *)
theory Object_Rest
  imports Call_Virtual Call_Accessors Service
begin

text \<open>
  The small operations that no other operation of this system runs, or that it runs without effect: queries of
  \<open>call_object_manager.cpp\<close> and other managers that always answer the same here, the data of the caller in a call
  (\<open>call_base.cpp\<close>), and the questions whether a call rings with a video or in silence.
\<close>

section \<open>Extra parameters\<close>

text \<open>\<open>utils/mini/include/want_params_wrapper.h\<close>: the type carries nothing here, and each read answers the default.\<close>

datatype WantParams = WantParams

definition WantParams_IsEmpty :: "WantParams \<Rightarrow> bool" where
  "WantParams_IsEmpty p = True"

definition GetIntParam :: "string \<Rightarrow> int \<Rightarrow> WantParams \<Rightarrow> int" where
  "GetIntParam key defaultValue p = defaultValue"

definition GetStringParam :: "string \<Rightarrow> WantParams \<Rightarrow> string" where
  "GetStringParam key p = []"

definition WantParamWrapper_ToString :: "WantParams \<Rightarrow> string" where
  "WantParamWrapper_ToString p = ''{}''"

definition ParseWantParamsWithBrackets :: "string \<Rightarrow> WantParams" where
  "ParseWantParamsWithBrackets text = WantParams"

section \<open>The caller of a call\<close>

datatype MarkType =
    MARK_TYPE_DEFAULT
  | MARK_TYPE_NONE
  | MARK_TYPE_CRANK
  | MARK_TYPE_FRAUD
  | MARK_TYPE_EXPRESS
  | MARK_TYPE_PROMOTE_SALES
  | MARK_TYPE_HOUSE_AGENT
  | MARK_TYPE_INSURANCE
  | MARK_TYPE_TAXI
  | MARK_TYPE_CUSTOM
  | MARK_TYPE_OTHERS
  | MARK_TYPE_YELLOW_PAGE
  | MARK_TYPE_ENTERPRISE
  | MARK_TYPE_FRAUD_RISK
  | MARK_TYPE_EDUCATION_TRAINING
  | MARK_TYPE_HEADHUNTING
  | MARK_TYPE_LOAN

record NumberMarkInfo =
  nm_markType :: MarkType
  nm_markContent :: string
  nm_markCount :: int
  nm_markSource :: string
  nm_isCloud :: bool
  nm_markDetails :: string

definition NumberMarkInfo_default :: NumberMarkInfo where
  "NumberMarkInfo_default = \<lparr>nm_markType = MARK_TYPE_DEFAULT, nm_markContent = [], nm_markCount = -1, nm_markSource = [],
     nm_isCloud = False, nm_markDetails = []\<rparr>"

record ContactInfo =
  ct_name :: string
  ct_number :: string
  ct_isContacterExists :: bool
  ct_ringtonePath :: string
  ct_personalNotificationRingtone :: string
  ct_isSendToVoicemail :: bool
  ct_isEcc :: bool
  ct_isVoiceMail :: bool
  ct_isQueryComplete :: bool

definition ContactInfo_default :: ContactInfo where
  "ContactInfo_default = \<lparr>ct_name = [], ct_number = [], ct_isContacterExists = False, ct_ringtonePath = [],
     ct_personalNotificationRingtone = [], ct_isSendToVoicemail = False, ct_isEcc = False, ct_isVoiceMail = False,
     ct_isQueryComplete = False\<rparr>"

text \<open>These members of \<open>CallBase\<close> are of no use to any modelled operation and stand in a record of their own.\<close>

record call_contact =
  ck_contactInfo :: ContactInfo
  ck_numberMarkInfo :: NumberMarkInfo
  ck_extraParams :: WantParams

definition call_contact_new :: "WantParams \<Rightarrow> call_contact" where
  "call_contact_new extraParams = \<lparr>ck_contactInfo = ContactInfo_default,
     ck_numberMarkInfo = NumberMarkInfo_default\<lparr>nm_markType := MARK_TYPE_DEFAULT\<rparr>, ck_extraParams = extraParams\<rparr>"

definition GetCallerInfo :: "call_contact \<Rightarrow> ContactInfo" where
  "GetCallerInfo c = ck_contactInfo c"

definition SetCallerInfo :: "ContactInfo \<Rightarrow> call_contact \<Rightarrow> call_contact" where
  "SetCallerInfo info c = c\<lparr>ck_contactInfo := info\<rparr>"

definition GetNumberMarkInfo :: "call_contact \<Rightarrow> NumberMarkInfo" where
  "GetNumberMarkInfo c = ck_numberMarkInfo c"

definition SetNumberMarkInfo :: "NumberMarkInfo \<Rightarrow> call_contact \<Rightarrow> call_contact" where
  "SetNumberMarkInfo numberMarkInfo c = c\<lparr>ck_numberMarkInfo := numberMarkInfo\<rparr>"

definition GetExtraParams :: "call_contact \<Rightarrow> WantParams" where
  "GetExtraParams c = ck_extraParams c"

definition SetExtraParams :: "WantParams \<Rightarrow> call_contact \<Rightarrow> call_contact" where
  "SetExtraParams extraParams c = c\<lparr>ck_extraParams := extraParams\<rparr>"

definition GetParamsByKey :: "string \<Rightarrow> int \<Rightarrow> call_contact \<Rightarrow> int" where
  "GetParamsByKey key defaultValue c = GetIntParam key defaultValue (ck_extraParams c)"

interpretation contact: attributes GetCallerInfo SetCallerInfo GetNumberMarkInfo SetNumberMarkInfo
  by unfold_locales (simp_all add: GetCallerInfo_def SetCallerInfo_def GetNumberMarkInfo_def SetNumberMarkInfo_def)

interpretation contact_extras: attributes GetNumberMarkInfo SetNumberMarkInfo GetExtraParams SetExtraParams
  by unfold_locales (simp_all add: GetExtraParams_def SetExtraParams_def GetNumberMarkInfo_def SetNumberMarkInfo_def)

section \<open>The call table\<close>

definition VIDEO_RING_PATH_FIX_TAIL :: string where "VIDEO_RING_PATH_FIX_TAIL = ''.mp4''"
definition VIDEO_RING_PATH_FIX_TAIL_LENGTH :: nat where "VIDEO_RING_PATH_FIX_TAIL_LENGTH = 4"
definition SYSTEM_VIDEO_RING :: string where "SYSTEM_VIDEO_RING = ''system_video_ring''"

definition IsVideoRing :: "string \<Rightarrow> string \<Rightarrow> bool" where
  "IsVideoRing personalNotificationRingtone ringtonePath \<longleftrightarrow>
     (VIDEO_RING_PATH_FIX_TAIL_LENGTH < length personalNotificationRingtone \<and>
      take VIDEO_RING_PATH_FIX_TAIL_LENGTH
        (drop (length personalNotificationRingtone - VIDEO_RING_PATH_FIX_TAIL_LENGTH) personalNotificationRingtone) =
        VIDEO_RING_PATH_FIX_TAIL) \<or>
     ringtonePath = SYSTEM_VIDEO_RING"

text \<open>\<open>marks\<close> are the members of each call that are kept apart.\<close>

definition IsNeedSilentInDoNotDisturbMode :: "(nat \<Rightarrow> call_contact) \<Rightarrow> cm \<Rightarrow> bool" where
  "IsNeedSilentInDoNotDisturbMode marks s =
    (case GetForegroundCall False s of None \<Rightarrow> False
     | Some a \<Rightarrow> if cb_callState (cm_heap s a) = CALL_STATUS_INCOMING
         then GetParamsByKey ''IsNeedSilentInDoNotDisturbMode'' 0 (marks a) = 1 else False)"

definition GetDialCallInfo :: "cm \<Rightarrow> CellularCallInfo" where
  "GetDialCallInfo s = cm_dialCallInfo s"

definition HasIncomingCallVideoRingType :: "cm \<Rightarrow> bool" where
  "HasIncomingCallVideoRingType s = False"

definition HasRttCall :: "cm \<Rightarrow> bool" where
  "HasRttCall s = False"

definition HasOtherBtCallExist :: "int \<Rightarrow> cm \<Rightarrow> bool" where
  "HasOtherBtCallExist callId s = False"

text \<open>Calls over the internet do not exist here.\<close>

definition AddOneVoipCallObject :: "CallAttributeInfo \<Rightarrow> ErrCode cmM" where
  "AddOneVoipCallObject info = ret CALL_ERR_FUNCTION_NOT_SUPPORTED"

definition DeleteOneVoipCallObject :: "int \<Rightarrow> ErrCode cmM" where
  "DeleteOneVoipCallObject callId = ret TELEPHONY_SUCCESS"

definition UpdateOneVoipCallObjectByCallId :: "int \<Rightarrow> TelCallState \<Rightarrow> ErrCode cmM" where
  "UpdateOneVoipCallObjectByCallId callId nextCallState = ret TELEPHONY_ERROR"

definition ClearVoipList :: "unit cmM" where
  "ClearVoipList = ret ()"

definition IsVoipCallExist :: "cm \<Rightarrow> bool" where
  "IsVoipCallExist s = False"

definition IsVoipCallExist_state :: "TelCallState \<Rightarrow> cm \<Rightarrow> bool" where
  "IsVoipCallExist_state callState s = False"

definition HasVoipCallExist :: "cm \<Rightarrow> bool" where
  "HasVoipCallExist s = False"

definition GetVoipCallInfo :: "cm \<Rightarrow> CallAttributeInfo" where
  "GetVoipCallInfo s = CallAttributeInfo_default"

definition GetActiveVoipCallInfo :: "cm \<Rightarrow> CallAttributeInfo" where
  "GetActiveVoipCallInfo s = CallAttributeInfo_default"

definition GetVoipCallNum :: "bool \<Rightarrow> cm \<Rightarrow> int" where
  "GetVoipCallNum isOnlyIncludeNonVirtualVoIP s = 0"

definition GetVoipCallList :: "cm \<Rightarrow> ErrCode \<times> int list" where
  "GetVoipCallList s = (TELEPHONY_SUCCESS, [])"

definition GetVoipCallInfoList :: "cm \<Rightarrow> CallAttributeInfo list" where
  "GetVoipCallInfoList s = []"

definition GetOneCallObjectByVoipCallId :: "string \<Rightarrow> string \<Rightarrow> int \<Rightarrow> cm \<Rightarrow> nat option" where
  "GetOneCallObjectByVoipCallId voipCallId bundleName uid s = None"

section \<open>Other managers\<close>

definition FormatPhoneNumber :: "string \<Rightarrow> string \<Rightarrow> ErrCode" where
  "FormatPhoneNumber phoneNumber countryCode = CALL_ERR_FUNCTION_NOT_SUPPORTED"

definition FormatPhoneNumberToE164 :: "string \<Rightarrow> string \<Rightarrow> ErrCode" where
  "FormatPhoneNumberToE164 phoneNumber countryCode = CALL_ERR_FUNCTION_NOT_SUPPORTED"

definition IsCarrierVtConfig :: "int \<Rightarrow> ErrCode cmM" where
  "IsCarrierVtConfig slotId = Conn_GetCarrierVtConfig slotId"

definition Audio_SetMute :: "bool \<Rightarrow> ErrCode cmM" where
  "Audio_SetMute isMute = ret CALL_ERR_FUNCTION_NOT_SUPPORTED"

definition Audio_SetAudioDevice :: "AudioDevice \<Rightarrow> ErrCode cmM" where
  "Audio_SetAudioDevice device = ret CALL_ERR_FUNCTION_NOT_SUPPORTED"

definition IsRingtonePlaying :: "cm \<Rightarrow> bool" where
  "IsRingtonePlaying s = au_ringtonePlaying (cm_audio s)"

definition IsWaitingTonePlaying :: "cm \<Rightarrow> bool" where
  "IsWaitingTonePlaying s = au_waitingTonePlaying (cm_audio s)"

definition IsCallAudioActive :: "cm \<Rightarrow> bool" where
  "IsCallAudioActive s = au_callAudioActive (cm_audio s)"

definition IsIncomingEnable :: "string \<Rightarrow> bool" where
  "IsIncomingEnable phoneNum = True"

definition HandleConnectingCallReportInfo :: "CallDetailInfo \<Rightarrow> unit cmM" where
  "HandleConnectingCallReportInfo info = ignore (HandleCallReportInfo info)"

definition SetCallParams :: "nat \<Rightarrow> CallDetailInfo \<Rightarrow> unit cmM" where
  "SetCallParams a info = do { now \<leftarrow> gets cm_now; updCall a (SetCallCreateTime (max now 0)) }"

definition IsCnSimCard :: "int \<Rightarrow> bool" where
  "IsCnSimCard slotId = False"

definition IsDsdsMode3 :: bool where
  "IsDsdsMode3 = False"

definition IsDsdsMode5 :: bool where
  "IsDsdsMode5 = False"

definition CallStateObserve :: "unit cmM" where
  "CallStateObserve = modify (\<lambda>s. s\<lparr>cm_listener :=
     map_option (\<lambda>obs. AddOneObserver AudioControlManager (AddOneObserver CallAbilityReportProxy obs)) (cm_listener s)\<rparr>)"

definition Service_IsReady :: "cm \<Rightarrow> bool" where
  "Service_IsReady s = cm_ready s"

definition GetMainCall :: "ConferenceBase \<Rightarrow> int" where
  "GetMainCall c = cf_mainCallId c"

definition GetConferenceState :: "ConferenceBase \<Rightarrow> ConferenceState" where
  "GetConferenceState c = cf_state c"

definition GetOldConferenceState :: "ConferenceBase \<Rightarrow> ConferenceState" where
  "GetOldConferenceState c = cf_oldState c"

definition Conference_GetSubCallIdList :: "ConferenceBase \<Rightarrow> int set" where
  "Conference_GetSubCallIdList c = cf_subCallIdSet c"

definition Conn_IsCallbackRegistered :: "cm \<Rightarrow> bool" where
  "Conn_IsCallbackRegistered s = cn_callbackRegistered (cm_connection s)"

text \<open>Neither observer overrides \<open>MeeTimeStateUpdated\<close>.\<close>

definition Listener_MeeTimeStateUpdated :: "CallAttributeInfo \<Rightarrow> TelCallState \<Rightarrow> TelCallState \<Rightarrow> unit cmM" where
  "Listener_MeeTimeStateUpdated info priorState nextState = to_observers (\<lambda>_. ret ())"

definition PacMap_Clear :: "PacMap \<Rightarrow> PacMap" where
  "PacMap_Clear m = PacMap_empty"

definition RequestHandler_Init :: "unit cmM" where
  "RequestHandler_Init = modify (\<lambda>s. s\<lparr>cm_requestHandler := True\<rparr>)"

text \<open>A product registers its SIM service or its audio implementation.\<close>

definition CoreServiceLiteRegistry_Register :: "bool \<Rightarrow> unit cmM" where
  "CoreServiceLiteRegistry_Register present = modify (\<lambda>s. s\<lparr>cm_env := (cm_env s)\<lparr>e_hasCoreService := present\<rparr>\<rparr>)"

definition CallAudioLiteRegistry_Register :: "bool \<Rightarrow> unit cmM" where
  "CallAudioLiteRegistry_Register present = modify (\<lambda>s. s\<lparr>cm_env := (cm_env s)\<lparr>e_hasAudio := present\<rparr>\<rparr>)"

section \<open>What they answer\<close>

text \<open>A ringtone is a video exactly when its name is more than the ending \<open>.mp4\<close>, or it is the video of the system.\<close>
theorem video_ring_by_name:
  "IsVideoRing personal path \<longleftrightarrow> (\<exists>name. name \<noteq> [] \<and> personal = name @ ''.mp4'') \<or> path = ''system_video_ring''"
proof -
  have "4 < length xs \<and> drop (length xs - 4) xs = ys \<longleftrightarrow> (\<exists>zs. zs \<noteq> [] \<and> xs = zs @ ys)" if "length ys = 4" for xs ys :: string
  proof
    assume long: "4 < length xs \<and> drop (length xs - 4) xs = ys"
    then have "xs = take (length xs - 4) xs @ ys" using append_take_drop_id [of "length xs - 4" xs] by simp
    moreover have "take (length xs - 4) xs \<noteq> []" using long by (cases xs) auto
    ultimately show "\<exists>zs. zs \<noteq> [] \<and> xs = zs @ ys" by blast
  next
    assume "\<exists>zs. zs \<noteq> [] \<and> xs = zs @ ys"
    then show "4 < length xs \<and> drop (length xs - 4) xs = ys" using that by auto
  qed
  from this [of "''.mp4''" personal] show ?thesis
    by (auto simp: IsVideoRing_def VIDEO_RING_PATH_FIX_TAIL_def VIDEO_RING_PATH_FIX_TAIL_LENGTH_def SYSTEM_VIDEO_RING_def)
qed

text \<open>The mode that silences calls never silences one here: the parameter it is read from is not carried.\<close>
theorem never_silent: "\<not> IsNeedSilentInDoNotDisturbMode marks s"
  by (auto simp: IsNeedSilentInDoNotDisturbMode_def GetParamsByKey_def GetIntParam_def split: option.splits)

end
