(* ===== verification/Error_Codes.thy ===== *)
theory Error_Codes
  imports Call_Types
begin

text \<open>
  The error codes as numbers: their layout (\<open>utils/mini/include/errors.h\<close>) and the three modules whose codes the program uses
  (\<open>interfaces/innerkits/call_manager_errors.h\<close>, and the common codes of telephony). The other theories take a code as a
  value of the datatype \<open>ErrCode\<close>; here is why they may.
\<close>

section \<open>The layout\<close>

definition SUBSYS_TELEPONY :: "32 word" where
  "SUBSYS_TELEPONY = 40"

definition ErrCodeOffset :: "32 word \<Rightarrow> 32 word \<Rightarrow> 32 word" where
  "ErrCodeOffset subsystem module = or (push_bit 21 subsystem) (push_bit 16 module)"

definition COMMON_ERR_OFFSET :: int where
  "COMMON_ERR_OFFSET = sint (ErrCodeOffset SUBSYS_TELEPONY 0)"

definition CALL_ERR_OFFSET :: int where
  "CALL_ERR_OFFSET = sint (ErrCodeOffset SUBSYS_TELEPONY 1)"

definition PROTOCOL_ERR_OFFSET :: int where
  "PROTOCOL_ERR_OFFSET = sint (ErrCodeOffset SUBSYS_TELEPONY 2)"

lemma offset_values:
  "COMMON_ERR_OFFSET = 83886080" "CALL_ERR_OFFSET = 83951616" "PROTOCOL_ERR_OFFSET = 84017152"
  by (simp_all add: COMMON_ERR_OFFSET_def PROTOCOL_ERR_OFFSET_def CALL_ERR_OFFSET_def ErrCodeOffset_def SUBSYS_TELEPONY_def)

section \<open>The codes\<close>

fun ErrCode_code :: "ErrCode \<Rightarrow> int" where
  "ErrCode_code TELEPHONY_ERROR = -1"
| "ErrCode_code TELEPHONY_SUCCESS = 0"
| "ErrCode_code TELEPHONY_ERR_FAIL = COMMON_ERR_OFFSET"
| "ErrCode_code TELEPHONY_ERR_ARGUMENT_INVALID = COMMON_ERR_OFFSET + 2"
| "ErrCode_code TELEPHONY_ERR_MEMCPY_FAIL = COMMON_ERR_OFFSET + 4"
| "ErrCode_code TELEPHONY_ERR_LOCAL_PTR_NULL = COMMON_ERR_OFFSET + 7"
| "ErrCode_code TELEPHONY_ERR_PERMISSION_ERR = COMMON_ERR_OFFSET + 8"
| "ErrCode_code TELEPHONY_ERR_IPC_CONNECT_STUB_FAIL = COMMON_ERR_OFFSET + 14"
| "ErrCode_code TELEPHONY_ERR_REGISTER_CALLBACK_FAIL = COMMON_ERR_OFFSET + 16"
| "ErrCode_code TELEPHONY_ERR_UNINIT = COMMON_ERR_OFFSET + 18"
| "ErrCode_code TELEPHONY_ERR_UNREGISTER_CALLBACK_FAIL = COMMON_ERR_OFFSET + 19"
| "ErrCode_code TELEPHONY_ERR_NO_SIM_CARD = COMMON_ERR_OFFSET + 24"
| "ErrCode_code TELEPHONY_ERR_ILLEGAL_USE_OF_SYSTEM_API = COMMON_ERR_OFFSET + 29"
| "ErrCode_code TELEPHONY_ERR_AIRPLANE_MODE_ON = COMMON_ERR_OFFSET + 30"
| "ErrCode_code TELEPHONY_ERR_NETWORK_NOT_IN_SERVICE = COMMON_ERR_OFFSET + 31"
| "ErrCode_code TELEPHONY_ERR_POLICY_DISABLED = COMMON_ERR_OFFSET + 41"
| "ErrCode_code CALL_ERR_INVALID_SLOT_ID = CALL_ERR_OFFSET"
| "ErrCode_code CALL_ERR_INVALID_CALLID = CALL_ERR_OFFSET + 1"
| "ErrCode_code CALL_ERR_PHONE_NUMBER_EMPTY = CALL_ERR_OFFSET + 2"
| "ErrCode_code CALL_ERR_NUMBER_OUT_OF_RANGE = CALL_ERR_OFFSET + 3"
| "ErrCode_code CALL_ERR_UNKNOW_DIAL_TYPE = CALL_ERR_OFFSET + 7"
| "ErrCode_code CALL_ERR_UNKNOW_CALL_TYPE = CALL_ERR_OFFSET + 8"
| "ErrCode_code CALL_ERR_NOT_NEW_STATE = CALL_ERR_OFFSET + 10"
| "ErrCode_code CALL_ERR_CALL_OBJECT_IS_NULL = CALL_ERR_OFFSET + 11"
| "ErrCode_code CALL_ERR_DIAL_IS_BUSY = CALL_ERR_OFFSET + 12"
| "ErrCode_code CALL_ERR_CALL_IS_NOT_ACTIVATED = CALL_ERR_OFFSET + 13"
| "ErrCode_code CALL_ERR_CALL_IS_NOT_ON_HOLDING = CALL_ERR_OFFSET + 14"
| "ErrCode_code CALL_ERR_ILLEGAL_CALL_OPERATION = CALL_ERR_OFFSET + 15"
| "ErrCode_code CALL_ERR_CALL_STATE_MISMATCH_OPERATION = CALL_ERR_OFFSET + 16"
| "ErrCode_code CALL_ERR_CONFERENCE_NOT_EXISTS = CALL_ERR_OFFSET + 17"
| "ErrCode_code CALL_ERR_CONFERENCE_CALL_EXCEED_LIMIT = CALL_ERR_OFFSET + 18"
| "ErrCode_code CALL_ERR_CALL_STATE = CALL_ERR_OFFSET + 19"
| "ErrCode_code CALL_ERR_CALL_COUNTS_EXCEED_LIMIT = CALL_ERR_OFFSET + 20"
| "ErrCode_code CALL_ERR_EMERGENCY_UNSUPPORT_CONFERENCEABLE = CALL_ERR_OFFSET + 23"
| "ErrCode_code CALL_ERR_PHONE_ANSWER_IS_BUSY = CALL_ERR_OFFSET + 24"
| "ErrCode_code CALL_ERR_PHONE_CALL_ALREADY_EXISTS = CALL_ERR_OFFSET + 25"
| "ErrCode_code CALL_ERR_PHONE_CALLS_TOO_FEW = CALL_ERR_OFFSET + 26"
| "ErrCode_code CALL_ERR_PHONE_TYPE_UNEXPECTED = CALL_ERR_OFFSET + 27"
| "ErrCode_code CALL_ERR_PHONE_CALLSTATE_NOTIFY_FAILED = CALL_ERR_OFFSET + 28"
| "ErrCode_code CALL_ERR_ANSWER_FAILED = CALL_ERR_OFFSET + 34"
| "ErrCode_code CALL_ERR_REJECT_FAILED = CALL_ERR_OFFSET + 35"
| "ErrCode_code CALL_ERR_HOLD_FAILED = CALL_ERR_OFFSET + 36"
| "ErrCode_code CALL_ERR_UNHOLD_FAILED = CALL_ERR_OFFSET + 37"
| "ErrCode_code CALL_ERR_HANGUP_FAILED = CALL_ERR_OFFSET + 38"
| "ErrCode_code CALL_ERR_CONFERENCE_SEPERATE_FAILED = CALL_ERR_OFFSET + 39"
| "ErrCode_code CALL_ERR_CONFERENCE_CALL_IS_NOT_ACTIVE = CALL_ERR_OFFSET + 40"
| "ErrCode_code CALL_ERR_THE_CALL_IS_NOT_IN_THE_CONFERENCE = CALL_ERR_OFFSET + 41"
| "ErrCode_code CALL_ERR_FUNCTION_NOT_SUPPORTED = CALL_ERR_OFFSET + 74"
| "ErrCode_code CALL_ERR_VIDEO_NOT_SUPPORTED = CALL_ERR_OFFSET + 75"
| "ErrCode_code CALL_ERR_CALL_ALREADY_EXISTS = PROTOCOL_ERR_OFFSET + 1"
| "ErrCode_code (ErrCode_other n) = n"

text \<open>The codes with a name, in the order of their numbers.\<close>

definition named_codes :: "ErrCode list" where
  "named_codes = [TELEPHONY_ERROR, TELEPHONY_SUCCESS, TELEPHONY_ERR_FAIL,
     TELEPHONY_ERR_ARGUMENT_INVALID, TELEPHONY_ERR_MEMCPY_FAIL, TELEPHONY_ERR_LOCAL_PTR_NULL,
     TELEPHONY_ERR_PERMISSION_ERR, TELEPHONY_ERR_IPC_CONNECT_STUB_FAIL, TELEPHONY_ERR_REGISTER_CALLBACK_FAIL,
     TELEPHONY_ERR_UNINIT, TELEPHONY_ERR_UNREGISTER_CALLBACK_FAIL, TELEPHONY_ERR_NO_SIM_CARD,
     TELEPHONY_ERR_ILLEGAL_USE_OF_SYSTEM_API, TELEPHONY_ERR_AIRPLANE_MODE_ON, TELEPHONY_ERR_NETWORK_NOT_IN_SERVICE,
     TELEPHONY_ERR_POLICY_DISABLED, CALL_ERR_INVALID_SLOT_ID, CALL_ERR_INVALID_CALLID,
     CALL_ERR_PHONE_NUMBER_EMPTY, CALL_ERR_NUMBER_OUT_OF_RANGE, CALL_ERR_UNKNOW_DIAL_TYPE,
     CALL_ERR_UNKNOW_CALL_TYPE, CALL_ERR_NOT_NEW_STATE, CALL_ERR_CALL_OBJECT_IS_NULL,
     CALL_ERR_DIAL_IS_BUSY, CALL_ERR_CALL_IS_NOT_ACTIVATED, CALL_ERR_CALL_IS_NOT_ON_HOLDING,
     CALL_ERR_ILLEGAL_CALL_OPERATION, CALL_ERR_CALL_STATE_MISMATCH_OPERATION, CALL_ERR_CONFERENCE_NOT_EXISTS,
     CALL_ERR_CONFERENCE_CALL_EXCEED_LIMIT, CALL_ERR_CALL_STATE, CALL_ERR_CALL_COUNTS_EXCEED_LIMIT,
     CALL_ERR_EMERGENCY_UNSUPPORT_CONFERENCEABLE, CALL_ERR_PHONE_ANSWER_IS_BUSY, CALL_ERR_PHONE_CALL_ALREADY_EXISTS,
     CALL_ERR_PHONE_CALLS_TOO_FEW, CALL_ERR_PHONE_TYPE_UNEXPECTED, CALL_ERR_PHONE_CALLSTATE_NOTIFY_FAILED,
     CALL_ERR_ANSWER_FAILED, CALL_ERR_REJECT_FAILED, CALL_ERR_HOLD_FAILED,
     CALL_ERR_UNHOLD_FAILED, CALL_ERR_HANGUP_FAILED, CALL_ERR_CONFERENCE_SEPERATE_FAILED,
     CALL_ERR_CONFERENCE_CALL_IS_NOT_ACTIVE, CALL_ERR_THE_CALL_IS_NOT_IN_THE_CONFERENCE, CALL_ERR_FUNCTION_NOT_SUPPORTED,
     CALL_ERR_VIDEO_NOT_SUPPORTED, CALL_ERR_CALL_ALREADY_EXISTS]"

lemma named_codes: "e \<in> set named_codes \<longleftrightarrow> (\<forall>n. e \<noteq> ErrCode_other n)"
  by (cases e) (simp_all add: named_codes_def)

lemma named_set: "{e. \<forall>n. e \<noteq> ErrCode_other n} = set named_codes"
  using named_codes by blast

lemma code_numbers: "map ErrCode_code named_codes =
    [-1, 0, 83886080, 83886082, 83886084, 83886087, 83886088, 83886094,
     83886096, 83886098, 83886099, 83886104, 83886109, 83886110, 83886111, 83886121,
     83951616, 83951617, 83951618, 83951619, 83951623, 83951624, 83951626, 83951627,
     83951628, 83951629, 83951630, 83951631, 83951632, 83951633, 83951634, 83951635,
     83951636, 83951639, 83951640, 83951641, 83951642, 83951643, 83951644, 83951650,
     83951651, 83951652, 83951653, 83951654, 83951655, 83951656, 83951657, 83951690,
     83951691, 84017153]"
  by (simp add: named_codes_def offset_values)



end
