(* ===== verification/Log_Format.thy ===== *)
theory Log_Format
  imports Prelude
begin

text \<open>
  The log of the mini system, \<open>utils/mini/src/telephony_log_mini.cpp\<close>: a format loses its privacy tags on the way into a
  buffer of fixed size, and a message is put together in another. A C string is the list of its characters, without the
  terminator. What \<open>vsnprintf\<close> makes of a format and its arguments is a parameter.
\<close>

section \<open>The sources\<close>

definition LOG_FORMAT_MAX :: nat where "LOG_FORMAT_MAX = 256"
definition LOG_MESSAGE_MAX :: nat where "LOG_MESSAGE_MAX = 320"

definition PUBLIC_TAG :: string where "PUBLIC_TAG = ''{public}''"
definition PRIVATE_TAG :: string where "PRIVATE_TAG = ''{private}''"

text \<open>A character of a C string, which ends with a 0, and \<open>strncmp\<close> of a tag with the string at a position.\<close>

definition c_at :: "string \<Rightarrow> nat \<Rightarrow> char" where
  "c_at text i = (if i < length text then text ! i else CHR 0x00)"

definition tag_at :: "string \<Rightarrow> nat \<Rightarrow> string \<Rightarrow> bool" where
  "tag_at fmt pos tag \<longleftrightarrow> take (length tag) (drop pos fmt) = tag"

text \<open>\<open>memcpy\<close> of a part of the format into the buffer.\<close>

definition copied :: "string \<Rightarrow> nat \<Rightarrow> string \<Rightarrow> string" where
  "copied out outPos chunk = take outPos out @ chunk @ drop (outPos + length chunk) out"

definition copy_len :: "string \<Rightarrow> nat \<Rightarrow> nat" where
  "copy_len fmt pos = (if c_at fmt pos = CHR ''%'' \<and> c_at fmt (pos + 1) = CHR ''%'' then 2 else 1)"

definition skip_len :: "string \<Rightarrow> nat \<Rightarrow> nat" where
  "skip_len fmt pos =
    (if c_at fmt pos = CHR ''%'' \<and> c_at fmt (pos + 1) = CHR ''%'' then 0
     else if c_at fmt pos = CHR ''%'' \<and> tag_at fmt (pos + 1) PUBLIC_TAG then length PUBLIC_TAG
     else if c_at fmt pos = CHR ''%'' \<and> tag_at fmt (pos + 1) PRIVATE_TAG then length PRIVATE_TAG
     else 0)"

function StripPrivacyTags_loop :: "string \<Rightarrow> nat \<Rightarrow> string \<Rightarrow> nat \<Rightarrow> bool \<times> string" where
  "StripPrivacyTags_loop fmt pos out outPos =
    (if length fmt \<le> pos then (True, copied out outPos [CHR 0x00])
     else if length out \<le> outPos + copy_len fmt pos then (False, out)
     else StripPrivacyTags_loop fmt (pos + copy_len fmt pos + skip_len fmt pos)
       (copied out outPos (take (copy_len fmt pos) (drop pos fmt))) (outPos + copy_len fmt pos))"
  by pat_completeness auto
termination by (relation "measure (\<lambda>(fmt, pos, out, outPos). length fmt - pos)") (auto simp: copy_len_def)

declare StripPrivacyTags_loop.simps [simp del]

text \<open>The size of the buffer is its length.\<close>

definition StripPrivacyTags :: "string \<Rightarrow> string \<Rightarrow> bool \<times> string" where
  "StripPrivacyTags fmt out = StripPrivacyTags_loop fmt 0 out 0"

text \<open>
  \<open>snprintf\<close> into a buffer of \<open>n\<close> bytes: what fits, less one byte for the terminator. \<open>TelMiniLog\<close> hands a message to the
  sink when the level is not below the least one and there is a format; \<open>format\<close> is the content of the array before the
  call, which is not initialised.
\<close>

definition snprintf :: "nat \<Rightarrow> string \<Rightarrow> string" where
  "snprintf n text = take (n - 1) text"

definition log_prefix :: "string option \<Rightarrow> string \<Rightarrow> string" where
  "log_prefix func line =
    (let p = ''['' @ (case func of None \<Rightarrow> ''?'' | Some f \<Rightarrow> f) @ '':'' @ line @ ''] ''
     in if LOG_MESSAGE_MAX \<le> length p then [] else p)"

definition TelMiniLog ::
    "int \<Rightarrow> int \<Rightarrow> string option \<Rightarrow> string \<Rightarrow> string option \<Rightarrow> string \<Rightarrow> (string \<Rightarrow> string) \<Rightarrow> string option" where
  "TelMiniLog minLevel level func line fmt format vsnprintf =
    (case fmt of None \<Rightarrow> None
     | Some fmt \<Rightarrow> if level < minLevel then None
       else let prefix = log_prefix func line in
         Some (prefix @ snprintf (LOG_MESSAGE_MAX - length prefix)
           (case StripPrivacyTags fmt format of (ok, stripped) \<Rightarrow>
              if ok then vsnprintf (takeWhile (\<lambda>c. c \<noteq> CHR 0x00) stripped) else ''log format too long'')))"

section \<open>What it should be\<close>

text \<open>A format without its tags: a double percent sign stays, a tag after a percent sign goes.\<close>

definition without_tag :: "string \<Rightarrow> string" where
  "without_tag fmt =
    (if take (length PUBLIC_TAG) fmt = PUBLIC_TAG then drop (length PUBLIC_TAG) fmt
     else if take (length PRIVATE_TAG) fmt = PRIVATE_TAG then drop (length PRIVATE_TAG) fmt else fmt)"

lemma without_tag_shorter [termination_simp]: "length (without_tag (c # fmt)) < Suc (Suc (length fmt))"
  by (auto simp: without_tag_def)

fun stripped :: "string \<Rightarrow> string" where
  "stripped [] = []"
| "stripped (c # fmt) =
    (if c = CHR ''%'' then case fmt of
         [] \<Rightarrow> [c]
       | d # fmt' \<Rightarrow> if d = CHR ''%'' then c # d # stripped fmt' else c # stripped (without_tag fmt)
     else c # stripped fmt)"

section \<open>The loop does just that\<close>

lemma c_at_percent: "c_at fmt i = CHR ''%'' \<longleftrightarrow> i < length fmt \<and> fmt ! i = CHR ''%''"
  by (auto simp: c_at_def)

lemma stripped_step:
  assumes "pos < length fmt"
  shows "stripped (drop pos fmt) =
    take (copy_len fmt pos) (drop pos fmt) @ stripped (drop (pos + copy_len fmt pos + skip_len fmt pos) fmt)"
proof -
  have here: "drop pos fmt = fmt ! pos # drop (Suc pos) fmt"
    using assms by (simp add: Cons_nth_drop_Suc)
  show ?thesis
  proof (cases "fmt ! pos = CHR ''%''")
    case True
    show ?thesis
    proof (cases "Suc pos < length fmt")
      case more: True
      have "drop (Suc pos) fmt = fmt ! Suc pos # drop (Suc (Suc pos)) fmt"
        using more by (simp add: Cons_nth_drop_Suc)
      moreover have "drop (n + Suc pos) fmt = drop n (drop (Suc pos) fmt)" for n by simp
      ultimately show ?thesis
        using True assms more here
        by (simp add: copy_len_def skip_len_def c_at_percent tag_at_def without_tag_def PUBLIC_TAG_def PRIVATE_TAG_def
          numeral_eq_Suc add.commute)
    next
      case False
      then show ?thesis
        using True assms here by (simp add: copy_len_def skip_len_def c_at_percent tag_at_def PUBLIC_TAG_def PRIVATE_TAG_def)
    qed
  next
    case False
    then show ?thesis
      using here by (simp add: copy_len_def skip_len_def c_at_percent)
  qed
qed

lemma copy_len_fits: "pos < length fmt \<Longrightarrow> length (take (copy_len fmt pos) (drop pos fmt)) = copy_len fmt pos"
  by (auto simp: copy_len_def c_at_percent min_def)

lemma copied_twice:
  "i + length xs \<le> length out \<Longrightarrow>
    take (i + length xs) (copied out i xs) = take i out @ xs \<and> drop (i + length xs + n) (copied out i xs) = drop (i + length xs + n) out \<and>
    length (copied out i xs) = length out"
  by (simp add: copied_def add.commute)

lemma StripPrivacyTags_loop_stripped:
  "outPos < length out \<Longrightarrow>
    (let r = stripped (drop pos fmt); res = StripPrivacyTags_loop fmt pos out outPos in
       length (snd res) = length out \<and>
       (if outPos + length r < length out
        then res = (True, take outPos out @ r @ CHR 0x00 # drop (outPos + length r + 1) out) else \<not> fst res))"
proof (induction fmt pos out outPos rule: StripPrivacyTags_loop.induct)
  case (1 fmt pos out outPos)
  show ?case
  proof (cases "length fmt \<le> pos")
    case True
    then show ?thesis
      using "1.prems" by (simp add: StripPrivacyTags_loop.simps copied_def)
  next
    case False
    define n next_pos where "n = copy_len fmt pos" and "next_pos = pos + copy_len fmt pos + skip_len fmt pos"
    define chunk tail where "chunk = take n (drop pos fmt)" and "tail = stripped (drop next_pos fmt)"
    have n: "length chunk = n"
      using False copy_len_fits by (simp add: chunk_def n_def)
    have step: "stripped (drop pos fmt) = chunk @ tail"
      using False stripped_step by (simp add: chunk_def n_def tail_def next_pos_def)
    show ?thesis
    proof (cases "length out \<le> outPos + n")
      case True
      then show ?thesis
        using False n by (simp add: StripPrivacyTags_loop.simps [of fmt pos] step Let_def flip: n_def)
    next
      case fits: False
      have twice: "take (outPos + n) (copied out outPos chunk) = take outPos out @ chunk"
        "drop (outPos + n + k) (copied out outPos chunk) = drop (outPos + n + k) out"
        "length (copied out outPos chunk) = length out" for k
        using copied_twice [of outPos chunk out k] n fits by simp_all
      have "outPos + n < length (copied out outPos chunk)"
        using fits twice(3) by simp
      note IH0 = "1.IH" [folded next_pos_def, folded n_def, folded chunk_def tail_def, OF False fits this]
      have IH: "let res = StripPrivacyTags_loop fmt next_pos (copied out outPos chunk) (outPos + n) in
          length (snd res) = length out \<and>
          (if outPos + n + length tail < length out
           then res = (True, take outPos out @ chunk @ tail @ CHR 0x00 # drop (outPos + n + length tail + 1) out) else \<not> fst res)"
        using IH0 twice(2) [of "length tail + 1"] twice(1,3) by (simp only: Let_def append_assoc add.assoc simp_thms) blast
      have "StripPrivacyTags_loop fmt pos out outPos = StripPrivacyTags_loop fmt next_pos (copied out outPos chunk) (outPos + n)"
        using False fits by (simp add: StripPrivacyTags_loop.simps [of fmt pos] n_def next_pos_def chunk_def)
      then show ?thesis
        using IH n by (simp add: step Let_def add.assoc)
    qed
  qed
qed

lemma without_tag_chars: "set (without_tag fmt) \<subseteq> set fmt"
  by (auto simp: without_tag_def dest: in_set_dropD)

lemma stripped_chars: "set (stripped fmt) \<subseteq> set fmt"
proof (induction fmt rule: stripped.induct)
  case (2 c fmt)
  show ?case
  proof (cases "c = CHR ''%'' \<and> fmt \<noteq> []")
    case True
    then obtain d fmt' where fmt: "fmt = d # fmt'" by (cases fmt) auto
    show ?thesis
    proof (cases "d = CHR ''%''")
      case d: True
      then show ?thesis using 2(1) [OF _ fmt d] True fmt by auto
    next
      case d: False
      then show ?thesis using 2(2) [OF _ fmt d] True fmt without_tag_chars [of fmt] by auto
    qed
  next
    case False
    then show ?thesis using 2(3) by auto
  qed
qed simp

text \<open>C37. The format of a message, without its privacy tags, and nothing else, ends up in the buffer when it fits with its
  terminator; otherwise the routine says so. In either case it stays in the buffer.\<close>
theorem privacy_tags_stripped:
  assumes "out \<noteq> []" "CHR 0x00 \<notin> set fmt"
  shows "case StripPrivacyTags fmt out of (ok, out') \<Rightarrow>
    length out' = length out \<and> ok = (length (stripped fmt) < length out) \<and>
    (ok \<longrightarrow> takeWhile (\<lambda>c. c \<noteq> CHR 0x00) out' = stripped fmt)"
proof -
  have "takeWhile (\<lambda>c. c \<noteq> CHR 0x00) (stripped fmt @ CHR 0x00 # xs) = stripped fmt" for xs
    using assms(2) stripped_chars [of fmt] by (subst takeWhile_append2) auto
  then show ?thesis
    using StripPrivacyTags_loop_stripped [of 0 out 0 fmt] assms(1)
    by (auto simp: StripPrivacyTags_def Let_def split: if_splits)
qed

theorem privacy_tags_stripped_witness:
  "StripPrivacyTags ''%{public}d %%{public} %{private}s'' (replicate 18 CHR ''x'') =
     (True, ''%d %%{public} %s'' @ [CHR 0x00, CHR ''x''])"
proof -
  have "stripped ''%{public}d %%{public} %{private}s'' = ''%d %%{public} %s''"
    by (simp add: without_tag_def PUBLIC_TAG_def PRIVATE_TAG_def)
  then show ?thesis
    using privacy_tags_stripped [of "replicate 18 CHR ''x''" "''%{public}d %%{public} %{private}s''"]
      StripPrivacyTags_loop_stripped [of 0 "replicate 18 CHR ''x''" 0 "''%{public}d %%{public} %{private}s''"]
    by (simp add: StripPrivacyTags_def Let_def)
qed

text \<open>Nothing below the least level is logged. A message that is logged fits in its buffer with its terminator; its place
  comes first unless it would fill the buffer alone, and the rest is cut, not the place.\<close>
theorem log_message_bounded:
  assumes "format \<noteq> []"
  shows "case TelMiniLog minLevel level func line fmt format vsnprintf of
    None \<Rightarrow> level < minLevel \<or> fmt = None
  | Some message \<Rightarrow> minLevel \<le> level \<and> length message < LOG_MESSAGE_MAX \<and>
      (\<exists>text. message = log_prefix func line @ text) \<and>
      length (log_prefix func line) < LOG_MESSAGE_MAX"
proof -
  have "length (log_prefix func line) < LOG_MESSAGE_MAX"
    by (simp add: log_prefix_def Let_def LOG_MESSAGE_MAX_def)
  then show ?thesis
    by (auto simp: TelMiniLog_def Let_def snprintf_def split: option.splits prod.splits)
qed

theorem log_message_bounded_witness:
  "case TelMiniLog 4 6 (Some (replicate 400 CHR ''f'')) ''7'' (Some ''%{private}s'') (replicate 256 CHR ''?'')
     (\<lambda>f. replicate 1000 CHR ''z'') of
     None \<Rightarrow> False | Some message \<Rightarrow> length message < 320"
  using log_message_bounded [where format = "replicate 256 CHR ''?''" and minLevel = 4 and level = 6 and
    func = "Some (replicate 400 CHR ''f'')" and line = "''7''" and fmt = "Some ''%{private}s''" and
    vsnprintf = "\<lambda>f. replicate 1000 CHR ''z''"]
  by (auto simp: LOG_MESSAGE_MAX_def split: option.splits)

section \<open>Where a message goes\<close>

datatype TelMiniLogLevel = LL_DEBUG | LL_INFO | LL_WARN | LL_ERROR | LL_FATAL

primrec TelMiniLogLevel_code :: "TelMiniLogLevel \<Rightarrow> int" where
  "TelMiniLogLevel_code LL_DEBUG = 0"
| "TelMiniLogLevel_code LL_INFO = 1"
| "TelMiniLogLevel_code LL_WARN = 2"
| "TelMiniLogLevel_code LL_ERROR = 3"
| "TelMiniLogLevel_code LL_FATAL = 4"

definition LevelName :: "TelMiniLogLevel \<Rightarrow> string" where
  "LevelName level =
    (case level of LL_DEBUG \<Rightarrow> ''D'' | LL_INFO \<Rightarrow> ''I'' | LL_WARN \<Rightarrow> ''W'' | LL_ERROR \<Rightarrow> ''E'' | _ \<Rightarrow> ''F'')"

text \<open>A sink is a number; \<open>lo_printf\<close> is whether the console is compiled in. The last two fields are what came out.\<close>

record logger =
  lo_minLevel :: int
  lo_sink :: "nat option"
  lo_printf :: bool
  lo_sent :: "(nat \<times> TelMiniLogLevel \<times> string) list"
  lo_console :: "string list"

definition logger_init :: "bool \<Rightarrow> logger" where
  "logger_init printf = \<lparr>lo_minLevel = TelMiniLogLevel_code LL_INFO, lo_sink = None, lo_printf = printf, lo_sent = [], lo_console = []\<rparr>"

definition ConsoleSink :: "TelMiniLogLevel \<Rightarrow> string \<Rightarrow> logger \<Rightarrow> logger" where
  "ConsoleSink level message g =
    (if lo_printf g then g\<lparr>lo_console := lo_console g @ [''[CallManager]['' @ LevelName level @ '']'' @ message]\<rparr> else g)"

definition TelMiniLogSetLevel :: "TelMiniLogLevel \<Rightarrow> logger \<Rightarrow> logger" where
  "TelMiniLogSetLevel minLevel g = g\<lparr>lo_minLevel := TelMiniLogLevel_code minLevel\<rparr>"

definition TelMiniLogSetSink :: "nat option \<Rightarrow> logger \<Rightarrow> logger" where
  "TelMiniLogSetSink sink g = g\<lparr>lo_sink := sink\<rparr>"

definition TelMiniLog_send ::
    "TelMiniLogLevel \<Rightarrow> string option \<Rightarrow> string \<Rightarrow> string option \<Rightarrow> string \<Rightarrow> (string \<Rightarrow> string) \<Rightarrow> logger \<Rightarrow> logger" where
  "TelMiniLog_send level func line fmt format vsnprintf g =
    (case TelMiniLog (lo_minLevel g) (TelMiniLogLevel_code level) func line fmt format vsnprintf of
       None \<Rightarrow> g
     | Some message \<Rightarrow>
         (case lo_sink g of
            Some sink \<Rightarrow> g\<lparr>lo_sent := lo_sent g @ [(sink, level, message)]\<rparr>
          | None \<Rightarrow> ConsoleSink level message g))"

text \<open>A level that was set lets through what is at least as severe, to the sink that was set and to nothing else.\<close>

lemma log_reaches_sink:
  assumes "g = TelMiniLogSetSink (Some sink) (TelMiniLogSetLevel minLevel g0)"
  shows "case TelMiniLog_send level func line (Some fmt) format vsnprintf g of h \<Rightarrow>
    lo_console h = lo_console g0 \<and>
    (if TelMiniLogLevel_code level < TelMiniLogLevel_code minLevel then h = g
     else \<exists>message. lo_sent h = lo_sent g0 @ [(sink, level, message)])"
  using assms by (auto simp: TelMiniLog_send_def TelMiniLogSetSink_def TelMiniLogSetLevel_def TelMiniLog_def Let_def)

end
