(* ===== verification/Os_Tasks.thy ===== *)
theory Os_Tasks
  imports Interleaving
begin

text \<open>
  How the adapter of the target starts tasks, \<open>utils/mini/src/tel_os_adapter_cmsis.cpp\<close>. The kernel hands a new task 32 bits
  only, so what it shall run waits in one of eight slots, which the task frees before it runs. An entry with its argument
  is a number here, a different one for each call of \<open>TelOsTaskCreate\<close>; the count of tasks is the set of the calls that it
  counts.
\<close>

section \<open>Tasks and slots\<close>

definition CMSIS_MAX_TASKS :: nat where
  "CMSIS_MAX_TASKS = 8"

record TaskSlot =
  ks_used :: bool
  ks_entry :: "nat option"

text \<open>\<open>kt_made\<close> are the tasks that the kernel has made and not run yet, each with its slot index and the call that made it.\<close>

record task_table =
  kt_slot :: "nat \<Rightarrow> TaskSlot"
  kt_taskCount :: "nat set"
  kt_made :: "(nat \<times> nat) set"
  kt_next :: nat
  kt_started :: "nat set"

text \<open>
  \<open>TelOsTaskCreate\<close>: \<open>K_Claimed\<close> after \<open>ClaimSlot\<close>, \<open>K_Filled\<close>, \<open>K_Counted\<close> before \<open>LOS_TaskCreate\<close>, \<open>K_Failed\<close> when that
  failed and the count is taken back. \<open>TaskTrampoline\<close>: \<open>K_New\<close>, \<open>K_Read\<close> with what it read, \<open>K_Running n e\<close> is the task of
  call \<open>n\<close> that runs entry \<open>e\<close>.
\<close>

datatype task_user =
    K_Idle
  | K_Claimed nat
  | K_Filled nat nat
  | K_Counted nat nat
  | K_Failed nat
  | K_New nat nat
  | K_Read nat nat "nat option"
  | K_Running nat "nat option"

definition upd_task :: "nat \<Rightarrow> (TaskSlot \<Rightarrow> TaskSlot) \<Rightarrow> task_table \<Rightarrow> task_table" where
  "upd_task i f g = g\<lparr>kt_slot := (kt_slot g)(i := f (kt_slot g i))\<rparr>"

inductive task_act :: "task_table \<Rightarrow> task_user \<Rightarrow> task_table \<Rightarrow> task_user \<Rightarrow> bool" where
  claims: "i < CMSIS_MAX_TASKS \<Longrightarrow> \<not> ks_used (kt_slot g i) \<Longrightarrow>
    task_act g K_Idle (upd_task i (\<lambda>t. t\<lparr>ks_used := True\<rparr>) g) (K_Claimed i)"
| no_slot: "\<forall>i < CMSIS_MAX_TASKS. ks_used (kt_slot g i) \<Longrightarrow> task_act g K_Idle g K_Idle"
| fills: "n = kt_next g \<Longrightarrow>
    task_act g (K_Claimed i) ((upd_task i (\<lambda>t. t\<lparr>ks_entry := Some n\<rparr>) g)\<lparr>kt_next := Suc n\<rparr>) (K_Filled i n)"
| counts: "task_act g (K_Filled i n) (g\<lparr>kt_taskCount := insert n (kt_taskCount g)\<rparr>) (K_Counted i n)"
| makes: "task_act g (K_Counted i n) (g\<lparr>kt_made := insert (i, n) (kt_made g)\<rparr>) K_Idle"
| fails: "task_act g (K_Counted i n) (g\<lparr>kt_taskCount := kt_taskCount g - {n}\<rparr>) (K_Failed i)"
| failed: "task_act g (K_Failed i) (upd_task i (\<lambda>t. t\<lparr>ks_used := False\<rparr>) g) K_Idle"
| dispatched: "(i, n) \<in> kt_made g \<Longrightarrow>
    task_act g K_Idle (g\<lparr>kt_made := kt_made g - {(i, n)}\<rparr>) (K_New i n)"
| reads: "task_act g (K_New i n) g (K_Read i n (ks_entry (kt_slot g i)))"
| frees: "task_act g (K_Read i n e)
    ((upd_task i (\<lambda>t. t\<lparr>ks_used := False\<rparr>) g)\<lparr>kt_started := insert n (kt_started g)\<rparr>) (K_Running n e)"
| ends: "task_act g (K_Running n e) (g\<lparr>kt_taskCount := kt_taskCount g - {n}\<rparr>) K_Idle"

definition TaskSlot_free :: TaskSlot where
  "TaskSlot_free = \<lparr>ks_used = False, ks_entry = None\<rparr>"

definition task_start :: "task_table \<Rightarrow> (nat \<Rightarrow> task_user) \<Rightarrow> bool" where
  "task_start g ls \<longleftrightarrow>
    g = \<lparr>kt_slot = (\<lambda>_. TaskSlot_free), kt_taskCount = {}, kt_made = {}, kt_next = 0, kt_started = {}\<rparr> \<and> ls = (\<lambda>_. K_Idle)"

section \<open>What every task may rely on\<close>

text \<open>The slot a task holds, and the call it works for.\<close>

fun slot_held :: "task_user \<Rightarrow> nat set" where
  "slot_held (K_Claimed i) = {i}"
| "slot_held (K_Filled i n) = {i}"
| "slot_held (K_Counted i n) = {i}"
| "slot_held (K_Failed i) = {i}"
| "slot_held (K_New i n) = {i}"
| "slot_held (K_Read i n e) = {i}"
| "slot_held _ = {}"

fun works_for :: "task_user \<Rightarrow> nat set" where
  "works_for (K_Filled i n) = {n}"
| "works_for (K_Counted i n) = {n}"
| "works_for (K_New i n) = {n}"
| "works_for (K_Read i n e) = {n}"
| "works_for (K_Running n e) = {n}"
| "works_for _ = {}"

fun expects :: "task_user \<Rightarrow> (nat \<times> nat) set" where
  "expects (K_Filled i n) = {(i, n)}"
| "expects (K_Counted i n) = {(i, n)}"
| "expects (K_New i n) = {(i, n)}"
| "expects _ = {}"

fun is_counted :: "task_user \<Rightarrow> nat set" where
  "is_counted (K_Counted i n) = {n}"
| "is_counted (K_New i n) = {n}"
| "is_counted (K_Read i n e) = {n}"
| "is_counted (K_Running n e) = {n}"
| "is_counted _ = {}"

fun read_right :: "task_user \<Rightarrow> bool" where
  "read_right (K_Read i n e) = (e = Some n)"
| "read_right (K_Running n e) = (e = Some n)"
| "read_right _ = True"

definition waiting_right :: "task_table \<Rightarrow> nat \<Rightarrow> nat \<Rightarrow> bool" where
  "waiting_right g i n \<longleftrightarrow> ks_used (kt_slot g i) \<and> ks_entry (kt_slot g i) = Some n \<and> n < kt_next g \<and> n \<in> kt_taskCount g \<and>
     n \<notin> kt_started g"

definition table_fits :: "task_table \<Rightarrow> bool" where
  "table_fits g \<longleftrightarrow> (\<forall>i n. (i, n) \<in> kt_made g \<longrightarrow> waiting_right g i n) \<and>
    (\<forall>i n j. (i, n) \<in> kt_made g \<and> (j, n) \<in> kt_made g \<longrightarrow> i = j) \<and> kt_started g \<subseteq> {..<kt_next g}"

definition user_fits :: "task_table \<Rightarrow> task_user \<Rightarrow> bool" where
  "user_fits g l \<longleftrightarrow> read_right l \<and> works_for l \<subseteq> {..<kt_next g} \<and> is_counted l \<subseteq> kt_taskCount g \<and>
     (\<forall>i n. (i, n) \<in> kt_made g \<longrightarrow> i \<notin> slot_held l \<and> n \<notin> works_for l) \<and> (\<forall>i \<in> slot_held l. ks_used (kt_slot g i)) \<and>
     (\<forall>(i, n) \<in> expects l. ks_entry (kt_slot g i) = Some n) \<and>
     (slot_held l \<noteq> {} \<longrightarrow> works_for l \<inter> kt_started g = {})"

definition users_apart :: "task_user \<Rightarrow> task_user \<Rightarrow> bool" where
  "users_apart l m \<longleftrightarrow> slot_held l \<inter> slot_held m = {} \<and> works_for l \<inter> works_for m = {}"

lemma upd_task_simps [simp]:
  "kt_slot (upd_task i f g) j = (if j = i then f (kt_slot g i) else kt_slot g j)"
  "kt_taskCount (upd_task i f g) = kt_taskCount g" "kt_made (upd_task i f g) = kt_made g"
  "kt_next (upd_task i f g) = kt_next g" "kt_started (upd_task i f g) = kt_started g"
  by (simp_all add: upd_task_def)

lemma task_own:
  assumes "table_fits g" "user_fits g l" "task_act g l g' l'"
  shows "table_fits g' \<and> user_fits g' l'"
  using assms(3)
proof (cases rule: task_act.cases)
  case (claims i)
  then show ?thesis using assms(1) by (auto simp: table_fits_def user_fits_def waiting_right_def)
next
  case (fills n i)
  then show ?thesis using assms(1,2) by (auto simp: table_fits_def user_fits_def waiting_right_def less_Suc_eq)
next
  case (counts i n)
  then show ?thesis using assms(1,2) by (auto simp: table_fits_def user_fits_def waiting_right_def)
next
  case (makes i n)
  then show ?thesis using assms(1,2) by (auto simp: table_fits_def user_fits_def waiting_right_def)
next
  case (fails i n)
  then show ?thesis using assms(1,2) by (auto simp: table_fits_def user_fits_def waiting_right_def)
next
  case (failed i)
  then show ?thesis using assms(1,2) by (auto simp: table_fits_def user_fits_def waiting_right_def)
next
  case (dispatched i n)
  have made: "ks_entry (kt_slot g i) = Some k" if "(i, k) \<in> kt_made g" for k
    using assms(1) that by (simp add: table_fits_def waiting_right_def)
  have gone: "(i, k) \<notin> kt_made g - {(i, n)}" for k
    using made [of k] made [OF dispatched(4)] by auto
  moreover have "(k, n) \<notin> kt_made g - {(i, n)}" for k
    using assms(1) dispatched(4) by (auto simp: table_fits_def)
  moreover have "waiting_right g i n"
    using assms(1) dispatched(4) by (simp add: table_fits_def)
  ultimately have "user_fits g' l'"
    using dispatched(2,3) by (simp add: user_fits_def waiting_right_def) blast
  moreover have "table_fits g'"
    using assms(1) dispatched(2) by (simp add: table_fits_def waiting_right_def) metis
  ultimately show ?thesis by blast
next
  case (reads i n)
  then show ?thesis using assms(1,2) by (auto simp: user_fits_def)
next
  case (frees i n e)
  then show ?thesis using assms(1,2) by (auto simp: table_fits_def user_fits_def waiting_right_def)
next
  case (ends n e)
  then show ?thesis using assms(1,2) by (auto simp: table_fits_def user_fits_def waiting_right_def)
qed (use assms in auto)

lemma task_others:
  assumes "table_fits g" "user_fits g l" "task_act g l g' l'" "user_fits g m" "users_apart l m"
  shows "user_fits g' m"
  using assms(3)
proof (cases rule: task_act.cases)
  case (claims i)
  then show ?thesis using assms(4) by (cases m) (auto simp: user_fits_def)
next
  case (fills n i)
  then show ?thesis using assms(4,5) by (cases m) (auto simp: user_fits_def users_apart_def)
next
  case (counts i n)
  then show ?thesis using assms(4) by (cases m) (auto simp: user_fits_def)
next
  case (makes i n)
  then show ?thesis using assms(4,5) by (cases m) (auto simp: user_fits_def users_apart_def)
next
  case (fails i n)
  then show ?thesis using assms(4,5) by (cases m) (auto simp: user_fits_def users_apart_def)
next
  case (failed i)
  then show ?thesis using assms(4,5) by (cases m) (auto simp: user_fits_def users_apart_def)
next
  case (dispatched i n)
  then show ?thesis using assms(4) by (cases m) (auto simp: user_fits_def)
next
  case (frees i n e)
  then show ?thesis using assms(4,5) by (cases m) (auto simp: user_fits_def users_apart_def)
next
  case (ends n e)
  then show ?thesis using assms(4,5) by (cases m) (auto simp: user_fits_def users_apart_def)
qed (use assms(4) in auto)

lemma task_stays_apart:
  assumes "table_fits g" "user_fits g l" "task_act g l g' l'" "user_fits g m" "users_apart l m"
  shows "users_apart l' m"
  using assms(3)
proof (cases rule: task_act.cases)
  case (claims i)
  then show ?thesis using assms(4) by (cases m) (auto simp: user_fits_def users_apart_def)
next
  case (fills n i)
  then show ?thesis using assms(4,5) by (cases m) (auto simp: user_fits_def users_apart_def)
next
  case (dispatched i n)
  then show ?thesis using assms(4) by (cases m) (force simp: user_fits_def users_apart_def)+
qed (use assms(5) in \<open>auto simp: users_apart_def\<close>)

interpretation cmsis_tasks: interleaving task_act task_start "\<lambda>g l. table_fits g \<and> user_fits g l" users_apart
proof
  show "table_fits g' \<and> user_fits g' l'" if "table_fits g \<and> user_fits g l" "task_act g l g' l'" for g l g' l'
    using that task_own by blast
  show "table_fits g' \<and> user_fits g' m"
    if "table_fits g \<and> user_fits g l" "task_act g l g' l'" "table_fits g \<and> user_fits g m" "users_apart l m" for g l g' l' m
    using that task_own task_others by blast
  show "users_apart l' m"
    if "table_fits g \<and> user_fits g l" "task_act g l g' l'" "table_fits g \<and> user_fits g m" "users_apart l m" for g l g' l' m
    using that task_stays_apart by blast
  show "users_apart m l" if "users_apart l m" for l m using that by (auto simp: users_apart_def)
qed (auto simp: task_start_def table_fits_def user_fits_def users_apart_def)

section \<open>What is shown\<close>

text \<open>C38. Every task the adapter starts runs what it was started for: in every interleaving of calls of \<open>TelOsTaskCreate\<close>,
  failures of the kernel and starting tasks, a running task runs the entry of its own call, though another call may have
  taken its slot; no call starts two tasks; and every task that runs, and every one the kernel holds, is counted.\<close>
theorem task_runs_its_entry:
  assumes "interleaved task_act task_start g ls"
  shows "(\<forall>t n e. ls t = K_Running n e \<longrightarrow> e = Some n \<and> n \<in> kt_taskCount g) \<and>
    (\<forall>t u n e d. ls t = K_Running n e \<and> ls u = K_Running n d \<longrightarrow> t = u) \<and>
    (\<forall>i n. (i, n) \<in> kt_made g \<longrightarrow> ks_entry (kt_slot g i) = Some n \<and> n \<in> kt_taskCount g \<and> n \<notin> kt_started g)"
proof -
  have fits: "table_fits g" "user_fits g (ls t)" and apart: "t \<noteq> u \<Longrightarrow> users_apart (ls t) (ls u)" for t u
    using cmsis_tasks.tasks_ok [OF assms] by blast+
  have "e = Some n \<and> n \<in> kt_taskCount g" if "ls t = K_Running n e" for t n e
    using fits(2) [of t] that by (simp add: user_fits_def)
  moreover have "t = u" if "ls t = K_Running n e \<and> ls u = K_Running n d" for t u n e d
    using apart [of t u] that by (auto simp: users_apart_def)
  moreover have "ks_entry (kt_slot g i) = Some n \<and> n \<in> kt_taskCount g \<and> n \<notin> kt_started g" if "(i, n) \<in> kt_made g" for i n
    using fits(1) that by (auto simp: table_fits_def waiting_right_def)
  ultimately show ?thesis by blast
qed

section \<open>An example\<close>

text \<open>A second call takes the slot of the first task, which runs the entry of the first call all the same.\<close>

definition demo_slot :: "bool \<Rightarrow> nat option \<Rightarrow> nat set \<Rightarrow> (nat \<times> nat) set \<Rightarrow> nat \<Rightarrow> nat set \<Rightarrow> task_table" where
  "demo_slot used entry counted made nextId started =
    \<lparr>kt_slot = (\<lambda>_. TaskSlot_free)(0 := \<lparr>ks_used = used, ks_entry = entry\<rparr>), kt_taskCount = counted, kt_made = made,
     kt_next = nextId, kt_started = started\<rparr>"

definition demo_pair :: "task_user \<Rightarrow> task_user \<Rightarrow> nat \<Rightarrow> task_user" where
  "demo_pair creator task = (\<lambda>_. K_Idle)(0 := creator, 1 := task)"

lemma demo_pair_go:
  assumes "interleaved act start g (demo_pair a b)"
  shows "act g a g' a' \<Longrightarrow> interleaved act start g' (demo_pair a' b)"
    "act g b g' b' \<Longrightarrow> interleaved act start g' (demo_pair a b')"
  using interleaved.moves [OF assms, of 0 g' a'] interleaved.moves [OF assms, of 1 g' b']
  by (auto simp: demo_pair_def fun_upd_twist)

inductive_simps task_act_simps:
  "task_act g K_Idle g' (K_Claimed i)" "task_act g (K_Claimed i) g' l'" "task_act g (K_Filled i n) g' l'"
  "task_act g (K_Counted i n) g' K_Idle" "task_act g K_Idle g' (K_New i n)" "task_act g (K_New i n) g' l'"
  "task_act g (K_Read i n e) g' l'"

lemmas demo_slot_defs = task_act_simps demo_slot_def upd_task_def TaskSlot_free_def CMSIS_MAX_TASKS_def

lemma demo_reused:
  "interleaved task_act task_start (demo_slot True (Some 1) {0} {} 2 {0}) (demo_pair (K_Filled 0 1) (K_Running 0 (Some 0)))"
proof -
  have t0: "interleaved task_act task_start (demo_slot False None {} {} 0 {}) (demo_pair K_Idle K_Idle)"
    by (rule interleaved.begins) (auto simp: task_start_def demo_slot_def demo_pair_def TaskSlot_free_def)
  have s1: "task_act (demo_slot False None {} {} 0 {}) K_Idle (demo_slot True None {} {} 0 {}) (K_Claimed 0)"
    by (auto simp: demo_slot_defs)
  have s2: "task_act (demo_slot True None {} {} 0 {}) (K_Claimed 0) (demo_slot True (Some 0) {} {} 1 {}) (K_Filled 0 0)"
    by (auto simp: demo_slot_defs)
  have s3: "task_act (demo_slot True (Some 0) {} {} 1 {}) (K_Filled 0 0) (demo_slot True (Some 0) {0} {} 1 {}) (K_Counted 0 0)"
    by (auto simp: demo_slot_defs)
  have s4: "task_act (demo_slot True (Some 0) {0} {} 1 {}) (K_Counted 0 0) (demo_slot True (Some 0) {0} {(0, 0)} 1 {}) K_Idle"
    by (auto simp: demo_slot_defs)
  have s5: "task_act (demo_slot True (Some 0) {0} {(0, 0)} 1 {}) K_Idle (demo_slot True (Some 0) {0} {} 1 {}) (K_New 0 0)"
    by (auto simp: demo_slot_defs)
  have s6: "task_act (demo_slot True (Some 0) {0} {} 1 {}) (K_New 0 0) (demo_slot True (Some 0) {0} {} 1 {}) (K_Read 0 0 (Some 0))"
    by (auto simp: demo_slot_defs)
  have s7: "task_act (demo_slot True (Some 0) {0} {} 1 {}) (K_Read 0 0 (Some 0))
      (demo_slot False (Some 0) {0} {} 1 {0}) (K_Running 0 (Some 0))"
    by (auto simp: demo_slot_defs)
  have s8: "task_act (demo_slot False (Some 0) {0} {} 1 {0}) K_Idle (demo_slot True (Some 0) {0} {} 1 {0}) (K_Claimed 0)"
    by (auto simp: demo_slot_defs)
  have s9: "task_act (demo_slot True (Some 0) {0} {} 1 {0}) (K_Claimed 0) (demo_slot True (Some 1) {0} {} 2 {0}) (K_Filled 0 1)"
    by (auto simp: demo_slot_defs)
  note t4 = demo_pair_go(1) [OF demo_pair_go(1) [OF demo_pair_go(1) [OF demo_pair_go(1) [OF t0 s1] s2] s3] s4]
  note t7 = demo_pair_go(2) [OF demo_pair_go(2) [OF demo_pair_go(2) [OF t4 s5] s6] s7]
  show ?thesis by (rule demo_pair_go(1) [OF demo_pair_go(1) [OF t7 s8] s9])
qed

theorem task_runs_its_entry_witness:
  "interleaved task_act task_start (demo_slot True (Some 1) {0} {} 2 {0}) (demo_pair (K_Filled 0 1) (K_Running 0 (Some 0))) \<and>
   0 \<in> kt_taskCount (demo_slot True (Some 1) {0} {} 2 {0})"
proof -
  have "demo_pair (K_Filled 0 1) (K_Running 0 (Some 0)) 1 = K_Running 0 (Some 0)" by (simp add: demo_pair_def)
  with task_runs_its_entry [OF demo_reused] demo_reused show ?thesis by blast
qed

end
