(* ===== verification/Confinement.thy ===== *)
theory Confinement
  imports Prelude
begin

text \<open>
  Who may touch the calls. The state of the call manager has no locks: it belongs to the task that runs the main loop. The
  locks of the standard headers (\<open>utils/mini/include/ffrt.h\<close>) lock nothing; a test build has them ask whether the task that
  takes one is the loop task, and count the times it is not (\<open>utils/mini/src/ffrt_confined.cpp\<close>). The identity of the loop
  task is kept by \<open>LosEventHandler\<close>. A task is its number; 0 is the number of no task.
\<close>

section \<open>The loop task\<close>

record loop_identity =
  li_loopTaskId :: nat
  li_running :: bool

definition BindLoopTask :: "nat \<Rightarrow> loop_identity \<Rightarrow> loop_identity" where
  "BindLoopTask current h = h\<lparr>li_loopTaskId := current\<rparr>"

definition IsOnLoop :: "nat \<Rightarrow> loop_identity \<Rightarrow> bool" where
  "IsOnLoop current h \<longleftrightarrow> (let loop = li_loopTaskId h in loop \<noteq> 0 \<and> loop = current)"

definition TelMiniIsOnMainLoop :: "nat \<Rightarrow> loop_identity \<Rightarrow> bool" where
  "TelMiniIsOnMainLoop current g_mainLoop = IsOnLoop current g_mainLoop"

definition IsRunning :: "loop_identity \<Rightarrow> bool" where
  "IsRunning h = li_running h"

text \<open>The first and the last act of \<open>RunLoop\<close>.\<close>

definition RunLoop_enters :: "nat \<Rightarrow> loop_identity \<Rightarrow> loop_identity" where
  "RunLoop_enters current h = BindLoopTask current h"

definition RunLoop_leaves :: "loop_identity \<Rightarrow> loop_identity" where
  "RunLoop_leaves h = h\<lparr>li_loopTaskId := 0\<rparr>"

section \<open>Confined access\<close>

text \<open>The check answers for the task that asks; \<open>None\<close> is no check.\<close>

record confinement =
  cn_check :: "(nat \<Rightarrow> bool) option"
  cn_violations :: "32 word"

definition TelMiniSetConfinementCheck :: "(nat \<Rightarrow> bool) option \<Rightarrow> confinement \<Rightarrow> confinement" where
  "TelMiniSetConfinementCheck check c = c\<lparr>cn_check := check\<rparr>"

definition TelMiniConfinementViolations :: "confinement \<Rightarrow> 32 word" where
  "TelMiniConfinementViolations c = cn_violations c"

definition TelMiniNoteConfinedAccess :: "nat \<Rightarrow> confinement \<Rightarrow> confinement" where
  "TelMiniNoteConfinedAccess current c =
    (case cn_check c of None \<Rightarrow> c
     | Some check \<Rightarrow> if \<not> check current then c\<lparr>cn_violations := cn_violations c + 1\<rparr> else c)"

text \<open>The three kinds of locks; \<open>unlock\<close> does nothing.\<close>

datatype lock_op = Lock | TryLock | Unlock | LockShared | TryLockShared | UnlockShared

definition mutex_lock :: "nat \<Rightarrow> confinement \<Rightarrow> confinement" where
  "mutex_lock current c = TelMiniNoteConfinedAccess current c"

definition mutex_try_lock :: "nat \<Rightarrow> confinement \<Rightarrow> bool \<times> confinement" where
  "mutex_try_lock current c = (True, mutex_lock current c)"

definition shared_mutex_lock_shared :: "nat \<Rightarrow> confinement \<Rightarrow> confinement" where
  "shared_mutex_lock_shared current c = TelMiniNoteConfinedAccess current c"

definition shared_mutex_try_lock_shared :: "nat \<Rightarrow> confinement \<Rightarrow> bool \<times> confinement" where
  "shared_mutex_try_lock_shared current c = (True, shared_mutex_lock_shared current c)"

fun lock_do :: "lock_op \<Rightarrow> nat \<Rightarrow> confinement \<Rightarrow> confinement" where
  "lock_do Lock current c = mutex_lock current c"
| "lock_do TryLock current c = snd (mutex_try_lock current c)"
| "lock_do Unlock current c = c"
| "lock_do LockShared current c = shared_mutex_lock_shared current c"
| "lock_do TryLockShared current c = snd (shared_mutex_try_lock_shared current c)"
| "lock_do UnlockShared current c = c"

text \<open>A condition variable never waits.\<close>

datatype cv_status = CV_no_timeout | CV_timeout

definition condition_wait_for :: cv_status where
  "condition_wait_for = CV_timeout"

definition condition_wait_for_pred :: "(unit \<Rightarrow> bool) \<Rightarrow> bool" where
  "condition_wait_for_pred pred = pred ()"

section \<open>What the count says\<close>

fun takes :: "lock_op \<Rightarrow> bool" where
  "takes Unlock = False"
| "takes UnlockShared = False"
| "takes _ = True"

definition run_locks :: "(nat \<times> lock_op) list \<Rightarrow> confinement \<Rightarrow> confinement" where
  "run_locks = fold (\<lambda>(current, operation). lock_do operation current)"

lemma lock_do_check [simp]: "cn_check (lock_do operation current c) = cn_check c"
  by (cases operation)
    (simp_all add: mutex_lock_def mutex_try_lock_def shared_mutex_lock_shared_def shared_mutex_try_lock_shared_def
      TelMiniNoteConfinedAccess_def split: option.split)

lemma lock_do_counts:
  "cn_check c = Some check \<Longrightarrow>
    cn_violations (lock_do operation current c) = cn_violations c + of_bool (takes operation \<and> \<not> check current)"
  by (cases operation)
    (simp_all add: mutex_lock_def mutex_try_lock_def shared_mutex_lock_shared_def shared_mutex_try_lock_shared_def
      TelMiniNoteConfinedAccess_def)

text \<open>With the check of the main loop installed, the count grows by exactly the locks that tasks other than the loop task
  took, whatever was locked how and in whatever order, modulo the width of the counter; while no task runs the loop, by
  all of them.\<close>
theorem violations_counted:
  assumes "cn_check c = Some (\<lambda>current. TelMiniIsOnMainLoop current h)"
  shows "TelMiniConfinementViolations (run_locks ops c) = TelMiniConfinementViolations c +
    of_nat (length (filter (\<lambda>(current, operation). takes operation \<and> (current \<noteq> li_loopTaskId h \<or> li_loopTaskId h = 0)) ops))"
  using assms
proof (induction ops arbitrary: c)
  case (Cons a ops)
  obtain current operation where a: "a = (current, operation)" by fastforce
  show ?case
    using Cons.IH [of "lock_do operation current c"] Cons.prems lock_do_counts [OF Cons.prems, of operation current]
    by (auto simp: a run_locks_def TelMiniConfinementViolations_def TelMiniIsOnMainLoop_def IsOnLoop_def Let_def)
qed (simp add: run_locks_def)

theorem violations_counted_witness:
  "let c = TelMiniSetConfinementCheck (Some (\<lambda>current. TelMiniIsOnMainLoop current (RunLoop_enters 7 \<lparr>li_loopTaskId = 0, li_running = True\<rparr>)))
       \<lparr>cn_check = None, cn_violations = 0\<rparr>
   in TelMiniConfinementViolations (run_locks [(7, Lock), (8, TryLock), (8, Unlock), (7, Unlock), (9, LockShared)] c) = 2"
  using violations_counted [of "TelMiniSetConfinementCheck (Some (\<lambda>current. TelMiniIsOnMainLoop current
       (RunLoop_enters 7 \<lparr>li_loopTaskId = 0, li_running = True\<rparr>))) \<lparr>cn_check = None, cn_violations = 0\<rparr>"
      "RunLoop_enters 7 \<lparr>li_loopTaskId = 0, li_running = True\<rparr>"]
  by (simp add: TelMiniSetConfinementCheck_def RunLoop_enters_def BindLoopTask_def TelMiniConfinementViolations_def)

end
