(* ===== verification/Incoming_Properties.thy ===== *)
theory Incoming_Properties
  imports Status_Properties Call_Virtual
begin

text \<open>
  What becomes of a report of an incoming call that is not known yet, \<open>IncomingHandle\<close> of
  \<open>services/call/src/mini/call_status_manager.cpp\<close> with the parts it calls.
\<close>

section \<open>The parts of the handler\<close>

text \<open>The object that is made for a report.\<close>

definition made_for :: "CallDetailInfo \<Rightarrow> int \<Rightarrow> call \<Rightarrow> bool" where
  "made_for info callId c \<longleftrightarrow> cb_callId c = callId \<and> cb_accountNumber c = di_phoneNum info \<and> cc_slotId c = di_accountId info \<and>
     cc_index c = di_index info \<and> cb_callType c = di_callType info \<and> cb_direction c = CALL_DIRECTION_IN \<and> \<not> cc_isEcc c"

lemma made_for_simps [simp]:
  "made_for info i (c\<lparr>cb_callRunningState := r\<rparr>) = made_for info i c" "made_for info i (c\<lparr>cb_callState := t\<rparr>) = made_for info i c"
  "made_for info i (c\<lparr>cb_ringBeginTime := n\<rparr>) = made_for info i c" "made_for info i (c\<lparr>cb_answerType := y\<rparr>) = made_for info i c"
  by (simp_all add: made_for_def)

lemma CreateNewCall_makes:
  assumes "di_callType info = TYPE_CS \<or> di_callType info = TYPE_IMS"
  shows "\<exists>c. run_state (CreateNewCall info CALL_DIRECTION_IN) s =
      (Some (cm_nextAddr s), s\<lparr>cm_callId := wrap32 (cm_callId s + 1), cm_nextAddr := Suc (cm_nextAddr s),
         cm_heap := (cm_heap s)(cm_nextAddr s := c)\<rparr>) \<and>
    made_for info (wrap32 (cm_callId s + 1)) c \<and> cb_callState c = di_state info \<and>
    cb_callRunningState c = CALL_RUNNING_STATE_CREATE"
  using assms
  by (auto simp: CreateNewCall_def PackParaInfo_def GetNewCallId_def CreateNewCallByCallType_def CarrierCall_in_def
    CarrierCall_new_def DialParaInfo_default_def PacMap_empty_def GetIntValue_def Find_def DialScene_cast_def made_for_def)

text \<open>A state that the call has already does not change it.\<close>

lemma UpdateOne_settled:
  assumes "\<And>a. a \<in> set as \<Longrightarrow> cb_callId (cm_heap s a) = i \<Longrightarrow>
    cb_callRunningState (cm_heap s a) \<noteq> CALL_RUNNING_STATE_CREATE \<and> cb_callState (cm_heap s a) = CALL_STATUS_INCOMING"
  shows "run_state (for_each as (\<lambda>a. do { c \<leftarrow> getCall a;
    whenM (cb_callId c = i) (ignore (call_SetTelCallState a CALL_STATUS_INCOMING)) })) s = ((), s)"
  using assms
proof (induction as)
  case (Cons a as)
  have "run_state (ignore (call_SetTelCallState a CALL_STATUS_INCOMING)) s = ((), s)" if "cb_callId (cm_heap s a) = i"
    using Cons.prems [of a] that by (simp add: call_SetTelCallState_def SetTelCallState_def)
  with Cons show ?case by simp
qed simp

text \<open>Telling the observers leaves calls and table alone.\<close>

lemma Notify_frame:
  assumes "cm_listener s \<noteq> None"
  shows "fst (run_state (NotifyCallStateUpdated (Some a) p n) s) \<and>
    same_calls_state s (snd (run_state (NotifyCallStateUpdated (Some a) p n) s))"
proof -
  have "frames (NotifyCallStateUpdated (Some a) p n)" by (intro frame)
  moreover have "fst (run_state (NotifyCallStateUpdated (Some a) p n) s)"
    using assms by (simp add: NotifyCallStateUpdated_def split: prod.split)
  ultimately show ?thesis by (simp add: frames_def)
qed

lemma run_NewCallCreated: "run_state (NotifyNewCallCreated (Some a)) s = (True, s)"
  by (simp add: NotifyNewCallCreated_def Listener_NewCallCreated_def to_observers_def)

lemma ring_order: "c\<lparr>cb_callState := t, cb_callRunningState := r, cb_ringBeginTime := n\<rparr> =
    c\<lparr>cb_callState := t, cb_ringBeginTime := n, cb_callRunningState := r\<rparr>"
  by (cases c) simp

text \<open>A new call of the table starts to ring.\<close>

lemma Finalize_rings:
  assumes listener: "cm_listener s \<noteq> None" and len: "length (cm_callList s) \<le> MINI_MAX_CALL_OBJECTS"
    and new: "cb_callRunningState (cm_heap s a) = CALL_RUNNING_STATE_CREATE"
    and alone: "\<And>b. b \<in> set (cm_callList s) \<Longrightarrow> b \<noteq> a \<Longrightarrow> cb_callId (cm_heap s b) \<noteq> cb_callId (cm_heap s a)"
  shows "case run_state (FinalizeIncomingState (Some a) CALL_STATUS_INCOMING) s of (r, t) \<Rightarrow>
    r = TELEPHONY_SUCCESS \<and> cm_callList t = cm_callList s \<and>
    cm_heap t = (cm_heap s)(a := (cm_heap s a)\<lparr>cb_callState := CALL_STATUS_INCOMING,
      cb_ringBeginTime := cm_now s, cb_callRunningState := CALL_RUNNING_STATE_RINGING\<rparr>)"
proof -
  let ?c = "(cm_heap s a)\<lparr>cb_callState := CALL_STATUS_INCOMING, cb_ringBeginTime := cm_now s,
      cb_callRunningState := CALL_RUNNING_STATE_RINGING\<rparr>"
  let ?s = "s\<lparr>cm_heap := (cm_heap s)(a := ?c)\<rparr>"
  have set: "run_state (call_SetTelCallState a CALL_STATUS_INCOMING) s = (TELEPHONY_SUCCESS, ?s)"
    using new by (simp add: ring_order call_SetTelCallState_def SetTelCallState_def StateChangesToIncoming_def)
  have one: "run_state (UpdateOneCallObjectByCallId (cb_callId (cm_heap s a)) CALL_STATUS_INCOMING) ?s = ((), ?s)"
  proof -
    have "run_state (for_each (cm_callList s) (\<lambda>b. do { c \<leftarrow> getCall b;
        whenM (cb_callId c = cb_callId (cm_heap s a)) (ignore (call_SetTelCallState b CALL_STATUS_INCOMING)) })) ?s = ((), ?s)"
    proof (rule UpdateOne_settled)
      fix b assume b: "b \<in> set (cm_callList s)" "cb_callId (cm_heap ?s b) = cb_callId (cm_heap s a)"
      have "b = a"
      proof (rule ccontr)
        assume "b \<noteq> a"
        with alone [OF b(1)] b(2) show False by simp
      qed
      then show "cb_callRunningState (cm_heap ?s b) \<noteq> CALL_RUNNING_STATE_CREATE \<and> cb_callState (cm_heap ?s b) = CALL_STATUS_INCOMING"
        by simp
    qed
    then show ?thesis by (simp add: UpdateOneCallObjectByCallId_def)
  qed
  obtain b u where n: "run_state (NotifyCallStateUpdated (Some a) (cb_callState (cm_heap s a)) CALL_STATUS_INCOMING) ?s = (b, u)"
    by (metis surj_pair)
  have "cm_listener ?s \<noteq> None" using listener by simp
  from Notify_frame [OF this, of a "cb_callState (cm_heap s a)" CALL_STATUS_INCOMING] have b: "b" and u: "same_calls_state ?s u"
    unfolding n by simp_all
  have update: "run_state (UpdateCallState (Some a) CALL_STATUS_INCOMING) s = (TELEPHONY_SUCCESS, u)"
    unfolding UpdateCallState_def option.case Let_def
    by (simp add: set one n b del: run_onCall)
  have "length (filter P (calls u)) < 30" for P
    using le_less_trans [OF length_filter_le, of "calls u" 30] len u
    by (simp add: calls_def same_calls_state_def MINI_MAX_CALL_OBJECTS_def)
  then have max: "\<not> HasRingingMaximum u" "\<not> HasDialingMaximum u"
    by (simp_all add: HasRingingMaximum_def HasDialingMaximum_def count_calls_def RINGING_CALL_NUMBER_LEN_def
      DIALING_CALL_NUMBER_LEN_def not_le)
  show ?thesis
    using u by (simp add: FinalizeIncomingState_def update FilterResultsDispose_def max IncomingCallBase_def
      run_NewCallCreated same_calls_state_def)
qed

text \<open>A new call that found no place is rejected.\<close>

lemma Reject_new:
  assumes "cb_callRunningState (cm_heap s a) = CALL_RUNNING_STATE_CREATE"
  shows "\<exists>c. made_for info i c = made_for info i (cm_heap s a) \<and>
    (case run_state (HandleRejectCall (Some a) False) s of (r, t) \<Rightarrow>
       cm_heap t = (cm_heap s)(a := c) \<and> cm_callList t = cm_callList s \<and>
       (if e_hasStack (cm_env s) then \<exists>x. named c x \<and> cm_stackOut t = cm_stackOut s @ [SC_HangUp x TYPE_DEFAULT]
        else cm_stackOut t = cm_stackOut s))"
proof -
  let ?c = "snd (RejectCallBase ((cm_heap s a)\<lparr>cb_callState := CALL_STATUS_INCOMING,
      cb_ringBeginTime := cm_now s, cb_callRunningState := CALL_RUNNING_STATE_RINGING\<rparr>))"
  have "made_for info i ?c = made_for info i (cm_heap s a)"
    by (simp add: RejectCallBase_def made_for_def)
  moreover have "named ?c (snd (CarrierCall_PackCellularCallInfo ?c))"
    by (rule named_packed(1))
  ultimately show ?thesis
    using assms
    by (intro exI [of _ ?c]) (auto simp: ring_order HandleRejectCall_def call_SetTelCallState_def SetTelCallState_def
      StateChangesToIncoming_def CarrierRejectCall_def fst_rejected Conn_HangUp_def)
qed

section \<open>The whole report\<close>

definition has_place :: "int \<Rightarrow> cm \<Rightarrow> bool" where
  "has_place callId s \<longleftrightarrow> \<not> IsCallExist callId s \<and>
     length (cm_callList s) < MINI_MAX_CALL_OBJECTS - MINI_ECC_RESERVED_CALL_OBJECTS"

text \<open>The table takes a new call that is not an emergency when its number is free and a place is left.\<close>

lemma Add_new:
  assumes fresh: "\<And>b. b \<in> set (cm_callList s) \<Longrightarrow> b \<noteq> a"
    and made: "made_for info i c" and new: "cb_callRunningState c = CALL_RUNNING_STATE_CREATE" "cb_callState c \<noteq> CALL_STATUS_DIALING"
    and heap: "cm_heap s a = c"
  shows "if has_place i s then run_state (AddOneCallObject (Some a)) s = (TELEPHONY_SUCCESS, s\<lparr>cm_callList := cm_callList s @ [a]\<rparr>)
    else fst (run_state (AddOneCallObject (Some a)) s) \<noteq> TELEPHONY_SUCCESS \<and> snd (run_state (AddOneCallObject (Some a)) s) = s"
proof -
  have "table_limit c = MINI_MAX_CALL_OBJECTS - MINI_ECC_RESERVED_CALL_OBJECTS"
    using made by (simp add: table_limit_def made_for_def GetEmergencyState_def)
  moreover have "cb_callId c = i" using made by (simp add: made_for_def)
  moreover have "(\<exists>c \<in> set (calls s). cb_callId c = i) = IsCallExist i s"
    by (auto simp: IsCallExist_def any_call_def list_ex_iff)
  ultimately show ?thesis
    using new heap by (cases "cm_callList s") (auto simp: AddOneCallObject_def has_place_def calls_def not_le)
qed

lemma IncomingHandle_unknown:
  assumes "GetOneCallObjectByIndexSlotIdAndCallType (di_index info) (di_accountId info) (di_callType info) (di_phoneIndex info) s = None"
    and "GetOneCallObjectByIndex INIT_INDEX s = None" and state: "di_state info = CALL_STATUS_INCOMING"
  shows "run_state (IncomingHandle info) s = run_state (do {
      created \<leftarrow> CreateNewCall info CALL_DIRECTION_IN;
      if created = None then ret CALL_ERR_CALL_OBJECT_IS_NULL
      else do {
        r \<leftarrow> AddOneCallObject created;
        if r \<noteq> TELEPHONY_SUCCESS then do { ignore (HandleRejectCall created False); ret r }
        else do { ignore (NotifyNewCallCreated created); FinalizeIncomingState created CALL_STATUS_INCOMING }
      } }) s"
  unfolding IncomingHandle_def state
  using assms by (simp add: PrepareIncomingCall_def RefreshOldCall_def reported_call_def)

text \<open>An object is made and the table is asked; it has the same calls in between.\<close>

abbreviation "with_new info i c s \<equiv> s\<lparr>cm_status := map_option (\<lambda>st. st\<lparr>st_callReportInfo := info\<rparr>) (cm_status s),
  cm_callId := i, cm_nextAddr := Suc (cm_nextAddr s), cm_heap := (cm_heap s)(cm_nextAddr s := c)\<rparr>"

lemma unknown_run:
  assumes fresh: "\<And>b. b \<in> set (cm_callList s) \<Longrightarrow> b \<noteq> cm_nextAddr s"
    and state: "di_state info = CALL_STATUS_INCOMING" and type: "di_callType info = TYPE_CS \<or> di_callType info = TYPE_IMS"
    and unknown: "GetOneCallObjectByIndexSlotIdAndCallType (di_index info) (di_accountId info) (di_callType info) (di_phoneIndex info) s = None"
      "GetOneCallObjectByIndex INIT_INDEX s = None"
    and i: "i = wrap32 (cm_callId s + 1)"
  obtains c where "made_for info i c" "cb_callRunningState c = CALL_RUNNING_STATE_CREATE"
    and "run_state (HandleCallReportInfo info) s = run_state (do {
        r \<leftarrow> AddOneCallObject (Some (cm_nextAddr s));
        if r \<noteq> TELEPHONY_SUCCESS then do { ignore (HandleRejectCall (Some (cm_nextAddr s)) False); ret r }
        else do { ignore (NotifyNewCallCreated (Some (cm_nextAddr s)));
          FinalizeIncomingState (Some (cm_nextAddr s)) CALL_STATUS_INCOMING } }) (with_new info i c s)"
    and "if has_place i s then run_state (AddOneCallObject (Some (cm_nextAddr s))) (with_new info i c s) =
          (TELEPHONY_SUCCESS, (with_new info i c s)\<lparr>cm_callList := cm_callList s @ [cm_nextAddr s]\<rparr>)
      else fst (run_state (AddOneCallObject (Some (cm_nextAddr s))) (with_new info i c s)) \<noteq> TELEPHONY_SUCCESS \<and>
        snd (run_state (AddOneCallObject (Some (cm_nextAddr s))) (with_new info i c s)) = with_new info i c s"
proof -
  let ?s = "s\<lparr>cm_status := map_option (\<lambda>st. st\<lparr>st_callReportInfo := info\<rparr>) (cm_status s)\<rparr>"
  obtain c where made: "made_for info i c" and new: "cb_callRunningState c = CALL_RUNNING_STATE_CREATE" "cb_callState c = CALL_STATUS_INCOMING"
    and create: "run_state (CreateNewCall info CALL_DIRECTION_IN) ?s = (Some (cm_nextAddr s), with_new info i c s)"
    using CreateNewCall_makes [OF type, of ?s] state i by auto
  have "calls (with_new info i c s) = calls s" using fresh by (auto simp: calls_def)
  then have "has_place i (with_new info i c s) = has_place i s" by (simp add: has_place_def IsCallExist_def any_call_def)
  moreover have "run_state (HandleCallReportInfo info) s = run_state (IncomingHandle info) ?s"
    by (simp add: HandleCallReportInfo_def onStatus_def state)
  moreover note IncomingHandle_unknown [of info ?s]
  ultimately show ?thesis
    using that [OF made new(1)] Add_new [of "with_new info i c s" "cm_nextAddr s" info i c] fresh made new create state unknown
    by (simp add: lookup_defs first_call_def calls_def)
qed

text \<open>The two ends: the call stands in the table and rings, or it is rejected.\<close>

lemma placed_rings:
  assumes place: "has_place i s" and made: "made_for info i c" and new: "cb_callRunningState c = CALL_RUNNING_STATE_CREATE"
    and fresh: "\<And>b. b \<in> set (cm_callList s) \<Longrightarrow> b \<noteq> cm_nextAddr s" and listener: "cm_listener s \<noteq> None"
    and u: "u = (with_new info i c s)\<lparr>cm_callList := cm_callList s @ [cm_nextAddr s]\<rparr>"
  shows "case run_state (FinalizeIncomingState (Some (cm_nextAddr s)) CALL_STATUS_INCOMING) u of (r, t) \<Rightarrow>
    r = TELEPHONY_SUCCESS \<and> cm_callList t = cm_callList s @ [cm_nextAddr s] \<and>
    cm_heap t = (cm_heap s)(cm_nextAddr s := c\<lparr>cb_callState := CALL_STATUS_INCOMING,
      cb_ringBeginTime := cm_now s, cb_callRunningState := CALL_RUNNING_STATE_RINGING\<rparr>)"
proof -
  have "cb_callId (cm_heap u b) \<noteq> cb_callId (cm_heap u (cm_nextAddr s))" if "b \<in> set (cm_callList u)" "b \<noteq> cm_nextAddr s" for b
    using place that made u by (auto simp: has_place_def IsCallExist_def any_call_def list_ex_iff calls_def made_for_def)
  moreover have "length (cm_callList u) \<le> MINI_MAX_CALL_OBJECTS"
    using place u by (simp add: has_place_def MINI_MAX_CALL_OBJECTS_def MINI_ECC_RESERVED_CALL_OBJECTS_def)
  ultimately show ?thesis
    using Finalize_rings [of u "cm_nextAddr s"] listener new u by simp
qed

text \<open>C5. A report of an incoming call that the table does not know yet, in any state the system can reach with a
  listener: one object is made for it, under the next call number, and no other object changes. If the number is
  free and one of the places for ordinary calls is left, the report succeeds and the call stands at the end of
  the table, incoming and ringing. Otherwise the report fails, the table is as it was, and the stack, if there is
  one, is told exactly one thing: to hang this call up.\<close>
theorem incoming_call_enters:
  assumes "cm_reach e k s" and "cm_listener s \<noteq> None"
    and "di_state info = CALL_STATUS_INCOMING" and "di_callType info = TYPE_CS \<or> di_callType info = TYPE_IMS"
    and "GetOneCallObjectByIndexSlotIdAndCallType (di_index info) (di_accountId info) (di_callType info) (di_phoneIndex info) s = None"
    and "GetOneCallObjectByIndex INIT_INDEX s = None"
  shows "case run_state (HandleCallReportInfo info) s of (r, t) \<Rightarrow>
    (let a = cm_nextAddr s; i = wrap32 (cm_callId s + 1); c = cm_heap t a in
     made_for info i c \<and> cm_heap t = (cm_heap s)(a := c) \<and>
     (if has_place i s
      then r = TELEPHONY_SUCCESS \<and> cm_callList t = cm_callList s @ [a] \<and>
        cb_callState c = CALL_STATUS_INCOMING \<and> cb_callRunningState c = CALL_RUNNING_STATE_RINGING
      else r \<noteq> TELEPHONY_SUCCESS \<and> cm_callList t = cm_callList s \<and>
        (if e_hasStack (cm_env s) then \<exists>x. named c x \<and> cm_stackOut t = cm_stackOut s @ [SC_HangUp x TYPE_DEFAULT]
         else cm_stackOut t = cm_stackOut s)))"
proof -
  let ?a = "cm_nextAddr s" and ?i = "wrap32 (cm_callId s + 1)"
  have fresh: "b \<noteq> ?a" if "b \<in> set (cm_callList s)" for b using reach_inv [OF assms(1)] that by (auto simp: inv_def)
  obtain c where made: "made_for info ?i c"
    and new: "cb_callRunningState c = CALL_RUNNING_STATE_CREATE"
    and run: "run_state (HandleCallReportInfo info) s = run_state (do {
        r \<leftarrow> AddOneCallObject (Some ?a);
        if r \<noteq> TELEPHONY_SUCCESS then do { ignore (HandleRejectCall (Some ?a) False); ret r }
        else do { ignore (NotifyNewCallCreated (Some ?a)); FinalizeIncomingState (Some ?a) CALL_STATUS_INCOMING } }) (with_new info ?i c s)"
    and add: "if has_place ?i s then run_state (AddOneCallObject (Some ?a)) (with_new info ?i c s) =
          (TELEPHONY_SUCCESS, (with_new info ?i c s)\<lparr>cm_callList := cm_callList s @ [?a]\<rparr>)
      else fst (run_state (AddOneCallObject (Some ?a)) (with_new info ?i c s)) \<noteq> TELEPHONY_SUCCESS \<and>
        snd (run_state (AddOneCallObject (Some ?a)) (with_new info ?i c s)) = with_new info ?i c s"
    by (rule unknown_run [OF fresh assms(3-6) refl]) blast+
  show ?thesis
  proof (cases "has_place ?i s")
    case True
    with placed_rings [OF True made new fresh assms(2) refl] made add show ?thesis
      by (auto simp: Let_def run run_NewCallCreated)
  next
    case False
    obtain r where r: "run_state (AddOneCallObject (Some ?a)) (with_new info ?i c s) = (r, with_new info ?i c s)" "r \<noteq> TELEPHONY_SUCCESS"
      using False add by (metis prod.collapse)
    obtain r' v where v: "run_state (HandleRejectCall (Some ?a) False) (with_new info ?i c s) = (r', v)" by (metis surj_pair)
    have "run_state (HandleCallReportInfo info) s = (r, v)" using r v by (simp add: run)
    moreover have "cb_callRunningState (cm_heap (with_new info ?i c s) ?a) = CALL_RUNNING_STATE_CREATE" using new by simp
    from Reject_new [OF this, of info ?i] v made obtain d where "made_for info ?i d"
      "cm_heap v = (cm_heap s)(?a := d)" "cm_callList v = cm_callList s"
      "if e_hasStack (cm_env s) then \<exists>x. named d x \<and> cm_stackOut v = cm_stackOut s @ [SC_HangUp x TYPE_DEFAULT]
        else cm_stackOut v = cm_stackOut s"
      by (auto split: if_splits)
    ultimately show ?thesis using False r(2) by simp
  qed
qed

lemma demo_ringing_next: "cm_callId demo_ringing = 1" "cm_nextAddr demo_ringing = 1" "cm_listener demo_ringing \<noteq> None"
  by (simp_all add: exec demo_ringing_def cong: exec_cong)

theorem incoming_call_enters_witness:
  "case run_state (HandleCallReportInfo (single_detail (demo_report 2 CALL_STATUS_INCOMING))) demo_ringing of (r, t) \<Rightarrow>
     r = TELEPHONY_SUCCESS \<and> cm_callList t = [0, 1] \<and> cb_callState (cm_heap t 1) = CALL_STATUS_INCOMING \<and>
     cb_callRunningState (cm_heap t 1) = CALL_RUNNING_STATE_RINGING"
proof -
  let ?info = "single_detail (demo_report 2 CALL_STATUS_INCOMING)"
  have "has_place 2 demo_ringing"
    by (simp add: has_place_def IsCallExist_def any_call_def calls_def MINI_MAX_CALL_OBJECTS_def MINI_ECC_RESERVED_CALL_OBJECTS_def)
  moreover have "wrap32 (cm_callId demo_ringing + 1) = 2" "cm_callList demo_ringing = [0]"
    by (simp_all add: wrap32_def demo_ringing_next)
  moreover have "case run_state (HandleCallReportInfo ?info) demo_ringing of (r, t) \<Rightarrow>
    (let a = cm_nextAddr demo_ringing; i = wrap32 (cm_callId demo_ringing + 1); c = cm_heap t a in
     made_for ?info i c \<and> cm_heap t = (cm_heap demo_ringing)(a := c) \<and>
     (if has_place i demo_ringing
      then r = TELEPHONY_SUCCESS \<and> cm_callList t = cm_callList demo_ringing @ [a] \<and>
        cb_callState c = CALL_STATUS_INCOMING \<and> cb_callRunningState c = CALL_RUNNING_STATE_RINGING
      else r \<noteq> TELEPHONY_SUCCESS \<and> cm_callList t = cm_callList demo_ringing \<and>
        (if e_hasStack (cm_env demo_ringing)
         then \<exists>x. named c x \<and> cm_stackOut t = cm_stackOut demo_ringing @ [SC_HangUp x TYPE_DEFAULT]
         else cm_stackOut t = cm_stackOut demo_ringing)))"
    by (rule incoming_call_enters [OF demo_states_reachable(2)])
      (simp_all add: INIT_INDEX_def demo_ringing_next(3) single_detail_def demo_report_def lookup_defs first_call_def calls_def)
  ultimately show ?thesis by (simp add: demo_ringing_next(2) Let_def case_prod_beta del: One_nat_def)
qed

end
