(* ===== verification/Securec.thy ===== *)
theory Securec
  imports Uplink Call_Control Error_Codes
begin

text \<open>
  The bounded memory functions, \<open>test/mini/stub/securec.h\<close>: what the host build links in the place of the library of the
  product. Memory is a function from addresses to bytes, address 0 is the null pointer. The other theories know the
  character arrays of the interface as strings; the last section shows that the arrays hold those strings.
\<close>

section \<open>Memory\<close>

type_synonym addr = nat
type_synonym memory = "addr \<Rightarrow> char"

abbreviation "NUL \<equiv> CHR 0x00"

text \<open>\<open>std::memset\<close>, and \<open>std::memcpy\<close>, which is \<open>std::memmove\<close> where the two parts are apart.\<close>

definition set_bytes :: "addr \<Rightarrow> char \<Rightarrow> nat \<Rightarrow> memory \<Rightarrow> memory" where
  "set_bytes d c n m = (\<lambda>a. if d \<le> a \<and> a < d + n then c else m a)"

definition move_bytes :: "addr \<Rightarrow> addr \<Rightarrow> nat \<Rightarrow> memory \<Rightarrow> memory" where
  "move_bytes d s n m = (\<lambda>a. if d \<le> a \<and> a < d + n then m (s + (a - d)) else m a)"

definition put_bytes :: "addr \<Rightarrow> string \<Rightarrow> memory \<Rightarrow> memory" where
  "put_bytes d xs m = (\<lambda>a. if d \<le> a \<and> a < d + length xs then xs ! (a - d) else m a)"

text \<open>\<open>std::strlen\<close> does not end on a string without a terminator.\<close>

partial_function (option) strlen :: "memory \<Rightarrow> addr \<Rightarrow> nat option" where
  "strlen m s = (if m s = NUL then Some 0 else Option.bind (strlen m (s + 1)) (\<lambda>n. Some (Suc n)))"

section \<open>The functions\<close>

definition EOK :: int where "EOK = 0"
definition EINVAL :: int where "EINVAL = 22"
definition ERANGE :: int where "ERANGE = 34"
definition EINVAL_AND_RESET :: int where "EINVAL_AND_RESET = 150"
definition ERANGE_AND_RESET :: int where "ERANGE_AND_RESET = 162"
definition EOVERLAP_AND_RESET :: int where "EOVERLAP_AND_RESET = 182"

definition memset_s :: "addr \<Rightarrow> nat \<Rightarrow> int \<Rightarrow> nat \<Rightarrow> memory \<Rightarrow> int \<times> memory" where
  "memset_s dest destMax c count m =
    (if dest = 0 then (EINVAL, m)
     else if destMax = 0 then (ERANGE, m)
     else if destMax < count then (ERANGE_AND_RESET, set_bytes dest (char_of (c mod 256)) destMax m)
     else (EOK, set_bytes dest (char_of (c mod 256)) count m))"

definition memcpy_s :: "addr \<Rightarrow> nat \<Rightarrow> addr \<Rightarrow> nat \<Rightarrow> memory \<Rightarrow> int \<times> memory" where
  "memcpy_s dest destMax src count m =
    (if dest = 0 then (EINVAL, m)
     else if destMax = 0 then (ERANGE, m)
     else if src = 0 then (EINVAL_AND_RESET, set_bytes dest NUL destMax m)
     else if destMax < count then (ERANGE_AND_RESET, set_bytes dest NUL destMax m)
     else if 0 < count \<and> dest < src + count \<and> src < dest + count
     then (EOVERLAP_AND_RESET, set_bytes dest NUL destMax m)
     else (EOK, move_bytes dest src count m))"

definition memmove_s :: "addr \<Rightarrow> nat \<Rightarrow> addr \<Rightarrow> nat \<Rightarrow> memory \<Rightarrow> int \<times> memory" where
  "memmove_s dest destMax src count m =
    (if dest = 0 then (EINVAL, m)
     else if destMax = 0 then (ERANGE, m)
     else if src = 0 then (EINVAL_AND_RESET, set_bytes dest NUL destMax m)
     else if destMax < count then (ERANGE_AND_RESET, set_bytes dest NUL destMax m)
     else (EOK, move_bytes dest src count m))"

text \<open>No result when the length of the source is never found.\<close>

definition strcpy_s :: "addr \<Rightarrow> nat \<Rightarrow> addr \<Rightarrow> memory \<Rightarrow> (int \<times> memory) option" where
  "strcpy_s strDest destMax strSrc m =
    (if strDest = 0 then Some (EINVAL, m)
     else if destMax = 0 then Some (ERANGE, m)
     else if strSrc = 0 then Some (EINVAL_AND_RESET, m(strDest := NUL))
     else case strlen m strSrc of
       None \<Rightarrow> None
     | Some len \<Rightarrow>
         if destMax \<le> len then Some (ERANGE_AND_RESET, m(strDest := NUL))
         else Some (EOK, move_bytes strDest strSrc (len + 1) m))"

function strncpy_s_loop :: "memory \<Rightarrow> addr \<Rightarrow> nat \<Rightarrow> nat \<Rightarrow> nat" where
  "strncpy_s_loop m strSrc count len =
    (if len < count \<and> m (strSrc + len) \<noteq> NUL then strncpy_s_loop m strSrc count (len + 1) else len)"
  by pat_completeness auto
termination by (relation "measure (\<lambda>(m, strSrc, count, len). count - len)") auto

declare strncpy_s_loop.simps [simp del]

definition strncpy_s :: "addr \<Rightarrow> nat \<Rightarrow> addr \<Rightarrow> nat \<Rightarrow> memory \<Rightarrow> int \<times> memory" where
  "strncpy_s strDest destMax strSrc count m =
    (if strDest = 0 then (EINVAL, m)
     else if destMax = 0 then (ERANGE, m)
     else if strSrc = 0 then (EINVAL_AND_RESET, m(strDest := NUL))
     else let len = strncpy_s_loop m strSrc count 0 in
       if destMax \<le> len then (ERANGE_AND_RESET, m(strDest := NUL))
       else (EOK, (move_bytes strDest strSrc len m)(strDest + len := NUL)))"

text \<open>
  \<open>text\<close> is what the arguments make of the format, on the left when \<open>std::vsnprintf\<close> reports an error, then as far as it
  came. It writes as much as fits before a terminator and answers the whole length.
\<close>

definition vsnprintf :: "addr \<Rightarrow> nat \<Rightarrow> string + string \<Rightarrow> memory \<Rightarrow> int \<times> memory" where
  "vsnprintf d limit text m =
    (case text of
       Inl t \<Rightarrow> (- 1, put_bytes d (take limit t) m)
     | Inr t \<Rightarrow> (int (length t), if limit = 0 then m else put_bytes d (take (limit - 1) t @ [NUL]) m))"

definition snprintf_s :: "addr \<Rightarrow> nat \<Rightarrow> nat \<Rightarrow> addr \<Rightarrow> string + string \<Rightarrow> memory \<Rightarrow> int \<times> memory" where
  "snprintf_s strDest destMax count format text m =
    (if strDest = 0 \<or> format = 0 \<or> destMax = 0 then (- 1, m)
     else let limit = (if count < destMax then count + 1 else destMax);
         (r, m) = vsnprintf strDest limit text m in
       if r < 0 then (- 1, m(strDest := NUL))
       else if int limit \<le> r then (- 1, if destMax \<le> count then m(strDest := NUL) else m)
       else (r, m))"

section \<open>What they leave alone\<close>

text \<open>Every byte that changes lies in the \<open>n\<close> bytes at \<open>d\<close>.\<close>

definition only_within :: "addr \<Rightarrow> nat \<Rightarrow> memory \<Rightarrow> memory \<Rightarrow> bool" where
  "only_within d n m m' \<longleftrightarrow> {a. m' a \<noteq> m a} \<subseteq> (if d = 0 then {} else {d..<d + n})"

lemma within_refl [simp, intro]: "only_within d n m m"
  by (simp add: only_within_def)

lemma within_bytes:
  "d \<noteq> 0 \<Longrightarrow> k \<le> n \<Longrightarrow> only_within d n m (set_bytes d c k m)"
  "d \<noteq> 0 \<Longrightarrow> k \<le> n \<Longrightarrow> only_within d n m (move_bytes d s k m)"
  "d \<noteq> 0 \<Longrightarrow> length xs \<le> n \<Longrightarrow> only_within d n m (put_bytes d xs m)"
  by (auto simp: only_within_def set_bytes_def move_bytes_def put_bytes_def split: if_splits)

lemma within_upd: "only_within d n m m' \<Longrightarrow> d \<noteq> 0 \<Longrightarrow> k < n \<Longrightarrow> only_within d n m (m'(d + k := c))"
  by (auto simp: only_within_def split: if_splits)

lemmas within_first = within_upd [where k = 0, simplified]

lemma within_snprintf: "only_within strDest destMax m (snd (snprintf_s strDest destMax count format text m))"
  by (auto simp: snprintf_s_def vsnprintf_def Let_def split: sum.split intro!: within_first within_bytes)

lemma strcpy_s_cases: "strcpy_s d n s m = Some (r, m') \<Longrightarrow> only_within d n m m'"
  by (auto simp: strcpy_s_def split: if_splits option.splits intro!: within_first within_bytes)

text \<open>C25. No bounded function changes a byte outside of the destination it was given, whatever its arguments: the lengths and
  addresses may be wrong, the parts may overlap, the source may have no terminator, a pointer may be null.\<close>
theorem securec_stays_inside:
  "only_within d n m (snd (memset_s d n c k m)) \<and> only_within d n m (snd (memcpy_s d n s k m)) \<and>
   only_within d n m (snd (memmove_s d n s k m)) \<and> only_within d n m (snd (strncpy_s d n s k m)) \<and>
   only_within d n m (snd (snprintf_s d n k s text m)) \<and> only_within d n m (case_option m snd (strcpy_s d n s m))"
proof -
  have "only_within d n m (case_option m snd (strcpy_s d n s m))"
    by (auto split: option.split dest: strcpy_s_cases)
  then show ?thesis
    using within_snprintf by (auto simp: memset_s_def memcpy_s_def memmove_s_def strncpy_s_def Let_def
      intro!: within_first within_bytes within_upd)
qed

section \<open>What they write\<close>

text \<open>\<open>xs\<close> stands at \<open>d\<close>; \<open>C_string\<close>: with a terminator behind it.\<close>

definition bytes_at :: "memory \<Rightarrow> addr \<Rightarrow> nat \<Rightarrow> string" where
  "bytes_at m d n = map (\<lambda>i. m (d + i)) [0..<n]"

text \<open>What a reader finds in an array of \<open>n\<close> characters: the characters before the first terminator.\<close>

definition read_field :: "memory \<Rightarrow> addr \<Rightarrow> nat \<Rightarrow> string" where
  "read_field m d n = takeWhile (\<lambda>c. c \<noteq> NUL) (bytes_at m d n)"

lemma bytes_at_length [simp]: "length (bytes_at m d n) = n"
  by (simp add: bytes_at_def)

lemma bytes_at_nth [simp]: "i < n \<Longrightarrow> bytes_at m d n ! i = m (d + i)"
  by (simp add: bytes_at_def)

lemma bytes_at_move: "k \<le> n \<Longrightarrow> bytes_at (move_bytes d s k m) d n = bytes_at m s k @ bytes_at m (d + k) (n - k)"
  by (rule nth_equalityI) (auto simp: nth_append move_bytes_def)

lemma bytes_at_set: "k \<le> n \<Longrightarrow> bytes_at (set_bytes d c k m) d n = replicate k c @ bytes_at m (d + k) (n - k)"
  by (rule nth_equalityI) (auto simp: nth_append set_bytes_def)

lemma bytes_at_mem: "c \<in> set (bytes_at m d n) \<longleftrightarrow> (\<exists>i < n. c = m (d + i))"
  by (auto simp: bytes_at_def)

lemma bytes_at_cong: "(\<And>i. i < n \<Longrightarrow> m (d + i) = m' (d + i)) \<Longrightarrow> bytes_at m d n = bytes_at m' d n"
  by (simp add: bytes_at_def)

lemma strncpy_len: "strncpy_s_loop m s count len \<le> max len count"
  by (induction m s count len rule: strncpy_s_loop.induct) (subst strncpy_s_loop.simps, auto)

text \<open>The loop finds the characters before the terminator, at most \<open>count\<close>.\<close>

lemma strncpy_loop: "len \<le> count \<Longrightarrow>
    strncpy_s_loop m s count len = len + length (takeWhile (\<lambda>c. c \<noteq> NUL) (bytes_at m (s + len) (count - len)))"
proof (induction m s count len rule: strncpy_s_loop.induct)
  case (1 m s count len)
  have step: "bytes_at m (s + len) (count - len) = m (s + len) # bytes_at m (s + Suc len) (count - Suc len)" if "len < count"
    using that by (intro nth_equalityI) (auto simp: nth_Cons split: nat.split)
  show ?case
  proof (cases "len < count \<and> m (s + len) \<noteq> NUL")
    case True
    with 1 have "strncpy_s_loop m s count (len + 1) =
        len + 1 + length (takeWhile (\<lambda>c. c \<noteq> NUL) (bytes_at m (s + (len + 1)) (count - (len + 1))))" by simp
    with True step show ?thesis by (subst strncpy_s_loop.simps) simp
  next
    case False
    then have "takeWhile (\<lambda>c. c \<noteq> NUL) (bytes_at m (s + len) (count - len)) = []"
      using step by (cases "len < count") (auto simp: bytes_at_def)
    with False show ?thesis by (subst strncpy_s_loop.simps) auto
  qed
qed

lemma strlen_read: "m (s + n) = NUL \<Longrightarrow> strlen m s = Some (length (read_field m s (Suc n)))"
proof (induction n arbitrary: s)
  case 0
  then show ?case by (subst strlen.simps) (simp add: read_field_def bytes_at_def)
next
  case (Suc n)
  have "bytes_at m s (Suc (Suc n)) = m s # bytes_at m (s + 1) (Suc n)"
    by (intro nth_equalityI) (auto simp: nth_Cons split: nat.split)
  with Suc show ?case by (subst strlen.simps) (simp add: read_field_def)
qed

lemma bytes_at_append: "bytes_at m d (j + k) = bytes_at m d j @ bytes_at m (d + j) k"
  by (induction k) (simp_all add: bytes_at_def add.assoc)

lemma bytes_at_Suc: "bytes_at m d (Suc k) = m d # bytes_at m (Suc d) k"
  using bytes_at_append [of m d 1 k] by (simp add: bytes_at_def)

lemma takeWhile_stop: "m (d + k) = NUL \<Longrightarrow> k < n \<Longrightarrow>
    read_field m d n = takeWhile (\<lambda>c. c \<noteq> NUL) (bytes_at m d k)"
proof -
  assume k: "m (d + k) = NUL" "k < n"
  then have "bytes_at m d n = (bytes_at m d k @ [NUL]) @ bytes_at m (d + Suc k) (n - Suc k)"
    using bytes_at_append [of m d k "Suc (n - Suc k)"] bytes_at_Suc [of m "d + k" "n - Suc k"] by simp
  then show ?thesis by (simp add: read_field_def takeWhile_tail)
qed

lemma bytes_at_upd: "k < n \<Longrightarrow> bytes_at (m(d + k := c)) d n = (bytes_at m d n)[k := c]"
  by (intro nth_equalityI) (auto simp: nth_list_update)

lemma ends_at: "k < n \<Longrightarrow> m (d + k) = NUL \<Longrightarrow> NUL \<in> set (bytes_at m d n)"
  by (auto simp: bytes_at_mem)

lemma reset_field: "0 < n \<Longrightarrow> read_field (m(d := NUL)) d n = []" "0 < n \<Longrightarrow> NUL \<in> set (bytes_at (m(d := NUL)) d n)"
  using takeWhile_stop [of "m(d := NUL)" d 0 n] ends_at [of 0 n "m(d := NUL)" d] by (simp_all add: bytes_at_def)

lemma length_read_field: "length (read_field m s k) \<le> k"
  by (simp add: read_field_def order_trans [OF length_takeWhile_le])

lemma read_field_nth: "i < length (read_field m s k) \<Longrightarrow> m (s + i) = read_field m s k ! i"
  using length_read_field [of m s k] by (simp add: read_field_def takeWhile_nth)

lemma read_field_no_NUL: "c \<in> set (read_field m s k) \<Longrightarrow> c \<noteq> NUL"
  by (auto simp: read_field_def dest: set_takeWhileD)

lemma copied_string:
  assumes "m' (d + length (read_field m s k)) = NUL" "length (read_field m s k) < n"
    and "\<And>i. i < length (read_field m s k) \<Longrightarrow> m' (d + i) = m (s + i)"
  shows "read_field m' d n = read_field m s k" "NUL \<in> set (bytes_at m' d n)"
proof -
  have "bytes_at m' d (length (read_field m s k)) = read_field m s k"
    using assms(3) by (intro nth_equalityI) (simp_all add: read_field_nth)
  then show "read_field m' d n = read_field m s k"
    using takeWhile_stop [of m' d "length (read_field m s k)" n] assms(1,2) read_field_no_NUL by (simp add: takeWhile_eq_all_conv)
  show "NUL \<in> set (bytes_at m' d n)" using assms(1,2) by (rule ends_at [rotated])
qed

lemma strncpy_result:
  assumes "d \<noteq> 0" "0 < n"
  shows "read_field (snd (strncpy_s d n s k m)) d n = (if fst (strncpy_s d n s k m) = EOK then read_field m s k else []) \<and>
    NUL \<in> set (bytes_at (snd (strncpy_s d n s k m)) d n)"
proof -
  let ?len = "strncpy_s_loop m s k 0"
  have len: "?len = length (read_field m s k)" using strncpy_loop [of 0 k m s] by (simp add: read_field_def)
  have "read_field ((move_bytes d s ?len m)(d + ?len := NUL)) d n = read_field m s k \<and>
      NUL \<in> set (bytes_at ((move_bytes d s ?len m)(d + ?len := NUL)) d n)" if "?len < n"
    using that unfolding len by (intro conjI copied_string [where k = k]) (auto simp: move_bytes_def)
  then show ?thesis
    using assms by (auto simp: strncpy_s_def Let_def reset_field EOK_def EINVAL_AND_RESET_def ERANGE_AND_RESET_def not_le)
qed

lemma strlen_ends: "strlen m s = Some n \<Longrightarrow> m (s + n) = NUL \<and> length (read_field m s (Suc n)) = n"
proof (induction n arbitrary: s)
  case 0
  then show ?case using strlen.simps [of m s] by (auto simp: read_field_def bytes_at_def bind_eq_Some_conv split: if_splits)
next
  case (Suc n)
  then have "m s \<noteq> NUL" "strlen m (Suc s) = Some n"
    using strlen.simps [of m s] by (auto simp: bind_eq_Some_conv split: if_splits)
  with Suc.IH [of "Suc s"] show ?case by (simp add: read_field_def bytes_at_Suc [of m s "Suc n"])
qed

lemma strcpy_result:
  assumes "d \<noteq> 0" "0 < n" "strcpy_s d n s m = Some (r, m')"
  shows "NUL \<in> set (bytes_at m' d n) \<and>
    read_field m' d n = (if r = EOK then read_field m s (Suc (the (strlen m s))) else [])"
proof (cases "s = 0 \<or> n \<le> the (strlen m s)")
  case True
  with assms show ?thesis
    by (auto simp: strcpy_s_def reset_field EOK_def EINVAL_AND_RESET_def ERANGE_AND_RESET_def split: option.splits if_splits)
next
  case False
  with assms obtain len where len: "strlen m s = Some len" "len < n" "r = EOK" "m' = move_bytes d s (len + 1) m"
    by (auto simp: strcpy_s_def split: option.splits if_splits)
  from strlen_ends [OF len(1)] len show ?thesis
    using copied_string [of m' d m s "Suc len" n] by (auto simp: move_bytes_def)
qed

lemma bytes_at_put: "length xs \<le> n \<Longrightarrow> bytes_at (put_bytes d xs m) d n = xs @ bytes_at m (d + length xs) (n - length xs)"
  by (intro nth_equalityI) (auto simp: nth_append put_bytes_def)

lemma snprintf_result:
  assumes "d \<noteq> 0" "0 < n" "f \<noteq> 0" "snprintf_s d n k f text m = (r, m')"
  shows "NUL \<in> set (bytes_at m' d n) \<and>
    (if 0 \<le> r then text = Inr (take (nat r) (bytes_at m' d n)) \<and> nat r \<le> k \<and> nat r < n else r = - 1)"
proof (cases "text")
  case (Inl t)
  with assms show ?thesis by (auto simp: snprintf_s_def vsnprintf_def Let_def reset_field split: if_splits)
next
  case (Inr t)
  let ?limit = "if k < n then k + 1 else n" and ?m = "put_bytes d (take ((if k < n then k + 1 else n) - 1) t @ [NUL]) m"
  have fits: "bytes_at ?m d n = (take (?limit - 1) t @ [NUL]) @ bytes_at m (d + length (take (?limit - 1) t @ [NUL])) (n - length (take (?limit - 1) t @ [NUL]))"
    by (rule bytes_at_put) (use assms(2) in auto)
  from assms Inr have "(r, m') = (if ?limit \<le> length t then (- 1, if n \<le> k then ?m(d := NUL) else ?m) else (int (length t), ?m))"
    by (auto simp: snprintf_s_def vsnprintf_def Let_def split: if_splits)
  with fits Inr assms(2) show ?thesis by (auto simp: reset_field split: if_splits)
qed



text \<open>What stands in a field of 256 characters after 255 are cleared and some are copied in.\<close>

lemma field_filled:
  assumes "m (d + n) = NUL" "k \<le> n" "s + k \<le> d \<or> d + n < s"
  shows "read_field (move_bytes d s k (set_bytes d NUL n m)) d (Suc n) = takeWhile (\<lambda>c. c \<noteq> NUL) (bytes_at m s k)"
proof -
  let ?m = "set_bytes d NUL n m"
  have "?m (d + k) = NUL" using assms(1,2) by (auto simp: set_bytes_def le_less)
  then have "move_bytes d s k ?m (d + k) = NUL" by (simp add: move_bytes_def)
  moreover have "bytes_at (move_bytes d s k ?m) d k = bytes_at m s k"
    using assms(2,3) by (intro nth_equalityI) (auto simp: move_bytes_def set_bytes_def)
  ultimately show ?thesis using takeWhile_stop [of _ d k "Suc n"] assms(2) by simp
qed

lemma field_cleared: "read_field (set_bytes d NUL (Suc n) m) d (Suc n') = []"
  by (simp add: read_field_def bytes_at_def set_bytes_def upt_conv_Cons del: upt_Suc)

section \<open>The number fields of the interface\<close>

definition MEMSET_FAIL :: int where
  "MEMSET_FAIL = COMMON_ERR_OFFSET + 5"

text \<open>The end of both functions that pack a call for the stack; \<open>f\<close> is the array of the number in the structure.\<close>

definition pack_phoneNum :: "addr \<Rightarrow> addr \<Rightarrow> nat \<Rightarrow> memory \<Rightarrow> int \<times> memory" where
  "pack_phoneNum f s len m =
    (let (r, m) = memset_s f kMaxNumberLen 0 kMaxNumberLen m in
     if r \<noteq> EOK then (MEMSET_FAIL, m)
     else if kMaxNumberLen < len then (ErrCode_code CALL_ERR_NUMBER_OUT_OF_RANGE, m)
     else let (r, m) = memcpy_s f kMaxNumberLen s len m in
       if r \<noteq> EOK then (ErrCode_code TELEPHONY_ERR_MEMCPY_FAIL, m) else (ErrCode_code TELEPHONY_SUCCESS, m))"

text \<open>An array of the interface, as its initialiser leaves the last character, and a string that is elsewhere.\<close>

definition field_and_string :: "addr \<Rightarrow> addr \<Rightarrow> string \<Rightarrow> memory \<Rightarrow> bool" where
  "field_and_string f s xs m \<longleftrightarrow> 0 < f \<and> 0 < s \<and> m (f + kMaxNumberLen) = NUL \<and> bytes_at m s (length xs) = xs \<and>
     (s + length xs \<le> f \<or> f + kMaxNumberLen < s)"

lemma pack_phoneNum_run:
  assumes "field_and_string f s xs m"
  shows "pack_phoneNum f s (length xs) m =
    (if kMaxNumberLen < length xs then (ErrCode_code CALL_ERR_NUMBER_OUT_OF_RANGE, set_bytes f NUL kMaxNumberLen m)
     else (ErrCode_code TELEPHONY_SUCCESS, move_bytes f s (length xs) (set_bytes f NUL kMaxNumberLen m)))"
  using assms by (auto simp: pack_phoneNum_def field_and_string_def memset_s_def memcpy_s_def kMaxNumberLen_def EOK_def
    char_of_def)

text \<open>C18. The strings of the model are what the arrays of the interface hold. A number is packed for the stack as bytes the way
  the model packs it as a string: with the same answer, and a reader of the array finds the string the model has, up to a
  terminator inside it. A number copied out of a report of 256 bytes is read back as the model copies it.\<close>
theorem number_fields_hold_strings:
  assumes "field_and_string f s xs m"
  shows "(cb_accountNumber c = xs \<longrightarrow>
      (case pack_phoneNum f s (length xs) m of (r, m') \<Rightarrow>
        r = ErrCode_code (fst (CarrierCall_PackCellularCallInfo c)) \<and>
        read_field m' f (kMaxNumberLen + 1) = takeWhile (\<lambda>c. c \<noteq> NUL) (ci_phoneNum (snd (CarrierCall_PackCellularCallInfo c))))) \<and>
    (dp_number info = xs \<longrightarrow>
      (case pack_phoneNum f s (length xs) m of (r, m') \<Rightarrow>
        r = ErrCode_code (fst (Process_PackCellularCallInfo info)) \<and>
        read_field m' f (kMaxNumberLen + 1) = takeWhile (\<lambda>c. c \<noteq> NUL) (ci_phoneNum (snd (Process_PackCellularCallInfo info))))) \<and>
    (length xs = kMaxNumberLen + 1 \<longrightarrow>
      read_field (snd (memcpy_s f kMaxNumberLen s kMaxNumberLen m)) f (kMaxNumberLen + 1) = copied_number xs)"
proof -
  have m: "m (f + kMaxNumberLen) = NUL" and xs: "bytes_at m s (length xs) = xs" and ne: "f \<noteq> 0" "s \<noteq> 0"
    and apart: "s + length xs \<le> f \<or> f + kMaxNumberLen < s"
    using assms by (auto simp: field_and_string_def)
  have short: "read_field (move_bytes f s (length xs) (set_bytes f NUL kMaxNumberLen m)) f (Suc kMaxNumberLen) =
      takeWhile (\<lambda>c. c \<noteq> NUL) xs" if "\<not> kMaxNumberLen < length xs"
    using field_filled [of m f kMaxNumberLen "length xs" s] m apart that xs by simp
  have empty: "read_field (set_bytes f NUL kMaxNumberLen m) f (Suc kMaxNumberLen) = []"
    using field_cleared [of f 254 m 255] by (simp add: kMaxNumberLen_def)
  have "read_field (snd (memcpy_s f kMaxNumberLen s kMaxNumberLen m)) f (Suc kMaxNumberLen) = copied_number xs"
    if "length xs = Suc kMaxNumberLen"
  proof -
    have "memcpy_s f kMaxNumberLen s kMaxNumberLen m = (EOK, move_bytes f s kMaxNumberLen m)"
      using ne apart that by (auto simp: memcpy_s_def kMaxNumberLen_def)
    moreover have "move_bytes f s kMaxNumberLen m (f + kMaxNumberLen) = NUL" using m by (simp add: move_bytes_def)
    moreover have "bytes_at (move_bytes f s kMaxNumberLen m) f kMaxNumberLen = take kMaxNumberLen xs"
      using xs that by (subst (1) xs [symmetric], intro nth_equalityI) (auto simp: move_bytes_def)
    ultimately show ?thesis
      using takeWhile_stop [of _ f kMaxNumberLen "Suc kMaxNumberLen"] by (simp add: copied_number_def)
  qed
  with short empty show ?thesis
    by (auto simp: pack_phoneNum_run [OF assms] CarrierCall_PackCellularCallInfo_def Process_PackCellularCallInfo_def Let_def)
qed

theorem number_fields_hold_strings_witness:
  "ci_phoneNum (snd (CarrierCall_PackCellularCallInfo (CarrierCall_new CSCall (DialParaInfo_default\<lparr>dp_number := ''12''\<rparr>) CALL_DIRECTION_OUT CALL_NORMAL))) = ''12'' \<and>
   read_field (snd (pack_phoneNum 1000 1 2 ((\<lambda>_. NUL)(1 := CHR ''1'', 2 := CHR ''2'')))) 1000 256 = ''12''"
proof -
  let ?m = "(\<lambda>_. NUL)(1 := CHR ''1'', 2 := CHR ''2'') :: memory" and ?c = "CarrierCall_new CSCall (DialParaInfo_default\<lparr>dp_number := ''12''\<rparr>) CALL_DIRECTION_OUT CALL_NORMAL"
  have "field_and_string 1000 1 ''12'' ?m"
    by (simp add: field_and_string_def kMaxNumberLen_def bytes_at_def upt_conv_Cons)
  from conjunct1 [OF number_fields_hold_strings [OF this, of ?c DialParaInfo_default]] show ?thesis
    by (simp add: CarrierCall_PackCellularCallInfo_def CarrierCall_new_def kMaxNumberLen_def Let_def case_prod_beta
        numeral_2_eq_2)
qed

end
