(* ===== verification/Os_Objects.thy ===== *)
theory Os_Objects
  imports Os_Posix "HOL-Library.Signed_Division"
begin

text \<open>
  What the adapters make and give back: the objects of \<open>utils/mini/src/tel_os_adapter_posix.cpp\<close> (mutexes, semaphores, timers,
  tasks) and the mutexes and semaphores of \<open>utils/mini/src/tel_os_adapter_cmsis.cpp\<close>, with every way a creation can fail; and
  the arithmetic of time of the host. \<open>Os_Posix\<close>, \<open>Os_Cmsis\<close> and \<open>Os_Tasks\<close> hold what semaphores, timers and tasks do.
  A null handle is \<open>None\<close>; a Boolean argument says whether a call of the system succeeds.
\<close>

section \<open>What is held\<close>

text \<open>
  Objects are numbered in the order they are made. \<open>ko_blocks\<close>: memory taken with \<open>new\<close>; \<open>ko_locks\<close>, \<open>ko_conds\<close>: pthread mutexes
  and condition variables; \<open>ko_ids\<close>: objects of the CMSIS kernel; the next five what has been handed out: handles of each kind,
  start blocks not yet taken by their task, tasks whose entry has not returned; \<open>ko_owner\<close>: the task that holds a mutex.
\<close>

record kernel =
  ko_blocks :: "nat set"
  ko_locks :: "nat set"
  ko_conds :: "nat set"
  ko_ids :: "nat set"
  ko_mutexes :: "nat set"
  ko_sems :: "nat set"
  ko_timers :: "nat set"
  ko_starts :: "nat set"
  ko_tasks :: "nat set"
  ko_owner :: "nat \<Rightarrow> nat option"
  ko_mutexCount :: int
  ko_semCount :: int
  ko_timerCount :: int
  ko_taskCount :: int
  ko_next :: nat

definition kernel_init :: kernel where
  "kernel_init = \<lparr>ko_blocks = {}, ko_locks = {}, ko_conds = {}, ko_ids = {}, ko_mutexes = {}, ko_sems = {}, ko_timers = {},
     ko_starts = {}, ko_tasks = {}, ko_owner = (\<lambda>_. None), ko_mutexCount = 0, ko_semCount = 0, ko_timerCount = 0,
     ko_taskCount = 0, ko_next = 0\<rparr>"

definition new_block :: "kernel \<Rightarrow> kernel" where
  "new_block s = s\<lparr>ko_blocks := insert (ko_next s) (ko_blocks s), ko_next := Suc (ko_next s)\<rparr>"

definition delete_block :: "nat \<Rightarrow> kernel \<Rightarrow> kernel" where
  "delete_block n s = s\<lparr>ko_blocks := ko_blocks s - {n}\<rparr>"

record TelOsObjectCount =
  oc_mutexCount :: int
  oc_semaphoreCount :: int
  oc_timerCount :: int
  oc_taskCount :: int

definition TelOsGetObjectCount :: "kernel \<Rightarrow> TelOsObjectCount" where
  "TelOsGetObjectCount s = \<lparr>oc_mutexCount = ko_mutexCount s, oc_semaphoreCount = ko_semCount s,
     oc_timerCount = ko_timerCount s, oc_taskCount = ko_taskCount s\<rparr>"

section \<open>The adapter of the host\<close>

definition Posix_MutexCreate :: "bool \<Rightarrow> bool \<Rightarrow> bool \<Rightarrow> kernel \<Rightarrow> TelOsResult \<times> kernel" where
  "Posix_MutexCreate hasOut memory init s =
    (if \<not> hasOut then (OS_INVALID_PARAM, s)
     else if \<not> memory then (OS_NO_RESOURCE, s)
     else let obj = ko_next s; s = new_block s in
       if \<not> init then (OS_NO_RESOURCE, delete_block obj s)
       else (OS_OK, s\<lparr>ko_locks := insert obj (ko_locks s), ko_mutexCount := ko_mutexCount s + 1,
         ko_mutexes := insert obj (ko_mutexes s)\<rparr>))"

text \<open>The mutexes check for errors: no answer while another task holds one, \<open>FAIL\<close> when the caller does.\<close>

definition Posix_MutexLock :: "nat \<Rightarrow> nat option \<Rightarrow> kernel \<Rightarrow> (TelOsResult \<times> kernel) option" where
  "Posix_MutexLock me mutex s =
    (case mutex of
       None \<Rightarrow> Some (OS_INVALID_PARAM, s)
     | Some n \<Rightarrow>
         (case ko_owner s n of
            None \<Rightarrow> Some (OS_OK, s\<lparr>ko_owner := (ko_owner s)(n := Some me)\<rparr>)
          | Some t \<Rightarrow> if t = me then Some (OS_FAIL, s) else None))"

definition Posix_MutexUnlock :: "nat \<Rightarrow> nat option \<Rightarrow> kernel \<Rightarrow> TelOsResult \<times> kernel" where
  "Posix_MutexUnlock me mutex s =
    (case mutex of
       None \<Rightarrow> (OS_INVALID_PARAM, s)
     | Some n \<Rightarrow> if ko_owner s n = Some me then (OS_OK, s\<lparr>ko_owner := (ko_owner s)(n := None)\<rparr>) else (OS_FAIL, s))"

definition Posix_MutexDelete :: "nat option \<Rightarrow> kernel \<Rightarrow> TelOsResult \<times> kernel" where
  "Posix_MutexDelete mutex s =
    (case mutex of
       None \<Rightarrow> (OS_INVALID_PARAM, s)
     | Some n \<Rightarrow>
         if ko_owner s n \<noteq> None then (OS_FAIL, s)
         else let s = delete_block n (s\<lparr>ko_locks := ko_locks s - {n}\<rparr>) in
           (OS_OK, s\<lparr>ko_mutexCount := ko_mutexCount s - 1, ko_mutexes := ko_mutexes s - {n}\<rparr>))"

definition Posix_SemCreate ::
    "bool \<Rightarrow> nat \<Rightarrow> nat \<Rightarrow> bool \<Rightarrow> bool \<Rightarrow> bool \<Rightarrow> kernel \<Rightarrow> TelOsResult \<times> kernel" where
  "Posix_SemCreate hasOut initialCount maxCount memory lock cond s =
    (if \<not> hasOut \<or> maxCount = 0 \<or> maxCount < initialCount then (OS_INVALID_PARAM, s)
     else if \<not> memory then (OS_NO_RESOURCE, s)
     else let obj = ko_next s; s = new_block s in
       if \<not> lock then (OS_NO_RESOURCE, delete_block obj s)
       else let s = s\<lparr>ko_locks := insert obj (ko_locks s)\<rparr> in
         if \<not> cond then (OS_NO_RESOURCE, delete_block obj (s\<lparr>ko_locks := ko_locks s - {obj}\<rparr>))
         else (OS_OK, s\<lparr>ko_conds := insert obj (ko_conds s), ko_semCount := ko_semCount s + 1,
           ko_sems := insert obj (ko_sems s)\<rparr>))"

definition Posix_SemDelete :: "nat option \<Rightarrow> kernel \<Rightarrow> TelOsResult \<times> kernel" where
  "Posix_SemDelete sem s =
    (case sem of
       None \<Rightarrow> (OS_INVALID_PARAM, s)
     | Some n \<Rightarrow>
         let s = delete_block n (s\<lparr>ko_conds := ko_conds s - {n}, ko_locks := ko_locks s - {n}\<rparr>) in
         (OS_OK, s\<lparr>ko_semCount := ko_semCount s - 1, ko_sems := ko_sems s - {n}\<rparr>))"

text \<open>\<open>ready\<close>: the service thread was started, once for all. Deletion searches the list of timers for the pointer.\<close>

definition Posix_TimerCreate :: "bool \<Rightarrow> bool \<Rightarrow> bool \<Rightarrow> bool \<Rightarrow> kernel \<Rightarrow> TelOsResult \<times> kernel" where
  "Posix_TimerCreate hasCallback hasOut ready memory s =
    (if \<not> hasCallback \<or> \<not> hasOut then (OS_INVALID_PARAM, s)
     else if \<not> ready then (OS_NO_RESOURCE, s)
     else if \<not> memory then (OS_NO_RESOURCE, s)
     else let obj = ko_next s; s = new_block s in
       (OS_OK, s\<lparr>ko_timers := insert obj (ko_timers s), ko_timerCount := ko_timerCount s + 1\<rparr>))"

definition Posix_TimerDelete :: "bool \<Rightarrow> nat option \<Rightarrow> kernel \<Rightarrow> TelOsResult \<times> kernel" where
  "Posix_TimerDelete ownCallback timer s =
    (case timer of
       None \<Rightarrow> (OS_INVALID_PARAM, s)
     | Some n \<Rightarrow>
         if ownCallback then (OS_INVALID_PARAM, s)
         else if n \<notin> ko_timers s then (OS_INVALID_PARAM, s)
         else let s = delete_block n (s\<lparr>ko_timers := ko_timers s - {n}\<rparr>) in
           (OS_OK, s\<lparr>ko_timerCount := ko_timerCount s - 1\<rparr>))"

text \<open>A task is named by its start block, which it deletes before it runs its entry (\<open>TaskTrampoline\<close>).\<close>

definition Posix_TaskCreate :: "bool \<Rightarrow> bool \<Rightarrow> bool \<Rightarrow> bool \<Rightarrow> kernel \<Rightarrow> TelOsResult \<times> kernel" where
  "Posix_TaskCreate hasEntry hasName memory thread s =
    (if \<not> hasEntry \<or> \<not> hasName then (OS_INVALID_PARAM, s)
     else if \<not> memory then (OS_NO_RESOURCE, s)
     else let start = ko_next s; s = new_block s; s = s\<lparr>ko_taskCount := ko_taskCount s + 1\<rparr> in
       if \<not> thread then (OS_NO_RESOURCE, delete_block start (s\<lparr>ko_taskCount := ko_taskCount s - 1\<rparr>))
       else (OS_OK, s\<lparr>ko_starts := insert start (ko_starts s), ko_tasks := insert start (ko_tasks s)\<rparr>))"

definition TaskTrampoline_enter :: "nat \<Rightarrow> kernel \<Rightarrow> kernel" where
  "TaskTrampoline_enter start s = delete_block start (s\<lparr>ko_starts := ko_starts s - {start}\<rparr>)"

definition TaskTrampoline_leave :: "nat \<Rightarrow> kernel \<Rightarrow> kernel" where
  "TaskTrampoline_leave start s = s\<lparr>ko_taskCount := ko_taskCount s - 1, ko_tasks := ko_tasks s - {start}\<rparr>"

section \<open>The adapter of the target\<close>

definition Cmsis_MutexCreate :: "bool \<Rightarrow> bool \<Rightarrow> kernel \<Rightarrow> TelOsResult \<times> kernel" where
  "Cmsis_MutexCreate hasOut made s =
    (if \<not> hasOut then (OS_INVALID_PARAM, s)
     else if \<not> made then (OS_NO_RESOURCE, s)
     else let n = ko_next s in
       (OS_OK, s\<lparr>ko_ids := insert n (ko_ids s), ko_next := Suc n, ko_mutexCount := ko_mutexCount s + 1,
         ko_mutexes := insert n (ko_mutexes s)\<rparr>))"

definition Cmsis_MutexDelete :: "bool \<Rightarrow> nat option \<Rightarrow> kernel \<Rightarrow> TelOsResult \<times> kernel" where
  "Cmsis_MutexDelete deleted mutex s =
    (case mutex of
       None \<Rightarrow> (OS_INVALID_PARAM, s)
     | Some n \<Rightarrow>
         if \<not> deleted then (OS_FAIL, s)
         else (OS_OK, s\<lparr>ko_ids := ko_ids s - {n}, ko_mutexCount := ko_mutexCount s - 1, ko_mutexes := ko_mutexes s - {n}\<rparr>))"

definition Cmsis_SemMake :: "bool \<Rightarrow> nat \<Rightarrow> nat \<Rightarrow> bool \<Rightarrow> bool \<Rightarrow> kernel \<Rightarrow> TelOsResult \<times> kernel" where
  "Cmsis_SemMake hasOut initialCount maxCount memory made s =
    (if \<not> hasOut \<or> maxCount = 0 \<or> maxCount < initialCount then (OS_INVALID_PARAM, s)
     else if \<not> memory then (OS_NO_RESOURCE, s)
     else let obj = ko_next s; s = new_block s in
       if \<not> made then (OS_NO_RESOURCE, delete_block obj s)
       else (OS_OK, s\<lparr>ko_ids := insert obj (ko_ids s), ko_semCount := ko_semCount s + 1, ko_sems := insert obj (ko_sems s)\<rparr>))"

definition Cmsis_SemDelete :: "bool \<Rightarrow> nat option \<Rightarrow> kernel \<Rightarrow> TelOsResult \<times> kernel" where
  "Cmsis_SemDelete deleted sem s =
    (case sem of
       None \<Rightarrow> (OS_INVALID_PARAM, s)
     | Some n \<Rightarrow>
         if \<not> deleted then (OS_FAIL, s)
         else let s = delete_block n (s\<lparr>ko_ids := ko_ids s - {n}\<rparr>) in
           (OS_OK, s\<lparr>ko_semCount := ko_semCount s - 1, ko_sems := ko_sems s - {n}\<rparr>))"

section \<open>Runs\<close>

text \<open>
  The callers use handles that were given to them and not deleted yet; a timer is deleted with any pointer. Beyond that, any
  sequence of calls with any failures of the system, and tasks that start and end when they like.
\<close>

inductive posix_step :: "kernel \<Rightarrow> kernel \<Rightarrow> bool" where
  mutex_create: "posix_step s (snd (Posix_MutexCreate hasOut memory init s))"
| mutex_lock: "set_option h \<subseteq> ko_mutexes s \<Longrightarrow> Posix_MutexLock me h s = Some (r, s') \<Longrightarrow> posix_step s s'"
| mutex_unlock: "set_option h \<subseteq> ko_mutexes s \<Longrightarrow> posix_step s (snd (Posix_MutexUnlock me h s))"
| mutex_delete: "set_option h \<subseteq> ko_mutexes s \<Longrightarrow> posix_step s (snd (Posix_MutexDelete h s))"
| sem_create: "posix_step s (snd (Posix_SemCreate hasOut initialCount maxCount memory lock cond s))"
| sem_delete: "set_option h \<subseteq> ko_sems s \<Longrightarrow> posix_step s (snd (Posix_SemDelete h s))"
| timer_create: "posix_step s (snd (Posix_TimerCreate hasCallback hasOut ready memory s))"
| timer_delete: "posix_step s (snd (Posix_TimerDelete ownCallback h s))"
| task_create: "posix_step s (snd (Posix_TaskCreate hasEntry hasName memory thread s))"
| task_enters: "n \<in> ko_starts s \<Longrightarrow> posix_step s (TaskTrampoline_enter n s)"
| task_leaves: "n \<in> ko_tasks s - ko_starts s \<Longrightarrow> posix_step s (TaskTrampoline_leave n s)"

inductive cmsis_step :: "kernel \<Rightarrow> kernel \<Rightarrow> bool" where
  mutex_create: "cmsis_step s (snd (Cmsis_MutexCreate hasOut made s))"
| mutex_delete: "set_option h \<subseteq> ko_mutexes s \<Longrightarrow> cmsis_step s (snd (Cmsis_MutexDelete deleted h s))"
| sem_create: "cmsis_step s (snd (Cmsis_SemMake hasOut initialCount maxCount memory made s))"
| sem_delete: "set_option h \<subseteq> ko_sems s \<Longrightarrow> cmsis_step s (snd (Cmsis_SemDelete deleted h s))"

text \<open>What an adapter owes: its books are right at the start and stay right.\<close>

locale os_adapter =
  fixes step :: "kernel \<Rightarrow> kernel \<Rightarrow> bool"
    and balanced :: "kernel \<Rightarrow> bool"
  assumes starts_balanced: "balanced kernel_init"
    and stays_balanced: "balanced s \<Longrightarrow> step s s' \<Longrightarrow> balanced s'"
begin

lemma runs_balanced: "step\<^sup>*\<^sup>* kernel_init s \<Longrightarrow> balanced s"
  by (induction rule: rtranclp_induct) (auto intro: starts_balanced stays_balanced)

end

text \<open>Handles are different things, older than the next one, and handles_counted.\<close>

definition handles_counted :: "kernel \<Rightarrow> bool" where
  "handles_counted s \<longleftrightarrow> ko_mutexes s \<union> ko_sems s \<union> ko_timers s \<union> ko_tasks s \<subseteq> {..<ko_next s} \<and>
     ko_mutexes s \<inter> (ko_sems s \<union> ko_timers s \<union> ko_tasks s) = {} \<and> ko_sems s \<inter> (ko_timers s \<union> ko_tasks s) = {} \<and>
     ko_timers s \<inter> ko_tasks s = {} \<and> ko_mutexCount s = int (card (ko_mutexes s)) \<and> ko_semCount s = int (card (ko_sems s)) \<and>
     ko_timerCount s = int (card (ko_timers s)) \<and> ko_taskCount s = int (card (ko_tasks s))"

definition posix_balanced :: "kernel \<Rightarrow> bool" where
  "posix_balanced s \<longleftrightarrow> handles_counted s \<and> ko_starts s \<subseteq> ko_tasks s \<and>
     ko_blocks s = ko_mutexes s \<union> ko_sems s \<union> ko_timers s \<union> ko_starts s \<and>
     ko_locks s = ko_mutexes s \<union> ko_sems s \<and> ko_conds s = ko_sems s"

definition cmsis_balanced :: "kernel \<Rightarrow> bool" where
  "cmsis_balanced s \<longleftrightarrow> handles_counted s \<and> ko_blocks s = ko_sems s \<and> ko_ids s = ko_mutexes s \<union> ko_sems s"

lemma handles_finite:
  assumes "handles_counted s"
  shows "finite (ko_mutexes s)" "finite (ko_sems s)" "finite (ko_timers s)" "finite (ko_tasks s)"
  using assms finite_subset [of _ "{..<ko_next s}"] by (auto simp: handles_counted_def)

lemma card_new: "A \<subseteq> {..<n} \<Longrightarrow> card (insert n A) = Suc (card A)" for n :: nat
  by (subst card_insert_disjoint) (auto intro: finite_subset)

lemma card_gone: "finite A \<Longrightarrow> x \<in> A \<Longrightarrow> int (card (A - {x})) = int (card A) - 1"
  using card_Suc_Diff1 [of A x] by linarith

lemmas posix_defs = Posix_MutexCreate_def Posix_MutexLock_def Posix_MutexUnlock_def Posix_MutexDelete_def Posix_SemCreate_def
  Posix_SemDelete_def Posix_TimerCreate_def Posix_TimerDelete_def Posix_TaskCreate_def TaskTrampoline_enter_def
  TaskTrampoline_leave_def new_block_def delete_block_def Let_def

lemmas cmsis_defs = Cmsis_MutexCreate_def Cmsis_MutexDelete_def Cmsis_SemMake_def Cmsis_SemDelete_def new_block_def
  delete_block_def Let_def

lemma posix_keeps:
  assumes "posix_balanced s" "posix_step s s'"
  shows "posix_balanced s'"
proof -
  have fin: "finite (ko_mutexes s)" "finite (ko_sems s)" "finite (ko_timers s)" "finite (ko_tasks s)"
    using assms(1) handles_finite by (auto simp: posix_balanced_def)
  from assms(2,1) show ?thesis
  proof (cases rule: posix_step.cases)
    case (mutex_create hasOut memory init)
    then show ?thesis using assms(1)
      by (auto simp: posix_defs posix_balanced_def handles_counted_def card_new less_Suc_eq)
  next
    case (mutex_lock h me r)
    then show ?thesis using assms(1)
      by (auto simp: posix_defs posix_balanced_def handles_counted_def split: option.splits if_splits)
  next
    case (mutex_unlock h me)
    then show ?thesis using assms(1)
      by (auto simp: posix_defs posix_balanced_def handles_counted_def split: option.splits)
  next
    case (mutex_delete h)
    then show ?thesis using assms(1) fin
      by (auto simp: posix_defs posix_balanced_def handles_counted_def card_gone simp del: card_Diff_singleton card_Diff_insert split: option.splits)
  next
    case (sem_create hasOut initialCount maxCount memory lock cond)
    then show ?thesis using assms(1)
      by (auto simp: posix_defs posix_balanced_def handles_counted_def card_new less_Suc_eq)
  next
    case (sem_delete h)
    then show ?thesis using assms(1) fin
      by (auto simp: posix_defs posix_balanced_def handles_counted_def card_gone simp del: card_Diff_singleton card_Diff_insert split: option.splits)
  next
    case (timer_create hasCallback hasOut ready memory)
    then show ?thesis using assms(1)
      by (auto simp: posix_defs posix_balanced_def handles_counted_def card_new less_Suc_eq)
  next
    case (timer_delete ownCallback h)
    then show ?thesis using assms(1) fin
      by (auto simp: posix_defs posix_balanced_def handles_counted_def card_gone simp del: card_Diff_singleton card_Diff_insert split: option.splits)
  next
    case (task_create hasEntry hasName memory thread)
    then show ?thesis using assms(1)
      by (auto simp: posix_defs posix_balanced_def handles_counted_def card_new less_Suc_eq)
  next
    case (task_enters n)
    then show ?thesis using assms(1)
      by (auto simp: posix_defs posix_balanced_def handles_counted_def)
  next
    case (task_leaves n)
    then show ?thesis using assms(1) fin
      by (auto simp: posix_defs posix_balanced_def handles_counted_def card_gone simp del: card_Diff_singleton card_Diff_insert)
  qed
qed

interpretation posix: os_adapter posix_step posix_balanced
  by unfold_locales (simp add: kernel_init_def posix_balanced_def handles_counted_def, rule posix_keeps)

lemma cmsis_keeps:
  assumes "cmsis_balanced s" "cmsis_step s s'"
  shows "cmsis_balanced s'"
proof -
  have fin: "finite (ko_mutexes s)" "finite (ko_sems s)"
    using assms(1) handles_finite by (auto simp: cmsis_balanced_def)
  from assms(2,1) show ?thesis
    by (cases rule: cmsis_step.cases)
      (use fin in \<open>auto simp: cmsis_defs cmsis_balanced_def handles_counted_def card_new card_gone less_Suc_eq simp del: card_Diff_singleton card_Diff_insert split: option.splits\<close>)
qed

interpretation cmsis: os_adapter cmsis_step cmsis_balanced
  by unfold_locales (simp add: kernel_init_def cmsis_balanced_def handles_counted_def, rule cmsis_keeps)



section \<open>Time on the host\<close>

text \<open>A time is a number of nanoseconds; \<open>clock_gettime\<close> gives seconds and the rest.\<close>

definition MonotonicNs :: "int \<times> int \<Rightarrow> int" where
  "MonotonicNs now = fst now * NS_PER_SECOND + snd now"

definition ToTimespec :: "int \<Rightarrow> int \<times> int" where
  "ToTimespec ns = (ns sdiv NS_PER_SECOND, ns smod NS_PER_SECOND)"

definition Posix_GetTickFreq :: nat where
  "Posix_GetTickFreq = POSIX_TICK_PER_SECOND"

definition Posix_GetTickCount :: "int \<times> int \<Rightarrow> 32 word" where
  "Posix_GetTickCount now = word_of_int (MonotonicNs now sdiv (NS_PER_SECOND sdiv int POSIX_TICK_PER_SECOND))"

text \<open>Until when a task sleeps; none when the call returns at once.\<close>

definition Posix_TaskDelayMs :: "32 word \<Rightarrow> int \<times> int \<Rightarrow> (int \<times> int) option" where
  "Posix_TaskDelayMs delayMs now =
    (if delayMs = 0 \<or> delayMs = TEL_OS_WAIT_FOREVER then None
     else Some (ToTimespec (MonotonicNs now + TicksToNs (TelOsMsToTicks POSIX_TICK_PER_SECOND delayMs))))"

lemma sdiv_nonneg: "0 \<le> a \<Longrightarrow> 0 < b \<Longrightarrow> a sdiv b = a div b" "0 \<le> a \<Longrightarrow> 0 < b \<Longrightarrow> a smod b = a mod b" for a b :: int
  by (simp_all add: signed_divide_int_def signed_modulo_int_def sgn_if minus_div_mult_eq_mod)

lemma TicksToNs_eq: "TicksToNs k = uint k * 10000000"
  by (simp add: TicksToNs_def NS_PER_SECOND_def POSIX_TICK_PER_SECOND_def)

text \<open>Timespecs are normalised, and read back what they were made of.\<close>

lemma timespec_round_trip:
  assumes "0 \<le> ns"
  shows "MonotonicNs (ToTimespec ns) = ns" "0 \<le> snd (ToTimespec ns)" "snd (ToTimespec ns) < NS_PER_SECOND"
  using assms by (simp_all add: MonotonicNs_def ToTimespec_def sdiv_nonneg NS_PER_SECOND_def)

lemma delay_in_ticks:
  assumes "d \<noteq> TEL_OS_WAIT_FOREVER"
  shows "uint d * 1000000 \<le> TicksToNs (TelOsMsToTicks POSIX_TICK_PER_SECOND d)"
    "TicksToNs (TelOsMsToTicks POSIX_TICK_PER_SECOND d) < uint d * 1000000 + 10000000"
proof -
  have "unat d < 2 ^ 32" using unsigned_less [of d] by simp
  then have t: "unat (TelOsMsToTicks POSIX_TICK_PER_SECOND d) = (unat d * 100 + 999) div 1000"
    using MsToTicks_finite [of d 100] assms
    by (simp add: POSIX_TICK_PER_SECOND_def TEL_OS_MAX_FINITE_TICKS_def TEL_OS_WAIT_FOREVER_def)
  have "int (unat (TelOsMsToTicks POSIX_TICK_PER_SECOND d)) = (int (unat d) * 100 + 999) div 1000"
    unfolding t by (simp add: zdiv_int)
  then have "uint (TelOsMsToTicks POSIX_TICK_PER_SECOND d) = (uint d * 100 + 999) div 1000" by simp
  moreover have "x * 1000000 \<le> (x * 100 + 999) div 1000 * 10000000 \<and>
      (x * 100 + 999) div 1000 * 10000000 < x * 1000000 + 10000000" for x :: int
    using div_mult_mod_eq [of "x * 100 + 999" 1000] pos_mod_bound [of 1000 "x * 100 + 999"]
      pos_mod_sign [of 1000 "x * 100 + 999"] by linarith
  ultimately show "uint d * 1000000 \<le> TicksToNs (TelOsMsToTicks POSIX_TICK_PER_SECOND d)"
    "TicksToNs (TelOsMsToTicks POSIX_TICK_PER_SECOND d) < uint d * 1000000 + 10000000"
    by (simp_all only: TicksToNs_eq)
qed

text \<open>C40. Time on the host. A deadline as \<open>timespec\<close> is normalised and means the time it was made of; \<open>k\<close> ticks after any time
  the tick count is \<open>k\<close> more, also where it wraps; and a task that delays for \<open>d\<close> milliseconds wakes no earlier, and less than
  one tick later.\<close>
theorem host_time:
  assumes "0 \<le> fst now" and "0 \<le> snd now" and "snd now < NS_PER_SECOND"
  shows "ToTimespec (MonotonicNs now) = now \<and>
    (let later = ToTimespec (MonotonicNs now + TicksToNs k) in
      0 \<le> snd later \<and> snd later < NS_PER_SECOND \<and> MonotonicNs later = MonotonicNs now + TicksToNs k \<and>
      Posix_GetTickCount later = Posix_GetTickCount now + k) \<and>
    (case Posix_TaskDelayMs d now of
       None \<Rightarrow> d = 0 \<or> d = TEL_OS_WAIT_FOREVER
     | Some wake \<Rightarrow> MonotonicNs now + uint d * 1000000 \<le> MonotonicNs wake \<and>
         MonotonicNs wake < MonotonicNs now + uint d * 1000000 + 10000000)"
proof -
  have nonneg: "0 \<le> MonotonicNs now" using assms by (simp add: MonotonicNs_def NS_PER_SECOND_def)
  have ticks: "0 \<le> TicksToNs j" for j by (simp add: TicksToNs_eq)
  have "ToTimespec (MonotonicNs now) = now"
    using assms nonneg by (simp add: ToTimespec_def MonotonicNs_def sdiv_nonneg NS_PER_SECOND_def prod_eq_iff)
  moreover have count: "Posix_GetTickCount t = word_of_int (MonotonicNs t div 10000000)" if "0 \<le> MonotonicNs t" for t
    using that by (simp add: Posix_GetTickCount_def sdiv_nonneg NS_PER_SECOND_def POSIX_TICK_PER_SECOND_def)
  have "Posix_GetTickCount (ToTimespec (MonotonicNs now + TicksToNs k)) = Posix_GetTickCount now + k"
    using nonneg ticks [of k] timespec_round_trip(1) [of "MonotonicNs now + TicksToNs k"]
    by (simp add: count TicksToNs_eq div_mult_self1)
  moreover have "case Posix_TaskDelayMs d now of
       None \<Rightarrow> d = 0 \<or> d = TEL_OS_WAIT_FOREVER
     | Some wake \<Rightarrow> MonotonicNs now + uint d * 1000000 \<le> MonotonicNs wake \<and>
         MonotonicNs wake < MonotonicNs now + uint d * 1000000 + 10000000"
    using nonneg ticks delay_in_ticks [of d] by (simp add: Posix_TaskDelayMs_def timespec_round_trip)
  ultimately show ?thesis
    using nonneg ticks [of k] timespec_round_trip [of "MonotonicNs now + TicksToNs k"] by (simp add: Let_def)
qed

theorem host_time_witness:
  "ToTimespec (MonotonicNs (42949672, 959999999)) = (42949672, 959999999) \<and>
   Posix_GetTickCount (42949672, 959999999) = - 1 \<and> Posix_GetTickCount (ToTimespec (MonotonicNs (42949672, 959999999) + TicksToNs 1)) = 0"
proof -
  have "0 \<le> fst (42949672 :: int, 959999999 :: int)" "0 \<le> snd (42949672 :: int, 959999999 :: int)"
    "snd (42949672 :: int, 959999999) < NS_PER_SECOND"
    by (simp_all add: NS_PER_SECOND_def)
  moreover have "Posix_GetTickCount (42949672, 959999999) = - 1"
    by (simp add: Posix_GetTickCount_def MonotonicNs_def sdiv_nonneg NS_PER_SECOND_def POSIX_TICK_PER_SECOND_def)
  ultimately show ?thesis using host_time [of "(42949672, 959999999)" 1 0] by (simp add: Let_def)
qed

end
