(* ===== verification/Disconnect_Reasons.thy ===== *)
theory Disconnect_Reasons
  imports Call_Status
begin

text \<open>
  Why a call ended, \<open>interfaces/innerkits/call_manager_disconnected_details.h\<close>: the reasons the application knows and those the
  stack reports. The status machine works with their numbers. The constructors have a prefix, \<open>DR\<close> or \<open>RIL\<close>.
\<close>

section \<open>The enumerations\<close>

datatype (plugins only: size) DisconnectedReason =
    DR_UNASSIGNED_NUMBER
  | DR_NO_ROUTE_TO_DESTINATION
  | DR_CHANNEL_UNACCEPTABLE
  | DR_OPERATOR_DETERMINED_BARRING
  | DR_CALL_COMPLETED_ELSEWHERE
  | DR_NORMAL_CALL_CLEARING
  | DR_USER_BUSY
  | DR_NO_USER_RESPONDING
  | DR_USER_ALERTING_NO_ANSWER
  | DR_CALL_REJECTED
  | DR_NUMBER_CHANGED
  | DR_CALL_REJECTED_DUE_TO_FEATURE_AT_THE_DESTINATION
  | DR_FAILED_PRE_EMPTION
  | DR_NON_SELECTED_USER_CLEARING
  | DR_DESTINATION_OUT_OF_ORDER
  | DR_INVALID_NUMBER_FORMAT
  | DR_FACILITY_REJECTED
  | DR_RESPONSE_TO_STATUS_ENQUIRY
  | DR_NORMAL_UNSPECIFIED
  | DR_NO_CIRCUIT_CHANNEL_AVAILABLE
  | DR_NETWORK_OUT_OF_ORDER
  | DR_TEMPORARY_FAILURE
  | DR_SWITCHING_EQUIPMENT_CONGESTION
  | DR_ACCESS_INFORMATION_DISCARDED
  | DR_REQUEST_CIRCUIT_CHANNEL_NOT_AVAILABLE
  | DR_RESOURCES_UNAVAILABLE_UNSPECIFIED
  | DR_QUALITY_OF_SERVICE_UNAVAILABLE
  | DR_REQUESTED_FACILITY_NOT_SUBSCRIBED
  | DR_INCOMING_CALLS_BARRED_WITHIN_THE_CUG
  | DR_BEARER_CAPABILITY_NOT_AUTHORIZED
  | DR_BEARER_CAPABILITY_NOT_PRESENTLY_AVAILABLE
  | DR_SERVICE_OR_OPTION_NOT_AVAILABLE_UNSPECIFIED
  | DR_BEARER_SERVICE_NOT_IMPLEMENTED
  | DR_ACM_EQUALTO_OR_GREATE_THAN_ACMMAX
  | DR_REQUESTED_FACILITY_NOT_IMPLEMENTED
  | DR_ONLY_RESTRICTED_DIGITAL_INFO_BEARER_CAPABILITY_IS_AVAILABLE
  | DR_SERVICE_OR_OPTION_NOT_IMPLEMENTED_UNSPECIFIED
  | DR_INVALID_TRANSACTION_IDENTIFIER_VALUE
  | DR_USER_NOT_MEMBER_OF_CUG
  | DR_INCOMPATIBLE_DESTINATION
  | DR_INVALID_TRANSIT_NETWORK_SELECTION
  | DR_SEMANTICALLY_INCORRECT_MESSAGE
  | DR_INVALID_MANDATORY_INFORMATION
  | DR_MESSAGE_TYPE_NON_EXISTENT_OR_NOT_IMPLEMENTED
  | DR_MESSAGE_TYPE_NOT_COMPATIBLE_WITH_PROTOCOL_STATE
  | DR_INFORMATION_ELEMENT_NON_EXISTENT_OR_NOT_IMPLEMENTED
  | DR_CONDITIONAL_IE_ERROR
  | DR_MESSAGE_NOT_COMPATIBLE_WITH_PROTOCOL_STATE
  | DR_RECOVERY_ON_TIMER_EXPIRED
  | DR_PROTOCOL_ERROR_UNSPECIFIED
  | DR_INTERWORKING_UNSPECIFIED
  | DR_CALL_BARRED
  | DR_FDN_BLOCKED
  | DR_IMSI_UNKNOWN_IN_VLR
  | DR_IMEI_NOT_ACCEPTED
  | DR_DIAL_MODIFIED_TO_USSD
  | DR_DIAL_MODIFIED_TO_SS
  | DR_DIAL_MODIFIED_TO_DIAL
  | DR_RADIO_OFF
  | DR_OUT_OF_SERVICE
  | DR_NO_VALID_SIM
  | DR_RADIO_INTERNAL_ERROR
  | DR_NETWORK_RESP_TIMEOUT
  | DR_NETWORK_REJECT
  | DR_RADIO_ACCESS_FAILURE
  | DR_RADIO_LINK_FAILURE
  | DR_RADIO_LINK_LOST
  | DR_RADIO_UPLINK_FAILURE
  | DR_RADIO_SETUP_FAILURE
  | DR_RADIO_RELEASE_NORMAL
  | DR_RADIO_RELEASE_ABNORMAL
  | DR_ACCESS_CLASS_BLOCKED
  | DR_NETWORK_DETACH
  | DR_INVALID_PARAMETER
  | DR_SIM_NOT_EXIT
  | DR_SIM_PIN_NEED
  | DR_CALL_NOT_ALLOW
  | DR_SIM_INVALID
  | DR_FAILED_UNKNOWN

primrec DisconnectedReason_code :: "DisconnectedReason \<Rightarrow> int" where
  "DisconnectedReason_code DR_UNASSIGNED_NUMBER = 1"
| "DisconnectedReason_code DR_NO_ROUTE_TO_DESTINATION = 3"
| "DisconnectedReason_code DR_CHANNEL_UNACCEPTABLE = 6"
| "DisconnectedReason_code DR_OPERATOR_DETERMINED_BARRING = 8"
| "DisconnectedReason_code DR_CALL_COMPLETED_ELSEWHERE = 13"
| "DisconnectedReason_code DR_NORMAL_CALL_CLEARING = 16"
| "DisconnectedReason_code DR_USER_BUSY = 17"
| "DisconnectedReason_code DR_NO_USER_RESPONDING = 18"
| "DisconnectedReason_code DR_USER_ALERTING_NO_ANSWER = 19"
| "DisconnectedReason_code DR_CALL_REJECTED = 21"
| "DisconnectedReason_code DR_NUMBER_CHANGED = 22"
| "DisconnectedReason_code DR_CALL_REJECTED_DUE_TO_FEATURE_AT_THE_DESTINATION = 24"
| "DisconnectedReason_code DR_FAILED_PRE_EMPTION = 25"
| "DisconnectedReason_code DR_NON_SELECTED_USER_CLEARING = 26"
| "DisconnectedReason_code DR_DESTINATION_OUT_OF_ORDER = 27"
| "DisconnectedReason_code DR_INVALID_NUMBER_FORMAT = 28"
| "DisconnectedReason_code DR_FACILITY_REJECTED = 29"
| "DisconnectedReason_code DR_RESPONSE_TO_STATUS_ENQUIRY = 30"
| "DisconnectedReason_code DR_NORMAL_UNSPECIFIED = 31"
| "DisconnectedReason_code DR_NO_CIRCUIT_CHANNEL_AVAILABLE = 34"
| "DisconnectedReason_code DR_NETWORK_OUT_OF_ORDER = 38"
| "DisconnectedReason_code DR_TEMPORARY_FAILURE = 41"
| "DisconnectedReason_code DR_SWITCHING_EQUIPMENT_CONGESTION = 42"
| "DisconnectedReason_code DR_ACCESS_INFORMATION_DISCARDED = 43"
| "DisconnectedReason_code DR_REQUEST_CIRCUIT_CHANNEL_NOT_AVAILABLE = 44"
| "DisconnectedReason_code DR_RESOURCES_UNAVAILABLE_UNSPECIFIED = 47"
| "DisconnectedReason_code DR_QUALITY_OF_SERVICE_UNAVAILABLE = 49"
| "DisconnectedReason_code DR_REQUESTED_FACILITY_NOT_SUBSCRIBED = 50"
| "DisconnectedReason_code DR_INCOMING_CALLS_BARRED_WITHIN_THE_CUG = 55"
| "DisconnectedReason_code DR_BEARER_CAPABILITY_NOT_AUTHORIZED = 57"
| "DisconnectedReason_code DR_BEARER_CAPABILITY_NOT_PRESENTLY_AVAILABLE = 58"
| "DisconnectedReason_code DR_SERVICE_OR_OPTION_NOT_AVAILABLE_UNSPECIFIED = 63"
| "DisconnectedReason_code DR_BEARER_SERVICE_NOT_IMPLEMENTED = 65"
| "DisconnectedReason_code DR_ACM_EQUALTO_OR_GREATE_THAN_ACMMAX = 68"
| "DisconnectedReason_code DR_REQUESTED_FACILITY_NOT_IMPLEMENTED = 69"
| "DisconnectedReason_code DR_ONLY_RESTRICTED_DIGITAL_INFO_BEARER_CAPABILITY_IS_AVAILABLE = 70"
| "DisconnectedReason_code DR_SERVICE_OR_OPTION_NOT_IMPLEMENTED_UNSPECIFIED = 79"
| "DisconnectedReason_code DR_INVALID_TRANSACTION_IDENTIFIER_VALUE = 81"
| "DisconnectedReason_code DR_USER_NOT_MEMBER_OF_CUG = 87"
| "DisconnectedReason_code DR_INCOMPATIBLE_DESTINATION = 88"
| "DisconnectedReason_code DR_INVALID_TRANSIT_NETWORK_SELECTION = 91"
| "DisconnectedReason_code DR_SEMANTICALLY_INCORRECT_MESSAGE = 95"
| "DisconnectedReason_code DR_INVALID_MANDATORY_INFORMATION = 96"
| "DisconnectedReason_code DR_MESSAGE_TYPE_NON_EXISTENT_OR_NOT_IMPLEMENTED = 97"
| "DisconnectedReason_code DR_MESSAGE_TYPE_NOT_COMPATIBLE_WITH_PROTOCOL_STATE = 98"
| "DisconnectedReason_code DR_INFORMATION_ELEMENT_NON_EXISTENT_OR_NOT_IMPLEMENTED = 99"
| "DisconnectedReason_code DR_CONDITIONAL_IE_ERROR = 100"
| "DisconnectedReason_code DR_MESSAGE_NOT_COMPATIBLE_WITH_PROTOCOL_STATE = 101"
| "DisconnectedReason_code DR_RECOVERY_ON_TIMER_EXPIRED = 102"
| "DisconnectedReason_code DR_PROTOCOL_ERROR_UNSPECIFIED = 111"
| "DisconnectedReason_code DR_INTERWORKING_UNSPECIFIED = 127"
| "DisconnectedReason_code DR_CALL_BARRED = 240"
| "DisconnectedReason_code DR_FDN_BLOCKED = 241"
| "DisconnectedReason_code DR_IMSI_UNKNOWN_IN_VLR = 242"
| "DisconnectedReason_code DR_IMEI_NOT_ACCEPTED = 243"
| "DisconnectedReason_code DR_DIAL_MODIFIED_TO_USSD = 244"
| "DisconnectedReason_code DR_DIAL_MODIFIED_TO_SS = 245"
| "DisconnectedReason_code DR_DIAL_MODIFIED_TO_DIAL = 246"
| "DisconnectedReason_code DR_RADIO_OFF = 247"
| "DisconnectedReason_code DR_OUT_OF_SERVICE = 248"
| "DisconnectedReason_code DR_NO_VALID_SIM = 249"
| "DisconnectedReason_code DR_RADIO_INTERNAL_ERROR = 250"
| "DisconnectedReason_code DR_NETWORK_RESP_TIMEOUT = 251"
| "DisconnectedReason_code DR_NETWORK_REJECT = 252"
| "DisconnectedReason_code DR_RADIO_ACCESS_FAILURE = 253"
| "DisconnectedReason_code DR_RADIO_LINK_FAILURE = 254"
| "DisconnectedReason_code DR_RADIO_LINK_LOST = 255"
| "DisconnectedReason_code DR_RADIO_UPLINK_FAILURE = 256"
| "DisconnectedReason_code DR_RADIO_SETUP_FAILURE = 257"
| "DisconnectedReason_code DR_RADIO_RELEASE_NORMAL = 258"
| "DisconnectedReason_code DR_RADIO_RELEASE_ABNORMAL = 259"
| "DisconnectedReason_code DR_ACCESS_CLASS_BLOCKED = 260"
| "DisconnectedReason_code DR_NETWORK_DETACH = 261"
| "DisconnectedReason_code DR_INVALID_PARAMETER = 1025"
| "DisconnectedReason_code DR_SIM_NOT_EXIT = 1026"
| "DisconnectedReason_code DR_SIM_PIN_NEED = 1027"
| "DisconnectedReason_code DR_CALL_NOT_ALLOW = 1029"
| "DisconnectedReason_code DR_SIM_INVALID = 1045"
| "DisconnectedReason_code DR_FAILED_UNKNOWN = 1279"

definition all_reasons :: "DisconnectedReason list" where
  "all_reasons =
    [DR_UNASSIGNED_NUMBER, DR_NO_ROUTE_TO_DESTINATION, DR_CHANNEL_UNACCEPTABLE, DR_OPERATOR_DETERMINED_BARRING,
     DR_CALL_COMPLETED_ELSEWHERE, DR_NORMAL_CALL_CLEARING, DR_USER_BUSY, DR_NO_USER_RESPONDING,
     DR_USER_ALERTING_NO_ANSWER, DR_CALL_REJECTED, DR_NUMBER_CHANGED,
     DR_CALL_REJECTED_DUE_TO_FEATURE_AT_THE_DESTINATION, DR_FAILED_PRE_EMPTION, DR_NON_SELECTED_USER_CLEARING,
     DR_DESTINATION_OUT_OF_ORDER, DR_INVALID_NUMBER_FORMAT, DR_FACILITY_REJECTED, DR_RESPONSE_TO_STATUS_ENQUIRY,
     DR_NORMAL_UNSPECIFIED, DR_NO_CIRCUIT_CHANNEL_AVAILABLE, DR_NETWORK_OUT_OF_ORDER, DR_TEMPORARY_FAILURE,
     DR_SWITCHING_EQUIPMENT_CONGESTION, DR_ACCESS_INFORMATION_DISCARDED, DR_REQUEST_CIRCUIT_CHANNEL_NOT_AVAILABLE,
     DR_RESOURCES_UNAVAILABLE_UNSPECIFIED, DR_QUALITY_OF_SERVICE_UNAVAILABLE, DR_REQUESTED_FACILITY_NOT_SUBSCRIBED,
     DR_INCOMING_CALLS_BARRED_WITHIN_THE_CUG, DR_BEARER_CAPABILITY_NOT_AUTHORIZED,
     DR_BEARER_CAPABILITY_NOT_PRESENTLY_AVAILABLE, DR_SERVICE_OR_OPTION_NOT_AVAILABLE_UNSPECIFIED,
     DR_BEARER_SERVICE_NOT_IMPLEMENTED, DR_ACM_EQUALTO_OR_GREATE_THAN_ACMMAX, DR_REQUESTED_FACILITY_NOT_IMPLEMENTED,
     DR_ONLY_RESTRICTED_DIGITAL_INFO_BEARER_CAPABILITY_IS_AVAILABLE,
     DR_SERVICE_OR_OPTION_NOT_IMPLEMENTED_UNSPECIFIED, DR_INVALID_TRANSACTION_IDENTIFIER_VALUE,
     DR_USER_NOT_MEMBER_OF_CUG, DR_INCOMPATIBLE_DESTINATION, DR_INVALID_TRANSIT_NETWORK_SELECTION,
     DR_SEMANTICALLY_INCORRECT_MESSAGE, DR_INVALID_MANDATORY_INFORMATION,
     DR_MESSAGE_TYPE_NON_EXISTENT_OR_NOT_IMPLEMENTED, DR_MESSAGE_TYPE_NOT_COMPATIBLE_WITH_PROTOCOL_STATE,
     DR_INFORMATION_ELEMENT_NON_EXISTENT_OR_NOT_IMPLEMENTED, DR_CONDITIONAL_IE_ERROR,
     DR_MESSAGE_NOT_COMPATIBLE_WITH_PROTOCOL_STATE, DR_RECOVERY_ON_TIMER_EXPIRED, DR_PROTOCOL_ERROR_UNSPECIFIED,
     DR_INTERWORKING_UNSPECIFIED, DR_CALL_BARRED, DR_FDN_BLOCKED, DR_IMSI_UNKNOWN_IN_VLR, DR_IMEI_NOT_ACCEPTED,
     DR_DIAL_MODIFIED_TO_USSD, DR_DIAL_MODIFIED_TO_SS, DR_DIAL_MODIFIED_TO_DIAL, DR_RADIO_OFF, DR_OUT_OF_SERVICE,
     DR_NO_VALID_SIM, DR_RADIO_INTERNAL_ERROR, DR_NETWORK_RESP_TIMEOUT, DR_NETWORK_REJECT, DR_RADIO_ACCESS_FAILURE,
     DR_RADIO_LINK_FAILURE, DR_RADIO_LINK_LOST, DR_RADIO_UPLINK_FAILURE, DR_RADIO_SETUP_FAILURE,
     DR_RADIO_RELEASE_NORMAL, DR_RADIO_RELEASE_ABNORMAL, DR_ACCESS_CLASS_BLOCKED, DR_NETWORK_DETACH,
     DR_INVALID_PARAMETER, DR_SIM_NOT_EXIT, DR_SIM_PIN_NEED, DR_CALL_NOT_ALLOW, DR_SIM_INVALID, DR_FAILED_UNKNOWN]"

datatype RilDisconnectedReason =
    RIL_DISCONNECTED_REASON_INVALID
  | RIL_DISCONNECTED_REASON_NORMAL
  | RIL_DISCONNECTED_REASON_CS_CALL_ANSWERED_ELSEWHER
  | RIL_DISCONNECTED_REASON_USER_DECLINE
  | RIL_DISCONNECTED_REASON_USER_TERMINATED
  | RIL_DISCONNECTED_REASON_ANSWERED_ELSEWHER

fun RilDisconnectedReason_code :: "RilDisconnectedReason \<Rightarrow> int" where
  "RilDisconnectedReason_code RIL_DISCONNECTED_REASON_INVALID = - 1"
| "RilDisconnectedReason_code RIL_DISCONNECTED_REASON_NORMAL = 0"
| "RilDisconnectedReason_code RIL_DISCONNECTED_REASON_CS_CALL_ANSWERED_ELSEWHER = 13"
| "RilDisconnectedReason_code RIL_DISCONNECTED_REASON_USER_DECLINE = 143"
| "RilDisconnectedReason_code RIL_DISCONNECTED_REASON_USER_TERMINATED = 501"
| "RilDisconnectedReason_code RIL_DISCONNECTED_REASON_ANSWERED_ELSEWHER = 18632"

text \<open>The reason of a number, none when the enumeration does not have it.\<close>

definition DisconnectedReason_of :: "int \<Rightarrow> DisconnectedReason option" where
  "DisconnectedReason_of n = List.find (\<lambda>r. DisconnectedReason_code r = n) all_reasons"

section \<open>What the application is told\<close>

definition told_reason :: "RilDisconnectedReason \<Rightarrow> int" where
  "told_reason q = (if q = RIL_DISCONNECTED_REASON_NORMAL then DisconnectedReason_code DR_NORMAL_CALL_CLEARING
     else RilDisconnectedReason_code q)"

lemma reason_of_code: "DisconnectedReason_of (DisconnectedReason_code r) = Some r"
  by (cases r) (simp_all add: DisconnectedReason_of_def all_reasons_def)

lemma unknown_reason: "DisconnectedReason_of n = None \<longleftrightarrow> (\<forall>r. DisconnectedReason_code r \<noteq> n)"
proof
  assume "DisconnectedReason_of n = None"
  with reason_of_code show "\<forall>r. DisconnectedReason_code r \<noteq> n" by (metis option.distinct(1))
next
  assume "\<forall>r. DisconnectedReason_code r \<noteq> n"
  then show "DisconnectedReason_of n = None" by (simp add: DisconnectedReason_of_def find_None_iff)
qed

lemma known_numbers: "DisconnectedReason_of n \<noteq> None \<longleftrightarrow> n \<in> DisconnectedReason_code ` set all_reasons"
  by (auto simp: DisconnectedReason_of_def find_None_iff)

text \<open>Every reason is told from every other by its number. A cause that the stack reports reaches the observers under its
  number, except for the normal end of a call, which is told as the normal clearing of the application's enumeration. So four
  of the six reasons of the stack reach the application as a number that its enumeration does not have.\<close>
theorem reasons_told:
  "DisconnectedReason_of (DisconnectedReason_code r) = Some r \<and>
   UpdateDisconnectedCause (d\<lparr>dd_reason := RilDisconnectedReason_code q\<rparr>) =
     whenStatus (HandleDisconnectedCause (d\<lparr>dd_reason := told_reason q\<rparr>)) \<and>
   (DisconnectedReason_of (told_reason q) = None \<longleftrightarrow>
     q \<in> {RIL_DISCONNECTED_REASON_INVALID, RIL_DISCONNECTED_REASON_USER_DECLINE, RIL_DISCONNECTED_REASON_USER_TERMINATED,
       RIL_DISCONNECTED_REASON_ANSWERED_ELSEWHER})"
proof -
  have "DisconnectedReason_of (told_reason q) = None \<longleftrightarrow> told_reason q \<notin> DisconnectedReason_code ` set all_reasons"
    using known_numbers by blast
  then have "DisconnectedReason_of (told_reason q) = None \<longleftrightarrow>
     q \<in> {RIL_DISCONNECTED_REASON_INVALID, RIL_DISCONNECTED_REASON_USER_DECLINE, RIL_DISCONNECTED_REASON_USER_TERMINATED,
       RIL_DISCONNECTED_REASON_ANSWERED_ELSEWHER}"
    by (cases q) (simp_all add: told_reason_def all_reasons_def)
  then show ?thesis
    by (cases q) (simp_all add: reason_of_code UpdateDisconnectedCause_def told_reason_def DISCONNECTED_REASON_NORMAL_def
      NORMAL_CALL_CLEARING_def)
qed

end
